(* ===== verification/Prelude.thy ===== *)
theory Prelude
  imports Main
begin

text \<open>
  Vocabulary shared by every component: identifiers and time stamps, the Python values the
  source relies on (truthiness of optional strings, \<open>or\<close> chains, truncating conversion to
  \<open>int\<close>), byte strings with the two operations the source applies to them (\<open>lower\<close> and the
  \<open>in\<close> substring test), error results as sums, and a few generic lemmas on lists.

  Time stamps are the naive UTC \<open>datetime\<close> values of the source, counted in microseconds, the
  resolution of Python. Text is a byte string in UTF-8, so a Chinese literal of the source is
  the list of its bytes; substring search on UTF-8 bytes and on code points agree.
\<close>

named_theorems table_simps \<open>what the table operations do to the rows\<close>
named_theorems preserves \<open>an operation keeps an invariant\<close>
named_theorems frame \<open>an operation leaves a part of the state alone\<close>

type_synonym ident = int
type_synonym datetime = int

section \<open>Time\<close>

definition timedelta_seconds :: "int \<Rightarrow> datetime" where
  "timedelta_seconds n = n * 1000000"

definition timedelta_days :: "int \<Rightarrow> datetime" where
  "timedelta_days n = n * 86400000000"

text \<open>Python's \<open>int(x)\<close> of a quotient: division that truncates towards zero.\<close>

definition int_trunc_div :: "int \<Rightarrow> int \<Rightarrow> int" where
  "int_trunc_div a b = sgn a * sgn b * (\<bar>a\<bar> div \<bar>b\<bar>)"

text \<open>\<open>int((finished - started).total_seconds() * 1000)\<close>, the duration the repositories store.\<close>

definition duration_ms :: "datetime \<Rightarrow> datetime \<Rightarrow> int" where
  "duration_ms started finished = int_trunc_div (finished - started) 1000"

lemma timedelta_seconds_mono [simp]: "timedelta_seconds a \<le> timedelta_seconds b \<longleftrightarrow> a \<le> b"
  by (simp add: timedelta_seconds_def)

lemma timedelta_seconds_less [simp]: "timedelta_seconds a < timedelta_seconds b \<longleftrightarrow> a < b"
  by (simp add: timedelta_seconds_def)

lemma timedelta_seconds_nonneg [simp]: "0 \<le> timedelta_seconds n \<longleftrightarrow> 0 \<le> n"
  by (simp add: timedelta_seconds_def)

lemma duration_ms_nonneg: "s \<le> f \<Longrightarrow> 0 \<le> duration_ms s f"
  by (cases "s = f") (auto simp: duration_ms_def int_trunc_div_def sgn_if pos_imp_zdiv_nonneg_iff)

section \<open>Optional strings\<close>

definition truthy :: "string option \<Rightarrow> bool" where
  "truthy x = (case x of None \<Rightarrow> False | Some s \<Rightarrow> s \<noteq> [])"

definition py_or :: "string option \<Rightarrow> string option \<Rightarrow> string option" where
  "py_or x y = (if truthy x then x else y)"

definition or_text :: "string option \<Rightarrow> string \<Rightarrow> string" where
  "or_text x d = (case x of None \<Rightarrow> d | Some s \<Rightarrow> if s = [] then d else s)"

lemma truthy_simps [simp]: "\<not> truthy None" "truthy (Some s) \<longleftrightarrow> s \<noteq> []"
  by (simp_all add: truthy_def)

lemma or_text_simps [simp]: "or_text None d = d" "or_text (Some []) d = d"
  "s \<noteq> [] \<Longrightarrow> or_text (Some s) d = s"
  by (simp_all add: or_text_def)

section \<open>Byte strings\<close>

definition lower_char :: "char \<Rightarrow> char" where
  "lower_char c = (let n = (of_char c :: nat) in if 65 \<le> n \<and> n \<le> 90 then char_of (n + 32) else c)"

definition lower :: "string \<Rightarrow> string" where
  "lower s = map lower_char s"

definition upper_char :: "char \<Rightarrow> char" where
  "upper_char c = (let n = (of_char c :: nat) in if 97 \<le> n \<and> n \<le> 122 then char_of (n - 32) else c)"

definition upper :: "string \<Rightarrow> string" where
  "upper s = map upper_char s"

text \<open>\<open>len(s)\<close>: the bytes that do not continue a code point.\<close>

definition code_points :: "string \<Rightarrow> int" where
  "code_points s = int (length (filter (\<lambda>c. let n = (of_char c :: nat) in n < 128 \<or> n \<ge> 192) s))"

text \<open>\<open>Field(max_length=n)\<close> of an optional text.\<close>

definition max_length :: "int \<Rightarrow> string option \<Rightarrow> bool" where
  "max_length n x = (case x of None \<Rightarrow> True | Some s \<Rightarrow> code_points s \<le> n)"

lemma max_length_simps [simp]: "max_length n None" "max_length n (Some s) \<longleftrightarrow> code_points s \<le> n"
  by (simp_all add: max_length_def)

fun has_prefix :: "string \<Rightarrow> string \<Rightarrow> bool" where
  "has_prefix [] s = True"
| "has_prefix (c # cs) [] = False"
| "has_prefix (c # cs) (d # ds) = (c = d \<and> has_prefix cs ds)"

text \<open>The source's \<open>pat in text\<close>.\<close>

fun contains :: "string \<Rightarrow> string \<Rightarrow> bool" where
  "contains pat [] = has_prefix pat []"
| "contains pat (c # cs) = (has_prefix pat (c # cs) \<or> contains pat cs)"

lemma has_prefix_append: "has_prefix p s \<longleftrightarrow> (\<exists>r. s = p @ r)"
  by (induction p s rule: has_prefix.induct) auto

lemma contains_iff: "contains p s \<longleftrightarrow> (\<exists>l r. s = l @ p @ r)"
proof (induction p s rule: contains.induct)
  case (1 pat)
  then show ?case by (auto simp: has_prefix_append)
next
  case (2 pat c cs)
  show ?case
  proof
    assume "contains pat (c # cs)"
    then consider "has_prefix pat (c # cs)" | "contains pat cs" by auto
    then show "\<exists>l r. c # cs = l @ pat @ r"
    proof cases
      case 1
      then obtain r where "c # cs = [] @ pat @ r" by (auto simp: has_prefix_append)
      then show ?thesis by blast
    next
      case 2
      then obtain l r where "cs = l @ pat @ r" using "2.IH" by blast
      then have "c # cs = (c # l) @ pat @ r" by simp
      then show ?thesis by blast
    qed
  next
    assume "\<exists>l r. c # cs = l @ pat @ r"
    then obtain l r where lr: "c # cs = l @ pat @ r" by blast
    show "contains pat (c # cs)"
    proof (cases l)
      case Nil
      with lr have "has_prefix pat (c # cs)" by (auto simp: has_prefix_append)
      then show ?thesis by simp
    next
      case (Cons d l')
      with lr have "cs = l' @ pat @ r" by simp
      with "2.IH" show ?thesis by auto
    qed
  qed
qed

section \<open>Error results\<close>

definition bindE :: "'e + 'a \<Rightarrow> ('a \<Rightarrow> 'e + 'b) \<Rightarrow> 'e + 'b" where
  "bindE x f = (case x of Inl e \<Rightarrow> Inl e | Inr a \<Rightarrow> f a)"

lemma bindE_simps [simp]: "bindE (Inl e) f = Inl e" "bindE (Inr a) f = f a"
  by (simp_all add: bindE_def)

lemma bindE_eq_Inr: "bindE x f = Inr b \<longleftrightarrow> (\<exists>a. x = Inr a \<and> f a = Inr b)"
  by (cases x) auto

lemma bindE_eq_Inl: "bindE x f = Inl e \<longleftrightarrow> x = Inl e \<or> (\<exists>a. x = Inr a \<and> f a = Inl e)"
  by (cases x) auto

text \<open>A Python loop over a list whose body may raise: the first error stops it.\<close>

fun foldE :: "('a \<Rightarrow> 's \<Rightarrow> 'e + 's) \<Rightarrow> 'a list \<Rightarrow> 's \<Rightarrow> 'e + 's" where
  "foldE f [] s = Inr s"
| "foldE f (x # xs) s = bindE (f x s) (foldE f xs)"

lemma foldE_map: "foldE f (map g xs) s = foldE (\<lambda>x. f (g x)) xs s"
  by (induction xs arbitrary: s) (auto simp: bindE_def split: sum.splits)

lemma foldE_invariant:
  assumes "\<And>x s s'. x \<in> set xs \<Longrightarrow> P s \<Longrightarrow> f x s = Inr s' \<Longrightarrow> P s'"
    and "P s" and "foldE f xs s = Inr s'"
  shows "P s'"
  using assms
proof (induction xs arbitrary: s)
  case Nil
  then show ?case by simp
next
  case (Cons x xs)
  then obtain u where u: "f x s = Inr u" "foldE f xs u = Inr s'"
    by (auto simp: bindE_eq_Inr)
  from Cons.prems(1) [of x s u] Cons.prems(2) u(1) have "P u" by simp
  show ?case
    by (rule Cons.IH [OF _ \<open>P u\<close> u(2)]) (rule Cons.prems(1), simp_all)
qed

lemma foldE_total:
  assumes "\<And>x s. x \<in> set xs \<Longrightarrow> P s \<Longrightarrow> \<exists>s'. f x s = Inr s' \<and> P s'" and "P s"
  shows "\<exists>s'. foldE f xs s = Inr s' \<and> P s'"
  using assms
proof (induction xs arbitrary: s)
  case Nil
  then show ?case by simp
next
  case (Cons x xs)
  then obtain u where u: "f x s = Inr u" "P u" by (meson list.set_intros(1))
  with Cons.IH [of u] Cons.prems(1) show ?case by auto
qed

text \<open>
  A loop over objects with distinct keys whose body for one object keeps what it relies on about
  the others (\<open>Q\<close>): no iteration fails, and \<open>P\<close> holds at the end.
\<close>

lemma foldE_distinct:
  assumes "distinct (map key xs)"
    and step: "\<And>x s. x \<in> set xs \<Longrightarrow> P s \<Longrightarrow> Q x s \<Longrightarrow>
      \<exists>s'. f x s = Inr s' \<and> P s' \<and> (\<forall>y \<in> set xs. key y \<noteq> key x \<longrightarrow> Q y s \<longrightarrow> Q y s')"
    and "P s" and "\<forall>x \<in> set xs. Q x s"
  shows "\<exists>s'. foldE f xs s = Inr s' \<and> P s'"
  using assms
proof (induction xs arbitrary: s)
  case Nil
  then show ?case by simp
next
  case (Cons x xs)
  from Cons.prems(2) [of x s] Cons.prems(3,4) obtain u where
    u: "f x s = Inr u" "P u" "\<forall>y \<in> set (x # xs). key y \<noteq> key x \<longrightarrow> Q y s \<longrightarrow> Q y u"
    by (meson list.set_intros(1))
  have rest: "\<forall>y \<in> set xs. Q y u"
    using u(3) Cons.prems(1,4) by (metis image_eqI list.map(2) list.set_intros(2) set_map distinct.simps(2))
  have "\<exists>s'. foldE f xs u = Inr s' \<and> P s'"
  proof (rule Cons.IH [OF _ _ u(2) rest])
    show "distinct (map key xs)" using Cons.prems(1) by simp
    fix y t assume "y \<in> set xs" "P t" "Q y t"
    with Cons.prems(2) [of y t] show
      "\<exists>s'. f y t = Inr s' \<and> P s' \<and> (\<forall>z \<in> set xs. key z \<noteq> key y \<longrightarrow> Q z t \<longrightarrow> Q z s')"
      by (meson list.set_intros(2))
  qed
  with u(1) show ?case by simp
qed

lemma fold_distinct:
  assumes "distinct (map key xs)"
    and step: "\<And>x s. x \<in> set xs \<Longrightarrow> P s \<Longrightarrow> Q x s \<Longrightarrow>
      P (f x s) \<and> (\<forall>y \<in> set xs. key y \<noteq> key x \<longrightarrow> Q y s \<longrightarrow> Q y (f x s))"
    and "P s" and "\<forall>x \<in> set xs. Q x s"
  shows "P (fold f xs s)"
proof -
  have "foldE (\<lambda>x s. Inr (f x s)) xs s = (Inr (fold f xs s) :: unit + _)"
    by (induction xs arbitrary: s) simp_all
  moreover have "\<exists>s'. foldE (\<lambda>x s. Inr (f x s)) xs s = (Inr s' :: unit + _) \<and> P s'"
    by (rule foldE_distinct [where key = key and P = P and Q = Q]) (use assms in simp_all)
  ultimately show ?thesis by simp
qed

section \<open>Lists\<close>

lemma foldl_invariant:
  assumes "\<And>x s. x \<in> set xs \<Longrightarrow> P s \<Longrightarrow> P (f s x)" and "P s"
  shows "P (foldl f s xs)"
  using assms by (induction xs arbitrary: s) auto

lemma fold_invariant':
  assumes "\<And>x s. x \<in> set xs \<Longrightarrow> P s \<Longrightarrow> P (f x s)" and "P s"
  shows "P (fold f xs s)"
  using assms by (induction xs arbitrary: s) auto

lemma find_distinct_eq:
  assumes "distinct (map f xs)" and "x \<in> set xs"
  shows "List.find (\<lambda>y. f y = f x) xs = Some x"
  using assms by (induction xs) (auto simp: image_iff)

lemma distinct_map_filter_mono:
  assumes "distinct (map f (filter P xs))" and "\<And>x. x \<in> set xs \<Longrightarrow> Q x \<Longrightarrow> P x"
  shows "distinct (map f (filter Q xs))"
  using assms by (induction xs) (auto split: if_splits)

lemma find_append_None: "List.find P xs = None \<Longrightarrow> List.find P (xs @ ys) = List.find P ys"
  by (induction xs) (auto split: if_splits)

lemma find_append_other: "\<not> P y \<Longrightarrow> List.find P (xs @ [y]) = List.find P xs"
  by (induction xs) auto

lemma find_Some_in: "List.find P xs = Some x \<Longrightarrow> x \<in> set xs \<and> P x"
  by (auto simp: find_Some_iff)

text \<open>Iterating over \<open>set(xs)\<close>: every element once, in an order nothing depends on.\<close>

definition py_set :: "'a list \<Rightarrow> 'a list" where
  "py_set xs = remdups xs"

lemma set_py_set [simp]: "set (py_set xs) = set xs"
  by (simp add: py_set_def)

lemma distinct_py_set [simp]: "distinct (py_set xs)"
  by (simp add: py_set_def)

end
