(* ===== verification/Errors.thy ===== *)
theory Errors
  imports Prelude
begin

text \<open>
  The exceptions of the backend (\<open>backend/app/exceptions\<close>): the business error codes, the
  \<open>AppException\<close> that carries one with its HTTP status, and the exceptions of Python and of
  the database layer that the source lets escape. The text of a message is not kept; its code
  and its HTTP status are. \<open>error_response\<close> is the table of the global handlers.
\<close>

datatype ErrorCode =
    OK | BAD_REQUEST | INVALID_TIMESTAMP | TASK_ACTION_INVALID
  | UNAUTHORIZED | INVALID_CREDENTIALS | ACCOUNT_DISABLED | AGENT_UNAUTHORIZED
  | AGENT_SIGNATURE_INVALID | AGENT_REQUEST_REPLAYED | AGENT_SIGNATURE_MISSING
  | AGENT_TIMESTAMP_INVALID | FORBIDDEN | SERVICE_NOT_WHITELISTED
  | NOT_FOUND | USER_NOT_FOUND | ROLE_NOT_FOUND | SERVER_NOT_FOUND | RULE_NOT_FOUND
  | ALERT_EVENT_NOT_FOUND | TASK_NOT_FOUND | TASK_EXECUTION_NOT_FOUND
  | SERVER_SERVICE_NOT_FOUND | CONFLICT | USERNAME_EXISTS | EMAIL_EXISTS
  | SERVER_CODE_EXISTS | SERVER_IP_EXISTS | RULE_NAME_EXISTS | INTERNAL_ERROR

fun error_number :: "ErrorCode \<Rightarrow> int" where
  "error_number OK = 0"
| "error_number BAD_REQUEST = 40000"
| "error_number INVALID_TIMESTAMP = 40001"
| "error_number TASK_ACTION_INVALID = 40002"
| "error_number UNAUTHORIZED = 40100"
| "error_number INVALID_CREDENTIALS = 40101"
| "error_number ACCOUNT_DISABLED = 40102"
| "error_number AGENT_UNAUTHORIZED = 40103"
| "error_number AGENT_SIGNATURE_INVALID = 40104"
| "error_number AGENT_REQUEST_REPLAYED = 40105"
| "error_number AGENT_SIGNATURE_MISSING = 40106"
| "error_number AGENT_TIMESTAMP_INVALID = 40107"
| "error_number FORBIDDEN = 40300"
| "error_number SERVICE_NOT_WHITELISTED = 40301"
| "error_number NOT_FOUND = 40400"
| "error_number USER_NOT_FOUND = 40401"
| "error_number ROLE_NOT_FOUND = 40402"
| "error_number SERVER_NOT_FOUND = 40403"
| "error_number RULE_NOT_FOUND = 40404"
| "error_number ALERT_EVENT_NOT_FOUND = 40405"
| "error_number TASK_NOT_FOUND = 40406"
| "error_number TASK_EXECUTION_NOT_FOUND = 40407"
| "error_number SERVER_SERVICE_NOT_FOUND = 40408"
| "error_number CONFLICT = 40900"
| "error_number USERNAME_EXISTS = 40901"
| "error_number EMAIL_EXISTS = 40902"
| "error_number SERVER_CODE_EXISTS = 40903"
| "error_number SERVER_IP_EXISTS = 40904"
| "error_number RULE_NAME_EXISTS = 40905"
| "error_number INTERNAL_ERROR = 50000"

text \<open>
  \<open>AppException code http_status\<close>; \<open>IntegrityError\<close> and \<open>OperationalError\<close> are the two
  \<open>SQLAlchemyError\<close> the model can reach; \<open>HTTPException\<close> is the framework's own.
\<close>

datatype py_error =
    AppException ErrorCode int
  | RequestValidationError
  | HTTPException int
  | IntegrityError
  | OperationalError
  | KeyError
  | ValueError

definition http_status_to_code :: "int \<Rightarrow> ErrorCode" where
  "http_status_to_code st =
     (if st = 400 then BAD_REQUEST
      else if st = 401 then UNAUTHORIZED
      else if st = 403 then FORBIDDEN
      else if st = 404 then NOT_FOUND
      else if st = 409 then CONFLICT
      else if st = 500 then INTERNAL_ERROR
      else BAD_REQUEST)"

text \<open>The HTTP status and the business code of the response to an escaped exception.\<close>

fun error_response :: "py_error \<Rightarrow> int \<times> ErrorCode" where
  "error_response (AppException c st) = (st, c)"
| "error_response RequestValidationError = (400, BAD_REQUEST)"
| "error_response (HTTPException st) = (st, http_status_to_code st)"
| "error_response IntegrityError = (500, INTERNAL_ERROR)"
| "error_response OperationalError = (500, INTERNAL_ERROR)"
| "error_response KeyError = (500, INTERNAL_ERROR)"
| "error_response ValueError = (500, INTERNAL_ERROR)"

type_synonym 'a result = "py_error + 'a"

lemma inj_error_number: "error_number c = error_number d \<Longrightarrow> c = d"
  by (cases c; cases d) simp_all

end
