(* ===== verification/Base_Repository.thy ===== *)
theory Base_Repository
  imports Errors
begin

text \<open>
  The generic repository (\<open>backend/app/repositories/base.py\<close>) over tables.

  A table is the list of its rows in primary-key order with the next value of its
  \<open>AUTO_INCREMENT\<close> key. A mapped object of the session is the row with its key, so an
  assignment to an attribute is an update of that row. \<open>'r model\<close> is what the repository reads
  of the ORM class it is bound to: the primary key, and the column \<open>deleted_at\<close> where the class
  has one. Queries without \<open>ORDER BY\<close> return the rows in key order.

  The locale \<open>entity\<close> is the contract between the repository and a model class; the theory
  \<open>Models\<close> interprets it for the classes the services use.
\<close>

section \<open>Tables\<close>

record 'r table =
  rows :: "'r list"
  next_id :: ident

definition empty_table :: "'r table" where
  "empty_table = \<lparr>rows = [], next_id = 1\<rparr>"

text \<open>\<open>INSERT\<close>: the key is assigned by the database, the rest of the row by the caller.\<close>

definition tbl_insert :: "(ident \<Rightarrow> 'r) \<Rightarrow> 'r table \<Rightarrow> 'r table" where
  "tbl_insert mk t = t\<lparr>rows := rows t @ [mk (next_id t)], next_id := next_id t + 1\<rparr>"

definition tbl_modify :: "('r \<Rightarrow> bool) \<Rightarrow> ('r \<Rightarrow> 'r) \<Rightarrow> 'r table \<Rightarrow> 'r table" where
  "tbl_modify P f t = t\<lparr>rows := map (\<lambda>r. if P r then f r else r) (rows t)\<rparr>"

definition tbl_delete :: "('r \<Rightarrow> bool) \<Rightarrow> 'r table \<Rightarrow> 'r table" where
  "tbl_delete P t = t\<lparr>rows := filter (\<lambda>r. \<not> P r) (rows t)\<rparr>"

definition tbl_wf :: "('r \<Rightarrow> ident) \<Rightarrow> 'r table \<Rightarrow> bool" where
  "tbl_wf key t \<longleftrightarrow> distinct (map key (rows t)) \<and> (\<forall>r \<in> set (rows t). key r < next_id t)"

lemma rows_tbl_insert [simp, table_simps]: "rows (tbl_insert mk t) = rows t @ [mk (next_id t)]"
  by (simp add: tbl_insert_def)

lemma next_id_tbl_insert [simp, table_simps]: "next_id (tbl_insert mk t) = next_id t + 1"
  by (simp add: tbl_insert_def)

lemma rows_tbl_modify [simp, table_simps]:
  "rows (tbl_modify P f t) = map (\<lambda>r. if P r then f r else r) (rows t)"
  by (simp add: tbl_modify_def)

lemma next_id_tbl_modify [simp, table_simps]: "next_id (tbl_modify P f t) = next_id t"
  by (simp add: tbl_modify_def)

lemma rows_tbl_delete [simp, table_simps]: "rows (tbl_delete P t) = filter (\<lambda>r. \<not> P r) (rows t)"
  by (simp add: tbl_delete_def)

lemma next_id_tbl_delete [simp, table_simps]: "next_id (tbl_delete P t) = next_id t"
  by (simp add: tbl_delete_def)

lemma tbl_wf_empty [simp]: "tbl_wf key empty_table"
  by (simp add: tbl_wf_def empty_table_def)

lemma tbl_wf_insert [preserves]:
  assumes "tbl_wf key t" and "key (mk (next_id t)) = next_id t"
  shows "tbl_wf key (tbl_insert mk t)"
  using assms by (fastforce simp: tbl_wf_def)

lemma tbl_wf_modify [preserves]:
  assumes "tbl_wf key t" and "\<And>r. key (f r) = key r"
  shows "tbl_wf key (tbl_modify P f t)"
proof -
  have "(\<lambda>r. key (if P r then f r else r)) = key"
    by (rule ext) (simp add: assms(2))
  with assms show ?thesis
    by (auto simp: tbl_wf_def comp_def if_distrib)
qed

lemma tbl_wf_delete [preserves]: "tbl_wf key t \<Longrightarrow> tbl_wf key (tbl_delete P t)"
  by (auto simp: tbl_wf_def distinct_map_filter)

lemma tbl_wf_inj: "tbl_wf key t \<Longrightarrow> r \<in> set (rows t) \<Longrightarrow> q \<in> set (rows t) \<Longrightarrow> key r = key q \<Longrightarrow> r = q"
  by (auto simp: tbl_wf_def distinct_map dest: inj_onD)

section \<open>The operations of BaseRepository\<close>

record 'r model =
  m_id :: "'r \<Rightarrow> ident"
  m_deleted_at :: "('r \<Rightarrow> datetime option) option"
  m_set_deleted_at :: "datetime option \<Rightarrow> 'r \<Rightarrow> 'r"

definition has_soft_delete :: "'r model \<Rightarrow> bool" where
  "has_soft_delete m = (m_deleted_at m \<noteq> None)"

text \<open>\<open>_apply_soft_delete\<close>: the extra condition \<open>deleted_at IS NULL\<close>.\<close>

definition apply_soft_delete :: "'r model \<Rightarrow> ('r \<Rightarrow> bool) \<Rightarrow> 'r \<Rightarrow> bool" where
  "apply_soft_delete m P r =
     (case m_deleted_at m of None \<Rightarrow> P r | Some d \<Rightarrow> P r \<and> d r = None)"

definition repo_get :: "'r model \<Rightarrow> 'r table \<Rightarrow> ident \<Rightarrow> 'r option" where
  "repo_get m t entity_id = List.find (apply_soft_delete m (\<lambda>r. m_id m r = entity_id)) (rows t)"

definition repo_get_by :: "'r model \<Rightarrow> 'r table \<Rightarrow> ('r \<Rightarrow> bool) \<Rightarrow> 'r option" where
  "repo_get_by m t filters = List.find (apply_soft_delete m filters) (rows t)"

definition repo_list_all :: "'r model \<Rightarrow> 'r table \<Rightarrow> ('r \<Rightarrow> bool) \<Rightarrow> 'r list" where
  "repo_list_all m t filters = filter (apply_soft_delete m filters) (rows t)"

text \<open>
  \<open>list\<close>: a negative \<open>OFFSET\<close> or \<open>LIMIT\<close> is an SQL error. The source orders by \<open>-id\<close> or not
  at all.
\<close>

datatype order_by = Unordered | IdAsc | IdDesc

definition order_rows :: "'r model \<Rightarrow> order_by \<Rightarrow> 'r list \<Rightarrow> 'r list" where
  "order_rows m ob rs =
     (case ob of Unordered \<Rightarrow> rs
      | IdAsc \<Rightarrow> sort_key (m_id m) rs
      | IdDesc \<Rightarrow> rev (sort_key (m_id m) rs))"

definition paginate :: "int \<Rightarrow> int \<Rightarrow> 'a list \<Rightarrow> 'a list result" where
  "paginate page page_size xs =
     (if (page - 1) * page_size < 0 \<or> page_size < 0 then Inl OperationalError
      else Inr (take (nat page_size) (drop (nat ((page - 1) * page_size)) xs)))"

definition repo_list ::
  "'r model \<Rightarrow> 'r table \<Rightarrow> int \<Rightarrow> int \<Rightarrow> order_by \<Rightarrow> ('r \<Rightarrow> bool) \<Rightarrow> (int \<times> 'r list) result" where
  "repo_list m t page page_size ob filters =
     (let base = repo_list_all m t filters;
          total = int (length base)
      in bindE (paginate page page_size (order_rows m ob base)) (\<lambda>items. Inr (total, items)))"

definition repo_create :: "(ident \<Rightarrow> 'r) \<Rightarrow> 'r table \<Rightarrow> 'r table" where
  "repo_create instance t = tbl_insert instance t"

definition repo_create_many :: "(ident \<Rightarrow> 'r) list \<Rightarrow> 'r table \<Rightarrow> 'r table" where
  "repo_create_many instances t = fold tbl_insert instances t"

definition repo_update :: "'r model \<Rightarrow> ident \<Rightarrow> ('r \<Rightarrow> 'r) \<Rightarrow> 'r table \<Rightarrow> 'r table" where
  "repo_update m entity_id values t = tbl_modify (\<lambda>r. m_id m r = entity_id) values t"

definition repo_delete :: "'r model \<Rightarrow> ident \<Rightarrow> 'r table \<Rightarrow> 'r table" where
  "repo_delete m entity_id t = tbl_delete (\<lambda>r. m_id m r = entity_id) t"

definition repo_soft_delete :: "'r model \<Rightarrow> datetime \<Rightarrow> ident \<Rightarrow> 'r table \<Rightarrow> 'r table result" where
  "repo_soft_delete m now entity_id t =
     (if \<not> has_soft_delete m then Inl ValueError
      else Inr (repo_update m entity_id (m_set_deleted_at m (Some now)) t))"

definition repo_count :: "'r model \<Rightarrow> 'r table \<Rightarrow> ('r \<Rightarrow> bool) \<Rightarrow> int" where
  "repo_count m t filters = int (length (filter (apply_soft_delete m filters) (rows t)))"

lemmas repo_defs = repo_get_def repo_get_by_def repo_list_all_def repo_create_def
  repo_create_many_def repo_update_def repo_delete_def repo_count_def

lemma apply_soft_delete_None [simp]: "m_deleted_at m = None \<Longrightarrow> apply_soft_delete m P = P"
  by (rule ext) (simp add: apply_soft_delete_def)

lemma repo_get_in: "repo_get m t k = Some r \<Longrightarrow> r \<in> set (rows t) \<and> m_id m r = k"
  by (auto simp: repo_get_def apply_soft_delete_def dest!: find_Some_in split: option.splits)

lemma repo_get_by_in: "repo_get_by m t P = Some r \<Longrightarrow> r \<in> set (rows t) \<and> P r"
  by (auto simp: repo_get_by_def apply_soft_delete_def dest!: find_Some_in split: option.splits)

lemma repo_get_None_iff:
  "repo_get m t k = None \<longleftrightarrow> (\<forall>r \<in> set (rows t). \<not> apply_soft_delete m (\<lambda>r. m_id m r = k) r)"
  by (auto simp: repo_get_def find_None_iff)

lemma repo_list_all_set:
  "r \<in> set (repo_list_all m t P) \<longleftrightarrow> r \<in> set (rows t) \<and> apply_soft_delete m P r"
  by (auto simp: repo_list_all_def)

lemma find_modify:
  assumes "\<And>r. key (f r) = key r"
  shows "List.find (\<lambda>r. key r = j) (map (\<lambda>r. if key r = k then f r else r) rs) =
    (if j = k then map_option f (List.find (\<lambda>r. key r = j) rs) else List.find (\<lambda>r. key r = j) rs)"
  using assms by (induction rs) auto

lemma repo_get_update:
  assumes "m_deleted_at m = None" and "\<And>r. m_id m (f r) = m_id m r"
  shows "repo_get m (repo_update m k f t) j =
    (if j = k then map_option f (repo_get m t j) else repo_get m t j)"
  using assms(1) find_modify [of "m_id m" f, OF assms(2)] by (simp add: repo_get_def repo_update_def)

text \<open>The rows a batch insertion adds: consecutive keys in the order of the list.\<close>

fun assign_ids :: "(ident \<Rightarrow> 'r) list \<Rightarrow> ident \<Rightarrow> 'r list" where
  "assign_ids [] n = []"
| "assign_ids (mk # mks) n = mk n # assign_ids mks (n + 1)"

lemma rows_repo_create_many: "rows (repo_create_many mks t) = rows t @ assign_ids mks (next_id t)"
  by (induction mks arbitrary: t) (auto simp: repo_create_many_def)

lemma next_id_repo_create_many: "next_id (repo_create_many mks t) = next_id t + int (length mks)"
  by (induction mks arbitrary: t) (auto simp: repo_create_many_def)

lemma assign_ids_in: "r \<in> set (assign_ids mks n) \<Longrightarrow> \<exists>mk i. mk \<in> set mks \<and> n \<le> i \<and> i < n + int (length mks) \<and> r = mk i"
proof (induction mks arbitrary: n)
  case Nil
  then show ?case by simp
next
  case (Cons mk mks)
  then consider "r = mk n" | "r \<in> set (assign_ids mks (n + 1))" by auto
  then show ?case
  proof cases
    case 1
    then have "mk \<in> set (mk # mks) \<and> n \<le> n \<and> n < n + int (length (mk # mks)) \<and> r = mk n" by simp
    then show ?thesis by blast
  next
    case 2
    with Cons.IH obtain mk' i where "mk' \<in> set mks" "n + 1 \<le> i" "i < n + 1 + int (length mks)" "r = mk' i"
      by blast
    then have "mk' \<in> set (mk # mks) \<and> n \<le> i \<and> i < n + int (length (mk # mks)) \<and> r = mk' i" by simp
    then show ?thesis by blast
  qed
qed

lemma assign_ids_mem: "mk \<in> set mks \<Longrightarrow> \<exists>i. mk i \<in> set (assign_ids mks n)"
  by (induction mks arbitrary: n) auto

lemma map_assign_ids:
  assumes "\<And>mk i. mk \<in> set mks \<Longrightarrow> f (mk i) = g mk"
  shows "map f (assign_ids mks n) = map g mks"
  using assms by (induction mks arbitrary: n) auto

lemma map_assign_ids_distinct:
  assumes "\<And>mk i. mk \<in> set mks \<Longrightarrow> key (mk i) = i"
  shows "distinct (map key (assign_ids mks n))"
  using assms
proof (induction mks arbitrary: n)
  case Nil
  then show ?case by simp
next
  case (Cons mk mks)
  have "n \<notin> key ` set (assign_ids mks (n + 1))"
  proof
    assume "n \<in> key ` set (assign_ids mks (n + 1))"
    then obtain r where "r \<in> set (assign_ids mks (n + 1))" "key r = n" by blast
    with assign_ids_in [of r mks "n + 1"] Cons.prems show False by fastforce
  qed
  with Cons show ?case by simp
qed

lemma tbl_wf_create_many [preserves]:
  assumes "tbl_wf key t" and "\<And>mk i. mk \<in> set mks \<Longrightarrow> key (mk i) = i"
  shows "tbl_wf key (repo_create_many mks t)"
  using assms
proof (induction mks arbitrary: t)
  case Nil
  then show ?case by (simp add: repo_create_many_def)
next
  case (Cons mk mks)
  have "tbl_wf key (tbl_insert mk t)"
    using Cons.prems by (simp add: tbl_wf_insert)
  with Cons show ?case by (simp add: repo_create_many_def)
qed

section \<open>Pagination\<close>

lemma paginate_ok:
  "1 \<le> page \<Longrightarrow> 0 \<le> n \<Longrightarrow>
   paginate page n xs = Inr (take (nat n) (drop (nat ((page - 1) * n)) xs))"
  by (simp add: paginate_def not_less)

lemma take_pages: "concat (map (\<lambda>i. take n (drop (i * n) xs)) [0..<k]) = take (k * n) xs"
proof (induction k)
  case 0
  then show ?case by simp
next
  case (Suc k)
  have "take (Suc k * n) xs = take (k * n) xs @ take n (drop (k * n) xs)"
    by (metis add.commute mult_Suc take_add)
  with Suc show ?case by simp
qed

section \<open>The contract of a model class\<close>

text \<open>
  What the repository relies on of the class it is bound to: the key and the deletion mark are
  separate columns, and the mark is the only thing a soft deletion writes.
\<close>

locale entity =
  fixes model :: "'r model"
  assumes id_set_deleted: "m_id model (m_set_deleted_at model d r) = m_id model r"
    and deleted_set: "m_deleted_at model = Some del \<Longrightarrow> del (m_set_deleted_at model d r) = d"
begin

abbreviation wf :: "'r table \<Rightarrow> bool" where
  "wf \<equiv> tbl_wf (m_id model)"

lemma get_unique:
  assumes "wf t" and "r \<in> set (rows t)" and "apply_soft_delete model (\<lambda>_. True) r"
  shows "repo_get model t (m_id model r) = Some r"
proof -
  have "apply_soft_delete model (\<lambda>q. m_id model q = m_id model r) r"
    using assms(3) by (simp add: apply_soft_delete_def split: option.splits)
  with assms(2) have "repo_get model t (m_id model r) \<noteq> None"
    by (auto simp: repo_get_None_iff)
  then obtain q where q: "repo_get model t (m_id model r) = Some q" by blast
  from repo_get_in [OF q] tbl_wf_inj [OF assms(1)] assms(2) have "q = r" by blast
  with q show ?thesis by simp
qed

lemma get_create:
  assumes "wf t" and "m_id model (mk (next_id t)) = next_id t"
    and "apply_soft_delete model (\<lambda>_. True) (mk (next_id t))"
  shows "repo_get model (repo_create mk t) (next_id t) = Some (mk (next_id t))"
proof -
  have "wf (repo_create mk t)"
    using assms(1,2) by (simp add: repo_create_def tbl_wf_insert)
  then show ?thesis
    using get_unique [of "repo_create mk t" "mk (next_id t)"] assms(2,3)
    by (simp add: repo_create_def)
qed

lemma wf_soft_delete:
  assumes "wf t" and "repo_soft_delete model now k t = Inr t'"
  shows "wf t'"
  using assms by (auto simp: repo_soft_delete_def repo_update_def id_set_deleted
      intro!: tbl_wf_modify split: if_splits)

lemma get_soft_deleted:
  assumes "repo_soft_delete model now k t = Inr t'"
  shows "repo_get model t' k = None"
proof -
  from assms obtain del where del: "m_deleted_at model = Some del"
    and t': "t' = repo_update model k (m_set_deleted_at model (Some now)) t"
    by (auto simp: repo_soft_delete_def has_soft_delete_def split: if_splits)
  have gone: "\<not> apply_soft_delete model (\<lambda>r. m_id model r = k)
      (if m_id model r = k then m_set_deleted_at model (Some now) r else r)" for r
    by (simp add: apply_soft_delete_def del deleted_set [OF del])
  have "q \<in> set (rows t') \<Longrightarrow> \<not> apply_soft_delete model (\<lambda>r. m_id model r = k) q" for q
    unfolding t' repo_update_def rows_tbl_modify set_map using gone by blast
  then show ?thesis
    unfolding repo_get_None_iff by blast
qed

lemma get_soft_delete_other:
  assumes "repo_soft_delete model now k t = Inr t'" and "j \<noteq> k"
  shows "repo_get model t' j = repo_get model t j"
proof -
  have t': "t' = repo_update model k (m_set_deleted_at model (Some now)) t"
    using assms(1) by (auto simp: repo_soft_delete_def split: if_splits)
  have "List.find (apply_soft_delete model (\<lambda>r. m_id model r = j))
      (map (\<lambda>r. if m_id model r = k then m_set_deleted_at model (Some now) r else r) rs) =
    List.find (apply_soft_delete model (\<lambda>r. m_id model r = j)) rs" for rs
    using assms(2) by (induction rs) (auto simp: apply_soft_delete_def id_set_deleted split: option.splits)
  then show ?thesis by (simp add: t' repo_get_def repo_update_def)
qed

end

end
