(* ===== verification/Models.thy ===== *)
theory Models
  imports Base_Repository Complex_Main
begin

text \<open>
  The ORM classes of \<open>backend/app/models\<close> that the services read or write, one record per table
  with the columns in the order of the class. A field is the column's name behind a prefix for
  its table, because HOL has one name space for all record fields. Relationships are look-ups by
  foreign key. \<open>updated_at\<close> is written by the database alone and read by no service, so it has
  no field. A \<open>NUMERIC\<close> column and the Python \<open>float\<close> computed from it are both a rational.
\<close>

section \<open>Status columns\<close>

text \<open>
  Values the code itself writes. The columns \<open>ops_task.status\<close> and
  \<open>ops_task_execution.status\<close> share one vocabulary.
\<close>

datatype task_status =
    CREATED | PENDING | RUNNING | SUCCESS | FAILED | TIMEOUT | CANCELLED | RETRYING | DEAD

datatype event_status = EV_PENDING | EV_FIRING | EV_ACKNOWLEDGED | EV_RESOLVED

datatype agent_state = ONLINE | WARNING | OFFLINE | UNKNOWN

section \<open>Tasks: \<open>models/task.py\<close>\<close>

record OpsTask =
  tk_id :: ident
  tk_task_name :: string
  tk_task_type :: string
  tk_action :: "string option"
  tk_service_name :: "string option"
  tk_schedule_type :: string
  tk_cron_expression :: "string option"
  tk_status :: task_status
  tk_created_by :: ident
  tk_started_at :: "datetime option"
  tk_finished_at :: "datetime option"
  tk_timeout_seconds :: int
  tk_max_attempts :: int
  tk_attempt :: int
  tk_deadline_at :: "datetime option"
  tk_idempotency_key :: "string option"
  tk_confirmation_required :: int
  tk_confirmed_by :: "ident option"
  tk_confirmed_at :: "datetime option"
  tk_created_at :: datetime

record OpsTaskTarget =
  tg_id :: ident
  tg_task_id :: ident
  tg_server_id :: ident
  tg_target_status :: task_status

record OpsTaskExecution =
  ex_id :: ident
  ex_task_id :: ident
  ex_target_id :: ident
  ex_server_id :: ident
  ex_status :: task_status
  ex_attempt :: int
  ex_next_retry_at :: "datetime option"
  ex_error_type :: "string option"
  ex_exit_code :: "int option"
  ex_result_text :: "string option"
  ex_error_message :: "string option"
  ex_started_at :: "datetime option"
  ex_finished_at :: "datetime option"
  ex_duration_ms :: "int option"

text \<open>
  The content of a log row: text of the agent, or one of the service's own message templates
  with the values it is filled with.
\<close>

datatype log_text =
    LogText string
  | LogExecutionOk
  | LogExecutionFailed
  | LogRetryPlanned int string datetime
  | LogNoMoreRetry string
  | LogBudgetExhausted
  | LogAttemptCreated int

datatype log_level = LEVEL_INFO | LEVEL_ERROR

record OpsTaskLog =
  lg_id :: ident
  lg_execution_id :: ident
  lg_log_level :: log_level
  lg_log_content :: log_text

section \<open>Servers and agents: \<open>models/server.py\<close>\<close>

record OpsServer =
  sv_id :: ident
  sv_server_code :: string
  sv_hostname :: string
  sv_ip_address :: string
  sv_ssh_port :: int
  sv_os_name :: "string option"
  sv_os_version :: "string option"
  sv_kernel_version :: "string option"
  sv_architecture :: "string option"
  sv_cpu_model :: "string option"
  sv_cpu_cores :: "int option"
  sv_memory_total_bytes :: "int option"
  sv_disk_total_bytes :: "int option"
  sv_agent_version :: "string option"
  sv_agent_status :: agent_state
  sv_last_heartbeat_at :: "datetime option"
  sv_registered_at :: "datetime option"
  sv_status :: int
  sv_remark :: "string option"
  sv_created_by :: "ident option"
  sv_deleted_at :: "datetime option"

record OpsServerDisk =
  dk_id :: ident
  dk_server_id :: ident
  dk_device_name :: string
  dk_mount_point :: "string option"
  dk_filesystem :: "string option"
  dk_total_bytes :: "int option"
  dk_status :: int

record OpsServerNetwork =
  nw_id :: ident
  nw_server_id :: ident
  nw_interface_name :: string
  nw_mac_address :: "string option"
  nw_ip_address :: "string option"
  nw_status :: int

record OpsAgentToken =
  at_id :: ident
  at_server_id :: ident
  at_token_name :: string
  at_token_prefix :: string
  at_token_hash :: string
  at_signing_public_key :: "string option"
  at_signing_algorithm :: "string option"
  at_key_registered_at :: "datetime option"
  at_status :: int
  at_expires_at :: "datetime option"
  at_last_used_at :: "datetime option"
  at_revoked_at :: "datetime option"

record OpsAgentHeartbeat =
  hb_id :: ident
  hb_server_id :: ident
  hb_agent_version :: "string option"
  hb_ip_address :: "string option"
  hb_collected_at :: datetime

record OpsServerService =
  ss_id :: ident
  ss_server_id :: ident
  ss_service_name :: string
  ss_display_name :: "string option"
  ss_service_type :: string
  ss_is_whitelisted :: int
  ss_is_critical :: int
  ss_current_status :: "string option"
  ss_last_checked_at :: "datetime option"
  ss_status :: int

section \<open>Metrics: \<open>models/metric.py\<close>\<close>

record MonitorServerMetric =
  mt_id :: ident
  mt_server_id :: ident
  mt_collected_at :: datetime
  mt_cpu_usage :: "rat option"
  mt_memory_usage :: "rat option"
  mt_memory_used_bytes :: "int option"
  mt_disk_usage :: "rat option"
  mt_network_in_bytes :: "int option"
  mt_network_out_bytes :: "int option"
  mt_load_1m :: "rat option"
  mt_load_5m :: "rat option"
  mt_load_15m :: "rat option"
  mt_tcp_connections :: "int option"
  mt_uptime_seconds :: "int option"

record MonitorServerMetricDaily =
  md_id :: ident
  md_server_id :: ident
  md_metric_date :: int
  md_cpu_usage_avg :: "rat option"
  md_cpu_usage_max :: "rat option"
  md_memory_usage_avg :: "rat option"
  md_memory_usage_max :: "rat option"
  md_disk_usage_avg :: "rat option"
  md_disk_usage_max :: "rat option"
  md_load_1m_avg :: "rat option"
  md_load_1m_max :: "rat option"
  md_tcp_connections_avg :: "rat option"
  md_tcp_connections_max :: "rat option"
  md_sample_count :: int

section \<open>Alerts: \<open>models/alert.py\<close>\<close>

record AlertRule =
  ar_id :: ident
  ar_rule_name :: string
  ar_metric_type :: string
  ar_target_type :: string
  ar_severity :: string
  ar_operator :: string
  ar_threshold :: "rat option"
  ar_duration_seconds :: int
  ar_recovery_threshold :: "rat option"
  ar_enabled :: int
  ar_description :: "string option"
  ar_created_by :: "ident option"

text \<open>\<open>f"{rule.id}:{server.id}:{rule.metric_type}"\<close>, kept as its three parts.\<close>

datatype alert_key = AlertKey ident ident string

record AlertEvent =
  ev_id :: ident
  ev_rule_id :: ident
  ev_server_id :: "ident option"
  ev_resource_type :: string
  ev_resource_id :: "ident option"
  ev_alert_key :: alert_key
  ev_metric_type :: string
  ev_severity :: string
  ev_status :: event_status
  ev_first_fired_at :: "datetime option"
  ev_last_fired_at :: "datetime option"
  ev_acknowledged_by :: "ident option"
  ev_acknowledged_at :: "datetime option"
  ev_resolved_at :: "datetime option"
  ev_current_value :: "rat option"
  ev_threshold_value :: "rat option"

text \<open>
  The generated column \<open>is_active\<close>:
  \<^verbatim>\<open>CASE WHEN status IN ('PENDING', 'FIRING', 'ACKNOWLEDGED') THEN 1 ELSE NULL END\<close>.
\<close>

definition ev_is_active :: "AlertEvent \<Rightarrow> int option" where
  "ev_is_active e =
     (if ev_status e \<in> {EV_PENDING, EV_FIRING, EV_ACKNOWLEDGED} then Some 1 else None)"

datatype event_message =
    MsgDetected | MsgDurationReached | MsgRecovered | MsgManualAck | MsgManualResolve

record AlertEventLog =
  el_id :: ident
  el_event_id :: ident
  el_old_status :: "event_status option"
  el_new_status :: event_status
  el_current_value :: "rat option"
  el_message :: event_message
  el_operator_id :: "ident option"

section \<open>Users and audit: \<open>models/user.py\<close>, \<open>models/audit.py\<close>\<close>

record SysUser =
  us_id :: ident
  us_username :: string
  us_password_hash :: string
  us_nickname :: "string option"
  us_email :: "string option"
  us_phone :: "string option"
  us_status :: int
  us_last_login_at :: "datetime option"
  us_last_login_ip :: "string option"
  us_deleted_at :: "datetime option"

record SysRole =
  rl_id :: ident
  rl_role_code :: string
  rl_role_name :: string
  rl_description :: "string option"
  rl_status :: int

record SysUserRole =
  ur_user_id :: ident
  ur_role_id :: ident

record SysPermission =
  pm_id :: ident
  pm_permission_code :: string
  pm_permission_name :: string
  pm_permission_type :: string
  pm_path :: "string option"
  pm_method :: "string option"
  pm_parent_id :: "ident option"
  pm_status :: int

record SysRolePermission =
  rp_role_id :: ident
  rp_permission_id :: ident

datatype login_status = LOGIN_SUCCESS | LOGIN_FAILED

datatype login_failure = BadCredentials | AccountDisabled

record SysLoginLog =
  ll_id :: ident
  ll_user_id :: "ident option"
  ll_username :: string
  ll_login_ip :: "string option"
  ll_user_agent :: "string option"
  ll_login_status :: login_status
  ll_failure_reason :: "login_failure option"
  ll_request_id :: "string option"

record SysOperationLog =
  ol_id :: ident
  ol_user_id :: "ident option"
  ol_username :: "string option"
  ol_module :: string
  ol_operation :: string
  ol_http_method :: string
  ol_request_path :: string
  ol_request_ip :: "string option"
  ol_request_id :: "string option"
  ol_request_params :: "(string \<times> string) list option"
  ol_result_status :: login_status
  ol_error_message :: "string option"
  ol_duration_ms :: int

section \<open>The database\<close>

record db =
  ops_task :: "OpsTask table"
  ops_task_target :: "OpsTaskTarget table"
  ops_task_execution :: "OpsTaskExecution table"
  ops_task_log :: "OpsTaskLog table"
  ops_server :: "OpsServer table"
  ops_server_disk :: "OpsServerDisk table"
  ops_server_network :: "OpsServerNetwork table"
  ops_server_service :: "OpsServerService table"
  ops_agent_token :: "OpsAgentToken table"
  ops_agent_heartbeat :: "OpsAgentHeartbeat table"
  monitor_server_metric :: "MonitorServerMetric table"
  monitor_server_metric_daily :: "MonitorServerMetricDaily table"
  alert_rule :: "AlertRule table"
  alert_event :: "AlertEvent table"
  alert_event_log :: "AlertEventLog table"
  sys_user :: "SysUser table"
  sys_role :: "SysRole table"
  sys_user_role :: "SysUserRole list"
  sys_permission :: "SysPermission table"
  sys_role_permission :: "SysRolePermission list"
  sys_login_log :: "SysLoginLog table"
  sys_operation_log :: "SysOperationLog table"

definition empty_db :: db where
  "empty_db = \<lparr>
     ops_task = empty_table, ops_task_target = empty_table, ops_task_execution = empty_table,
     ops_task_log = empty_table, ops_server = empty_table, ops_server_disk = empty_table,
     ops_server_network = empty_table, ops_server_service = empty_table,
     ops_agent_token = empty_table, ops_agent_heartbeat = empty_table,
     monitor_server_metric = empty_table, monitor_server_metric_daily = empty_table,
     alert_rule = empty_table, alert_event = empty_table, alert_event_log = empty_table,
     sys_user = empty_table, sys_role = empty_table, sys_user_role = [],
     sys_permission = empty_table, sys_role_permission = [], sys_login_log = empty_table,
     sys_operation_log = empty_table\<rparr>"

section \<open>The classes the repositories are bound to\<close>

definition OpsTask_model :: "OpsTask model" where
  "OpsTask_model = \<lparr>m_id = tk_id, m_deleted_at = None, m_set_deleted_at = (\<lambda>_ r. r)\<rparr>"

definition OpsTaskTarget_model :: "OpsTaskTarget model" where
  "OpsTaskTarget_model = \<lparr>m_id = tg_id, m_deleted_at = None, m_set_deleted_at = (\<lambda>_ r. r)\<rparr>"

definition OpsTaskExecution_model :: "OpsTaskExecution model" where
  "OpsTaskExecution_model = \<lparr>m_id = ex_id, m_deleted_at = None, m_set_deleted_at = (\<lambda>_ r. r)\<rparr>"

definition OpsServer_model :: "OpsServer model" where
  "OpsServer_model = \<lparr>m_id = sv_id, m_deleted_at = Some sv_deleted_at,
     m_set_deleted_at = (\<lambda>d r. r\<lparr>sv_deleted_at := d\<rparr>)\<rparr>"

definition OpsAgentToken_model :: "OpsAgentToken model" where
  "OpsAgentToken_model = \<lparr>m_id = at_id, m_deleted_at = None, m_set_deleted_at = (\<lambda>_ r. r)\<rparr>"

definition OpsServerService_model :: "OpsServerService model" where
  "OpsServerService_model = \<lparr>m_id = ss_id, m_deleted_at = None, m_set_deleted_at = (\<lambda>_ r. r)\<rparr>"

definition AlertRule_model :: "AlertRule model" where
  "AlertRule_model = \<lparr>m_id = ar_id, m_deleted_at = None, m_set_deleted_at = (\<lambda>_ r. r)\<rparr>"

definition AlertEvent_model :: "AlertEvent model" where
  "AlertEvent_model = \<lparr>m_id = ev_id, m_deleted_at = None, m_set_deleted_at = (\<lambda>_ r. r)\<rparr>"

definition SysUser_model :: "SysUser model" where
  "SysUser_model = \<lparr>m_id = us_id, m_deleted_at = Some us_deleted_at,
     m_set_deleted_at = (\<lambda>d r. r\<lparr>us_deleted_at := d\<rparr>)\<rparr>"

definition SysRole_model :: "SysRole model" where
  "SysRole_model = \<lparr>m_id = rl_id, m_deleted_at = None, m_set_deleted_at = (\<lambda>_ r. r)\<rparr>"

definition SysPermission_model :: "SysPermission model" where
  "SysPermission_model = \<lparr>m_id = pm_id, m_deleted_at = None, m_set_deleted_at = (\<lambda>_ r. r)\<rparr>"

lemmas model_defs = OpsTask_model_def OpsTaskTarget_model_def OpsTaskExecution_model_def
  OpsServer_model_def OpsAgentToken_model_def OpsServerService_model_def
  AlertRule_model_def AlertEvent_model_def SysUser_model_def SysRole_model_def SysPermission_model_def

lemma model_simps [simp]:
  "m_id OpsTask_model = tk_id" "m_deleted_at OpsTask_model = None"
  "m_id OpsTaskTarget_model = tg_id" "m_deleted_at OpsTaskTarget_model = None"
  "m_id OpsTaskExecution_model = ex_id" "m_deleted_at OpsTaskExecution_model = None"
  "m_id OpsServer_model = sv_id" "m_deleted_at OpsServer_model = Some sv_deleted_at"
  "m_id OpsAgentToken_model = at_id" "m_deleted_at OpsAgentToken_model = None"
  "m_id OpsServerService_model = ss_id" "m_deleted_at OpsServerService_model = None"
  "m_id AlertRule_model = ar_id" "m_deleted_at AlertRule_model = None"
  "m_id AlertEvent_model = ev_id" "m_deleted_at AlertEvent_model = None"
  "m_id SysUser_model = us_id" "m_deleted_at SysUser_model = Some us_deleted_at"
  "m_id SysRole_model = rl_id" "m_deleted_at SysRole_model = None"
  "m_id SysPermission_model = pm_id" "m_deleted_at SysPermission_model = None"
  by (simp_all add: model_defs)

interpretation task: entity OpsTask_model
  by unfold_locales (simp_all add: model_defs)

interpretation target: entity OpsTaskTarget_model
  by unfold_locales (simp_all add: model_defs)

interpretation execution: entity OpsTaskExecution_model
  by unfold_locales (simp_all add: model_defs)

interpretation server: entity OpsServer_model
  by unfold_locales (auto simp: model_defs)

interpretation token: entity OpsAgentToken_model
  by unfold_locales (simp_all add: model_defs)

interpretation service: entity OpsServerService_model
  by unfold_locales (simp_all add: model_defs)

interpretation rule: entity AlertRule_model
  by unfold_locales (simp_all add: model_defs)

interpretation event: entity AlertEvent_model
  by unfold_locales (simp_all add: model_defs)

interpretation user: entity SysUser_model
  by unfold_locales (auto simp: model_defs)

interpretation role: entity SysRole_model
  by unfold_locales (simp_all add: model_defs)

interpretation permission: entity SysPermission_model
  by unfold_locales (simp_all add: model_defs)

end
