(* ===== verification/Retry.thy ===== *)
theory Retry
  imports Prelude
begin

text \<open>
  The retry policy of the task layer (\<open>backend/app/core/retry.py\<close>): how an error an agent
  reports is classified, which classes are worth another attempt, and how long to wait before
  it. The three Chinese words the source searches for are written as their UTF-8 bytes.
\<close>

definition RETRYABLE_ERROR_TYPES :: "string list" where
  "RETRYABLE_ERROR_TYPES = [''NETWORK_ERROR'', ''AGENT_OFFLINE'', ''AGENT_TIMEOUT'', ''SERVER_5XX'']"

definition NON_RETRYABLE_ERROR_TYPES :: "string list" where
  "NON_RETRYABLE_ERROR_TYPES = [''INVALID_ARGUMENT'', ''PERMISSION_DENIED'', ''COMMAND_NOT_FOUND'',
     ''SERVICE_NOT_WHITELISTED'', ''TASK_ACTION_INVALID'']"

definition CONDITIONAL_ERROR_TYPES :: "string list" where
  "CONDITIONAL_ERROR_TYPES = [''AGENT_EXECUTION_TIMEOUT'', ''SERVICE_UNHEALTHY'',
     ''DEPENDENCY_UNAVAILABLE'', ''RESOURCE_EXHAUSTED'']"

definition UNKNOWN_ERROR_TYPE :: string where
  "UNKNOWN_ERROR_TYPE = ''UNKNOWN''"

definition BACKOFF_SECONDS :: "int list" where
  "BACKOFF_SECONDS = [5, 10, 30, 60]"

definition zh_timeout :: string where
  "zh_timeout = [CHR 0xE8, CHR 0xB6, CHR 0x85, CHR 0xE6, CHR 0x97, CHR 0xB6]"

definition zh_network :: string where
  "zh_network = [CHR 0xE7, CHR 0xBD, CHR 0x91, CHR 0xE7, CHR 0xBB, CHR 0x9C]"

definition zh_offline :: string where
  "zh_offline = [CHR 0xE7, CHR 0xA6, CHR 0xBB, CHR 0xE7, CHR 0xBA, CHR 0xBF]"

definition classify_error :: "string option \<Rightarrow> string option \<Rightarrow> string" where
  "classify_error error_type error_message =
     (if truthy error_type then the error_type
      else let text = lower (or_text error_message []) in
        if contains ''timeout'' text \<or> contains zh_timeout text then ''AGENT_TIMEOUT''
        else if (\<exists>token \<in> set [''network'', ''connection'', ''refused'', ''unreachable''].
                   contains token text) \<or> contains zh_network text then ''NETWORK_ERROR''
        else if contains ''offline'' text \<or> contains zh_offline text then ''AGENT_OFFLINE''
        else UNKNOWN_ERROR_TYPE)"

definition is_retryable :: "string option \<Rightarrow> string option \<Rightarrow> bool" where
  "is_retryable error_type error_message =
     (classify_error error_type error_message \<in> set RETRYABLE_ERROR_TYPES)"

definition backoff_seconds :: "int \<Rightarrow> int" where
  "backoff_seconds attempt =
     (let index = max 0 (min (attempt - 1) (int (length BACKOFF_SECONDS) - 1))
      in BACKOFF_SECONDS ! nat index)"

section \<open>What the policy guarantees\<close>

lemma classify_error_given [simp]: "t \<noteq> [] \<Longrightarrow> classify_error (Some t) m = t"
  by (simp add: classify_error_def)

lemma classify_error_inferred:
  "\<not> truthy error_type \<Longrightarrow>
   classify_error error_type m \<in> {''AGENT_TIMEOUT'', ''NETWORK_ERROR'', ''AGENT_OFFLINE'', UNKNOWN_ERROR_TYPE}"
  by (simp add: classify_error_def Let_def)

lemma unknown_not_retryable: "UNKNOWN_ERROR_TYPE \<notin> set RETRYABLE_ERROR_TYPES"
  by (simp add: UNKNOWN_ERROR_TYPE_def RETRYABLE_ERROR_TYPES_def)

lemma error_classes_disjoint:
  "set RETRYABLE_ERROR_TYPES \<inter> set NON_RETRYABLE_ERROR_TYPES = {}"
  "set RETRYABLE_ERROR_TYPES \<inter> set CONDITIONAL_ERROR_TYPES = {}"
  by (simp_all add: RETRYABLE_ERROR_TYPES_def NON_RETRYABLE_ERROR_TYPES_def CONDITIONAL_ERROR_TYPES_def)

lemma backoff_cases:
  "backoff_seconds n = (if n \<le> 1 then 5 else if n = 2 then 10 else if n = 3 then 30 else 60)"
proof -
  consider "n \<le> 1" | "n = 2" | "n = 3" | "4 \<le> n" by linarith
  then show ?thesis
    by cases (simp_all add: backoff_seconds_def BACKOFF_SECONDS_def)
qed

lemma backoff_bounds: "5 \<le> backoff_seconds n" "backoff_seconds n \<le> 60"
  by (simp_all add: backoff_cases)

lemma backoff_mono: "a \<le> b \<Longrightarrow> backoff_seconds a \<le> backoff_seconds b"
  by (simp add: backoff_cases)

end
