(* ===== verification/Task_Repository.thy ===== *)
theory Task_Repository
  imports Models Retry
begin

text \<open>
  The repositories of the task engine (\<open>backend/app/repositories/task_repository.py\<close>). Every
  operation takes the clock reading it makes as its argument \<open>now\<close>. A mapped object that is
  passed around in Python is its primary key here, so that an operation sees the current row.

  The unique keys of \<open>ops_task_execution\<close> are checked where a row is inserted; a violation is
  the \<open>IntegrityError\<close> of the flush.
\<close>

definition terminal_status :: "task_status \<Rightarrow> bool" where
  "terminal_status s = (s \<in> {SUCCESS, FAILED, TIMEOUT, CANCELLED, DEAD})"

abbreviation executions :: "db \<Rightarrow> OpsTaskExecution list" where
  "executions d \<equiv> rows (ops_task_execution d)"

abbreviation tasks :: "db \<Rightarrow> OpsTask list" where
  "tasks d \<equiv> rows (ops_task d)"

abbreviation targets :: "db \<Rightarrow> OpsTaskTarget list" where
  "targets d \<equiv> rows (ops_task_target d)"

definition task_get :: "db \<Rightarrow> ident \<Rightarrow> OpsTask option" where
  "task_get d k = repo_get OpsTask_model (ops_task d) k"

definition execution_get :: "db \<Rightarrow> ident \<Rightarrow> OpsTaskExecution option" where
  "execution_get d k = repo_get OpsTaskExecution_model (ops_task_execution d) k"

definition target_get :: "db \<Rightarrow> ident \<Rightarrow> OpsTaskTarget option" where
  "target_get d k = repo_get OpsTaskTarget_model (ops_task_target d) k"

text \<open>Assignments to the attributes of a task, an execution, a target.\<close>

definition set_task :: "ident \<Rightarrow> (OpsTask \<Rightarrow> OpsTask) \<Rightarrow> db \<Rightarrow> db" where
  "set_task k f d = d\<lparr>ops_task := repo_update OpsTask_model k f (ops_task d)\<rparr>"

definition set_execution :: "ident \<Rightarrow> (OpsTaskExecution \<Rightarrow> OpsTaskExecution) \<Rightarrow> db \<Rightarrow> db" where
  "set_execution k f d =
     d\<lparr>ops_task_execution := repo_update OpsTaskExecution_model k f (ops_task_execution d)\<rparr>"

definition set_target :: "ident \<Rightarrow> (OpsTaskTarget \<Rightarrow> OpsTaskTarget) \<Rightarrow> db \<Rightarrow> db" where
  "set_target k f d = d\<lparr>ops_task_target := repo_update OpsTaskTarget_model k f (ops_task_target d)\<rparr>"

section \<open>TaskRepository\<close>

fun status_name :: "task_status \<Rightarrow> string" where
  "status_name CREATED = ''CREATED''"
| "status_name PENDING = ''PENDING''"
| "status_name RUNNING = ''RUNNING''"
| "status_name SUCCESS = ''SUCCESS''"
| "status_name FAILED = ''FAILED''"
| "status_name TIMEOUT = ''TIMEOUT''"
| "status_name CANCELLED = ''CANCELLED''"
| "status_name RETRYING = ''RETRYING''"
| "status_name DEAD = ''DEAD''"

definition list_tasks ::
  "db \<Rightarrow> int \<Rightarrow> int \<Rightarrow> string option \<Rightarrow> string option \<Rightarrow> (int \<times> OpsTask list) result" where
  "list_tasks d page page_size status task_type =
     repo_list OpsTask_model (ops_task d) page page_size IdDesc
       (\<lambda>t. (truthy status \<longrightarrow> Some (status_name (tk_status t)) = status) \<and>
            (truthy task_type \<longrightarrow> Some (tk_task_type t) = task_type))"

definition list_pending_cron :: "db \<Rightarrow> OpsTask list" where
  "list_pending_cron d =
     filter (\<lambda>t. tk_schedule_type t = ''CRON'' \<and> tk_status t \<in> {PENDING, CREATED}) (tasks d)"

definition get_by_idempotency_key :: "db \<Rightarrow> string \<Rightarrow> OpsTask option" where
  "get_by_idempotency_key d key =
     (if key = [] then None
      else repo_get_by OpsTask_model (ops_task d) (\<lambda>t. tk_idempotency_key t = Some key))"

definition delete_finished_tasks_before :: "datetime \<Rightarrow> db \<Rightarrow> int \<times> db" where
  "delete_finished_tasks_before cutoff d =
     (let doomed = (\<lambda>t. tk_schedule_type t = ''ONCE'' \<and> terminal_status (tk_status t) \<and>
                       (case tk_finished_at t of None \<Rightarrow> False | Some f \<Rightarrow> f < cutoff) \<and>
                       (\<forall>e \<in> set (executions d). ex_task_id e \<noteq> tk_id t));
          task_ids = map tk_id (filter doomed (tasks d))
      in if task_ids = [] then (0, d)
         else (int (length task_ids),
               d\<lparr>ops_task_target := tbl_delete (\<lambda>g. tg_task_id g \<in> set task_ids) (ops_task_target d),
                 ops_task := tbl_delete (\<lambda>t. tk_id t \<in> set task_ids) (ops_task d)\<rparr>))"

definition count_by_status :: "db \<Rightarrow> task_status \<Rightarrow> int" where
  "count_by_status d s = int (length (filter (\<lambda>t. tk_status t = s) (tasks d)))"

section \<open>TaskTargetRepository\<close>

definition new_target :: "ident \<Rightarrow> ident \<Rightarrow> ident \<Rightarrow> OpsTaskTarget" where
  "new_target task_id sid k =
     \<lparr>tg_id = k, tg_task_id = task_id, tg_server_id = sid, tg_target_status = PENDING\<rparr>"

definition create_targets :: "ident \<Rightarrow> ident list \<Rightarrow> db \<Rightarrow> OpsTaskTarget list \<times> db" where
  "create_targets task_id server_ids d =
     (let mks = map (new_target task_id) (py_set server_ids)
      in (assign_ids mks (next_id (ops_task_target d)),
          d\<lparr>ops_task_target := repo_create_many mks (ops_task_target d)\<rparr>))"

definition targets_by_task :: "db \<Rightarrow> ident \<Rightarrow> OpsTaskTarget list" where
  "targets_by_task d task_id =
     repo_list_all OpsTaskTarget_model (ops_task_target d) (\<lambda>g. tg_task_id g = task_id)"

section \<open>TaskExecutionRepository\<close>

definition new_execution :: "ident \<Rightarrow> ident \<Rightarrow> ident \<Rightarrow> int \<Rightarrow> ident \<Rightarrow> OpsTaskExecution" where
  "new_execution task_id target_id server_id attempt k =
     \<lparr>ex_id = k, ex_task_id = task_id, ex_target_id = target_id, ex_server_id = server_id,
      ex_status = PENDING, ex_attempt = attempt, ex_next_retry_at = None, ex_error_type = None,
      ex_exit_code = None, ex_result_text = None, ex_error_message = None,
      ex_started_at = None, ex_finished_at = None, ex_duration_ms = None\<rparr>"

text \<open>The unique key \<open>uk_ops_task_execution_target\<close>: \<open>(task_id, target_id, attempt)\<close>.\<close>

definition execution_key :: "OpsTaskExecution \<Rightarrow> ident \<times> ident \<times> int" where
  "execution_key e = (ex_task_id e, ex_target_id e, ex_attempt e)"

definition insert_execution :: "(ident \<Rightarrow> OpsTaskExecution) \<Rightarrow> db \<Rightarrow> db result" where
  "insert_execution mk d =
     (let e = mk (next_id (ops_task_execution d))
      in if execution_key e \<in> set (map execution_key (executions d)) then Inl IntegrityError
         else Inr (d\<lparr>ops_task_execution := repo_create mk (ops_task_execution d)\<rparr>))"

definition create_executions :: "ident \<Rightarrow> OpsTaskTarget list \<Rightarrow> db \<Rightarrow> db result" where
  "create_executions task_id tgts d =
     foldE insert_execution
       (map (\<lambda>g. new_execution task_id (tg_id g) (tg_server_id g) 1) tgts) d"

definition create_execution :: "ident \<Rightarrow> ident \<Rightarrow> ident \<Rightarrow> int \<Rightarrow> db \<Rightarrow> db result" where
  "create_execution task_id target_id server_id attempt d =
     insert_execution (new_execution task_id target_id server_id attempt) d"

definition retry_time :: "OpsTaskExecution \<Rightarrow> datetime" where
  "retry_time e = (case ex_next_retry_at e of None \<Rightarrow> 0 | Some r \<Rightarrow> r)"

definition list_due_retries :: "db \<Rightarrow> datetime \<Rightarrow> nat \<Rightarrow> OpsTaskExecution list" where
  "list_due_retries d now limit =
     take limit (sort_key retry_time
       (filter (\<lambda>e. ex_status e = RETRYING \<and>
                   (case ex_next_retry_at e of None \<Rightarrow> False | Some r \<Rightarrow> r \<le> now)) (executions d)))"

definition fetch_pending_by_server :: "db \<Rightarrow> ident \<Rightarrow> nat \<Rightarrow> OpsTaskExecution list" where
  "fetch_pending_by_server d server_id limit =
     take limit (sort_key ex_id
       (filter (\<lambda>e. ex_server_id e = server_id \<and> ex_status e = PENDING \<and>
                   (\<exists>t \<in> set (tasks d). tk_id t = ex_task_id e \<and> tk_status t \<in> {PENDING, RUNNING}))
          (executions d)))"

definition mark_running :: "datetime \<Rightarrow> ident \<Rightarrow> db \<Rightarrow> db" where
  "mark_running now k d =
     set_execution k (\<lambda>e. e\<lparr>ex_status := RUNNING, ex_started_at := Some now\<rparr>) d"

definition elapsed :: "datetime \<Rightarrow> OpsTaskExecution \<Rightarrow> int option" where
  "elapsed now e =
     (case ex_started_at e of None \<Rightarrow> ex_duration_ms e | Some s \<Rightarrow> Some (duration_ms s now))"

definition finish ::
  "datetime \<Rightarrow> task_status \<Rightarrow> int option \<Rightarrow> string option \<Rightarrow> string option \<Rightarrow> string option \<Rightarrow>
   ident \<Rightarrow> db \<Rightarrow> db" where
  "finish now status exit_code result_text error_message error_type k d =
     set_execution k (\<lambda>e. e\<lparr>
       ex_status := status,
       ex_exit_code := exit_code,
       ex_result_text := result_text,
       ex_error_message := error_message,
       ex_error_type := (case error_type of None \<Rightarrow> ex_error_type e | Some t \<Rightarrow> Some t),
       ex_finished_at := Some now,
       ex_duration_ms := elapsed now e\<rparr>) d"

definition mark_retrying ::
  "datetime \<Rightarrow> string \<Rightarrow> string option \<Rightarrow> datetime \<Rightarrow> ident \<Rightarrow> db \<Rightarrow> db" where
  "mark_retrying now error_type error_message next_retry_at k d =
     set_execution k (\<lambda>e. e\<lparr>
       ex_status := RETRYING,
       ex_error_type := Some error_type,
       ex_error_message := error_message,
       ex_next_retry_at := Some next_retry_at,
       ex_finished_at := Some now,
       ex_duration_ms := elapsed now e\<rparr>) d"

definition mark_dead :: "datetime \<Rightarrow> string \<Rightarrow> string option \<Rightarrow> ident \<Rightarrow> db \<Rightarrow> db" where
  "mark_dead now error_type error_message k d =
     set_execution k (\<lambda>e. e\<lparr>
       ex_status := DEAD,
       ex_error_type := Some error_type,
       ex_error_message := error_message,
       ex_next_retry_at := None,
       ex_finished_at := Some now,
       ex_duration_ms := elapsed now e\<rparr>) d"

definition list_by_task :: "db \<Rightarrow> ident \<Rightarrow> OpsTaskExecution list" where
  "list_by_task d task_id =
     repo_list_all OpsTaskExecution_model (ops_task_execution d) (\<lambda>e. ex_task_id e = task_id)"

definition delete_terminal_before :: "datetime \<Rightarrow> db \<Rightarrow> int \<times> db" where
  "delete_terminal_before cutoff d =
     (let doomed = (\<lambda>e. terminal_status (ex_status e) \<and>
                       (case ex_finished_at e of None \<Rightarrow> False | Some f \<Rightarrow> f < cutoff));
          ids = map ex_id (filter doomed (executions d))
      in if ids = [] then (0, d)
         else (int (length ids),
               d\<lparr>ops_task_log := tbl_delete (\<lambda>l. lg_execution_id l \<in> set ids) (ops_task_log d),
                 ops_task_execution := tbl_delete (\<lambda>e. ex_id e \<in> set ids) (ops_task_execution d)\<rparr>))"

definition is_expired :: "datetime \<Rightarrow> OpsTaskExecution \<Rightarrow> int \<Rightarrow> bool" where
  "is_expired now e timeout_seconds =
     (case ex_started_at e of
        None \<Rightarrow> False
      | Some s \<Rightarrow> ex_status e = RUNNING \<and> s < now - timedelta_seconds timeout_seconds)"

text \<open>The message of a timed-out execution holds the number of seconds in decimal.\<close>

fun decimal_nat :: "nat \<Rightarrow> string" where
  "decimal_nat n =
     (if n < 10 then [char_of (48 + n)] else decimal_nat (n div 10) @ [char_of (48 + n mod 10)])"

declare decimal_nat.simps [simp del]

definition decimal :: "int \<Rightarrow> string" where
  "decimal n = (if n < 0 then CHR ''-'' # decimal_nat (nat (- n)) else decimal_nat (nat n))"

definition zh_execute :: string where
  "zh_execute = [CHR 0xE6, CHR 0x89, CHR 0xA7, CHR 0xE8, CHR 0xA1, CHR 0x8C]"

definition zh_open_paren :: string where
  "zh_open_paren = [CHR 0xEF, CHR 0xBC, CHR 0x88]"

definition zh_close_paren :: string where
  "zh_close_paren = [CHR 0xEF, CHR 0xBC, CHR 0x89]"

definition execution_timeout_text :: "int \<Rightarrow> string" where
  "execution_timeout_text n =
     zh_execute @ zh_timeout @ zh_open_paren @ decimal n @ ''s'' @ zh_close_paren"

definition mark_timeout :: "datetime \<Rightarrow> int \<Rightarrow> ident \<Rightarrow> db \<Rightarrow> db" where
  "mark_timeout now timeout_seconds k d =
     set_execution k (\<lambda>e. e\<lparr>
       ex_status := TIMEOUT,
       ex_finished_at := Some now,
       ex_error_message := Some (execution_timeout_text timeout_seconds)\<rparr>) d"

section \<open>TaskLogRepository\<close>

definition log_record :: "ident \<Rightarrow> log_text \<Rightarrow> log_level \<Rightarrow> db \<Rightarrow> db" where
  "log_record execution_id content level d =
     d\<lparr>ops_task_log := repo_create (\<lambda>k. \<lparr>lg_id = k, lg_execution_id = execution_id,
        lg_log_level = level, lg_log_content = content\<rparr>) (ops_task_log d)\<rparr>"

definition logs_by_execution :: "db \<Rightarrow> ident \<Rightarrow> OpsTaskLog list" where
  "logs_by_execution d execution_id =
     sort_key lg_id (filter (\<lambda>l. lg_execution_id l = execution_id) (rows (ops_task_log d)))"

section \<open>What the operations leave alone\<close>

lemmas execution_writes = mark_running_def finish_def mark_retrying_def mark_dead_def mark_timeout_def

lemma set_execution_frame [simp, frame]:
  "ops_task (set_execution k f d) = ops_task d"
  "ops_task_target (set_execution k f d) = ops_task_target d"
  "ops_task_log (set_execution k f d) = ops_task_log d"
  "ops_server (set_execution k f d) = ops_server d"
  by (simp_all add: set_execution_def)

lemma set_task_frame [simp, frame]:
  "ops_task_execution (set_task k f d) = ops_task_execution d"
  "ops_task_target (set_task k f d) = ops_task_target d"
  "ops_task_log (set_task k f d) = ops_task_log d"
  "ops_server (set_task k f d) = ops_server d"
  by (simp_all add: set_task_def)

lemma set_target_frame [simp, frame]:
  "ops_task_execution (set_target k f d) = ops_task_execution d"
  "ops_task (set_target k f d) = ops_task d"
  "ops_task_log (set_target k f d) = ops_task_log d"
  "ops_server (set_target k f d) = ops_server d"
  by (simp_all add: set_target_def)

lemma log_record_frame [simp, frame]:
  "ops_task_execution (log_record k c l d) = ops_task_execution d"
  "ops_task (log_record k c l d) = ops_task d"
  "ops_task_target (log_record k c l d) = ops_task_target d"
  "ops_server (log_record k c l d) = ops_server d"
  by (simp_all add: log_record_def)

lemma executions_set_execution [simp, table_simps]:
  "executions (set_execution k f d) = map (\<lambda>e. if ex_id e = k then f e else e) (executions d)"
  by (simp add: set_execution_def repo_update_def)

lemma tasks_set_task [simp, table_simps]:
  "tasks (set_task k f d) = map (\<lambda>t. if tk_id t = k then f t else t) (tasks d)"
  by (simp add: set_task_def repo_update_def)

lemma targets_set_target [simp, table_simps]:
  "targets (set_target k f d) = map (\<lambda>g. if tg_id g = k then f g else g) (targets d)"
  by (simp add: set_target_def repo_update_def)

lemma execution_get_set_execution:
  "(\<And>e. ex_id (f e) = ex_id e) \<Longrightarrow> execution_get (set_execution k f d) j =
     (if j = k then map_option f (execution_get d j) else execution_get d j)"
  by (simp add: execution_get_def set_execution_def repo_get_update)

lemma task_get_set_task:
  "(\<And>t. tk_id (f t) = tk_id t) \<Longrightarrow> task_get (set_task k f d) j =
     (if j = k then map_option f (task_get d j) else task_get d j)"
  by (simp add: task_get_def set_task_def repo_get_update)

lemma execution_get_frame [simp, frame]:
  "execution_get (set_task k g d) j = execution_get d j"
  "execution_get (set_target k h d) j = execution_get d j"
  "execution_get (log_record k c l d) j = execution_get d j"
  by (simp_all add: execution_get_def)

lemma task_get_frame [simp, frame]:
  "task_get (set_execution k f d) j = task_get d j"
  "task_get (set_target k h d) j = task_get d j"
  "task_get (log_record k c l d) j = task_get d j"
  by (simp_all add: task_get_def)

lemma task_get_in: "task_get d k = Some t \<Longrightarrow> t \<in> set (tasks d) \<and> tk_id t = k"
  using repo_get_in [of OpsTask_model "ops_task d" k t] by (simp add: task_get_def)

lemma execution_get_in: "execution_get d k = Some e \<Longrightarrow> e \<in> set (executions d) \<and> ex_id e = k"
  using repo_get_in [of OpsTaskExecution_model "ops_task_execution d" k e]
  by (simp add: execution_get_def)

lemma target_get_in: "target_get d k = Some g \<Longrightarrow> g \<in> set (targets d) \<and> tg_id g = k"
  using repo_get_in [of OpsTaskTarget_model "ops_task_target d" k g] by (simp add: target_get_def)

lemma task_get_exists: "t \<in> set (tasks d) \<Longrightarrow> \<exists>u. task_get d (tk_id t) = Some u"
  using repo_get_None_iff [of OpsTask_model "ops_task d" "tk_id t"]
  by (cases "task_get d (tk_id t)") (auto simp: task_get_def)

lemma execution_get_exists: "e \<in> set (executions d) \<Longrightarrow> \<exists>u. execution_get d (ex_id e) = Some u"
  using repo_get_None_iff [of OpsTaskExecution_model "ops_task_execution d" "ex_id e"]
  by (cases "execution_get d (ex_id e)") (auto simp: execution_get_def)

lemma list_by_task_set: "e \<in> set (list_by_task d k) \<longleftrightarrow> e \<in> set (executions d) \<and> ex_task_id e = k"
  by (simp add: list_by_task_def repo_list_all_set)

lemma list_by_task_eq: "list_by_task d k = filter (\<lambda>e. ex_task_id e = k) (executions d)"
  by (simp add: list_by_task_def repo_list_all_def)

end
