(* ===== verification/Server_Repository.thy ===== *)
theory Server_Repository
  imports Models
begin

text \<open>
  The repositories of servers and agents (\<open>backend/app/repositories/server_repository.py\<close>):
  registration and heartbeat, the status sweep, agent tokens, heartbeat history, and the asset
  tables that an agent synchronises. SHA-256 of a token (\<open>_hash_token\<close>) is the parameter
  \<open>hash\<close>; the random token of \<open>secrets.token_urlsafe\<close> is an argument.
\<close>

section \<open>ServerRepository\<close>

abbreviation servers :: "db \<Rightarrow> OpsServer list" where
  "servers d \<equiv> rows (ops_server d)"

definition server_get :: "db \<Rightarrow> ident \<Rightarrow> OpsServer option" where
  "server_get d k = repo_get OpsServer_model (ops_server d) k"

definition set_server :: "ident \<Rightarrow> (OpsServer \<Rightarrow> OpsServer) \<Rightarrow> db \<Rightarrow> db" where
  "set_server k f d = d\<lparr>ops_server := repo_update OpsServer_model k f (ops_server d)\<rparr>"

definition get_by_server_code :: "db \<Rightarrow> string \<Rightarrow> OpsServer option" where
  "get_by_server_code d code =
     repo_get_by OpsServer_model (ops_server d) (\<lambda>s. sv_server_code s = code)"

definition get_by_ip_port :: "db \<Rightarrow> string \<Rightarrow> int \<Rightarrow> OpsServer option" where
  "get_by_ip_port d ip port =
     repo_get_by OpsServer_model (ops_server d) (\<lambda>s. sv_ip_address s = ip \<and> sv_ssh_port s = port)"

text \<open>The system information of a registration; \<open>None\<close> is a field the agent did not send.\<close>

record system_info =
  si_hostname :: "string option"
  si_os_name :: "string option"
  si_os_version :: "string option"
  si_kernel_version :: "string option"
  si_architecture :: "string option"
  si_cpu_model :: "string option"
  si_cpu_cores :: "int option"
  si_memory_total_bytes :: "int option"
  si_disk_total_bytes :: "int option"
  si_agent_version :: "string option"

definition keep :: "'a option \<Rightarrow> 'a option \<Rightarrow> 'a option" where
  "keep new old = (case new of None \<Rightarrow> old | Some v \<Rightarrow> Some v)"

definition register_server :: "datetime \<Rightarrow> ident \<Rightarrow> system_info \<Rightarrow> db \<Rightarrow> db" where
  "register_server now k data d =
     set_server k (\<lambda>s. s\<lparr>
       sv_hostname := (case si_hostname data of None \<Rightarrow> sv_hostname s | Some h \<Rightarrow> h),
       sv_os_name := keep (si_os_name data) (sv_os_name s),
       sv_os_version := keep (si_os_version data) (sv_os_version s),
       sv_kernel_version := keep (si_kernel_version data) (sv_kernel_version s),
       sv_architecture := keep (si_architecture data) (sv_architecture s),
       sv_cpu_model := keep (si_cpu_model data) (sv_cpu_model s),
       sv_cpu_cores := keep (si_cpu_cores data) (sv_cpu_cores s),
       sv_memory_total_bytes := keep (si_memory_total_bytes data) (sv_memory_total_bytes s),
       sv_disk_total_bytes := keep (si_disk_total_bytes data) (sv_disk_total_bytes s),
       sv_agent_version := keep (si_agent_version data) (sv_agent_version s),
       sv_registered_at := Some now,
       sv_last_heartbeat_at := Some now,
       sv_agent_status := ONLINE\<rparr>) d"

text \<open>
  The unique key \<open>uk_ops_server_ip_port\<close>, soft-deleted rows included: a flush that breaks it is an
  \<open>IntegrityError\<close>.
\<close>

definition uk_ops_server_ip_port :: "db \<Rightarrow> bool" where
  "uk_ops_server_ip_port d \<longleftrightarrow> distinct (map (\<lambda>s. (sv_ip_address s, sv_ssh_port s)) (servers d))"

definition flush_server :: "db \<Rightarrow> db result" where
  "flush_server d = (if uk_ops_server_ip_port d then Inr d else Inl IntegrityError)"

definition update_last_heartbeat ::
  "datetime \<Rightarrow> ident \<Rightarrow> string option \<Rightarrow> string option \<Rightarrow> db \<Rightarrow> db result" where
  "update_last_heartbeat now k ip agent_version d =
     flush_server (set_server k (\<lambda>s. s\<lparr>
       sv_last_heartbeat_at := Some now,
       sv_ip_address := or_text ip (sv_ip_address s),
       sv_agent_version := (if truthy agent_version then agent_version else sv_agent_version s),
       sv_agent_status := ONLINE\<rparr>) d)"

text \<open>
  The \<open>CASE\<close> of the sweep. A comparison with a heartbeat that is \<open>NULL\<close> is not true, so such a
  server takes the \<open>ELSE\<close> branch.
\<close>

definition agent_status_case :: "datetime \<Rightarrow> datetime option \<Rightarrow> agent_state" where
  "agent_status_case now heartbeat =
     (case heartbeat of
        None \<Rightarrow> OFFLINE
      | Some h \<Rightarrow> if h \<ge> now - timedelta_seconds 30 then ONLINE
                  else if h \<ge> now - timedelta_seconds 90 then WARNING
                  else OFFLINE)"

definition refresh_agent_statuses :: "datetime \<Rightarrow> db \<Rightarrow> int \<times> db" where
  "refresh_agent_statuses now d =
     (let affected = (\<lambda>s. sv_status s = 1 \<and> sv_deleted_at s = None)
      in (int (length (filter affected (servers d))),
          d\<lparr>ops_server := tbl_modify affected
             (\<lambda>s. s\<lparr>sv_agent_status := agent_status_case now (sv_last_heartbeat_at s)\<rparr>)
             (ops_server d)\<rparr>))"

text \<open>The dictionary of counts; \<open>None\<close> is the key \<open>"total"\<close>.\<close>

definition get_status_counts :: "db \<Rightarrow> agent_state option \<Rightarrow> int" where
  "get_status_counts d key =
     (let counted = filter (\<lambda>s. sv_status s = 1 \<and> sv_deleted_at s = None) (servers d);
          count = (\<lambda>st. int (length (filter (\<lambda>s. sv_agent_status s = st) counted)))
      in case key of
           Some st \<Rightarrow> count st
         | None \<Rightarrow> sum_list (map count [ONLINE, WARNING, OFFLINE, UNKNOWN]))"

definition list_active :: "db \<Rightarrow> OpsServer list" where
  "list_active d = repo_list_all OpsServer_model (ops_server d) (\<lambda>s. sv_status s = 1)"

section \<open>AgentTokenRepository\<close>

definition create_token ::
  "(string \<Rightarrow> string) \<Rightarrow> string \<Rightarrow> ident \<Rightarrow> string option \<Rightarrow> db \<Rightarrow> ((ident \<times> string) \<times> db) result" where
  "create_token hash plaintext server_id token_name d =
     (let k = next_id (ops_agent_token d)
      in if hash plaintext \<in> set (map at_token_hash (rows (ops_agent_token d))) then Inl IntegrityError
         else Inr ((k, plaintext),
           d\<lparr>ops_agent_token := repo_create (\<lambda>k. \<lparr>at_id = k, at_server_id = server_id,
              at_token_name = or_text token_name ''default'',
              at_token_prefix = take 8 plaintext,
              at_token_hash = hash plaintext,
              at_signing_public_key = None, at_signing_algorithm = Some ''ed25519'',
              at_key_registered_at = None, at_status = 1, at_expires_at = None,
              at_last_used_at = None, at_revoked_at = None\<rparr>) (ops_agent_token d)\<rparr>))"

definition get_by_token_hash :: "db \<Rightarrow> string \<Rightarrow> OpsAgentToken option" where
  "get_by_token_hash d h =
     repo_get_by OpsAgentToken_model (ops_agent_token d) (\<lambda>t. at_token_hash t = h)"

definition authenticate :: "(string \<Rightarrow> string) \<Rightarrow> datetime \<Rightarrow> db \<Rightarrow> string \<Rightarrow> OpsAgentToken option" where
  "authenticate hash now d plaintext =
     (case get_by_token_hash d (hash plaintext) of
        None \<Rightarrow> None
      | Some t \<Rightarrow>
          if at_status t \<noteq> 1 then None
          else if (case at_expires_at t of None \<Rightarrow> False | Some x \<Rightarrow> x < now) then None
          else if at_revoked_at t \<noteq> None then None
          else Some t)"

definition set_token :: "ident \<Rightarrow> (OpsAgentToken \<Rightarrow> OpsAgentToken) \<Rightarrow> db \<Rightarrow> db" where
  "set_token k f d = d\<lparr>ops_agent_token := repo_update OpsAgentToken_model k f (ops_agent_token d)\<rparr>"

definition revoke :: "datetime \<Rightarrow> ident \<Rightarrow> db \<Rightarrow> db" where
  "revoke now k d = set_token k (\<lambda>t. t\<lparr>at_status := 0, at_revoked_at := Some now\<rparr>) d"

definition update_last_used :: "datetime \<Rightarrow> ident \<Rightarrow> db \<Rightarrow> db" where
  "update_last_used now k d = set_token k (\<lambda>t. t\<lparr>at_last_used_at := Some now\<rparr>) d"

section \<open>HeartbeatRepository\<close>

definition heartbeat_record ::
  "datetime \<Rightarrow> ident \<Rightarrow> string option \<Rightarrow> string option \<Rightarrow> datetime option \<Rightarrow> db \<Rightarrow> db" where
  "heartbeat_record now server_id agent_version ip collected_at d =
     d\<lparr>ops_agent_heartbeat := repo_create (\<lambda>k. \<lparr>hb_id = k, hb_server_id = server_id,
        hb_agent_version = agent_version, hb_ip_address = ip,
        hb_collected_at = (case collected_at of None \<Rightarrow> now | Some c \<Rightarrow> c)\<rparr>) (ops_agent_heartbeat d)\<rparr>"

section \<open>ServiceRepository\<close>

abbreviation services :: "db \<Rightarrow> OpsServerService list" where
  "services d \<equiv> rows (ops_server_service d)"

definition get_by_server_service :: "db \<Rightarrow> ident \<Rightarrow> string \<Rightarrow> OpsServerService option" where
  "get_by_server_service d server_id service_name =
     repo_get_by OpsServerService_model (ops_server_service d)
       (\<lambda>s. ss_server_id s = server_id \<and> ss_service_name s = service_name)"

definition set_service :: "ident \<Rightarrow> (OpsServerService \<Rightarrow> OpsServerService) \<Rightarrow> db \<Rightarrow> db" where
  "set_service k f d =
     d\<lparr>ops_server_service := repo_update OpsServerService_model k f (ops_server_service d)\<rparr>"

definition upsert_status :: "datetime \<Rightarrow> ident \<Rightarrow> string \<Rightarrow> string \<Rightarrow> db \<Rightarrow> db" where
  "upsert_status now server_id service_name current_status d =
     (case get_by_server_service d server_id service_name of
        Some existing \<Rightarrow>
          set_service (ss_id existing)
            (\<lambda>s. s\<lparr>ss_current_status := Some current_status, ss_last_checked_at := Some now\<rparr>) d
      | None \<Rightarrow>
          d\<lparr>ops_server_service := repo_create (\<lambda>k. \<lparr>ss_id = k, ss_server_id = server_id,
             ss_service_name = service_name, ss_display_name = Some service_name,
             ss_service_type = ''SYSTEMD'', ss_is_whitelisted = 1, ss_is_critical = 0,
             ss_current_status = Some current_status, ss_last_checked_at = Some now,
             ss_status = 1\<rparr>) (ops_server_service d)\<rparr>)"

definition list_by_server :: "db \<Rightarrow> ident \<Rightarrow> OpsServerService list" where
  "list_by_server d server_id =
     repo_list_all OpsServerService_model (ops_server_service d) (\<lambda>s. ss_server_id s = server_id)"

definition set_whitelist :: "ident \<Rightarrow> int \<Rightarrow> db \<Rightarrow> db" where
  "set_whitelist k is_whitelisted d = set_service k (\<lambda>s. s\<lparr>ss_is_whitelisted := is_whitelisted\<rparr>) d"

section \<open>DiskRepository and NetworkRepository\<close>

abbreviation disks :: "db \<Rightarrow> OpsServerDisk list" where
  "disks d \<equiv> rows (ops_server_disk d)"

abbreviation networks :: "db \<Rightarrow> OpsServerNetwork list" where
  "networks d \<equiv> rows (ops_server_network d)"

text \<open>The mount point is compared with \<open>IS NULL\<close> when it is \<open>None\<close>, so options are compared.\<close>

definition disk_key :: "OpsServerDisk \<Rightarrow> ident \<times> string \<times> string option" where
  "disk_key k = (dk_server_id k, dk_device_name k, dk_mount_point k)"

definition disk_upsert ::
  "ident \<Rightarrow> string \<Rightarrow> string option \<Rightarrow> string option \<Rightarrow> int option \<Rightarrow> db \<Rightarrow> db" where
  "disk_upsert server_id device_name mount_point filesystem total_bytes d =
     (case List.find (\<lambda>k. disk_key k = (server_id, device_name, mount_point)) (disks d) of
        Some existing \<Rightarrow>
          d\<lparr>ops_server_disk := tbl_modify (\<lambda>k. dk_id k = dk_id existing)
             (\<lambda>k. k\<lparr>dk_filesystem := py_or filesystem (dk_filesystem k),
                    dk_total_bytes := keep total_bytes (dk_total_bytes k)\<rparr>) (ops_server_disk d)\<rparr>
      | None \<Rightarrow>
          d\<lparr>ops_server_disk := repo_create (\<lambda>k. \<lparr>dk_id = k, dk_server_id = server_id,
             dk_device_name = device_name, dk_mount_point = mount_point,
             dk_filesystem = filesystem, dk_total_bytes = total_bytes, dk_status = 1\<rparr>)
             (ops_server_disk d)\<rparr>)"

definition disk_delete_missing :: "ident \<Rightarrow> (string \<times> string option) list \<Rightarrow> db \<Rightarrow> db" where
  "disk_delete_missing server_id present_keys d =
     d\<lparr>ops_server_disk := tbl_delete
        (\<lambda>k. dk_server_id k = server_id \<and> (dk_device_name k, dk_mount_point k) \<notin> set present_keys)
        (ops_server_disk d)\<rparr>"

definition network_key :: "OpsServerNetwork \<Rightarrow> ident \<times> string" where
  "network_key n = (nw_server_id n, nw_interface_name n)"

definition network_upsert ::
  "ident \<Rightarrow> string \<Rightarrow> string option \<Rightarrow> string option \<Rightarrow> db \<Rightarrow> db" where
  "network_upsert server_id interface_name mac_address ip_address d =
     (case List.find (\<lambda>n. network_key n = (server_id, interface_name)) (networks d) of
        Some existing \<Rightarrow>
          d\<lparr>ops_server_network := tbl_modify (\<lambda>n. nw_id n = nw_id existing)
             (\<lambda>n. n\<lparr>nw_mac_address := py_or mac_address (nw_mac_address n),
                    nw_ip_address := py_or ip_address (nw_ip_address n)\<rparr>) (ops_server_network d)\<rparr>
      | None \<Rightarrow>
          d\<lparr>ops_server_network := repo_create (\<lambda>k. \<lparr>nw_id = k, nw_server_id = server_id,
             nw_interface_name = interface_name, nw_mac_address = mac_address,
             nw_ip_address = ip_address, nw_status = 1\<rparr>) (ops_server_network d)\<rparr>)"

definition network_delete_missing :: "ident \<Rightarrow> string list \<Rightarrow> db \<Rightarrow> db" where
  "network_delete_missing server_id network_keys d =
     d\<lparr>ops_server_network := tbl_delete
        (\<lambda>n. nw_server_id n = server_id \<and> nw_interface_name n \<notin> set network_keys)
        (ops_server_network d)\<rparr>"

end
