(* ===== verification/Task_Service.thy ===== *)
theory Task_Service
  imports Task_Repository Server_Repository
begin

text \<open>
  The task engine (\<open>backend/app/services/task_service.py\<close> and the request schema of
  \<open>backend/app/schemas/task.py\<close>): creation, confirmation and cancellation of tasks, the poll and
  the report of an agent, the four sweeps of the scheduler, and the aggregation of a task's
  status from its executions.

  An operation is a function of the database; \<open>Inl\<close> is the exception that leaves the service
  before its \<open>commit\<close>, so the database is unchanged then. Each operation reads the clock once,
  as its argument \<open>now\<close>. \<open>croniter\<close> is a parameter: \<open>cron_next expr base\<close> is the first fire time
  after \<open>base\<close>, \<open>None\<close> when the library raises.
\<close>

section \<open>Requests\<close>

definition CONFIRM_REQUIRED_ACTIONS :: "string list" where
  "CONFIRM_REQUIRED_ACTIONS = [''START'', ''STOP'', ''RESTART'']"

record TaskCreate =
  tc_task_name :: string
  tc_task_type :: string
  tc_action :: "string option"
  tc_service_name :: "string option"
  tc_server_ids :: "ident list"
  tc_schedule_type :: string
  tc_cron_expression :: "string option"
  tc_timeout_seconds :: int
  tc_max_attempts :: int
  tc_confirmation_required :: "bool option"

text \<open>The \<open>Field\<close> constraints of the schema.\<close>

definition task_create_valid :: "TaskCreate \<Rightarrow> bool" where
  "task_create_valid c \<longleftrightarrow>
     1 \<le> code_points (tc_task_name c) \<and> code_points (tc_task_name c) \<le> 128 \<and>
     max_length 64 (tc_service_name c) \<and> max_length 128 (tc_cron_expression c) \<and>
     tc_server_ids c \<noteq> [] \<and>
     10 \<le> tc_timeout_seconds c \<and> tc_timeout_seconds c \<le> 3600 \<and>
     1 \<le> tc_max_attempts c \<and> tc_max_attempts c \<le> 10"

section \<open>Helpers\<close>

definition TASK_TYPE_ACTION :: "string \<Rightarrow> string option option" where
  "TASK_TYPE_ACTION t =
     (if t = ''SERVICE_CHECK'' then Some (Some ''STATUS'')
      else if t = ''SERVICE_ACTION'' then Some None
      else if t = ''SERVICE_LOG'' then Some (Some ''LOGS'')
      else None)"

definition normalize_action :: "TaskCreate \<Rightarrow> string result" where
  "normalize_action data =
     (case TASK_TYPE_ACTION (tc_task_type data) of
        None \<Rightarrow> Inl KeyError
      | Some (Some allowed) \<Rightarrow>
          if tc_action data \<noteq> None \<and> tc_action data \<noteq> Some allowed
          then Inl (AppException TASK_ACTION_INVALID 400)
          else Inr allowed
      | Some None \<Rightarrow>
          (case tc_action data of
             None \<Rightarrow> Inl (AppException TASK_ACTION_INVALID 400)
           | Some a \<Rightarrow>
               if a \<in> {''START'', ''STOP'', ''RESTART''} then Inr a
               else Inl (AppException TASK_ACTION_INVALID 400)))"

fun validate_server_list :: "db \<Rightarrow> ident list \<Rightarrow> OpsServer list result" where
  "validate_server_list d [] = Inr []"
| "validate_server_list d (sid # sids) =
     (case server_get d sid of
        None \<Rightarrow> Inl (AppException SERVER_NOT_FOUND 404)
      | Some s \<Rightarrow> bindE (validate_server_list d sids) (\<lambda>ss. Inr (s # ss)))"

definition validate_servers :: "db \<Rightarrow> ident list \<Rightarrow> OpsServer list result" where
  "validate_servers d server_ids = validate_server_list d (py_set server_ids)"

fun whitelisted_on :: "db \<Rightarrow> string \<Rightarrow> OpsServer list \<Rightarrow> unit result" where
  "whitelisted_on d service_name [] = Inr ()"
| "whitelisted_on d service_name (s # ss) =
     (case get_by_server_service d (sv_id s) service_name of
        None \<Rightarrow> Inl (AppException SERVICE_NOT_WHITELISTED 403)
      | Some svc \<Rightarrow>
          if ss_is_whitelisted svc \<noteq> 1 then Inl (AppException SERVICE_NOT_WHITELISTED 403)
          else whitelisted_on d service_name ss)"

definition validate_service_whitelist ::
  "db \<Rightarrow> OpsServer list \<Rightarrow> string option \<Rightarrow> string \<Rightarrow> unit result" where
  "validate_service_whitelist d ss service_name action =
     (if action \<in> {''STATUS'', ''LOGS''} then Inr ()
      else if \<not> truthy service_name then Inl (AppException BAD_REQUEST 400)
      else whitelisted_on d (the service_name) ss)"

text \<open>
  \<open>latest\<close>: the dictionary from a target to its execution with the highest attempt, in insertion
  order; a later row replaces an earlier one only when its attempt is strictly higher.
\<close>

fun dict_set :: "'k \<Rightarrow> 'v \<Rightarrow> ('k \<times> 'v) list \<Rightarrow> ('k \<times> 'v) list" where
  "dict_set k v [] = [(k, v)]"
| "dict_set k v ((j, u) # kvs) = (if j = k then (k, v) # kvs else (j, u) # dict_set k v kvs)"

definition latest_step ::
  "OpsTaskExecution \<Rightarrow> (ident \<times> OpsTaskExecution) list \<Rightarrow> (ident \<times> OpsTaskExecution) list" where
  "latest_step e latest =
     (case map_of latest (ex_target_id e) of
        None \<Rightarrow> dict_set (ex_target_id e) e latest
      | Some current \<Rightarrow>
          if ex_attempt e > ex_attempt current then dict_set (ex_target_id e) e latest else latest)"

definition latest_attempts :: "OpsTaskExecution list \<Rightarrow> (ident \<times> OpsTaskExecution) list" where
  "latest_attempts es = fold latest_step es []"

definition derive_status :: "task_status set \<Rightarrow> task_status" where
  "derive_status statuses =
     (if RETRYING \<in> statuses then RETRYING
      else if PENDING \<in> statuses \<or> RUNNING \<in> statuses then RUNNING
      else if DEAD \<in> statuses then DEAD
      else if FAILED \<in> statuses \<or> TIMEOUT \<in> statuses then FAILED
      else if statuses \<subseteq> {SUCCESS} then SUCCESS
      else if statuses \<subseteq> {CANCELLED} then CANCELLED
      else if SUCCESS \<in> statuses then SUCCESS else FAILED)"

definition aggregate_task_status :: "datetime \<Rightarrow> ident \<Rightarrow> db \<Rightarrow> db" where
  "aggregate_task_status now task_id d =
     (let es = list_by_task d task_id
      in if es = [] then set_task task_id (\<lambda>t. t\<lparr>tk_status := PENDING\<rparr>) d
         else let status = derive_status (set (map (ex_status \<circ> snd) (latest_attempts es)))
              in set_task task_id (\<lambda>t. t\<lparr>tk_status := status,
                   tk_finished_at := (if terminal_status status then Some now else tk_finished_at t)\<rparr>) d)"

definition can_retry :: "datetime \<Rightarrow> OpsTask \<Rightarrow> OpsTaskExecution \<Rightarrow> bool" where
  "can_retry now task execution =
     (if ex_attempt execution \<ge> tk_max_attempts task then False
      else if (case tk_deadline_at task of None \<Rightarrow> False | Some dl \<Rightarrow> now \<ge> dl) then False
      else True)"

section \<open>Creation, confirmation, queries, cancellation\<close>

definition get_task_entity :: "db \<Rightarrow> ident \<Rightarrow> OpsTask result" where
  "get_task_entity d task_id =
     (case task_get d task_id of None \<Rightarrow> Inl (AppException TASK_NOT_FOUND 404) | Some t \<Rightarrow> Inr t)"

definition new_task ::
  "datetime \<Rightarrow> TaskCreate \<Rightarrow> ident \<Rightarrow> string option \<Rightarrow> string \<Rightarrow> bool \<Rightarrow> ident \<Rightarrow> OpsTask" where
  "new_task now data creator_id idempotency_key action confirm_required k = \<lparr>
     tk_id = k,
     tk_task_name = tc_task_name data,
     tk_task_type = tc_task_type data,
     tk_action = Some action,
     tk_service_name = tc_service_name data,
     tk_schedule_type = tc_schedule_type data,
     tk_cron_expression = tc_cron_expression data,
     tk_status = (if tc_schedule_type data = ''CRON'' \<or> confirm_required then CREATED else PENDING),
     tk_created_by = creator_id,
     tk_started_at = None,
     tk_finished_at = None,
     tk_timeout_seconds = tc_timeout_seconds data,
     tk_max_attempts = tc_max_attempts data,
     tk_attempt = 0,
     tk_deadline_at = Some (now + timedelta_seconds (tc_timeout_seconds data * tc_max_attempts data)),
     tk_idempotency_key = idempotency_key,
     tk_confirmation_required = (if confirm_required then 1 else 0),
     tk_confirmed_by = None,
     tk_confirmed_at = None,
     tk_created_at = now\<rparr>"

text \<open>The unique key \<open>uk_ops_task_idempotency\<close> admits any number of \<open>NULL\<close> keys.\<close>

definition insert_task :: "(ident \<Rightarrow> OpsTask) \<Rightarrow> db \<Rightarrow> (ident \<times> db) result" where
  "insert_task mk d =
     (let k = next_id (ops_task d); key = tk_idempotency_key (mk k)
      in if key \<noteq> None \<and> key \<in> set (map tk_idempotency_key (tasks d)) then Inl IntegrityError
         else Inr (k, d\<lparr>ops_task := repo_create mk (ops_task d)\<rparr>))"

text \<open>Returns the primary key of the created, or of the already existing, task.\<close>

definition create_task ::
  "datetime \<Rightarrow> TaskCreate \<Rightarrow> ident \<Rightarrow> string option \<Rightarrow> db \<Rightarrow> (ident \<times> db) result" where
  "create_task now data creator_id idempotency_key d =
     (case (if truthy idempotency_key then get_by_idempotency_key d (the idempotency_key) else None) of
        Some existing \<Rightarrow> Inr (tk_id existing, d)
      | None \<Rightarrow>
          bindE (normalize_action data) (\<lambda>action.
          bindE (validate_servers d (tc_server_ids data)) (\<lambda>ss.
          bindE (validate_service_whitelist d ss (tc_service_name data) action) (\<lambda>_.
          let confirm_required = (case tc_confirmation_required data of
                                    Some c \<Rightarrow> c
                                  | None \<Rightarrow> action \<in> set CONFIRM_REQUIRED_ACTIONS)
          in bindE (insert_task (new_task now data creator_id idempotency_key action confirm_required) d)
             (\<lambda>(task_id, d1).
               let (tgts, d2) = create_targets task_id (map sv_id ss) d1
               in bindE (if tc_schedule_type data = ''ONCE'' then create_executions task_id tgts d2
                         else Inr d2)
                  (\<lambda>d3. Inr (task_id, d3)))))))"

definition confirm_task :: "datetime \<Rightarrow> ident \<Rightarrow> ident \<Rightarrow> db \<Rightarrow> db result" where
  "confirm_task now task_id operator_id d =
     bindE (get_task_entity d task_id) (\<lambda>task.
       if tk_status task \<noteq> CREATED then Inl (AppException BAD_REQUEST 400)
       else Inr (set_task task_id (\<lambda>t. t\<lparr>tk_status := PENDING, tk_confirmed_by := Some operator_id,
                   tk_confirmed_at := Some now\<rparr>) d))"

record TaskExecutionOut =
  xo_id :: ident
  xo_task_id :: ident
  xo_server_id :: ident
  xo_server_hostname :: "string option"
  xo_status :: task_status
  xo_exit_code :: "int option"
  xo_result_text :: "string option"
  xo_error_message :: "string option"
  xo_started_at :: "datetime option"
  xo_finished_at :: "datetime option"
  xo_duration_ms :: "int option"

record ExecutionDetail = TaskExecutionOut +
  xo_logs :: "log_text list"

text \<open>The host names come from a plain \<open>select\<close>, which does not filter deleted servers.\<close>

definition get_task_detail :: "db \<Rightarrow> ident \<Rightarrow> (OpsTask \<times> ExecutionDetail list) result" where
  "get_task_detail d task_id =
     bindE (get_task_entity d task_id) (\<lambda>task.
       Inr (task, map (\<lambda>e. \<lparr>
              xo_id = ex_id e, xo_task_id = ex_task_id e, xo_server_id = ex_server_id e,
              xo_server_hostname = map_option sv_hostname
                (List.find (\<lambda>s. sv_id s = ex_server_id e) (servers d)),
              xo_status = ex_status e, xo_exit_code = ex_exit_code e, xo_result_text = ex_result_text e,
              xo_error_message = ex_error_message e, xo_started_at = ex_started_at e,
              xo_finished_at = ex_finished_at e, xo_duration_ms = ex_duration_ms e,
              xo_logs = map lg_log_content (logs_by_execution d (ex_id e))\<rparr>)
            (list_by_task d task_id)))"

definition task_cancelled_text :: string where
  "task_cancelled_text =
     [CHR 0xE4, CHR 0xBB, CHR 0xBB, CHR 0xE5, CHR 0x8A, CHR 0xA1, CHR 0xE8, CHR 0xA2, CHR 0xAB,
      CHR 0xE5, CHR 0x8F, CHR 0x96, CHR 0xE6, CHR 0xB6, CHR 0x88]"

definition cancel_task :: "datetime \<Rightarrow> ident \<Rightarrow> db \<Rightarrow> db result" where
  "cancel_task now task_id d =
     bindE (get_task_entity d task_id) (\<lambda>task.
       if terminal_status (tk_status task) then Inl (AppException BAD_REQUEST 400)
       else Inr (aggregate_task_status now task_id
              (fold (\<lambda>e d. if ex_status e = PENDING
                           then finish now CANCELLED None None (Some task_cancelled_text) None (ex_id e) d
                           else d)
                 (list_by_task d task_id) d)))"

section \<open>The poll and the report of an agent\<close>

record AssignedTask =
  as_execution_id :: ident
  as_task_id :: ident
  as_action :: "string option"
  as_service_name :: "string option"
  as_timeout_seconds :: int

text \<open>
  One claimed execution: it is marked, its task is \<open>RUNNING\<close> with a start time, and the agent is
  told what to do. The join of the query guarantees that the task exists.
\<close>

definition claim_execution ::
  "datetime \<Rightarrow> OpsTaskExecution \<Rightarrow> AssignedTask list \<times> db \<Rightarrow> AssignedTask list \<times> db" where
  "claim_execution now e = (\<lambda>(assigned, d).
     let d1 = mark_running now (ex_id e) d;
         d2 = set_task (ex_task_id e) (\<lambda>t. t\<lparr>tk_status := RUNNING,
                tk_started_at := (case tk_started_at t of None \<Rightarrow> Some now | Some s \<Rightarrow> Some s)\<rparr>) d1
     in case task_get d (ex_task_id e) of
          None \<Rightarrow> (assigned, d2)
        | Some task \<Rightarrow>
            (assigned @ [\<lparr>as_execution_id = ex_id e, as_task_id = tk_id task, as_action = tk_action task,
                as_service_name = tk_service_name task,
                as_timeout_seconds = tk_timeout_seconds task\<rparr>], d2))"

definition fetch_pending :: "datetime \<Rightarrow> ident \<Rightarrow> db \<Rightarrow> AssignedTask list \<times> db" where
  "fetch_pending now server_id d =
     fold (claim_execution now) (fetch_pending_by_server d server_id 10) ([], d)"

record TaskResultRequest =
  tr_execution_id :: ident
  tr_status :: string
  tr_exit_code :: "int option"
  tr_result_text :: "string option"
  tr_error_message :: "string option"
  tr_error_type :: "string option"
  tr_logs :: "string option"

definition budget_exhausted_text :: string where
  "budget_exhausted_text =
     [CHR 0xE9, CHR 0x87, CHR 0x8D, CHR 0xE8, CHR 0xAF, CHR 0x95, CHR 0xE9, CHR 0xA2, CHR 0x84,
      CHR 0xE7, CHR 0xAE, CHR 0x97, CHR 0xE8, CHR 0x80, CHR 0x97, CHR 0xE5, CHR 0xB0, CHR 0xBD]"

definition text_or :: "string option \<Rightarrow> log_text \<Rightarrow> log_text" where
  "text_or x l = (if truthy x then LogText (the x) else l)"

text \<open>The three outcomes of a failure, for an execution \<open>e\<close> of \<open>task\<close> that has not ended.\<close>

definition report_failure ::
  "datetime \<Rightarrow> TaskResultRequest \<Rightarrow> OpsTask \<Rightarrow> OpsTaskExecution \<Rightarrow> db \<Rightarrow> db" where
  "report_failure now r task e d =
     (let failed_type = classify_error (tr_error_type r) (tr_error_message r);
          k = ex_id e
      in if is_retryable (tr_error_type r) (tr_error_message r) \<and> can_retry now task e then
           let next_retry_at = now + timedelta_seconds (backoff_seconds (ex_attempt e))
           in log_record k (LogRetryPlanned (ex_attempt e) failed_type next_retry_at) LEVEL_ERROR
                (mark_retrying now failed_type (tr_error_message r) next_retry_at k d)
         else if is_retryable (tr_error_type r) (tr_error_message r) then
           log_record k (LogNoMoreRetry failed_type) LEVEL_ERROR
             (mark_dead now failed_type (Some (or_text (tr_error_message r) budget_exhausted_text)) k d)
         else
           log_record k (text_or (tr_error_message r) LogExecutionFailed) LEVEL_ERROR
             (finish now FAILED (tr_exit_code r) None (tr_error_message r) (Some failed_type) k d))"

definition report_result :: "datetime \<Rightarrow> ident \<Rightarrow> TaskResultRequest \<Rightarrow> db \<Rightarrow> db result" where
  "report_result now server_id r d =
     (case execution_get d (tr_execution_id r) of
        None \<Rightarrow> Inl (AppException TASK_EXECUTION_NOT_FOUND 404)
      | Some e \<Rightarrow>
          if ex_server_id e \<noteq> server_id then Inl (AppException TASK_EXECUTION_NOT_FOUND 404)
          else if terminal_status (ex_status e) then Inr d
          else bindE (get_task_entity d (ex_task_id e)) (\<lambda>task.
            Inr (aggregate_task_status now (tk_id task)
              (if tr_status r = ''SUCCESS''
               then log_record (ex_id e)
                      (text_or (py_or (tr_logs r) (tr_result_text r)) LogExecutionOk) LEVEL_INFO
                      (finish now SUCCESS (tr_exit_code r) (tr_result_text r) None None (ex_id e) d)
               else report_failure now r task e d))))"

section \<open>The sweeps of the scheduler\<close>

definition scan_task :: "datetime \<Rightarrow> OpsTask \<Rightarrow> int \<times> db \<Rightarrow> int \<times> db" where
  "scan_task now task = (\<lambda>(total, d).
     let expired = filter (\<lambda>e. is_expired now e (tk_timeout_seconds task)) (list_by_task d (tk_id task));
         d1 = fold (\<lambda>e d. mark_timeout now (tk_timeout_seconds task) (ex_id e) d) expired d
     in (total + int (length expired),
         if expired = [] then d1 else aggregate_task_status now (tk_id task) d1))"

definition scan_timeouts :: "datetime \<Rightarrow> db \<Rightarrow> int \<times> db" where
  "scan_timeouts now d =
     fold (scan_task now) (repo_list_all OpsTask_model (ops_task d) (\<lambda>t. tk_status t = RUNNING)) (0, d)"

definition dispatch_one :: "datetime \<Rightarrow> OpsTaskExecution \<Rightarrow> int \<times> db \<Rightarrow> (int \<times> db) result" where
  "dispatch_one now e = (\<lambda>(created, d).
     bindE (get_task_entity d (ex_task_id e)) (\<lambda>task.
       if terminal_status (tk_status task) then
         Inr (created, finish now FAILED None None (ex_error_message e) (ex_error_type e) (ex_id e) d)
       else if \<not> can_retry now task e then
         Inr (created,
           aggregate_task_status now (tk_id task)
             (log_record (ex_id e) LogBudgetExhausted LEVEL_ERROR
               (mark_dead now (or_text (ex_error_type e) UNKNOWN_ERROR_TYPE)
                 (Some (or_text (ex_error_message e) budget_exhausted_text)) (ex_id e) d)))
       else
         let next_attempt = ex_attempt e + 1
         in bindE (create_execution (tk_id task) (ex_target_id e) (ex_server_id e) next_attempt
                    (finish now FAILED None None (ex_error_message e) (ex_error_type e) (ex_id e) d))
            (\<lambda>d1.
              Inr (created + 1,
                aggregate_task_status now (tk_id task)
                  (log_record (ex_id e) (LogAttemptCreated next_attempt) LEVEL_INFO
                    (set_target (ex_target_id e) (\<lambda>g. g\<lparr>tg_target_status := PENDING\<rparr>)
                      (set_task (tk_id task) (\<lambda>t. t\<lparr>tk_attempt := next_attempt\<rparr>) d1)))))))"

definition dispatch_retries :: "datetime \<Rightarrow> nat \<Rightarrow> db \<Rightarrow> (int \<times> db) result" where
  "dispatch_retries now limit d = foldE (dispatch_one now) (list_due_retries d now limit) (0, d)"

definition cleanup_history :: "datetime \<Rightarrow> int \<Rightarrow> db \<Rightarrow> (int \<times> int) \<times> db" where
  "cleanup_history now retention_days d =
     (let cutoff = now - timedelta_days retention_days;
          (n_executions, d1) = delete_terminal_before cutoff d;
          (n_tasks, d2) = delete_finished_tasks_before cutoff d1
      in ((n_executions, n_tasks), d2))"

definition fire_one ::
  "(string \<Rightarrow> datetime \<Rightarrow> datetime option) \<Rightarrow> datetime \<Rightarrow> OpsTask \<Rightarrow> int \<times> db \<Rightarrow> (int \<times> db) result" where
  "fire_one cron_next now task = (\<lambda>(fired, d).
     if tk_schedule_type task \<noteq> ''CRON'' \<or> \<not> truthy (tk_cron_expression task) then Inr (fired, d)
     else case cron_next (the (tk_cron_expression task)) (tk_created_at task) of
            None \<Rightarrow> Inr (fired, d)
          | Some next_time \<Rightarrow>
              if next_time \<le> now then
                bindE (create_executions (tk_id task) (targets_by_task d (tk_id task)) d) (\<lambda>d1.
                  Inr (fired + 1,
                    set_task (tk_id task) (\<lambda>t. t\<lparr>tk_status := RUNNING,
                      tk_started_at := (case tk_started_at t of None \<Rightarrow> Some now | Some s \<Rightarrow> Some s)\<rparr>) d1))
              else Inr (fired, d))"

definition fire_due_cron ::
  "(string \<Rightarrow> datetime \<Rightarrow> datetime option) \<Rightarrow> datetime \<Rightarrow> db \<Rightarrow> (int \<times> db) result" where
  "fire_due_cron cron_next now d = foldE (fire_one cron_next now) (list_pending_cron d) (0, d)"

end
