(* ===== verification/Task_Invariant.thy ===== *)
theory Task_Invariant
  imports Task_Service
begin

text \<open>
  The data invariant of the task tables and its preservation by every operation of the task
  engine. It says what the code relies on and never checks: keys are unique, references resolve,
  an execution that has not ended is the newest attempt of its target, attempts lie within the
  budget of the task, and a CRON task that waits to be fired has no execution yet.
\<close>

section \<open>The invariant\<close>

definition active_execution :: "OpsTaskExecution \<Rightarrow> bool" where
  "active_execution e \<longleftrightarrow> \<not> terminal_status (ex_status e)"

definition waiting_cron :: "OpsTask \<Rightarrow> bool" where
  "waiting_cron t \<longleftrightarrow> tk_schedule_type t = ''CRON'' \<and> tk_status t \<in> {CREATED, PENDING}"

text \<open>What an operation never changes of a row once it is there.\<close>

definition task_static :: "OpsTask \<Rightarrow> ident \<times> int \<times> string \<times> string option" where
  "task_static t = (tk_id t, tk_max_attempts t, tk_schedule_type t, tk_idempotency_key t)"

definition target_static :: "OpsTaskTarget \<Rightarrow> ident \<times> ident \<times> ident" where
  "target_static g = (tg_id g, tg_task_id g, tg_server_id g)"

definition execution_static :: "OpsTaskExecution \<Rightarrow> ident \<times> ident \<times> ident \<times> ident \<times> int" where
  "execution_static e = (ex_id e, ex_task_id e, ex_target_id e, ex_server_id e, ex_attempt e)"

definition task_keys :: "db \<Rightarrow> bool" where
  "task_keys d \<longleftrightarrow> tbl_wf tk_id (ops_task d) \<and> tbl_wf tg_id (ops_task_target d) \<and>
     tbl_wf ex_id (ops_task_execution d) \<and> distinct (map execution_key (executions d))"

definition idempotency_unique :: "db \<Rightarrow> bool" where
  "idempotency_unique d \<longleftrightarrow>
     distinct (map tk_idempotency_key (filter (\<lambda>t. tk_idempotency_key t \<noteq> None) (tasks d)))"

definition frontier :: "db \<Rightarrow> bool" where
  "frontier d \<longleftrightarrow> (\<forall>e \<in> set (executions d). \<forall>e' \<in> set (executions d).
     active_execution e \<longrightarrow> ex_target_id e' = ex_target_id e \<longrightarrow> ex_attempt e' \<le> ex_attempt e)"

text \<open>\<open>CREATED\<close> is a status of tasks only.\<close>

definition execution_states :: "db \<Rightarrow> bool" where
  "execution_states d \<longleftrightarrow> (\<forall>e \<in> set (executions d). ex_status e \<noteq> CREATED)"

definition task_refs :: "db \<Rightarrow> bool" where
  "task_refs d \<longleftrightarrow>
     (\<forall>e \<in> set (executions d).
        (\<exists>t \<in> set (tasks d). tk_id t = ex_task_id e \<and> 1 \<le> ex_attempt e \<and> ex_attempt e \<le> tk_max_attempts t) \<and>
        (\<exists>g \<in> set (targets d). tg_id g = ex_target_id e \<and> tg_task_id g = ex_task_id e \<and>
           tg_server_id g = ex_server_id e)) \<and>
     (\<forall>g \<in> set (targets d). \<exists>t \<in> set (tasks d). tk_id t = tg_task_id g) \<and>
     (\<forall>t \<in> set (tasks d). 1 \<le> tk_max_attempts t)"

definition cron_idle :: "db \<Rightarrow> bool" where
  "cron_idle d \<longleftrightarrow> (\<forall>t \<in> set (tasks d). waiting_cron t \<longrightarrow>
     (\<forall>e \<in> set (executions d). ex_task_id e \<noteq> tk_id t))"

text \<open>\<open>task_core\<close> also holds while the executions of a CRON task are being inserted.\<close>

definition task_core :: "db \<Rightarrow> bool" where
  "task_core d \<longleftrightarrow> task_keys d \<and> idempotency_unique d \<and> frontier d \<and> execution_states d \<and>
     task_refs d"

definition task_inv :: "db \<Rightarrow> bool" where
  "task_inv d \<longleftrightarrow> task_core d \<and> cron_idle d"

lemmas task_inv_defs = task_inv_def task_core_def task_keys_def idempotency_unique_def frontier_def
  execution_states_def task_refs_def cron_idle_def
lemmas static_defs = task_static_def target_static_def execution_static_def execution_key_def

lemma task_inv_empty: "task_inv empty_db"
  by (simp add: task_inv_defs empty_db_def) (simp add: empty_table_def)

lemma task_inv_tables:
  assumes "task_inv d" and "ops_task d' = ops_task d" and "ops_task_target d' = ops_task_target d"
    and "ops_task_execution d' = ops_task_execution d"
  shows "task_inv d'"
  using assms(1) unfolding task_inv_defs assms(2-4) .

section \<open>Consequences\<close>

lemma task_get_unique: "task_inv d \<Longrightarrow> t \<in> set (tasks d) \<Longrightarrow> task_get d (tk_id t) = Some t"
  using task.get_unique [of "ops_task d" t] by (simp add: task_inv_defs task_get_def)

lemma execution_get_unique:
  "task_inv d \<Longrightarrow> e \<in> set (executions d) \<Longrightarrow> execution_get d (ex_id e) = Some e"
  using execution.get_unique [of "ops_task_execution d" e] by (simp add: task_inv_defs execution_get_def)

lemma execution_id_inj:
  "task_inv d \<Longrightarrow> e \<in> set (executions d) \<Longrightarrow> e' \<in> set (executions d) \<Longrightarrow> ex_id e = ex_id e' \<Longrightarrow> e = e'"
  using tbl_wf_inj [of ex_id "ops_task_execution d"] by (simp add: task_inv_defs)

lemma execution_key_inj:
  "task_inv d \<Longrightarrow> e \<in> set (executions d) \<Longrightarrow> e' \<in> set (executions d) \<Longrightarrow>
   execution_key e = execution_key e' \<Longrightarrow> e = e'"
  by (auto simp: task_inv_defs distinct_map dest: inj_onD)

lemma target_id_inj:
  "task_inv d \<Longrightarrow> g \<in> set (targets d) \<Longrightarrow> h \<in> set (targets d) \<Longrightarrow> tg_id g = tg_id h \<Longrightarrow> g = h"
  using tbl_wf_inj [of tg_id "ops_task_target d"] by (simp add: task_inv_defs)

lemma task_id_inj:
  "task_inv d \<Longrightarrow> t \<in> set (tasks d) \<Longrightarrow> u \<in> set (tasks d) \<Longrightarrow> tk_id t = tk_id u \<Longrightarrow> t = u"
  using tbl_wf_inj [of tk_id "ops_task d"] by (simp add: task_inv_defs)

lemma execution_task:
  assumes "task_inv d" and "e \<in> set (executions d)"
  obtains t where "t \<in> set (tasks d)" "tk_id t = ex_task_id e" "task_get d (ex_task_id e) = Some t"
    "1 \<le> ex_attempt e" "ex_attempt e \<le> tk_max_attempts t"
proof -
  from assms obtain t where t: "t \<in> set (tasks d)" "tk_id t = ex_task_id e" "1 \<le> ex_attempt e"
    "ex_attempt e \<le> tk_max_attempts t"
    unfolding task_inv_def task_core_def task_refs_def by blast
  then show ?thesis using that task_get_unique [OF assms(1) t(1)] by simp
qed

lemma execution_target:
  assumes "task_inv d" and "e \<in> set (executions d)"
  obtains g where "g \<in> set (targets d)" "tg_id g = ex_target_id e" "tg_task_id g = ex_task_id e"
    "tg_server_id g = ex_server_id e"
  using assms unfolding task_inv_def task_core_def task_refs_def by blast

lemma same_target_same_task:
  assumes "task_inv d" "e \<in> set (executions d)" "e' \<in> set (executions d)" "ex_target_id e = ex_target_id e'"
  shows "ex_task_id e = ex_task_id e' \<and> ex_server_id e = ex_server_id e'"
proof -
  obtain g where g: "g \<in> set (targets d)" "tg_id g = ex_target_id e" "tg_task_id g = ex_task_id e"
    "tg_server_id g = ex_server_id e" using execution_target assms(1,2) .
  obtain h where h: "h \<in> set (targets d)" "tg_id h = ex_target_id e'" "tg_task_id h = ex_task_id e'"
    "tg_server_id h = ex_server_id e'" using execution_target assms(1,3) .
  have "g = h" using target_id_inj [OF assms(1) g(1) h(1)] g(2) h(2) assms(4) by simp
  with g h show ?thesis by simp
qed

lemma frontierD:
  "task_inv d \<Longrightarrow> e \<in> set (executions d) \<Longrightarrow> e' \<in> set (executions d) \<Longrightarrow> active_execution e \<Longrightarrow>
   ex_target_id e' = ex_target_id e \<Longrightarrow> ex_attempt e' \<le> ex_attempt e"
  unfolding task_inv_def task_core_def frontier_def by blast

lemma one_active_per_target:
  assumes inv: "task_inv d" and e: "e \<in> set (executions d)" and e': "e' \<in> set (executions d)"
    and "active_execution e" "active_execution e'" "ex_target_id e = ex_target_id e'"
  shows "e = e'"
proof -
  have "ex_attempt e = ex_attempt e'"
    using frontierD [OF inv e e'] frontierD [OF inv e' e] assms(4-6) by simp
  with same_target_same_task [OF inv e e' assms(6)] assms(6)
  show ?thesis by (intro execution_key_inj [OF inv e e']) (simp add: execution_key_def)
qed

text \<open>The attempts of a target are pairwise different and lie between one and the budget.\<close>

lemma attempts_of_target:
  assumes inv: "task_inv d"
  shows "distinct (map ex_attempt (filter (\<lambda>e. ex_target_id e = g) (executions d)))"
  unfolding distinct_map
proof
  show "distinct (filter (\<lambda>e. ex_target_id e = g) (executions d))"
    using inv by (simp add: task_inv_defs distinct_map)
  show "inj_on ex_attempt (set (filter (\<lambda>e. ex_target_id e = g) (executions d)))"
  proof (rule inj_onI)
    fix e e' assume "e \<in> set (filter (\<lambda>e. ex_target_id e = g) (executions d))"
      "e' \<in> set (filter (\<lambda>e. ex_target_id e = g) (executions d))" and eq: "ex_attempt e = ex_attempt e'"
    then have e: "e \<in> set (executions d)" "e' \<in> set (executions d)" "ex_target_id e = ex_target_id e'"
      by auto
    from same_target_same_task [OF inv e] e(3) eq have "execution_key e = execution_key e'"
      by (simp add: execution_key_def)
    then show "e = e'" by (rule execution_key_inj [OF inv e(1,2)])
  qed
qed

section \<open>Preservation: writes to a row\<close>

lemma task_inv_set_execution [preserves]:
  assumes inv: "task_inv d"
    and st: "\<And>e. execution_static (f e) = execution_static e"
    and act: "\<And>e. e \<in> set (executions d) \<Longrightarrow> ex_id e = k \<Longrightarrow> active_execution (f e) \<Longrightarrow> active_execution e"
    and cr: "\<And>e. ex_status (f e) \<noteq> CREATED"
  shows "task_inv (set_execution k f d)"
proof -
  define h where "h = (\<lambda>e. if ex_id e = k then f e else e)"
  have st': "ex_id (h e) = ex_id e" "ex_task_id (h e) = ex_task_id e" "ex_target_id (h e) = ex_target_id e"
    "ex_server_id (h e) = ex_server_id e" "ex_attempt (h e) = ex_attempt e"
    "execution_key (h e) = execution_key e" for e
    using st [of e] by (auto simp: h_def execution_static_def execution_key_def)
  have act': "e \<in> set (executions d) \<Longrightarrow> active_execution (h e) \<Longrightarrow> active_execution e" for e
    using act [of e] by (simp add: h_def split: if_splits)
  have rows: "executions (set_execution k f d) = map h (executions d)"
    by (simp add: h_def)
  have wf: "tbl_wf ex_id (ops_task_execution (set_execution k f d))"
    using inv st unfolding set_execution_def repo_update_def
    by (auto simp: task_inv_defs execution_static_def intro!: tbl_wf_modify)
  have "task_keys (set_execution k f d)"
    using inv wf unfolding task_inv_def task_core_def task_keys_def rows by (simp add: comp_def st')
  moreover have "idempotency_unique (set_execution k f d)"
    using inv by (simp add: task_inv_def task_core_def idempotency_unique_def)
  moreover have "execution_states (set_execution k f d)"
    using inv cr unfolding task_inv_def task_core_def execution_states_def rows by (auto simp: h_def)
  moreover have "frontier (set_execution k f d)"
    using inv act' unfolding task_inv_def task_core_def frontier_def rows by (auto simp: st')
  moreover have "task_refs (set_execution k f d)"
    using inv unfolding task_inv_def task_core_def task_refs_def rows by (simp add: st')
  moreover have "cron_idle (set_execution k f d)"
    using inv unfolding task_inv_def task_core_def cron_idle_def rows by (simp add: st')
  ultimately show ?thesis by (simp add: task_inv_def task_core_def)
qed

lemma task_core_inv: "task_inv d \<Longrightarrow> task_core d"
  by (simp add: task_inv_def)

lemma task_core_set_task:
  assumes core: "task_core d" and st: "\<And>t. task_static (f t) = task_static t"
  shows "task_core (set_task k f d)"
proof -
  define h where "h = (\<lambda>t. if tk_id t = k then f t else t)"
  have st': "tk_id (h t) = tk_id t" "tk_max_attempts (h t) = tk_max_attempts t"
    "tk_idempotency_key (h t) = tk_idempotency_key t" for t
    using st [of t] by (auto simp: h_def task_static_def)
  have rows: "tasks (set_task k f d) = map h (tasks d)"
    by (simp add: h_def)
  have wf: "tbl_wf tk_id (ops_task (set_task k f d))"
    using core st unfolding set_task_def repo_update_def
    by (auto simp: task_inv_defs task_static_def intro!: tbl_wf_modify)
  have "task_keys (set_task k f d)"
    using core wf unfolding task_core_def task_keys_def by simp
  moreover have "idempotency_unique (set_task k f d)"
    using core unfolding task_core_def idempotency_unique_def rows
    by (simp add: st' filter_map comp_def del: not_None_eq)
  moreover have "frontier (set_task k f d)" "execution_states (set_task k f d)"
    using core by (simp_all add: task_core_def frontier_def execution_states_def)
  moreover have "task_refs (set_task k f d)"
    using core unfolding task_core_def task_refs_def rows by (simp add: st')
  ultimately show ?thesis by (simp add: task_core_def)
qed

lemma task_inv_set_task [preserves]:
  assumes inv: "task_inv d" and st: "\<And>t. task_static (f t) = task_static t"
    and idle: "\<And>t. t \<in> set (tasks d) \<Longrightarrow> tk_id t = k \<Longrightarrow> waiting_cron (f t) \<Longrightarrow>
      waiting_cron t \<or> (\<forall>e \<in> set (executions d). ex_task_id e \<noteq> k)"
  shows "task_inv (set_task k f d)"
proof -
  define h where "h = (\<lambda>t. if tk_id t = k then f t else t)"
  have st': "tk_id (h t) = tk_id t" for t
    using st [of t] by (auto simp: h_def task_static_def)
  have idle': "t \<in> set (tasks d) \<Longrightarrow> waiting_cron (h t) \<Longrightarrow>
      waiting_cron t \<or> (\<forall>e \<in> set (executions d). ex_task_id e \<noteq> tk_id t)" for t
    using idle [of t] by (auto simp: h_def split: if_splits)
  have rows: "tasks (set_task k f d) = map h (tasks d)"
    by (simp add: h_def)
  have "cron_idle (set_task k f d)"
    using inv idle' unfolding task_inv_def cron_idle_def rows by (auto simp: st')
  with task_core_set_task [OF task_core_inv [OF inv] st] show ?thesis by (simp add: task_inv_def)
qed

lemma task_inv_set_target [preserves]:
  assumes inv: "task_inv d" and st: "\<And>g. target_static (f g) = target_static g"
  shows "task_inv (set_target k f d)"
proof -
  define h where "h = (\<lambda>g. if tg_id g = k then f g else g)"
  have st': "tg_id (h g) = tg_id g" "tg_task_id (h g) = tg_task_id g" "tg_server_id (h g) = tg_server_id g" for g
    using st [of g] by (auto simp: h_def target_static_def)
  have rows: "targets (set_target k f d) = map h (targets d)"
    by (simp add: h_def)
  have wf: "tbl_wf tg_id (ops_task_target (set_target k f d))"
    using inv st unfolding set_target_def repo_update_def
    by (auto simp: task_inv_defs target_static_def intro!: tbl_wf_modify)
  have "task_keys (set_target k f d)"
    using inv wf unfolding task_inv_def task_core_def task_keys_def by simp
  moreover have "idempotency_unique (set_target k f d)" "frontier (set_target k f d)"
    "execution_states (set_target k f d)" "cron_idle (set_target k f d)"
    using inv by (simp_all add: task_inv_def task_core_def frontier_def execution_states_def idempotency_unique_def cron_idle_def)
  moreover have "task_refs (set_target k f d)"
    using inv unfolding task_inv_def task_core_def task_refs_def rows by (simp add: st')
  ultimately show ?thesis by (simp add: task_inv_def task_core_def)
qed

lemma task_inv_log_record [preserves]: "task_inv d \<Longrightarrow> task_inv (log_record k c l d)"
  by (rule task_inv_tables [of d]) simp_all

section \<open>Preservation: the writes of the repository\<close>

lemma active_in:
  "execution_get d k = Some e \<Longrightarrow> active_execution e \<Longrightarrow> task_inv d \<Longrightarrow>
   e' \<in> set (executions d) \<Longrightarrow> ex_id e' = k \<Longrightarrow> active_execution e'"
  using execution_get_in execution_id_inj by blast

lemma task_inv_finish [preserves]:
  "task_inv d \<Longrightarrow> terminal_status st \<Longrightarrow> task_inv (finish now st c r m t k d)"
  unfolding finish_def
  by (rule task_inv_set_execution)
    (auto simp: execution_static_def active_execution_def terminal_status_def)

lemma task_inv_mark_dead [preserves]: "task_inv d \<Longrightarrow> task_inv (mark_dead now t m k d)"
  unfolding mark_dead_def
  by (rule task_inv_set_execution)
    (auto simp: execution_static_def active_execution_def terminal_status_def)

lemma task_inv_mark_timeout [preserves]: "task_inv d \<Longrightarrow> task_inv (mark_timeout now n k d)"
  unfolding mark_timeout_def
  by (rule task_inv_set_execution)
    (auto simp: execution_static_def active_execution_def terminal_status_def)

lemma task_inv_mark_retrying [preserves]:
  assumes "task_inv d" "execution_get d k = Some e" "active_execution e"
  shows "task_inv (mark_retrying now t m r k d)"
  unfolding mark_retrying_def
  by (rule task_inv_set_execution [OF assms(1)])
    (auto simp: execution_static_def intro: active_in [OF assms(2,3,1)])

lemma task_inv_mark_running [preserves]:
  assumes "task_inv d" "execution_get d k = Some e" "active_execution e"
  shows "task_inv (mark_running now k d)"
  unfolding mark_running_def
  by (rule task_inv_set_execution [OF assms(1)])
    (auto simp: execution_static_def intro: active_in [OF assms(2,3,1)])

lemma derive_status_not_waiting: "derive_status S \<noteq> CREATED \<and> derive_status S \<noteq> PENDING"
  by (simp add: derive_status_def)

lemma task_inv_aggregate [preserves]: "task_inv d \<Longrightarrow> task_inv (aggregate_task_status now k d)"
  unfolding aggregate_task_status_def Let_def
  by (auto intro!: task_inv_set_task simp: task_static_def waiting_cron_def
      list_by_task_eq filter_empty_conv dest: derive_status_not_waiting [THEN conjunct1, THEN notE]
      derive_status_not_waiting [THEN conjunct2, THEN notE])

lemma aggregate_frame [simp, frame]:
  "ops_task_execution (aggregate_task_status now k d) = ops_task_execution d"
  "ops_task_target (aggregate_task_status now k d) = ops_task_target d"
  "ops_task_log (aggregate_task_status now k d) = ops_task_log d"
  "ops_server (aggregate_task_status now k d) = ops_server d"
  by (simp_all add: aggregate_task_status_def Let_def)

section \<open>Preservation: insertions\<close>

definition fresh_attempt :: "ident \<Rightarrow> int \<Rightarrow> db \<Rightarrow> bool" where
  "fresh_attempt g a d \<longleftrightarrow>
     (\<forall>e \<in> set (executions d). ex_target_id e = g \<longrightarrow> \<not> active_execution e \<and> ex_attempt e < a)"

lemma new_execution_simps [simp]:
  "ex_id (new_execution tid gid sid a k) = k" "ex_task_id (new_execution tid gid sid a k) = tid"
  "ex_target_id (new_execution tid gid sid a k) = gid" "ex_server_id (new_execution tid gid sid a k) = sid"
  "ex_attempt (new_execution tid gid sid a k) = a" "ex_status (new_execution tid gid sid a k) = PENDING"
  "execution_key (new_execution tid gid sid a k) = (tid, gid, a)"
  by (simp_all add: new_execution_def execution_key_def)

lemma active_new_execution [simp]: "active_execution (new_execution tid gid sid a k)"
  by (simp add: active_execution_def terminal_status_def)

lemma insert_execution_Inr:
  "insert_execution mk d = Inr d' \<Longrightarrow>
   d' = d\<lparr>ops_task_execution := repo_create mk (ops_task_execution d)\<rparr>"
  by (simp add: insert_execution_def Let_def split: if_splits)

lemma insert_execution_core:
  assumes core: "task_core d" and g: "g \<in> set (targets d)" "tg_id g = gid" "tg_task_id g = tid" "tg_server_id g = sid"
    and t: "t \<in> set (tasks d)" "tk_id t = tid" "1 \<le> a" "a \<le> tk_max_attempts t"
    and fresh: "fresh_attempt gid a d"
  shows "\<exists>d'. insert_execution (new_execution tid gid sid a) d = Inr d' \<and> task_core d'"
proof -
  let ?k = "next_id (ops_task_execution d)"
  let ?e = "new_execution tid gid sid a ?k"
  let ?d = "d\<lparr>ops_task_execution := repo_create (new_execution tid gid sid a) (ops_task_execution d)\<rparr>"
  have key: "execution_key ?e \<notin> set (map execution_key (executions d))"
    using fresh by (auto simp: fresh_attempt_def execution_key_def)
  have ex: "executions ?d = executions d @ [?e]" by (simp add: repo_create_def)
  have "task_keys ?d"
    using core key unfolding task_core_def task_keys_def ex
    by (auto simp: repo_create_def intro!: tbl_wf_insert)
  moreover have "idempotency_unique ?d"
    using core by (simp add: task_core_def idempotency_unique_def)
  moreover have "execution_states ?d"
    using core unfolding task_core_def execution_states_def ex by auto
  moreover have "frontier ?d"
    using core fresh unfolding task_core_def frontier_def fresh_attempt_def ex by fastforce
  moreover have "task_refs ?d"
    using core g t unfolding task_core_def task_refs_def ex by auto
  moreover have "insert_execution (new_execution tid gid sid a) d = Inr ?d"
    using key by (simp add: insert_execution_def Let_def)
  ultimately show ?thesis by (simp add: task_core_def)
qed

lemma create_executions_eq:
  assumes "\<And>mk i. mk \<in> set mks \<Longrightarrow> execution_key (mk i) = kk mk"
    and "distinct (map kk mks)" and "\<And>mk. mk \<in> set mks \<Longrightarrow> kk mk \<notin> execution_key ` set (executions d)"
  shows "foldE insert_execution mks d =
    Inr (d\<lparr>ops_task_execution := repo_create_many mks (ops_task_execution d)\<rparr>)"
  using assms
proof (induction mks arbitrary: d)
  case Nil
  then show ?case by (simp add: repo_create_many_def)
next
  case (Cons mk mks)
  let ?d = "d\<lparr>ops_task_execution := repo_create mk (ops_task_execution d)\<rparr>"
  have "insert_execution mk d = Inr ?d"
    using Cons.prems(1,3) by (auto simp: insert_execution_def Let_def)
  moreover have "foldE insert_execution mks ?d =
      Inr (?d\<lparr>ops_task_execution := repo_create_many mks (ops_task_execution ?d)\<rparr>)"
  proof (rule Cons.IH)
    show "distinct (map kk mks)" using Cons.prems(2) by simp
    fix mk' assume mk': "mk' \<in> set mks"
    show "execution_key (mk' i) = kk mk'" for i using Cons.prems(1) mk' by simp
    have "kk mk' \<noteq> kk mk" using Cons.prems(2) mk' by (metis distinct.simps(2) image_eqI list.map(2) set_map)
    then show "kk mk' \<notin> execution_key ` set (executions ?d)"
      using Cons.prems(1) [of mk] Cons.prems(3) [of mk'] mk' by (auto simp: repo_create_def)
  qed
  ultimately show ?case by (simp add: repo_create_many_def repo_create_def)
qed

text \<open>
  One execution per target of a task that has none: the insertion succeeds and the rows are the
  first attempts, in the order of the targets.
\<close>

lemma create_executions_core:
  assumes core: "task_core d" and t: "t \<in> set (tasks d)" "tk_id t = tid"
    and tgts: "distinct (map tg_id tgts)" "\<And>g. g \<in> set tgts \<Longrightarrow> g \<in> set (targets d) \<and> tg_task_id g = tid"
    and none: "\<And>e. e \<in> set (executions d) \<Longrightarrow> ex_task_id e \<noteq> tid"
  shows "\<exists>d'. create_executions tid tgts d = Inr d' \<and> task_core d' \<and>
    d' = d\<lparr>ops_task_execution := repo_create_many
           (map (\<lambda>g. new_execution tid (tg_id g) (tg_server_id g) 1) tgts) (ops_task_execution d)\<rparr>"
proof -
  define P where "P = (\<lambda>s. task_core s \<and> ops_task s = ops_task d \<and> ops_task_target s = ops_task_target d)"
  define Q where "Q = (\<lambda>(g :: OpsTaskTarget) s. fresh_attempt (tg_id g) 1 s)"
  have max: "1 \<le> tk_max_attempts t"
    using core t unfolding task_core_def task_refs_def by blast
  have gu: "g = h" if "g \<in> set (targets d)" "h \<in> set (targets d)" "tg_id g = tg_id h" for g h
    using core that tbl_wf_inj [of tg_id "ops_task_target d"] by (simp add: task_core_def task_keys_def)
  have step: "\<exists>s'. insert_execution (new_execution tid (tg_id g) (tg_server_id g) 1) s = Inr s' \<and> P s' \<and>
      (\<forall>h \<in> set tgts. tg_id h \<noteq> tg_id g \<longrightarrow> Q h s \<longrightarrow> Q h s')"
    if g: "g \<in> set tgts" and P: "P s" and Q: "Q g s" for g s
  proof -
    from insert_execution_core [of s g "tg_id g" tid "tg_server_id g" t 1] g P Q tgts t max
    obtain s' where s': "insert_execution (new_execution tid (tg_id g) (tg_server_id g) 1) s = Inr s'" "task_core s'"
      by (auto simp: P_def Q_def)
    with insert_execution_Inr [OF s'(1)] P show ?thesis
      by (auto simp: P_def Q_def fresh_attempt_def repo_create_def)
  qed
  have Q0: "\<forall>g \<in> set tgts. Q g d"
  proof (intro ballI)
    fix g assume g: "g \<in> set tgts"
    have False if "e \<in> set (executions d)" "ex_target_id e = tg_id g" for e
    proof -
      from core that(1) obtain h where "h \<in> set (targets d)" "tg_id h = ex_target_id e" "tg_task_id h = ex_task_id e"
        unfolding task_core_def task_refs_def by blast
      with gu [of h g] tgts(2) [OF g] that none show False by force
    qed
    then show "Q g d" by (auto simp: Q_def fresh_attempt_def)
  qed
  have "\<exists>s'. foldE (\<lambda>g. insert_execution (new_execution tid (tg_id g) (tg_server_id g) 1)) tgts d = Inr s' \<and> P s'"
    by (rule foldE_distinct [where key = tg_id and Q = Q, OF tgts(1) step]) (use Q0 core in \<open>simp_all add: P_def\<close>)
  moreover have "foldE insert_execution (map (\<lambda>g. new_execution tid (tg_id g) (tg_server_id g) 1) tgts) d =
     Inr (d\<lparr>ops_task_execution := repo_create_many
       (map (\<lambda>g. new_execution tid (tg_id g) (tg_server_id g) 1) tgts) (ops_task_execution d)\<rparr>)"
    by (rule create_executions_eq [where kk = "\<lambda>mk. execution_key (mk 0)"])
      (use tgts in \<open>auto simp: comp_def distinct_map inj_on_def execution_key_def dest: none\<close>)
  ultimately show ?thesis by (auto simp: create_executions_def foldE_map P_def)
qed

lemma execution_task_id_less:
  assumes "task_inv d" "e \<in> set (executions d)"
  shows "ex_task_id e < next_id (ops_task d)"
  using execution_task [OF assms] assms(1) by (metis task_inv_defs(1,2,3) tbl_wf_def)

lemma insert_task_inv [preserves]:
  assumes inv: "task_inv d" and ins: "insert_task mk d = Inr (k, d')"
    and mk: "\<And>i. tk_id (mk i) = i" "\<And>i. 1 \<le> tk_max_attempts (mk i)"
    "\<And>i. tk_idempotency_key (mk i) = tk_idempotency_key (mk k)"
  shows "task_inv d' \<and> k = next_id (ops_task d) \<and> tasks d' = tasks d @ [mk k] \<and>
    ops_task_target d' = ops_task_target d \<and> ops_task_execution d' = ops_task_execution d"
proof -
  let ?key = "tk_idempotency_key (mk k)"
  from ins have k: "k = next_id (ops_task d)"
    and d': "d' = d\<lparr>ops_task := repo_create mk (ops_task d)\<rparr>"
    and new: "?key = None \<or> ?key \<notin> set (map tk_idempotency_key (tasks d))"
    by (auto simp: insert_task_def Let_def split: if_splits)
  have rows: "tasks d' = tasks d @ [mk k]" by (simp add: d' k repo_create_def)
  have "tbl_wf tk_id (ops_task d')"
    using inv mk unfolding d' by (auto simp: task_inv_defs repo_create_def intro!: tbl_wf_insert)
  then have "task_keys d'"
    using inv by (simp add: task_inv_def task_core_def task_keys_def d')
  moreover have "idempotency_unique d'"
    using inv new unfolding task_inv_def task_core_def idempotency_unique_def rows
    by (auto simp del: not_None_eq)
  moreover have "frontier d'" "execution_states d'"
    using inv by (simp_all add: task_inv_def task_core_def frontier_def execution_states_def d')
  moreover have "task_refs d'"
    using inv mk(2) [of k] unfolding task_inv_def task_core_def task_refs_def rows by (auto simp: d')
  moreover have "cron_idle d'"
    using inv mk(1) [of k]
    unfolding task_inv_def cron_idle_def rows by (auto simp: d' k dest: execution_task_id_less [OF inv])
  ultimately show ?thesis using k rows by (simp add: task_inv_def task_core_def d')
qed

lemma create_targets_inv:
  assumes inv: "task_inv d" and t: "t \<in> set (tasks d)" "tk_id t = tid"
    and ct: "create_targets tid sids d = (tgts, d')"
  shows "task_inv d'" and "distinct (map tg_id tgts)"
    and "\<And>g. g \<in> set tgts \<Longrightarrow> g \<in> set (targets d') \<and> tg_task_id g = tid"
    and "map tg_server_id tgts = py_set sids"
    and "ops_task d' = ops_task d" "ops_task_execution d' = ops_task_execution d"
proof -
  let ?mks = "map (new_target tid) (py_set sids)"
  let ?n = "next_id (ops_task_target d)"
  from ct have tgts: "tgts = assign_ids ?mks ?n"
    and d': "d' = d\<lparr>ops_task_target := repo_create_many ?mks (ops_task_target d)\<rparr>"
    by (auto simp: create_targets_def Let_def)
  have rows: "targets d' = targets d @ tgts" by (simp add: d' tgts rows_repo_create_many)
  have "g \<in> set tgts \<Longrightarrow> tg_task_id g = tid" for g
    unfolding tgts by (drule assign_ids_in) (auto simp: new_target_def)
  then show mem: "\<And>g. g \<in> set tgts \<Longrightarrow> g \<in> set (targets d') \<and> tg_task_id g = tid"
    by (simp add: rows)
  show "distinct (map tg_id tgts)"
    unfolding tgts by (rule map_assign_ids_distinct) (auto simp: new_target_def)
  show "map tg_server_id tgts = py_set sids"
    unfolding tgts
    by (subst map_assign_ids [where g = "\<lambda>mk. tg_server_id (mk 0)"]) (auto simp: new_target_def comp_def)
  show fr: "ops_task d' = ops_task d" "ops_task_execution d' = ops_task_execution d"
    by (simp_all add: d')
  have "tbl_wf tg_id (ops_task_target d')"
    using inv unfolding d' by (auto simp: task_inv_defs new_target_def intro!: tbl_wf_create_many)
  then have "task_keys d'" using inv by (simp add: task_inv_defs fr)
  moreover have "idempotency_unique d'" "frontier d'" "execution_states d'" "cron_idle d'"
    using inv by (simp_all add: task_inv_def task_core_def idempotency_unique_def frontier_def
        execution_states_def cron_idle_def fr)
  moreover have "task_refs d'"
  proof -
    have "\<exists>u \<in> set (tasks d'). tk_id u = tg_task_id g" if "g \<in> set tgts" for g
      using mem [OF that] t fr(1) by metis
    then show ?thesis
      using inv unfolding task_inv_def task_core_def task_refs_def rows fr by fastforce
  qed
  ultimately show "task_inv d'" by (simp add: task_inv_def task_core_def)
qed

section \<open>Preservation: the operations of the service\<close>

lemma new_task_simps [simp]:
  "tk_id (new_task now data c key a cr k) = k"
  "tk_max_attempts (new_task now data c key a cr k) = tc_max_attempts data"
  "tk_idempotency_key (new_task now data c key a cr k) = key"
  "tk_schedule_type (new_task now data c key a cr k) = tc_schedule_type data"
  "tk_status (new_task now data c key a cr k) =
     (if tc_schedule_type data = ''CRON'' \<or> cr then CREATED else PENDING)"
  by (simp_all add: new_task_def)

text \<open>The second half of \<open>create_task\<close>: the task, its targets, the executions of a one-off task.\<close>

definition store_task :: "(ident \<Rightarrow> OpsTask) \<Rightarrow> string \<Rightarrow> ident list \<Rightarrow> db \<Rightarrow> (ident \<times> db) result" where
  "store_task mk schedule sids d =
     bindE (insert_task mk d) (\<lambda>(task_id, d1).
       let (tgts, d2) = create_targets task_id sids d1
       in bindE (if schedule = ''ONCE'' then create_executions task_id tgts d2 else Inr d2)
            (\<lambda>d3. Inr (task_id, d3)))"

lemma store_task_inv:
  assumes inv: "task_inv d"
    and mk: "mk = new_task now data c key a cr" "1 \<le> tc_max_attempts data"
    and key: "key = None \<or> key \<notin> set (map tk_idempotency_key (tasks d))"
  obtains tgts :: "OpsTaskTarget list" and d' where "store_task mk (tc_schedule_type data) sids d = Inr (next_id (ops_task d), d')"
    "task_inv d'" "tasks d' = tasks d @ [mk (next_id (ops_task d))]"
    "map tg_server_id tgts = py_set sids" "distinct (map tg_id tgts)"
    "executions d' = executions d @ (if tc_schedule_type data = ''ONCE''
       then assign_ids (map (\<lambda>g. new_execution (next_id (ops_task d)) (tg_id g) (tg_server_id g) 1) tgts)
              (next_id (ops_task_execution d)) else [])"
proof -
  let ?k = "next_id (ops_task d)"
  from key obtain d1 where d1: "insert_task mk d = Inr (?k, d1)"
    by (auto simp: insert_task_def Let_def mk)
  from insert_task_inv [OF inv d1] mk have
    i1: "task_inv d1" "tasks d1 = tasks d @ [mk ?k]" "ops_task_execution d1 = ops_task_execution d" by auto
  then have t1: "mk ?k \<in> set (tasks d1)" "tk_id (mk ?k) = ?k" by (auto simp: mk)
  obtain tgts d2 where ct: "create_targets ?k sids d1 = (tgts, d2)" by force
  note i2 = create_targets_inv [OF i1(1) t1 ct]
  have none: "e \<in> set (executions d2) \<Longrightarrow> ex_task_id e \<noteq> ?k" for e
    using execution_task_id_less [OF inv, of e] i1(3) i2(6) by auto
  have once: "\<exists>d3. (if tc_schedule_type data = ''ONCE'' then create_executions ?k tgts d2 else Inr d2) = Inr d3 \<and>
      task_inv d3 \<and> ops_task d3 = ops_task d2 \<and>
      executions d3 = executions d @ (if tc_schedule_type data = ''ONCE''
       then assign_ids (map (\<lambda>g. new_execution ?k (tg_id g) (tg_server_id g) 1) tgts)
              (next_id (ops_task_execution d)) else [])"
  proof (cases "tc_schedule_type data = ''ONCE''")
    case False
    then show ?thesis using i1 i2 by simp
  next
    case True
    have t2: "mk ?k \<in> set (tasks d2)" using t1(1) i2(5) by simp
    obtain d3 where d3: "create_executions ?k tgts d2 = Inr d3" "task_core d3"
      "d3 = d2\<lparr>ops_task_execution := repo_create_many
           (map (\<lambda>g. new_execution ?k (tg_id g) (tg_server_id g) 1) tgts) (ops_task_execution d2)\<rparr>"
      using create_executions_core [OF task_core_inv [OF i2(1)] t2 t1(2) i2(2,3) none] by metis
    have ex: "executions d3 = executions d2 @
        assign_ids (map (\<lambda>g. new_execution ?k (tg_id g) (tg_server_id g) 1) tgts) (next_id (ops_task_execution d2))"
      using d3(3) by (simp add: rows_repo_create_many)
    have "\<not> waiting_cron u" if "u \<in> set (tasks d2)" "tk_id u = ?k" for u
      using task_id_inj [OF i2(1) that(1) t2] that t1(2) True by (simp add: waiting_cron_def mk)
    moreover have fr: "ops_task d3 = ops_task d2" using d3(3) by simp
    ultimately have "cron_idle d3"
      using i2(1) unfolding task_inv_def cron_idle_def ex fr
      by (auto dest!: assign_ids_in)
    then have "task_inv d3" using d3(2) by (simp add: task_inv_def)
    then show ?thesis using True d3 ex i1(3) i2(6) by simp
  qed
  then obtain d3 where d3: "store_task mk (tc_schedule_type data) sids d = Inr (?k, d3)" "task_inv d3"
    "tasks d3 = tasks d @ [mk ?k]"
    "executions d3 = executions d @ (if tc_schedule_type data = ''ONCE''
       then assign_ids (map (\<lambda>g. new_execution ?k (tg_id g) (tg_server_id g) 1) tgts)
              (next_id (ops_task_execution d)) else [])"
    using d1 ct i1(2) i2(5) by (auto simp: store_task_def)
  show ?thesis by (rule that [OF d3(1-3) i2(4,2) d3(4)])
qed

lemma create_task_unfold:
  "create_task now data creator key d =
     (case (if truthy key then get_by_idempotency_key d (the key) else None) of
        Some existing \<Rightarrow> Inr (tk_id existing, d)
      | None \<Rightarrow>
          bindE (normalize_action data) (\<lambda>action.
          bindE (validate_servers d (tc_server_ids data)) (\<lambda>ss.
          bindE (validate_service_whitelist d ss (tc_service_name data) action) (\<lambda>_.
          store_task (new_task now data creator key action
              (case tc_confirmation_required data of Some c \<Rightarrow> c
               | None \<Rightarrow> action \<in> set CONFIRM_REQUIRED_ACTIONS))
            (tc_schedule_type data) (map sv_id ss) d))))"
  unfolding create_task_def store_task_def Let_def by (rule refl)

lemma store_task_Inr_key:
  "store_task mk sch sids d = Inr r \<Longrightarrow> tk_idempotency_key (mk (next_id (ops_task d))) = None \<or>
     tk_idempotency_key (mk (next_id (ops_task d))) \<notin> set (map tk_idempotency_key (tasks d))"
  by (auto simp: store_task_def insert_task_def Let_def bindE_eq_Inr split: if_splits)

lemma create_task_inv [preserves]:
  assumes inv: "task_inv d" and ok: "task_create_valid data"
    and c: "create_task now data creator key d = Inr (k, d')"
  shows "task_inv d'"
proof (cases "if truthy key then get_by_idempotency_key d (the key) else None")
  case (Some t)
  with c inv show ?thesis by (simp add: create_task_unfold)
next
  case None
  then obtain ss :: "OpsServer list" and act cr where st: "store_task (new_task now data creator key act cr)
      (tc_schedule_type data) (map sv_id ss) d = Inr (k, d')"
    using c unfolding create_task_unfold None option.case bindE_eq_Inr by blast
  have kk: "key = None \<or> key \<notin> set (map tk_idempotency_key (tasks d))"
    using store_task_Inr_key [OF st] by simp
  show ?thesis
    by (rule store_task_inv [OF inv refl _ kk, where data = data and sids = "map sv_id ss"
          and now = now and c = creator and a = act and cr = cr])
      (use ok st in \<open>auto simp: task_create_valid_def\<close>)
qed

lemma confirm_task_inv [preserves]:
  assumes inv: "task_inv d" and c: "confirm_task now k op d = Inr d'"
  shows "task_inv d'"
proof -
  from c obtain t where t: "task_get d k = Some t" "tk_status t = CREATED"
    and d': "d' = set_task k (\<lambda>t. t\<lparr>tk_status := PENDING, tk_confirmed_by := Some op,
                   tk_confirmed_at := Some now\<rparr>) d"
    by (auto simp: confirm_task_def get_task_entity_def bindE_eq_Inr split: option.splits if_splits)
  have "tk_status u = CREATED" if "u \<in> set (tasks d)" "tk_id u = k" for u
    using task_get_in [OF t(1)] task_id_inj [OF inv that(1)] that(2) t(2) by metis
  then show ?thesis
    unfolding d' by (intro task_inv_set_task [OF inv]) (auto simp: task_static_def waiting_cron_def)
qed

lemma cancel_task_inv [preserves]:
  assumes "task_inv d" and "cancel_task now k d = Inr d'"
  shows "task_inv d'"
  using assms
  by (auto simp: cancel_task_def bindE_eq_Inr terminal_status_def split: if_splits
      intro!: task_inv_aggregate fold_invariant' [where P = task_inv] task_inv_finish)

text \<open>Rows with another key are left as they are by a write to a row.\<close>

lemma set_execution_other:
  "e \<in> set (executions d) \<Longrightarrow> ex_id e \<noteq> k \<Longrightarrow> e \<in> set (executions (set_execution k f d))"
  by (force simp: image_iff)

lemma set_task_other: "t \<in> set (tasks d) \<Longrightarrow> tk_id t \<noteq> k \<Longrightarrow> t \<in> set (tasks (set_task k f d))"
  by (force simp: image_iff)

lemma distinct_executions_sub:
  assumes "task_inv d"
  shows "distinct (map ex_id (take n (sort_key f (filter P (executions d)))))"
proof -
  have "distinct (map ex_id (filter P (executions d)))"
    using assms by (simp add: task_inv_defs tbl_wf_def distinct_map_filter)
  then have "distinct (map ex_id (sort_key f (filter P (executions d))))"
    by (simp add: distinct_map)
  then show ?thesis by (metis distinct_take take_map)
qed

lemma claim_execution_inv:
  assumes inv: "task_inv (snd s)" and e: "e \<in> set (executions (snd s))" "active_execution e"
  shows "task_inv (snd (claim_execution now e s))"
proof -
  have "task_inv (mark_running now (ex_id e) (snd s))"
    by (rule task_inv_mark_running [OF inv execution_get_unique [OF inv e(1)] e(2)])
  then have "task_inv (set_task (ex_task_id e) (\<lambda>t. t\<lparr>tk_status := RUNNING,
                tk_started_at := (case tk_started_at t of None \<Rightarrow> Some now | Some s \<Rightarrow> Some s)\<rparr>)
      (mark_running now (ex_id e) (snd s)))"
    by (rule task_inv_set_task) (auto simp: task_static_def waiting_cron_def)
  then show ?thesis
    by (cases s) (simp add: claim_execution_def Let_def split: option.splits)
qed

lemma claim_execution_other:
  "y \<in> set (executions (snd s)) \<Longrightarrow> ex_id y \<noteq> ex_id e \<Longrightarrow>
   y \<in> set (executions (snd (claim_execution now e s)))"
  by (auto simp: claim_execution_def Let_def mark_running_def image_iff split: prod.splits option.splits)

lemma fetch_pending_inv [preserves]:
  assumes inv: "task_inv d"
  shows "task_inv (snd (fetch_pending now sid d))"
proof -
  let ?es = "fetch_pending_by_server d sid 10"
  have es: "e \<in> set (executions d) \<and> active_execution e" if "e \<in> set ?es" for e
    using that by (auto simp: fetch_pending_by_server_def active_execution_def terminal_status_def dest!: in_set_takeD)
  show ?thesis unfolding fetch_pending_def
  proof (rule fold_distinct [where key = ex_id and P = "\<lambda>s. task_inv (snd s)"
        and Q = "\<lambda>e s. e \<in> set (executions (snd s)) \<and> active_execution e"])
    show "distinct (map ex_id ?es)"
      unfolding fetch_pending_by_server_def by (rule distinct_executions_sub [OF inv])
  qed (use inv es in \<open>auto intro: claim_execution_inv claim_execution_other\<close>)
qed

lemma report_failure_inv:
  assumes "task_inv d" "execution_get d (ex_id e) = Some e" "active_execution e"
  shows "task_inv (report_failure now r t e d)"
  using assms unfolding report_failure_def Let_def
  by (auto intro!: task_inv_log_record task_inv_mark_dead task_inv_finish
      intro: task_inv_mark_retrying simp: terminal_status_def)

lemma report_result_inv [preserves]:
  assumes inv: "task_inv d" and r: "report_result now sid r d = Inr d'"
  shows "task_inv d'"
proof (cases "execution_get d (tr_execution_id r)")
  case None
  with r show ?thesis by (simp add: report_result_def)
next
  case (Some e)
  have id: "tr_execution_id r = ex_id e" using execution_get_in [OF Some] by simp
  show ?thesis
  proof (cases "terminal_status (ex_status e)")
    case True
    with r Some inv show ?thesis by (simp add: report_result_def split: if_splits)
  next
    case False
    then have "active_execution e" by (simp add: active_execution_def)
    with r Some inv False show ?thesis
      by (auto simp: report_result_def bindE_eq_Inr id terminal_status_def split: if_splits
          intro!: task_inv_aggregate task_inv_log_record task_inv_finish report_failure_inv)
  qed
qed

lemma scan_timeouts_inv [preserves]:
  assumes "task_inv d"
  shows "task_inv (snd (scan_timeouts now d))"
  unfolding scan_timeouts_def
  by (rule fold_invariant' [where P = "\<lambda>s. task_inv (snd s)"])
    (use assms in \<open>auto simp: scan_task_def Let_def split: prod.splits
      intro!: task_inv_aggregate fold_invariant' [where P = task_inv] task_inv_mark_timeout\<close>)

lemma list_due_retries_in:
  "e \<in> set (list_due_retries d now n) \<Longrightarrow> e \<in> set (executions d) \<and> ex_status e = RETRYING"
  by (auto simp: list_due_retries_def dest!: in_set_takeD)

lemma executions_finish: "ops_task (finish now st c r m t k d) = ops_task d"
  "ops_task_target (finish now st c r m t k d) = ops_task_target d"
  by (simp_all add: finish_def)

text \<open>Archiving an execution leaves its target ready for the next attempt.\<close>

lemma fresh_after_finish:
  assumes inv: "task_inv d" and e: "e \<in> set (executions d)" "active_execution e"
    and st: "terminal_status st"
  shows "fresh_attempt (ex_target_id e) (ex_attempt e + 1) (finish now st c r m t (ex_id e) d)"
  unfolding fresh_attempt_def
proof (intro ballI impI)
  fix y assume y: "y \<in> set (executions (finish now st c r m t (ex_id e) d))"
    "ex_target_id y = ex_target_id e"
  then obtain x where x: "x \<in> set (executions d)" "ex_target_id x = ex_target_id e"
    "ex_attempt y = ex_attempt x" "ex_id x = ex_id e \<and> \<not> active_execution y \<or> ex_id x \<noteq> ex_id e \<and> y = x"
    using st by (auto simp: finish_def active_execution_def split: if_splits)
  have "ex_attempt x \<le> ex_attempt e" using frontierD [OF inv e(1) x(1) e(2) x(2)] .
  moreover have "\<not> active_execution y"
    using x one_active_per_target [OF inv x(1) e(1)] e(2) by auto
  ultimately show "\<not> active_execution y \<and> ex_attempt y < ex_attempt e + 1" using x(3) by simp
qed

lemma create_execution_inv:
  assumes inv: "task_inv d" and g: "g \<in> set (targets d)" "tg_id g = gid" "tg_task_id g = tid" "tg_server_id g = sid"
    and t: "t \<in> set (tasks d)" "tk_id t = tid" "1 \<le> a" "a \<le> tk_max_attempts t" "\<not> waiting_cron t"
    and fresh: "fresh_attempt gid a d"
  shows "\<exists>d'. create_execution tid gid sid a d = Inr d' \<and> task_inv d' \<and>
    ops_task d' = ops_task d \<and> ops_task_target d' = ops_task_target d \<and>
    executions d' = executions d @ [new_execution tid gid sid a (next_id (ops_task_execution d))]"
proof -
  obtain d' where d': "create_execution tid gid sid a d = Inr d'" "task_core d'"
    using insert_execution_core [OF task_core_inv [OF inv] g t(1-4) fresh] by (auto simp: create_execution_def)
  note eq = insert_execution_Inr [OF d'(1) [unfolded create_execution_def]]
  have ex: "executions d' = executions d @ [new_execution tid gid sid a (next_id (ops_task_execution d))]"
    and fr: "ops_task d' = ops_task d" "ops_task_target d' = ops_task_target d"
    by (simp_all add: eq repo_create_def)
  have "\<not> waiting_cron u" if "u \<in> set (tasks d)" "tk_id u = tid" for u
    using task_id_inj [OF inv that(1) t(1)] that t(2,5) by auto
  then have "cron_idle d'"
    using inv unfolding task_inv_def cron_idle_def ex fr by auto
  with d' ex fr show ?thesis by (simp add: task_inv_def)
qed

lemma not_waiting_with_execution:
  "task_inv d \<Longrightarrow> e \<in> set (executions d) \<Longrightarrow> t \<in> set (tasks d) \<Longrightarrow> tk_id t = ex_task_id e \<Longrightarrow> \<not> waiting_cron t"
  unfolding task_inv_def cron_idle_def by metis

text \<open>What of a task decides whether another attempt may start.\<close>

definition task_budget :: "OpsTask \<Rightarrow> int \<times> datetime option \<times> task_status" where
  "task_budget t = (tk_max_attempts t, tk_deadline_at t, tk_status t)"

text \<open>
  One iteration of the retry sweep on an execution that waits: it never fails, and the rows of
  other executions stay. When the task has not ended the iteration closes with an aggregation,
  and when the budget allows it the next attempt is there.
\<close>

definition dispatched :: "datetime \<Rightarrow> OpsTaskExecution \<Rightarrow> OpsTask \<Rightarrow> db \<Rightarrow> db \<Rightarrow> bool" where
  "dispatched now e t d d' \<longleftrightarrow>
     (\<exists>dp. task_inv dp \<and> d' = aggregate_task_status now (ex_task_id e) dp \<and>
        (\<forall>j. map_option task_budget (task_get dp j) = map_option task_budget (task_get d j)) \<and>
        (can_retry now t e \<longrightarrow> (\<exists>e' \<in> set (executions dp). ex_target_id e' = ex_target_id e \<and>
           ex_attempt e' = ex_attempt e + 1 \<and> ex_status e' = PENDING)))"

lemma task_get_finish [simp]:
  "task_get (finish now st c r m y k d) j = task_get d j"
  "task_get (mark_dead now s m k d) j = task_get d j"
  by (simp_all add: finish_def mark_dead_def)

lemma task_get_eq: "ops_task d = ops_task d' \<Longrightarrow> task_get d j = task_get d' j"
  by (simp add: task_get_def)

lemma dispatch_one_dead:
  assumes inv: "task_inv d" and t: "task_get d (ex_task_id e) = Some t" "tk_id t = ex_task_id e"
    and dead: "\<not> terminal_status (tk_status t)" "\<not> can_retry now t e"
  shows "\<exists>d'. dispatch_one now e (n, d) = Inr (n, d') \<and> task_inv d' \<and> dispatched now e t d d' \<and>
    (\<forall>y \<in> set (executions d). ex_id y \<noteq> ex_id e \<longrightarrow> y \<in> set (executions d'))"
proof -
  let ?dp = "log_record (ex_id e) LogBudgetExhausted LEVEL_ERROR
      (mark_dead now (or_text (ex_error_type e) UNKNOWN_ERROR_TYPE)
        (Some (or_text (ex_error_message e) budget_exhausted_text)) (ex_id e) d)"
  let ?d' = "aggregate_task_status now (ex_task_id e) ?dp"
  have inv': "task_inv ?dp" by (intro task_inv_log_record task_inv_mark_dead inv)
  then have "dispatched now e t d ?d'"
    unfolding dispatched_def using dead(2) by (intro exI [of _ ?dp]) simp
  moreover have "y \<in> set (executions ?d')" if "y \<in> set (executions d)" "ex_id y \<noteq> ex_id e" for y
    using set_execution_other [OF that] by (simp add: mark_dead_def)
  moreover have "dispatch_one now e (n, d) = Inr (n, ?d')"
    using dead t by (simp add: dispatch_one_def get_task_entity_def)
  ultimately show ?thesis using task_inv_aggregate [OF inv'] by blast
qed

lemma dispatch_one_retry:
  assumes inv: "task_inv d" and e: "e \<in> set (executions d)" "active_execution e"
    and t: "task_get d (ex_task_id e) = Some t"
    and go: "\<not> terminal_status (tk_status t)" "can_retry now t e"
  shows "\<exists>d'. dispatch_one now e (n, d) = Inr (n + 1, d') \<and> task_inv d' \<and> dispatched now e t d d' \<and>
    (\<forall>y \<in> set (executions d). ex_id y \<noteq> ex_id e \<longrightarrow> y \<in> set (executions d'))"
proof -
  let ?d1 = "finish now FAILED None None (ex_error_message e) (ex_error_type e) (ex_id e) d"
  have tin: "t \<in> set (tasks d)" "tk_id t = ex_task_id e" using task_get_in [OF t] by auto
  have inv1: "task_inv ?d1" by (rule task_inv_finish [OF inv]) (simp add: terminal_status_def)
  obtain g where g: "g \<in> set (targets ?d1)" "tg_id g = ex_target_id e" "tg_task_id g = tk_id t"
    "tg_server_id g = ex_server_id e"
    using execution_target [OF inv e(1)] tin(2) by (metis executions_finish(2))
  have t1: "t \<in> set (tasks ?d1)" using tin(1) by (simp add: executions_finish)
  have a: "1 \<le> ex_attempt e + 1" "ex_attempt e + 1 \<le> tk_max_attempts t"
  proof -
    obtain u where "task_get d (ex_task_id e) = Some u" "1 \<le> ex_attempt e"
      using execution_task [OF inv e(1)] .
    with go(2) show "1 \<le> ex_attempt e + 1" "ex_attempt e + 1 \<le> tk_max_attempts t"
      by (auto simp: can_retry_def split: if_splits)
  qed
  obtain d2 where d2: "create_execution (tk_id t) (ex_target_id e) (ex_server_id e) (ex_attempt e + 1) ?d1 = Inr d2"
    "task_inv d2" "ops_task d2 = ops_task ?d1" and x2: "executions d2 = executions ?d1 @ [new_execution (tk_id t) (ex_target_id e)
      (ex_server_id e) (ex_attempt e + 1) (next_id (ops_task_execution ?d1))]"
    using create_execution_inv [OF inv1 g t1 refl a
        not_waiting_with_execution [OF inv e(1) tin] fresh_after_finish [OF inv e]]
    by (auto simp: terminal_status_def)
  let ?d3 = "set_task (tk_id t) (\<lambda>t. t\<lparr>tk_attempt := ex_attempt e + 1\<rparr>) d2"
  let ?d4 = "log_record (ex_id e) (LogAttemptCreated (ex_attempt e + 1)) LEVEL_INFO
    (set_target (ex_target_id e) (\<lambda>g. g\<lparr>tg_target_status := PENDING\<rparr>) ?d3)"
  let ?d5 = "aggregate_task_status now (ex_task_id e) ?d4"
  have inv3: "task_inv ?d3"
    by (rule task_inv_set_task [OF d2(2)]) (simp_all add: task_static_def waiting_cron_def)
  have inv4: "task_inv ?d4"
    by (intro task_inv_log_record task_inv_set_target [OF inv3]) (simp add: target_static_def)
  have "dispatch_one now e (n, d) = Inr (n + 1, ?d5)"
    using go d2(1) t tin(2) by (simp add: dispatch_one_def get_task_entity_def Let_def)
  moreover have "y \<in> set (executions ?d5)" if "y \<in> set (executions d)" "ex_id y \<noteq> ex_id e" for y
    using set_execution_other [OF that] x2 by (simp add: finish_def)
  moreover have "map_option task_budget (task_get ?d4 j) = map_option task_budget (task_get d j)" for j
    using task_get_eq [OF d2(3), of j]
    by (cases "task_get d j") (auto simp: task_get_set_task task_budget_def)
  then have "dispatched now e t d ?d5"
    unfolding dispatched_def using inv4 x2 by (intro exI [of _ ?d4]) simp
  ultimately show ?thesis using task_inv_aggregate [OF inv4] by blast
qed

lemma dispatch_one_ok:
  assumes inv: "task_inv d" and e: "e \<in> set (executions d)" "ex_status e = RETRYING"
  shows "\<exists>n' d'. dispatch_one now e (n, d) = Inr (n', d') \<and> task_inv d' \<and>
    (\<forall>y \<in> set (executions d). ex_id y \<noteq> ex_id e \<longrightarrow> y \<in> set (executions d')) \<and>
    (\<forall>t. task_get d (ex_task_id e) = Some t \<longrightarrow> \<not> terminal_status (tk_status t) \<longrightarrow> dispatched now e t d d') \<and>
    (\<forall>j. j \<noteq> ex_task_id e \<longrightarrow> map_option task_budget (task_get d' j) = map_option task_budget (task_get d j))"
proof -
  have act: "active_execution e" using e(2) by (simp add: active_execution_def terminal_status_def)
  obtain t where t: "tk_id t = ex_task_id e" "task_get d (ex_task_id e) = Some t"
    using execution_task [OF inv e(1)] .
  have other: "\<forall>j. j \<noteq> ex_task_id e \<longrightarrow> map_option task_budget (task_get d' j) = map_option task_budget (task_get d j)"
    if "dispatched now e t d d'" for d'
    using that by (auto simp: dispatched_def aggregate_task_status_def Let_def task_get_set_task)
  let ?d1 = "finish now FAILED None None (ex_error_message e) (ex_error_type e) (ex_id e) d"
  consider (ended) "terminal_status (tk_status t)"
    | (dead) "\<not> terminal_status (tk_status t)" "\<not> can_retry now t e"
    | (retry) "\<not> terminal_status (tk_status t)" "can_retry now t e" by blast
  then show ?thesis
  proof cases
    case ended
    have "task_inv ?d1" by (rule task_inv_finish [OF inv]) (simp add: terminal_status_def)
    moreover have "\<forall>y \<in> set (executions d). ex_id y \<noteq> ex_id e \<longrightarrow> y \<in> set (executions ?d1)"
      unfolding finish_def by (auto intro: set_execution_other simp del: executions_set_execution)
    moreover have "dispatch_one now e (n, d) = Inr (n, ?d1)"
      using ended t by (simp add: dispatch_one_def get_task_entity_def)
    ultimately show ?thesis using ended t by fastforce
  next
    case dead
    from dispatch_one_dead [OF inv t(2,1) dead, of n] obtain d' where
      d': "dispatch_one now e (n, d) = Inr (n, d')" "task_inv d'" "dispatched now e t d d'"
        "\<forall>y \<in> set (executions d). ex_id y \<noteq> ex_id e \<longrightarrow> y \<in> set (executions d')" by blast
    show ?thesis
      by (intro exI [of _ n] exI [of _ d'] conjI d' other) (simp add: t(2) d'(3))
  next
    case retry
    from dispatch_one_retry [OF inv e(1) act t(2) retry, of n] obtain d' where
      d': "dispatch_one now e (n, d) = Inr (n + 1, d')" "task_inv d'" "dispatched now e t d d'"
        "\<forall>y \<in> set (executions d). ex_id y \<noteq> ex_id e \<longrightarrow> y \<in> set (executions d')" by blast
    show ?thesis
      by (intro exI [of _ "n + 1"] exI [of _ d'] conjI d' other) (simp add: t(2) d'(3))
  qed
qed

lemma dispatch_retries_ok:
  assumes inv: "task_inv d"
  shows "\<exists>n d'. dispatch_retries now limit d = Inr (n, d') \<and> task_inv d'"
proof -
  let ?es = "list_due_retries d now limit"
  have "\<exists>s'. foldE (dispatch_one now) ?es (0, d) = Inr s' \<and> task_inv (snd s')"
  proof (rule foldE_distinct [where key = ex_id and P = "\<lambda>s. task_inv (snd s)"
        and Q = "\<lambda>e s. e \<in> set (executions (snd s)) \<and> ex_status e = RETRYING"])
    show "distinct (map ex_id ?es)"
      unfolding list_due_retries_def by (rule distinct_executions_sub [OF inv])
    fix e and s :: "int \<times> db"
    assume "task_inv (snd s)" "e \<in> set (executions (snd s)) \<and> ex_status e = RETRYING"
    with dispatch_one_ok [of "snd s" e now "fst s"] obtain s' where
      "dispatch_one now e s = Inr s'" "task_inv (snd s')"
      "\<forall>y \<in> set (executions (snd s)). ex_id y \<noteq> ex_id e \<longrightarrow> y \<in> set (executions (snd s'))"
      by (metis prod.collapse snd_conv)
    then show "\<exists>s'. dispatch_one now e s = Inr s' \<and> task_inv (snd s') \<and>
        (\<forall>y \<in> set ?es. ex_id y \<noteq> ex_id e \<longrightarrow> y \<in> set (executions (snd s)) \<and> ex_status y = RETRYING \<longrightarrow>
          y \<in> set (executions (snd s')) \<and> ex_status y = RETRYING)"
      by blast
  qed (use inv in \<open>auto dest: list_due_retries_in\<close>)
  then show ?thesis by (auto simp: dispatch_retries_def)
qed

lemma distinct_map_filter_key:
  "distinct (map f (filter P xs)) \<Longrightarrow> distinct (map f (filter (\<lambda>x. Q x \<and> P x) xs))"
  by (induction xs) (auto split: if_splits)

lemma task_inv_delete_executions [preserves]:
  assumes inv: "task_inv d" and d': "ops_task_execution d' = tbl_delete P (ops_task_execution d)"
    "ops_task d' = ops_task d" "ops_task_target d' = ops_task_target d"
  shows "task_inv d'"
proof -
  have ex: "executions d' = filter (\<lambda>e. \<not> P e) (executions d)" by (simp add: d')
  have "task_keys d'"
    using inv unfolding task_inv_def task_core_def task_keys_def ex
    by (simp add: d' tbl_wf_delete distinct_map_filter)
  moreover have "idempotency_unique d'"
    using inv by (simp add: task_inv_def task_core_def idempotency_unique_def d')
  moreover have "frontier d'" "execution_states d'" "task_refs d'" "cron_idle d'"
    using inv unfolding task_inv_def task_core_def frontier_def execution_states_def task_refs_def cron_idle_def ex
    by (simp_all add: d')
  ultimately show ?thesis by (simp add: task_inv_def task_core_def)
qed

lemma task_inv_delete_tasks [preserves]:
  assumes inv: "task_inv d" and d': "ops_task d' = tbl_delete (\<lambda>t. tk_id t \<in> K) (ops_task d)"
    "ops_task_target d' = tbl_delete (\<lambda>g. tg_task_id g \<in> K) (ops_task_target d)"
    "ops_task_execution d' = ops_task_execution d"
    and none: "\<And>e. e \<in> set (executions d) \<Longrightarrow> ex_task_id e \<notin> K"
  shows "task_inv d'"
proof -
  have tk: "tasks d' = filter (\<lambda>t. tk_id t \<notin> K) (tasks d)"
    and tg: "targets d' = filter (\<lambda>g. tg_task_id g \<notin> K) (targets d)" by (simp_all add: d')
  have "task_keys d'"
    using inv unfolding task_inv_def task_core_def task_keys_def
    by (simp add: d' tbl_wf_delete)
  moreover have "idempotency_unique d'"
    using inv unfolding task_inv_def task_core_def idempotency_unique_def tk
    by (simp add: distinct_map_filter_key del: not_None_eq)
  moreover have "frontier d'" "execution_states d'"
    using inv by (simp_all add: task_inv_def task_core_def frontier_def execution_states_def d')
  moreover have "cron_idle d'"
    using inv unfolding task_inv_def cron_idle_def tk by (simp add: d')
  moreover have "task_refs d'"
  proof -
    have "(\<exists>t \<in> set (tasks d'). tk_id t = ex_task_id e \<and> 1 \<le> ex_attempt e \<and> ex_attempt e \<le> tk_max_attempts t) \<and>
      (\<exists>g \<in> set (targets d'). tg_id g = ex_target_id e \<and> tg_task_id g = ex_task_id e \<and> tg_server_id g = ex_server_id e)"
      if "e \<in> set (executions d)" for e
      using inv that none [OF that] unfolding task_inv_def task_core_def task_refs_def tk tg by force
    moreover have "\<exists>t \<in> set (tasks d'). tk_id t = tg_task_id g" if "g \<in> set (targets d')" for g
      using inv that unfolding task_inv_def task_core_def task_refs_def tk tg by force
    moreover have "1 \<le> tk_max_attempts t" if "t \<in> set (tasks d')" for t
      using inv that unfolding task_inv_def task_core_def task_refs_def tk by auto
    ultimately show ?thesis by (simp add: task_refs_def d'(3))
  qed
  ultimately show ?thesis by (simp add: task_inv_def task_core_def)
qed

lemma delete_terminal_before_inv: "task_inv d \<Longrightarrow> task_inv (snd (delete_terminal_before c d))"
  by (auto simp: delete_terminal_before_def Let_def intro: task_inv_delete_executions)

lemma delete_finished_tasks_before_inv: "task_inv d \<Longrightarrow> task_inv (snd (delete_finished_tasks_before c d))"
  by (auto simp: delete_finished_tasks_before_def Let_def intro!: task_inv_delete_tasks [of d])

lemma cleanup_history_inv [preserves]: "task_inv d \<Longrightarrow> task_inv (snd (cleanup_history now days d))"
  using delete_terminal_before_inv [of d] delete_finished_tasks_before_inv
  by (auto simp: cleanup_history_def Let_def split: prod.splits) (metis snd_conv)

text \<open>A CRON task whose time has come, and the state its firing leaves.\<close>

definition cron_due :: "(string \<Rightarrow> datetime \<Rightarrow> datetime option) \<Rightarrow> datetime \<Rightarrow> OpsTask \<Rightarrow> bool" where
  "cron_due cron_next now t \<longleftrightarrow> tk_schedule_type t = ''CRON'' \<and> truthy (tk_cron_expression t) \<and>
     (case cron_next (the (tk_cron_expression t)) (tk_created_at t) of None \<Rightarrow> False | Some n \<Rightarrow> n \<le> now)"

definition cron_fired :: "OpsTask \<Rightarrow> db \<Rightarrow> bool" where
  "cron_fired t d \<longleftrightarrow> (\<exists>t' \<in> set (tasks d). tk_id t' = tk_id t \<and> tk_status t' = RUNNING) \<and>
     (\<forall>g \<in> set (targets d). tg_task_id g = tk_id t \<longrightarrow>
        (\<exists>e \<in> set (executions d). ex_task_id e = tk_id t \<and> ex_target_id e = tg_id g \<and>
           ex_server_id e = tg_server_id g \<and> ex_attempt e = 1 \<and> ex_status e = PENDING))"

lemma fire_one_ok:
  assumes inv: "task_inv d" and t: "t \<in> set (tasks d)" "waiting_cron t"
  shows "\<exists>n' d'. fire_one cron_next now t (n, d) = Inr (n', d') \<and> task_inv d' \<and>
    (\<forall>u \<in> set (tasks d). tk_id u \<noteq> tk_id t \<longrightarrow> u \<in> set (tasks d')) \<and>
    set (executions d) \<subseteq> set (executions d') \<and> ops_task_target d' = ops_task_target d \<and>
    (cron_due cron_next now t \<longrightarrow> cron_fired t d')"
proof -
  let ?tgts = "targets_by_task d (tk_id t)"
  have tgts: "g \<in> set (targets d) \<and> tg_task_id g = tk_id t" if "g \<in> set ?tgts" for g
    using that by (simp add: targets_by_task_def repo_list_all_set)
  have dist: "distinct (map tg_id ?tgts)"
    using inv by (simp add: targets_by_task_def repo_list_all_def task_inv_defs tbl_wf_def distinct_map_filter)
  have none: "ex_task_id e \<noteq> tk_id t" if "e \<in> set (executions d)" for e
    using inv t that unfolding task_inv_def cron_idle_def by blast
  obtain d1 where d1: "create_executions (tk_id t) ?tgts d = Inr d1" "task_core d1"
    "d1 = d\<lparr>ops_task_execution := repo_create_many
       (map (\<lambda>g. new_execution (tk_id t) (tg_id g) (tg_server_id g) 1) ?tgts) (ops_task_execution d)\<rparr>"
    using create_executions_core [OF task_core_inv [OF inv] t(1) refl dist tgts none] by metis
  let ?f = "\<lambda>t. t\<lparr>tk_status := RUNNING,
                      tk_started_at := (case tk_started_at t of None \<Rightarrow> Some now | Some s \<Rightarrow> Some s)\<rparr>"
  let ?d2 = "set_task (tk_id t) ?f d1"
  have fr: "ops_task d1 = ops_task d" using d1(3) by simp
  have ex: "e \<in> set (executions d1) \<Longrightarrow> e \<in> set (executions d) \<or> ex_task_id e = tk_id t" for e
    by (auto simp: d1(3) rows_repo_create_many dest!: assign_ids_in)
  have "cron_idle ?d2"
    unfolding cron_idle_def
  proof (intro ballI impI)
    fix u e assume u: "u \<in> set (tasks ?d2)" "waiting_cron u" and e: "e \<in> set (executions ?d2)"
    then have "tk_id u \<noteq> tk_id t" "u \<in> set (tasks d)"
      by (auto simp: fr waiting_cron_def split: if_splits)
    then show "ex_task_id e \<noteq> tk_id u"
      using ex [of e] e u(2) inv unfolding task_inv_def cron_idle_def by auto
  qed
  then have inv2: "task_inv ?d2"
    using task_core_set_task [OF d1(2), of ?f "tk_id t"] by (simp add: task_inv_def task_static_def)
  have keep: "u \<in> set (tasks ?d2)" if "u \<in> set (tasks d)" "tk_id u \<noteq> tk_id t" for u
    using that set_task_other [of u d1] fr by simp
  have sub: "set (executions d) \<subseteq> set (executions ?d2)" "ops_task_target ?d2 = ops_task_target d"
    by (auto simp: d1(3) rows_repo_create_many)
  have running: "?f t \<in> set (tasks ?d2)" using t(1) by (force simp: fr)
  have "\<exists>e \<in> set (executions ?d2). ex_task_id e = tk_id t \<and> ex_target_id e = tg_id g \<and>
      ex_server_id e = tg_server_id g \<and> ex_attempt e = 1 \<and> ex_status e = PENDING"
    if "g \<in> set (targets d)" "tg_task_id g = tk_id t" for g
  proof -
    have "g \<in> set ?tgts" using that by (simp add: targets_by_task_def repo_list_all_set)
    then obtain i where "new_execution (tk_id t) (tg_id g) (tg_server_id g) 1 i \<in> set (executions d1)"
      using assign_ids_mem [of "new_execution (tk_id t) (tg_id g) (tg_server_id g) 1"]
      by (force simp: d1(3) rows_repo_create_many)
    then show ?thesis by (intro bexI [of _ "new_execution (tk_id t) (tg_id g) (tg_server_id g) 1 i"]) simp_all
  qed
  with running have fired: "cron_fired t ?d2"
    unfolding cron_fired_def sub(2) by (intro conjI bexI [of _ "?f t"]) auto
  show ?thesis
  proof (cases "cron_due cron_next now t")
    case True
    then have "fire_one cron_next now t (n, d) = Inr (n + 1, ?d2)"
      using d1(1) by (auto simp: fire_one_def cron_due_def split: option.splits)
    with inv2 keep sub fired show ?thesis by blast
  next
    case False
    then have "fire_one cron_next now t (n, d) = Inr (n, d)"
      by (auto simp: fire_one_def cron_due_def split: option.splits)
    with inv False show ?thesis by blast
  qed
qed

lemma fire_due_cron_ok:
  assumes inv: "task_inv d"
  shows "\<exists>n d'. fire_due_cron cron_next now d = Inr (n, d') \<and> task_inv d'"
proof -
  let ?ts = "list_pending_cron d"
  have ts: "t \<in> set (tasks d) \<and> waiting_cron t" if "t \<in> set ?ts" for t
    using that by (auto simp: list_pending_cron_def waiting_cron_def)
  have "\<exists>s'. foldE (fire_one cron_next now) ?ts (0, d) = Inr s' \<and> task_inv (snd s')"
  proof (rule foldE_distinct [where key = tk_id and P = "\<lambda>s. task_inv (snd s)"
        and Q = "\<lambda>t s. t \<in> set (tasks (snd s)) \<and> waiting_cron t"])
    show "distinct (map tk_id ?ts)"
      using inv by (simp add: list_pending_cron_def task_inv_defs tbl_wf_def distinct_map_filter)
    fix t and s :: "int \<times> db"
    assume "task_inv (snd s)" "t \<in> set (tasks (snd s)) \<and> waiting_cron t"
    with fire_one_ok [of "snd s" t cron_next now "fst s"] obtain s' where
      "fire_one cron_next now t s = Inr s'" "task_inv (snd s')"
      "\<forall>u \<in> set (tasks (snd s)). tk_id u \<noteq> tk_id t \<longrightarrow> u \<in> set (tasks (snd s'))"
      by (metis prod.collapse snd_conv)
    then show "\<exists>s'. fire_one cron_next now t s = Inr s' \<and> task_inv (snd s') \<and>
        (\<forall>y \<in> set ?ts. tk_id y \<noteq> tk_id t \<longrightarrow> y \<in> set (tasks (snd s)) \<and> waiting_cron y \<longrightarrow>
          y \<in> set (tasks (snd s')) \<and> waiting_cron y)"
      by blast
  qed (use inv ts in auto)
  then show ?thesis by (auto simp: fire_due_cron_def)
qed

section \<open>The transactions of the task engine\<close>

text \<open>
  One constructor per transaction that writes the task tables; the database a transaction commits,
  or the exception that rolls it back.
\<close>

datatype task_request =
    CreateTask TaskCreate ident "string option"
  | ConfirmTask ident ident
  | CancelTask ident
  | FetchPending ident
  | ReportResult ident TaskResultRequest
  | ScanTimeouts
  | DispatchRetries nat
  | CleanupHistory int
  | FireDueCron

fun task_transaction ::
  "(string \<Rightarrow> datetime \<Rightarrow> datetime option) \<Rightarrow> datetime \<Rightarrow> task_request \<Rightarrow> db \<Rightarrow> db result" where
  "task_transaction cron now (CreateTask data creator key) d =
     bindE (create_task now data creator key d) (\<lambda>r. Inr (snd r))"
| "task_transaction cron now (ConfirmTask k op) d = confirm_task now k op d"
| "task_transaction cron now (CancelTask k) d = cancel_task now k d"
| "task_transaction cron now (FetchPending sid) d = Inr (snd (fetch_pending now sid d))"
| "task_transaction cron now (ReportResult sid r) d = report_result now sid r d"
| "task_transaction cron now ScanTimeouts d = Inr (snd (scan_timeouts now d))"
| "task_transaction cron now (DispatchRetries limit) d =
     bindE (dispatch_retries now limit d) (\<lambda>r. Inr (snd r))"
| "task_transaction cron now (CleanupHistory days) d = Inr (snd (cleanup_history now days d))"
| "task_transaction cron now FireDueCron d = bindE (fire_due_cron cron now d) (\<lambda>r. Inr (snd r))"

fun request_valid :: "task_request \<Rightarrow> bool" where
  "request_valid (CreateTask data creator key) = task_create_valid data"
| "request_valid _ = True"

text \<open>
  The databases the engine can reach, at any readings of the clock, interleaved with transactions
  of the other services, which leave the task tables alone.
\<close>

inductive reachable :: "(string \<Rightarrow> datetime \<Rightarrow> datetime option) \<Rightarrow> db \<Rightarrow> bool" for cron where
  start: "reachable cron empty_db"
| commit: "reachable cron d \<Longrightarrow> request_valid r \<Longrightarrow> task_transaction cron now r d = Inr d' \<Longrightarrow>
     reachable cron d'"
| other: "reachable cron d \<Longrightarrow> ops_task d' = ops_task d \<Longrightarrow> ops_task_target d' = ops_task_target d \<Longrightarrow>
     ops_task_execution d' = ops_task_execution d \<Longrightarrow> reachable cron d'"

lemma task_transaction_inv:
  "task_inv d \<Longrightarrow> request_valid r \<Longrightarrow> task_transaction cron now r d = Inr d' \<Longrightarrow> task_inv d'"
  using dispatch_retries_ok [of d now] fire_due_cron_ok [of d cron now]
  by (cases r) (auto simp: bindE_eq_Inr intro: create_task_inv confirm_task_inv cancel_task_inv
      fetch_pending_inv report_result_inv scan_timeouts_inv cleanup_history_inv, (metis Inr_inject Pair_inject)+)

lemma reachable_inv: "reachable cron d \<Longrightarrow> task_inv d"
  by (induction rule: reachable.induct)
    (auto intro: task_inv_empty task_transaction_inv task_inv_tables)

end
