(* ===== verification/Task_Aggregate.thy ===== *)
theory Task_Aggregate
  imports Task_Invariant
begin

text \<open>
  The status of a task, specified: the newest attempt of every target decides, earlier attempts
  do not count. The dictionary that \<open>_aggregate_task_status\<close> builds in one pass holds exactly
  these attempts.
\<close>

definition newest :: "OpsTaskExecution list \<Rightarrow> OpsTaskExecution set" where
  "newest es = {e \<in> set es. \<forall>e' \<in> set es. ex_target_id e' = ex_target_id e \<longrightarrow> ex_attempt e' \<le> ex_attempt e}"

definition newest_statuses :: "db \<Rightarrow> ident \<Rightarrow> task_status set" where
  "newest_statuses d k = ex_status ` newest (list_by_task d k)"

lemma map_of_dict_set: "map_of (dict_set k v kvs) = (map_of kvs)(k \<mapsto> v)"
  by (induction k v kvs rule: dict_set.induct) auto

lemma keys_dict_set: "fst ` set (dict_set k v kvs) = insert k (fst ` set kvs)"
  by (induction k v kvs rule: dict_set.induct) auto

lemma distinct_dict_set: "distinct (map fst kvs) \<Longrightarrow> distinct (map fst (dict_set k v kvs))"
  by (induction k v kvs rule: dict_set.induct) (auto simp: keys_dict_set image_iff)

lemma latest_attempts_snoc: "latest_attempts (es @ [e]) = latest_step e (latest_attempts es)"
  by (simp add: latest_attempts_def)

lemma distinct_latest_attempts: "distinct (map fst (latest_attempts es))"
proof (induction es rule: rev_induct)
  case Nil
  then show ?case by (simp add: latest_attempts_def)
next
  case (snoc e es)
  then show ?case
    by (simp add: latest_attempts_snoc latest_step_def distinct_dict_set split: option.splits)
qed

text \<open>The entry of a target is one of its executions, and none has a higher attempt.\<close>

lemma latest_attempts_entry:
  "(map_of (latest_attempts es) g = None \<longleftrightarrow> (\<forall>e \<in> set es. ex_target_id e \<noteq> g)) \<and>
   (\<forall>e. map_of (latest_attempts es) g = Some e \<longrightarrow>
      e \<in> set es \<and> ex_target_id e = g \<and> (\<forall>e' \<in> set es. ex_target_id e' = g \<longrightarrow> ex_attempt e' \<le> ex_attempt e))"
proof (induction es rule: rev_induct)
  case Nil
  then show ?case by (simp add: latest_attempts_def)
next
  case (snoc x es)
  show ?case
  proof (cases "ex_target_id x = g")
    case False
    then have "map_of (latest_attempts (es @ [x])) g = map_of (latest_attempts es) g"
      by (simp add: latest_attempts_snoc latest_step_def map_of_dict_set split: option.splits)
    with snoc False show ?thesis by auto
  next
    case True
    show ?thesis
    proof (cases "map_of (latest_attempts es) g")
      case None
      then have "map_of (latest_attempts (es @ [x])) g = Some x"
        using True by (simp add: latest_attempts_snoc latest_step_def map_of_dict_set)
      with snoc None True show ?thesis by auto
    next
      case (Some c)
      then have "map_of (latest_attempts (es @ [x])) g =
          (if ex_attempt x > ex_attempt c then Some x else Some c)"
        using True by (simp add: latest_attempts_snoc latest_step_def map_of_dict_set)
      moreover from snoc Some have c: "c \<in> set es" "ex_target_id c = g"
        "\<And>e'. e' \<in> set es \<Longrightarrow> ex_target_id e' = g \<Longrightarrow> ex_attempt e' \<le> ex_attempt c" by auto
      ultimately show ?thesis
        using True by (auto simp: not_less dest!: c(3) split: if_splits)
    qed
  qed
qed

lemma latest_attempts_newest:
  assumes "\<And>e e'. e \<in> set es \<Longrightarrow> e' \<in> set es \<Longrightarrow> ex_target_id e = ex_target_id e' \<Longrightarrow>
    ex_attempt e = ex_attempt e' \<Longrightarrow> e = e'"
  shows "snd ` set (latest_attempts es) = newest es"
proof -
  have "snd ` set (latest_attempts es) = ran (map_of (latest_attempts es))"
    by (simp add: ran_distinct [OF distinct_latest_attempts])
  also have "\<dots> = newest es"
  proof (intro set_eqI iffI)
    fix e assume "e \<in> ran (map_of (latest_attempts es))"
    then obtain g where "map_of (latest_attempts es) g = Some e" by (auto simp: ran_def)
    with latest_attempts_entry [of es g] show "e \<in> newest es" by (auto simp: newest_def)
  next
    fix e assume e: "e \<in> newest es"
    then obtain c where c: "map_of (latest_attempts es) (ex_target_id e) = Some c"
      using latest_attempts_entry [of es "ex_target_id e"] by (auto simp: newest_def)
    with latest_attempts_entry [of es "ex_target_id e"] have
      "c \<in> set es" "ex_target_id c = ex_target_id e"
      "\<forall>e' \<in> set es. ex_target_id e' = ex_target_id e \<longrightarrow> ex_attempt e' \<le> ex_attempt c" by auto
    with e have "c = e" using assms [of c e] by (force simp: newest_def)
    with c show "e \<in> ran (map_of (latest_attempts es))" by (auto simp: ran_def)
  qed
  finally show ?thesis .
qed

lemma aggregate_uses_newest:
  assumes "task_inv d"
  shows "set (map (ex_status \<circ> snd) (latest_attempts (list_by_task d k))) = newest_statuses d k"
proof -
  have "snd ` set (latest_attempts (list_by_task d k)) = newest (list_by_task d k)"
    by (rule latest_attempts_newest)
      (auto simp: list_by_task_set execution_key_def intro!: execution_key_inj [OF assms])
  then have "ex_status ` snd ` set (latest_attempts (list_by_task d k)) = newest_statuses d k"
    by (simp add: newest_statuses_def)
  then show ?thesis by (simp add: image_image comp_def)
qed

text \<open>The newest attempts exist, one per target, and none is \<open>CREATED\<close>.\<close>

lemma newest_nonempty:
  assumes "es \<noteq> []"
  shows "newest es \<noteq> {}"
proof -
  obtain m where m: "m \<in> ex_attempt ` set es" "\<forall>a \<in> ex_attempt ` set es. a \<le> m"
    using assms by (metis Max_ge Max_in finite_imageI finite_set image_is_empty set_empty)
  then obtain e where "e \<in> set es" "ex_attempt e = m" by auto
  with m(2) have "e \<in> newest es" by (auto simp: newest_def)
  then show ?thesis by blast
qed

lemma newest_statuses_not_created: "task_inv d \<Longrightarrow> CREATED \<notin> newest_statuses d k"
  by (auto simp: newest_statuses_def newest_def list_by_task_set task_inv_def task_core_def execution_states_def)

lemma derive_status_cases:
  assumes "S \<noteq> {}" "CREATED \<notin> S"
  shows "derive_status S = RETRYING \<longleftrightarrow> RETRYING \<in> S"
    and "derive_status S = RUNNING \<longleftrightarrow> RETRYING \<notin> S \<and> (PENDING \<in> S \<or> RUNNING \<in> S)"
    and "terminal_status (derive_status S) \<longleftrightarrow> (\<forall>s \<in> S. terminal_status s)"
    and "derive_status S = SUCCESS \<longleftrightarrow> SUCCESS \<in> S \<and> S \<subseteq> {SUCCESS, CANCELLED}"
    and "derive_status S = CANCELLED \<longleftrightarrow> S = {CANCELLED}"
    and "derive_status S = DEAD \<longleftrightarrow> DEAD \<in> S \<and> (\<forall>s \<in> S. terminal_status s)"
proof -
  have all: "x \<in> {PENDING, RUNNING, SUCCESS, FAILED, TIMEOUT, CANCELLED, RETRYING, DEAD}" if "x \<in> S" for x
    using that assms(2) by (cases x) auto
  show "derive_status S = RETRYING \<longleftrightarrow> RETRYING \<in> S"
    by (simp add: derive_status_def)
  show "derive_status S = RUNNING \<longleftrightarrow> RETRYING \<notin> S \<and> (PENDING \<in> S \<or> RUNNING \<in> S)"
    by (simp add: derive_status_def)
  show "terminal_status (derive_status S) \<longleftrightarrow> (\<forall>s \<in> S. terminal_status s)"
    using all by (auto simp: derive_status_def terminal_status_def)
  show "derive_status S = SUCCESS \<longleftrightarrow> SUCCESS \<in> S \<and> S \<subseteq> {SUCCESS, CANCELLED}"
    using all assms(1) by (auto simp: derive_status_def)
  show "derive_status S = CANCELLED \<longleftrightarrow> S = {CANCELLED}"
    using assms(1) by (auto simp: derive_status_def)
  show "derive_status S = DEAD \<longleftrightarrow> DEAD \<in> S \<and> (\<forall>s \<in> S. terminal_status s)"
    using all by (auto simp: derive_status_def terminal_status_def)
qed

lemma aggregate_task_get:
  assumes inv: "task_inv d" and t: "task_get d k = Some t"
  shows "\<exists>t'. task_get (aggregate_task_status now k d) k = Some t' \<and>
    tk_status t' = (if list_by_task d k = [] then PENDING else derive_status (newest_statuses d k))"
  unfolding aggregate_task_status_def Let_def aggregate_uses_newest [OF inv]
  by (simp add: task_get_set_task t)

end
