(* ===== verification/Sweep.thy ===== *)
theory Sweep
  imports Prelude
begin

text \<open>
  The interface of a loop over independent objects. Each iteration of \<open>step\<close> looks at and changes
  one entry of the state, the one under the object's \<open>key\<close>, as \<open>view\<close> shows it; \<open>post\<close> relates the
  entry before and after. The alert engine, the asset synchronisation and the metric archive are
  such loops; each discharges the two laws for its own iteration and gets the law of the loop.
\<close>

locale sweep =
  fixes step :: "'x \<Rightarrow> 's \<Rightarrow> 'e + 's"
    and key :: "'x \<Rightarrow> 'k"
    and view :: "'k \<Rightarrow> 's \<Rightarrow> 'v"
    and inv :: "'s \<Rightarrow> bool"
    and post :: "'x \<Rightarrow> 'v \<Rightarrow> 'v \<Rightarrow> bool"
  assumes step_ok: "inv s \<Longrightarrow> \<exists>s'. step x s = Inr s' \<and> inv s' \<and> post x (view (key x) s) (view (key x) s')"
    and step_frame: "inv s \<Longrightarrow> step x s = Inr s' \<Longrightarrow> k \<noteq> key x \<Longrightarrow> view k s' = view k s"
begin

lemma loop:
  assumes "distinct (map key xs)" and "inv s"
  shows "\<exists>s'. foldE step xs s = Inr s' \<and> inv s' \<and>
    (\<forall>x \<in> set xs. post x (view (key x) s) (view (key x) s')) \<and>
    (\<forall>k. k \<notin> key ` set xs \<longrightarrow> view k s' = view k s)"
  using assms
proof (induction xs arbitrary: s)
  case Nil
  then show ?case by simp
next
  case (Cons x xs)
  from step_ok [OF Cons.prems(2), of x] obtain u where
    u: "step x s = Inr u" "inv u" "post x (view (key x) s) (view (key x) u)" by blast
  have frame: "k \<noteq> key x \<Longrightarrow> view k u = view k s" for k
    by (rule step_frame [OF Cons.prems(2) u(1)])
  have x: "key x \<notin> key ` set xs" and dist: "distinct (map key xs)" using Cons.prems(1) by auto
  from Cons.IH [OF dist u(2)] obtain s' where s': "foldE step xs u = Inr s'" "inv s'"
    "\<forall>y \<in> set xs. post y (view (key y) u) (view (key y) s')"
    "\<forall>k. k \<notin> key ` set xs \<longrightarrow> view k s' = view k u" by blast
  have "post y (view (key y) s) (view (key y) s')" if "y \<in> set xs" for y
  proof -
    have "key y \<noteq> key x" using x that by (metis imageI)
    then show ?thesis using s'(3) that frame by metis
  qed
  moreover have "post x (view (key x) s) (view (key x) s')" using u(3) s'(4) x by simp
  moreover have "view k s' = view k s" if "k \<notin> key ` set (x # xs)" for k
    using that s'(4) frame by simp
  ultimately show ?case using u(1) s'(1,2) by auto
qed

lemma loop_inv: "distinct (map key xs) \<Longrightarrow> inv s \<Longrightarrow> foldE step xs s = Inr s' \<Longrightarrow> inv s'"
  using loop by fastforce

lemma loop_total: "distinct (map key xs) \<Longrightarrow> inv s \<Longrightarrow> \<exists>s'. foldE step xs s = Inr s'"
  using loop by blast

end

text \<open>Two nested loops are one loop over the pairs.\<close>

lemma foldE_append: "foldE f (xs @ ys) s = bindE (foldE f xs s) (foldE f ys)"
  by (induction xs arbitrary: s) (auto simp: bindE_def split: sum.splits)

lemma foldE_product:
  "foldE (\<lambda>x. foldE (f x) ys) xs s = foldE (\<lambda>(x, y). f x y) (List.product xs ys) s"
proof (induction xs arbitrary: s)
  case Nil
  then show ?case by simp
next
  case (Cons x xs)
  then show ?case
    by (simp add: foldE_append foldE_map) (auto simp: bindE_def split: sum.splits)
qed

end
