(* ===== verification/Samples.thy ===== *)
theory Samples
  imports Models
begin

text \<open>A small concrete database for the witnesses: one server with one whitelisted service.\<close>

definition sample_server :: OpsServer where
  "sample_server = \<lparr>sv_id = 1, sv_server_code = ''s1'', sv_hostname = ''h1'', sv_ip_address = ''10.0.0.1'',
     sv_ssh_port = 22, sv_os_name = None, sv_os_version = None, sv_kernel_version = None,
     sv_architecture = None, sv_cpu_model = None, sv_cpu_cores = Some 4, sv_memory_total_bytes = None,
     sv_disk_total_bytes = None, sv_agent_version = None, sv_agent_status = ONLINE,
     sv_last_heartbeat_at = None, sv_registered_at = None, sv_status = 1, sv_remark = None,
     sv_created_by = None, sv_deleted_at = None\<rparr>"

definition sample_service :: OpsServerService where
  "sample_service = \<lparr>ss_id = 1, ss_server_id = 1, ss_service_name = ''nginx'', ss_display_name = None,
     ss_service_type = ''SYSTEMD'', ss_is_whitelisted = 1, ss_is_critical = 0, ss_current_status = None,
     ss_last_checked_at = None, ss_status = 1\<rparr>"

definition sample_db :: db where
  "sample_db = empty_db\<lparr>ops_server := \<lparr>rows = [sample_server], next_id = 2\<rparr>,
     ops_server_service := \<lparr>rows = [sample_service], next_id = 2\<rparr>\<rparr>"

end
