(* ===== verification/Task_Properties.thy ===== *)
theory Task_Properties
  imports Task_Aggregate Sweep Samples
begin

text \<open>
  What the task engine guarantees: safety of the reachable databases, the outcome of every branch
  of the operations, and the contracts of the sweeps. The witnesses run the engine on a concrete
  database with one server, one task and its execution.
\<close>

section \<open>A concrete database\<close>

definition cron_never :: "string \<Rightarrow> datetime \<Rightarrow> datetime option" where
  "cron_never expr base = None"

definition check_request :: TaskCreate where
  "check_request = \<lparr>tc_task_name = ''check'', tc_task_type = ''SERVICE_CHECK'', tc_action = None,
     tc_service_name = None, tc_server_ids = [1], tc_schedule_type = ''ONCE'', tc_cron_expression = None,
     tc_timeout_seconds = 60, tc_max_attempts = 3, tc_confirmation_required = None\<rparr>"

definition restart_request :: TaskCreate where
  "restart_request = check_request\<lparr>tc_task_type := ''SERVICE_ACTION'', tc_action := Some ''RESTART'',
     tc_service_name := Some ''nginx''\<rparr>"

definition created_db :: db where
  "created_db = (case create_task 0 check_request 1 (Some ''k1'') sample_db of
     Inr (k, d) \<Rightarrow> d | Inl e \<Rightarrow> sample_db)"

definition running_db :: db where
  "running_db = snd (fetch_pending 10 1 created_db)"

definition network_failure :: TaskResultRequest where
  "network_failure = \<lparr>tr_execution_id = 1, tr_status = ''FAILED'', tr_exit_code = Some 1,
     tr_result_text = None, tr_error_message = Some ''connection reset'', tr_error_type = Some ''NETWORK_ERROR'',
     tr_logs = None\<rparr>"

lemma sample_reachable: "reachable cron_never sample_db"
  by (rule reachable.other [OF reachable.start]) (simp_all add: sample_db_def)

lemma created_reachable: "reachable cron_never created_db"
proof (rule reachable.commit [OF sample_reachable])
  show "request_valid (CreateTask check_request 1 (Some ''k1''))"
    by (simp add: task_create_valid_def code_points_def check_request_def)
  have "\<not> (case create_task 0 check_request 1 (Some ''k1'') sample_db of Inl e \<Rightarrow> True | Inr r \<Rightarrow> False)"
    by code_simp
  then show "task_transaction cron_never 0 (CreateTask check_request 1 (Some ''k1'')) sample_db = Inr created_db"
    by (auto simp: created_db_def split: sum.splits)
qed

lemma running_reachable: "reachable cron_never running_db"
  by (rule reachable.commit [OF created_reachable, of "FetchPending 1" 10]) (simp_all add: running_db_def)

section \<open>Safety of the reachable databases\<close>

text \<open>
  C3. Whatever transactions ran, in any order and at any times, a target never has two executions
  that have not ended: an agent is never asked to run the same action of a task twice at once.
\<close>

theorem one_active_execution_per_target:
  assumes "reachable cron d"
    and "e \<in> set (executions d)" "active_execution e"
    and "e' \<in> set (executions d)" "active_execution e'"
    and "ex_target_id e = ex_target_id e'"
  shows "e = e'"
  using one_active_per_target [OF reachable_inv [OF assms(1)]] assms(2-) by blast

theorem one_active_execution_per_target_witness:
  "active_execution (hd (executions running_db)) \<and> hd (executions running_db) = last (executions running_db)"
proof -
  have e: "hd (executions running_db) \<in> set (executions running_db)" "active_execution (hd (executions running_db))"
    "last (executions running_db) \<in> set (executions running_db)" "active_execution (last (executions running_db))"
    "ex_target_id (hd (executions running_db)) = ex_target_id (last (executions running_db))"
    by code_simp+
  with one_active_execution_per_target [OF running_reachable e] show ?thesis by simp
qed

text \<open>
  C9. The attempts of a target are numbered without repetition within the budget of its task, so
  there are at most \<open>max_attempts\<close> executions of it.
\<close>

theorem attempt_budget:
  assumes "reachable cron d" and "t \<in> set (tasks d)" and "g \<in> set (targets d)" "tg_task_id g = tk_id t"
  defines "es \<equiv> filter (\<lambda>e. ex_target_id e = tg_id g) (executions d)"
  shows "distinct (map ex_attempt es) \<and> set (map ex_attempt es) \<subseteq> {1..tk_max_attempts t} \<and>
    int (length es) \<le> tk_max_attempts t"
proof -
  note inv = reachable_inv [OF assms(1)]
  have dist: "distinct (map ex_attempt es)"
    unfolding es_def by (rule attempts_of_target [OF inv])
  have range: "set (map ex_attempt es) \<subseteq> {1..tk_max_attempts t}"
  proof
    fix a assume "a \<in> set (map ex_attempt es)"
    then obtain e where e: "e \<in> set (executions d)" "ex_target_id e = tg_id g" "a = ex_attempt e"
      by (auto simp: es_def)
    obtain h where h: "h \<in> set (targets d)" "tg_id h = ex_target_id e" "tg_task_id h = ex_task_id e"
      using execution_target [OF inv e(1)] .
    have "h = g" using target_id_inj [OF inv h(1) assms(3)] h(2) e(2) by simp
    moreover obtain u where u: "u \<in> set (tasks d)" "tk_id u = ex_task_id e" "1 \<le> ex_attempt e"
      "ex_attempt e \<le> tk_max_attempts u" using execution_task [OF inv e(1)] .
    ultimately have "u = t" using task_id_inj [OF inv u(1) assms(2)] h(3) assms(4) by simp
    with u e show "a \<in> {1..tk_max_attempts t}" by simp
  qed
  have "length es = card (set (map ex_attempt es))"
    using distinct_card [OF dist] by simp
  also have "\<dots> \<le> card {1..tk_max_attempts t}"
    by (rule card_mono [OF _ range]) simp
  finally have "length es \<le> nat (tk_max_attempts t)" by simp
  moreover have "1 \<le> tk_max_attempts t"
    using inv assms(2) by (auto simp: task_inv_def task_core_def task_refs_def)
  ultimately have "int (length es) \<le> tk_max_attempts t" by linarith
  with dist range show ?thesis by simp
qed

theorem attempt_budget_witness:
  "map ex_attempt (filter (\<lambda>e. ex_target_id e = 1) (executions running_db)) = [1] \<and>
   int (length (filter (\<lambda>e. ex_target_id e = 1) (executions running_db))) \<le> 3"
proof -
  have t: "hd (tasks running_db) \<in> set (tasks running_db)" "tk_id (hd (tasks running_db)) = 1"
    "tk_max_attempts (hd (tasks running_db)) = 3" by code_simp+
  have g: "hd (targets running_db) \<in> set (targets running_db)" "tg_task_id (hd (targets running_db)) = 1"
    "tg_id (hd (targets running_db)) = 1" by code_simp+
  have "int (length (filter (\<lambda>e. ex_target_id e = 1) (executions running_db))) \<le> 3"
    using attempt_budget [OF running_reachable t(1) g(1)] t(2,3) g(2,3) by simp
  moreover have "map ex_attempt (filter (\<lambda>e. ex_target_id e = 1) (executions running_db)) = [1]"
    by code_simp
  ultimately show ?thesis by simp
qed

text \<open>
  The retry sweep and the CRON sweep never raise in a reachable database: no unique key is
  violated and no task is missing, so one bad row never blocks the others.
\<close>

theorem sweeps_never_fail:
  assumes "reachable cron d"
  shows "(\<exists>n d'. dispatch_retries now limit d = Inr (n, d') \<and> reachable cron d') \<and>
    (\<exists>n d'. fire_due_cron cron now d = Inr (n, d') \<and> reachable cron d')"
proof -
  obtain n d' where d': "dispatch_retries now limit d = Inr (n, d')"
    using dispatch_retries_ok [OF reachable_inv [OF assms]] by blast
  obtain m d'' where d'': "fire_due_cron cron now d = Inr (m, d'')"
    using fire_due_cron_ok [OF reachable_inv [OF assms]] by blast
  have "reachable cron d'" "reachable cron d''"
    using reachable.commit [OF assms, of "DispatchRetries limit" now]
      reachable.commit [OF assms, of FireDueCron now] d' d'' by simp_all
  with d' d'' show ?thesis by blast
qed

theorem sweeps_never_fail_witness:
  "\<exists>n d'. dispatch_retries 100 50 running_db = Inr (n, d')"
  using sweeps_never_fail [OF running_reachable] by blast

text \<open>
  C4. The aggregated status of a task depends on the newest attempt of each target and on nothing
  else: waiting for a retry if one of them is, running if one is pending or running, ended exactly
  when all of them have ended, successful exactly when one succeeded and the rest succeeded or were
  cancelled, cancelled exactly when all were, dead when all ended and one is dead.
\<close>

theorem aggregate_spec:
  assumes "reachable cron d" and "task_get d k = Some t" and "list_by_task d k \<noteq> []"
  shows "\<exists>t'. task_get (aggregate_task_status now k d) k = Some t' \<and>
    (let S = newest_statuses d k; s = tk_status t' in
       (s = RETRYING \<longleftrightarrow> RETRYING \<in> S) \<and>
       (s = RUNNING \<longleftrightarrow> RETRYING \<notin> S \<and> (PENDING \<in> S \<or> RUNNING \<in> S)) \<and>
       (terminal_status s \<longleftrightarrow> (\<forall>x \<in> S. terminal_status x)) \<and>
       (s = SUCCESS \<longleftrightarrow> SUCCESS \<in> S \<and> S \<subseteq> {SUCCESS, CANCELLED}) \<and>
       (s = CANCELLED \<longleftrightarrow> S = {CANCELLED}) \<and>
       (s = DEAD \<longleftrightarrow> DEAD \<in> S \<and> (\<forall>x \<in> S. terminal_status x)))"
proof -
  note inv = reachable_inv [OF assms(1)]
  have ne: "newest_statuses d k \<noteq> {}"
    using newest_nonempty [OF assms(3)] by (simp add: newest_statuses_def)
  note cases = derive_status_cases [OF ne newest_statuses_not_created [OF inv]]
  obtain t' where t': "task_get (aggregate_task_status now k d) k = Some t'"
    "tk_status t' = derive_status (newest_statuses d k)"
    using aggregate_task_get [OF inv assms(2)] assms(3) by auto
  show ?thesis unfolding Let_def by (intro exI [of _ t'] conjI t'(1); simp only: t'(2) cases)
qed

theorem aggregate_spec_witness:
  "\<exists>t'. task_get (aggregate_task_status 99 1 running_db) 1 = Some t' \<and> tk_status t' = RUNNING"
proof -
  have t: "task_get running_db 1 = Some (hd (tasks running_db))" "list_by_task running_db 1 \<noteq> []"
    by code_simp+
  have "list_by_task running_db 1 = executions running_db" "length (executions running_db) = 1"
    "ex_status (hd (executions running_db)) = RUNNING" by code_simp+
  then have "newest_statuses running_db 1 = {RUNNING}"
    by (cases "executions running_db") (auto simp: newest_statuses_def newest_def)
  then show ?thesis
    using aggregate_spec [OF running_reachable t, of 99] by (auto simp: Let_def)
qed

section \<open>The report of an agent\<close>

lemma retry_delay:
  "1 \<le> a \<Longrightarrow> backoff_seconds a = (if a = 1 then 5 else if a = 2 then 10 else if a = 3 then 30 else 60)"
  by (simp add: backoff_seconds_def BACKOFF_SECONDS_def nth_Cons' Let_def)

lemma aggregate_execution_get [simp]:
  "execution_get (aggregate_task_status now k d) j = execution_get d j"
  by (simp add: execution_get_def)

lemma report_result_active:
  assumes "task_inv d" and e: "execution_get d (tr_execution_id r) = Some e" "ex_server_id e = sid"
    "active_execution e" and t: "task_get d (ex_task_id e) = Some t"
  shows "report_result now sid r d = Inr (aggregate_task_status now (tk_id t)
     (if tr_status r = ''SUCCESS''
      then log_record (ex_id e) (text_or (py_or (tr_logs r) (tr_result_text r)) LogExecutionOk) LEVEL_INFO
             (finish now SUCCESS (tr_exit_code r) (tr_result_text r) None None (ex_id e) d)
      else report_failure now r t e d))"
  using assms by (simp add: report_result_def active_execution_def get_task_entity_def)

text \<open>The row of an execution after a report on it.\<close>

definition reported_row :: "datetime \<Rightarrow> TaskResultRequest \<Rightarrow> OpsTask \<Rightarrow> OpsTaskExecution \<Rightarrow> OpsTaskExecution" where
  "reported_row now r t e =
     (if tr_status r = ''SUCCESS'' then e\<lparr>ex_status := SUCCESS, ex_exit_code := tr_exit_code r,
        ex_result_text := tr_result_text r, ex_error_message := None, ex_finished_at := Some now,
        ex_duration_ms := elapsed now e\<rparr>
      else if is_retryable (tr_error_type r) (tr_error_message r) then
        if can_retry now t e then e\<lparr>ex_status := RETRYING,
          ex_error_type := Some (classify_error (tr_error_type r) (tr_error_message r)),
          ex_error_message := tr_error_message r,
          ex_next_retry_at := Some (now + timedelta_seconds (backoff_seconds (ex_attempt e))),
          ex_finished_at := Some now, ex_duration_ms := elapsed now e\<rparr>
        else e\<lparr>ex_status := DEAD,
          ex_error_type := Some (classify_error (tr_error_type r) (tr_error_message r)),
          ex_error_message := Some (or_text (tr_error_message r) budget_exhausted_text),
          ex_next_retry_at := None, ex_finished_at := Some now, ex_duration_ms := elapsed now e\<rparr>
      else e\<lparr>ex_status := FAILED, ex_exit_code := tr_exit_code r, ex_result_text := None,
        ex_error_message := tr_error_message r,
        ex_error_type := Some (classify_error (tr_error_type r) (tr_error_message r)),
        ex_finished_at := Some now, ex_duration_ms := elapsed now e\<rparr>)"

lemma report_result_row:
  assumes inv: "task_inv d" and e: "execution_get d (tr_execution_id r) = Some e" "ex_server_id e = sid"
    "active_execution e" and t: "task_get d (ex_task_id e) = Some t"
    and d': "report_result now sid r d = Inr d'"
  shows "execution_get d' (ex_id e) = Some (reported_row now r t e)"
    and "\<And>y. y \<in> set (executions d) \<Longrightarrow> ex_id y \<noteq> ex_id e \<Longrightarrow> y \<in> set (executions d')"
proof -
  have id: "execution_get d (ex_id e) = Some e" using execution_get_in [OF e(1)] e(1) by simp
  note d'' = d' [unfolded report_result_active [OF inv e t], simplified, symmetric]
  show "\<And>y. y \<in> set (executions d) \<Longrightarrow> ex_id y \<noteq> ex_id e \<Longrightarrow> y \<in> set (executions d')"
    unfolding d''
    by (auto simp: report_failure_def Let_def execution_writes intro!: set_execution_other
        simp del: executions_set_execution)
  show "execution_get d' (ex_id e) = Some (reported_row now r t e)"
    unfolding d''
    by (simp add: report_failure_def Let_def execution_writes execution_get_set_execution id reported_row_def)
qed



text \<open>
  Reports are idempotent: once an execution has ended, any later report on it from its server
  is accepted and changes nothing.
\<close>

theorem report_idempotent:
  assumes "reachable cron d" and "report_result now sid r d = Inr d'"
    and "execution_get d' (tr_execution_id r) = Some e'" and "ex_status e' \<noteq> RETRYING"
    and "tr_execution_id r2 = tr_execution_id r"
  shows "report_result now2 sid r2 d' = Inr d'"
proof -
  note inv = reachable_inv [OF assms(1)]
  obtain e where e: "execution_get d (tr_execution_id r) = Some e" "ex_server_id e = sid"
    using assms(2) by (auto simp: report_result_def split: option.splits if_splits)
  have mem: "e \<in> set (executions d)" and id: "ex_id e = tr_execution_id r"
    using execution_get_in [OF e(1)] by auto
  have "terminal_status (ex_status e') \<and> ex_server_id e' = sid"
  proof (cases "active_execution e")
    case False
    then have "d' = d" using assms(2) e by (simp add: report_result_def active_execution_def)
    with False e assms(3) show ?thesis by (simp add: active_execution_def)
  next
    case True
    obtain t where t: "task_get d (ex_task_id e) = Some t" using execution_task [OF inv mem] by metis
    have "e' = reported_row now r t e"
      using report_result_row(1) [OF inv e True t assms(2)] assms(3) id by simp
    with assms(4) e(2) show ?thesis
      by (auto simp: reported_row_def terminal_status_def split: if_splits)
  qed
  with assms(3,5) show ?thesis by (simp add: report_result_def)
qed

definition success_report :: TaskResultRequest where
  "success_report = network_failure\<lparr>tr_status := ''SUCCESS''\<rparr>"

definition finished_db :: db where
  "finished_db = (case report_result 20 1 success_report running_db of Inr d \<Rightarrow> d | Inl e \<Rightarrow> running_db)"

theorem report_idempotent_witness:
  "report_result 30 1 network_failure finished_db = Inr finished_db"
proof (rule report_idempotent [OF running_reachable])
  have "\<not> (case report_result 20 1 success_report running_db of Inl e \<Rightarrow> True | Inr d \<Rightarrow> False)"
    by code_simp
  then show "report_result 20 1 success_report running_db = Inr finished_db"
    by (auto simp: finished_db_def split: sum.splits)
  show "execution_get finished_db (tr_execution_id success_report) = Some (hd (executions finished_db))"
    "ex_status (hd (executions finished_db)) \<noteq> RETRYING"
    "tr_execution_id network_failure = tr_execution_id success_report"
    by code_simp+
qed

text \<open>
  A report is refused exactly when the server has no such execution, and then with 404; every
  other report is accepted.
\<close>

theorem report_errors:
  assumes "reachable cron d"
  shows "report_result now sid r d = Inl x \<longleftrightarrow>
    x = AppException TASK_EXECUTION_NOT_FOUND 404 \<and>
    \<not> (\<exists>e \<in> set (executions d). ex_id e = tr_execution_id r \<and> ex_server_id e = sid)"
proof -
  note inv = reachable_inv [OF assms]
  show ?thesis
  proof (cases "execution_get d (tr_execution_id r)")
    case None
    then have "ex_id e \<noteq> tr_execution_id r" if "e \<in> set (executions d)" for e
      using execution_get_exists [OF that] by auto
    with None show ?thesis by (auto simp: report_result_def)
  next
    case (Some e)
    then have e: "e \<in> set (executions d)" "ex_id e = tr_execution_id r" using execution_get_in by auto
    obtain t where t: "task_get d (ex_task_id e) = Some t" using execution_task [OF inv e(1)] by metis
    have uniq: "e' = e" if "e' \<in> set (executions d)" "ex_id e' = tr_execution_id r" for e'
      using execution_id_inj [OF inv that(1) e(1)] that(2) e(2) by simp
    show ?thesis
    proof (cases "ex_server_id e = sid")
      case True
      have "report_result now sid r d \<noteq> Inl x"
        using Some True t by (simp add: report_result_def get_task_entity_def)
      with True e show ?thesis by blast
    next
      case False
      then have "report_result now sid r d = Inl (AppException TASK_EXECUTION_NOT_FOUND 404)"
        using Some by (simp add: report_result_def)
      with False uniq show ?thesis by auto
    qed
  qed
qed

theorem report_errors_witness:
  "report_result 20 2 network_failure running_db = Inl (AppException TASK_EXECUTION_NOT_FOUND 404)"
proof -
  have "\<not> (\<exists>e \<in> set (executions running_db). ex_id e = tr_execution_id network_failure \<and> ex_server_id e = 2)"
    by code_simp
  then show ?thesis using report_errors [OF running_reachable] by blast
qed

section \<open>Retries happen\<close>

text \<open>What the sweep needs of an execution \<open>e\<close> that waits, and what it leaves behind.\<close>

definition retry_ready :: "datetime \<Rightarrow> OpsTaskExecution \<Rightarrow> db \<Rightarrow> bool" where
  "retry_ready now e d \<longleftrightarrow> e \<in> set (executions d) \<and>
     (\<exists>t. task_get d (ex_task_id e) = Some t \<and> \<not> terminal_status (tk_status t) \<and> can_retry now t e)"

definition retried :: "OpsTaskExecution \<Rightarrow> db \<Rightarrow> bool" where
  "retried e d \<longleftrightarrow> (\<exists>e' \<in> set (executions d). ex_target_id e' = ex_target_id e \<and>
     ex_attempt e' = ex_attempt e + 1 \<and> ex_status e' = PENDING)"

lemma aggregate_keeps_waiting:
  assumes inv: "task_inv d" and e: "e \<in> set (executions d)" "active_execution e"
    and t: "task_get d (ex_task_id e) = Some t"
  shows "\<exists>t'. task_get (aggregate_task_status now (ex_task_id e) d) (ex_task_id e) = Some t' \<and>
    tk_max_attempts t' = tk_max_attempts t \<and> tk_deadline_at t' = tk_deadline_at t \<and>
    \<not> terminal_status (tk_status t')"
proof -
  have le: "e \<in> set (list_by_task d (ex_task_id e))" using e(1) by (simp add: list_by_task_set)
  then have ne: "list_by_task d (ex_task_id e) \<noteq> []" by auto
  have "e \<in> newest (list_by_task d (ex_task_id e))"
    using le frontierD [OF inv e(1) _ e(2)] by (auto simp: newest_def list_by_task_set)
  then have s: "ex_status e \<in> newest_statuses d (ex_task_id e)" by (simp add: newest_statuses_def)
  then have "\<not> terminal_status (derive_status (newest_statuses d (ex_task_id e)))"
    using derive_status_cases(3) [OF _ newest_statuses_not_created [OF inv]] e(2)
    by (auto simp: active_execution_def)
  then show ?thesis
    unfolding aggregate_task_status_def Let_def aggregate_uses_newest [OF inv]
    using ne by (simp add: task_get_set_task t)
qed

lemma can_retry_budget:
  "tk_max_attempts t = tk_max_attempts u \<Longrightarrow> tk_deadline_at t = tk_deadline_at u \<Longrightarrow>
   can_retry now t e = can_retry now u e"
  by (simp add: can_retry_def)

lemma dispatch_other_keeps_ready:
  assumes inv: "task_inv d" and x: "x \<in> set (executions d)" "ex_status x = RETRYING"
    and e: "retry_ready now e d" "active_execution e" "ex_id e \<noteq> ex_id x"
    and step: "dispatch_one now x (n, d) = Inr (n', d')"
  shows "retry_ready now e d'"
proof -
  from dispatch_one_ok [OF inv x, of now n] step have
    keep: "\<And>y. y \<in> set (executions d) \<Longrightarrow> ex_id y \<noteq> ex_id x \<Longrightarrow> y \<in> set (executions d')"
    and disp: "\<And>t. task_get d (ex_task_id x) = Some t \<Longrightarrow> \<not> terminal_status (tk_status t) \<Longrightarrow> dispatched now x t d d'"
    and other: "\<And>j. j \<noteq> ex_task_id x \<Longrightarrow>
      map_option task_budget (task_get d' j) = map_option task_budget (task_get d j)"
    by auto
  from e obtain t where t: "task_get d (ex_task_id e) = Some t" "\<not> terminal_status (tk_status t)"
    "can_retry now t e" and mem: "e \<in> set (executions d)" by (auto simp: retry_ready_def)
  have mem': "e \<in> set (executions d')" by (rule keep [OF mem e(3)])
  show ?thesis
  proof (cases "ex_task_id e = ex_task_id x")
    case False
    from other [OF False] t(1) obtain t' where "task_get d' (ex_task_id e) = Some t'" "task_budget t' = task_budget t"
      by auto
    with t mem' show ?thesis
      using can_retry_budget [of t' t] by (auto simp: retry_ready_def task_budget_def)
  next
    case True
    with disp t obtain dp where dp: "task_inv dp" "d' = aggregate_task_status now (ex_task_id e) dp"
      "\<And>j. map_option task_budget (task_get dp j) = map_option task_budget (task_get d j)"
      by (auto simp: dispatched_def)
    have "e \<in> set (executions dp)" using mem' dp(2) by simp
    moreover obtain u where u: "task_get dp (ex_task_id e) = Some u" "task_budget u = task_budget t"
      using dp(3) [of "ex_task_id e"] t(1) by auto
    ultimately obtain t' where "task_get d' (ex_task_id e) = Some t'" "tk_max_attempts t' = tk_max_attempts t"
      "tk_deadline_at t' = tk_deadline_at t" "\<not> terminal_status (tk_status t')"
      using aggregate_keeps_waiting [OF dp(1) _ e(2) u(1), of now] dp(2) by (auto simp: task_budget_def)
    with mem' t(3) can_retry_budget [of t' t] show ?thesis by (auto simp: retry_ready_def)
  qed
qed

lemma length_filter_imp:
  assumes "\<And>x. P x \<Longrightarrow> Q x"
  shows "length (filter P xs) \<le> length (filter Q xs)"
  using assms by (induction xs) auto


lemma dispatch_prefix:
  assumes "distinct (map ex_id (xs @ ys))" and "task_inv (snd s)"
    and "\<forall>x \<in> set (xs @ ys). x \<in> set (executions (snd s)) \<and> ex_status x = RETRYING"
  shows "\<exists>s'. foldE (dispatch_one now) xs s = Inr s' \<and> task_inv (snd s') \<and>
    (\<forall>y \<in> set ys. y \<in> set (executions (snd s'))) \<and>
    (\<forall>e \<in> set ys. retry_ready now e (snd s) \<longrightarrow> retry_ready now e (snd s')) \<and>
    (\<forall>e. e \<in> set (executions (snd s)) \<longrightarrow> ex_status e = PENDING \<longrightarrow> e \<in> set (executions (snd s')))"
  using assms
proof (induction xs arbitrary: s)
  case Nil
  then show ?case by simp
next
  case (Cons x xs)
  obtain n d where s: "s = (n, d)" by force
  have x: "x \<in> set (executions d)" "ex_status x = RETRYING" "task_inv d" using Cons.prems s by auto
  obtain n' d' where step: "dispatch_one now x (n, d) = Inr (n', d')" "task_inv d'"
    and keep: "\<And>y. y \<in> set (executions d) \<Longrightarrow> ex_id y \<noteq> ex_id x \<Longrightarrow> y \<in> set (executions d')"
    using dispatch_one_ok [OF x(3,1,2), of now n] by blast
  have ids: "ex_id y \<noteq> ex_id x" if "y \<in> set (xs @ ys)" for y
    using Cons.prems(1) that by (auto simp: image_iff)
  have rest: "\<forall>y \<in> set (xs @ ys). y \<in> set (executions (snd (n', d'))) \<and> ex_status y = RETRYING"
    using Cons.prems(3) keep ids s by auto
  obtain s' where s': "foldE (dispatch_one now) xs (n', d') = Inr s'" "task_inv (snd s')"
    "\<forall>y \<in> set ys. y \<in> set (executions (snd s'))"
    "\<forall>e \<in> set ys. retry_ready now e d' \<longrightarrow> retry_ready now e (snd s')"
    "\<forall>e. e \<in> set (executions d') \<longrightarrow> ex_status e = PENDING \<longrightarrow> e \<in> set (executions (snd s'))"
    using Cons.IH [of "(n', d')"] Cons.prems(1) step(2) rest by auto
  have ready: "retry_ready now e d'" if "e \<in> set ys" "retry_ready now e d" for e
  proof -
    have "active_execution e" using Cons.prems(3) that(1) by (auto simp: active_execution_def terminal_status_def)
    with ids [of e] that show ?thesis
      by (intro dispatch_other_keeps_ready [OF x(3,1,2) _ _ _ step(1)]) auto
  qed
  have pending: "e \<in> set (executions d')" if "e \<in> set (executions d)" "ex_status e = PENDING" for e
  proof (rule keep [OF that(1)])
    show "ex_id e \<noteq> ex_id x" using execution_id_inj [OF x(3) that(1) x(1)] that(2) x(2) by auto
  qed
  show ?case using s step(1) s' ready pending by (intro exI [of _ s']) auto
qed

lemma dispatch_retries_retried:
  assumes inv: "task_inv d" and due: "e \<in> set (list_due_retries d now limit)" and ready: "retry_ready now e d"
  shows "\<exists>n d'. dispatch_retries now limit d = Inr (n, d') \<and> retried e d'"
proof -
  let ?es = "list_due_retries d now limit"
  have all: "\<forall>x \<in> set ?es. x \<in> set (executions d) \<and> ex_status x = RETRYING"
    using list_due_retries_in by blast
  have dist: "distinct (map ex_id ?es)"
    unfolding list_due_retries_def by (rule distinct_executions_sub [OF inv])
  obtain xs ys where split: "?es = xs @ e # ys" using due by (auto simp: in_set_conv_decomp)
  obtain s1 where s1: "foldE (dispatch_one now) xs (0, d) = Inr s1" "task_inv (snd s1)"
    "\<forall>y \<in> set (e # ys). y \<in> set (executions (snd s1))" "retry_ready now e (snd s1)"
    using dispatch_prefix [of xs "e # ys" "(0, d)" now] dist all ready inv unfolding split by auto
  obtain n1 d1 where n1: "s1 = (n1, d1)" by force
  have act: "active_execution e" and st: "ex_status e = RETRYING"
    using all split by (auto simp: active_execution_def terminal_status_def)
  obtain t where t: "task_get d1 (ex_task_id e) = Some t" "\<not> terminal_status (tk_status t)" "can_retry now t e"
    using s1(4) n1 by (auto simp: retry_ready_def)
  have e1: "e \<in> set (executions d1)" "task_inv d1" using s1 n1 by auto
  obtain d2 where d2: "dispatch_one now e (n1, d1) = Inr (n1 + 1, d2)" "task_inv d2" "dispatched now e t d1 d2"
    "\<forall>y \<in> set (executions d1). ex_id y \<noteq> ex_id e \<longrightarrow> y \<in> set (executions d2)"
    using dispatch_one_retry [OF e1(2,1) act t] by blast
  obtain e' where e': "e' \<in> set (executions d2)" "ex_target_id e' = ex_target_id e"
    "ex_attempt e' = ex_attempt e + 1" "ex_status e' = PENDING"
    using d2(3) t(3) by (auto simp: dispatched_def)
  have "ex_id y \<noteq> ex_id e" if "y \<in> set ys" for y using dist that by (auto simp: split image_iff)
  then have "\<forall>y \<in> set (ys @ []). y \<in> set (executions (snd (n1 + 1, d2))) \<and> ex_status y = RETRYING"
    using s1(3) d2(4) n1 all split by auto
  moreover have "distinct (map ex_id (ys @ []))" using dist split by simp
  ultimately obtain s3 where s3: "foldE (dispatch_one now) ys (n1 + 1, d2) = Inr s3" "e' \<in> set (executions (snd s3))"
    using dispatch_prefix [of ys "[]" "(n1 + 1, d2)" now] d2(2) e'(1,4) by auto
  have "dispatch_retries now limit d = Inr s3"
    using s1(1) n1 d2(1) s3(1) by (simp add: dispatch_retries_def split foldE_append)
  with s3(2) e' show ?thesis by (cases s3) (auto simp: retried_def)
qed

text \<open>
  C6. A failure that may be retried is retried: the first retry sweep at or after its retry time,
  unless it is busy with \<open>limit\<close> others, creates the next attempt of the target, ready to be
  fetched, provided the task has not ended, attempts remain and the deadline is ahead.
\<close>

theorem due_retry_is_dispatched:
  assumes "reachable cron d" and "e \<in> set (executions d)" and "ex_status e = RETRYING"
    and "ex_next_retry_at e = Some r" and "r \<le> now"
    and "length (filter (\<lambda>x. ex_status x = RETRYING) (executions d)) \<le> limit"
    and "task_get d (ex_task_id e) = Some t" and "\<not> terminal_status (tk_status t)"
    and "ex_attempt e < tk_max_attempts t"
    and "tk_deadline_at t = Some dl" and "now < dl"
  shows "\<exists>n d'. dispatch_retries now limit d = Inr (n, d') \<and>
    (\<exists>e' \<in> set (executions d'). ex_target_id e' = ex_target_id e \<and>
       ex_attempt e' = ex_attempt e + 1 \<and> ex_status e' = PENDING)"
proof -
  let ?due = "\<lambda>x. ex_status x = RETRYING \<and> (case ex_next_retry_at x of None \<Rightarrow> False | Some r \<Rightarrow> r \<le> now)"
  have "length (filter ?due (executions d)) \<le> length (filter (\<lambda>x. ex_status x = RETRYING) (executions d))"
    by (rule length_filter_imp) simp
  then have "length (sort_key retry_time (filter ?due (executions d))) \<le> limit"
    using assms(6) by simp
  then have "e \<in> set (list_due_retries d now limit)"
    using assms(2-5) by (simp add: list_due_retries_def)
  moreover have "retry_ready now e d"
    using assms(2,7-11) by (auto simp: retry_ready_def can_retry_def)
  ultimately show ?thesis
    using dispatch_retries_retried [OF reachable_inv [OF assms(1)]] by (simp add: retried_def)
qed

definition retrying_db :: db where
  "retrying_db = (case report_result 20 1 network_failure running_db of Inr d \<Rightarrow> d | Inl e \<Rightarrow> running_db)"

lemma retrying_reachable: "reachable cron_never retrying_db"
proof (rule reachable.commit [OF running_reachable])
  have "\<not> (case report_result 20 1 network_failure running_db of Inl e \<Rightarrow> True | Inr d \<Rightarrow> False)"
    by code_simp
  then show "task_transaction cron_never 20 (ReportResult 1 network_failure) running_db = Inr retrying_db"
    by (auto simp: retrying_db_def split: sum.splits)
qed simp

theorem due_retry_is_dispatched_witness:
  "\<exists>n d'. dispatch_retries 6000000 50 retrying_db = Inr (n, d') \<and>
    (\<exists>e' \<in> set (executions d'). ex_target_id e' = 1 \<and> ex_attempt e' = 2 \<and> ex_status e' = PENDING)"
proof -
  let ?e = "hd (executions retrying_db)"
  let ?t = "hd (tasks retrying_db)"
  have e: "?e \<in> set (executions retrying_db)" "ex_status ?e = RETRYING" "ex_next_retry_at ?e = Some 5000020"
    "length (filter (\<lambda>x. ex_status x = RETRYING) (executions retrying_db)) \<le> 50"
    "task_get retrying_db (ex_task_id ?e) = Some ?t" "\<not> terminal_status (tk_status ?t)"
    "ex_attempt ?e < tk_max_attempts ?t" "tk_deadline_at ?t = Some 180000000"
    "ex_target_id ?e = 1" "ex_attempt ?e = 1"
    by code_simp+
  show ?thesis
    using due_retry_is_dispatched [OF retrying_reachable e(1-3) _ e(4-8), of 6000000] e(9,10) by simp
qed

end
