(* ===== verification/Task_Sweeps.thy ===== *)
theory Task_Sweeps
  imports Task_Properties
begin

text \<open>
  The poll of an agent, the timeout sweep, the clean-up and the cancellation, each described by
  what it does to the whole table of executions.
\<close>

section \<open>Polling\<close>

definition assigned_of :: "db \<Rightarrow> OpsTaskExecution \<Rightarrow> AssignedTask" where
  "assigned_of d e = (case task_get d (ex_task_id e) of
     Some t \<Rightarrow> \<lparr>as_execution_id = ex_id e, as_task_id = tk_id t, as_action = tk_action t,
       as_service_name = tk_service_name t, as_timeout_seconds = tk_timeout_seconds t\<rparr>
   | None \<Rightarrow> \<lparr>as_execution_id = ex_id e, as_task_id = ex_task_id e, as_action = None,
       as_service_name = None, as_timeout_seconds = 0\<rparr>)"

definition start_execution :: "datetime \<Rightarrow> OpsTaskExecution \<Rightarrow> OpsTaskExecution" where
  "start_execution now e = e\<lparr>ex_status := RUNNING, ex_started_at := Some now\<rparr>"

lemma claim_step:
  assumes "task_get d (ex_task_id e) \<noteq> None"
  shows "fst (claim_execution now e (as, d)) = as @ [assigned_of d e]"
    and "executions (snd (claim_execution now e (as, d))) =
      map (\<lambda>x. if ex_id x = ex_id e then start_execution now x else x) (executions d)"
    and "\<And>x. assigned_of (snd (claim_execution now e (as, d))) x = assigned_of d x"
    and "\<And>j. task_get (snd (claim_execution now e (as, d))) j = None \<longleftrightarrow> task_get d j = None"
proof -
  show "fst (claim_execution now e (as, d)) = as @ [assigned_of d e]"
    using assms by (auto simp: claim_execution_def assigned_of_def Let_def)
  show "executions (snd (claim_execution now e (as, d))) =
      map (\<lambda>x. if ex_id x = ex_id e then start_execution now x else x) (executions d)"
    using assms by (auto simp: claim_execution_def Let_def mark_running_def start_execution_def split: option.splits)
  show "assigned_of (snd (claim_execution now e (as, d))) x = assigned_of d x" for x
    using assms by (auto simp: claim_execution_def Let_def mark_running_def assigned_of_def
        task_get_set_task split: option.splits)
  show "task_get (snd (claim_execution now e (as, d))) j = None \<longleftrightarrow> task_get d j = None" for j
    using assms by (auto simp: claim_execution_def Let_def mark_running_def task_get_set_task split: option.splits)
qed

lemma claim_fold:
  assumes "\<forall>e \<in> set es. task_get d (ex_task_id e) \<noteq> None"
  shows "fst (fold (claim_execution now) es (as, d)) = as @ map (assigned_of d) es"
    and "executions (snd (fold (claim_execution now) es (as, d))) =
      map (\<lambda>x. if ex_id x \<in> ex_id ` set es then start_execution now x else x) (executions d)"
  using assms
proof (induction es arbitrary: as d)
  case Nil
  { case 1 then show ?case by simp }
  { case 2 then show ?case by simp }
next
  case (Cons e es)
  { case 1
    then have st: "task_get d (ex_task_id e) \<noteq> None" by simp
    obtain as1 d1 where c: "claim_execution now e (as, d) = (as1, d1)" by force
    note step = claim_step [OF st, of now as, unfolded c, simplified]
    have tg: "\<forall>x \<in> set es. task_get d1 (ex_task_id x) \<noteq> None"
      using 1 step(4) by (simp del: not_None_eq)
    show ?case using Cons.IH(1) [OF tg, of as1] c step(1,3) by simp
  next
    case 2
    then have st: "task_get d (ex_task_id e) \<noteq> None" by simp
    obtain as1 d1 where c: "claim_execution now e (as, d) = (as1, d1)" by force
    note step = claim_step [OF st, of now as, unfolded c, simplified]
    have tg: "\<forall>x \<in> set es. task_get d1 (ex_task_id x) \<noteq> None"
      using 2 step(4) by (simp del: not_None_eq)
    show ?case using Cons.IH(2) [OF tg, of as1] c step(2) by (auto simp: start_execution_def)
  }
qed

lemma sorted_take_drop:
  assumes "sorted (map f xs)" "x \<in> set (take n xs)" "y \<in> set (drop n xs)"
  shows "f x \<le> f y"
proof -
  have "sorted (map f (take n xs @ drop n xs))" using assms(1) by simp
  then show ?thesis using assms(2,3) unfolding map_append sorted_append by auto
qed

lemma assigned_of_id: "as_execution_id (assigned_of d e) = ex_id e"
  by (simp add: assigned_of_def split: option.splits)

text \<open>What a poll claims, answers and writes.\<close>

lemma fetch_pending_rows:
  assumes "task_inv d" "fetch_pending now sid d = (as, d')"
  defines "es \<equiv> fetch_pending_by_server d sid 10"
  shows "distinct (map ex_id es)"
    and "as = map (assigned_of d) es"
    and "executions d' = map (\<lambda>x. if ex_id x \<in> ex_id ` set es then start_execution now x else x) (executions d)"
    and "\<And>e. e \<in> set es \<Longrightarrow> e \<in> set (executions d) \<and> ex_server_id e = sid \<and> ex_status e = PENDING \<and>
      (\<exists>t \<in> set (tasks d). task_get d (ex_task_id e) = Some t \<and> tk_id t = ex_task_id e \<and> tk_status t \<in> {PENDING, RUNNING})"
proof -
  show "distinct (map ex_id es)"
    unfolding es_def fetch_pending_by_server_def by (rule distinct_executions_sub [OF assms(1)])
  show rows: "e \<in> set (executions d) \<and> ex_server_id e = sid \<and> ex_status e = PENDING \<and>
      (\<exists>t \<in> set (tasks d). task_get d (ex_task_id e) = Some t \<and> tk_id t = ex_task_id e \<and> tk_status t \<in> {PENDING, RUNNING})"
    if "e \<in> set es" for e
    using that task_get_unique [OF assms(1)]
    by (fastforce simp: es_def fetch_pending_by_server_def dest!: in_set_takeD)
  then have "\<forall>e \<in> set es. task_get d (ex_task_id e) \<noteq> None" by fastforce
  from claim_fold [OF this, of now "[]"] show "as = map (assigned_of d) es"
    and "executions d' = map (\<lambda>x. if ex_id x \<in> ex_id ` set es then start_execution now x else x) (executions d)"
    using assms(2) by (simp_all add: fetch_pending_def es_def)
qed

text \<open>
  C7. A poll hands out at most ten executions, each to its own server only, each pending and of a
  task that is pending or running, never of one that still waits for its confirmation, with the
  action, service and timeout of that task. Exactly these executions become \<open>RUNNING\<close>, started
  now. An execution that qualifies is left for later only when ten older ones were handed out.
\<close>

theorem fetch_pending_spec:
  assumes "reachable cron d" and "fetch_pending now sid d = (as, d')"
  shows "length as \<le> 10 \<and> distinct (map as_execution_id as) \<and>
    (\<forall>a \<in> set as. \<exists>e \<in> set (executions d). \<exists>t \<in> set (tasks d).
       ex_id e = as_execution_id a \<and> ex_server_id e = sid \<and> ex_status e = PENDING \<and>
       ex_task_id e = tk_id t \<and> tk_status t \<in> {PENDING, RUNNING} \<and> as_task_id a = tk_id t \<and>
       as_action a = tk_action t \<and> as_service_name a = tk_service_name t \<and>
       as_timeout_seconds a = tk_timeout_seconds t) \<and>
    executions d' = map (\<lambda>x. if ex_id x \<in> as_execution_id ` set as
       then x\<lparr>ex_status := RUNNING, ex_started_at := Some now\<rparr> else x) (executions d) \<and>
    (\<forall>e \<in> set (executions d). \<forall>t \<in> set (tasks d).
       ex_server_id e = sid \<and> ex_status e = PENDING \<and> ex_task_id e = tk_id t \<and>
       tk_status t \<in> {PENDING, RUNNING} \<and> ex_id e \<notin> as_execution_id ` set as \<longrightarrow>
       length as = 10 \<and> (\<forall>a \<in> set as. as_execution_id a \<le> ex_id e))"
proof -
  note inv = reachable_inv [OF assms(1)]
  define el where "el = filter (\<lambda>e. ex_server_id e = sid \<and> ex_status e = PENDING \<and>
      (\<exists>t \<in> set (tasks d). tk_id t = ex_task_id e \<and> tk_status t \<in> {PENDING, RUNNING})) (executions d)"
  define es where "es = fetch_pending_by_server d sid 10"
  have es: "es = take 10 (sort_key ex_id el)"
    by (simp add: es_def fetch_pending_by_server_def el_def)
  note rows = fetch_pending_rows [OF inv assms(2), folded es_def]
  note as = rows(2) and ex = rows(3) and eid = assigned_of_id
  have ids: "map as_execution_id as = map ex_id es" by (simp add: as eid)
  then have ids': "as_execution_id ` set as = ex_id ` set es" by (metis set_map)
  note rows(1)
  moreover have "length as \<le> 10" by (simp add: as es)
  moreover have "\<exists>e \<in> set (executions d). \<exists>t \<in> set (tasks d).
       ex_id e = as_execution_id a \<and> ex_server_id e = sid \<and> ex_status e = PENDING \<and>
       ex_task_id e = tk_id t \<and> tk_status t \<in> {PENDING, RUNNING} \<and> as_task_id a = tk_id t \<and>
       as_action a = tk_action t \<and> as_service_name a = tk_service_name t \<and>
       as_timeout_seconds a = tk_timeout_seconds t" if "a \<in> set as" for a
  proof -
    from that obtain e where e: "e \<in> set es" "a = assigned_of d e" by (auto simp: as)
    obtain t where t: "t \<in> set (tasks d)" "task_get d (ex_task_id e) = Some t" "tk_id t = ex_task_id e"
      "tk_status t \<in> {PENDING, RUNNING}" using rows(4) [OF e(1)] by blast
    show ?thesis
      using rows(4) [OF e(1)] t e(2) by (intro bexI [of _ e] bexI [of _ t]) (auto simp: assigned_of_def)
  qed
  moreover have "\<forall>e \<in> set (executions d). \<forall>t \<in> set (tasks d).
       ex_server_id e = sid \<and> ex_status e = PENDING \<and> ex_task_id e = tk_id t \<and>
       tk_status t \<in> {PENDING, RUNNING} \<and> ex_id e \<notin> ex_id ` set es \<longrightarrow>
       length as = 10 \<and> (\<forall>a \<in> set as. as_execution_id a \<le> ex_id e)"
  proof (intro ballI impI)
    fix e t assume h: "e \<in> set (executions d)" "t \<in> set (tasks d)"
      "ex_server_id e = sid \<and> ex_status e = PENDING \<and> ex_task_id e = tk_id t \<and>
       tk_status t \<in> {PENDING, RUNNING} \<and> ex_id e \<notin> ex_id ` set es"
    then have "\<exists>t \<in> set (tasks d). tk_id t = ex_task_id e \<and> tk_status t \<in> {PENDING, RUNNING}" by metis
    with h have e: "e \<in> set el" "ex_id e \<notin> ex_id ` set es" by (simp_all add: el_def)
    have "e \<in> set (sort_key ex_id el)" "e \<notin> set es" using e by auto
    then have drop: "e \<in> set (drop 10 (sort_key ex_id el))"
      unfolding es by (metis UnE append_take_drop_id set_append)
    then have "length (sort_key ex_id el) > 10" by (cases "length (sort_key ex_id el) > 10") auto
    then have "length as = 10" by (simp add: as es)
    moreover have "ex_id x \<le> ex_id e" if "x \<in> set es" for x
      using sorted_take_drop [of ex_id "sort_key ex_id el" x 10 e] that drop unfolding es by simp
    ultimately show "length as = 10 \<and> (\<forall>a \<in> set as. as_execution_id a \<le> ex_id e)"
      by (auto simp: as eid)
  qed
  ultimately show ?thesis
    unfolding ids ids' ex start_execution_def by blast
qed

theorem fetch_pending_spec_witness:
  "map as_execution_id (fst (fetch_pending 10 1 created_db)) = [1] \<and>
   length (fst (fetch_pending 10 1 created_db)) \<le> 10"
proof -
  have "length (fst (fetch_pending 10 1 created_db)) \<le> 10"
    using fetch_pending_spec [OF created_reachable, of 10 1] by (metis prod.collapse)
  moreover have "map as_execution_id (fst (fetch_pending 10 1 created_db)) = [1]" by code_simp
  ultimately show ?thesis by simp
qed

section \<open>The timeout sweep\<close>

definition timed_out :: "datetime \<Rightarrow> int \<Rightarrow> OpsTaskExecution \<Rightarrow> OpsTaskExecution" where
  "timed_out now n e = e\<lparr>ex_status := TIMEOUT, ex_finished_at := Some now,
     ex_error_message := Some (execution_timeout_text n)\<rparr>"

lemma mark_timeout_fold:
  "executions (fold (\<lambda>e d. mark_timeout now n (ex_id e) d) es d) =
     map (\<lambda>x. if ex_id x \<in> ex_id ` set es then timed_out now n x else x) (executions d)"
  by (induction es arbitrary: d) (auto simp: mark_timeout_def timed_out_def)

lemma ids_of_filter:
  assumes "distinct (map ex_id es)" "x \<in> set es"
  shows "ex_id x \<in> ex_id ` set (filter P es) \<longleftrightarrow> P x"
  using assms by (auto simp: distinct_map dest: inj_onD)

text \<open>What the sweep over the tasks \<open>ts\<close> does to a row.\<close>

definition scan_limit :: "OpsTask list \<Rightarrow> OpsTaskExecution \<Rightarrow> int option" where
  "scan_limit ts e = map_option tk_timeout_seconds (List.find (\<lambda>t. tk_id t = ex_task_id e) ts)"

definition scan_due :: "datetime \<Rightarrow> OpsTask list \<Rightarrow> OpsTaskExecution \<Rightarrow> bool" where
  "scan_due now ts e = (case scan_limit ts e of None \<Rightarrow> False | Some n \<Rightarrow> is_expired now e n)"

definition scan_row :: "datetime \<Rightarrow> OpsTask list \<Rightarrow> OpsTaskExecution \<Rightarrow> OpsTaskExecution" where
  "scan_row now ts e = (if scan_due now ts e then timed_out now (the (scan_limit ts e)) e else e)"

lemma timed_out_static [simp]: "ex_id (timed_out now n e) = ex_id e" "ex_task_id (timed_out now n e) = ex_task_id e"
  by (simp_all add: timed_out_def)

lemma scan_row_static [simp]: "ex_id (scan_row now ts e) = ex_id e" "ex_task_id (scan_row now ts e) = ex_task_id e"
  by (simp_all add: scan_row_def)

lemma scan_Cons:
  assumes "tk_id t \<notin> tk_id ` set ts"
  shows "scan_due now (t # ts) e \<longleftrightarrow> scan_due now [t] e \<or> scan_due now ts (scan_row now [t] e)"
    and "scan_row now (t # ts) e = scan_row now ts (scan_row now [t] e)"
proof -
  have "List.find (\<lambda>u. tk_id u = tk_id t) ts = None"
    using assms by (auto simp: find_None_iff) (metis imageI)
  then show "scan_due now (t # ts) e \<longleftrightarrow> scan_due now [t] e \<or> scan_due now ts (scan_row now [t] e)"
    and "scan_row now (t # ts) e = scan_row now ts (scan_row now [t] e)"
    by (auto simp: scan_due_def scan_row_def scan_limit_def)
qed

lemma scan_disjoint:
  assumes "tk_id t \<notin> tk_id ` set ts" "scan_due now [t] e"
  shows "\<not> scan_due now ts (scan_row now [t] e)"
proof -
  have "List.find (\<lambda>u. tk_id u = tk_id t) ts = None"
    using assms(1) by (auto simp: find_None_iff) (metis imageI)
  then show ?thesis
    using assms(2) by (auto simp: scan_due_def scan_limit_def split: if_splits)
qed

lemma scan_task_rows:
  assumes "distinct (map ex_id (executions d))"
  shows "executions (snd (scan_task now t (n, d))) = map (scan_row now [t]) (executions d)"
    and "fst (scan_task now t (n, d)) = n + int (length (filter (scan_due now [t]) (executions d)))"
proof -
  let ?P = "\<lambda>e. ex_task_id e = tk_id t \<and> is_expired now e (tk_timeout_seconds t)"
  let ?es = "filter (\<lambda>e. is_expired now e (tk_timeout_seconds t)) (list_by_task d (tk_id t))"
  have es: "?es = filter ?P (executions d)" by (simp add: list_by_task_eq conj_commute)
  have due: "scan_due now [t] e = ?P e" for e by (auto simp: scan_due_def scan_limit_def)
  show "fst (scan_task now t (n, d)) = n + int (length (filter (scan_due now [t]) (executions d)))"
    by (simp add: scan_task_def Let_def es due [abs_def])
  have "executions (snd (scan_task now t (n, d))) =
      map (\<lambda>x. if ex_id x \<in> ex_id ` set (filter ?P (executions d))
             then timed_out now (tk_timeout_seconds t) x else x) (executions d)"
    unfolding scan_task_def Let_def es split_conv snd_conv
    by (simp only: if_distrib [of executions] aggregate_frame mark_timeout_fold if_cancel)
  also have "\<dots> = map (scan_row now [t]) (executions d)"
    by (rule map_cong [OF refl], unfold ids_of_filter [OF assms])
      (auto simp: scan_row_def due scan_limit_def)
  finally show "executions (snd (scan_task now t (n, d))) = map (scan_row now [t]) (executions d)" .
qed

lemma length_filter_disjoint:
  assumes "\<And>x. P x \<longleftrightarrow> Q x \<or> R x" "\<And>x. Q x \<Longrightarrow> \<not> R x"
  shows "length (filter P xs) = length (filter Q xs) + length (filter R xs)"
  using assms by (induction xs) auto

lemma scan_fold_rows:
  assumes "distinct (map ex_id (executions d))" and "distinct (map tk_id ts)"
  shows "executions (snd (fold (scan_task now) ts (n, d))) = map (scan_row now ts) (executions d) \<and>
    fst (fold (scan_task now) ts (n, d)) = n + int (length (filter (scan_due now ts) (executions d)))"
  using assms
proof (induction ts arbitrary: n d)
  case Nil
  then show ?case by (simp add: scan_row_def scan_due_def scan_limit_def)
next
  case (Cons t ts)
  obtain n1 d1 where s: "scan_task now t (n, d) = (n1, d1)" by force
  note rows = scan_task_rows [OF Cons.prems(1), of now t n, unfolded s, simplified]
  have "distinct (map ex_id (executions d1))" using Cons.prems(1) by (simp add: rows comp_def)
  note IH = Cons.IH [OF this, of n1]
  have t: "tk_id t \<notin> tk_id ` set ts" using Cons.prems(2) by auto
  have "length (filter (scan_due now (t # ts)) (executions d)) = length (filter (scan_due now [t]) (executions d)) +
      length (filter (\<lambda>e. scan_due now ts (scan_row now [t] e)) (executions d))"
    by (rule length_filter_disjoint) (use scan_Cons(1) [OF t] scan_disjoint [OF t] in auto)
  then show ?case
    using IH Cons.prems(2) by (simp add: s rows filter_map comp_def scan_Cons(2) [OF t, abs_def])
qed

text \<open>
  C10. The timeout sweep ends exactly the running executions of running tasks whose time, counted
  from their own start against the timeout of their own task, is over; it stamps them with the
  time of the sweep, reports their number, and leaves every other execution as it was.
\<close>

theorem scan_timeouts_spec:
  assumes "reachable cron d" and "scan_timeouts now d = (n, d')"
  defines "overdue \<equiv> \<lambda>e. \<exists>t \<in> set (tasks d). tk_id t = ex_task_id e \<and> tk_status t = RUNNING \<and>
    ex_status e = RUNNING \<and> (\<exists>s. ex_started_at e = Some s \<and> s + 1000000 * tk_timeout_seconds t < now)"
  shows "n = int (length (filter overdue (executions d))) \<and>
    map ex_id (executions d') = map ex_id (executions d) \<and>
    (\<forall>i < length (executions d). let e = executions d ! i; e' = executions d' ! i in
       if overdue e then ex_status e' = TIMEOUT \<and> ex_finished_at e' = Some now else e' = e)"
proof -
  note inv = reachable_inv [OF assms(1)]
  define ts where "ts = filter (\<lambda>t. tk_status t = RUNNING) (tasks d)"
  have scan: "fold (scan_task now) ts (0, d) = (n, d')"
    using assms(2) by (simp add: scan_timeouts_def ts_def repo_list_all_def)
  have ids: "distinct (map ex_id (executions d))" "distinct (map tk_id ts)"
    using inv by (simp_all add: task_inv_defs tbl_wf_def ts_def distinct_map_filter)
  have due: "scan_due now ts e \<longleftrightarrow> overdue e" for e
  proof
    assume "scan_due now ts e"
    then obtain t where t: "List.find (\<lambda>t. tk_id t = ex_task_id e) ts = Some t"
      "is_expired now e (tk_timeout_seconds t)"
      by (auto simp: scan_due_def scan_limit_def split: option.splits)
    with find_Some_in [OF t(1)] show "overdue e"
      by (auto simp: overdue_def ts_def is_expired_def timedelta_seconds_def split: option.splits)
  next
    assume "overdue e"
    then obtain t where t: "t \<in> set ts" "tk_id t = ex_task_id e" "is_expired now e (tk_timeout_seconds t)"
      by (auto simp: overdue_def ts_def is_expired_def timedelta_seconds_def)
    with find_distinct_eq [OF ids(2) t(1)] show "scan_due now ts e"
      by (simp add: scan_due_def scan_limit_def)
  qed
  note rows = scan_fold_rows [OF ids, of now 0, unfolded scan, simplified]
  have "map ex_id (executions d') = map ex_id (executions d)"
    by (simp add: rows comp_def)
  moreover have "n = int (length (filter overdue (executions d)))"
    using rows due by (simp add: ext [of "scan_due now ts" overdue])
  moreover have "if overdue (executions d ! i) then ex_status (executions d' ! i) = TIMEOUT \<and>
      ex_finished_at (executions d' ! i) = Some now else executions d' ! i = executions d ! i"
    if "i < length (executions d)" for i
    using that by (simp add: rows scan_row_def due timed_out_def)
  ultimately show ?thesis by (simp add: Let_def)
qed

theorem scan_timeouts_spec_witness:
  "fst (scan_timeouts 60000011 running_db) = 1 \<and>
   ex_status (executions (snd (scan_timeouts 60000011 running_db)) ! 0) = TIMEOUT"
proof -
  have len: "0 < length (executions running_db)"
    and due: "\<exists>t \<in> set (tasks running_db). tk_id t = ex_task_id (executions running_db ! 0) \<and> tk_status t = RUNNING \<and>
      ex_status (executions running_db ! 0) = RUNNING \<and>
      (\<exists>s. ex_started_at (executions running_db ! 0) = Some s \<and> s + 1000000 * tk_timeout_seconds t < 60000011)"
  proof -
    show "0 < length (executions running_db)" by code_simp
    have "hd (tasks running_db) \<in> set (tasks running_db)"
      "tk_id (hd (tasks running_db)) = ex_task_id (executions running_db ! 0)"
      "tk_status (hd (tasks running_db)) = RUNNING" "ex_status (executions running_db ! 0) = RUNNING"
      "ex_started_at (executions running_db ! 0) = Some 10" "tk_timeout_seconds (hd (tasks running_db)) = 60"
      by code_simp+
    then show "\<exists>t \<in> set (tasks running_db). tk_id t = ex_task_id (executions running_db ! 0) \<and> tk_status t = RUNNING \<and>
      ex_status (executions running_db ! 0) = RUNNING \<and>
      (\<exists>s. ex_started_at (executions running_db ! 0) = Some s \<and> s + 1000000 * tk_timeout_seconds t < 60000011)"
      by force
  qed
  have "ex_status (executions (snd (scan_timeouts 60000011 running_db)) ! 0) = TIMEOUT"
    using scan_timeouts_spec [OF running_reachable, of 60000011 "fst (scan_timeouts 60000011 running_db)"
        "snd (scan_timeouts 60000011 running_db)"] len due by (auto simp: Let_def)
  moreover have "fst (scan_timeouts 60000011 running_db) = 1" by code_simp
  ultimately show ?thesis by simp
qed

section \<open>Cancellation\<close>

definition cancelled_row :: "datetime \<Rightarrow> OpsTaskExecution \<Rightarrow> OpsTaskExecution" where
  "cancelled_row now e = e\<lparr>ex_status := CANCELLED, ex_exit_code := None, ex_result_text := None,
     ex_error_message := Some task_cancelled_text, ex_finished_at := Some now,
     ex_duration_ms := elapsed now e\<rparr>"

definition cancel_step :: "datetime \<Rightarrow> OpsTaskExecution \<Rightarrow> db \<Rightarrow> db" where
  "cancel_step now e d =
     (if ex_status e = PENDING
      then finish now CANCELLED None None (Some task_cancelled_text) None (ex_id e) d else d)"

lemma cancel_fold:
  "executions (fold (cancel_step now) es d) =
     map (\<lambda>x. if ex_id x \<in> ex_id ` set (filter (\<lambda>e. ex_status e = PENDING) es) then cancelled_row now x else x)
       (executions d)"
proof (induction es arbitrary: d)
  case Nil
  then show ?case by simp
next
  case (Cons e es)
  have "cancelled_row now (cancelled_row now x) = cancelled_row now x" for x
    by (simp add: cancelled_row_def elapsed_def split: option.splits)
  moreover have "executions (cancel_step now e d) =
      map (\<lambda>x. if ex_status e = PENDING \<and> ex_id x = ex_id e then cancelled_row now x else x) (executions d)"
    by (auto simp: cancel_step_def finish_def cancelled_row_def)
  moreover have "ex_id (cancelled_row now x) = ex_id x" for x by (simp add: cancelled_row_def)
  ultimately show ?case using Cons.IH [of "cancel_step now e d"] by auto
qed

lemma cancel_fold_inv: "task_inv d \<Longrightarrow> task_inv (fold (cancel_step now) es d)"
  by (rule fold_invariant' [where P = task_inv])
    (auto simp: cancel_step_def terminal_status_def intro: task_inv_finish)

lemma cancel_fold_task [simp]: "task_get (fold (cancel_step now) es d) j = task_get d j"
  by (induction es arbitrary: d) (auto simp: cancel_step_def)

text \<open>
  Cancelling fails with 404 for an unknown task and 400 for one that has ended. Otherwise the
  pending executions of the task, and no others, become \<open>CANCELLED\<close>; when the task has executions
  and none is running or waiting for a retry, the task has ended with it.
\<close>

theorem cancel_task_spec:
  assumes "reachable cron d"
  shows "case task_get d k of
      None \<Rightarrow> cancel_task now k d = Inl (AppException TASK_NOT_FOUND 404)
    | Some t \<Rightarrow> if terminal_status (tk_status t) then cancel_task now k d = Inl (AppException BAD_REQUEST 400)
        else \<exists>d' t'. cancel_task now k d = Inr d' \<and> task_get d' k = Some t' \<and>
          executions d' = map (\<lambda>e. if ex_task_id e = k \<and> ex_status e = PENDING
             then cancelled_row now e else e) (executions d) \<and>
          (list_by_task d k \<noteq> [] \<and> (\<forall>e \<in> set (list_by_task d k). ex_status e \<notin> {RUNNING, RETRYING}) \<longrightarrow>
             terminal_status (tk_status t'))"
proof (cases "task_get d k")
  case None
  then show ?thesis by (simp add: cancel_task_def get_task_entity_def)
next
  case (Some t)
  note inv = reachable_inv [OF assms]
  show ?thesis
  proof (cases "terminal_status (tk_status t)")
    case True
    with Some show ?thesis by (simp add: cancel_task_def get_task_entity_def)
  next
    case False
    let ?d1 = "fold (cancel_step now) (list_by_task d k) d"
    let ?f = "\<lambda>e. if ex_task_id e = k \<and> ex_status e = PENDING then cancelled_row now e else e"
    have d': "cancel_task now k d = Inr (aggregate_task_status now k ?d1)"
      using Some False by (simp add: cancel_task_def get_task_entity_def cancel_step_def [abs_def])
    have ids: "distinct (map ex_id (executions d))"
      using inv by (simp add: task_inv_defs tbl_wf_def)
    have ff: "filter (\<lambda>e. ex_status e = PENDING) (list_by_task d k) =
        filter (\<lambda>e. ex_task_id e = k \<and> ex_status e = PENDING) (executions d)"
      by (simp add: list_by_task_eq conj_commute)
    have rows: "executions ?d1 = map ?f (executions d)"
      unfolding cancel_fold ff by (rule map_cong [OF refl]) (simp only: ids_of_filter [OF ids])
    obtain t' where t': "task_get (aggregate_task_status now k ?d1) k = Some t'"
      "tk_status t' = (if list_by_task ?d1 k = [] then PENDING else derive_status (newest_statuses ?d1 k))"
      using aggregate_task_get [OF cancel_fold_inv [OF inv]] Some by fastforce
    have ended: "terminal_status (tk_status t')"
      if ne: "list_by_task d k \<noteq> []" and none: "\<forall>e \<in> set (list_by_task d k). ex_status e \<notin> {RUNNING, RETRYING}"
    proof -
      have "list_by_task ?d1 k = filter (\<lambda>e. ex_task_id e = k) (map ?f (executions d))"
        by (simp only: list_by_task_eq [of ?d1] rows)
      moreover have "ex_task_id (?f e) = ex_task_id e" for e by (simp add: cancelled_row_def)
      ultimately have l: "list_by_task ?d1 k = map ?f (list_by_task d k)"
        by (simp only: list_by_task_eq [of d] filter_map comp_def)
      have fin: "terminal_status (ex_status e)" if "e \<in> set (list_by_task ?d1 k)" for e
      proof -
        from that obtain x where x: "x \<in> set (list_by_task d k)" "e = ?f x" by (auto simp: l)
        then have "ex_status x \<noteq> CREATED" "ex_task_id x = k"
          using inv by (auto simp: list_by_task_set task_inv_def task_core_def execution_states_def)
        with x none show ?thesis
          by (cases "ex_status x") (auto simp: cancelled_row_def terminal_status_def)
      qed
      have ne': "list_by_task ?d1 k \<noteq> []" using ne l by simp
      have "newest_statuses ?d1 k \<noteq> {}" using newest_nonempty [OF ne'] by (simp add: newest_statuses_def)
      moreover have "\<forall>s \<in> newest_statuses ?d1 k. terminal_status s"
        using fin by (auto simp: newest_statuses_def newest_def)
      ultimately show ?thesis
        using derive_status_cases(3) newest_statuses_not_created [OF cancel_fold_inv [OF inv]] t'(2) ne' by auto
    qed
    show ?thesis using Some False d' t'(1) rows ended by auto
  qed
qed

theorem cancel_task_spec_witness:
  "\<exists>d'. cancel_task 5 1 created_db = Inr d' \<and>
     executions d' = map (\<lambda>e. if ex_task_id e = 1 \<and> ex_status e = PENDING then cancelled_row 5 e else e)
       (executions created_db)"
proof -
  have t: "task_get created_db 1 = Some (hd (tasks created_db))"
    "\<not> terminal_status (tk_status (hd (tasks created_db)))" by code_simp+
  show ?thesis using cancel_task_spec [OF created_reachable, where now = 5 and k = 1] t by auto
qed

section \<open>Clean-up\<close>

definition expired_execution :: "datetime \<Rightarrow> OpsTaskExecution \<Rightarrow> bool" where
  "expired_execution cutoff e \<longleftrightarrow> terminal_status (ex_status e) \<and>
     (case ex_finished_at e of None \<Rightarrow> False | Some f \<Rightarrow> f < cutoff)"

lemma delete_terminal_rows:
  assumes inv: "task_inv d"
  shows "executions (snd (delete_terminal_before c d)) = filter (\<lambda>e. \<not> expired_execution c e) (executions d)"
    and "fst (delete_terminal_before c d) = int (length (filter (expired_execution c) (executions d)))"
    and "ops_task (snd (delete_terminal_before c d)) = ops_task d"
proof -
  let ?ids = "map ex_id (filter (expired_execution c) (executions d))"
  have ids: "distinct (map ex_id (executions d))" using inv by (simp add: task_inv_defs tbl_wf_def)
  have eq: "delete_terminal_before c d = (if ?ids = [] then (0, d) else (int (length ?ids),
      d\<lparr>ops_task_log := tbl_delete (\<lambda>l. lg_execution_id l \<in> set ?ids) (ops_task_log d),
        ops_task_execution := tbl_delete (\<lambda>e. ex_id e \<in> set ?ids) (ops_task_execution d)\<rparr>))"
    by (simp add: delete_terminal_before_def Let_def expired_execution_def [abs_def])
  have "filter (\<lambda>e. ex_id e \<notin> set ?ids) (executions d) = filter (\<lambda>e. \<not> expired_execution c e) (executions d)"
    by (rule filter_cong [OF refl]) (simp only: set_map ids_of_filter [OF ids])
  then show "executions (snd (delete_terminal_before c d)) = filter (\<lambda>e. \<not> expired_execution c e) (executions d)"
    unfolding eq by (auto simp: filter_empty_conv)
  show "fst (delete_terminal_before c d) = int (length (filter (expired_execution c) (executions d)))"
    "ops_task (snd (delete_terminal_before c d)) = ops_task d"
    unfolding eq by auto
qed

definition expired_task :: "datetime \<Rightarrow> db \<Rightarrow> OpsTask \<Rightarrow> bool" where
  "expired_task cutoff d t \<longleftrightarrow> tk_schedule_type t = ''ONCE'' \<and> terminal_status (tk_status t) \<and>
     (case tk_finished_at t of None \<Rightarrow> False | Some f \<Rightarrow> f < cutoff) \<and>
     (\<forall>e \<in> set (executions d). ex_task_id e \<noteq> tk_id t)"

lemma ids_of_filter_task:
  "distinct (map tk_id ts) \<Longrightarrow> t \<in> set ts \<Longrightarrow> tk_id t \<in> tk_id ` set (filter P ts) \<longleftrightarrow> P t"
  by (auto simp: distinct_map dest: inj_onD)

lemma delete_finished_rows:
  assumes inv: "task_inv d"
  shows "tasks (snd (delete_finished_tasks_before c d)) = filter (\<lambda>t. \<not> expired_task c d t) (tasks d)"
    and "fst (delete_finished_tasks_before c d) = int (length (filter (expired_task c d) (tasks d)))"
    and "ops_task_execution (snd (delete_finished_tasks_before c d)) = ops_task_execution d"
proof -
  let ?ids = "map tk_id (filter (expired_task c d) (tasks d))"
  have ids: "distinct (map tk_id (tasks d))" using inv by (simp add: task_inv_defs tbl_wf_def)
  have eq: "delete_finished_tasks_before c d = (if ?ids = [] then (0, d) else (int (length ?ids),
      d\<lparr>ops_task_target := tbl_delete (\<lambda>g. tg_task_id g \<in> set ?ids) (ops_task_target d),
        ops_task := tbl_delete (\<lambda>t. tk_id t \<in> set ?ids) (ops_task d)\<rparr>))"
    by (simp add: delete_finished_tasks_before_def Let_def expired_task_def [abs_def])
  have "filter (\<lambda>t. tk_id t \<notin> set ?ids) (tasks d) = filter (\<lambda>t. \<not> expired_task c d t) (tasks d)"
    by (rule filter_cong [OF refl]) (simp only: set_map ids_of_filter_task [OF ids])
  then show "tasks (snd (delete_finished_tasks_before c d)) = filter (\<lambda>t. \<not> expired_task c d t) (tasks d)"
    unfolding eq by (auto simp: filter_empty_conv)
  show "fst (delete_finished_tasks_before c d) = int (length (filter (expired_task c d) (tasks d)))"
    "ops_task_execution (snd (delete_finished_tasks_before c d)) = ops_task_execution d"
    unfolding eq by auto
qed

text \<open>
  The clean-up removes an execution exactly when it ended more than \<open>retention_days\<close> ago, and a
  task exactly when it is a one-off task that ended that long ago and none of its executions is
  left. It reports both numbers. Nothing that is still active is ever removed.
\<close>

theorem cleanup_history_spec:
  assumes "reachable cron d" and "cleanup_history now days d = ((ne, nt), d')"
  defines "cutoff \<equiv> now - 86400000000 * days"
  shows "(\<forall>e \<in> set (executions d). e \<in> set (executions d') \<longleftrightarrow>
      \<not> (terminal_status (ex_status e) \<and> (\<exists>f. ex_finished_at e = Some f \<and> f < cutoff))) \<and>
    (\<forall>t \<in> set (tasks d). t \<in> set (tasks d') \<longleftrightarrow>
      \<not> (tk_schedule_type t = ''ONCE'' \<and> terminal_status (tk_status t) \<and>
         (\<exists>f. tk_finished_at t = Some f \<and> f < cutoff) \<and>
         (\<forall>e \<in> set (executions d'). ex_task_id e \<noteq> tk_id t))) \<and>
    ne = int (length (executions d)) - int (length (executions d')) \<and>
    nt = int (length (tasks d)) - int (length (tasks d'))"
proof -
  note inv = reachable_inv [OF assms(1)]
  have cut: "now - timedelta_days days = cutoff" by (simp add: cutoff_def timedelta_days_def)
  obtain d1 where d1: "delete_terminal_before cutoff d = (ne, d1)" "delete_finished_tasks_before cutoff d1 = (nt, d')"
    using assms(2) by (auto simp: cleanup_history_def cut split: prod.splits)
  have inv1: "task_inv d1" using delete_terminal_before_inv [OF inv, of cutoff] d1(1) by simp
  note r1 = delete_terminal_rows [OF inv, of cutoff, unfolded d1(1), simplified]
  note r2 = delete_finished_rows [OF inv1, of cutoff, unfolded d1(2), simplified]
  have len: "length (filter (\<lambda>x. \<not> P x) xs) + length (filter P xs) = length xs" for P and xs :: "'b list"
    using sum_length_filter_compl [of P xs] by simp
  have "ne = int (length (executions d)) - int (length (executions d'))"
    using len [of "expired_execution cutoff" "executions d"] r1 r2 by simp
  moreover have "nt = int (length (tasks d)) - int (length (tasks d'))"
    using len [of "expired_task cutoff d1" "tasks d"] r1 r2 by simp
  moreover have "e \<in> set (executions d') \<longleftrightarrow>
      \<not> (terminal_status (ex_status e) \<and> (\<exists>f. ex_finished_at e = Some f \<and> f < cutoff))"
    if "e \<in> set (executions d)" for e
    using that by (auto simp: r1 r2(3) expired_execution_def split: option.splits)
  moreover have "t \<in> set (tasks d') \<longleftrightarrow>
      \<not> (tk_schedule_type t = ''ONCE'' \<and> terminal_status (tk_status t) \<and>
         (\<exists>f. tk_finished_at t = Some f \<and> f < cutoff) \<and>
         (\<forall>e \<in> set (executions d'). ex_task_id e \<noteq> tk_id t))"
    if "t \<in> set (tasks d)" for t
    unfolding r2(1,3) using that r1(3) by (auto simp: expired_task_def split: option.splits)
  ultimately show ?thesis by blast
qed

theorem cleanup_history_spec_witness:
  "fst (cleanup_history 100 0 finished_db) = (1, 1) \<and>
   hd (executions running_db) \<in> set (executions (snd (cleanup_history 100 0 running_db)))"
proof -
  have "hd (executions running_db) \<in> set (executions (snd (cleanup_history 100 0 running_db)))"
  proof -
    have "hd (executions running_db) \<in> set (executions running_db)"
      "\<not> terminal_status (ex_status (hd (executions running_db)))" by code_simp+
    with cleanup_history_spec [OF running_reachable, of 100 0] show ?thesis
      by (metis prod.collapse)
  qed
  moreover have "fst (cleanup_history 100 0 finished_db) = (1, 1)" by code_simp
  ultimately show ?thesis by simp
qed

end
