(* ===== verification/Task_Creation.thy ===== *)
theory Task_Creation
  imports Task_Sweeps
begin

text \<open>
  The creation of a task and the gates in front of its execution: validation of servers and
  services, idempotency keys, confirmation, and the firing of CRON tasks.
\<close>

section \<open>Validation\<close>

lemma validate_server_list_Inr:
  "validate_server_list d sids = Inr ss \<Longrightarrow> map sv_id ss = sids \<and>
     (\<forall>s \<in> set ss. s \<in> set (servers d) \<and> sv_deleted_at s = None)"
proof (induction sids arbitrary: ss)
  case Nil
  then show ?case by simp
next
  case (Cons sid sids)
  then obtain s ss' where s: "server_get d sid = Some s" "validate_server_list d sids = Inr ss'" "ss = s # ss'"
    by (auto simp: bindE_eq_Inr split: option.splits)
  have "s \<in> set (servers d) \<and> sv_id s = sid \<and> sv_deleted_at s = None"
    using s(1) by (auto simp: server_get_def repo_get_def apply_soft_delete_def dest!: find_Some_in)
  with Cons.IH [OF s(2)] s(3) show ?case by simp
qed

lemma validate_server_list_Inl:
  "validate_server_list d sids = Inl x \<Longrightarrow> x = AppException SERVER_NOT_FOUND 404 \<and>
     (\<exists>sid \<in> set sids. server_get d sid = None)"
  by (induction sids) (auto simp: bindE_eq_Inl split: option.splits)

lemma whitelisted_on_Inr:
  "whitelisted_on d n ss = Inr u \<longleftrightarrow> (\<forall>s \<in> set ss. \<exists>v. get_by_server_service d (sv_id s) n = Some v \<and> ss_is_whitelisted v = 1)"
  by (induction ss) (auto split: option.splits)

lemma normalize_action_Inr:
  "normalize_action data = Inr a \<Longrightarrow> a \<in> {''STATUS'', ''LOGS'', ''START'', ''STOP'', ''RESTART''} \<and>
     (tc_action data = None \<or> tc_action data = Some a)"
  by (auto simp: normalize_action_def TASK_TYPE_ACTION_def split: option.splits if_splits)

lemma controlled_service_whitelisted:
  assumes "validate_service_whitelist d ss name a = Inr u" and "a \<in> {''START'', ''STOP'', ''RESTART''}"
    and "s \<in> set ss"
  shows "\<exists>n v. name = Some n \<and> v \<in> set (services d) \<and> ss_server_id v = sv_id s \<and> ss_service_name v = n \<and>
    ss_is_whitelisted v = 1"
proof -
  from assms(1,2) have t: "truthy name" and w: "whitelisted_on d (the name) ss = Inr ()"
    by (auto simp: validate_service_whitelist_def split: if_splits)
  from t obtain n where n: "name = Some n" by (cases name) auto
  with w assms(3) obtain v where v: "get_by_server_service d (sv_id s) n = Some v" "ss_is_whitelisted v = 1"
    by (auto simp: whitelisted_on_Inr)
  from repo_get_by_in [OF v(1) [unfolded get_by_server_service_def]] n v(2) show ?thesis by auto
qed

section \<open>Creation\<close>

lemma create_task_stores:
  assumes "create_task now data creator key d = Inr (k, d')"
    and "truthy key \<Longrightarrow> get_by_idempotency_key d (the key) = None"
  obtains act :: string and ss :: "OpsServer list" and cr :: bool and u :: unit
    where "normalize_action data = Inr act" "validate_servers d (tc_server_ids data) = Inr ss"
    "validate_service_whitelist d ss (tc_service_name data) act = Inr u"
    "cr = (case tc_confirmation_required data of Some c \<Rightarrow> c | None \<Rightarrow> act \<in> {''START'', ''STOP'', ''RESTART''})"
    "store_task (new_task now data creator key act cr) (tc_schedule_type data) (map sv_id ss) d = Inr (k, d')"
proof -
  have none: "(if truthy key then get_by_idempotency_key d (the key) else None) = None"
    using assms(2) by simp
  have set: "set CONFIRM_REQUIRED_ACTIONS = {''START'', ''STOP'', ''RESTART''}"
    by (simp add: CONFIRM_REQUIRED_ACTIONS_def)
  show ?thesis
    using assms(1) that unfolding create_task_unfold none option.case bindE_eq_Inr set by blast
qed

text \<open>
  C8. A task is created as requested: a new row with the next key, \<open>CREATED\<close> when it must be
  confirmed first or is a CRON task and \<open>PENDING\<close> otherwise, with the deadline after
  \<open>max_attempts\<close> timeouts; for a one-off task exactly one pending first attempt on each distinct
  server of the request, for any other task none. Every server exists and is not deleted, and for
  \<open>START\<close>, \<open>STOP\<close> and \<open>RESTART\<close> the named service is whitelisted on every one of them.
\<close>

theorem create_task_spec:
  assumes "reachable cron d" and "task_create_valid data"
    and "create_task now data creator key d = Inr (k, d')"
    and "truthy key \<Longrightarrow> get_by_idempotency_key d (the key) = None"
  shows "\<exists>t es a. tasks d' = tasks d @ [t] \<and> executions d' = executions d @ es \<and>
    k = next_id (ops_task d) \<and> tk_id t = k \<and> tk_action t = Some a \<and>
    tk_status t = (if tc_schedule_type data = ''CRON'' \<or> tc_confirmation_required data = Some True \<or>
        tc_confirmation_required data = None \<and> a \<in> {''START'', ''STOP'', ''RESTART''} then CREATED else PENDING) \<and>
    tk_deadline_at t = Some (now + 1000000 * tc_timeout_seconds data * tc_max_attempts data) \<and>
    tk_idempotency_key t = key \<and>
    (\<forall>e \<in> set es. ex_task_id e = k \<and> ex_attempt e = 1 \<and> ex_status e = PENDING) \<and>
    distinct (map ex_server_id es) \<and>
    set (map ex_server_id es) = (if tc_schedule_type data = ''ONCE'' then set (tc_server_ids data) else {}) \<and>
    (\<forall>sid \<in> set (tc_server_ids data). \<exists>s \<in> set (servers d). sv_id s = sid \<and> sv_deleted_at s = None \<and>
       (a \<in> {''START'', ''STOP'', ''RESTART''} \<longrightarrow>
          (\<exists>n. tc_service_name data = Some n \<and> (\<exists>v \<in> set (services d). ss_server_id v = sid \<and>
             ss_service_name v = n \<and> ss_is_whitelisted v = 1))))"
proof -
  note inv = reachable_inv [OF assms(1)]
  obtain act ss cr u where c: "normalize_action data = Inr act" "validate_servers d (tc_server_ids data) = Inr ss"
    "validate_service_whitelist d ss (tc_service_name data) act = Inr u"
    "cr = (case tc_confirmation_required data of Some c \<Rightarrow> c | None \<Rightarrow> act \<in> {''START'', ''STOP'', ''RESTART''})"
    and st: "store_task (new_task now data creator key act cr) (tc_schedule_type data) (map sv_id ss) d = Inr (k, d')"
    by (rule create_task_stores [OF assms(3,4)])
  have kk: "key = None \<or> key \<notin> set (map tk_idempotency_key (tasks d))"
    using store_task_Inr_key [OF st] by simp
  obtain tgts :: "OpsTaskTarget list" and d1 where
    s: "store_task (new_task now data creator key act cr) (tc_schedule_type data) (map sv_id ss) d =
        Inr (next_id (ops_task d), d1)"
      "tasks d1 = tasks d @ [new_task now data creator key act cr (next_id (ops_task d))]"
      "map tg_server_id tgts = py_set (map sv_id ss)"
      "executions d1 = executions d @ (if tc_schedule_type data = ''ONCE''
       then assign_ids (map (\<lambda>g. new_execution (next_id (ops_task d)) (tg_id g) (tg_server_id g) 1) tgts)
              (next_id (ops_task_execution d)) else [])"
    by (rule store_task_inv [OF inv refl _ kk, where data = data and sids = "map sv_id ss"
          and now = now and c = creator and a = act and cr = cr])
      (use assms(2) in \<open>auto simp: task_create_valid_def\<close>)
  have k: "k = next_id (ops_task d)" "d1 = d'" using st s(1) by simp_all
  let ?es = "assign_ids (map (\<lambda>g. new_execution k (tg_id g) (tg_server_id g) 1) tgts) (next_id (ops_task_execution d))"
  let ?es' = "if tc_schedule_type data = ''ONCE'' then ?es else []"
  let ?t = "new_task now data creator key act cr k"
  have ids: "map sv_id ss = py_set (tc_server_ids data)"
    and ok: "\<And>x. x \<in> set ss \<Longrightarrow> x \<in> set (servers d) \<and> sv_deleted_at x = None"
    using validate_server_list_Inr c(2) by (auto simp: validate_servers_def)
  have "map ex_server_id ?es = map tg_server_id tgts"
    by (subst map_assign_ids [where g = "\<lambda>mk. ex_server_id (mk 0)"]) (auto simp: comp_def)
  then have srv: "map ex_server_id ?es = py_set (tc_server_ids data)"
    using s(3) ids by (simp add: py_set_def)
  have "e \<in> set ?es \<Longrightarrow> ex_task_id e = k \<and> ex_attempt e = 1 \<and> ex_status e = PENDING" for e
    by (drule assign_ids_in) auto
  then have es: "\<forall>e \<in> set ?es'. ex_task_id e = k \<and> ex_attempt e = 1 \<and> ex_status e = PENDING" by simp
  have valid: "\<exists>s \<in> set (servers d). sv_id s = sid \<and> sv_deleted_at s = None \<and>
       (act \<in> {''START'', ''STOP'', ''RESTART''} \<longrightarrow>
          (\<exists>n. tc_service_name data = Some n \<and> (\<exists>v \<in> set (services d). ss_server_id v = sid \<and>
             ss_service_name v = n \<and> ss_is_whitelisted v = 1)))"
    if "sid \<in> set (tc_server_ids data)" for sid
  proof -
    from that ids obtain x where x: "x \<in> set ss" "sv_id x = sid" by (metis imageE set_map set_py_set)
    show ?thesis
      using ok [OF x(1)] x(2) controlled_service_whitelisted [OF c(3) _ x(1)] by (intro bexI [of _ x]) blast+
  qed
  show ?thesis
  proof (intro exI conjI)
    show "tasks d' = tasks d @ [?t]" "executions d' = executions d @ ?es'" using s(2,4) k by simp_all
    show "tk_status ?t = (if tc_schedule_type data = ''CRON'' \<or> tc_confirmation_required data = Some True \<or>
        tc_confirmation_required data = None \<and> act \<in> {''START'', ''STOP'', ''RESTART''} then CREATED else PENDING)"
      by (cases "tc_confirmation_required data") (simp_all add: c(4))
    show "tk_deadline_at ?t = Some (now + 1000000 * tc_timeout_seconds data * tc_max_attempts data)"
      by (simp add: new_task_def timedelta_seconds_def mult.assoc mult.commute)
    show "distinct (map ex_server_id ?es')" using srv by simp
    show "set (map ex_server_id ?es') =
        (if tc_schedule_type data = ''ONCE'' then set (tc_server_ids data) else {})"
      using srv by (simp del: set_map)
  qed (use k es valid in \<open>simp_all add: new_task_def\<close>)
qed

theorem create_task_spec_witness:
  "\<exists>t es. tasks created_db = tasks sample_db @ [t] \<and> executions created_db = executions sample_db @ es \<and>
     tk_status t = PENDING \<and> set (map ex_server_id es) = {1}"
proof -
  have "\<not> (case create_task 0 check_request 1 (Some ''k1'') sample_db of Inl e \<Rightarrow> True | Inr r \<Rightarrow> False)"
    "(case create_task 0 check_request 1 (Some ''k1'') sample_db of Inl e \<Rightarrow> 0 | Inr r \<Rightarrow> fst r) = 1"
    by code_simp+
  then have c: "create_task 0 check_request 1 (Some ''k1'') sample_db = Inr (1, created_db)"
    by (auto simp: created_db_def split: sum.splits)
  have v: "task_create_valid check_request" "get_by_idempotency_key sample_db (the (Some ''k1'')) = None"
    "tc_schedule_type check_request = ''ONCE''" "set (tc_server_ids check_request) = {1}"
    by (simp_all add: task_create_valid_def code_points_def check_request_def get_by_idempotency_key_def repo_get_by_def
        sample_db_def empty_db_def empty_table_def)
  have st: "map tk_status (tasks created_db) = [PENDING]" "tasks sample_db = []" by code_simp+
  from create_task_spec [OF sample_reachable v(1) c v(2)] v(3,4) st show ?thesis by auto
qed

text \<open>
  Idempotency: as long as the task is there, a second request with the same non-empty key, whatever
  it asks for and whoever sends it, returns the task of the first and changes nothing.
\<close>

theorem create_task_idempotent:
  assumes "reachable cron d" and "task_create_valid data"
    and "create_task now data creator key d = Inr (k, d')" and "truthy key"
  shows "create_task now2 data2 creator2 key d' = Inr (k, d')"
proof (cases "get_by_idempotency_key d (the key)")
  case (Some t)
  then have "k = tk_id t" "d' = d" using assms(3,4) by (simp_all add: create_task_unfold)
  with Some assms(4) show ?thesis by (simp add: create_task_unfold)
next
  case None
  from create_task_spec [OF assms(1-3)] None obtain t where
    t: "tasks d' = tasks d @ [t]" "tk_id t = k" "tk_idempotency_key t = key" by blast
  obtain s where s: "key = Some s" "s \<noteq> []" using assms(4) by (cases key) auto
  have "List.find (\<lambda>t. tk_idempotency_key t = Some s) (tasks d) = None"
    using None s by (simp add: get_by_idempotency_key_def repo_get_by_def)
  then have "List.find (\<lambda>t. tk_idempotency_key t = Some s) (tasks d @ [t]) = Some t"
    using t(3) s(1) by (simp add: find_append_None)
  then have "get_by_idempotency_key d' s = Some t"
    using s t(1) by (simp add: get_by_idempotency_key_def repo_get_by_def)
  with s t(2) show ?thesis by (simp add: create_task_unfold)
qed

theorem create_task_idempotent_witness:
  "create_task 77 restart_request 9 (Some ''k1'') created_db = Inr (1, created_db)"
proof (rule create_task_idempotent [OF sample_reachable])
  show "task_create_valid check_request" by (simp add: task_create_valid_def code_points_def check_request_def)
  have "\<not> (case create_task 0 check_request 1 (Some ''k1'') sample_db of Inl e \<Rightarrow> True | Inr r \<Rightarrow> False)"
    "(case create_task 0 check_request 1 (Some ''k1'') sample_db of Inl e \<Rightarrow> 0 | Inr r \<Rightarrow> fst r) = 1"
    by code_simp+
  then show "create_task 0 check_request 1 (Some ''k1'') sample_db = Inr (1, created_db)"
    by (auto simp: created_db_def split: sum.splits)
  show "truthy (Some ''k1'')" by simp
qed



section \<open>CRON tasks\<close>

lemma fire_prefix:
  assumes "distinct (map tk_id (xs @ ys))" and "task_inv (snd s)"
    and "\<forall>t \<in> set (xs @ ys). t \<in> set (tasks (snd s)) \<and> waiting_cron t"
  shows "\<exists>s'. foldE (fire_one cron now) xs s = Inr s' \<and> task_inv (snd s') \<and>
    (\<forall>u \<in> set (tasks (snd s)). tk_id u \<notin> tk_id ` set xs \<longrightarrow> u \<in> set (tasks (snd s'))) \<and>
    set (executions (snd s)) \<subseteq> set (executions (snd s')) \<and> ops_task_target (snd s') = ops_task_target (snd s)"
  using assms
proof (induction xs arbitrary: s)
  case Nil
  then show ?case by simp
next
  case (Cons t ts)
  obtain n d where s: "s = (n, d)" by force
  obtain n' d' where step: "fire_one cron now t (n, d) = Inr (n', d')" "task_inv d'"
    "\<forall>u \<in> set (tasks d). tk_id u \<noteq> tk_id t \<longrightarrow> u \<in> set (tasks d')"
    "set (executions d) \<subseteq> set (executions d')" "ops_task_target d' = ops_task_target d"
    using fire_one_ok [of d t cron now n] Cons.prems s by auto
  have "\<forall>u \<in> set (ts @ ys). u \<in> set (tasks (snd (n', d'))) \<and> waiting_cron u"
    using Cons.prems(1,3) step(3) s by (auto simp: image_iff)
  then obtain s' where "foldE (fire_one cron now) ts (n', d') = Inr s'" "task_inv (snd s')"
    "\<forall>u \<in> set (tasks d'). tk_id u \<notin> tk_id ` set ts \<longrightarrow> u \<in> set (tasks (snd s'))"
    "set (executions d') \<subseteq> set (executions (snd s'))" "ops_task_target (snd s') = ops_task_target d'"
    using Cons.IH [of "(n', d')"] Cons.prems(1) step(2) by auto
  with s step show ?case by (intro exI [of _ s']) auto
qed

text \<open>
  The CRON sweep fires every waiting task whose first fire time after its creation has come:
  afterwards the task is running and every target of it has its first attempt, ready to be fetched.
\<close>

theorem due_cron_fires:
  assumes "reachable cron d" and "t \<in> set (tasks d)" and "tk_schedule_type t = ''CRON''"
    and "tk_status t \<in> {CREATED, PENDING}" and "tk_cron_expression t = Some ex" and "ex \<noteq> []"
    and "cron ex (tk_created_at t) = Some next" and "next \<le> now"
  shows "\<exists>n d' t'. fire_due_cron cron now d = Inr (n, d') \<and>
    task_get d' (tk_id t) = Some t' \<and> tk_status t' = RUNNING \<and>
    (\<forall>g \<in> set (targets d'). tg_task_id g = tk_id t \<longrightarrow>
       (\<exists>e \<in> set (executions d'). ex_task_id e = tk_id t \<and> ex_target_id e = tg_id g \<and>
          ex_server_id e = tg_server_id g \<and> ex_attempt e = 1 \<and> ex_status e = PENDING))"
proof -
  note inv = reachable_inv [OF assms(1)]
  let ?ts = "list_pending_cron d"
  have "t \<in> set ?ts" using assms(2-4) by (auto simp: list_pending_cron_def)
  then obtain xs ys where split: "?ts = xs @ t # ys" by (auto simp: in_set_conv_decomp)
  have all: "u \<in> set (tasks d) \<and> waiting_cron u" if "u \<in> set ?ts" for u
    using that by (auto simp: list_pending_cron_def waiting_cron_def)
  have dist: "distinct (map tk_id ?ts)"
    using inv by (simp add: list_pending_cron_def task_inv_defs tbl_wf_def distinct_map_filter)
  then have out: "tk_id u \<notin> tk_id ` set xs" if "u \<in> set (t # ys)" for u
    using that unfolding split by (auto simp: image_iff)
  obtain n1 d1 where s1: "foldE (fire_one cron now) xs (0, d) = Inr (n1, d1)" "task_inv d1"
    "\<forall>u \<in> set (tasks d). tk_id u \<notin> tk_id ` set xs \<longrightarrow> u \<in> set (tasks d1)"
    using fire_prefix [of xs "t # ys" "(0, d)" cron now] dist all inv unfolding split by auto
  have t1: "t \<in> set (tasks d1)" "waiting_cron t" using s1(3) out [of t] all [of t] split by auto
  have due: "cron_due cron now t" using assms(3,5-8) by (simp add: cron_due_def)
  obtain n2 d2 where s2: "fire_one cron now t (n1, d1) = Inr (n2, d2)" "task_inv d2"
    "\<forall>u \<in> set (tasks d1). tk_id u \<noteq> tk_id t \<longrightarrow> u \<in> set (tasks d2)" "cron_fired t d2"
    using fire_one_ok [OF s1(2) t1, of cron now n1] due by auto
  have ne: "tk_id u \<noteq> tk_id t" if "u \<in> set ys" for u
    using dist that unfolding split by (auto simp: image_iff)
  have "\<forall>u \<in> set (ys @ []). u \<in> set (tasks (snd (n2, d2))) \<and> waiting_cron u"
    using s1(3) s2(3) out ne all split by auto
  then obtain s3 where s3: "foldE (fire_one cron now) ys (n2, d2) = Inr s3" "task_inv (snd s3)"
    "\<forall>u \<in> set (tasks d2). tk_id u \<notin> tk_id ` set ys \<longrightarrow> u \<in> set (tasks (snd s3))"
    "set (executions d2) \<subseteq> set (executions (snd s3))" "ops_task_target (snd s3) = ops_task_target d2"
    using fire_prefix [of ys "[]" "(n2, d2)" cron now] dist s2(2) split by auto
  obtain n3 d3 where d3: "s3 = (n3, d3)" by force
  have run: "fire_due_cron cron now d = Inr (n3, d3)"
    using s1(1) s2(1) s3(1) d3 by (simp add: fire_due_cron_def split foldE_append)
  from s2(4) obtain t' where t': "t' \<in> set (tasks d2)" "tk_id t' = tk_id t" "tk_status t' = RUNNING"
    by (auto simp: cron_fired_def)
  have "tk_id t' \<notin> tk_id ` set ys" using ne t'(2) by (metis imageE)
  then have "t' \<in> set (tasks d3)" using s3(3) t'(1) d3 by simp
  then have "task_get d3 (tk_id t) = Some t'" using task_get_unique [of d3 t'] s3(2) d3 t'(2) by simp
  moreover have "\<forall>g \<in> set (targets d3). tg_task_id g = tk_id t \<longrightarrow>
       (\<exists>e \<in> set (executions d3). ex_task_id e = tk_id t \<and> ex_target_id e = tg_id g \<and>
          ex_server_id e = tg_server_id g \<and> ex_attempt e = 1 \<and> ex_status e = PENDING)"
    using s2(4) s3(4,5) d3 unfolding cron_fired_def by (metis snd_conv subsetD)
  ultimately show ?thesis using run t'(3) by blast
qed

definition every_minute :: "string \<Rightarrow> datetime \<Rightarrow> datetime option" where
  "every_minute expr base = Some (base + 60000000)"

definition cron_request :: TaskCreate where
  "cron_request = restart_request\<lparr>tc_schedule_type := ''CRON'', tc_cron_expression := Some ''* * * * *''\<rparr>"

definition cron_db :: db where
  "cron_db = (case create_task 0 cron_request 1 None sample_db of Inr (k, d) \<Rightarrow> d | Inl e \<Rightarrow> sample_db)"

lemma cron_reachable: "reachable every_minute cron_db"
proof (rule reachable.commit)
  show "reachable every_minute sample_db"
    by (rule reachable.other [OF reachable.start]) (simp_all add: sample_db_def)
  show "request_valid (CreateTask cron_request 1 None)"
    by (simp add: task_create_valid_def code_points_def cron_request_def restart_request_def check_request_def)
  have "\<not> (case create_task 0 cron_request 1 None sample_db of Inl e \<Rightarrow> True | Inr r \<Rightarrow> False)"
    by code_simp
  then show "task_transaction every_minute 0 (CreateTask cron_request 1 None) sample_db = Inr cron_db"
    by (auto simp: cron_db_def split: sum.splits)
qed

theorem due_cron_fires_witness:
  "\<exists>n d' t'. fire_due_cron every_minute 60000000 cron_db = Inr (n, d') \<and>
     task_get d' 1 = Some t' \<and> tk_status t' = RUNNING"
proof -
  let ?t = "hd (tasks cron_db)"
  have t: "?t \<in> set (tasks cron_db)" "tk_schedule_type ?t = ''CRON''" "tk_status ?t \<in> {CREATED, PENDING}"
    "tk_cron_expression ?t = Some ''* * * * *''" "''* * * * *'' \<noteq> []"
    "every_minute ''* * * * *'' (tk_created_at ?t) = Some 60000000" "tk_id ?t = 1"
    by code_simp+
  show ?thesis using due_cron_fires [OF cron_reachable t(1-6), of 60000000] t(7) by auto
qed

text \<open>
  The sweep does not wait for the confirmation of a CRON task. This \<open>RESTART\<close> of a service
  asks for a confirmation, nobody confirmed it, and yet the sweep fires it and the agent of the
  server is handed the restart.
\<close>

theorem unconfirmed_cron_is_fired:
  "case fire_due_cron every_minute 60000000 cron_db of
     Inr (n, d) \<Rightarrow> n = 1 \<and> map tk_confirmation_required (tasks cron_db) = [1] \<and>
       map tk_status (tasks cron_db) = [CREATED] \<and> map tk_confirmed_by (tasks d) = [None] \<and>
       map as_action (fst (fetch_pending 60000001 1 d)) = [Some ''RESTART'']
   | Inl e \<Rightarrow> False"
  by code_simp

text \<open>
  Cancelling a CRON task that was not fired yet does not cancel it: without executions the
  aggregation makes it \<open>PENDING\<close>, and the next sweep fires it.
\<close>

theorem cancelled_cron_is_fired:
  "case cancel_task 5 1 cron_db of
     Inr d \<Rightarrow> map tk_status (tasks d) = [PENDING] \<and>
       (case fire_due_cron every_minute 60000000 d of
          Inr (n, d') \<Rightarrow> n = 1 \<and> map ex_status (executions d') = [PENDING] | Inl e \<Rightarrow> False)
   | Inl e \<Rightarrow> False"
  by code_simp

end
