(* ===== verification/Alert_Engine.thy ===== *)
theory Alert_Engine
  imports Server_Repository
begin

text \<open>
  Alerts: the repositories (\<open>backend/app/repositories/alert_repository.py\<close> and the latest metrics
  of \<open>metric_repository.py\<close>), the engine that evaluates every enabled rule on every active server
  (\<open>backend/app/services/alert_engine.py\<close>), and the alert centre that manages rules and lets an
  operator acknowledge and resolve events (\<open>backend/app/services/alert_service.py\<close>).
\<close>

section \<open>Repositories\<close>

abbreviation alert_rules :: "db \<Rightarrow> AlertRule list" where
  "alert_rules d \<equiv> rows (alert_rule d)"

abbreviation alert_events :: "db \<Rightarrow> AlertEvent list" where
  "alert_events d \<equiv> rows (alert_event d)"

abbreviation alert_logs :: "db \<Rightarrow> AlertEventLog list" where
  "alert_logs d \<equiv> rows (alert_event_log d)"

definition get_enabled :: "db \<Rightarrow> AlertRule list" where
  "get_enabled d = repo_list_all AlertRule_model (alert_rule d) (\<lambda>r. ar_enabled r = 1)"

definition get_by_name :: "db \<Rightarrow> string \<Rightarrow> AlertRule option" where
  "get_by_name d rule_name = repo_get_by AlertRule_model (alert_rule d) (\<lambda>r. ar_rule_name r = rule_name)"

definition get_active_by_alert_key :: "db \<Rightarrow> alert_key \<Rightarrow> AlertEvent option" where
  "get_active_by_alert_key d k =
     List.find (\<lambda>e. ev_alert_key e = k \<and> ev_is_active e \<noteq> None) (alert_events d)"

definition event_get :: "db \<Rightarrow> ident \<Rightarrow> AlertEvent option" where
  "event_get d k = repo_get AlertEvent_model (alert_event d) k"

definition set_event :: "ident \<Rightarrow> (AlertEvent \<Rightarrow> AlertEvent) \<Rightarrow> db \<Rightarrow> db" where
  "set_event k f d = d\<lparr>alert_event := repo_update AlertEvent_model k f (alert_event d)\<rparr>"

fun event_status_name :: "event_status \<Rightarrow> string" where
  "event_status_name EV_PENDING = ''PENDING''"
| "event_status_name EV_FIRING = ''FIRING''"
| "event_status_name EV_ACKNOWLEDGED = ''ACKNOWLEDGED''"
| "event_status_name EV_RESOLVED = ''RESOLVED''"

text \<open>
  \<open>ORDER BY last_fired_at DESC, id DESC\<close>; the database puts \<open>NULL\<close> last in descending order.
\<close>

definition by_last_fired :: "AlertEvent list \<Rightarrow> AlertEvent list" where
  "by_last_fired es =
     (let by_id = sort_key ev_id es
      in rev (filter (\<lambda>e. ev_last_fired_at e = None) by_id @
              sort_key (\<lambda>e. the (ev_last_fired_at e)) (filter (\<lambda>e. ev_last_fired_at e \<noteq> None) by_id)))"

definition list_events ::
  "db \<Rightarrow> int \<Rightarrow> int \<Rightarrow> string option \<Rightarrow> string option \<Rightarrow> ident option \<Rightarrow> bool option \<Rightarrow>
   (int \<times> AlertEvent list) result" where
  "list_events d page page_size status severity server_id active =
     (let base = filter (\<lambda>e.
            (truthy status \<longrightarrow> Some (event_status_name (ev_status e)) = status) \<and>
            (truthy severity \<longrightarrow> Some (ev_severity e) = severity) \<and>
            (server_id \<noteq> None \<longrightarrow> ev_server_id e = server_id) \<and>
            (case active of None \<Rightarrow> True | Some a \<Rightarrow> (ev_is_active e \<noteq> None) = a)) (alert_events d)
      in bindE (paginate page page_size (by_last_fired base)) (\<lambda>items. Inr (int (length base), items)))"

definition count_active :: "db \<Rightarrow> int" where
  "count_active d = int (length (filter (\<lambda>e. ev_is_active e \<noteq> None) (alert_events d)))"

definition count_active_by_severity :: "db \<Rightarrow> string \<Rightarrow> int" where
  "count_active_by_severity d severity =
     int (length (filter (\<lambda>e. ev_is_active e \<noteq> None \<and> ev_severity e = severity) (alert_events d)))"

definition event_log_record ::
  "ident \<Rightarrow> event_status option \<Rightarrow> event_status \<Rightarrow> rat option \<Rightarrow> event_message \<Rightarrow> ident option \<Rightarrow> db \<Rightarrow> db" where
  "event_log_record event_id old_status new_status current_value message operator_id d =
     d\<lparr>alert_event_log := repo_create (\<lambda>k. \<lparr>el_id = k, el_event_id = event_id, el_old_status = old_status,
        el_new_status = new_status, el_current_value = current_value, el_message = message,
        el_operator_id = operator_id\<rparr>) (alert_event_log d)\<rparr>"

text \<open>The unique key \<open>uk_alert_event_active_key\<close>; \<open>NULL\<close> never collides.\<close>

definition insert_event :: "(ident \<Rightarrow> AlertEvent) \<Rightarrow> db \<Rightarrow> (ident \<times> db) result" where
  "insert_event mk d =
     (let k = next_id (alert_event d); e = mk k
      in if ev_is_active e \<noteq> None \<and>
           (\<exists>x \<in> set (alert_events d). ev_is_active x \<noteq> None \<and> ev_alert_key x = ev_alert_key e)
         then Inl IntegrityError
         else Inr (k, d\<lparr>alert_event := repo_create mk (alert_event d)\<rparr>))"

text \<open>
  \<open>get_latest_map\<close>: of several samples with the newest time stamp the last row stays in the
  dictionary.
\<close>

definition get_latest_map :: "db \<Rightarrow> ident list \<Rightarrow> ident \<Rightarrow> MonitorServerMetric option" where
  "get_latest_map d server_ids sid =
     (let ms = filter (\<lambda>m. mt_server_id m = sid) (rows (monitor_server_metric d));
          newest = filter (\<lambda>m. \<forall>x \<in> set ms. mt_collected_at x \<le> mt_collected_at m) ms
      in if sid \<in> set server_ids \<and> newest \<noteq> [] then Some (last newest) else None)"

section \<open>The engine\<close>

text \<open>Python's \<open>round(x, 4)\<close>: to the nearest multiple, ties to the even one.\<close>

definition round_half_even :: "rat \<Rightarrow> int" where
  "round_half_even x =
     (let f = \<lfloor>x\<rfloor>; r = x - of_int f
      in if r < 1 / 2 then f else if r > 1 / 2 then f + 1 else if even f then f else f + 1)"

definition round4 :: "rat \<Rightarrow> rat" where
  "round4 x = of_int (round_half_even (x * 10000)) / 10000"

definition METRIC_FIELD_MAP :: "string \<Rightarrow> (MonitorServerMetric \<Rightarrow> rat option) option" where
  "METRIC_FIELD_MAP t =
     (if t = ''CPU'' then Some mt_cpu_usage
      else if t = ''MEMORY'' then Some mt_memory_usage
      else if t = ''DISK'' then Some mt_disk_usage
      else if t = ''LOAD'' then Some mt_load_1m
      else None)"

definition get_value ::
  "datetime \<Rightarrow> AlertRule \<Rightarrow> OpsServer \<Rightarrow> MonitorServerMetric option \<Rightarrow> rat option" where
  "get_value now rule server metric =
     (if ar_metric_type rule = ''AGENT'' then
        map_option (\<lambda>h. of_int (now - h) / 1000000) (sv_last_heartbeat_at server)
      else case (METRIC_FIELD_MAP (ar_metric_type rule), metric) of
             (Some field, Some m) \<Rightarrow> field m
           | _ \<Rightarrow> None)"

definition effective_threshold :: "AlertRule \<Rightarrow> OpsServer \<Rightarrow> rat option" where
  "effective_threshold rule server =
     (case ar_threshold rule of
        None \<Rightarrow> None
      | Some t \<Rightarrow>
          if ar_metric_type rule = ''LOAD'' then
            let cores = (case sv_cpu_cores server of None \<Rightarrow> 1 | Some c \<Rightarrow> if c = 0 then 1 else c)
            in Some (round4 (t * of_int cores))
          else Some t)"

definition compare_value :: "rat \<Rightarrow> string \<Rightarrow> rat option \<Rightarrow> bool" where
  "compare_value v operator threshold =
     (case threshold of
        None \<Rightarrow> False
      | Some t \<Rightarrow>
          if operator = ''GTE'' then v \<ge> t
          else if operator = ''LT'' then v < t
          else if operator = ''LTE'' then v \<le> t
          else if operator = ''EQ'' then v = t
          else v > t)"

definition alert_key_of :: "AlertRule \<Rightarrow> OpsServer \<Rightarrow> alert_key" where
  "alert_key_of rule server = AlertKey (ar_id rule) (sv_id server) (ar_metric_type rule)"

definition transition ::
  "AlertEvent \<Rightarrow> event_status \<Rightarrow> rat \<Rightarrow> event_message \<Rightarrow> db \<Rightarrow> db" where
  "transition event new_status v message d =
     event_log_record (ev_id event) (Some (ev_status event)) new_status (Some v) message None
       (set_event (ev_id event) (\<lambda>e. e\<lparr>ev_status := new_status, ev_current_value := Some v\<rparr>) d)"

definition new_event ::
  "datetime \<Rightarrow> AlertRule \<Rightarrow> OpsServer \<Rightarrow> rat \<Rightarrow> rat option \<Rightarrow> ident \<Rightarrow> AlertEvent" where
  "new_event now rule server v threshold k = \<lparr>
     ev_id = k, ev_rule_id = ar_id rule, ev_server_id = Some (sv_id server),
     ev_resource_type = ar_target_type rule, ev_resource_id = Some (sv_id server),
     ev_alert_key = alert_key_of rule server, ev_metric_type = ar_metric_type rule,
     ev_severity = ar_severity rule, ev_status = EV_PENDING,
     ev_first_fired_at = Some now, ev_last_fired_at = Some now,
     ev_acknowledged_by = None, ev_acknowledged_at = None, ev_resolved_at = None,
     ev_current_value = Some v, ev_threshold_value = threshold\<rparr>"

text \<open>Microseconds since the first violation; every event has a first one.\<close>

definition since_first :: "datetime \<Rightarrow> AlertEvent \<Rightarrow> int" where
  "since_first now event = now - the (ev_first_fired_at event)"

definition handle_violation ::
  "AlertRule \<Rightarrow> OpsServer \<Rightarrow> rat \<Rightarrow> rat option \<Rightarrow> datetime \<Rightarrow> db \<Rightarrow> (bool \<times> db) result" where
  "handle_violation rule server v threshold now d =
     (case get_active_by_alert_key d (alert_key_of rule server) of
        None \<Rightarrow>
          bindE (insert_event (new_event now rule server v threshold) d) (\<lambda>(k, d1).
            Inr (True, event_log_record k None EV_PENDING (Some v) MsgDetected None d1))
      | Some event \<Rightarrow>
          let d1 = set_event (ev_id event) (\<lambda>e. e\<lparr>ev_last_fired_at := Some now, ev_current_value := Some v\<rparr>) d
          in Inr (False,
               if ev_status event = EV_PENDING \<and>
                  since_first now event \<ge> timedelta_seconds (ar_duration_seconds rule)
               then transition event EV_FIRING v MsgDurationReached d1 else d1))"

definition is_recovered :: "AlertRule \<Rightarrow> rat \<Rightarrow> bool" where
  "is_recovered rule v =
     (case ar_recovery_threshold rule of
        Some r \<Rightarrow> v \<le> r
      | None \<Rightarrow> \<not> compare_value v (ar_operator rule) (ar_threshold rule))"

definition handle_recovery :: "AlertRule \<Rightarrow> OpsServer \<Rightarrow> rat \<Rightarrow> datetime \<Rightarrow> db \<Rightarrow> db" where
  "handle_recovery rule server v now d =
     (case get_active_by_alert_key d (alert_key_of rule server) of
        None \<Rightarrow> d
      | Some event \<Rightarrow>
          if is_recovered rule v then
            transition event EV_RESOLVED v MsgRecovered
              (set_event (ev_id event) (\<lambda>e. e\<lparr>ev_resolved_at := Some now\<rparr>) d)
          else d)"

text \<open>The body of the two loops, for one rule and one server.\<close>

definition evaluate_pair ::
  "datetime \<Rightarrow> (ident \<Rightarrow> MonitorServerMetric option) \<Rightarrow> AlertRule \<Rightarrow> OpsServer \<Rightarrow> int \<times> db \<Rightarrow>
   (int \<times> db) result" where
  "evaluate_pair now latest rule server = (\<lambda>(created, d).
     case get_value now rule server (latest (sv_id server)) of
       None \<Rightarrow> Inr (created, d)
     | Some v \<Rightarrow>
         let threshold = effective_threshold rule server
         in if compare_value v (ar_operator rule) threshold then
              bindE (handle_violation rule server v threshold now d) (\<lambda>(new, d1).
                Inr (if new then created + 1 else created, d1))
            else Inr (created, handle_recovery rule server v now d))"

definition evaluate_all :: "datetime \<Rightarrow> db \<Rightarrow> (int \<times> db) result" where
  "evaluate_all now d =
     (let rules = get_enabled d; ss = list_active d
      in if rules = [] \<or> ss = [] then Inr (0, d)
         else let latest = get_latest_map d (map sv_id ss)
              in foldE (\<lambda>rule. foldE (evaluate_pair now latest rule) ss) rules (0, d))"

section \<open>The alert centre\<close>

record RuleCreate =
  rc_rule_name :: string
  rc_metric_type :: string
  rc_severity :: string
  rc_operator :: string
  rc_threshold :: "rat option"
  rc_duration_seconds :: int
  rc_recovery_threshold :: "rat option"
  rc_enabled :: int
  rc_description :: "string option"

text \<open>\<open>None\<close>: the field was not sent (\<open>exclude_unset\<close>); \<open>Some None\<close>: it was sent as \<open>null\<close>.\<close>

record RuleUpdate =
  ru_rule_name :: "string option option"
  ru_metric_type :: "string option option"
  ru_severity :: "string option option"
  ru_operator :: "string option option"
  ru_threshold :: "rat option option"
  ru_duration_seconds :: "int option option"
  ru_recovery_threshold :: "rat option option"
  ru_enabled :: "int option option"
  ru_description :: "string option option"

definition list_rules :: "db \<Rightarrow> AlertRule list" where
  "list_rules d = repo_list_all AlertRule_model (alert_rule d) (\<lambda>_. True)"

definition get_rule :: "db \<Rightarrow> ident \<Rightarrow> AlertRule result" where
  "get_rule d rule_id =
     (case repo_get AlertRule_model (alert_rule d) rule_id of
        None \<Rightarrow> Inl (AppException RULE_NOT_FOUND 404) | Some r \<Rightarrow> Inr r)"

definition create_rule :: "RuleCreate \<Rightarrow> ident option \<Rightarrow> db \<Rightarrow> db result" where
  "create_rule data created_by d =
     (if get_by_name d (rc_rule_name data) \<noteq> None then Inl (AppException RULE_NAME_EXISTS 409)
      else Inr (d\<lparr>alert_rule := repo_create (\<lambda>k. \<lparr>
        ar_id = k, ar_rule_name = rc_rule_name data, ar_metric_type = upper (rc_metric_type data),
        ar_target_type = ''SERVER'', ar_severity = upper (rc_severity data),
        ar_operator = upper (rc_operator data), ar_threshold = rc_threshold data,
        ar_duration_seconds = rc_duration_seconds data,
        ar_recovery_threshold = rc_recovery_threshold data, ar_enabled = rc_enabled data,
        ar_description = rc_description data, ar_created_by = created_by\<rparr>) (alert_rule d)\<rparr>))"

definition sets_null :: "'a option option \<Rightarrow> bool" where
  "sets_null x = (x = Some None)"

definition assigned :: "'a option option \<Rightarrow> 'a \<Rightarrow> 'a" where
  "assigned x old = (case x of Some (Some v) \<Rightarrow> v | _ \<Rightarrow> old)"

definition assigned_null :: "'a option option \<Rightarrow> 'a option \<Rightarrow> 'a option" where
  "assigned_null x old = (case x of Some v \<Rightarrow> v | None \<Rightarrow> old)"

text \<open>\<open>NULL\<close> in one of the six mandatory columns is an \<open>IntegrityError\<close> of the flush.\<close>

definition update_rule :: "ident \<Rightarrow> RuleUpdate \<Rightarrow> db \<Rightarrow> db result" where
  "update_rule rule_id data d =
     bindE (get_rule d rule_id) (\<lambda>rule.
       if (case ru_rule_name data of
             Some (Some n) \<Rightarrow> n \<noteq> [] \<and> n \<noteq> ar_rule_name rule \<and>
               (case get_by_name d n of None \<Rightarrow> False | Some other \<Rightarrow> ar_id other \<noteq> rule_id)
           | _ \<Rightarrow> False)
       then Inl (AppException RULE_NAME_EXISTS 409)
       else if sets_null (ru_rule_name data) \<or> sets_null (ru_metric_type data) \<or>
               sets_null (ru_severity data) \<or> sets_null (ru_operator data) \<or>
               sets_null (ru_duration_seconds data) \<or> sets_null (ru_enabled data)
       then Inl IntegrityError
       else Inr (d\<lparr>alert_rule := repo_update AlertRule_model rule_id (\<lambda>r. r\<lparr>
         ar_rule_name := assigned (ru_rule_name data) (ar_rule_name r),
         ar_metric_type := assigned (map_option (map_option upper) (ru_metric_type data)) (ar_metric_type r),
         ar_severity := assigned (map_option (map_option upper) (ru_severity data)) (ar_severity r),
         ar_operator := assigned (map_option (map_option upper) (ru_operator data)) (ar_operator r),
         ar_threshold := assigned_null (ru_threshold data) (ar_threshold r),
         ar_duration_seconds := assigned (ru_duration_seconds data) (ar_duration_seconds r),
         ar_recovery_threshold := assigned_null (ru_recovery_threshold data) (ar_recovery_threshold r),
         ar_enabled := assigned (ru_enabled data) (ar_enabled r),
         ar_description := assigned_null (ru_description data) (ar_description r)\<rparr>) (alert_rule d)\<rparr>))"

text \<open>
  Deleting a rule first sets the \<open>rule_id\<close> of its events to \<open>NULL\<close>, as the relationship has no
  cascade; the column is mandatory, so the flush fails when there is an event.
\<close>

definition delete_rule :: "ident \<Rightarrow> db \<Rightarrow> db result" where
  "delete_rule rule_id d =
     bindE (get_rule d rule_id) (\<lambda>rule.
       if \<exists>e \<in> set (alert_events d). ev_rule_id e = rule_id then Inl IntegrityError
       else Inr (d\<lparr>alert_rule := repo_delete AlertRule_model rule_id (alert_rule d)\<rparr>))"

record AlertEventOut =
  xe_id :: ident
  xe_rule_id :: ident
  xe_rule_name :: "string option"
  xe_server_id :: "ident option"
  xe_server_hostname :: "string option"
  xe_metric_type :: string
  xe_severity :: string
  xe_status :: event_status
  xe_current_value :: "rat option"
  xe_threshold_value :: "rat option"
  xe_first_fired_at :: "datetime option"
  xe_last_fired_at :: "datetime option"
  xe_acknowledged_at :: "datetime option"
  xe_resolved_at :: "datetime option"

definition event_dict :: "db \<Rightarrow> AlertEvent \<Rightarrow> AlertEventOut" where
  "event_dict d e = \<lparr>
     xe_id = ev_id e, xe_rule_id = ev_rule_id e,
     xe_rule_name = map_option ar_rule_name (repo_get AlertRule_model (alert_rule d) (ev_rule_id e)),
     xe_server_id = ev_server_id e,
     xe_server_hostname = (case ev_server_id e of None \<Rightarrow> None
       | Some sid \<Rightarrow> map_option sv_hostname (server_get d sid)),
     xe_metric_type = ev_metric_type e, xe_severity = ev_severity e, xe_status = ev_status e,
     xe_current_value = ev_current_value e, xe_threshold_value = ev_threshold_value e,
     xe_first_fired_at = ev_first_fired_at e, xe_last_fired_at = ev_last_fired_at e,
     xe_acknowledged_at = ev_acknowledged_at e, xe_resolved_at = ev_resolved_at e\<rparr>"

record AlertEventLogOut =
  xl_id :: ident
  xl_event_id :: ident
  xl_old_status :: "event_status option"
  xl_new_status :: event_status
  xl_current_value :: "rat option"
  xl_message :: event_message

definition log_dict :: "AlertEventLog \<Rightarrow> AlertEventLogOut" where
  "log_dict l = \<lparr>xl_id = el_id l, xl_event_id = el_event_id l, xl_old_status = el_old_status l,
     xl_new_status = el_new_status l, xl_current_value = el_current_value l, xl_message = el_message l\<rparr>"

definition list_event_dicts ::
  "db \<Rightarrow> int \<Rightarrow> int \<Rightarrow> string option \<Rightarrow> string option \<Rightarrow> ident option \<Rightarrow> bool option \<Rightarrow>
   (int \<times> AlertEventOut list) result" where
  "list_event_dicts d page page_size status severity server_id active =
     bindE (list_events d page page_size status severity server_id active) (\<lambda>(total, items).
       Inr (total, map (event_dict d) items))"

definition get_event_or_404 :: "db \<Rightarrow> ident \<Rightarrow> AlertEvent result" where
  "get_event_or_404 d event_id =
     (case event_get d event_id of
        None \<Rightarrow> Inl (AppException ALERT_EVENT_NOT_FOUND 404) | Some e \<Rightarrow> Inr e)"

definition get_event :: "db \<Rightarrow> ident \<Rightarrow> (AlertEventOut \<times> AlertEventLogOut list) result" where
  "get_event d event_id =
     bindE (get_event_or_404 d event_id) (\<lambda>e.
       Inr (event_dict d e, map log_dict (sort_key el_id (filter (\<lambda>l. el_event_id l = event_id) (alert_logs d)))))"

definition acknowledge :: "datetime \<Rightarrow> ident \<Rightarrow> ident option \<Rightarrow> db \<Rightarrow> db result" where
  "acknowledge now event_id operator_id d =
     bindE (get_event_or_404 d event_id) (\<lambda>event.
       if ev_status event = EV_RESOLVED then Inl (AppException BAD_REQUEST 400)
       else Inr (event_log_record (ev_id event) (Some (ev_status event)) EV_ACKNOWLEDGED
                  (ev_current_value event) MsgManualAck operator_id
              (set_event event_id (\<lambda>e. e\<lparr>ev_status := EV_ACKNOWLEDGED, ev_acknowledged_by := operator_id,
                 ev_acknowledged_at := Some now\<rparr>) d)))"

definition resolve :: "datetime \<Rightarrow> ident \<Rightarrow> ident option \<Rightarrow> db \<Rightarrow> db result" where
  "resolve now event_id operator_id d =
     bindE (get_event_or_404 d event_id) (\<lambda>event.
       if ev_status event = EV_RESOLVED then Inl (AppException BAD_REQUEST 400)
       else Inr (event_log_record (ev_id event) (Some (ev_status event)) EV_RESOLVED
                  (ev_current_value event) MsgManualResolve operator_id
              (set_event event_id (\<lambda>e. e\<lparr>ev_status := EV_RESOLVED, ev_resolved_at := Some now\<rparr>) d)))"

end
