(* ===== verification/Alert_Invariant.thy ===== *)
theory Alert_Invariant
  imports Alert_Engine Sweep
begin

text \<open>
  The data invariant of the alert tables: at most one active event per alert key, every event has
  a first violation, and the log of an event is a walk through the state machine that starts with
  its creation and ends in its present status. Every operation of the engine and of the alert
  centre keeps it. The engine is an instance of the loop over independent objects of \<open>Sweep\<close>:
  a pair of a rule and a server touches the active event of its own key only.
\<close>

section \<open>The state machine and its log\<close>

fun event_step :: "event_status option \<Rightarrow> event_status \<Rightarrow> bool" where
  "event_step None s = (s = EV_PENDING)"
| "event_step (Some EV_PENDING) s = (s \<noteq> EV_PENDING)"
| "event_step (Some EV_FIRING) s = (s \<in> {EV_ACKNOWLEDGED, EV_RESOLVED})"
| "event_step (Some EV_ACKNOWLEDGED) s = (s \<in> {EV_ACKNOWLEDGED, EV_RESOLVED})"
| "event_step (Some EV_RESOLVED) s = False"

fun event_walk :: "event_status option \<Rightarrow> AlertEventLog list \<Rightarrow> event_status option \<Rightarrow> bool" where
  "event_walk s [] t = (s = t)"
| "event_walk s (l # ls) t =
     (el_old_status l = s \<and> event_step s (el_new_status l) \<and> event_walk (Some (el_new_status l)) ls t)"

lemma event_walk_snoc:
  "event_walk s (ls @ [l]) t \<longleftrightarrow>
     event_walk s ls (el_old_status l) \<and> event_step (el_old_status l) (el_new_status l) \<and> t = Some (el_new_status l)"
  by (induction ls arbitrary: s) auto

definition history :: "db \<Rightarrow> ident \<Rightarrow> AlertEventLog list" where
  "history d k = filter (\<lambda>l. el_event_id l = k) (alert_logs d)"

section \<open>The invariant\<close>

definition active_event :: "AlertEvent \<Rightarrow> bool" where
  "active_event e \<longleftrightarrow> ev_status e \<noteq> EV_RESOLVED"

lemma is_active_iff [simp]: "(\<exists>n. ev_is_active e = Some n) \<longleftrightarrow> active_event e"
  "ev_is_active e = None \<longleftrightarrow> \<not> active_event e"
  by (cases "ev_status e"; simp add: ev_is_active_def active_event_def)+

definition active_unique :: "db \<Rightarrow> bool" where
  "active_unique d \<longleftrightarrow> distinct (map ev_alert_key (filter active_event (alert_events d)))"

definition history_ok :: "db \<Rightarrow> bool" where
  "history_ok d \<longleftrightarrow>
     (\<forall>e \<in> set (alert_events d). ev_first_fired_at e \<noteq> None \<and>
        event_walk None (history d (ev_id e)) (Some (ev_status e))) \<and>
     (\<forall>l \<in> set (alert_logs d). el_event_id l < next_id (alert_event d))"

definition alert_core :: "db \<Rightarrow> bool" where
  "alert_core d \<longleftrightarrow> tbl_wf ev_id (alert_event d) \<and> active_unique d"

definition alert_inv :: "db \<Rightarrow> bool" where
  "alert_inv d \<longleftrightarrow> alert_core d \<and> history_ok d"

lemma alert_inv_core: "alert_inv d \<Longrightarrow> alert_core d"
  by (simp add: alert_inv_def)

lemma alert_inv_empty: "alert_inv empty_db"
  by (simp add: alert_inv_def alert_core_def active_unique_def history_ok_def empty_db_def) (simp add: empty_table_def)

lemma alert_inv_tables:
  assumes "alert_inv d" "alert_event d' = alert_event d" "alert_event_log d' = alert_event_log d"
  shows "alert_inv d'"
  using assms(1) unfolding alert_inv_def alert_core_def active_unique_def history_ok_def history_def assms(2,3) .

lemma event_id_inj:
  "alert_core d \<Longrightarrow> e \<in> set (alert_events d) \<Longrightarrow> e' \<in> set (alert_events d) \<Longrightarrow> ev_id e = ev_id e' \<Longrightarrow> e = e'"
  using tbl_wf_inj [of ev_id "alert_event d"] by (simp add: alert_inv_def alert_core_def)

lemma active_eq:
  "alert_core d \<Longrightarrow> e \<in> set (alert_events d) \<Longrightarrow> e' \<in> set (alert_events d) \<Longrightarrow> active_event e \<Longrightarrow>
   active_event e' \<Longrightarrow> ev_alert_key e = ev_alert_key e' \<Longrightarrow> e = e'"
  unfolding alert_inv_def alert_core_def active_unique_def distinct_map by (auto dest: inj_onD)

lemma get_active_Some:
  assumes "alert_core d"
  shows "get_active_by_alert_key d k = Some e \<longleftrightarrow>
    e \<in> set (alert_events d) \<and> ev_alert_key e = k \<and> active_event e"
proof
  assume "get_active_by_alert_key d k = Some e"
  then show "e \<in> set (alert_events d) \<and> ev_alert_key e = k \<and> active_event e"
    by (auto simp: get_active_by_alert_key_def dest!: find_Some_in)
next
  assume e: "e \<in> set (alert_events d) \<and> ev_alert_key e = k \<and> active_event e"
  then have "get_active_by_alert_key d k \<noteq> None"
    by (auto simp: get_active_by_alert_key_def find_None_iff)
  then obtain e' where e': "get_active_by_alert_key d k = Some e'" by blast
  then have "e' \<in> set (alert_events d) \<and> ev_alert_key e' = k \<and> active_event e'"
    by (auto simp: get_active_by_alert_key_def dest!: find_Some_in)
  with e active_eq [OF assms] have "e' = e" by blast
  with e' show "get_active_by_alert_key d k = Some e" by simp
qed

lemma get_active_None:
  "get_active_by_alert_key d k = None \<longleftrightarrow>
    (\<forall>e \<in> set (alert_events d). ev_alert_key e = k \<longrightarrow> \<not> active_event e)"
  by (auto simp: get_active_by_alert_key_def find_None_iff)

lemma event_get_unique: "alert_inv d \<Longrightarrow> e \<in> set (alert_events d) \<Longrightarrow> event_get d (ev_id e) = Some e"
  using event.get_unique [of "alert_event d" e] by (simp add: alert_inv_def alert_core_def event_get_def)

lemma event_get_in: "event_get d k = Some e \<Longrightarrow> e \<in> set (alert_events d) \<and> ev_id e = k"
  using repo_get_in [of AlertEvent_model "alert_event d" k e] by (simp add: event_get_def)

section \<open>Frames\<close>

lemma set_event_frame [simp, frame]:
  "alert_event_log (set_event k f d) = alert_event_log d" "alert_rule (set_event k f d) = alert_rule d"
  "ops_server (set_event k f d) = ops_server d"
  "next_id (alert_event (set_event k f d)) = next_id (alert_event d)"
  by (simp_all add: set_event_def repo_update_def)

lemma events_set_event [simp, table_simps]:
  "alert_events (set_event k f d) = map (\<lambda>e. if ev_id e = k then f e else e) (alert_events d)"
  by (simp add: set_event_def repo_update_def)

lemma event_log_frame [simp, frame]:
  "alert_event (event_log_record k old new v m op d) = alert_event d"
  "alert_rule (event_log_record k old new v m op d) = alert_rule d"
  "ops_server (event_log_record k old new v m op d) = ops_server d"
  by (simp_all add: event_log_record_def)

lemma get_active_log [simp]:
  "get_active_by_alert_key (event_log_record k old new v m op d) j = get_active_by_alert_key d j"
  by (simp add: get_active_by_alert_key_def)

lemma history_log:
  "history (event_log_record k old new v m op d) j =
     history d j @ (if j = k then [\<lparr>el_id = next_id (alert_event_log d), el_event_id = k, el_old_status = old,
        el_new_status = new, el_current_value = v, el_message = m, el_operator_id = op\<rparr>] else [])"
  by (simp add: history_def event_log_record_def repo_create_def)

lemma history_set_event [simp]: "history (set_event k f d) j = history d j"
  by (simp add: history_def)

section \<open>Preservation\<close>

definition event_static :: "AlertEvent \<Rightarrow> ident \<times> alert_key \<times> datetime option" where
  "event_static e = (ev_id e, ev_alert_key e, ev_first_fired_at e)"

text \<open>An assignment that leaves the status alone.\<close>

lemma alert_inv_set_event [preserves]:
  assumes inv: "alert_inv d" and st: "\<And>e. event_static (f e) = event_static e"
    and status: "\<And>e. ev_status (f e) = ev_status e"
  shows "alert_inv (set_event k f d)"
proof -
  define h where "h = (\<lambda>e. if ev_id e = k then f e else e)"
  have st': "ev_id (h e) = ev_id e" "ev_alert_key (h e) = ev_alert_key e"
    "ev_first_fired_at (h e) = ev_first_fired_at e" "ev_status (h e) = ev_status e"
    "active_event (h e) = active_event e" for e
    using st [of e] status [of e] by (auto simp: h_def event_static_def active_event_def)
  have rows: "alert_events (set_event k f d) = map h (alert_events d)" by (simp add: h_def)
  have "tbl_wf ev_id (alert_event (set_event k f d))"
    using inv st unfolding set_event_def repo_update_def
    by (auto simp: alert_inv_def alert_core_def event_static_def intro!: tbl_wf_modify)
  then show ?thesis
    using inv unfolding alert_inv_def alert_core_def active_unique_def history_ok_def rows
    by (simp add: st' filter_map comp_def)
qed

text \<open>A status change with its log row.\<close>

lemma alert_inv_status [preserves]:
  assumes inv: "alert_inv d" and e: "e \<in> set (alert_events d)"
    and st: "\<And>e. event_static (f e) = event_static e"
    and new: "\<And>e. ev_status (f e) = s" and step: "event_step (Some (ev_status e)) s"
  shows "alert_inv (event_log_record (ev_id e) (Some (ev_status e)) s v m op (set_event (ev_id e) f d))"
proof -
  let ?d = "event_log_record (ev_id e) (Some (ev_status e)) s v m op (set_event (ev_id e) f d)"
  define h where "h = (\<lambda>x. if ev_id x = ev_id e then f x else x)"
  have st': "ev_id (h x) = ev_id x" "ev_alert_key (h x) = ev_alert_key x"
    "ev_first_fired_at (h x) = ev_first_fired_at x" for x
    using st [of x] by (auto simp: h_def event_static_def)
  have act: "x \<in> set (alert_events d) \<Longrightarrow> active_event (h x) \<Longrightarrow> active_event x" for x
  proof (cases "ev_id x = ev_id e")
    case True
    assume "x \<in> set (alert_events d)"
    then have "x = e" using event_id_inj [OF alert_inv_core [OF inv] _ e] True by simp
    then show "active_event x" using step by (cases "ev_status e") (auto simp: active_event_def)
  qed (simp add: h_def)
  have rows: "alert_events ?d = map h (alert_events d)" by (simp add: h_def)
  have wf: "tbl_wf ev_id (alert_event ?d)"
    using inv st unfolding event_log_frame set_event_def repo_update_def
    by (auto simp: alert_inv_def alert_core_def event_static_def intro!: tbl_wf_modify)
  have uniq: "active_unique ?d"
  proof -
    have "distinct (map ev_alert_key (filter (\<lambda>x. active_event (h x)) (alert_events d)))"
      by (rule distinct_map_filter_mono [where P = active_event])
        (use inv act in \<open>simp_all add: alert_inv_def alert_core_def active_unique_def\<close>)
    then show ?thesis unfolding active_unique_def rows by (simp add: filter_map comp_def st')
  qed
  have walk: "event_walk None (history ?d (ev_id x)) (Some (ev_status (h x)))" if x: "x \<in> set (alert_events d)" for x
  proof (cases "ev_id x = ev_id e")
    case True
    then have "x = e" using event_id_inj [OF alert_inv_core [OF inv] x e] by simp
    then show ?thesis
      using inv e step new by (simp add: history_log h_def event_walk_snoc alert_inv_def alert_core_def history_ok_def)
  next
    case False
    then show ?thesis using inv x by (simp add: history_log h_def alert_inv_def alert_core_def history_ok_def)
  qed
  have "history_ok ?d"
    unfolding history_ok_def rows
  proof (intro conjI ballI)
    fix y assume "y \<in> set (map h (alert_events d))"
    then obtain x where x: "x \<in> set (alert_events d)" "y = h x" by auto
    show "ev_first_fired_at y \<noteq> None"
      using inv x by (simp add: st' alert_inv_def alert_core_def history_ok_def)
    show "event_walk None (history ?d (ev_id y)) (Some (ev_status y))"
      using walk [OF x(1)] x(2) by (simp only: st')
  next
    fix l assume "l \<in> set (alert_logs ?d)"
    then have "l \<in> set (alert_logs d) \<or> el_event_id l = ev_id e"
      by (auto simp: event_log_record_def repo_create_def)
    then show "el_event_id l < next_id (alert_event ?d)"
      using inv e by (auto simp: alert_inv_def alert_core_def history_ok_def tbl_wf_def)
  qed
  with wf uniq show ?thesis by (simp add: alert_inv_def alert_core_def)
qed

text \<open>A new event with the log row of its creation.\<close>

lemma alert_inv_insert [preserves]:
  assumes inv: "alert_inv d" and none: "get_active_by_alert_key d (ev_alert_key (mk 0)) = None"
    and mk: "\<And>k. ev_id (mk k) = k" "\<And>k. ev_alert_key (mk k) = ev_alert_key (mk 0)"
    "\<And>k. ev_status (mk k) = EV_PENDING" "\<And>k. ev_first_fired_at (mk k) \<noteq> None"
  shows "\<exists>d1. insert_event mk d = Inr (next_id (alert_event d), d1) \<and>
    alert_inv (event_log_record (next_id (alert_event d)) None EV_PENDING v m op d1) \<and>
    alert_events d1 = alert_events d @ [mk (next_id (alert_event d))]"
proof -
  let ?k = "next_id (alert_event d)"
  let ?d1 = "d\<lparr>alert_event := repo_create mk (alert_event d)\<rparr>"
  let ?d = "event_log_record ?k None EV_PENDING v m op ?d1"
  have free: "\<And>x. ev_alert_key (mk ?k) = ev_alert_key x \<Longrightarrow> active_event x \<Longrightarrow> x \<notin> set (alert_events d)"
    using none mk(2) [of ?k] by (auto simp: get_active_None)
  then have ins: "insert_event mk d = Inr (?k, ?d1)"
    by (auto simp: insert_event_def Let_def)
  have rows: "alert_events ?d1 = alert_events d @ [mk ?k]" by (simp add: repo_create_def)
  have rows': "alert_events ?d = alert_events d @ [mk ?k]" by (simp add: repo_create_def)
  have nid: "next_id (alert_event ?d) = ?k + 1" by (simp add: repo_create_def)
  have wf: "tbl_wf ev_id (alert_event ?d)"
    using inv mk(1) by (auto simp: alert_inv_def alert_core_def repo_create_def intro!: tbl_wf_insert)
  have uniq: "active_unique ?d"
    using inv unfolding alert_inv_def alert_core_def active_unique_def rows' by (auto dest: free)
  have hist: "history ?d1 j = history d j" for j by (simp add: history_def)
  have none: "history d ?k = []"
    using inv by (auto simp: history_def filter_empty_conv alert_inv_def alert_core_def history_ok_def)
  have lt: "ev_id x < ?k" if "x \<in> set (alert_events d)" for x
    using inv that by (auto simp: alert_inv_def alert_core_def tbl_wf_def)
  have "history_ok ?d"
    unfolding history_ok_def rows' nid
  proof (intro conjI ballI)
    fix x assume "x \<in> set (alert_events d @ [mk ?k])"
    then consider "x \<in> set (alert_events d)" | "x = mk ?k" by auto
    then show "ev_first_fired_at x \<noteq> None" "event_walk None (history ?d (ev_id x)) (Some (ev_status x))"
    proof (atomize (full), cases)
      case 1
      with lt [OF 1] inv show "ev_first_fired_at x \<noteq> None \<and> event_walk None (history ?d (ev_id x)) (Some (ev_status x))"
        by (simp add: history_log hist alert_inv_def alert_core_def history_ok_def)
    next
      case 2
      with mk none show "ev_first_fired_at x \<noteq> None \<and> event_walk None (history ?d (ev_id x)) (Some (ev_status x))"
        by (simp add: history_log hist)
    qed
  next
    fix l assume "l \<in> set (alert_logs ?d)"
    then have "l \<in> set (alert_logs d) \<or> el_event_id l = ?k"
      by (auto simp: event_log_record_def repo_create_def)
    then show "el_event_id l < ?k + 1"
      using inv by (force simp: alert_inv_def alert_core_def history_ok_def)
  qed
  with wf uniq ins rows show ?thesis by (auto simp: alert_inv_def alert_core_def)
qed

end
