(* ===== verification/Alert_Properties.thy ===== *)
theory Alert_Properties
  imports Alert_Invariant Samples
begin

text \<open>
  What the alert engine and the alert centre guarantee. The round of evaluation is the loop of
  \<open>Sweep\<close> over the pairs of rules and servers: its interpretation shows what one pair does to the
  active event of its own key and that it leaves the other keys alone.
\<close>

section \<open>One pair\<close>

definition pair_key :: "AlertRule \<times> OpsServer \<Rightarrow> alert_key" where
  "pair_key p = alert_key_of (fst p) (snd p)"

definition active_view :: "alert_key \<Rightarrow> int \<times> db \<Rightarrow> AlertEvent option" where
  "active_view k s = get_active_by_alert_key (snd s) k"

definition refreshed :: "datetime \<Rightarrow> AlertRule \<Rightarrow> rat \<Rightarrow> AlertEvent \<Rightarrow> AlertEvent" where
  "refreshed now rule v e = e\<lparr>ev_last_fired_at := Some now, ev_current_value := Some v,
     ev_status := (if ev_status e = EV_PENDING \<and> since_first now e \<ge> timedelta_seconds (ar_duration_seconds rule)
                   then EV_FIRING else ev_status e)\<rparr>"

text \<open>The active event of a pair after its evaluation, from the one before.\<close>

definition pair_post ::
  "datetime \<Rightarrow> (ident \<Rightarrow> MonitorServerMetric option) \<Rightarrow> AlertRule \<times> OpsServer \<Rightarrow>
   AlertEvent option \<Rightarrow> AlertEvent option \<Rightarrow> bool" where
  "pair_post now latest p before after =
     (let rule = fst p; server = snd p in
      case get_value now rule server (latest (sv_id server)) of
        None \<Rightarrow> after = before
      | Some v \<Rightarrow>
          if compare_value v (ar_operator rule) (effective_threshold rule server) then
            (case before of
               None \<Rightarrow> \<exists>k. after = Some (new_event now rule server v (effective_threshold rule server) k)
             | Some e \<Rightarrow> after = Some (refreshed now rule v e))
          else if is_recovered rule v then after = None else after = before)"

lemma new_event_simps [simp]:
  "ev_id (new_event now r s v t k) = k" "ev_alert_key (new_event now r s v t k) = alert_key_of r s"
  "ev_status (new_event now r s v t k) = EV_PENDING" "ev_first_fired_at (new_event now r s v t k) = Some now"
  by (simp_all add: new_event_def)

lemma set_event_set_event:
  "(\<And>e. ev_id (f e) = ev_id e) \<Longrightarrow> set_event k g (set_event k f d) = set_event k (\<lambda>e. g (f e)) d"
  by (simp add: set_event_def repo_update_def tbl_modify_def comp_def)

lemma get_active_set_event:
  assumes inv: "alert_core d" and inv': "alert_core (set_event (ev_id e) f d)"
    and e: "e \<in> set (alert_events d)" "active_event e"
    and f: "\<And>e. ev_id (f e) = ev_id e" "\<And>e. ev_alert_key (f e) = ev_alert_key e"
  shows "get_active_by_alert_key (set_event (ev_id e) f d) k =
    (if k = ev_alert_key e then if active_event (f e) then Some (f e) else None
     else get_active_by_alert_key d k)"
proof -
  let ?d = "set_event (ev_id e) f d"
  have id: "x = e" if "x \<in> set (alert_events d)" "ev_id x = ev_id e" for x
    using event_id_inj [OF inv that(1) e(1) that(2)] .
  have fe: "f e \<in> set (alert_events ?d)" using e(1) by force
  have other: "y = f e \<or> y \<in> set (alert_events d) \<and> ev_id y \<noteq> ev_id e" if "y \<in> set (alert_events ?d)" for y
    using that id by (auto split: if_splits)
  show ?thesis
  proof (cases "k = ev_alert_key e")
    case True
    show ?thesis
    proof (cases "active_event (f e)")
      case True
      then show ?thesis
        using \<open>k = ev_alert_key e\<close> get_active_Some [OF inv', of k "f e"] fe f(2) by simp
    next
      case False
      have "\<not> active_event y" if "y \<in> set (alert_events ?d)" "ev_alert_key y = k" for y
      proof
        assume "active_event y"
        with other [OF that(1)] False have "y \<in> set (alert_events d)" "ev_id y \<noteq> ev_id e" by auto
        with active_eq [OF inv _ e(1) \<open>active_event y\<close> e(2)] that(2) True show False by blast
      qed
      then have "get_active_by_alert_key ?d k = None" by (auto simp: get_active_None simp del: events_set_event)
      with False True show ?thesis by simp
    qed
  next
    case False
    have "get_active_by_alert_key ?d k = Some y \<longleftrightarrow> get_active_by_alert_key d k = Some y" for y
      unfolding get_active_Some [OF inv] get_active_Some [OF inv']
    proof
      assume "y \<in> set (alert_events ?d) \<and> ev_alert_key y = k \<and> active_event y"
      with other [of y] False f(2) [of e] show "y \<in> set (alert_events d) \<and> ev_alert_key y = k \<and> active_event y" by auto
    next
      assume y: "y \<in> set (alert_events d) \<and> ev_alert_key y = k \<and> active_event y"
      with False have "ev_id y \<noteq> ev_id e" using id by blast
      with y show "y \<in> set (alert_events ?d) \<and> ev_alert_key y = k \<and> active_event y" by force
    qed
    with False show ?thesis by (metis option.exhaust)
  qed
qed

text \<open>Event \<open>e\<close> gets the status \<open>s\<close> and a log row.\<close>

lemma transition_ok:
  assumes inv: "alert_inv d" and e: "e \<in> set (alert_events d)" "active_event e"
    and g: "\<And>e. event_static (g e) = event_static e" "\<And>e. ev_status (g e) = ev_status e"
    and step: "event_step (Some (ev_status e)) s"
  shows "alert_inv (transition e s v m (set_event (ev_id e) g d))"
    and "get_active_by_alert_key (transition e s v m (set_event (ev_id e) g d)) k =
      (if k = ev_alert_key e then if s = EV_RESOLVED then None
         else Some ((g e)\<lparr>ev_status := s, ev_current_value := Some v\<rparr>)
       else get_active_by_alert_key d k)"
proof -
  let ?f = "\<lambda>e. (g e)\<lparr>ev_status := s, ev_current_value := Some v\<rparr>"
  have st: "ev_id (g e) = ev_id e" "ev_alert_key (g e) = ev_alert_key e" "event_static (?f e) = event_static e" for e
    using g(1) [of e] by (simp_all add: event_static_def)
  have eq: "transition e s v m (set_event (ev_id e) g d) =
      event_log_record (ev_id e) (Some (ev_status e)) s (Some v) m None (set_event (ev_id e) ?f d)"
    by (simp add: transition_def set_event_set_event st)
  show inv': "alert_inv (transition e s v m (set_event (ev_id e) g d))"
    unfolding eq by (rule alert_inv_status [OF inv e(1)]) (simp_all add: st step)
  have core: "alert_core (set_event (ev_id e) ?f d)"
    using alert_inv_core [OF inv'] unfolding eq alert_core_def active_unique_def by simp
  have "active_event (?f e) \<longleftrightarrow> s \<noteq> EV_RESOLVED" by (simp add: active_event_def)
  with get_active_set_event [OF alert_inv_core [OF inv] core e, of k] st
  show "get_active_by_alert_key (transition e s v m (set_event (ev_id e) g d)) k =
      (if k = ev_alert_key e then if s = EV_RESOLVED then None
         else Some ((g e)\<lparr>ev_status := s, ev_current_value := Some v\<rparr>)
       else get_active_by_alert_key d k)"
    unfolding eq get_active_log by auto
qed

lemma refresh_ok:
  assumes inv: "alert_inv d" and e: "e \<in> set (alert_events d)" "active_event e"
    and g: "\<And>e. event_static (g e) = event_static e" "\<And>e. ev_status (g e) = ev_status e"
  shows "alert_inv (set_event (ev_id e) g d)"
    and "get_active_by_alert_key (set_event (ev_id e) g d) k =
      (if k = ev_alert_key e then Some (g e) else get_active_by_alert_key d k)"
proof -
  show inv': "alert_inv (set_event (ev_id e) g d)"
    by (rule alert_inv_set_event [OF inv]) (use g in simp_all)
  have st: "ev_id (g e) = ev_id e" "ev_alert_key (g e) = ev_alert_key e" for e
    using g(1) [of e] by (simp_all add: event_static_def)
  have "active_event (g e)" using e(2) g(2) [of e] by (simp add: active_event_def)
  with get_active_set_event [OF alert_inv_core [OF inv] alert_inv_core [OF inv'] e, of k] st
  show "get_active_by_alert_key (set_event (ev_id e) g d) k =
      (if k = ev_alert_key e then Some (g e) else get_active_by_alert_key d k)" by auto
qed

text \<open>What an evaluation reads and never writes.\<close>

definition same_inputs :: "db \<Rightarrow> db \<Rightarrow> bool" where
  "same_inputs d' d \<longleftrightarrow> alert_rule d' = alert_rule d \<and> ops_server d' = ops_server d \<and>
     monitor_server_metric d' = monitor_server_metric d"

lemma same_inputs_simps [simp]:
  "same_inputs d d" "same_inputs (set_event k f d) d' = same_inputs d d'"
  "same_inputs (event_log_record k old new v m op d) d' = same_inputs d d'"
  "same_inputs (d\<lparr>alert_event := t\<rparr>) d' = same_inputs d d'"
  by (simp_all add: same_inputs_def set_event_def event_log_record_def)

lemma transition_inputs [simp]:
  "same_inputs (transition e s v m d) d' = same_inputs d d'"
  "length (alert_events (transition e s v m d)) = length (alert_events d)"
  by (simp_all add: transition_def)

lemma handle_violation_ok:
  assumes inv: "alert_inv d"
  shows "\<exists>new d'. handle_violation rule server v threshold now d = Inr (new, d') \<and> alert_inv d' \<and>
    length (alert_events d') = length (alert_events d) + (if new then 1 else 0) \<and> same_inputs d' d \<and>
    (\<forall>k. k \<noteq> alert_key_of rule server \<longrightarrow> get_active_by_alert_key d' k = get_active_by_alert_key d k) \<and>
    (case get_active_by_alert_key d (alert_key_of rule server) of
       None \<Rightarrow> \<exists>i. get_active_by_alert_key d' (alert_key_of rule server) = Some (new_event now rule server v threshold i)
     | Some e \<Rightarrow> get_active_by_alert_key d' (alert_key_of rule server) = Some (refreshed now rule v e))"
proof (cases "get_active_by_alert_key d (alert_key_of rule server)")
  case None
  let ?mk = "new_event now rule server v threshold"
  let ?i = "next_id (alert_event d)"
  obtain d1 where d1: "insert_event ?mk d = Inr (?i, d1)" "alert_events d1 = alert_events d @ [?mk ?i]"
    "alert_inv (event_log_record ?i None EV_PENDING (Some v) MsgDetected None d1)"
    using alert_inv_insert [OF inv, of ?mk "Some v" MsgDetected None] None by auto
  have ins: "d1 = d\<lparr>alert_event := repo_create ?mk (alert_event d)\<rparr>"
    using d1(1) by (simp add: insert_event_def Let_def split: if_splits)
  have "active_event (?mk ?i)" by (simp add: active_event_def)
  then have "get_active_by_alert_key d1 (alert_key_of rule server) = Some (?mk ?i)"
    using None by (auto simp: get_active_by_alert_key_def d1(2) find_None_iff find_append_None)
  moreover have "get_active_by_alert_key d1 k = get_active_by_alert_key d k" if "k \<noteq> alert_key_of rule server" for k
    using that by (simp add: get_active_by_alert_key_def d1(2) find_append_other)
  moreover have "same_inputs d1 d" by (simp add: ins)
  moreover have "handle_violation rule server v threshold now d =
      Inr (True, event_log_record ?i None EV_PENDING (Some v) MsgDetected None d1)"
    using None d1(1) by (simp add: handle_violation_def)
  ultimately show ?thesis
    using d1(2,3) None by auto
next
  case (Some e)
  then have e: "e \<in> set (alert_events d)" "ev_alert_key e = alert_key_of rule server" "active_event e"
    using get_active_Some [OF alert_inv_core [OF inv]] by auto
  let ?g = "\<lambda>e. e\<lparr>ev_last_fired_at := Some now, ev_current_value := Some v\<rparr>"
  have g: "event_static (?g e) = event_static e" "ev_status (?g e) = ev_status e" for e
    by (simp_all add: event_static_def)
  note keep = refresh_ok [OF inv e(1,3), of ?g, OF g]
  show ?thesis
  proof (cases "ev_status e = EV_PENDING \<and> since_first now e \<ge> timedelta_seconds (ar_duration_seconds rule)")
    case True
    then have step: "event_step (Some (ev_status e)) EV_FIRING" by simp
    note fire = transition_ok [OF inv e(1,3) g step, of v MsgDurationReached]
    show ?thesis
      using Some True fire e(2) by (auto simp: handle_violation_def Let_def refreshed_def)
  next
    case False
    then show ?thesis
      using Some keep e(2) by (auto simp: handle_violation_def Let_def refreshed_def)
  qed
qed

lemma handle_recovery_ok:
  assumes inv: "alert_inv d"
  shows "alert_inv (handle_recovery rule server v now d) \<and>
    length (alert_events (handle_recovery rule server v now d)) = length (alert_events d) \<and>
    same_inputs (handle_recovery rule server v now d) d \<and>
    (\<forall>k. k \<noteq> alert_key_of rule server \<longrightarrow>
       get_active_by_alert_key (handle_recovery rule server v now d) k = get_active_by_alert_key d k) \<and>
    get_active_by_alert_key (handle_recovery rule server v now d) (alert_key_of rule server) =
      (if is_recovered rule v then None else get_active_by_alert_key d (alert_key_of rule server))"
proof (cases "get_active_by_alert_key d (alert_key_of rule server)")
  case None
  with inv show ?thesis by (simp add: handle_recovery_def)
next
  case (Some e)
  then have e: "e \<in> set (alert_events d)" "ev_alert_key e = alert_key_of rule server" "active_event e"
    using get_active_Some [OF alert_inv_core [OF inv]] by auto
  let ?g = "\<lambda>e. e\<lparr>ev_resolved_at := Some now\<rparr>"
  have g: "event_static (?g e) = event_static e" "ev_status (?g e) = ev_status e" for e
    by (simp_all add: event_static_def)
  have "event_step (Some (ev_status e)) EV_RESOLVED"
    using e(3) by (cases "ev_status e") (auto simp: active_event_def)
  from transition_ok [OF inv e(1,3) g this, of v MsgRecovered]
  show ?thesis using Some e(2) inv by (simp add: handle_recovery_def)
qed

section \<open>The round of evaluation\<close>

text \<open>
  The invariant of the loop counts: \<open>n0\<close> events were there before it, and \<open>created\<close> counts the rest.
\<close>

definition round_inv :: "db \<Rightarrow> int \<times> db \<Rightarrow> bool" where
  "round_inv d0 s \<longleftrightarrow> alert_inv (snd s) \<and> same_inputs (snd s) d0 \<and>
     int (length (alert_events (snd s))) = int (length (alert_events d0)) + fst s"

lemma evaluate_pair_ok:
  assumes "round_inv d0 s"
  shows "\<exists>s'. evaluate_pair now latest (fst p) (snd p) s = Inr s' \<and> round_inv d0 s' \<and>
    pair_post now latest p (active_view (pair_key p) s) (active_view (pair_key p) s') \<and>
    (\<forall>k. k \<noteq> pair_key p \<longrightarrow> active_view k s' = active_view k s)"
proof -
  obtain rule server where p: "p = (rule, server)" by force
  obtain n d where s: "s = (n, d)" by force
  have inv: "alert_inv d" using assms s by (simp add: round_inv_def)
  have inputs: "same_inputs d' d0" if "same_inputs d' d" for d'
    using that assms s by (simp add: round_inv_def same_inputs_def)
  show ?thesis
  proof (cases "get_value now rule server (latest (sv_id server))")
    case None
    then show ?thesis using assms by (simp add: p s evaluate_pair_def pair_post_def)
  next
    case (Some v)
    show ?thesis
    proof (cases "compare_value v (ar_operator rule) (effective_threshold rule server)")
      case True
      obtain new d' where d': "handle_violation rule server v (effective_threshold rule server) now d = Inr (new, d')"
        "alert_inv d'" "length (alert_events d') = length (alert_events d) + (if new then 1 else 0)" "same_inputs d' d"
        "\<forall>k. k \<noteq> alert_key_of rule server \<longrightarrow> get_active_by_alert_key d' k = get_active_by_alert_key d k"
        "case get_active_by_alert_key d (alert_key_of rule server) of
           None \<Rightarrow> \<exists>i. get_active_by_alert_key d' (alert_key_of rule server) =
             Some (new_event now rule server v (effective_threshold rule server) i)
         | Some e \<Rightarrow> get_active_by_alert_key d' (alert_key_of rule server) = Some (refreshed now rule v e)"
        using handle_violation_ok [OF inv, of rule server v "effective_threshold rule server" now] by blast
      have "evaluate_pair now latest rule server (n, d) = Inr (if new then n + 1 else n, d')"
        using Some True d'(1) by (simp add: evaluate_pair_def Let_def)
      moreover have "round_inv d0 (if new then n + 1 else n, d')"
        using d'(2-4) inputs assms s by (simp add: round_inv_def)
      ultimately show ?thesis
        using Some True d'(5,6) by (simp add: p s pair_post_def pair_key_def active_view_def split: option.splits)
    next
      case False
      let ?d' = "handle_recovery rule server v now d"
      note r = handle_recovery_ok [OF inv, of rule server v now]
      have "evaluate_pair now latest rule server (n, d) = Inr (n, ?d')"
        using Some False by (simp add: evaluate_pair_def Let_def)
      moreover have "round_inv d0 (n, ?d')"
        using r inputs assms s by (simp add: round_inv_def)
      ultimately show ?thesis
        using Some False r by (simp add: p s pair_post_def pair_key_def active_view_def)
    qed
  qed
qed

interpretation evaluation: sweep "\<lambda>p. evaluate_pair now latest (fst p) (snd p)" pair_key active_view
    "round_inv base" "pair_post now latest" for now latest base
proof
  fix s :: "int \<times> db" and x :: "AlertRule \<times> OpsServer"
  assume inv: "round_inv base s"
  show "\<exists>s'. evaluate_pair now latest (fst x) (snd x) s = Inr s' \<and> round_inv base s' \<and>
      pair_post now latest x (active_view (pair_key x) s) (active_view (pair_key x) s')"
    using evaluate_pair_ok [OF inv, of now latest x] by blast
  fix s' k
  assume "evaluate_pair now latest (fst x) (snd x) s = Inr s'" "k \<noteq> pair_key x"
  then show "active_view k s' = active_view k s"
    using evaluate_pair_ok [OF inv, of now latest x] by auto
qed

definition alert_keys_ok :: "db \<Rightarrow> bool" where
  "alert_keys_ok d \<longleftrightarrow> tbl_wf ar_id (alert_rule d) \<and> tbl_wf sv_id (ops_server d)"

lemma pairs_distinct:
  assumes "alert_keys_ok d"
  shows "distinct (map pair_key (List.product (get_enabled d) (list_active d)))"
proof -
  have rs: "distinct (map ar_id (get_enabled d))" and ss: "distinct (map sv_id (list_active d))"
    using assms by (simp_all add: get_enabled_def list_active_def repo_list_all_def alert_keys_ok_def
        tbl_wf_def distinct_map_filter)
  then have "distinct (List.product (get_enabled d) (list_active d))"
    by (simp add: distinct_product distinct_map)
  moreover have "inj_on pair_key (set (List.product (get_enabled d) (list_active d)))"
    using rs ss by (auto simp: inj_on_def pair_key_def alert_key_of_def distinct_map)
  ultimately show ?thesis by (simp add: distinct_map)
qed

lemma evaluate_all_ok:
  assumes inv: "alert_inv d" and keys: "alert_keys_ok d"
  shows "\<exists>n d'. evaluate_all now d = Inr (n, d') \<and> alert_inv d' \<and> same_inputs d' d \<and>
    int (length (alert_events d')) = int (length (alert_events d)) + n \<and>
    (\<forall>rule \<in> set (get_enabled d). \<forall>server \<in> set (list_active d).
       pair_post now (get_latest_map d (map sv_id (list_active d))) (rule, server)
         (get_active_by_alert_key d (alert_key_of rule server))
         (get_active_by_alert_key d' (alert_key_of rule server))) \<and>
    (\<forall>k. (\<forall>rule \<in> set (get_enabled d). \<forall>server \<in> set (list_active d). k \<noteq> alert_key_of rule server) \<longrightarrow>
       get_active_by_alert_key d' k = get_active_by_alert_key d k)"
proof -
  let ?rs = "get_enabled d" and ?ss = "list_active d"
  let ?latest = "get_latest_map d (map sv_id ?ss)"
  have eq: "evaluate_all now d = foldE (\<lambda>p. evaluate_pair now ?latest (fst p) (snd p)) (List.product ?rs ?ss) (0, d)"
  proof (cases "?rs = [] \<or> ?ss = []")
    case True
    then have "List.product ?rs ?ss = []" by (metis length_0_conv length_product mult_is_0)
    with True show ?thesis by (simp add: evaluate_all_def)
  next
    case False
    then show ?thesis by (simp add: evaluate_all_def foldE_product split_def Let_def)
  qed
  obtain s' where s': "evaluate_all now d = Inr s'" "round_inv d s'"
    "\<forall>p \<in> set (List.product ?rs ?ss). pair_post now ?latest p (active_view (pair_key p) (0, d)) (active_view (pair_key p) s')"
    "\<forall>k. k \<notin> pair_key ` set (List.product ?rs ?ss) \<longrightarrow> active_view k s' = active_view k (0, d)"
    using evaluation.loop [OF pairs_distinct [OF keys], where s = "(0, d)" and base = d and now = now and latest = ?latest] inv
    unfolding eq by (auto simp: round_inv_def)
  show ?thesis
    using s' by (cases s') (auto simp: round_inv_def active_view_def pair_key_def image_iff)
qed

section \<open>The other operations\<close>

lemma acknowledge_inv [preserves]:
  assumes inv: "alert_inv d" and a: "acknowledge now k op d = Inr d'"
  shows "alert_inv d'"
proof -
  from a obtain e where e: "event_get d k = Some e" "ev_status e \<noteq> EV_RESOLVED"
    and d': "d' = event_log_record (ev_id e) (Some (ev_status e)) EV_ACKNOWLEDGED (ev_current_value e) MsgManualAck op
      (set_event k (\<lambda>e. e\<lparr>ev_status := EV_ACKNOWLEDGED, ev_acknowledged_by := op, ev_acknowledged_at := Some now\<rparr>) d)"
    by (auto simp: acknowledge_def get_event_or_404_def bindE_eq_Inr split: option.splits if_splits)
  have mem: "e \<in> set (alert_events d)" "ev_id e = k" using event_get_in [OF e(1)] by auto
  have "event_step (Some (ev_status e)) EV_ACKNOWLEDGED"
    using e(2) by (cases "ev_status e") auto
  then show ?thesis
    unfolding d' mem(2) [symmetric]
    by (intro alert_inv_status [OF inv mem(1)]) (simp_all add: event_static_def)
qed

lemma resolve_inv [preserves]:
  assumes inv: "alert_inv d" and a: "resolve now k op d = Inr d'"
  shows "alert_inv d'"
proof -
  from a obtain e where e: "event_get d k = Some e" "ev_status e \<noteq> EV_RESOLVED"
    and d': "d' = event_log_record (ev_id e) (Some (ev_status e)) EV_RESOLVED (ev_current_value e) MsgManualResolve op
      (set_event k (\<lambda>e. e\<lparr>ev_status := EV_RESOLVED, ev_resolved_at := Some now\<rparr>) d)"
    by (auto simp: resolve_def get_event_or_404_def bindE_eq_Inr split: option.splits if_splits)
  have mem: "e \<in> set (alert_events d)" "ev_id e = k" using event_get_in [OF e(1)] by auto
  have "event_step (Some (ev_status e)) EV_RESOLVED"
    using e(2) by (cases "ev_status e") auto
  then show ?thesis
    unfolding d' mem(2) [symmetric]
    by (intro alert_inv_status [OF inv mem(1)]) (simp_all add: event_static_def)
qed

lemma rule_ops_keys:
  assumes "alert_keys_ok d"
  shows "create_rule data who d = Inr d' \<Longrightarrow> alert_keys_ok d'"
    and "update_rule k upd d = Inr d' \<Longrightarrow> alert_keys_ok d'"
    and "delete_rule k d = Inr d' \<Longrightarrow> alert_keys_ok d'"
  using assms
  by (auto simp: create_rule_def update_rule_def delete_rule_def bindE_eq_Inr alert_keys_ok_def repo_create_def
      repo_update_def repo_delete_def split: if_splits intro!: tbl_wf_insert tbl_wf_modify tbl_wf_delete)

lemma rule_ops_inv:
  assumes "alert_inv d"
  shows "create_rule data who d = Inr d' \<Longrightarrow> alert_inv d'"
    and "update_rule k upd d = Inr d' \<Longrightarrow> alert_inv d'"
    and "delete_rule k d = Inr d' \<Longrightarrow> alert_inv d'"
  by (auto simp: create_rule_def update_rule_def delete_rule_def bindE_eq_Inr
      intro!: alert_inv_tables [OF assms] split: if_splits)

datatype alert_request =
    EvaluateAll
  | CreateRule RuleCreate "ident option"
  | UpdateRule ident RuleUpdate
  | DeleteRule ident
  | Acknowledge ident "ident option"
  | Resolve ident "ident option"

fun alert_transaction :: "datetime \<Rightarrow> alert_request \<Rightarrow> db \<Rightarrow> db result" where
  "alert_transaction now EvaluateAll d = bindE (evaluate_all now d) (\<lambda>r. Inr (snd r))"
| "alert_transaction now (CreateRule data who) d = create_rule data who d"
| "alert_transaction now (UpdateRule k data) d = update_rule k data d"
| "alert_transaction now (DeleteRule k) d = delete_rule k d"
| "alert_transaction now (Acknowledge k op) d = acknowledge now k op d"
| "alert_transaction now (Resolve k op) d = resolve now k op d"

text \<open>The databases alerts can reach, interleaved with transactions that leave their tables alone.\<close>

inductive alert_reachable :: "db \<Rightarrow> bool" where
  start: "alert_reachable empty_db"
| commit: "alert_reachable d \<Longrightarrow> alert_transaction now r d = Inr d' \<Longrightarrow> alert_reachable d'"
| other: "alert_reachable d \<Longrightarrow> alert_event d' = alert_event d \<Longrightarrow> alert_event_log d' = alert_event_log d \<Longrightarrow>
     alert_rule d' = alert_rule d \<Longrightarrow> tbl_wf sv_id (ops_server d') \<Longrightarrow> alert_reachable d'"

lemma ack_keys:
  assumes "alert_keys_ok d"
  shows "acknowledge now k op d = Inr d' \<Longrightarrow> alert_keys_ok d'" and "resolve now k op d = Inr d' \<Longrightarrow> alert_keys_ok d'"
  using assms by (auto simp: acknowledge_def resolve_def bindE_eq_Inr alert_keys_ok_def split: if_splits)

lemma alert_transaction_inv:
  assumes "alert_inv d" "alert_keys_ok d" "alert_transaction now r d = Inr d'"
  shows "alert_inv d' \<and> alert_keys_ok d'"
proof (cases r)
  case EvaluateAll
  with assms evaluate_all_ok [OF assms(1,2), of now] show ?thesis
    by (auto simp: bindE_eq_Inr same_inputs_def alert_keys_ok_def)
next
  case (CreateRule data who)
  with assms(3) rule_ops_inv(1) [OF assms(1)] rule_ops_keys(1) [OF assms(2)] show ?thesis by simp
next
  case (UpdateRule k upd)
  with assms(3) rule_ops_inv(2) [OF assms(1)] rule_ops_keys(2) [OF assms(2)] show ?thesis by simp
next
  case (DeleteRule k)
  with assms(3) rule_ops_inv(3) [OF assms(1)] rule_ops_keys(3) [OF assms(2)] show ?thesis by simp
next
  case (Acknowledge k op)
  with assms(3) acknowledge_inv [OF assms(1)] ack_keys(1) [OF assms(2)] show ?thesis by simp
next
  case (Resolve k op)
  with assms(3) resolve_inv [OF assms(1)] ack_keys(2) [OF assms(2)] show ?thesis by simp
qed

lemma alert_reachable_inv: "alert_reachable d \<Longrightarrow> alert_inv d \<and> alert_keys_ok d"
proof (induction rule: alert_reachable.induct)
  case start
  have "alert_keys_ok empty_db" by (simp add: alert_keys_ok_def empty_db_def)
  with alert_inv_empty show ?case by simp
next
  case (commit d now r d')
  then show ?case using alert_transaction_inv by blast
next
  case (other d d')
  then show ?case using alert_inv_tables [of d d'] by (simp add: alert_keys_ok_def)
qed

section \<open>A concrete alert\<close>

definition cpu_rule :: RuleCreate where
  "cpu_rule = \<lparr>rc_rule_name = ''cpu'', rc_metric_type = ''cpu'', rc_severity = ''warning'', rc_operator = ''gt'',
     rc_threshold = Some 80, rc_duration_seconds = 300, rc_recovery_threshold = None, rc_enabled = 1,
     rc_description = None\<rparr>"

definition sample_metric :: MonitorServerMetric where
  "sample_metric = \<lparr>mt_id = 1, mt_server_id = 1, mt_collected_at = 0, mt_cpu_usage = Some 95,
     mt_memory_usage = Some 10, mt_memory_used_bytes = None, mt_disk_usage = Some 20,
     mt_network_in_bytes = None, mt_network_out_bytes = None, mt_load_1m = Some 5, mt_load_5m = None,
     mt_load_15m = None, mt_tcp_connections = None, mt_uptime_seconds = None\<rparr>"

definition with_metric :: "(MonitorServerMetric \<Rightarrow> MonitorServerMetric) \<Rightarrow> db \<Rightarrow> db" where
  "with_metric f d = d\<lparr>monitor_server_metric := \<lparr>rows = [f sample_metric], next_id = 2\<rparr>\<rparr>"

definition run_alerts :: "(datetime \<times> alert_request) list \<Rightarrow> db \<Rightarrow> db" where
  "run_alerts rs d = fold (\<lambda>(now, r) d. case alert_transaction now r d of Inr d' \<Rightarrow> d' | Inl e \<Rightarrow> d) rs d"

definition pending_db :: db where
  "pending_db = run_alerts [(0, CreateRule cpu_rule None), (1000, EvaluateAll)] (with_metric id sample_db)"

lemma with_metric_reachable: "alert_reachable d \<Longrightarrow> tbl_wf sv_id (ops_server d) \<Longrightarrow> alert_reachable (with_metric f d)"
  by (rule alert_reachable.other) (simp_all add: with_metric_def)

lemma run_alerts_reachable: "alert_reachable d \<Longrightarrow> alert_reachable (run_alerts rs d)"
  unfolding run_alerts_def
  by (rule fold_invariant' [where P = alert_reachable])
    (auto split: sum.splits prod.splits intro: alert_reachable.commit)

lemma alert_sample_reachable: "alert_reachable (with_metric f sample_db)"
  by (rule alert_reachable.other [OF alert_reachable.start])
    (simp_all add: with_metric_def sample_db_def tbl_wf_def sample_server_def)

lemma pending_reachable: "alert_reachable pending_db"
  unfolding pending_db_def by (rule run_alerts_reachable [OF alert_sample_reachable])

section \<open>Properties\<close>

text \<open>
  C12. Alerts are deduplicated: whatever happened, an alert key never has two active events.
\<close>

theorem one_active_event_per_key:
  assumes "alert_reachable d"
    and "e \<in> set (alert_events d)" "ev_status e \<noteq> EV_RESOLVED"
    and "e' \<in> set (alert_events d)" "ev_status e' \<noteq> EV_RESOLVED"
    and "ev_alert_key e = ev_alert_key e'"
  shows "e = e'"
  using active_eq [OF alert_inv_core assms(2,4)] alert_reachable_inv [OF assms(1)] assms(3,5,6)
  by (simp add: active_event_def)

theorem one_active_event_per_key_witness:
  "ev_status (hd (alert_events pending_db)) = EV_PENDING \<and>
   hd (alert_events pending_db) = last (alert_events pending_db)"
proof -
  have e: "hd (alert_events pending_db) \<in> set (alert_events pending_db)"
    "ev_status (hd (alert_events pending_db)) \<noteq> EV_RESOLVED"
    "last (alert_events pending_db) \<in> set (alert_events pending_db)"
    "ev_status (last (alert_events pending_db)) \<noteq> EV_RESOLVED"
    "ev_alert_key (hd (alert_events pending_db)) = ev_alert_key (last (alert_events pending_db))"
    "ev_status (hd (alert_events pending_db)) = EV_PENDING"
    by code_simp+
  with one_active_event_per_key [OF pending_reachable e(1-5)] show ?thesis by simp
qed

text \<open>
  C13. The log of an event tells its life: it starts with the creation as \<open>PENDING\<close>, every row
  continues the one before, every step is one of \<open>PENDING\<close> to \<open>FIRING\<close>, \<open>ACKNOWLEDGED\<close> or
  \<open>RESOLVED\<close>, \<open>FIRING\<close> to \<open>ACKNOWLEDGED\<close> or \<open>RESOLVED\<close>, \<open>ACKNOWLEDGED\<close> to itself or \<open>RESOLVED\<close>,
  nothing follows \<open>RESOLVED\<close>, and the last row is the present status.
\<close>

theorem event_log_is_walk:
  assumes "alert_reachable d" and "e \<in> set (alert_events d)"
  shows "event_walk None (filter (\<lambda>l. el_event_id l = ev_id e) (alert_logs d)) (Some (ev_status e))"
  using alert_reachable_inv [OF assms(1)] assms(2) by (simp add: alert_inv_def history_ok_def history_def)

theorem event_log_is_walk_witness:
  "event_walk None (filter (\<lambda>l. el_event_id l = 1) (alert_logs pending_db)) (Some EV_PENDING)"
proof -
  have e: "hd (alert_events pending_db) \<in> set (alert_events pending_db)"
    "ev_id (hd (alert_events pending_db)) = 1" "ev_status (hd (alert_events pending_db)) = EV_PENDING"
    by code_simp+
  from event_log_is_walk [OF pending_reachable e(1)] e(2,3) show ?thesis by simp
qed



text \<open>
  C15. A violation that persists fires: when a pair without an active event violates its threshold in
  two rounds that are at least the rule's duration apart, its event is \<open>FIRING\<close> after the second.
\<close>

theorem persistent_violation_fires:
  assumes "alert_reachable d" and "rule \<in> set (get_enabled d)" and "server \<in> set (list_active d)"
    and "get_active_by_alert_key d (alert_key_of rule server) = None"
    and "evaluate_all now1 d = Inr (n1, d1)" and "evaluate_all now2 d1 = Inr (n2, d2)"
    and "get_value now1 rule server (get_latest_map d (map sv_id (list_active d)) (sv_id server)) = Some v1"
    and "get_value now2 rule server (get_latest_map d (map sv_id (list_active d)) (sv_id server)) = Some v2"
    and "compare_value v1 (ar_operator rule) (effective_threshold rule server)"
    and "compare_value v2 (ar_operator rule) (effective_threshold rule server)"
    and "1000000 * ar_duration_seconds rule \<le> now2 - now1"
  shows "\<exists>e. get_active_by_alert_key d2 (alert_key_of rule server) = Some e \<and> ev_status e = EV_FIRING \<and>
    ev_current_value e = Some v2"
proof -
  let ?k = "alert_key_of rule server"
  let ?latest = "get_latest_map d (map sv_id (list_active d))"
  note inv = alert_reachable_inv [OF assms(1)]
  from evaluate_all_ok [of d now1] inv assms(5) have one: "alert_inv d1" "same_inputs d1 d"
    "pair_post now1 ?latest (rule, server) (get_active_by_alert_key d ?k) (get_active_by_alert_key d1 ?k)"
    using assms(2,3) by auto
  have same: "get_enabled d1 = get_enabled d" "list_active d1 = list_active d"
    "get_latest_map d1 (map sv_id (list_active d)) = ?latest"
    using one(2) by (simp_all add: same_inputs_def get_enabled_def list_active_def get_latest_map_def [abs_def])
  have "alert_keys_ok d1" using inv one(2) by (simp add: alert_keys_ok_def same_inputs_def)
  from evaluate_all_ok [OF one(1) this, of now2] assms(2,3,6) have
    "pair_post now2 ?latest (rule, server) (get_active_by_alert_key d1 ?k) (get_active_by_alert_key d2 ?k)"
    by (auto simp: same)
  moreover obtain i where "get_active_by_alert_key d1 ?k = Some (new_event now1 rule server v1 (effective_threshold rule server) i)"
    using one(3) assms(4,7,9) by (auto simp: pair_post_def Let_def)
  ultimately show ?thesis
    using assms(8,10,11) by (auto simp: pair_post_def Let_def refreshed_def since_first_def timedelta_seconds_def)
qed

definition ruled_db :: db where
  "ruled_db = run_alerts [(0, CreateRule cpu_rule None)] (with_metric id sample_db)"

lemma ruled_reachable: "alert_reachable ruled_db"
  unfolding ruled_db_def by (rule run_alerts_reachable [OF alert_sample_reachable])

theorem persistent_violation_fires_witness:
  "\<exists>n1 d1 n2 d2 e. evaluate_all 1000 ruled_db = Inr (n1, d1) \<and> evaluate_all 300001000 d1 = Inr (n2, d2) \<and>
     get_active_by_alert_key d2 (AlertKey 1 1 ''CPU'') = Some e \<and> ev_status e = EV_FIRING"
proof -
  let ?r = "hd (get_enabled ruled_db)" and ?s = "hd (list_active ruled_db)"
  have m: "?r \<in> set (get_enabled ruled_db)" "?s \<in> set (list_active ruled_db)"
    "get_active_by_alert_key ruled_db (alert_key_of ?r ?s) = None"
    "get_value 1000 ?r ?s (get_latest_map ruled_db (map sv_id (list_active ruled_db)) (sv_id ?s)) = Some 95"
    "get_value 300001000 ?r ?s (get_latest_map ruled_db (map sv_id (list_active ruled_db)) (sv_id ?s)) = Some 95"
    "compare_value 95 (ar_operator ?r) (effective_threshold ?r ?s)" "1000000 * ar_duration_seconds ?r \<le> 300001000 - 1000"
    "alert_key_of ?r ?s = AlertKey 1 1 ''CPU''"
    by code_simp+
  obtain n1 d1 where e1: "evaluate_all 1000 ruled_db = Inr (n1, d1)" "alert_inv d1" "same_inputs d1 ruled_db"
    using evaluate_all_ok [of ruled_db 1000] alert_reachable_inv [OF ruled_reachable] by blast
  have "alert_keys_ok d1"
    using alert_reachable_inv [OF ruled_reachable] e1(3) by (simp add: alert_keys_ok_def same_inputs_def)
  then obtain n2 d2 where e2: "evaluate_all 300001000 d1 = Inr (n2, d2)"
    using evaluate_all_ok [OF e1(2)] by blast
  from persistent_violation_fires [OF ruled_reachable m(1-3) e1(1) e2 m(4,5,6,6,7)] e1(1) e2 m(8)
  show ?thesis by auto
qed

text \<open>
  Acknowledging and resolving fail with 404 for an unknown event and with 400 for a resolved one,
  and otherwise set the status and its stamp and change no other event. A second resolution is
  refused, a second acknowledgement is not.
\<close>

theorem operator_actions_spec:
  assumes "alert_reachable d"
  shows "case event_get d k of
      None \<Rightarrow> acknowledge now k op d = Inl (AppException ALERT_EVENT_NOT_FOUND 404) \<and>
              resolve now k op d = Inl (AppException ALERT_EVENT_NOT_FOUND 404)
    | Some e \<Rightarrow>
        if ev_status e = EV_RESOLVED
        then acknowledge now k op d = Inl (AppException BAD_REQUEST 400) \<and>
             resolve now k op d = Inl (AppException BAD_REQUEST 400)
        else (\<exists>d1 d2. acknowledge now k op d = Inr d1 \<and> resolve now k op d = Inr d2 \<and>
          event_get d1 k = Some (e\<lparr>ev_status := EV_ACKNOWLEDGED, ev_acknowledged_by := op,
             ev_acknowledged_at := Some now\<rparr>) \<and>
          event_get d2 k = Some (e\<lparr>ev_status := EV_RESOLVED, ev_resolved_at := Some now\<rparr>) \<and>
          (\<forall>j. j \<noteq> k \<longrightarrow> event_get d1 j = event_get d j \<and> event_get d2 j = event_get d j) \<and>
          resolve now2 k op2 d2 = Inl (AppException BAD_REQUEST 400) \<and>
          (\<exists>d3. acknowledge now2 k op2 d1 = Inr d3))"
proof (cases "event_get d k")
  case None
  then show ?thesis by (simp add: acknowledge_def resolve_def get_event_or_404_def)
next
  case (Some e)
  have get_set: "event_get (set_event k f d) j = (if j = k then map_option f (event_get d j) else event_get d j)"
    if "\<And>e. ev_id (f e) = ev_id e" for f j
    using that by (simp add: event_get_def set_event_def repo_get_update)
  have get_log: "event_get (event_log_record i old new v m w d') j = event_get d' j" for i old new v m w d' j
    by (simp add: event_get_def)
  show ?thesis
    using Some by (auto simp: acknowledge_def resolve_def get_event_or_404_def get_set get_log)
qed

theorem operator_actions_spec_witness:
  "\<exists>d2. resolve 5 1 (Some 9) pending_db = Inr d2 \<and> resolve 6 1 (Some 9) d2 = Inl (AppException BAD_REQUEST 400)"
proof -
  have e: "event_get pending_db 1 = Some (hd (alert_events pending_db))"
    "ev_status (hd (alert_events pending_db)) = EV_PENDING" by code_simp+
  from operator_actions_spec [OF pending_reachable, where k = 1 and now = 5 and op = "Some 9"
      and ?now2.0 = 6 and ?op2.0 = "Some 9"] e
  show ?thesis by auto
qed

section \<open>Where the engine departs from its documentation\<close>

definition load_rule :: RuleCreate where
  "load_rule = cpu_rule\<lparr>rc_metric_type := ''LOAD'', rc_threshold := Some 1, rc_duration_seconds := 0\<rparr>"

text \<open>
  C6. A \<open>LOAD\<close> rule with threshold 1 on four cores reports a load of 5, since 5 is over four times
  1. At a load of 3 the threshold is no longer violated and the rule has no recovery threshold, yet
  the event stays active: the recovery compares with the bare threshold 1.
\<close>

theorem load_alert_does_not_recover:
  "let d1 = run_alerts [(0, CreateRule load_rule None), (1000, EvaluateAll)] (with_metric id sample_db);
       d2 = run_alerts [(2000, EvaluateAll)] (with_metric (\<lambda>m. m\<lparr>mt_load_1m := Some 3\<rparr>) d1)
   in map ev_threshold_value (alert_events d1) = [Some 4] \<and>
      map ev_status (alert_events d2) = [EV_PENDING] \<and>
      compare_value 3 ''GT'' (Some 4) = False"
  by code_simp

definition low_rule :: RuleCreate where
  "low_rule = cpu_rule\<lparr>rc_operator := ''LT'', rc_threshold := Some 10, rc_recovery_threshold := Some 20\<rparr>"

text \<open>
  C7. A recovery threshold is always an upper bound, for \<open>LT\<close> rules too: a rule for values below 10
  that recovers at 20 does not recover at 25, but does at 15.
\<close>

theorem lower_bound_alert_does_not_recover:
  "let d1 = run_alerts [(0, CreateRule low_rule None), (1000, EvaluateAll)]
              (with_metric (\<lambda>m. m\<lparr>mt_cpu_usage := Some 5\<rparr>) sample_db)
   in map ev_status (alert_events (run_alerts [(2000, EvaluateAll)]
        (with_metric (\<lambda>m. m\<lparr>mt_cpu_usage := Some 25\<rparr>) d1))) = [EV_PENDING] \<and>
      map ev_status (alert_events (run_alerts [(2000, EvaluateAll)]
        (with_metric (\<lambda>m. m\<lparr>mt_cpu_usage := Some 15\<rparr>) d1))) = [EV_RESOLVED]"
  by code_simp

text \<open>
  C8. An event that an operator acknowledges while it is \<open>PENDING\<close> never fires, however long the
  violation lasts; and a rule with an event, even a resolved one, cannot be deleted: the request
  ends in a violated \<open>NOT NULL\<close> constraint, a 500.
\<close>

theorem acknowledged_pending_never_fires:
  "let d1 = run_alerts [(2000, Acknowledge 1 (Some 9)), (900000000, EvaluateAll)] pending_db;
       d2 = run_alerts [(2000, Resolve 1 (Some 9))] pending_db
   in map ev_status (alert_events d1) = [EV_ACKNOWLEDGED] \<and>
      delete_rule 1 d2 = Inl IntegrityError \<and> error_response IntegrityError = (500, INTERNAL_ERROR)"
  by code_simp

end
