(* ===== verification/Params.thy ===== *)
theory Params
  imports Errors
begin

text \<open>
  The text conversions of the standard library that the backend applies to what a client sends
  (\<open>str.strip\<close>, \<open>str.split(",")\<close>, \<open>int(str)\<close>, \<open>str(int)\<close>), and the two helpers built on them:
  \<open>utils/request.py\<close> and \<open>utils/params.py\<close>. Header and query values are ASCII here, so white
  space and digits are the ASCII ones.
\<close>

section \<open>Conversions of the standard library\<close>

definition py_space :: "char \<Rightarrow> bool" where
  "py_space c = (let n = (of_char c :: nat) in (9 \<le> n \<and> n \<le> 13) \<or> (28 \<le> n \<and> n \<le> 32))"

definition strip :: "string \<Rightarrow> string" where
  "strip s = rev (dropWhile py_space (rev (dropWhile py_space s)))"

definition is_digit :: "char \<Rightarrow> bool" where
  "is_digit c = (let n = (of_char c :: nat) in 48 \<le> n \<and> n \<le> 57)"

definition digit_value :: "char \<Rightarrow> int" where
  "digit_value c = int (of_char c) - 48"

text \<open>The digits of \<open>int(s)\<close>: single underscores are allowed between two digits.\<close>

fun parse_digits :: "int \<Rightarrow> bool \<Rightarrow> string \<Rightarrow> int option" where
  "parse_digits acc after_digit [] = (if after_digit then Some acc else None)"
| "parse_digits acc after_digit (c # cs) =
     (if is_digit c then parse_digits (acc * 10 + digit_value c) True cs
      else if c = CHR ''_'' \<and> after_digit then parse_digits acc False cs
      else None)"

text \<open>\<open>int(s)\<close>, where \<open>None\<close> is a \<open>ValueError\<close>; it refuses more than 4300 digits.\<close>

definition int_max_str_digits :: nat where
  "int_max_str_digits = 4300"

definition py_int :: "string \<Rightarrow> int option" where
  "py_int s =
     (if length (filter is_digit s) > int_max_str_digits then None
      else case strip s of
        [] \<Rightarrow> None
      | c # cs \<Rightarrow>
          if c = CHR ''-'' then map_option uminus (parse_digits 0 False cs)
          else if c = CHR ''+'' then parse_digits 0 False cs
          else parse_digits 0 False (c # cs))"

text \<open>\<open>str(n)\<close> of a number that is not negative.\<close>

definition digit_char :: "nat \<Rightarrow> char" where
  "digit_char n = char_of (48 + n)"

fun show_nat :: "nat \<Rightarrow> string" where
  "show_nat n = (if n < 10 then [digit_char n] else show_nat (n div 10) @ [digit_char (n mod 10)])"

declare show_nat.simps [simp del]

definition py_str :: "int \<Rightarrow> string" where
  "py_str n = (if n < 0 then CHR ''-'' # show_nat (nat (- n)) else show_nat (nat n))"

fun split_on :: "char \<Rightarrow> string \<Rightarrow> string list" where
  "split_on sep [] = [[]]"
| "split_on sep (c # cs) =
     (if c = sep then [] # split_on sep cs
      else case split_on sep cs of [] \<Rightarrow> [[c]] | p # ps \<Rightarrow> (c # p) # ps)"

section \<open>The helpers\<close>

text \<open>
  \<open>get_client_ip\<close>: \<open>forwarded\<close> is the header \<open>X-Forwarded-For\<close>, \<open>peer\<close> the host of the
  connection.
\<close>

definition get_client_ip :: "string option \<Rightarrow> string option \<Rightarrow> string option" where
  "get_client_ip forwarded peer =
     (if truthy forwarded then Some (strip (hd (split_on (CHR '','') (the forwarded)))) else peer)"

text \<open>\<open>optional_int(min, max)\<close> as the validator of a query parameter; \<open>None\<close> is its default.\<close>

definition optional_int :: "int option \<Rightarrow> int option \<Rightarrow> string option \<Rightarrow> int option result" where
  "optional_int min_value max_value v =
     (if v = Some [] \<or> v = None then Inr None
      else case py_int (the v) of
        None \<Rightarrow> Inl RequestValidationError
      | Some parsed \<Rightarrow>
          if (case min_value of None \<Rightarrow> False | Some lo \<Rightarrow> parsed < lo) then Inl RequestValidationError
          else if (case max_value of None \<Rightarrow> False | Some hi \<Rightarrow> parsed > hi) then Inl RequestValidationError
          else Inr (Some parsed))"

section \<open>Lemmas\<close>

lemma split_on_not_Nil [simp]: "split_on sep s \<noteq> []"
  by (induction s) (auto split: list.splits)

lemma of_digit_char: "n < 10 \<Longrightarrow> (of_char (digit_char n) :: nat) = 48 + n"
  by (simp add: digit_char_def)

lemma digit_char_simps:
  "n < 10 \<Longrightarrow> is_digit (digit_char n)" "n < 10 \<Longrightarrow> digit_value (digit_char n) = int n"
  "n < 10 \<Longrightarrow> \<not> py_space (digit_char n)"
  "n < 10 \<Longrightarrow> digit_char n \<noteq> CHR ''-''" "n < 10 \<Longrightarrow> digit_char n \<noteq> CHR ''+''"
  by (auto simp: is_digit_def digit_value_def py_space_def Let_def of_digit_char
      dest: arg_cong [where f = "of_char :: char \<Rightarrow> nat"])

lemma show_nat_digits: "c \<in> set (show_nat n) \<Longrightarrow> \<exists>m < 10. c = digit_char m"
proof (induction n rule: show_nat.induct)
  case (1 n)
  show ?case
  proof (cases "n < 10")
    case True
    with 1(2) show ?thesis by (subst (asm) show_nat.simps) auto
  next
    case False
    then have "show_nat n = show_nat (n div 10) @ [digit_char (n mod 10)]"
      by (subst show_nat.simps) simp
    with 1(2) consider "c \<in> set (show_nat (n div 10))" | "c = digit_char (n mod 10)" by auto
    then show ?thesis
    proof cases
      case 1
      with "1.IH" False show ?thesis by blast
    next
      case 2
      then show ?thesis by (intro exI [of _ "n mod 10"]) simp
    qed
  qed
qed

lemma show_nat_not_Nil [simp]: "show_nat n \<noteq> []"
  by (subst show_nat.simps) simp

lemma parse_digits_append:
  assumes "\<forall>c \<in> set xs. is_digit c" and "xs \<noteq> []"
  shows "parse_digits acc b (xs @ ys) = parse_digits (foldl (\<lambda>a c. a * 10 + digit_value c) acc xs) True ys"
  using assms
proof (induction xs arbitrary: acc b)
  case Nil
  then show ?case by simp
next
  case (Cons c cs)
  show ?case
  proof (cases "cs = []")
    case True
    with Cons.prems show ?thesis by simp
  next
    case False
    with Cons.IH [of "acc * 10 + digit_value c" True] Cons.prems show ?thesis by simp
  qed
qed

lemma foldl_show_nat: "foldl (\<lambda>a c. a * 10 + digit_value c) 0 (show_nat n) = int n"
proof (induction n rule: show_nat.induct)
  case (1 n)
  show ?case
  proof (cases "n < 10")
    case True
    then show ?thesis by (subst show_nat.simps) (simp add: digit_char_simps)
  next
    case False
    with 1 show ?thesis by (subst show_nat.simps) (simp add: digit_char_simps zmod_int zdiv_int)
  qed
qed

lemma strip_id:
  assumes "\<And>c. c \<in> set s \<Longrightarrow> \<not> py_space c"
  shows "strip s = s"
proof -
  have "dropWhile py_space t = t" if "set t \<subseteq> set s" for t
    using that assms by (cases t) auto
  then show ?thesis by (simp add: strip_def)
qed

lemma length_show_nat: "n < 10 ^ k \<Longrightarrow> 0 < k \<Longrightarrow> length (show_nat n) \<le> k"
proof (induction k arbitrary: n)
  case 0
  then show ?case by simp
next
  case (Suc k)
  show ?case
  proof (cases "n < 10")
    case True
    then show ?thesis by (subst show_nat.simps) simp
  next
    case False
    with Suc.prems have "0 < k" by (cases k) auto
    moreover have "n div 10 < 10 ^ k" using Suc.prems(1) by auto
    ultimately have "length (show_nat (n div 10)) \<le> k" using Suc.IH by blast
    with False show ?thesis by (subst show_nat.simps) simp
  qed
qed

text \<open>\<open>int(str(n)) = n\<close>, below the limit on the number of digits.\<close>

lemma py_int_py_str:
  assumes "0 \<le> n" and "n < 10 ^ int_max_str_digits"
  shows "py_int (py_str n) = Some n"
proof -
  let ?s = "show_nat (nat n)"
  have d: "\<forall>c \<in> set ?s. is_digit c" using show_nat_digits digit_char_simps(1) by blast
  have "int (nat n) < int (10 ^ int_max_str_digits)" using assms by simp
  then have "nat n < 10 ^ int_max_str_digits" by (simp only: of_nat_less_iff)
  moreover have "0 < int_max_str_digits" by (simp add: int_max_str_digits_def)
  ultimately have "length ?s \<le> int_max_str_digits" by (rule length_show_nat)
  then have len: "\<not> length (filter is_digit ?s) > int_max_str_digits"
    using length_filter_le [of is_digit ?s] by linarith
  have st: "strip ?s = ?s"
    by (rule strip_id) (use show_nat_digits digit_char_simps(3) in blast)
  obtain c cs where s: "?s = c # cs" by (cases ?s) simp_all
  then have c: "c \<noteq> CHR ''-''" "c \<noteq> CHR ''+''"
    using show_nat_digits [of c "nat n"] digit_char_simps(4,5) by (metis list.set_intros(1))+
  have "parse_digits 0 False ?s = Some (int (nat n))"
    using parse_digits_append [OF d, of 0 False "[]"] foldl_show_nat by simp
  with assms c len st s show ?thesis by (simp add: py_int_def py_str_def)
qed

end
