(* ===== verification/Signing.thy ===== *)
theory Signing
  imports Params
begin

text \<open>
  Request signatures (\<open>backend/app/core/signing.py\<close>) and the replay cache
  (\<open>backend/app/core/replay.py\<close>). \<open>base64.b64decode\<close> of the standard library is modelled with
  its lenient mode (characters outside the alphabet are skipped, parsing stops at a complete
  padding) and its strict mode. Ed25519 of the package cryptography, SHA-256 and Redis are
  parameters.
\<close>

section \<open>Base 64\<close>

definition b64_value :: "char \<Rightarrow> nat option" where
  "b64_value c = (let n = (of_char c :: nat) in
     if 65 \<le> n \<and> n \<le> 90 then Some (n - 65)
     else if 97 \<le> n \<and> n \<le> 122 then Some (n - 71)
     else if 48 \<le> n \<and> n \<le> 57 then Some (n + 4)
     else if n = 43 then Some 62
     else if n = 47 then Some 63
     else None)"

text \<open>
  \<open>binascii.a2b_base64\<close>: the arguments are the position in the group of four, the bits left over
  from the last character, the pads seen in this group, whether a pad has been seen at all, and
  the rest of the text.
\<close>

fun a2b_base64 :: "bool \<Rightarrow> nat \<Rightarrow> nat \<Rightarrow> nat \<Rightarrow> bool \<Rightarrow> string \<Rightarrow> string option" where
  "a2b_base64 strict quad_pos leftchar pads padding_started [] = (if quad_pos = 0 then Some [] else None)"
| "a2b_base64 strict quad_pos leftchar pads padding_started (c # cs) =
     (if c = CHR ''='' then
        (if quad_pos \<ge> 2 then
           (if quad_pos + (pads + 1) \<ge> 4 then (if strict \<and> cs \<noteq> [] then None else Some [])
            else a2b_base64 strict quad_pos leftchar (pads + 1) True cs)
         else a2b_base64 strict quad_pos leftchar pads True cs)
      else case b64_value c of
        None \<Rightarrow> if strict then None else a2b_base64 strict quad_pos leftchar pads padding_started cs
      | Some v \<Rightarrow>
          if strict \<and> padding_started then None
          else if quad_pos = 0 then a2b_base64 strict 1 v 0 padding_started cs
          else if quad_pos = 1 then
            map_option ((#) (char_of (leftchar * 4 + v div 16))) (a2b_base64 strict 2 (v mod 16) 0 padding_started cs)
          else if quad_pos = 2 then
            map_option ((#) (char_of (leftchar * 16 + v div 4))) (a2b_base64 strict 3 (v mod 4) 0 padding_started cs)
          else
            map_option ((#) (char_of (leftchar * 64 + v))) (a2b_base64 strict 0 0 0 padding_started cs))"

text \<open>
  \<open>base64.b64decode(s, validate)\<close>, \<open>None\<close> a \<open>ValueError\<close>: text that is not ASCII, a leading pad in
  strict mode, or an incomplete last group.
\<close>

definition b64decode :: "bool \<Rightarrow> string \<Rightarrow> string option" where
  "b64decode validate s =
     (if \<exists>c \<in> set s. (of_char c :: nat) \<ge> 128 then None
      else if validate \<and> s \<noteq> [] \<and> hd s = CHR ''='' then None
      else a2b_base64 validate 0 0 0 False s)"

text \<open>\<open>base64.b64encode\<close>.\<close>

definition b64_char :: "nat \<Rightarrow> char" where
  "b64_char n =
     (if n < 26 then char_of (n + 65) else if n < 52 then char_of (n + 71)
      else if n < 62 then char_of (n - 4) else if n = 62 then CHR ''+'' else CHR ''/'')"

definition byte :: "char \<Rightarrow> nat" where
  "byte c = of_char c"

fun b64encode :: "string \<Rightarrow> string" where
  "b64encode [] = []"
| "b64encode [a] = [b64_char (byte a div 4), b64_char (byte a mod 4 * 16), CHR ''='', CHR ''='']"
| "b64encode [a, b] =
     [b64_char (byte a div 4), b64_char (byte a mod 4 * 16 + byte b div 16),
      b64_char (byte b mod 16 * 4), CHR ''='']"
| "b64encode (a # b # c # cs) =
     b64_char (byte a div 4) # b64_char (byte a mod 4 * 16 + byte b div 16) #
     b64_char (byte b mod 16 * 4 + byte c div 64) # b64_char (byte c mod 64) # b64encode cs"

section \<open>Signatures\<close>

text \<open>
  What is used of cryptography and of hashlib: reading a raw public key (\<open>None\<close> a \<open>ValueError\<close>),
  the check of a signature, and the hexadecimal SHA-256 digest.
\<close>

record 'pk crypto =
  from_public_bytes :: "string \<Rightarrow> 'pk option"
  ed25519_verify :: "'pk \<Rightarrow> string \<Rightarrow> string \<Rightarrow> bool"
  sha256_hex :: "string \<Rightarrow> string"

definition body_sha256 :: "'pk crypto \<Rightarrow> string \<Rightarrow> string" where
  "body_sha256 cr body = sha256_hex cr body"

definition canonical_string :: "'pk crypto \<Rightarrow> string \<Rightarrow> string \<Rightarrow> string \<Rightarrow> string \<Rightarrow> string \<Rightarrow> string" where
  "canonical_string cr method path timestamp request_id body =
     upper method @ ''\<newline>'' @ path @ ''\<newline>'' @ timestamp @ ''\<newline>'' @ request_id @ ''\<newline>'' @ body_sha256 cr body"

definition is_valid_public_key :: "'pk crypto \<Rightarrow> string \<Rightarrow> bool" where
  "is_valid_public_key cr public_key_b64 =
     (case b64decode True public_key_b64 of None \<Rightarrow> False | Some raw \<Rightarrow> from_public_bytes cr raw \<noteq> None)"

definition verify_signature :: "'pk crypto \<Rightarrow> string \<Rightarrow> string \<Rightarrow> string \<Rightarrow> bool" where
  "verify_signature cr public_key_b64 signature_b64 canonical =
     (case b64decode False public_key_b64 of None \<Rightarrow> False
      | Some raw \<Rightarrow> (case from_public_bytes cr raw of None \<Rightarrow> False
      | Some pk \<Rightarrow> (case b64decode False signature_b64 of None \<Rightarrow> False
      | Some sig \<Rightarrow> ed25519_verify cr pk sig canonical)))"

section \<open>The replay cache\<close>

text \<open>
  \<open>set_nx_ex now key ttl\<close> is \<open>SET key 1 NX EX ttl\<close> at time \<open>now\<close>: \<open>None\<close> is a \<open>RedisError\<close>,
  otherwise whether the key was created.
\<close>

type_synonym 'r set_nx_ex = "datetime \<Rightarrow> string \<Rightarrow> int \<Rightarrow> 'r \<Rightarrow> (bool \<times> 'r) option"

definition replay_key :: "ident \<Rightarrow> string \<Rightarrow> string" where
  "replay_key server_id request_id = ''agent:sig:'' @ py_str server_id @ '':'' @ request_id"

definition is_replayed ::
  "'r set_nx_ex \<Rightarrow> datetime \<Rightarrow> ident \<Rightarrow> string \<Rightarrow> int \<Rightarrow> 'r \<Rightarrow> (bool \<times> 'r) option" where
  "is_replayed set_nx now server_id request_id ttl_seconds r =
     (case set_nx now (replay_key server_id request_id) ttl_seconds r of
        None \<Rightarrow> None
      | Some (created, r') \<Rightarrow> Some (\<not> created, r'))"

section \<open>Lemmas on signatures\<close>

lemma a2b_strict_lenient:
  "a2b_base64 True q l p b s = Some x \<Longrightarrow> a2b_base64 False q l p b' s = Some x"
proof (induction "True" q l p b s arbitrary: b' x rule: a2b_base64.induct)
  case (1 q l p b)
  then show ?case by simp
next
  case (2 q l p b c cs)
  show ?case
  proof (cases "c = CHR ''=''")
    case True
    with 2 show ?thesis by (auto split: if_splits)
  next
    case False
    with "2.prems" obtain v where v: "b64_value c = Some v" and nb: "\<not> b"
      by (auto split: option.splits if_splits)
    consider "q = 0" | "q = 1" | "q = 2" | "q \<noteq> 0" "q \<noteq> 1" "q \<noteq> 2" by blast
    then show ?thesis
      by cases (use 2 False v nb in auto)
  qed
qed

lemma of_b64_char:
  "n < 64 \<Longrightarrow> (of_char (b64_char n) :: nat) =
     (if n < 26 then n + 65 else if n < 52 then n + 71 else if n < 62 then n - 4 else if n = 62 then 43 else 47)"
  by (simp add: b64_char_def)

lemma b64_char_value:
  assumes "n < 64"
  shows "b64_value (b64_char n) = Some n" "b64_char n \<noteq> CHR ''=''" "(of_char (b64_char n) :: nat) < 128"
proof -
  show "b64_value (b64_char n) = Some n" "(of_char (b64_char n) :: nat) < 128"
    unfolding b64_value_def Let_def of_b64_char [OF assms] using assms by auto
  have "(of_char (b64_char n) :: nat) \<noteq> of_char (CHR ''='')"
    unfolding of_b64_char [OF assms] using assms by auto
  then show "b64_char n \<noteq> CHR ''=''" by metis
qed

lemma byte_lt: "byte c < 256"
  unfolding byte_def by (rule of_char_mod_256 [THEN subst]) simp

lemma char_of_byte [simp]: "char_of (byte c) = c"
  by (simp add: byte_def)

lemma byte_div [simp]:
  "byte a div 4 < 64" "byte a div 16 < 16" "byte a div 64 < 4"
  by (rule less_mult_imp_div_less, use byte_lt [of a] in simp)+

lemma byte_div_div [simp]:
  "byte a div 16 div 16 = 0" "byte a div 16 mod 16 = byte a div 16"
  "byte a div 64 div 4 = 0" "byte a div 64 mod 4 = byte a div 64"
  by simp_all

lemma sextet_lt [simp]:
  "byte a mod 4 * 16 + byte b div 16 < 64" "byte b mod 16 * 4 + byte c div 64 < 64"
  "byte a mod 4 * 16 < 64" "byte b mod 16 * 4 < 64"
proof -
  have "byte b div 16 < 16" "byte c div 64 < 4" "byte a mod 4 < 4" "byte b mod 16 < 16" by simp_all
  then show "byte a mod 4 * 16 + byte b div 16 < 64" "byte b mod 16 * 4 + byte c div 64 < 64"
    "byte a mod 4 * 16 < 64" "byte b mod 16 * 4 < 64" by linarith+
qed

text \<open>Decoding what was encoded gives the bytes back, in both modes.\<close>

lemma a2b_b64encode: "a2b_base64 strict 0 0 0 False (b64encode raw) = Some raw"
  by (induction raw rule: b64encode.induct) (simp_all add: b64_char_value)

lemma b64decode_b64encode: "b64decode validate (b64encode raw) = Some raw"
proof -
  have ascii: "c \<in> set (b64encode raw) \<Longrightarrow> (of_char c :: nat) < 128" for c
    by (induction raw rule: b64encode.induct) (auto simp: b64_char_value)
  have hd: "b64encode raw = [] \<or> hd (b64encode raw) \<noteq> CHR ''=''"
    by (cases raw rule: b64encode.cases) (simp_all add: b64_char_value)
  have "\<not> (\<exists>c \<in> set (b64encode raw). (of_char c :: nat) \<ge> 128)"
    using ascii by (meson not_le)
  then show ?thesis
    using hd by (auto simp: b64decode_def a2b_b64encode)
qed

text \<open>A key that passes the validation is decoded to the same bytes when a signature is checked.\<close>

lemma b64decode_strict_lenient: "b64decode True s = Some x \<Longrightarrow> b64decode False s = Some x"
  by (auto simp: b64decode_def a2b_strict_lenient split: if_splits)

lemma append_newline_inject:
  "\<lbrakk>CHR ''\<newline>'' \<notin> set a; CHR ''\<newline>'' \<notin> set b\<rbrakk> \<Longrightarrow>
   a @ CHR ''\<newline>'' # x = b @ CHR ''\<newline>'' # y \<longleftrightarrow> a = b \<and> x = y"
proof (induction a arbitrary: b)
  case Nil
  then show ?case by (cases b) auto
next
  case (Cons c cs)
  then show ?case by (cases b) auto
qed

lemma newline_not_in_upper: "CHR ''\<newline>'' \<notin> set m \<Longrightarrow> CHR ''\<newline>'' \<notin> set (upper m)"
proof
  assume m: "CHR ''\<newline>'' \<notin> set m" and "CHR ''\<newline>'' \<in> set (upper m)"
  then obtain c where c: "c \<in> set m" "upper_char c = CHR ''\<newline>''" by (auto simp: upper_def)
  show False
  proof (cases "97 \<le> (of_char c :: nat) \<and> (of_char c :: nat) \<le> 122")
    case True
    then have "(of_char (upper_char c) :: nat) \<ge> 65"
      by (auto simp: upper_char_def Let_def)
    with c(2) show False by simp
  next
    case False
    then have "upper_char c = c" by (auto simp: upper_char_def Let_def)
    with c m show False by simp
  qed
qed

lemma canonical_string_inject:
  assumes "CHR ''\<newline>'' \<notin> set m" "CHR ''\<newline>'' \<notin> set p" "CHR ''\<newline>'' \<notin> set t" "CHR ''\<newline>'' \<notin> set r"
    and "CHR ''\<newline>'' \<notin> set m'" "CHR ''\<newline>'' \<notin> set p'" "CHR ''\<newline>'' \<notin> set t'" "CHR ''\<newline>'' \<notin> set r'"
  shows "canonical_string cr m p t r b = canonical_string cr m' p' t' r' b' \<longleftrightarrow>
    upper m = upper m' \<and> p = p' \<and> t = t' \<and> r = r' \<and> body_sha256 cr b = body_sha256 cr b'"
  using assms by (simp add: canonical_string_def append_newline_inject newline_not_in_upper)

lemma show_nat_inject: "show_nat m = show_nat n \<longleftrightarrow> m = n"
  using foldl_show_nat by (metis of_nat_eq_iff)

lemma colon_not_digit: "n < 10 \<Longrightarrow> digit_char n \<noteq> CHR '':''"
  by (auto dest: arg_cong [where f = "of_char :: char \<Rightarrow> nat"] simp: of_digit_char)

lemma colon_not_in_show: "CHR '':'' \<notin> set (show_nat n)"
  using show_nat_digits colon_not_digit by metis

lemma append_colon_inject:
  "\<lbrakk>CHR '':'' \<notin> set a; CHR '':'' \<notin> set b; a @ CHR '':'' # x = b @ CHR '':'' # y\<rbrakk> \<Longrightarrow> a = b \<and> x = y"
proof (induction a arbitrary: b)
  case Nil
  then show ?case by (cases b) auto
next
  case (Cons c cs)
  then show ?case by (cases b) auto
qed

text \<open>The key spaces of two servers never overlap, whatever request ids they send.\<close>

lemma replay_key_inject:
  "0 \<le> s \<Longrightarrow> 0 \<le> s' \<Longrightarrow> replay_key s r = replay_key s' r' \<longleftrightarrow> s = s' \<and> r = r'"
proof
  assume s: "0 \<le> s" "0 \<le> s'" and "replay_key s r = replay_key s' r'"
  then have "show_nat (nat s) @ CHR '':'' # r = show_nat (nat s') @ CHR '':'' # r'"
    by (simp add: replay_key_def py_str_def)
  from append_colon_inject [OF colon_not_in_show colon_not_in_show this] s
  show "s = s' \<and> r = r'" by (simp add: show_nat_inject eq_nat_nat_iff)
qed simp

end
