(* ===== verification/Agent_Auth.thy ===== *)
theory Agent_Auth
  imports Server_Repository Signing
begin

text \<open>
  The authentication of agent requests (\<open>backend/app/api/v1/deps.py\<close>): the bearer token, then the
  server it is bound to, then the signature with its four headers, its clock window and the
  replay cache. The settings are read from \<open>core/config.py\<close>. A request that raises leaves the
  cache as it is unless it was found to be replayed, and \<open>SET NX\<close> does not change it then either.
\<close>

record settings =
  AGENT_REQUIRE_SIGNATURE :: bool
  AGENT_SIGNATURE_MAX_SKEW :: int

definition default_settings :: settings where
  "default_settings = \<lparr>AGENT_REQUIRE_SIGNATURE = False, AGENT_SIGNATURE_MAX_SKEW = 300\<rparr>"

record http_request =
  rq_method :: string
  rq_path :: string
  rq_body :: string
  rq_bearer :: "string option"
  rq_agent_id :: "string option"
  rq_timestamp :: "string option"
  rq_request_id :: "string option"
  rq_signature :: "string option"

text \<open>\<open>int(time.time())\<close>; the clock counts microseconds from the epoch.\<close>

definition unix_seconds :: "datetime \<Rightarrow> int" where
  "unix_seconds now = int_trunc_div now 1000000"

text \<open>
  \<open>OAuth2PasswordBearer\<close>: a request whose \<open>Authorization\<close> header is not a bearer token is turned
  down by the framework; \<open>rq_bearer\<close> is the token otherwise.
\<close>

definition oauth2_scheme :: "http_request \<Rightarrow> string result" where
  "oauth2_scheme request =
     (case rq_bearer request of None \<Rightarrow> Inl (HTTPException 401) | Some token \<Rightarrow> Inr token)"

definition invalid_signature :: py_error where
  "invalid_signature = AppException AGENT_SIGNATURE_INVALID 401"

definition check_replay ::
  "'r set_nx_ex \<Rightarrow> settings \<Rightarrow> datetime \<Rightarrow> ident \<Rightarrow> string \<Rightarrow> 'r \<Rightarrow> 'r result" where
  "check_replay set_nx cfg now server_id request_id r =
     (case is_replayed set_nx now server_id request_id (AGENT_SIGNATURE_MAX_SKEW cfg * 2) r of
        None \<Rightarrow> if AGENT_REQUIRE_SIGNATURE cfg then Inl (AppException AGENT_SIGNATURE_INVALID 503) else Inr r
      | Some (replayed, r') \<Rightarrow> if replayed then Inl (AppException AGENT_REQUEST_REPLAYED 401) else Inr r')"

definition verify_agent_signature ::
  "'pk crypto \<Rightarrow> 'r set_nx_ex \<Rightarrow> settings \<Rightarrow> datetime \<Rightarrow> http_request \<Rightarrow> OpsAgentToken \<Rightarrow> OpsServer \<Rightarrow>
   'r \<Rightarrow> 'r result" where
  "verify_agent_signature cr set_nx cfg now request token_record server r =
     (case (rq_agent_id request, rq_timestamp request, rq_request_id request, rq_signature request) of
        (Some agent_id, Some ts, Some request_id, Some sig) \<Rightarrow>
          if agent_id \<noteq> sv_server_code server then Inl invalid_signature
          else (case py_int ts of
            None \<Rightarrow> Inl (AppException AGENT_TIMESTAMP_INVALID 401)
          | Some stamp \<Rightarrow>
              if \<bar>unix_seconds now - stamp\<bar> > AGENT_SIGNATURE_MAX_SKEW cfg
              then Inl (AppException AGENT_TIMESTAMP_INVALID 401)
              else if \<not> truthy (at_signing_public_key token_record) then
                (if AGENT_REQUIRE_SIGNATURE cfg then Inl invalid_signature else Inr r)
              else if \<not> verify_signature cr (the (at_signing_public_key token_record)) sig
                     (canonical_string cr (rq_method request) (rq_path request) ts request_id (rq_body request))
              then Inl invalid_signature
              else check_replay set_nx cfg now (sv_id server) request_id r)
      | _ \<Rightarrow>
          if AGENT_REQUIRE_SIGNATURE cfg then Inl (AppException AGENT_SIGNATURE_MISSING 401) else Inr r)"

definition resolve_agent ::
  "'pk crypto \<Rightarrow> 'r set_nx_ex \<Rightarrow> settings \<Rightarrow> datetime \<Rightarrow> http_request \<Rightarrow> string \<Rightarrow> db \<Rightarrow> 'r \<Rightarrow>
   ((OpsAgentToken \<times> OpsServer) \<times> 'r) result" where
  "resolve_agent cr set_nx cfg now request token d r =
     (case authenticate (sha256_hex cr) now d token of
        None \<Rightarrow> Inl (AppException AGENT_UNAUTHORIZED 401)
      | Some token_record \<Rightarrow>
          (case server_get d (at_server_id token_record) of
             None \<Rightarrow> Inl (AppException SERVER_NOT_FOUND 404)
           | Some server \<Rightarrow>
               if sv_status server \<noteq> 1 then Inl (AppException SERVER_NOT_FOUND 404)
               else bindE (verify_agent_signature cr set_nx cfg now request token_record server r)
                 (\<lambda>r'. Inr ((token_record, server), r'))))"

definition get_agent_server ::
  "'pk crypto \<Rightarrow> 'r set_nx_ex \<Rightarrow> settings \<Rightarrow> datetime \<Rightarrow> http_request \<Rightarrow> db \<Rightarrow> 'r \<Rightarrow> (OpsServer \<times> 'r) result" where
  "get_agent_server cr set_nx cfg now request d r =
     bindE (oauth2_scheme request) (\<lambda>token.
     bindE (resolve_agent cr set_nx cfg now request token d r) (\<lambda>((_, server), r'). Inr (server, r')))"

definition get_agent_token ::
  "'pk crypto \<Rightarrow> 'r set_nx_ex \<Rightarrow> settings \<Rightarrow> datetime \<Rightarrow> http_request \<Rightarrow> db \<Rightarrow> 'r \<Rightarrow> (OpsAgentToken \<times> 'r) result" where
  "get_agent_token cr set_nx cfg now request d r =
     bindE (oauth2_scheme request) (\<lambda>token.
     bindE (resolve_agent cr set_nx cfg now request token d r) (\<lambda>((token_record, _), r'). Inr (token_record, r')))"

section \<open>What Redis promises\<close>

text \<open>
  The documented behaviour of \<open>SET key value NX EX ttl\<close>, through what the cache shows of a key: the
  time its entry expires. A key whose entry has not expired is left alone, any other is created
  with the new time, and other keys keep their entries. A call may also fail.
\<close>

definition alive :: "('r \<Rightarrow> string \<Rightarrow> datetime option) \<Rightarrow> datetime \<Rightarrow> string \<Rightarrow> 'r \<Rightarrow> bool" where
  "alive expires now key r = (case expires r key of None \<Rightarrow> False | Some x \<Rightarrow> now < x)"

definition redis_contract :: "'r set_nx_ex \<Rightarrow> ('r \<Rightarrow> string \<Rightarrow> datetime option) \<Rightarrow> bool" where
  "redis_contract set_nx expires \<longleftrightarrow>
     (\<forall>now key ttl r created r'. set_nx now key ttl r = Some (created, r') \<longrightarrow>
        created = (\<not> alive expires now key r) \<and>
        expires r' = (if alive expires now key r then expires r
                      else (expires r)(key := Some (now + timedelta_seconds ttl))))"

text \<open>A cache in memory that meets it.\<close>

definition memory_set :: "(string \<times> datetime) list set_nx_ex" where
  "memory_set now key ttl r =
     (case map_of r key of
        Some x \<Rightarrow> if now < x then Some (False, r) else Some (True, (key, now + timedelta_seconds ttl) # r)
      | None \<Rightarrow> Some (True, (key, now + timedelta_seconds ttl) # r))"

lemma memory_contract: "redis_contract memory_set map_of"
  by (auto simp: redis_contract_def alive_def memory_set_def split: option.splits if_splits)

end
