(* ===== verification/Upsert.thy ===== *)
theory Upsert
  imports Base_Repository
begin

text \<open>
  The interface of an idempotent write: look a row up by its unique key, update it when it is
  there, insert it otherwise. Disks, network interfaces, services and daily metrics are stored
  this way. The client sees the table as a map from keys to the values \<open>val\<close> of a row; the laws say
  how one write changes a value (\<open>merge\<close>), the lemmas what a series of writes and a deletion leave.
\<close>

definition upsert_row ::
  "('r \<Rightarrow> 'k) \<Rightarrow> ('r \<Rightarrow> ident) \<Rightarrow> ('a \<Rightarrow> 'r \<Rightarrow> 'r) \<Rightarrow> ('a \<Rightarrow> ident \<Rightarrow> 'r) \<Rightarrow> 'k \<Rightarrow> 'a \<Rightarrow> 'r table \<Rightarrow> 'r table" where
  "upsert_row key ident change new k a t =
     (case List.find (\<lambda>r. key r = k) (rows t) of
        Some existing \<Rightarrow> tbl_modify (\<lambda>r. ident r = ident existing) (change a) t
      | None \<Rightarrow> tbl_insert (new a) t)"

locale upsert =
  fixes key :: "'r \<Rightarrow> 'k" and ident :: "'r \<Rightarrow> ident" and val :: "'r \<Rightarrow> 'v"
    and change :: "'a \<Rightarrow> 'r \<Rightarrow> 'r" and new :: "'a \<Rightarrow> ident \<Rightarrow> 'r" and akey :: "'a \<Rightarrow> 'k"
    and merge :: "'a \<Rightarrow> 'v option \<Rightarrow> 'v"
  assumes key_change: "key r = akey a \<Longrightarrow> key (change a r) = akey a" and ident_change: "ident (change a r) = ident r"
    and val_change: "val (change a r) = merge a (Some (val r))"
    and key_new: "key (new a k) = akey a" and ident_new: "ident (new a k) = k"
    and val_new: "val (new a k) = merge a None"
begin

definition put :: "'a \<Rightarrow> 'r table \<Rightarrow> 'r table" where
  "put a t = upsert_row key ident change new (akey a) a t"

definition keyed :: "'r table \<Rightarrow> bool" where
  "keyed t \<longleftrightarrow> tbl_wf ident t \<and> distinct (map key (rows t))"

definition look :: "'r table \<Rightarrow> 'k \<Rightarrow> 'v option" where
  "look t k = map_option val (List.find (\<lambda>r. key r = k) (rows t))"

lemma put_hit:
  assumes "keyed t" and "List.find (\<lambda>r. key r = akey a) (rows t) = Some e"
  shows "put a t = tbl_modify (\<lambda>r. key r = akey a) (change a) t"
proof -
  from assms(2) have e: "e \<in> set (rows t)" "key e = akey a" by (auto dest: find_Some_in)
  have "ident r = ident e \<longleftrightarrow> key r = akey a" if "r \<in> set (rows t)" for r
  proof
    assume "ident r = ident e"
    with assms(1) that e(1) have "r = e" by (auto simp: keyed_def dest: tbl_wf_inj)
    with e(2) show "key r = akey a" by simp
  next
    assume "key r = akey a"
    with assms(1) that e have "r = e" by (auto simp: keyed_def distinct_map inj_on_def)
    then show "ident r = ident e" by simp
  qed
  then have "tbl_modify (\<lambda>r. ident r = ident e) (change a) t = tbl_modify (\<lambda>r. key r = akey a) (change a) t"
    by (simp add: tbl_modify_def cong: map_cong)
  with assms(2) show ?thesis by (simp add: put_def upsert_row_def)
qed

lemma put_miss:
  "List.find (\<lambda>r. key r = akey a) (rows t) = None \<Longrightarrow> put a t = tbl_insert (new a) t"
  by (simp add: put_def upsert_row_def)

lemma keyed_put: "keyed t \<Longrightarrow> keyed (put a t)"
proof (cases "List.find (\<lambda>r. key r = akey a) (rows t)")
  case None
  assume t: "keyed t"
  have "akey a \<notin> key ` set (rows t)" using None by (auto simp: find_None_iff)
  with t None show ?thesis
    by (simp add: put_miss keyed_def tbl_wf_insert ident_new key_new)
next
  case (Some e)
  assume t: "keyed t"
  have "(\<lambda>r. key (if key r = akey a then change a r else r)) = key" by (rule ext) (simp add: key_change)
  with t show ?thesis
    by (simp add: put_hit [OF t Some] keyed_def tbl_wf_modify ident_change comp_def)
qed

lemma look_put:
  assumes "keyed t"
  shows "look (put a t) k = (if k = akey a then Some (merge a (look t k)) else look t k)"
proof (cases "List.find (\<lambda>r. key r = akey a) (rows t)")
  case None
  then show ?thesis
    by (simp add: put_miss look_def find_append_None find_append_other key_new val_new)
next
  case (Some e)
  let ?f = "\<lambda>r. if key r = akey a then change a r else r"
  have f: "key (?f r) = key r" for r by (simp add: key_change)
  have "(\<lambda>r. if key r = akey a then change a r else r) = (\<lambda>r. if key r = akey a then ?f r else r)" by auto
  then have "look (put a t) k = map_option val (List.find (\<lambda>r. key r = k)
      (map (\<lambda>r. if key r = akey a then ?f r else r) (rows t)))"
    by (simp add: put_hit [OF assms Some] look_def)
  also have "\<dots> = map_option val (if k = akey a then map_option ?f (List.find (\<lambda>r. key r = k) (rows t))
      else List.find (\<lambda>r. key r = k) (rows t))"
    by (simp only: find_modify [of key ?f, OF f])
  finally show ?thesis
    using Some by (auto simp: look_def val_change dest: find_Some_in)
qed

lemma keyed_fold: "keyed t \<Longrightarrow> keyed (fold put as t)"
  by (induction as arbitrary: t) (simp_all add: keyed_put)

text \<open>A series of writes: the writes of a key are merged into its value in their order.\<close>

lemma look_fold:
  "keyed t \<Longrightarrow> look (fold put as t) k =
    fold (\<lambda>a v. Some (merge a v)) (filter (\<lambda>a. akey a = k) as) (look t k)"
  by (induction as arbitrary: t) (auto simp: keyed_put look_put)

lemma keyed_delete: "keyed t \<Longrightarrow> keyed (tbl_delete P t)"
  by (simp add: keyed_def tbl_wf_delete distinct_map_filter)

lemma look_delete:
  assumes "\<And>r. P r \<longleftrightarrow> Q (key r)"
  shows "look (tbl_delete P t) k = (if Q k then None else look t k)"
proof -
  have "List.find (\<lambda>r. key r = k) (filter (\<lambda>r. \<not> P r) rs) =
      (if Q k then None else List.find (\<lambda>r. key r = k) rs)" for rs
    by (induction rs) (auto simp: assms)
  then show ?thesis by (simp add: look_def)
qed

lemma fold_merge_None_iff:
  "fold (\<lambda>a v. Some (merge a v)) as v = None \<longleftrightarrow> as = [] \<and> v = None"
  by (induction as arbitrary: v) auto

end

end
