(* ===== verification/Agent_Service.thy ===== *)
theory Agent_Service
  imports Agent_Auth Upsert
begin

text \<open>
  The agent protocol (\<open>backend/app/services/agent_service.py\<close>, \<open>schemas/agent.py\<close>): registration, key rotation, heartbeat, metrics, assets and services.
  An operation returns the new database, or an exception that rolls it back. Numbers of the wire
  format are rationals; the rounding of a \<open>NUMERIC\<close> column is left out.
\<close>

section \<open>Requests\<close>

definition MAX_TIME_SKEW_SECONDS :: int where
  "MAX_TIME_SKEW_SECONDS = 300"

text \<open>A time stamp of the wire, with its offset from UTC in microseconds when it has one.\<close>

datatype wire_time = Naive datetime | Aware datetime int

record RegisterRequest =
  rg_server_code :: string
  rg_token :: string
  rg_hostname :: string
  rg_os_name :: "string option"
  rg_os_version :: "string option"
  rg_kernel_version :: "string option"
  rg_architecture :: "string option"
  rg_cpu_model :: "string option"
  rg_cpu_cores :: "int option"
  rg_memory_total_bytes :: "int option"
  rg_disk_total_bytes :: "int option"
  rg_agent_version :: "string option"
  rg_signing_public_key :: "string option"

definition at_least_zero :: "'a::linordered_idom option \<Rightarrow> bool" where
  "at_least_zero x = (case x of None \<Rightarrow> True | Some n \<Rightarrow> 0 \<le> n)"

definition percentage :: "rat option \<Rightarrow> bool" where
  "percentage x = (case x of None \<Rightarrow> True | Some n \<Rightarrow> 0 \<le> n \<and> n \<le> 100)"

definition register_request_valid :: "RegisterRequest \<Rightarrow> bool" where
  "register_request_valid q \<longleftrightarrow>
     code_points (rg_server_code q) \<le> 64 \<and> 1 \<le> code_points (rg_token q) \<and>
     code_points (rg_hostname q) \<le> 128 \<and> max_length 128 (rg_os_name q) \<and>
     max_length 128 (rg_os_version q) \<and> max_length 128 (rg_kernel_version q) \<and>
     max_length 32 (rg_architecture q) \<and> max_length 255 (rg_cpu_model q) \<and>
     at_least_zero (rg_cpu_cores q) \<and> at_least_zero (rg_memory_total_bytes q) \<and>
     at_least_zero (rg_disk_total_bytes q) \<and> max_length 32 (rg_agent_version q) \<and>
     max_length 128 (rg_signing_public_key q)"

record SigningKeyRequest =
  sk_signing_public_key :: string

definition signing_key_request_valid :: "SigningKeyRequest \<Rightarrow> bool" where
  "signing_key_request_valid q \<longleftrightarrow>
     1 \<le> code_points (sk_signing_public_key q) \<and> code_points (sk_signing_public_key q) \<le> 128"

record HeartbeatRequest =
  hr_server_id :: "ident option"
  hr_agent_version :: "string option"
  hr_timestamp :: "wire_time option"

definition heartbeat_request_valid :: "HeartbeatRequest \<Rightarrow> bool" where
  "heartbeat_request_valid q \<longleftrightarrow> max_length 32 (hr_agent_version q)"

record MetricsRequest =
  mr_server_id :: "ident option"
  mr_timestamp :: wire_time
  mr_cpu_usage :: "rat option"
  mr_memory_usage :: "rat option"
  mr_memory_used_bytes :: "int option"
  mr_disk_usage :: "rat option"
  mr_network_in_bytes :: "int option"
  mr_network_out_bytes :: "int option"
  mr_load_1m :: "rat option"
  mr_load_5m :: "rat option"
  mr_load_15m :: "rat option"
  mr_tcp_connections :: "int option"
  mr_uptime_seconds :: "int option"

definition metrics_request_valid :: "MetricsRequest \<Rightarrow> bool" where
  "metrics_request_valid q \<longleftrightarrow>
     percentage (mr_cpu_usage q) \<and> percentage (mr_memory_usage q) \<and>
     at_least_zero (mr_memory_used_bytes q) \<and> percentage (mr_disk_usage q) \<and>
     at_least_zero (mr_network_in_bytes q) \<and> at_least_zero (mr_network_out_bytes q) \<and>
     at_least_zero (mr_load_1m q) \<and> at_least_zero (mr_load_5m q) \<and> at_least_zero (mr_load_15m q) \<and>
     at_least_zero (mr_tcp_connections q) \<and> at_least_zero (mr_uptime_seconds q)"

record DiskAsset =
  da_device_name :: string
  da_mount_point :: "string option"
  da_filesystem :: "string option"
  da_total_bytes :: "int option"

record NetworkAsset =
  na_interface_name :: string
  na_mac_address :: "string option"
  na_ip_address :: "string option"

record AssetsRequest =
  as_server_id :: "ident option"
  as_timestamp :: "wire_time option"
  as_disks :: "DiskAsset list"
  as_networks :: "NetworkAsset list"

definition assets_request_valid :: "AssetsRequest \<Rightarrow> bool" where
  "assets_request_valid q \<longleftrightarrow>
     list_all (\<lambda>k. code_points (da_device_name k) \<le> 128 \<and> max_length 255 (da_mount_point k) \<and>
       max_length 64 (da_filesystem k) \<and> at_least_zero (da_total_bytes k)) (as_disks q) \<and>
     list_all (\<lambda>n. code_points (na_interface_name n) \<le> 128 \<and> max_length 64 (na_mac_address n) \<and>
       max_length 64 (na_ip_address n)) (as_networks q)"

record ServiceStatus =
  st_service_name :: string
  st_current_status :: string

record ServicesRequest =
  sr_server_id :: "ident option"
  sr_timestamp :: "wire_time option"
  sr_services :: "ServiceStatus list"

definition services_request_valid :: "ServicesRequest \<Rightarrow> bool" where
  "services_request_valid q \<longleftrightarrow> list_all (\<lambda>s. code_points (st_service_name s) \<le> 64) (sr_services q)"

section \<open>The service\<close>

definition assert_server_match :: "OpsServer \<Rightarrow> ident option \<Rightarrow> unit result" where
  "assert_server_match server server_id =
     (if server_id \<noteq> None \<and> server_id \<noteq> Some (sv_id server)
      then Inl (AppException AGENT_UNAUTHORIZED 401) else Inr ())"

fun normalize_utc :: "wire_time \<Rightarrow> datetime" where
  "normalize_utc (Naive t) = t"
| "normalize_utc (Aware t offset) = t - offset"

definition validate_timestamp :: "datetime \<Rightarrow> wire_time \<Rightarrow> datetime result" where
  "validate_timestamp now collected_at =
     (let normalized = normalize_utc collected_at
      in if \<bar>now - normalized\<bar> > timedelta_seconds MAX_TIME_SKEW_SECONDS
         then Inl (AppException INVALID_TIMESTAMP 400) else Inr normalized)"

definition register_fields :: "RegisterRequest \<Rightarrow> system_info" where
  "register_fields data = \<lparr>
     si_hostname = Some (rg_hostname data), si_os_name = rg_os_name data,
     si_os_version = rg_os_version data, si_kernel_version = rg_kernel_version data,
     si_architecture = rg_architecture data, si_cpu_model = rg_cpu_model data,
     si_cpu_cores = rg_cpu_cores data, si_memory_total_bytes = rg_memory_total_bytes data,
     si_disk_total_bytes = rg_disk_total_bytes data, si_agent_version = rg_agent_version data\<rparr>"

definition store_key :: "datetime \<Rightarrow> ident \<Rightarrow> string \<Rightarrow> db \<Rightarrow> db" where
  "store_key now k public_key d =
     set_token k (\<lambda>t. t\<lparr>at_signing_public_key := Some public_key,
       at_signing_algorithm := Some ''ed25519'', at_key_registered_at := Some now\<rparr>) d"

definition register_key ::
  "'pk crypto \<Rightarrow> datetime \<Rightarrow> OpsAgentToken \<Rightarrow> string option \<Rightarrow> db \<Rightarrow> db" where
  "register_key cr now token signing_public_key d =
     (if truthy signing_public_key \<and> is_valid_public_key cr (the signing_public_key) \<and>
         signing_public_key \<noteq> at_signing_public_key token
      then store_key now (at_id token) (the signing_public_key) d else d)"

text \<open>The address is written with the flush of the heartbeat row, hence the check of its key there.\<close>

definition register ::
  "'pk crypto \<Rightarrow> datetime \<Rightarrow> RegisterRequest \<Rightarrow> string option \<Rightarrow> db \<Rightarrow> ((ident \<times> agent_state) \<times> db) result" where
  "register cr now data ip d =
     (case authenticate (sha256_hex cr) now d (rg_token data) of
        None \<Rightarrow> Inl (AppException AGENT_UNAUTHORIZED 401)
      | Some token \<Rightarrow> (case server_get d (at_server_id token) of
        None \<Rightarrow> Inl (AppException SERVER_NOT_FOUND 404)
      | Some server \<Rightarrow>
          if sv_status server \<noteq> 1 then Inl (AppException SERVER_NOT_FOUND 404)
          else if sv_server_code server \<noteq> rg_server_code data then Inl (AppException AGENT_UNAUTHORIZED 401)
          else
            bindE (flush_server (set_server (sv_id server)
                (\<lambda>s. if truthy ip then s\<lparr>sv_ip_address := the ip\<rparr> else s)
                (register_server now (sv_id server) (register_fields data) d))) (\<lambda>d1.
            let d2 = heartbeat_record now (sv_id server) (rg_agent_version data) ip None d1;
                d3 = register_key cr now token (rg_signing_public_key data) d2
            in Inr ((sv_id server, ONLINE), update_last_used now (at_id token) d3))))"

definition rotate_signing_key ::
  "'pk crypto \<Rightarrow> datetime \<Rightarrow> OpsAgentToken \<Rightarrow> string \<Rightarrow> db \<Rightarrow> (unit \<times> db) result" where
  "rotate_signing_key cr now token public_key d =
     (if \<not> is_valid_public_key cr public_key then Inl (AppException BAD_REQUEST 400)
      else Inr ((), store_key now (at_id token) public_key d))"

definition heartbeat ::
  "datetime \<Rightarrow> OpsServer \<Rightarrow> HeartbeatRequest \<Rightarrow> string option \<Rightarrow> db \<Rightarrow> ((ident \<times> datetime) \<times> db) result" where
  "heartbeat now server data ip d =
     bindE (assert_server_match server (hr_server_id data)) (\<lambda>_.
     bindE (update_last_heartbeat now (sv_id server) ip (hr_agent_version data) d) (\<lambda>d1.
     Inr ((sv_id server, now),
       heartbeat_record now (sv_id server) (hr_agent_version data) ip
         (Some (case hr_timestamp data of None \<Rightarrow> now | Some t \<Rightarrow> normalize_utc t)) d1)))"

definition metric_row :: "OpsServer \<Rightarrow> datetime \<Rightarrow> MetricsRequest \<Rightarrow> ident \<Rightarrow> MonitorServerMetric" where
  "metric_row server collected_at data k = \<lparr>
     mt_id = k, mt_server_id = sv_id server, mt_collected_at = collected_at,
     mt_cpu_usage = mr_cpu_usage data, mt_memory_usage = mr_memory_usage data,
     mt_memory_used_bytes = mr_memory_used_bytes data, mt_disk_usage = mr_disk_usage data,
     mt_network_in_bytes = mr_network_in_bytes data, mt_network_out_bytes = mr_network_out_bytes data,
     mt_load_1m = mr_load_1m data, mt_load_5m = mr_load_5m data, mt_load_15m = mr_load_15m data,
     mt_tcp_connections = mr_tcp_connections data, mt_uptime_seconds = mr_uptime_seconds data\<rparr>"

definition metric_record :: "(ident \<Rightarrow> MonitorServerMetric) \<Rightarrow> db \<Rightarrow> db" where
  "metric_record metric d = d\<lparr>monitor_server_metric := repo_create metric (monitor_server_metric d)\<rparr>"

definition ingest_metrics ::
  "datetime \<Rightarrow> OpsServer \<Rightarrow> MetricsRequest \<Rightarrow> db \<Rightarrow> ((ident \<times> datetime) \<times> db) result" where
  "ingest_metrics now server data d =
     bindE (assert_server_match server (mr_server_id data)) (\<lambda>_.
     bindE (validate_timestamp now (mr_timestamp data)) (\<lambda>collected_at.
     Inr ((sv_id server, now), metric_record (metric_row server collected_at data) d)))"

definition upsert_disk :: "ident \<Rightarrow> DiskAsset \<Rightarrow> db \<Rightarrow> db" where
  "upsert_disk server_id k d =
     disk_upsert server_id (da_device_name k) (da_mount_point k) (da_filesystem k) (da_total_bytes k) d"

definition upsert_network :: "ident \<Rightarrow> NetworkAsset \<Rightarrow> db \<Rightarrow> db" where
  "upsert_network server_id n d =
     network_upsert server_id (na_interface_name n) (na_mac_address n) (na_ip_address n) d"

definition sync_assets ::
  "datetime \<Rightarrow> OpsServer \<Rightarrow> AssetsRequest \<Rightarrow> db \<Rightarrow> ((ident \<times> datetime) \<times> db) result" where
  "sync_assets now server data d =
     bindE (assert_server_match server (as_server_id data)) (\<lambda>_.
     let d1 = fold (upsert_disk (sv_id server)) (as_disks data) d;
         disk_keys = map (\<lambda>k. (da_device_name k, da_mount_point k)) (as_disks data);
         d2 = disk_delete_missing (sv_id server) disk_keys d1;
         network_keys = map na_interface_name (as_networks data);
         d3 = fold (upsert_network (sv_id server)) (as_networks data) d2
     in Inr ((sv_id server, now), network_delete_missing (sv_id server) network_keys d3))"

definition sync_services ::
  "datetime \<Rightarrow> OpsServer \<Rightarrow> ServicesRequest \<Rightarrow> db \<Rightarrow> ((ident \<times> datetime) \<times> db) result" where
  "sync_services now server data d =
     bindE (assert_server_match server (sr_server_id data)) (\<lambda>_.
     Inr ((sv_id server, now),
       fold (\<lambda>item. upsert_status now (sv_id server) (st_service_name item) (st_current_status item))
         (sr_services data) d))"

section \<open>The asset tables as maps\<close>

text \<open>
  What a report does to the stored values of an asset: an empty file system or address and a missing
  size keep the old value. A service keeps its whitelist flag; one that was not known enters the
  table whitelisted.
\<close>

fun merge_disk :: "ident \<times> DiskAsset \<Rightarrow> (string option \<times> int option) option \<Rightarrow> string option \<times> int option" where
  "merge_disk (_, k) None = (da_filesystem k, da_total_bytes k)"
| "merge_disk (_, k) (Some (fs, n)) = (py_or (da_filesystem k) fs, keep (da_total_bytes k) n)"

fun merge_network :: "ident \<times> NetworkAsset \<Rightarrow> (string option \<times> string option) option \<Rightarrow> string option \<times> string option" where
  "merge_network (_, n) None = (na_mac_address n, na_ip_address n)"
| "merge_network (_, n) (Some (mac, ip)) = (py_or (na_mac_address n) mac, py_or (na_ip_address n) ip)"

fun merge_service ::
  "(datetime \<times> ident) \<times> ServiceStatus \<Rightarrow> (string option \<times> datetime option \<times> int) option \<Rightarrow>
   string option \<times> datetime option \<times> int" where
  "merge_service ((now, _), s) None = (Some (st_current_status s), Some now, 1)"
| "merge_service ((now, _), s) (Some (_, _, whitelisted)) = (Some (st_current_status s), Some now, whitelisted)"

definition change_disk :: "ident \<times> DiskAsset \<Rightarrow> OpsServerDisk \<Rightarrow> OpsServerDisk" where
  "change_disk a r = r\<lparr>dk_filesystem := py_or (da_filesystem (snd a)) (dk_filesystem r),
     dk_total_bytes := keep (da_total_bytes (snd a)) (dk_total_bytes r)\<rparr>"

definition new_disk :: "ident \<times> DiskAsset \<Rightarrow> ident \<Rightarrow> OpsServerDisk" where
  "new_disk a k = \<lparr>dk_id = k, dk_server_id = fst a, dk_device_name = da_device_name (snd a),
     dk_mount_point = da_mount_point (snd a), dk_filesystem = da_filesystem (snd a),
     dk_total_bytes = da_total_bytes (snd a), dk_status = 1\<rparr>"

definition change_network :: "ident \<times> NetworkAsset \<Rightarrow> OpsServerNetwork \<Rightarrow> OpsServerNetwork" where
  "change_network a r = r\<lparr>nw_mac_address := py_or (na_mac_address (snd a)) (nw_mac_address r),
     nw_ip_address := py_or (na_ip_address (snd a)) (nw_ip_address r)\<rparr>"

definition new_network :: "ident \<times> NetworkAsset \<Rightarrow> ident \<Rightarrow> OpsServerNetwork" where
  "new_network a k = \<lparr>nw_id = k, nw_server_id = fst a, nw_interface_name = na_interface_name (snd a),
     nw_mac_address = na_mac_address (snd a), nw_ip_address = na_ip_address (snd a), nw_status = 1\<rparr>"

definition change_service :: "(datetime \<times> ident) \<times> ServiceStatus \<Rightarrow> OpsServerService \<Rightarrow> OpsServerService" where
  "change_service a r = r\<lparr>ss_current_status := Some (st_current_status (snd a)),
     ss_last_checked_at := Some (fst (fst a))\<rparr>"

definition new_service :: "(datetime \<times> ident) \<times> ServiceStatus \<Rightarrow> ident \<Rightarrow> OpsServerService" where
  "new_service a k = \<lparr>ss_id = k, ss_server_id = snd (fst a), ss_service_name = st_service_name (snd a),
     ss_display_name = Some (st_service_name (snd a)), ss_service_type = ''SYSTEMD'',
     ss_is_whitelisted = 1, ss_is_critical = 0, ss_current_status = Some (st_current_status (snd a)),
     ss_last_checked_at = Some (fst (fst a)), ss_status = 1\<rparr>"

definition service_key :: "OpsServerService \<Rightarrow> ident \<times> string" where
  "service_key s = (ss_server_id s, ss_service_name s)"

interpretation disk: upsert disk_key dk_id "\<lambda>r. (dk_filesystem r, dk_total_bytes r)" change_disk new_disk
  "\<lambda>a. (fst a, da_device_name (snd a), da_mount_point (snd a))" merge_disk
  by unfold_locales (auto simp: change_disk_def new_disk_def disk_key_def)

interpretation network: upsert network_key nw_id "\<lambda>r. (nw_mac_address r, nw_ip_address r)" change_network
  new_network "\<lambda>a. (fst a, na_interface_name (snd a))" merge_network
  by unfold_locales (auto simp: change_network_def new_network_def network_key_def)

interpretation known_service: upsert service_key ss_id
  "\<lambda>r. (ss_current_status r, ss_last_checked_at r, ss_is_whitelisted r)" change_service new_service
  "\<lambda>a. (snd (fst a), st_service_name (snd a))" merge_service
  by unfold_locales (auto simp: change_service_def new_service_def service_key_def)

lemma upsert_disk_put:
  "upsert_disk server_id k d = d\<lparr>ops_server_disk := disk.put (server_id, k) (ops_server_disk d)\<rparr>"
  unfolding upsert_disk_def disk_upsert_def disk.put_def upsert_row_def
  by (auto simp: change_disk_def [abs_def] new_disk_def [abs_def] repo_create_def split: option.splits)

lemma upsert_network_put:
  "upsert_network server_id n d = d\<lparr>ops_server_network := network.put (server_id, n) (ops_server_network d)\<rparr>"
  unfolding upsert_network_def network_upsert_def network.put_def upsert_row_def
  by (auto simp: change_network_def [abs_def] new_network_def [abs_def] repo_create_def split: option.splits)

lemma upsert_status_put:
  "upsert_status now server_id (st_service_name s) (st_current_status s) d =
     d\<lparr>ops_server_service := known_service.put ((now, server_id), s) (ops_server_service d)\<rparr>"
  unfolding upsert_status_def known_service.put_def upsert_row_def get_by_server_service_def repo_get_by_def
  by (auto simp: set_service_def repo_update_def change_service_def [abs_def] service_key_def
      new_service_def [abs_def] repo_create_def split: option.splits)

lemma fold_upsert_disk:
  "fold (upsert_disk sid) ks d = d\<lparr>ops_server_disk := fold disk.put (map (Pair sid) ks) (ops_server_disk d)\<rparr>"
  by (induction ks arbitrary: d) (simp_all add: upsert_disk_put)

lemma fold_upsert_network:
  "fold (upsert_network sid) ns d =
     d\<lparr>ops_server_network := fold network.put (map (Pair sid) ns) (ops_server_network d)\<rparr>"
  by (induction ns arbitrary: d) (simp_all add: upsert_network_put)

lemma fold_upsert_status:
  "fold (\<lambda>s. upsert_status now sid (st_service_name s) (st_current_status s)) ss d =
     d\<lparr>ops_server_service := fold known_service.put (map (Pair (now, sid)) ss) (ops_server_service d)\<rparr>"
  by (induction ss arbitrary: d) (simp_all add: upsert_status_put)

end
