(* ===== verification/Agent_Api.thy ===== *)
theory Agent_Api
  imports Agent_Service Task_Service
begin

text \<open>
  The endpoints of the agents (\<open>backend/app/api/v1/agent.py\<close>): authentication, validation of the
  body, the operation of the service. The download of its package is in
  \<open>Agent_Package\<close>, the router with the JSON of the answers in \<open>Closed_Loop\<close> and \<open>Lifecycle\<close>.
\<close>

section \<open>The endpoints\<close>

text \<open>
  An endpoint resolves its dependencies first, then validates its body, then calls the service.
  The response is the value or the exception; the database is the new one or, after a roll-back,
  the old one; what the authentication wrote into the replay cache stays in either case.
  \<open>parse\<close> is the reading of the JSON body.
\<close>

type_synonym ('a, 'r) response = "'a result \<times> db \<times> 'r"

definition run_service :: "('a \<times> db) result \<Rightarrow> db \<Rightarrow> 'r \<Rightarrow> ('a, 'r) response" where
  "run_service outcome d r =
     (case outcome of Inl e \<Rightarrow> (Inl e, d, r) | Inr (x, d') \<Rightarrow> (Inr x, d', r))"

definition agent_endpoint ::
  "(http_request \<Rightarrow> db \<Rightarrow> 'r \<Rightarrow> ('s \<times> 'r) result) \<Rightarrow> (string \<Rightarrow> 'q option) \<Rightarrow> ('q \<Rightarrow> bool) \<Rightarrow>
   ('s \<Rightarrow> 'q \<Rightarrow> db \<Rightarrow> ('a \<times> db) result) \<Rightarrow> http_request \<Rightarrow> db \<Rightarrow> 'r \<Rightarrow> ('a, 'r) response" where
  "agent_endpoint dependency parse valid service request d r =
     (case dependency request d r of
        Inl e \<Rightarrow> (Inl e, d, r)
      | Inr (subject, r') \<Rightarrow>
          (case parse (rq_body request) of
             None \<Rightarrow> (Inl RequestValidationError, d, r')
           | Some data \<Rightarrow>
               if \<not> valid data then (Inl RequestValidationError, d, r')
               else run_service (service subject data d) d r'))"

definition post_register ::
  "'pk crypto \<Rightarrow> datetime \<Rightarrow> (string \<Rightarrow> RegisterRequest option) \<Rightarrow> string option \<Rightarrow> http_request \<Rightarrow> db \<Rightarrow> 'r \<Rightarrow>
   (ident \<times> agent_state, 'r) response" where
  "post_register cr now parse ip =
     agent_endpoint (\<lambda>_ _ r. Inr ((), r)) parse register_request_valid (\<lambda>_ data. register cr now data ip)"

definition post_signing_key where
  "post_signing_key cr set_nx cfg now parse =
     agent_endpoint (get_agent_token cr set_nx cfg now) parse signing_key_request_valid
       (\<lambda>token data. rotate_signing_key cr now token (sk_signing_public_key data))"

definition post_heartbeat where
  "post_heartbeat cr set_nx cfg now parse ip =
     agent_endpoint (get_agent_server cr set_nx cfg now) parse heartbeat_request_valid
       (\<lambda>server data. heartbeat now server data ip)"

definition post_metrics where
  "post_metrics cr set_nx cfg now parse =
     agent_endpoint (get_agent_server cr set_nx cfg now) parse metrics_request_valid (ingest_metrics now)"

definition post_assets where
  "post_assets cr set_nx cfg now parse =
     agent_endpoint (get_agent_server cr set_nx cfg now) parse assets_request_valid (sync_assets now)"

definition post_services where
  "post_services cr set_nx cfg now parse =
     agent_endpoint (get_agent_server cr set_nx cfg now) parse services_request_valid (sync_services now)"

text \<open>\<open>GET /agent/tasks/pending\<close> has no body to read.\<close>

definition get_tasks_pending where
  "get_tasks_pending cr set_nx cfg now =
     agent_endpoint (get_agent_server cr set_nx cfg now) (\<lambda>_. Some ()) (\<lambda>_. True)
       (\<lambda>server _ d. Inr (fetch_pending now (sv_id server) d))"

definition post_task_result where
  "post_task_result cr set_nx cfg now parse =
     agent_endpoint (get_agent_server cr set_nx cfg now) parse (\<lambda>_. True)
       (\<lambda>server (data :: TaskResultRequest) d. map_sum id (Pair ()) (report_result now (sv_id server) data d))"

end
