(* ===== verification/Agent_Signer.thy ===== *)
theory Agent_Signer
  imports Signing
begin

text \<open>
  The signer of the agent (\<open>agent/signer.py\<close>). The key pair is of the package cryptography: the
  signature of a private key and the raw bytes of its public key are parameters, as are the
  request id of \<open>uuid4\<close> and the clock. The private key is read from its file or created there by
  \<open>load_or_create_signer\<close>; the content of the file is the key itself.
\<close>

record 'sk key_pair_ops =
  public_bytes :: "'sk \<Rightarrow> string"
  ed25519_sign :: "'sk \<Rightarrow> string \<Rightarrow> string"
  agent_sha256_hex :: "string \<Rightarrow> string"

record 'sk AgentSigner =
  as_private_key :: 'sk
  as_server_code :: string

record signed_headers =
  X_Agent_Id :: string
  X_Timestamp :: string
  X_Request_Id :: string
  X_Signature :: string

definition public_key_b64 :: "'sk key_pair_ops \<Rightarrow> 'sk AgentSigner \<Rightarrow> string" where
  "public_key_b64 ops signer = b64encode (public_bytes ops (as_private_key signer))"

definition sign_headers ::
  "'sk key_pair_ops \<Rightarrow> datetime \<Rightarrow> string \<Rightarrow> 'sk AgentSigner \<Rightarrow> string \<Rightarrow> string \<Rightarrow> string \<Rightarrow> signed_headers" where
  "sign_headers ops now uuid signer method path body =
     (let timestamp = py_str (int_trunc_div now 1000000);
          request_id = uuid;
          canonical = upper method @ ''\<newline>'' @ path @ ''\<newline>'' @ timestamp @ ''\<newline>'' @ request_id @ ''\<newline>'' @
            agent_sha256_hex ops body;
          signature = ed25519_sign ops (as_private_key signer) canonical
      in \<lparr>X_Agent_Id = as_server_code signer, X_Timestamp = timestamp, X_Request_Id = request_id,
          X_Signature = b64encode signature\<rparr>)"

text \<open>
  \<open>load_or_create_signer\<close>: the file holds a private key of some kind. \<open>is_ed25519\<close> tells whether it is
  of the right one; otherwise a \<open>ValueError\<close>. A fresh key is written when there is no file.
\<close>

definition load_or_create_signer ::
  "('sk \<Rightarrow> bool) \<Rightarrow> 'sk \<Rightarrow> string \<Rightarrow> 'sk option \<Rightarrow> ('sk AgentSigner \<times> 'sk option) result" where
  "load_or_create_signer is_ed25519 generated server_code key_file =
     (case key_file of
        Some private_key \<Rightarrow>
          if \<not> is_ed25519 private_key then Inl ValueError
          else Inr (\<lparr>as_private_key = private_key, as_server_code = server_code\<rparr>, key_file)
      | None \<Rightarrow> Inr (\<lparr>as_private_key = generated, as_server_code = server_code\<rparr>, Some generated))"

end
