(* ===== verification/Agent_Properties.thy ===== *)
theory Agent_Properties
  imports Agent_Api Agent_Signer Samples Sweep
begin

text \<open>
  What the authentication of agents and the agent protocol guarantee: who is let in, that a signed
  request is let in once, that the agent's own signer satisfies the check, and what a heartbeat
  and a synchronisation of assets leave in the database.
\<close>

section \<open>Authentication\<close>

text \<open>The part of the check that concerns the signature, as a condition on the request.\<close>

definition headers_complete :: "http_request \<Rightarrow> bool" where
  "headers_complete q \<longleftrightarrow> rq_agent_id q \<noteq> None \<and> rq_timestamp q \<noteq> None \<and> rq_request_id q \<noteq> None \<and> rq_signature q \<noteq> None"

definition in_window :: "settings \<Rightarrow> datetime \<Rightarrow> http_request \<Rightarrow> bool" where
  "in_window cfg now q \<longleftrightarrow> (case py_int (the (rq_timestamp q)) of None \<Rightarrow> False
     | Some stamp \<Rightarrow> \<bar>unix_seconds now - stamp\<bar> \<le> AGENT_SIGNATURE_MAX_SKEW cfg)"

definition signature_ok :: "'pk crypto \<Rightarrow> http_request \<Rightarrow> string \<Rightarrow> bool" where
  "signature_ok cr q key \<longleftrightarrow> verify_signature cr key (the (rq_signature q))
     (canonical_string cr (rq_method q) (rq_path q) (the (rq_timestamp q)) (the (rq_request_id q)) (rq_body q))"

definition usable_token :: "'pk crypto \<Rightarrow> datetime \<Rightarrow> db \<Rightarrow> string \<Rightarrow> OpsAgentToken \<Rightarrow> bool" where
  "usable_token cr now d token t \<longleftrightarrow>
     get_by_token_hash d (sha256_hex cr token) = Some t \<and> at_status t = 1 \<and>
     (\<forall>x. at_expires_at t = Some x \<longrightarrow> now \<le> x) \<and> at_revoked_at t = None"

lemma authenticate_Some: "authenticate (sha256_hex cr) now d token = Some t \<longleftrightarrow> usable_token cr now d token t"
  by (auto simp: authenticate_def usable_token_def not_less split: option.splits)

lemma verify_agent_signature_Inr:
  "verify_agent_signature cr set_nx cfg now q t s r = Inr r' \<longleftrightarrow>
     (if headers_complete q then
        the (rq_agent_id q) = sv_server_code s \<and> in_window cfg now q \<and>
        (if truthy (at_signing_public_key t) then
           signature_ok cr q (the (at_signing_public_key t)) \<and>
           check_replay set_nx cfg now (sv_id s) (the (rq_request_id q)) r = Inr r'
         else \<not> AGENT_REQUIRE_SIGNATURE cfg \<and> r' = r)
      else \<not> AGENT_REQUIRE_SIGNATURE cfg \<and> r' = r)"
  by (auto simp: verify_agent_signature_def headers_complete_def in_window_def signature_ok_def not_less
      split: option.splits)

lemma resolve_agent_Inr:
  "resolve_agent cr set_nx cfg now q token d r = Inr ((t, s), r') \<longleftrightarrow>
     usable_token cr now d token t \<and> server_get d (at_server_id t) = Some s \<and> sv_status s = 1 \<and>
     verify_agent_signature cr set_nx cfg now q t s r = Inr r'"
proof (cases "authenticate (sha256_hex cr) now d token")
  case None
  then have "\<not> usable_token cr now d token t" by (simp flip: authenticate_Some)
  with None show ?thesis by (simp add: resolve_agent_def)
next
  case (Some u)
  then have "usable_token cr now d token t \<longleftrightarrow> t = u" by (auto simp flip: authenticate_Some)
  with Some show ?thesis by (auto simp: resolve_agent_def bindE_eq_Inr split: option.splits)
qed

text \<open>
  C16. Who is let in: a request resolves to a token and a server exactly when the bearer token is
  known, active, not expired and not revoked, the server it is bound to exists and is active, and
  the signature passes. A request with all four headers passes when it names that server, its time
  stamp is inside the window, and either a key is registered, the signature of the canonical string
  verifies under it and the replay check passes, or no key is registered and signatures are
  optional. A request that lacks a header passes only while signatures are optional.
\<close>

theorem agent_authentication_spec:
  "get_agent_server cr set_nx cfg now q d r = Inr (s, r') \<longleftrightarrow>
     (\<exists>token t. rq_bearer q = Some token \<and> usable_token cr now d token t \<and>
       server_get d (at_server_id t) = Some s \<and> sv_status s = 1 \<and>
       (if headers_complete q then
          the (rq_agent_id q) = sv_server_code s \<and> in_window cfg now q \<and>
          (if truthy (at_signing_public_key t) then
             signature_ok cr q (the (at_signing_public_key t)) \<and>
             check_replay set_nx cfg now (sv_id s) (the (rq_request_id q)) r = Inr r'
           else \<not> AGENT_REQUIRE_SIGNATURE cfg \<and> r' = r)
        else \<not> AGENT_REQUIRE_SIGNATURE cfg \<and> r' = r))"
  by (auto simp: get_agent_server_def oauth2_scheme_def bindE_eq_Inr resolve_agent_Inr
      verify_agent_signature_Inr split: option.splits)

section \<open>Replay\<close>

text \<open>The requests that reach the backend, each with its time and the database it meets.\<close>

type_synonym arrival = "datetime \<times> db \<times> http_request"

definition admit ::
  "'pk crypto \<Rightarrow> 'r set_nx_ex \<Rightarrow> settings \<Rightarrow> arrival \<Rightarrow> 'r \<Rightarrow> OpsServer result \<times> 'r" where
  "admit cr set_nx cfg a r =
     (case a of (now, d, q) \<Rightarrow>
        (case get_agent_server cr set_nx cfg now q d r of Inl e \<Rightarrow> (Inl e, r) | Inr (s, r') \<Rightarrow> (Inr s, r')))"

definition cache_after :: "'pk crypto \<Rightarrow> 'r set_nx_ex \<Rightarrow> settings \<Rightarrow> arrival list \<Rightarrow> 'r \<Rightarrow> 'r" where
  "cache_after cr set_nx cfg as r = fold (\<lambda>a r. snd (admit cr set_nx cfg a r)) as r"

text \<open>The server the \<open>i\<close>-th request of a run is admitted for, if it is.\<close>

definition admitted ::
  "'pk crypto \<Rightarrow> 'r set_nx_ex \<Rightarrow> settings \<Rightarrow> arrival list \<Rightarrow> 'r \<Rightarrow> nat \<Rightarrow> OpsServer result" where
  "admitted cr set_nx cfg as r i =
     fst (admit cr set_nx cfg (as ! i) (cache_after cr set_nx cfg (take i as) r))"

lemma admit_signed:
  assumes "AGENT_REQUIRE_SIGNATURE cfg" and "admit cr set_nx cfg (now, d, q) r = (Inr s, r')"
  shows "headers_complete q" "in_window cfg now q"
    "is_replayed set_nx now (sv_id s) (the (rq_request_id q)) (AGENT_SIGNATURE_MAX_SKEW cfg * 2) r = Some (False, r')"
proof -
  from assms(2) have "get_agent_server cr set_nx cfg now q d r = Inr (s, r')"
    by (auto simp: admit_def split: sum.splits prod.splits)
  with assms(1) show "headers_complete q" "in_window cfg now q"
    "is_replayed set_nx now (sv_id s) (the (rq_request_id q)) (AGENT_SIGNATURE_MAX_SKEW cfg * 2) r = Some (False, r')"
    by (auto simp: get_agent_server_def oauth2_scheme_def bindE_eq_Inr resolve_agent_Inr
        verify_agent_signature_Inr check_replay_def split: option.splits if_splits prod.splits bool.splits)
qed

lemma in_window_skew: "in_window cfg now q \<Longrightarrow> 0 \<le> AGENT_SIGNATURE_MAX_SKEW cfg"
  by (auto simp: in_window_def split: option.splits)

lemma is_replayed_Some:
  assumes "redis_contract set_nx expires" and "is_replayed set_nx now k rid ttl r = Some (b, r')"
  shows "b = alive expires now (replay_key k rid) r"
    "expires r' = (if b then expires r else (expires r)(replay_key k rid := Some (now + timedelta_seconds ttl)))"
proof -
  from assms(2) have "set_nx now (replay_key k rid) ttl r = Some (\<not> b, r')"
    by (auto simp: is_replayed_def split: option.splits)
  with assms(1) have l: "(\<not> b) = (\<not> alive expires now (replay_key k rid) r)"
    "expires r' = (if alive expires now (replay_key k rid) r then expires r
       else (expires r)(replay_key k rid := Some (now + timedelta_seconds ttl)))"
    unfolding redis_contract_def by blast+
  from l(1) show "b = alive expires now (replay_key k rid) r" by blast
  with l(2) show "expires r' = (if b then expires r else (expires r)(replay_key k rid := Some (now + timedelta_seconds ttl)))"
    by simp
qed

text \<open>An entry of the cache is only ever replaced by one that expires later.\<close>

lemma admit_keeps_entry:
  assumes "redis_contract set_nx expires" and "AGENT_REQUIRE_SIGNATURE cfg"
    and "expires r key = Some x"
  shows "\<exists>y \<ge> x. expires (snd (admit cr set_nx cfg a r)) key = Some y"
proof -
  obtain now d q where a: "a = (now, d, q)" by (cases a)
  show ?thesis
  proof (cases "admit cr set_nx cfg a r")
    case (Pair res r')
    show ?thesis
    proof (cases res)
      case (Inl e)
      with Pair have "r' = r" by (auto simp: admit_def a split: sum.splits prod.splits)
      with Pair assms(3) show ?thesis by auto
    next
      case (Inr s)
      with Pair a have adm: "admit cr set_nx cfg (now, d, q) r = (Inr s, r')" by simp
      note sgn = admit_signed [OF assms(2) adm]
      have skew: "0 \<le> AGENT_SIGNATURE_MAX_SKEW cfg" by (rule in_window_skew [OF sgn(2)])
      from is_replayed_Some [OF assms(1) sgn(3)] have
        fresh: "\<not> alive expires now (replay_key (sv_id s) (the (rq_request_id q))) r" and
        e: "expires r' = (expires r)(replay_key (sv_id s) (the (rq_request_id q)) :=
              Some (now + timedelta_seconds (AGENT_SIGNATURE_MAX_SKEW cfg * 2)))" by auto
      show ?thesis
      proof (cases "key = replay_key (sv_id s) (the (rq_request_id q))")
        case True
        with fresh assms(3) have "x \<le> now" by (simp add: alive_def)
        moreover have "0 \<le> timedelta_seconds (AGENT_SIGNATURE_MAX_SKEW cfg * 2)" using skew by simp
        ultimately show ?thesis using True e Pair by (simp del: timedelta_seconds_nonneg)
      next
        case False
        with e assms(3) Pair show ?thesis by auto
      qed
    qed
  qed
qed

lemma cache_keeps_entry:
  assumes "redis_contract set_nx expires" and "AGENT_REQUIRE_SIGNATURE cfg"
    and "\<exists>y \<ge> x. expires r key = Some y"
  shows "\<exists>y \<ge> x. expires (cache_after cr set_nx cfg as r) key = Some y"
  using assms(3)
proof (induction as arbitrary: r)
  case Nil
  then show ?case by (simp add: cache_after_def)
next
  case (Cons a as)
  then obtain y where y: "y \<ge> x" "expires r key = Some y" by blast
  from admit_keeps_entry [where a = a and cr = cr, OF assms(1,2) y(2)] obtain z where
    "z \<ge> y" "expires (snd (admit cr set_nx cfg a r)) key = Some z" by blast
  with y(1) have "\<exists>y \<ge> x. expires (snd (admit cr set_nx cfg a r)) key = Some y" by (intro exI [of _ z]) simp
  from Cons.IH [OF this] show ?case by (simp add: cache_after_def)
qed

lemma cache_after_split:
  assumes "i < j" and "j < length as"
  shows "cache_after cr set_nx cfg (take j as) r =
    cache_after cr set_nx cfg (drop (Suc i) (take j as))
      (snd (admit cr set_nx cfg (as ! i) (cache_after cr set_nx cfg (take i as) r)))"
proof -
  have i: "i < length (take j as)" using assms by simp
  have "take i (take j as) = take i as" "take j as ! i = as ! i" using assms by (simp_all add: min_def)
  with id_take_nth_drop [OF i] have "take j as = take i as @ as ! i # drop (Suc i) (take j as)" by simp
  then have "cache_after cr set_nx cfg (take j as) r =
      cache_after cr set_nx cfg (take i as @ as ! i # drop (Suc i) (take j as)) r" by simp
  then show ?thesis by (simp add: cache_after_def)
qed

text \<open>
  C17. A signed request is admitted once: with signatures required, whatever requests arrive in
  between and whatever the database has become, two admitted requests for the same server with the
  same request id are at least twice the clock window apart, the life of a cache entry. When they
  carry the same time stamp, as a copy of a signed request does, that leaves one moment: the stamp
  was ahead of the clock by exactly the window when the first was admitted, and is behind it by
  exactly the window at the second.
\<close>

theorem no_replay:
  assumes "redis_contract set_nx expires" and "AGENT_REQUIRE_SIGNATURE cfg"
    and "i < j" and "j < length as"
    and "as ! i = (t1, d1, q1)" and "admitted cr set_nx cfg as r i = Inr s1"
    and "as ! j = (t2, d2, q2)" and "admitted cr set_nx cfg as r j = Inr s2"
    and "sv_id s1 = sv_id s2" and "rq_request_id q1 = rq_request_id q2"
  shows "t1 + timedelta_seconds (2 * AGENT_SIGNATURE_MAX_SKEW cfg) \<le> t2 \<and>
    (rq_timestamp q1 = rq_timestamp q2 \<and> 0 \<le> t1 \<longrightarrow>
       py_int (the (rq_timestamp q1)) = Some (unix_seconds t1 + AGENT_SIGNATURE_MAX_SKEW cfg) \<and>
       unix_seconds t2 = unix_seconds t1 + 2 * AGENT_SIGNATURE_MAX_SKEW cfg)"
proof -
  let ?skew = "AGENT_SIGNATURE_MAX_SKEW cfg"
  let ?ri = "cache_after cr set_nx cfg (take i as) r" and ?rj = "cache_after cr set_nx cfg (take j as) r"
  obtain r1 where a1: "admit cr set_nx cfg (t1, d1, q1) ?ri = (Inr s1, r1)"
    using assms(5,6) by (cases "admit cr set_nx cfg (as ! i) ?ri") (simp add: admitted_def)
  obtain r2 where a2: "admit cr set_nx cfg (t2, d2, q2) ?rj = (Inr s2, r2)"
    using assms(7,8) by (cases "admit cr set_nx cfg (as ! j) ?rj") (simp add: admitted_def)
  note g1 = admit_signed [OF assms(2) a1] and g2 = admit_signed [OF assms(2) a2]
  let ?key = "replay_key (sv_id s1) (the (rq_request_id q1))"
  from is_replayed_Some [OF assms(1) g1(3)]
  have "expires r1 ?key = Some (t1 + timedelta_seconds (?skew * 2))" by simp
  then have "\<exists>y \<ge> t1 + timedelta_seconds (?skew * 2). expires r1 ?key = Some y" by blast
  from cache_keeps_entry [where cr = cr and as = "drop (Suc i) (take j as)", OF assms(1,2) this]
  obtain y where y: "y \<ge> t1 + timedelta_seconds (?skew * 2)" "expires ?rj ?key = Some y"
    using cache_after_split [OF assms(3,4), of cr set_nx cfg r] a1 assms(5) by auto
  have "\<not> alive expires t2 ?key ?rj"
    using is_replayed_Some(1) [OF assms(1) g2(3)] assms(9,10) by simp
  with y have "t1 + timedelta_seconds (?skew * 2) \<le> t2" by (simp add: alive_def)
  then have apart: "t1 + timedelta_seconds (2 * ?skew) \<le> t2" by (simp add: mult.commute)
  have "py_int (the (rq_timestamp q1)) = Some (unix_seconds t1 + ?skew) \<and> unix_seconds t2 = unix_seconds t1 + 2 * ?skew"
    if same: "rq_timestamp q1 = rq_timestamp q2" and pos: "0 \<le> t1"
  proof -
    from g1(2) g2(2) same obtain p where p: "py_int (the (rq_timestamp q1)) = Some p"
      "\<bar>unix_seconds t1 - p\<bar> \<le> ?skew" "\<bar>unix_seconds t2 - p\<bar> \<le> ?skew"
      by (auto simp: in_window_def split: option.splits)
    have "0 \<le> ?skew" by (rule in_window_skew [OF g1(2)])
    then have "0 \<le> t2" using apart pos by (simp add: timedelta_seconds_def)
    then have u: "unix_seconds t1 = t1 div 1000000" "unix_seconds t2 = t2 div 1000000"
      using pos by (auto simp: unix_seconds_def int_trunc_div_def sgn_if)
    have "(t1 + 2 * ?skew * 1000000) div 1000000 \<le> t2 div 1000000"
      using apart by (intro zdiv_mono1) (simp_all add: timedelta_seconds_def)
    then have "unix_seconds t1 + 2 * ?skew \<le> unix_seconds t2" by (simp add: u)
    with p(2,3) have "p = unix_seconds t1 + ?skew" "unix_seconds t2 = unix_seconds t1 + 2 * ?skew" by linarith+
    with p(1) show ?thesis by simp
  qed
  with apart show ?thesis by blast
qed

end
