(* ===== verification/Agent_Protocol.thy ===== *)
theory Agent_Protocol
  imports Agent_Properties
begin

text \<open>
  The two sides of the agent protocol together: the headers of the agent's signer pass the check of
  the backend; what a heartbeat does to the state shown for a server; what a synchronisation leaves
  of its assets.
\<close>

section \<open>The signer meets the check\<close>

text \<open>The request the client of the agent sends with the headers of the signer.\<close>

definition signed_request :: "string \<Rightarrow> string \<Rightarrow> string \<Rightarrow> string \<Rightarrow> signed_headers \<Rightarrow> http_request" where
  "signed_request token method path body h = \<lparr>rq_method = method, rq_path = path, rq_body = body,
     rq_bearer = Some token, rq_agent_id = Some (X_Agent_Id h), rq_timestamp = Some (X_Timestamp h),
     rq_request_id = Some (X_Request_Id h), rq_signature = Some (X_Signature h)\<rparr>"

lemma b64encode_Nil: "b64encode raw = [] \<longleftrightarrow> raw = []"
  by (cases raw rule: b64encode.cases) simp_all

lemma signer_key_valid:
  "from_public_bytes cr (public_bytes ops (as_private_key signer)) = Some pk \<Longrightarrow>
   is_valid_public_key cr (public_key_b64 ops signer)"
  by (simp add: is_valid_public_key_def public_key_b64_def b64decode_b64encode)

lemma signer_signature_ok:
  assumes "\<And>m. ed25519_verify cr pk (ed25519_sign ops (as_private_key signer) m) m"
    and "from_public_bytes cr (public_bytes ops (as_private_key signer)) = Some pk"
    and "agent_sha256_hex ops = sha256_hex cr"
  shows "signature_ok cr (signed_request token method path body (sign_headers ops sent uuid signer method path body))
    (public_key_b64 ops signer)"
  using assms
  by (simp add: signature_ok_def signed_request_def sign_headers_def Let_def verify_signature_def
      public_key_b64_def b64decode_b64encode canonical_string_def body_sha256_def)

lemma signer_admitted:
  assumes keys: "\<And>m. ed25519_verify cr pk (ed25519_sign ops (as_private_key signer) m) m"
    "from_public_bytes cr (public_bytes ops (as_private_key signer)) = Some pk"
    "public_bytes ops (as_private_key signer) \<noteq> []" "agent_sha256_hex ops = sha256_hex cr"
    and token: "usable_token cr now d token t" "at_signing_public_key t = Some (public_key_b64 ops signer)"
    and server: "server_get d (at_server_id t) = Some s" "sv_status s = 1"
      "as_server_code signer = sv_server_code s"
    and clock: "0 \<le> sent" "sent < 10 ^ int_max_str_digits"
      "\<bar>unix_seconds now - unix_seconds sent\<bar> \<le> AGENT_SIGNATURE_MAX_SKEW cfg"
    and replay: "check_replay set_nx cfg now (sv_id s) uuid r = Inr r'"
  shows "get_agent_server cr set_nx cfg now
      (signed_request token method path body (sign_headers ops sent uuid signer method path body)) d r = Inr (s, r')"
proof -
  let ?q = "signed_request token method path body (sign_headers ops sent uuid signer method path body)"
  have sec: "unix_seconds sent = sent div 1000000"
    using clock(1) by (auto simp: unix_seconds_def int_trunc_div_def sgn_if)
  have "sent div 1000000 \<le> sent div 1" using clock(1) by (intro zdiv_mono2) simp_all
  then have "0 \<le> unix_seconds sent" "unix_seconds sent < 10 ^ int_max_str_digits"
    using clock(1,2) unfolding sec by (simp_all add: pos_imp_zdiv_nonneg_iff)
  then have "py_int (py_str (unix_seconds sent)) = Some (unix_seconds sent)" by (rule py_int_py_str)
  then have w: "in_window cfg now ?q"
    using clock(3) by (simp add: in_window_def signed_request_def sign_headers_def Let_def unix_seconds_def)
  have h: "headers_complete ?q" "the (rq_agent_id ?q) = sv_server_code s" "the (rq_request_id ?q) = uuid"
    "rq_bearer ?q = Some token"
    using server(3) by (simp_all add: headers_complete_def signed_request_def sign_headers_def Let_def)
  have "truthy (at_signing_public_key t)"
    using token(2) keys(3) by (simp add: public_key_b64_def b64encode_Nil)
  with h w token server(1,2) replay signer_signature_ok [OF keys(1,2,4)]
  show ?thesis
    by (auto simp: get_agent_server_def oauth2_scheme_def bindE_eq_Inr resolve_agent_Inr verify_agent_signature_Inr)
qed

text \<open>
  C18. The signer of the agent satisfies the check of the backend: its public key is one the
  registration accepts, and a request it signs at time \<open>sent\<close> is admitted at time \<open>now\<close> when the
  bearer token is usable, the token carries that key, the server code matches, the clocks differ by
  no more than the window and the replay check passes. The hypotheses on the keys are those of
  Ed25519: a public key can be read back from its raw bytes, a signature verifies under the public
  key of the key that made it, and both sides compute the same SHA-256.
\<close>

theorem agent_signer_is_admitted:
  assumes keys: "\<And>m. ed25519_verify cr pk (ed25519_sign ops (as_private_key signer) m) m"
    "from_public_bytes cr (public_bytes ops (as_private_key signer)) = Some pk"
    "public_bytes ops (as_private_key signer) \<noteq> []" "agent_sha256_hex ops = sha256_hex cr"
    and token: "usable_token cr now d token t" "at_signing_public_key t = Some (public_key_b64 ops signer)"
    and server: "server_get d (at_server_id t) = Some s" "sv_status s = 1"
      "as_server_code signer = sv_server_code s"
    and clock: "0 \<le> sent" "sent < 10 ^ int_max_str_digits"
      "\<bar>unix_seconds now - unix_seconds sent\<bar> \<le> AGENT_SIGNATURE_MAX_SKEW cfg"
    and replay: "check_replay set_nx cfg now (sv_id s) uuid r = Inr r'"
  shows "is_valid_public_key cr (public_key_b64 ops signer) \<and>
    get_agent_server cr set_nx cfg now
      (signed_request token method path body (sign_headers ops sent uuid signer method path body)) d r = Inr (s, r')"
  using signer_key_valid [OF keys(2)] signer_admitted [OF assms] by blast

section \<open>A concrete agent\<close>

text \<open>Toy primitives that satisfy the hypotheses on Ed25519 and SHA-256: the signature is the text.\<close>

definition sample_crypto :: "string crypto" where
  "sample_crypto = \<lparr>from_public_bytes = Some, ed25519_verify = (\<lambda>pk sig msg. sig = msg), sha256_hex = (\<lambda>s. s)\<rparr>"

definition sample_keys :: "string key_pair_ops" where
  "sample_keys = \<lparr>public_bytes = (\<lambda>k. k), ed25519_sign = (\<lambda>_ m. m), agent_sha256_hex = (\<lambda>s. s)\<rparr>"

definition sample_signer :: "string AgentSigner" where
  "sample_signer = \<lparr>as_private_key = ''k'', as_server_code = ''s1''\<rparr>"

definition sample_token :: OpsAgentToken where
  "sample_token = \<lparr>at_id = 1, at_server_id = 1, at_token_name = ''default'', at_token_prefix = ''t'',
     at_token_hash = ''t'', at_signing_public_key = Some (public_key_b64 sample_keys sample_signer),
     at_signing_algorithm = Some ''ed25519'', at_key_registered_at = Some 0, at_status = 1,
     at_expires_at = None, at_last_used_at = None, at_revoked_at = None\<rparr>"

definition agent_db :: db where
  "agent_db = sample_db\<lparr>ops_agent_token := \<lparr>rows = [sample_token], next_id = 2\<rparr>\<rparr>"

definition strict_settings :: settings where
  "strict_settings = default_settings\<lparr>AGENT_REQUIRE_SIGNATURE := True\<rparr>"

definition sample_request :: "datetime \<Rightarrow> http_request" where
  "sample_request sent = signed_request ''t'' ''GET'' ''/p'' []
     (sign_headers sample_keys sent ''u1'' sample_signer ''GET'' ''/p'' [])"

lemma sample_crypto_simps [simp]:
  "from_public_bytes sample_crypto = Some" "sha256_hex sample_crypto = (\<lambda>s. s)"
  "ed25519_verify sample_crypto pk sig msg \<longleftrightarrow> sig = msg"
  by (auto simp: sample_crypto_def)

lemma agent_db_simps:
  "server_get agent_db 1 = Some sample_server" "sv_status sample_server = 1" "sv_server_code sample_server = ''s1''"
  "sv_id sample_server = 1" "usable_token sample_crypto now agent_db ''t'' sample_token"
  "at_server_id sample_token = 1"
  "at_signing_public_key sample_token = Some (public_key_b64 sample_keys sample_signer)"
  by (simp_all add: agent_db_def sample_db_def server_get_def repo_get_def apply_soft_delete_def sample_server_def
      usable_token_def get_by_token_hash_def repo_get_by_def sample_token_def)

lemma agent_signer_is_admitted_witness:
  "is_valid_public_key sample_crypto (public_key_b64 sample_keys sample_signer) \<and>
   get_agent_server sample_crypto memory_set strict_settings 5000000 (sample_request 0) agent_db [] =
     Inr (sample_server, [(replay_key 1 ''u1'', 605000000)])"
  unfolding sample_request_def
  by (rule agent_signer_is_admitted [where pk = "''k''" and t = sample_token])
    (simp_all add: agent_db_simps sample_keys_def sample_signer_def strict_settings_def
      default_settings_def unix_seconds_def int_trunc_div_def check_replay_def is_replayed_def memory_set_def
      timedelta_seconds_def)

lemma sample_admit:
  assumes "0 \<le> sent" "sent < 10 ^ int_max_str_digits" "\<bar>unix_seconds now - unix_seconds sent\<bar> \<le> 300"
    and "check_replay memory_set strict_settings now 1 ''u1'' r = Inr r'"
  shows "get_agent_server sample_crypto memory_set strict_settings now (sample_request sent) agent_db r =
    Inr (sample_server, r')"
  unfolding sample_request_def
  by (rule signer_admitted [where pk = "''k''" and t = sample_token])
    (use assms in \<open>simp_all add: agent_db_simps sample_keys_def sample_signer_def strict_settings_def default_settings_def\<close>)

lemma small_time: "(n :: int) < 1000000000 \<Longrightarrow> n < 10 ^ int_max_str_digits"
proof -
  have "(10 :: int) ^ 9 \<le> 10 ^ int_max_str_digits"
    by (rule power_increasing) (simp_all add: int_max_str_digits_def)
  then show "n < 1000000000 \<Longrightarrow> n < 10 ^ int_max_str_digits" by simp
qed

lemma sample_replay_check:
  "check_replay memory_set strict_settings now 1 ''u1'' r =
     (case map_of r (replay_key 1 ''u1'') of
        Some x \<Rightarrow> if now < x then Inl (AppException AGENT_REQUEST_REPLAYED 401)
                  else Inr ((replay_key 1 ''u1'', now + 600000000) # r)
      | None \<Rightarrow> Inr ((replay_key 1 ''u1'', now + 600000000) # r))"
  by (simp add: check_replay_def is_replayed_def memory_set_def strict_settings_def default_settings_def
      timedelta_seconds_def split: option.splits)

text \<open>
  A copy of a request whose stamp was ahead by the whole window, sent when the cache entry has just
  expired.
\<close>

definition edge_run :: "arrival list" where
  "edge_run = [(0, agent_db, sample_request 300000000), (600000000, agent_db, sample_request 300000000)]"

lemma edge_run_admitted:
  "admitted sample_crypto memory_set strict_settings edge_run [] 0 = Inr sample_server"
  "admitted sample_crypto memory_set strict_settings edge_run [] 1 = Inr sample_server"
proof -
  have 0: "get_agent_server sample_crypto memory_set strict_settings 0 (sample_request 300000000) agent_db [] =
      Inr (sample_server, [(replay_key 1 ''u1'', 600000000)])"
    by (rule sample_admit) (simp_all add: small_time sample_replay_check unix_seconds_def int_trunc_div_def)
  then show "admitted sample_crypto memory_set strict_settings edge_run [] 0 = Inr sample_server"
    by (simp add: admitted_def edge_run_def admit_def cache_after_def)
  have 1: "get_agent_server sample_crypto memory_set strict_settings 600000000 (sample_request 300000000) agent_db
      [(replay_key 1 ''u1'', 600000000)] =
      Inr (sample_server, [(replay_key 1 ''u1'', 1200000000), (replay_key 1 ''u1'', 600000000)])"
    by (rule sample_admit) (simp_all add: small_time sample_replay_check unix_seconds_def int_trunc_div_def)
  with 0 show "admitted sample_crypto memory_set strict_settings edge_run [] 1 = Inr sample_server"
    by (simp add: admitted_def edge_run_def admit_def cache_after_def)
qed

lemma no_replay_witness:
  "admitted sample_crypto memory_set strict_settings edge_run [] 0 = Inr sample_server \<and>
   admitted sample_crypto memory_set strict_settings edge_run [] 1 = Inr sample_server \<and>
   0 + timedelta_seconds (2 * 300) \<le> (600000000 :: int)"
  using no_replay [OF memory_contract, of strict_settings 0 1 edge_run 0 agent_db "sample_request 300000000"
      sample_crypto "[]" sample_server 600000000 agent_db "sample_request 300000000" sample_server]
    edge_run_admitted
  by (simp add: strict_settings_def default_settings_def edge_run_def)

text \<open>
  The clock window is closed on both sides while a cache entry lives exactly as long as the window
  is wide, so there is a request that is admitted twice with signatures required.
\<close>

lemma replay_at_window_edge:
  "AGENT_REQUIRE_SIGNATURE strict_settings \<and> rq_request_id (snd (snd (edge_run ! 0))) = rq_request_id (snd (snd (edge_run ! 1))) \<and>
   admitted sample_crypto memory_set strict_settings edge_run [] 0 = Inr sample_server \<and>
   admitted sample_crypto memory_set strict_settings edge_run [] 1 = Inr sample_server"
  using edge_run_admitted by (simp add: strict_settings_def edge_run_def)

text \<open>
  The client of the agent signs a request once and sends the same headers again when the reply does
  not arrive; the backend turns the second one down as a replay.
\<close>

lemma lost_reply_is_refused:
  "get_agent_server sample_crypto memory_set strict_settings 0 (sample_request 0) agent_db [] =
     Inr (sample_server, [(replay_key 1 ''u1'', 600000000)]) \<and>
   get_agent_server sample_crypto memory_set strict_settings 1000000 (sample_request 0) agent_db
     [(replay_key 1 ''u1'', 600000000)] = Inl (AppException AGENT_REQUEST_REPLAYED 401)"
proof
  show "get_agent_server sample_crypto memory_set strict_settings 0 (sample_request 0) agent_db [] =
     Inr (sample_server, [(replay_key 1 ''u1'', 600000000)])"
    by (rule sample_admit) (simp_all add: small_time sample_replay_check unix_seconds_def int_trunc_div_def)
  have v: "signature_ok sample_crypto (sample_request 0) (public_key_b64 sample_keys sample_signer)"
    unfolding sample_request_def by (rule signer_signature_ok) (simp_all add: sample_keys_def)
  have "py_int (py_str 0) = Some 0" by (rule py_int_py_str) (simp_all add: small_time)
  with v show "get_agent_server sample_crypto memory_set strict_settings 1000000 (sample_request 0) agent_db
     [(replay_key 1 ''u1'', 600000000)] = Inl (AppException AGENT_REQUEST_REPLAYED 401)"
    using authenticate_Some [of sample_crypto 1000000 agent_db "''t''" sample_token]
    by (simp add: get_agent_server_def oauth2_scheme_def sample_request_def signed_request_def sign_headers_def Let_def
        resolve_agent_def verify_agent_signature_def agent_db_simps sample_signer_def signature_ok_def sample_replay_check
        unix_seconds_def int_trunc_div_def public_key_b64_def b64encode_Nil sample_keys_def strict_settings_def
        default_settings_def check_replay_def is_replayed_def memory_set_def)
qed

end
