(* ===== verification/Agent_Sync.thy ===== *)
theory Agent_Sync
  imports Agent_Protocol
begin

text \<open>
  What heartbeats and synchronisations leave in the database: the state shown for a server after the
  status sweep, the assets and the services stored for it, the key a registration stores.
\<close>

section \<open>Heartbeats and the status sweep\<close>

lemma server_get_set_server:
  assumes "tbl_wf sv_id (ops_server d)" and "server_get d k = Some s"
    and "\<And>s. sv_id (f s) = sv_id s" "\<And>s. sv_deleted_at (f s) = sv_deleted_at s"
  shows "server_get (set_server k f d) k = Some (f s)"
proof -
  from repo_get_in [OF assms(2) [unfolded server_get_def]]
  have s: "s \<in> set (servers d)" "sv_id s = k" by auto
  have live: "sv_deleted_at s = None"
    using assms(2) by (auto simp: server_get_def repo_get_def apply_soft_delete_def dest: find_Some_in)
  have "tbl_wf sv_id (repo_update OpsServer_model k f (ops_server d))"
    unfolding repo_update_def using assms(1,3) by (intro tbl_wf_modify) simp_all
  moreover have "f s \<in> set (rows (repo_update OpsServer_model k f (ops_server d)))"
    using s by (force simp: repo_update_def)
  ultimately show ?thesis
    using server.get_unique [of "repo_update OpsServer_model k f (ops_server d)" "f s"] live s assms(3,4)
    by (simp add: server_get_def set_server_def apply_soft_delete_def)
qed

lemma tbl_wf_set_server:
  "tbl_wf sv_id (ops_server d) \<Longrightarrow> (\<And>s. sv_id (f s) = sv_id s) \<Longrightarrow> tbl_wf sv_id (ops_server (set_server k f d))"
  by (simp add: set_server_def repo_update_def tbl_wf_modify)

lemma server_get_swept:
  "server_get (snd (refresh_agent_statuses now d)) k =
   map_option (\<lambda>s. if sv_status s = 1 \<and> sv_deleted_at s = None
     then s\<lparr>sv_agent_status := agent_status_case now (sv_last_heartbeat_at s)\<rparr> else s) (server_get d k)"
proof -
  let ?g = "\<lambda>s. if sv_status s = 1 \<and> sv_deleted_at s = None
     then s\<lparr>sv_agent_status := agent_status_case now (sv_last_heartbeat_at s)\<rparr> else s"
  have "List.find P (map ?g xs) = map_option ?g (List.find P xs)" if "\<And>s. P (?g s) = P s" for P and xs :: "OpsServer list"
    using that by (induction xs) auto
  then show ?thesis
    by (simp add: refresh_agent_statuses_def Let_def server_get_def repo_get_def apply_soft_delete_def [abs_def])
qed

lemma server_get_refreshed:
  assumes "server_get d k = Some s" and "sv_status s = 1" and "refresh_agent_statuses t d = (n, d')"
  shows "server_get d' k = Some (s\<lparr>sv_agent_status := agent_status_case t (sv_last_heartbeat_at s)\<rparr>)"
proof -
  have "sv_deleted_at s = None"
    using assms(1) by (auto simp: server_get_def repo_get_def apply_soft_delete_def dest: find_Some_in)
  then show ?thesis using server_get_swept [of t d k] assms by simp
qed

text \<open>
  A heartbeat is followed by the state its age calls for: after a heartbeat of an active server
  was accepted at \<open>t\<close>, the status sweep at time \<open>u\<close> shows the server ONLINE up to 30 seconds later,
  WARNING up to 90 seconds and OFFLINE from then on; the heartbeat itself shows it ONLINE at once and
  adds one row to the heartbeat history.
\<close>

theorem heartbeat_then_sweep:
  assumes "tbl_wf sv_id (ops_server d)" and "server_get d k = Some s" and "sv_status s = 1"
    and "heartbeat t s data ip d = Inr (res, d1)" and "refresh_agent_statuses u d1 = (n, d2)"
  shows "(\<exists>s1. server_get d1 k = Some s1 \<and> sv_agent_status s1 = ONLINE \<and> sv_last_heartbeat_at s1 = Some t) \<and>
    (\<exists>s2. server_get d2 k = Some s2 \<and> sv_agent_status s2 =
       (if u - t \<le> timedelta_seconds 30 then ONLINE
        else if u - t \<le> timedelta_seconds 90 then WARNING else OFFLINE)) \<and>
    length (rows (ops_agent_heartbeat d1)) = length (rows (ops_agent_heartbeat d)) + 1"
proof -
  have k: "sv_id s = k" using repo_get_in [OF assms(2) [unfolded server_get_def]] by simp
  define f :: "OpsServer \<Rightarrow> OpsServer" where "f = (\<lambda>s. s\<lparr>sv_last_heartbeat_at := Some t, sv_ip_address := or_text ip (sv_ip_address s),
       sv_agent_version := (if truthy (hr_agent_version data) then hr_agent_version data else sv_agent_version s),
       sv_agent_status := ONLINE\<rparr>)"
  from assms(4) have d1: "ops_server d1 = ops_server (set_server k f d)"
    "length (rows (ops_agent_heartbeat d1)) = length (rows (ops_agent_heartbeat d)) + 1"
    by (auto simp: heartbeat_def bindE_eq_Inr update_last_heartbeat_def flush_server_def f_def k
        heartbeat_record_def repo_create_def set_server_def split: if_splits)
  have "server_get (set_server k f d) k = Some (f s)"
    by (rule server_get_set_server [OF assms(1,2)]) (simp_all add: f_def)
  then have s1: "server_get d1 k = Some (f s)" by (simp add: server_get_def d1(1))
  from server_get_refreshed [OF this _ assms(5)] assms(3) have s2:
    "server_get d2 k = Some ((f s)\<lparr>sv_agent_status := agent_status_case u (Some t)\<rparr>)" by (simp add: f_def)
  have "agent_status_case u (Some t) = (if u - t \<le> timedelta_seconds 30 then ONLINE
      else if u - t \<le> timedelta_seconds 90 then WARNING else OFFLINE)"
    by (auto simp: agent_status_case_def)
  with s1 s2 d1(2) show ?thesis by (simp add: f_def)
qed

definition sample_heartbeat :: HeartbeatRequest where
  "sample_heartbeat = \<lparr>hr_server_id = Some 1, hr_agent_version = Some ''1.0.0'', hr_timestamp = None\<rparr>"

definition beaten_db :: db where
  "beaten_db = (case heartbeat 10 sample_server sample_heartbeat (Some ''10.0.0.9'') sample_db of
     Inr (_, d) \<Rightarrow> d | Inl _ \<Rightarrow> sample_db)"

lemma heartbeat_then_sweep_witness:
  "\<exists>s2. server_get (snd (refresh_agent_statuses 40000000 beaten_db)) 1 = Some s2 \<and> sv_agent_status s2 = WARNING"
proof -
  have wf: "tbl_wf sv_id (ops_server sample_db)" by (simp add: tbl_wf_def sample_db_def sample_server_def)
  have get: "server_get sample_db 1 = Some sample_server" and st: "sv_status sample_server = 1"
    by (simp_all add: sample_db_def server_get_def repo_get_def apply_soft_delete_def sample_server_def)
  have hb: "heartbeat 10 sample_server sample_heartbeat (Some ''10.0.0.9'') sample_db = Inr ((1, 10), beaten_db)"
    by (simp add: beaten_db_def heartbeat_def assert_server_match_def sample_heartbeat_def sample_server_def
        update_last_heartbeat_def flush_server_def uk_ops_server_ip_port_def sample_db_def set_server_def
        repo_update_def)
  show ?thesis
    using heartbeat_then_sweep [OF wf get st hb prod.collapse [symmetric], of 40000000]
    by (simp add: timedelta_seconds_def)
qed

text \<open>
  The heartbeat writes the address it came from, and the pair of address and port is unique: the
  second agent behind one gateway is turned down with an \<open>IntegrityError\<close> at every heartbeat.
\<close>

definition gateway_db :: db where
  "gateway_db = sample_db\<lparr>ops_server := \<lparr>rows = [sample_server\<lparr>sv_ip_address := ''1.2.3.4''\<rparr>,
     sample_server\<lparr>sv_id := 2, sv_server_code := ''s2''\<rparr>], next_id = 3\<rparr>\<rparr>"

lemma heartbeat_behind_gateway_fails:
  "uk_ops_server_ip_port gateway_db \<and>
   heartbeat 10 (sample_server\<lparr>sv_id := 2, sv_server_code := ''s2''\<rparr>) (sample_heartbeat\<lparr>hr_server_id := Some 2\<rparr>)
     (Some ''1.2.3.4'') gateway_db = Inl IntegrityError"
  by code_simp

section \<open>Synchronised assets\<close>

definition stored_disk :: "db \<Rightarrow> ident \<Rightarrow> string \<times> string option \<Rightarrow> (string option \<times> int option) option" where
  "stored_disk d server_id k =
     map_option (\<lambda>r. (dk_filesystem r, dk_total_bytes r)) (List.find (\<lambda>r. disk_key r = (server_id, k)) (disks d))"

definition stored_network :: "db \<Rightarrow> ident \<Rightarrow> string \<Rightarrow> (string option \<times> string option) option" where
  "stored_network d server_id n =
     map_option (\<lambda>r. (nw_mac_address r, nw_ip_address r)) (List.find (\<lambda>r. network_key r = (server_id, n)) (networks d))"

definition assets_keyed :: "db \<Rightarrow> bool" where
  "assets_keyed d \<longleftrightarrow>
     tbl_wf dk_id (ops_server_disk d) \<and> distinct (map disk_key (disks d)) \<and>
     tbl_wf nw_id (ops_server_network d) \<and> distinct (map network_key (networks d))"

definition disk_reports :: "AssetsRequest \<Rightarrow> string \<times> string option \<Rightarrow> DiskAsset list" where
  "disk_reports data k = filter (\<lambda>a. (da_device_name a, da_mount_point a) = k) (as_disks data)"

definition network_reports :: "AssetsRequest \<Rightarrow> string \<Rightarrow> NetworkAsset list" where
  "network_reports data n = filter (\<lambda>a. na_interface_name a = n) (as_networks data)"

lemma stored_look:
  "stored_disk d s k = disk.look (ops_server_disk d) (s, k)"
  "stored_network d s n = network.look (ops_server_network d) (s, n)"
  "assets_keyed d \<longleftrightarrow> disk.keyed (ops_server_disk d) \<and> network.keyed (ops_server_network d)"
  by (auto simp: stored_disk_def stored_network_def assets_keyed_def disk.look_def network.look_def
      disk.keyed_def network.keyed_def)

lemma filter_Pair: "filter (\<lambda>a. P (fst a) (snd a)) (map (Pair s) xs) = map (Pair s) (filter (P s) xs)"
  by (simp add: filter_map comp_def)

text \<open>
  C19. After a synchronisation the database holds for the server exactly the disks and interfaces of
  the report. The value of each is what merging its entries of the report, in their order, into the
  stored one gives: a file system, address or size that the report leaves out keeps its old value.
  The assets of the other servers are as before, and the keys stay unique.
\<close>

theorem sync_assets_spec:
  assumes "assets_keyed d" and "sync_assets now s data d = Inr (res, d')"
  shows "assets_keyed d' \<and>
    (\<forall>k. stored_disk d' (sv_id s) k =
       (if disk_reports data k = [] then None
        else fold (\<lambda>a v. Some (merge_disk (sv_id s, a) v)) (disk_reports data k) (stored_disk d (sv_id s) k))) \<and>
    (\<forall>n. stored_network d' (sv_id s) n =
       (if network_reports data n = [] then None
        else fold (\<lambda>a v. Some (merge_network (sv_id s, a) v)) (network_reports data n) (stored_network d (sv_id s) n))) \<and>
    (\<forall>sid k n. sid \<noteq> sv_id s \<longrightarrow> stored_disk d' sid k = stored_disk d sid k \<and> stored_network d' sid n = stored_network d sid n)"
proof -
  let ?s = "sv_id s"
  let ?dt = "fold disk.put (map (Pair ?s) (as_disks data)) (ops_server_disk d)"
  let ?nt = "fold network.put (map (Pair ?s) (as_networks data)) (ops_server_network d)"
  let ?P = "\<lambda>k. fst k = ?s \<and> snd k \<notin> (\<lambda>a. (da_device_name a, da_mount_point a)) ` set (as_disks data)"
  let ?Q = "\<lambda>k. fst k = ?s \<and> snd k \<notin> na_interface_name ` set (as_networks data)"
  have P: "dk_server_id r = ?s \<and> (dk_device_name r, dk_mount_point r) \<notin>
      (\<lambda>a. (da_device_name a, da_mount_point a)) ` set (as_disks data) \<longleftrightarrow> ?P (disk_key r)" for r
    by (simp add: disk_key_def)
  have Q: "nw_server_id r = ?s \<and> nw_interface_name r \<notin> na_interface_name ` set (as_networks data) \<longleftrightarrow>
      ?Q (network_key r)" for r
    by (simp add: network_key_def)
  from assms(2) have d': "ops_server_disk d' = tbl_delete (\<lambda>r. ?P (disk_key r)) ?dt"
    "ops_server_network d' = tbl_delete (\<lambda>r. ?Q (network_key r)) ?nt"
    by (auto simp: sync_assets_def bindE_eq_Inr Let_def fold_upsert_disk fold_upsert_network
        disk_delete_missing_def network_delete_missing_def P Q image_image)
  have keyed: "disk.keyed ?dt" "network.keyed ?nt"
    using assms(1) by (simp_all add: stored_look disk.keyed_fold network.keyed_fold)
  have "assets_keyed d'"
    using keyed by (simp add: stored_look d' disk.keyed_delete network.keyed_delete)
  moreover have disk: "stored_disk d' sid k =
      (if ?P (sid, k) then None
       else fold (\<lambda>a v. Some (merge_disk a v)) (filter (\<lambda>a. (fst a, da_device_name (snd a), da_mount_point (snd a)) = (sid, k))
         (map (Pair ?s) (as_disks data))) (stored_disk d sid k))" for sid k
    using assms(1) unfolding stored_look d'(1)
    by (subst disk.look_delete [where Q = ?P, OF refl]) (simp add: disk.look_fold)
  moreover have network: "stored_network d' sid n =
      (if ?Q (sid, n) then None
       else fold (\<lambda>a v. Some (merge_network a v)) (filter (\<lambda>a. (fst a, na_interface_name (snd a)) = (sid, n))
         (map (Pair ?s) (as_networks data))) (stored_network d sid n))" for sid n
    using assms(1) unfolding stored_look d'(2)
    by (subst network.look_delete [where Q = ?Q, OF refl]) (simp add: network.look_fold)
  ultimately show ?thesis
    by (auto simp: filter_map comp_def disk_reports_def network_reports_def filter_empty_conv fold_map image_iff
        split: if_splits)
qed

definition sample_assets :: AssetsRequest where
  "sample_assets = \<lparr>as_server_id = None, as_timestamp = None,
     as_disks = [\<lparr>da_device_name = ''sda1'', da_mount_point = Some ''/'', da_filesystem = None, da_total_bytes = Some 100\<rparr>],
     as_networks = []\<rparr>"

definition assets_db :: db where
  "assets_db = sample_db\<lparr>ops_server_disk := \<lparr>rows =
     [\<lparr>dk_id = 1, dk_server_id = 1, dk_device_name = ''sda1'', dk_mount_point = Some ''/'', dk_filesystem = Some ''ext4'',
        dk_total_bytes = Some 50, dk_status = 1\<rparr>,
      \<lparr>dk_id = 2, dk_server_id = 1, dk_device_name = ''sdb1'', dk_mount_point = None, dk_filesystem = None,
        dk_total_bytes = None, dk_status = 1\<rparr>], next_id = 3\<rparr>\<rparr>"

definition synced_db :: db where
  "synced_db = (case sync_assets 10 sample_server sample_assets assets_db of Inr (_, d) \<Rightarrow> d | Inl _ \<Rightarrow> assets_db)"

lemma sync_assets_spec_witness:
  "stored_disk synced_db 1 (''sda1'', Some ''/'') = Some (Some ''ext4'', Some 100) \<and>
   stored_disk synced_db 1 (''sdb1'', None) = None"
proof -
  have k: "assets_keyed assets_db"
    by (simp add: assets_keyed_def assets_db_def tbl_wf_def disk_key_def sample_db_def empty_db_def empty_table_def)
  have s: "sync_assets 10 sample_server sample_assets assets_db = Inr ((1, 10), synced_db)"
    by (simp add: synced_db_def sync_assets_def assert_server_match_def sample_assets_def sample_server_def Let_def)
  note spec = sync_assets_spec [OF k s]
  have "stored_disk assets_db 1 (''sda1'', Some ''/'') = Some (Some ''ext4'', Some 50)"
    by (simp add: stored_disk_def assets_db_def disk_key_def)
  with spec show ?thesis
    by (simp add: sample_server_def disk_reports_def sample_assets_def keep_def py_or_def)
qed

definition stored_service :: "db \<Rightarrow> ident \<Rightarrow> string \<Rightarrow> (string option \<times> datetime option \<times> int) option" where
  "stored_service d server_id n =
     map_option (\<lambda>r. (ss_current_status r, ss_last_checked_at r, ss_is_whitelisted r))
       (List.find (\<lambda>r. service_key r = (server_id, n)) (services d))"

definition services_keyed :: "db \<Rightarrow> bool" where
  "services_keyed d \<longleftrightarrow> tbl_wf ss_id (ops_server_service d) \<and> distinct (map service_key (services d))"

lemma stored_service_look:
  "stored_service d s n = known_service.look (ops_server_service d) (s, n)"
  "services_keyed d \<longleftrightarrow> known_service.keyed (ops_server_service d)"
  by (auto simp: stored_service_def services_keyed_def known_service.look_def known_service.keyed_def)

lemma fold_merge_service:
  "fold (\<lambda>a v. Some (merge_service ((now, sid), a) v)) as v =
     (if as = [] then v else Some (Some (st_current_status (last as)), Some now,
        (case v of None \<Rightarrow> 1 | Some (_, _, w) \<Rightarrow> w)))"
  by (induction as arbitrary: v) (auto split: option.splits)

text \<open>
  The whitelist of services is the operator's: a synchronisation of services stores the reported
  status of each service, leaves the whitelist flag of every known service and the services of the
  other servers as they are, and adds unknown services whitelisted.
\<close>

theorem sync_services_spec:
  assumes "services_keyed d" and "sync_services now s data d = Inr (res, d')"
  shows "services_keyed d' \<and>
    (\<forall>n. stored_service d' (sv_id s) n =
       (let reports = filter (\<lambda>a. st_service_name a = n) (sr_services data)
        in if reports = [] then stored_service d (sv_id s) n
           else Some (Some (st_current_status (last reports)), Some now,
             (case stored_service d (sv_id s) n of None \<Rightarrow> 1 | Some (_, _, whitelisted) \<Rightarrow> whitelisted)))) \<and>
    (\<forall>sid n. sid \<noteq> sv_id s \<longrightarrow> stored_service d' sid n = stored_service d sid n)"
proof -
  let ?s = "sv_id s"
  from assms(2) have d': "ops_server_service d' =
      fold known_service.put (map (Pair (now, ?s)) (sr_services data)) (ops_server_service d)"
    by (auto simp: sync_services_def bindE_eq_Inr fold_upsert_status)
  have look: "stored_service d' sid n = fold (\<lambda>a v. Some (merge_service a v))
      (filter (\<lambda>a. (snd (fst a), st_service_name (snd a)) = (sid, n)) (map (Pair (now, ?s)) (sr_services data)))
      (stored_service d sid n)" for sid n
    using assms(1) by (simp add: stored_service_look d' known_service.look_fold)
  have "services_keyed d'"
    using assms(1) by (simp add: stored_service_look d' known_service.keyed_fold)
  moreover have "stored_service d' ?s n = fold (\<lambda>a v. Some (merge_service ((now, ?s), a) v))
      (filter (\<lambda>a. st_service_name a = n) (sr_services data)) (stored_service d ?s n)" for n
    by (simp add: look filter_map comp_def fold_map)
  moreover have "stored_service d' sid n = stored_service d sid n" if "sid \<noteq> ?s" for sid n
    using that by (simp add: look filter_map comp_def)
  ultimately show ?thesis by (simp add: fold_merge_service Let_def)
qed

definition sample_report :: ServicesRequest where
  "sample_report = \<lparr>sr_server_id = Some 1, sr_timestamp = None,
     sr_services = [\<lparr>st_service_name = ''nginx'', st_current_status = ''RUNNING''\<rparr>]\<rparr>"

definition unlisted_db :: db where
  "unlisted_db = sample_db\<lparr>ops_server_service := \<lparr>rows = [sample_service\<lparr>ss_is_whitelisted := 0\<rparr>], next_id = 2\<rparr>\<rparr>"

definition reported_db :: db where
  "reported_db = (case sync_services 10 sample_server sample_report unlisted_db of Inr (_, d) \<Rightarrow> d | Inl _ \<Rightarrow> unlisted_db)"

lemma sync_services_spec_witness:
  "stored_service reported_db 1 ''nginx'' = Some (Some ''RUNNING'', Some 10, 0)"
proof -
  have k: "services_keyed unlisted_db"
    by (simp add: services_keyed_def unlisted_db_def tbl_wf_def sample_service_def)
  have s: "sync_services 10 sample_server sample_report unlisted_db = Inr ((1, 10), reported_db)"
    by (simp add: reported_db_def sync_services_def assert_server_match_def sample_report_def sample_server_def)
  have "stored_service unlisted_db 1 ''nginx'' = Some (None, None, 0)"
    by (simp add: stored_service_def unlisted_db_def service_key_def sample_service_def)
  with sync_services_spec [OF k s] show ?thesis
    by (simp add: sample_server_def sample_report_def Let_def)
qed

section \<open>The key a registration stores\<close>

definition register_request :: RegisterRequest where
  "register_request = \<lparr>rg_server_code = ''s1'', rg_token = ''t'', rg_hostname = [], rg_os_name = None,
     rg_os_version = None, rg_kernel_version = None, rg_architecture = None, rg_cpu_model = None,
     rg_cpu_cores = None, rg_memory_total_bytes = None, rg_disk_total_bytes = None,
     rg_agent_version = None, rg_signing_public_key = Some ''eA==''\<rparr>"

text \<open>
  A registration needs the bearer token alone, and the key it carries replaces the one that is
  registered; a host name that is not sent is stored as the empty string.
\<close>

lemma register_replaces_key:
  "at_signing_public_key sample_token = Some ''aw=='' \<and>
   (case register sample_crypto 10 register_request None agent_db of
      Inl _ \<Rightarrow> False
    | Inr (_, d) \<Rightarrow> map at_signing_public_key (rows (ops_agent_token d)) = [Some ''eA==''] \<and>
        map sv_hostname (servers d) = [[]])"
  by code_simp

end
