(* ===== verification/Users.thy ===== *)
theory Users
  imports Models Params
begin

text \<open>
  Accounts: the repositories of users, roles and permissions
  (\<open>backend/app/repositories/user_repository.py\<close>, \<open>audit_repository.py\<close>), the management of users
  (\<open>services/user_service.py\<close>), login and tokens (\<open>services/auth_service.py\<close>, \<open>core/security.py\<close>)
  and the dependencies that guard the endpoints (\<open>api/v1/deps.py\<close>). bcrypt (through passlib) and
  the encoding of JSON web tokens are parameters; \<open>hash_password\<close> is given its salt by the caller.
\<close>

section \<open>Repositories\<close>

abbreviation users :: "db \<Rightarrow> SysUser list" where
  "users d \<equiv> rows (sys_user d)"

abbreviation roles :: "db \<Rightarrow> SysRole list" where
  "roles d \<equiv> rows (sys_role d)"

definition user_get :: "db \<Rightarrow> ident \<Rightarrow> SysUser option" where
  "user_get d k = repo_get SysUser_model (sys_user d) k"

definition role_get :: "db \<Rightarrow> ident \<Rightarrow> SysRole option" where
  "role_get d k = repo_get SysRole_model (sys_role d) k"

definition get_by_username :: "db \<Rightarrow> string \<Rightarrow> SysUser option" where
  "get_by_username d username = repo_get_by SysUser_model (sys_user d) (\<lambda>u. us_username u = username)"

definition get_by_email :: "db \<Rightarrow> string \<Rightarrow> SysUser option" where
  "get_by_email d email = repo_get_by SysUser_model (sys_user d) (\<lambda>u. us_email u = Some email)"

text \<open>
  The unique keys of \<open>sys_user\<close> hold for soft-deleted rows too; \<open>NULL\<close> e-mail addresses do not
  collide. A flush that breaks one is an \<open>IntegrityError\<close>.
\<close>

definition uk_sys_user :: "SysUser list \<Rightarrow> bool" where
  "uk_sys_user us \<longleftrightarrow> distinct (map us_username us) \<and>
     distinct (map us_email (filter (\<lambda>u. us_email u \<noteq> None) us))"

definition flush_user :: "db \<Rightarrow> db result" where
  "flush_user d = (if uk_sys_user (users d) then Inr d else Inl IntegrityError)"

definition set_user :: "ident \<Rightarrow> (SysUser \<Rightarrow> SysUser) \<Rightarrow> db \<Rightarrow> db" where
  "set_user k f d = d\<lparr>sys_user := repo_update SysUser_model k f (sys_user d)\<rparr>"

definition update_last_login :: "datetime \<Rightarrow> ident \<Rightarrow> string option \<Rightarrow> db \<Rightarrow> db" where
  "update_last_login now k ip d = set_user k (\<lambda>u. u\<lparr>us_last_login_at := Some now,
     us_last_login_ip := (if truthy ip then ip else us_last_login_ip u)\<rparr>) d"

text \<open>A join: a role is returned once for each of its bindings to the user.\<close>

definition get_roles_by_user :: "db \<Rightarrow> ident \<Rightarrow> SysRole list" where
  "get_roles_by_user d user_id =
     concat (map (\<lambda>r. map (\<lambda>_. r) (filter (\<lambda>b. ur_user_id b = user_id \<and> ur_role_id b = rl_id r) (sys_user_role d)))
       (roles d))"

definition get_role_ids :: "db \<Rightarrow> ident \<Rightarrow> ident list" where
  "get_role_ids d user_id = map ur_role_id (filter (\<lambda>b. ur_user_id b = user_id) (sys_user_role d))"

definition set_roles :: "ident \<Rightarrow> ident list \<Rightarrow> db \<Rightarrow> db" where
  "set_roles user_id role_ids d =
     d\<lparr>sys_user_role := filter (\<lambda>b. ur_user_id b \<noteq> user_id) (sys_user_role d) @
        map (\<lambda>role_id. \<lparr>ur_user_id = user_id, ur_role_id = role_id\<rparr>) (py_set role_ids)\<rparr>"

definition role_by_code :: "db \<Rightarrow> string \<Rightarrow> SysRole option" where
  "role_by_code d role_code = repo_get_by SysRole_model (sys_role d) (\<lambda>r. rl_role_code r = role_code)"

definition get_permission_ids :: "db \<Rightarrow> ident \<Rightarrow> ident list" where
  "get_permission_ids d role_id = map rp_permission_id (filter (\<lambda>b. rp_role_id b = role_id) (sys_role_permission d))"

definition set_permissions :: "ident \<Rightarrow> ident list \<Rightarrow> db \<Rightarrow> db" where
  "set_permissions role_id permission_ids d =
     d\<lparr>sys_role_permission := filter (\<lambda>b. rp_role_id b \<noteq> role_id) (sys_role_permission d) @
        map (\<lambda>p. \<lparr>rp_role_id = role_id, rp_permission_id = p\<rparr>) (py_set permission_ids)\<rparr>"

definition permission_by_code :: "db \<Rightarrow> string \<Rightarrow> SysPermission option" where
  "permission_by_code d code =
     repo_get_by SysPermission_model (sys_permission d) (\<lambda>p. pm_permission_code p = code)"

definition list_tree :: "db \<Rightarrow> SysPermission list" where
  "list_tree d = sort_key pm_id (filter (\<lambda>p. pm_status p = 1) (rows (sys_permission d)))"

definition get_codes_by_role :: "db \<Rightarrow> ident \<Rightarrow> string list" where
  "get_codes_by_role d role_id =
     concat (map (\<lambda>p. map (\<lambda>_. pm_permission_code p)
         (filter (\<lambda>b. rp_role_id b = role_id \<and> rp_permission_id b = pm_id p) (sys_role_permission d)))
       (filter (\<lambda>p. pm_status p = 1) (rows (sys_permission d))))"

definition create_login_log ::
  "ident option \<Rightarrow> string \<Rightarrow> login_status \<Rightarrow> string option \<Rightarrow> string option \<Rightarrow> login_failure option \<Rightarrow>
   string option \<Rightarrow> db \<Rightarrow> db" where
  "create_login_log user_id username status ip user_agent reason request_id d =
     d\<lparr>sys_login_log := repo_create (\<lambda>k. \<lparr>ll_id = k, ll_user_id = user_id, ll_username = username,
        ll_login_ip = ip, ll_user_agent = user_agent, ll_login_status = status,
        ll_failure_reason = reason, ll_request_id = request_id\<rparr>) (sys_login_log d)\<rparr>"

section \<open>Passwords and tokens\<close>

record jwt_payload =
  jp_sub :: string
  jp_iat :: datetime
  jp_exp :: datetime

text \<open>
  \<open>hash\<close> is bcrypt with a salt, \<open>verify\<close> its check; \<open>encode\<close> signs a payload with the secret of the
  settings, \<open>decode\<close> checks signature and expiry at a time and returns the claim \<open>sub\<close>
  (\<open>None\<close>: an \<open>InvalidTokenError\<close>; \<open>Some None\<close>: no such claim).
\<close>

record security =
  sec_hash :: "string \<Rightarrow> string \<Rightarrow> string"
  sec_verify :: "string \<Rightarrow> string \<Rightarrow> bool"
  sec_encode :: "jwt_payload \<Rightarrow> string"
  sec_decode :: "datetime \<Rightarrow> string \<Rightarrow> string option option"
  JWT_EXPIRE_MINUTES :: int

definition hash_password :: "security \<Rightarrow> string \<Rightarrow> string \<Rightarrow> string" where
  "hash_password sec salt password = sec_hash sec salt password"

definition verify_password :: "security \<Rightarrow> string \<Rightarrow> string \<Rightarrow> bool" where
  "verify_password sec plain_password hashed_password = sec_verify sec plain_password hashed_password"

definition create_access_token :: "security \<Rightarrow> datetime \<Rightarrow> ident \<Rightarrow> string" where
  "create_access_token sec now user_id =
     sec_encode sec \<lparr>jp_sub = py_str user_id, jp_iat = now,
       jp_exp = now + timedelta_seconds (60 * JWT_EXPIRE_MINUTES sec)\<rparr>"

definition unauthorized :: py_error where
  "unauthorized = AppException UNAUTHORIZED 401"

definition decode_access_token :: "security \<Rightarrow> datetime \<Rightarrow> string \<Rightarrow> ident result" where
  "decode_access_token sec now token =
     (case sec_decode sec now token of
        None \<Rightarrow> Inl unauthorized
      | Some None \<Rightarrow> Inl unauthorized
      | Some (Some sub) \<Rightarrow> (case py_int sub of None \<Rightarrow> Inl unauthorized | Some user_id \<Rightarrow> Inr user_id))"

section \<open>Login\<close>

record LoginRequest =
  lr_username :: string
  lr_password :: string

definition login_request_valid :: "LoginRequest \<Rightarrow> bool" where
  "login_request_valid q \<longleftrightarrow>
     1 \<le> code_points (lr_username q) \<and> code_points (lr_username q) \<le> 64 \<and>
     1 \<le> code_points (lr_password q) \<and> code_points (lr_password q) \<le> 128"

record TokenResponse =
  to_access_token :: string
  to_expires_in :: int

text \<open>A refused login commits its log row before it raises, so the database is part of both results.\<close>

definition login ::
  "security \<Rightarrow> datetime \<Rightarrow> string \<Rightarrow> string \<Rightarrow> string option \<Rightarrow> string option \<Rightarrow> string option \<Rightarrow> db \<Rightarrow>
   TokenResponse result \<times> db" where
  "login sec now username password ip user_agent request_id d =
     (case get_by_username d username of
        None \<Rightarrow>
          (Inl (AppException INVALID_CREDENTIALS 401),
           create_login_log None username LOGIN_FAILED ip user_agent (Some BadCredentials) request_id d)
      | Some user \<Rightarrow>
          if \<not> verify_password sec password (us_password_hash user) then
            (Inl (AppException INVALID_CREDENTIALS 401),
             create_login_log None username LOGIN_FAILED ip user_agent (Some BadCredentials) request_id d)
          else if us_status user \<noteq> 1 then
            (Inl (AppException ACCOUNT_DISABLED 401),
             create_login_log (Some (us_id user)) username LOGIN_FAILED ip user_agent (Some AccountDisabled)
               request_id d)
          else
            (let d1 = update_last_login now (us_id user) ip d;
                 token = create_access_token sec now (us_id user);
                 d2 = create_login_log (Some (us_id user)) username LOGIN_SUCCESS ip user_agent None request_id d1
             in (Inr \<lparr>to_access_token = token, to_expires_in = JWT_EXPIRE_MINUTES sec * 60\<rparr>, d2)))"

section \<open>The guards of the endpoints\<close>

definition get_current_user :: "security \<Rightarrow> datetime \<Rightarrow> string \<Rightarrow> db \<Rightarrow> SysUser result" where
  "get_current_user sec now token d =
     bindE (decode_access_token sec now token) (\<lambda>user_id.
       case user_get d user_id of
         None \<Rightarrow> Inl unauthorized
       | Some user \<Rightarrow> if us_status user \<noteq> 1 then Inl (AppException ACCOUNT_DISABLED 401) else Inr user)"

definition get_current_roles :: "db \<Rightarrow> SysUser \<Rightarrow> string list" where
  "get_current_roles d current_user = map rl_role_code (get_roles_by_user d (us_id current_user))"

definition require_roles :: "string list \<Rightarrow> security \<Rightarrow> datetime \<Rightarrow> string \<Rightarrow> db \<Rightarrow> SysUser result" where
  "require_roles role_codes sec now token d =
     bindE (get_current_user sec now token d) (\<lambda>current_user.
       if set role_codes \<inter> set (get_current_roles d current_user) = {}
       then Inl (AppException FORBIDDEN 403) else Inr current_user)"

section \<open>Management of users\<close>

record UserCreate =
  uc_username :: string
  uc_password :: string
  uc_nickname :: "string option"
  uc_email :: "string option"
  uc_phone :: "string option"
  uc_role_ids :: "ident list"

definition username_char :: "char \<Rightarrow> bool" where
  "username_char c = (let n = (of_char c :: nat) in
     (97 \<le> n \<and> n \<le> 122) \<or> (65 \<le> n \<and> n \<le> 90) \<or> (48 \<le> n \<and> n \<le> 57) \<or> n = 95)"

definition user_create_valid :: "UserCreate \<Rightarrow> bool" where
  "user_create_valid c \<longleftrightarrow>
     3 \<le> code_points (uc_username c) \<and> code_points (uc_username c) \<le> 64 \<and> list_all username_char (uc_username c) \<and>
     6 \<le> code_points (uc_password c) \<and> code_points (uc_password c) \<le> 128 \<and>
     max_length 64 (uc_nickname c) \<and> max_length 128 (uc_email c) \<and> max_length 32 (uc_phone c)"

text \<open>
  \<open>model_dump(exclude_unset=True)\<close>: the outer option tells whether the field was sent, the inner one
  whether it was sent as \<open>null\<close>.
\<close>

record UserUpdate =
  uu_password :: "string option option"
  uu_nickname :: "string option option"
  uu_email :: "string option option"
  uu_phone :: "string option option"
  uu_status :: "int option option"
  uu_role_ids :: "ident list option option"

definition max_sent :: "int \<Rightarrow> string option option \<Rightarrow> bool" where
  "max_sent n x = (case x of None \<Rightarrow> True | Some v \<Rightarrow> max_length n v)"

definition user_update_valid :: "UserUpdate \<Rightarrow> bool" where
  "user_update_valid c \<longleftrightarrow>
     max_sent 128 (uu_password c) \<and>
     (case uu_password c of Some (Some p) \<Rightarrow> 6 \<le> code_points p | _ \<Rightarrow> True) \<and>
     max_sent 64 (uu_nickname c) \<and> max_sent 128 (uu_email c) \<and> max_sent 32 (uu_phone c) \<and>
     (case uu_status c of Some (Some n) \<Rightarrow> 0 \<le> n \<and> n \<le> 1 | _ \<Rightarrow> True)"

definition validate_roles :: "db \<Rightarrow> ident list \<Rightarrow> unit result" where
  "validate_roles d role_ids =
     (if \<exists>role_id \<in> set role_ids. role_get d role_id = None then Inl (AppException ROLE_NOT_FOUND 404) else Inr ())"

definition new_user :: "UserCreate \<Rightarrow> string \<Rightarrow> ident \<Rightarrow> SysUser" where
  "new_user data password_hash k = \<lparr>us_id = k, us_username = uc_username data, us_password_hash = password_hash,
     us_nickname = uc_nickname data, us_email = uc_email data, us_phone = uc_phone data, us_status = 1,
     us_last_login_at = None, us_last_login_ip = None, us_deleted_at = None\<rparr>"

definition insert_user :: "(ident \<Rightarrow> SysUser) \<Rightarrow> db \<Rightarrow> (ident \<times> db) result" where
  "insert_user u d = bindE (flush_user (d\<lparr>sys_user := repo_create u (sys_user d)\<rparr>)) (\<lambda>d'. Inr (next_id (sys_user d), d'))"

definition create_user :: "security \<Rightarrow> string \<Rightarrow> UserCreate \<Rightarrow> db \<Rightarrow> (ident \<times> db) result" where
  "create_user sec salt data d =
     (if get_by_username d (uc_username data) \<noteq> None then Inl (AppException USERNAME_EXISTS 409)
      else if truthy (uc_email data) \<and> get_by_email d (the (uc_email data)) \<noteq> None
      then Inl (AppException EMAIL_EXISTS 409)
      else bindE (validate_roles d (uc_role_ids data)) (\<lambda>_.
        bindE (insert_user (new_user data (hash_password sec salt (uc_password data))) d) (\<lambda>(k, d1).
        Inr (k, if uc_role_ids data \<noteq> [] then set_roles k (uc_role_ids data) d1 else d1))))"

definition list_users ::
  "db \<Rightarrow> int \<Rightarrow> int \<Rightarrow> string option \<Rightarrow> int option \<Rightarrow> (int \<times> SysUser list) result" where
  "list_users d page page_size username status =
     repo_list SysUser_model (sys_user d) page page_size IdDesc
       (\<lambda>u. (truthy username \<longrightarrow> us_username u = the username) \<and>
            (case status of None \<Rightarrow> True | Some n \<Rightarrow> us_status u = n))"

definition get_user :: "db \<Rightarrow> ident \<Rightarrow> SysUser result" where
  "get_user d user_id =
     (case user_get d user_id of None \<Rightarrow> Inl (AppException USER_NOT_FOUND 404) | Some u \<Rightarrow> Inr u)"

definition sent :: "'a option \<Rightarrow> 'a \<Rightarrow> 'a" where
  "sent x old = (case x of None \<Rightarrow> old | Some v \<Rightarrow> v)"

text \<open>
  The values written to the row; a status that is sent as \<open>null\<close> cannot be stored
  (the column is \<open>NOT NULL\<close>), see \<open>update_user\<close>.
\<close>

definition apply_update :: "security \<Rightarrow> string \<Rightarrow> UserUpdate \<Rightarrow> SysUser \<Rightarrow> SysUser" where
  "apply_update sec salt data u = u\<lparr>
     us_password_hash := (case uu_password data of
         Some p \<Rightarrow> if truthy p then hash_password sec salt (the p) else us_password_hash u
       | None \<Rightarrow> us_password_hash u),
     us_nickname := sent (uu_nickname data) (us_nickname u),
     us_email := sent (uu_email data) (us_email u),
     us_phone := sent (uu_phone data) (us_phone u),
     us_status := (case uu_status data of Some (Some n) \<Rightarrow> n | _ \<Rightarrow> us_status u)\<rparr>"

definition email_conflict :: "db \<Rightarrow> ident \<Rightarrow> SysUser \<Rightarrow> UserUpdate \<Rightarrow> bool" where
  "email_conflict d user_id user data \<longleftrightarrow>
     (case uu_email data of
        Some (Some email) \<Rightarrow>
          email \<noteq> [] \<and> Some email \<noteq> us_email user \<and>
          (case get_by_email d email of None \<Rightarrow> False | Some existing \<Rightarrow> us_id existing \<noteq> user_id)
      | _ \<Rightarrow> False)"

definition update_user :: "security \<Rightarrow> string \<Rightarrow> ident \<Rightarrow> UserUpdate \<Rightarrow> db \<Rightarrow> db result" where
  "update_user sec salt user_id data d =
     bindE (get_user d user_id) (\<lambda>user.
       let role_ids = (case uu_role_ids data of Some (Some ids) \<Rightarrow> Some ids | _ \<Rightarrow> None)
       in if email_conflict d user_id user data then Inl (AppException EMAIL_EXISTS 409)
          else bindE (case role_ids of None \<Rightarrow> Inr () | Some ids \<Rightarrow> validate_roles d ids) (\<lambda>_.
            if uu_status data = Some None then Inl IntegrityError
            else bindE (flush_user (set_user user_id (apply_update sec salt data) d)) (\<lambda>d1.
              Inr (case role_ids of None \<Rightarrow> d1 | Some ids \<Rightarrow> set_roles user_id ids d1))))"

definition delete_user :: "datetime \<Rightarrow> ident \<Rightarrow> db \<Rightarrow> db result" where
  "delete_user now user_id d =
     bindE (get_user d user_id) (\<lambda>_.
     bindE (repo_soft_delete SysUser_model now user_id (sys_user d)) (\<lambda>t. Inr (d\<lparr>sys_user := t\<rparr>)))"

section \<open>The endpoints of users and roles\<close>

text \<open>
  \<open>admin_only\<close>: the guard of every endpoint of \<open>api/v1/users.py\<close> and \<open>api/v1/roles.py\<close> runs
  before the body is validated.
\<close>

definition admin_only :: "security \<Rightarrow> datetime \<Rightarrow> string \<Rightarrow> db \<Rightarrow> SysUser result" where
  "admin_only = require_roles [''SYSTEM_ADMIN'']"

definition post_user where
  "post_user sec now token salt data d =
     bindE (admin_only sec now token d) (\<lambda>_.
       if \<not> user_create_valid data then Inl RequestValidationError else create_user sec salt data d)"

definition put_user where
  "put_user sec now token salt user_id data d =
     bindE (admin_only sec now token d) (\<lambda>_.
       if \<not> user_update_valid data then Inl RequestValidationError else update_user sec salt user_id data d)"

definition remove_user where
  "remove_user sec now token user_id d =
     bindE (admin_only sec now token d) (\<lambda>_. delete_user now user_id d)"

definition get_user_page where
  "get_user_page sec now token page page_size username status d =
     bindE (admin_only sec now token d) (\<lambda>_.
     bindE (optional_int (Some 0) (Some 1) status) (\<lambda>st.
       if page < 1 \<or> page_size < 1 \<or> page_size > 100 \<or> \<not> max_length 64 username then Inl RequestValidationError
       else list_users d page page_size username st))"

definition list_roles where
  "list_roles sec now token d =
     bindE (admin_only sec now token d) (\<lambda>_.
       Inr (map (\<lambda>r. (rl_id r, rl_role_code r, rl_role_name r))
         (repo_list_all SysRole_model (sys_role d) (\<lambda>r. rl_status r = 1))))"

definition post_login where
  "post_login sec now data ip user_agent request_id d =
     (if \<not> login_request_valid data then (Inl RequestValidationError, d)
      else login sec now (lr_username data) (lr_password data) ip user_agent request_id d)"

definition get_me :: "security \<Rightarrow> datetime \<Rightarrow> string \<Rightarrow> db \<Rightarrow> SysUser result" where
  "get_me = get_current_user"

end
