(* ===== verification/User_Properties.thy ===== *)
theory User_Properties
  imports Users
begin

text \<open>
  What the accounts guarantee: the unique keys and references of the tables through every operation,
  the outcomes of a login, the life of a token, the guard of the administration, and what a deletion
  takes away.
\<close>

section \<open>The invariant of the account tables\<close>

definition role_pair :: "SysUserRole \<Rightarrow> ident \<times> ident" where
  "role_pair b = (ur_user_id b, ur_role_id b)"

definition accounts_inv :: "db \<Rightarrow> bool" where
  "accounts_inv d \<longleftrightarrow>
     tbl_wf us_id (sys_user d) \<and> uk_sys_user (users d) \<and> tbl_wf rl_id (sys_role d) \<and>
     distinct (map role_pair (sys_user_role d)) \<and>
     (\<forall>b \<in> set (sys_user_role d). ur_user_id b \<in> us_id ` set (users d) \<and> ur_role_id b \<in> rl_id ` set (roles d))"

lemma accounts_inv_tables:
  "sys_user d' = sys_user d \<Longrightarrow> sys_role d' = sys_role d \<Longrightarrow> sys_user_role d' = sys_user_role d \<Longrightarrow>
   accounts_inv d' = accounts_inv d"
  by (simp add: accounts_inv_def)

lemma user_get_in: "user_get d k = Some u \<Longrightarrow> u \<in> set (users d) \<and> us_id u = k \<and> us_deleted_at u = None"
  by (auto simp: user_get_def repo_get_def apply_soft_delete_def dest!: find_Some_in)

lemma role_get_in: "role_get d k \<noteq> None \<Longrightarrow> k \<in> rl_id ` set (roles d)"
  by (auto simp: role_get_def repo_get_def find_None_iff)

lemma validate_roles_Inr: "validate_roles d ids = Inr x \<Longrightarrow> set ids \<subseteq> rl_id ` set (roles d)"
  using role_get_in by (auto simp: validate_roles_def split: if_splits)

lemma accounts_inv_set_roles:
  assumes "accounts_inv d" and "k \<in> us_id ` set (users d)" and "set ids \<subseteq> rl_id ` set (roles d)"
  shows "accounts_inv (set_roles k ids d)"
proof -
  have "distinct (map role_pair (filter (\<lambda>b. ur_user_id b \<noteq> k) (sys_user_role d)))"
    using assms(1) by (auto simp: accounts_inv_def distinct_map_filter)
  moreover have "distinct (map role_pair (map (\<lambda>r. \<lparr>ur_user_id = k, ur_role_id = r\<rparr>) (py_set ids)))"
    by (auto simp: role_pair_def distinct_map comp_def intro!: inj_onI)
  ultimately have "distinct (map role_pair (sys_user_role (set_roles k ids d)))"
    by (auto simp: set_roles_def role_pair_def)
  then show ?thesis
    using assms by (auto simp: accounts_inv_def set_roles_def)
qed

lemma ids_set_user:
  assumes "\<And>u. us_id (f u) = us_id u"
  shows "us_id ` set (users (set_user k f d)) = us_id ` set (users d)"
proof -
  have "(\<lambda>u. us_id (if us_id u = k then f u else u)) = us_id" using assms by auto
  then have "map us_id (users (set_user k f d)) = map us_id (users d)"
    by (simp add: set_user_def repo_update_def comp_def)
  then show ?thesis by (metis set_map)
qed

lemma accounts_inv_set_user:
  assumes "accounts_inv d" and "\<And>u. us_id (f u) = us_id u" and "flush_user (set_user k f d) = Inr d'"
  shows "accounts_inv d'"
proof -
  from assms(3) have d': "d' = set_user k f d" and uk: "uk_sys_user (users d')"
    by (auto simp: flush_user_def split: if_splits)
  have "us_id ` set (users d') = us_id ` set (users d)"
    by (simp add: d' ids_set_user assms(2))
  moreover have "tbl_wf us_id (sys_user d')"
    using assms(1,2) by (simp add: d' set_user_def repo_update_def accounts_inv_def tbl_wf_modify)
  moreover have "sys_role d' = sys_role d" "sys_user_role d' = sys_user_role d"
    by (simp_all add: d' set_user_def)
  ultimately show ?thesis using assms(1) uk by (simp add: accounts_inv_def)
qed

lemma uk_sys_user_map:
  assumes "\<And>u. us_username (f u) = us_username u" and "\<And>u. us_email (f u) = us_email u"
  shows "uk_sys_user (map (\<lambda>u. if P u then f u else u) us) = uk_sys_user us"
proof -
  have *: "(\<lambda>u. us_username (if P u then f u else u)) = us_username"
    "(\<lambda>u. us_email (if P u then f u else u)) = us_email" using assms by auto
  have "map us_email (filter (\<lambda>u. us_email u \<noteq> None) (map (\<lambda>u. if P u then f u else u) us)) =
      map us_email (filter (\<lambda>u. us_email u \<noteq> None) us)"
    by (induction us) (auto simp: assms(2))
  then show ?thesis by (simp add: uk_sys_user_def comp_def * del: filter_map)
qed

lemma accounts_inv_touch:
  assumes "accounts_inv d" and "\<And>u. us_id (f u) = us_id u"
    and "\<And>u. us_username (f u) = us_username u" "\<And>u. us_email (f u) = us_email u"
  shows "accounts_inv (set_user k f d)"
proof (rule accounts_inv_set_user [OF assms(1,2)])
  have "uk_sys_user (users (set_user k f d))"
    using assms(1) uk_sys_user_map [of f "\<lambda>u. us_id u = k", OF assms(3,4)]
    by (simp add: set_user_def repo_update_def accounts_inv_def)
  then show "flush_user (set_user k f d) = Inr (set_user k f d)" by (simp add: flush_user_def)
qed

lemma accounts_inv_last_login: "accounts_inv d \<Longrightarrow> accounts_inv (update_last_login now k ip d)"
  unfolding update_last_login_def by (rule accounts_inv_touch) simp_all

lemma accounts_inv_log: "accounts_inv (create_login_log a b c e f g h d) = accounts_inv d"
  by (rule accounts_inv_tables) (simp_all add: create_login_log_def)

lemma login_inv: "accounts_inv d \<Longrightarrow> accounts_inv (snd (login sec now name password ip ua rid d))"
  by (auto simp: login_def Let_def accounts_inv_log accounts_inv_last_login split: option.splits)

lemma create_user_inv:
  assumes "accounts_inv d" and "create_user sec salt data d = Inr (k, d')"
  shows "accounts_inv d'"
proof -
  let ?mk = "new_user data (hash_password sec salt (uc_password data))"
  from assms(2) obtain d1 where v: "set (uc_role_ids data) \<subseteq> rl_id ` set (roles d)"
    and ins: "insert_user ?mk d = Inr (k, d1)"
    and d': "d' = (if uc_role_ids data \<noteq> [] then set_roles k (uc_role_ids data) d1 else d1)"
    by (auto simp: create_user_def bindE_eq_Inr dest: validate_roles_Inr split: if_splits)
  from ins have d1: "d1 = d\<lparr>sys_user := repo_create ?mk (sys_user d)\<rparr>" "uk_sys_user (users d1)"
    "k = next_id (sys_user d)"
    by (auto simp: insert_user_def bindE_eq_Inr flush_user_def split: if_splits)
  have inv: "accounts_inv d1"
    using assms(1) d1 by (auto simp: accounts_inv_def repo_create_def tbl_wf_insert new_user_def)
  have "k \<in> us_id ` set (users d1)" "roles d1 = roles d"
    by (auto simp: d1 repo_create_def new_user_def)
  with v inv show ?thesis by (simp add: d' accounts_inv_set_roles)
qed

lemma update_user_inv:
  assumes "accounts_inv d" and "update_user sec salt k data d = Inr d'"
  shows "accounts_inv d'"
proof -
  from assms(2) obtain user d1 where u: "get_user d k = Inr user"
    and d1: "flush_user (set_user k (apply_update sec salt data) d) = Inr d1"
    and d': "d' = (case uu_role_ids data of Some (Some ids) \<Rightarrow> set_roles k ids d1 | _ \<Rightarrow> d1)"
    and v: "\<And>ids. uu_role_ids data = Some (Some ids) \<Longrightarrow> set ids \<subseteq> rl_id ` set (roles d)"
    by (auto simp: update_user_def bindE_eq_Inr Let_def dest: validate_roles_Inr split: if_splits option.splits)
  have inv: "accounts_inv d1"
    by (rule accounts_inv_set_user [OF assms(1) _ d1]) (simp add: apply_update_def)
  have "roles d1 = roles d" using d1 by (auto simp: flush_user_def set_user_def split: if_splits)
  moreover have "k \<in> us_id ` set (users d)"
    using u by (auto simp: get_user_def dest: user_get_in split: option.splits)
  moreover have "us_id ` set (users d1) = us_id ` set (users d)"
    using d1 ids_set_user [of "apply_update sec salt data" k d]
    by (simp add: flush_user_def apply_update_def split: if_splits)
  ultimately show ?thesis
    using inv v by (auto simp: d' accounts_inv_set_roles split: option.splits)
qed

lemma delete_user_eq:
  "delete_user now k d = Inr d' \<longleftrightarrow>
     user_get d k \<noteq> None \<and> d' = set_user k (\<lambda>u. u\<lparr>us_deleted_at := Some now\<rparr>) d"
  by (auto simp: delete_user_def get_user_def bindE_eq_Inr repo_soft_delete_def has_soft_delete_def
      SysUser_model_def set_user_def split: option.splits)

lemma delete_user_inv: "accounts_inv d \<Longrightarrow> delete_user now k d = Inr d' \<Longrightarrow> accounts_inv d'"
  by (auto simp: delete_user_eq intro!: accounts_inv_touch)

section \<open>Every reachable state of the accounts\<close>

datatype account_request =
    CreateUser string UserCreate
  | UpdateUser string ident UserUpdate
  | DeleteUser ident
  | Login string string "string option" "string option" "string option"

fun account_transaction :: "security \<Rightarrow> datetime \<Rightarrow> account_request \<Rightarrow> db \<Rightarrow> db" where
  "account_transaction sec now (CreateUser salt data) d =
     (case create_user sec salt data d of Inl _ \<Rightarrow> d | Inr (_, d') \<Rightarrow> d')"
| "account_transaction sec now (UpdateUser salt k data) d =
     (case update_user sec salt k data d of Inl _ \<Rightarrow> d | Inr d' \<Rightarrow> d')"
| "account_transaction sec now (DeleteUser k) d = (case delete_user now k d of Inl _ \<Rightarrow> d | Inr d' \<Rightarrow> d')"
| "account_transaction sec now (Login name password ip ua rid) d = snd (login sec now name password ip ua rid d)"

text \<open>Databases reached from one that satisfies the invariant, such as the seeded one.\<close>

inductive account_reachable :: "security \<Rightarrow> db \<Rightarrow> db \<Rightarrow> bool" for sec d0 where
  start: "account_reachable sec d0 d0"
| step: "account_reachable sec d0 d \<Longrightarrow> account_reachable sec d0 (account_transaction sec now q d)"

lemma account_transaction_inv: "accounts_inv d \<Longrightarrow> accounts_inv (account_transaction sec now q d)"
  by (cases q) (auto simp: login_inv split: sum.splits prod.splits
      dest: create_user_inv update_user_inv delete_user_inv)

lemma account_reachable_inv: "account_reachable sec d0 d \<Longrightarrow> accounts_inv d0 \<Longrightarrow> accounts_inv d"
  by (induction rule: account_reachable.induct) (simp_all add: account_transaction_inv)

text \<open>
  No sequence of creations, updates, deletions and logins breaks the account tables: user names
  are unique, e-mail addresses are unique where there is one, a user is bound to a role at most once,
  and every binding names a user and a role that exist.
\<close>

theorem accounts_stay_consistent:
  assumes "accounts_inv d0" and "account_reachable sec d0 d"
  shows "distinct (map us_username (users d)) \<and>
    distinct (map us_email (filter (\<lambda>u. us_email u \<noteq> None) (users d))) \<and>
    distinct (map role_pair (sys_user_role d)) \<and>
    (\<forall>b \<in> set (sys_user_role d). (\<exists>u \<in> set (users d). us_id u = ur_user_id b) \<and>
       (\<exists>r \<in> set (roles d). rl_id r = ur_role_id b))"
  using account_reachable_inv [OF assms(2,1)] by (force simp: accounts_inv_def uk_sys_user_def)

section \<open>Login\<close>


section \<open>Tokens\<close>

text \<open>The documented behaviour of \<open>jwt.encode\<close> and \<open>jwt.decode\<close> with the same secret.\<close>

definition jwt_contract :: "security \<Rightarrow> bool" where
  "jwt_contract sec \<longleftrightarrow>
     (\<forall>p now. sec_decode sec now (sec_encode sec p) = (if now < jp_exp p then Some (Some (jp_sub p)) else None))"

lemma issued_token:
  assumes "jwt_contract sec" "0 \<le> k" "k < 10 ^ int_max_str_digits"
  shows "decode_access_token sec t (create_access_token sec now k) =
    (if now + timedelta_seconds (60 * JWT_EXPIRE_MINUTES sec) \<le> t then Inl unauthorized else Inr k)"
  using assms(1) py_int_py_str [OF assms(2,3)]
  by (simp add: decode_access_token_def create_access_token_def jwt_contract_def)


section \<open>The guard of the administration\<close>

definition bound_to :: "db \<Rightarrow> ident \<Rightarrow> string \<Rightarrow> bool" where
  "bound_to d user_id code \<longleftrightarrow> (\<exists>r \<in> set (roles d). \<exists>b \<in> set (sys_user_role d).
     rl_role_code r = code \<and> ur_role_id b = rl_id r \<and> ur_user_id b = user_id)"

lemma get_current_roles_set: "code \<in> set (get_current_roles d u) \<longleftrightarrow> bound_to d (us_id u) code"
  by (force simp: get_current_roles_def get_roles_by_user_def bound_to_def)

lemma get_current_user_Inr:
  assumes "get_current_user sec t token d = Inr v"
  shows "user_get d (us_id v) = Some v" "us_status v = 1"
proof -
  from assms obtain a where a: "user_get d a = Some v" "us_status v = 1"
    by (auto simp: get_current_user_def bindE_eq_Inr split: option.splits if_splits)
  with user_get_in [OF a(1)] show "user_get d (us_id v) = Some v" "us_status v = 1" by simp_all
qed

lemma require_roles_Inr:
  "require_roles codes sec now token d = Inr u \<longleftrightarrow>
     get_current_user sec now token d = Inr u \<and> (\<exists>code \<in> set codes. bound_to d (us_id u) code)"
  by (auto simp: require_roles_def bindE_eq_Inr get_current_roles_set [symmetric])

text \<open>
  Only administrators manage users: unless the token stands for an enabled account that is bound
  to the role SYSTEM_ADMIN, every endpoint of users and roles answers 401 or 403 and changes nothing,
  whatever the request holds.
\<close>

theorem user_management_is_guarded:
  assumes "\<not> (\<exists>u. get_current_user sec now token d = Inr u \<and> bound_to d (us_id u) ''SYSTEM_ADMIN'')"
  shows "\<exists>e \<in> {AppException UNAUTHORIZED 401, AppException ACCOUNT_DISABLED 401, AppException FORBIDDEN 403}.
    post_user sec now token salt data d = Inl e \<and> put_user sec now token salt k upd d = Inl e \<and>
    remove_user sec now token k d = Inl e \<and> get_user_page sec now token p n name st d = Inl e \<and>
    list_roles sec now token d = Inl e"
proof (cases "get_current_user sec now token d")
  case (Inl e)
  then have "e \<in> {AppException UNAUTHORIZED 401, AppException ACCOUNT_DISABLED 401}"
    by (auto simp: get_current_user_def bindE_eq_Inl decode_access_token_def unauthorized_def
        split: option.splits if_splits)
  moreover have "admin_only sec now token d = Inl e"
    using Inl by (simp add: admin_only_def require_roles_def)
  ultimately show ?thesis
    by (intro bexI [of _ e]) (auto simp: post_user_def put_user_def remove_user_def get_user_page_def list_roles_def)
next
  case (Inr u)
  with assms have "\<not> bound_to d (us_id u) ''SYSTEM_ADMIN''" by blast
  then have "set [''SYSTEM_ADMIN''] \<inter> set (get_current_roles d u) = {}"
    by (simp add: get_current_roles_set)
  then have "admin_only sec now token d = Inl (AppException FORBIDDEN 403)"
    using Inr by (simp add: admin_only_def require_roles_def)
  then show ?thesis
    by (intro bexI [of _ "AppException FORBIDDEN 403"])
      (auto simp: post_user_def put_user_def remove_user_def get_user_page_def list_roles_def)
qed

section \<open>Deletion\<close>

lemma username_unique:
  assumes "accounts_inv d" and "u \<in> set (users d)" and "v \<in> set (users d)" and "us_username u = us_username v"
  shows "u = v"
  using assms by (auto simp: accounts_inv_def uk_sys_user_def distinct_map inj_on_def)

text \<open>
  A deletion takes the account away at once and for good: the name can no longer log in, no token
  stands for the account any more, and the name is not free again. The creation of a user of that name
  passes the check for taken names and then violates the unique key, which the soft-deleted row still
  occupies.
\<close>

theorem deleted_user_spec:
  assumes "accounts_inv d" and "user_get d k = Some u" and "delete_user now k d = Inr d'"
  shows "fst (login sec t (us_username u) password ip ua rid d') = Inl (AppException INVALID_CREDENTIALS 401) \<and>
    (\<forall>token v. get_current_user sec t token d' = Inr v \<longrightarrow> us_id v \<noteq> k) \<and>
    (\<forall>data salt. uc_username data = us_username u \<and> \<not> truthy (uc_email data) \<and> uc_role_ids data = [] \<longrightarrow>
       create_user sec salt data d' = Inl IntegrityError)"
proof -
  let ?f = "\<lambda>u. u\<lparr>us_deleted_at := Some now\<rparr>"
  from assms(3) have d': "d' = set_user k ?f d" by (simp add: delete_user_eq)
  note u = user_get_in [OF assms(2)]
  have users: "users d' = map (\<lambda>u. if us_id u = k then ?f u else u) (users d)"
    by (simp add: d' set_user_def repo_update_def)
  have gone: "us_deleted_at v \<noteq> None" if "v \<in> set (users d')" "us_username v = us_username u \<or> us_id v = k" for v
  proof -
    from that(1) obtain w where w: "w \<in> set (users d)" "v = (if us_id w = k then ?f w else w)"
      by (auto simp: users)
    have "us_username v = us_username w" "us_id v = us_id w" using w(2) by simp_all
    with that(2) consider "us_username w = us_username u" | "us_id w = k" by auto
    then have "us_id w = k"
    proof cases
      case 1
      with username_unique [OF assms(1) w(1)] u have "w = u" by blast
      with u show ?thesis by simp
    qed
    with w show ?thesis by simp
  qed
  have none: "get_by_username d' (us_username u) = None"
    using gone by (auto simp: get_by_username_def repo_get_by_def find_None_iff apply_soft_delete_def)
  have "user_get d' k = None"
    using gone by (auto simp: user_get_def repo_get_None_iff apply_soft_delete_def)
  then have "get_current_user sec t token d' = Inr v \<Longrightarrow> us_id v \<noteq> k" for token v
    using get_current_user_Inr(1) [of sec t token d' v] by auto
  moreover have "create_user sec salt data d' = Inl IntegrityError"
    if "uc_username data = us_username u" "\<not> truthy (uc_email data)" "uc_role_ids data = []" for data salt
  proof -
    have "us_username u \<in> us_username ` set (users d')"
    proof -
      have "?f u \<in> set (users d')" using u by (force simp: users)
      then show ?thesis by (intro image_eqI [where x = "?f u"]) simp_all
    qed
    then have "\<not> uk_sys_user (users d' @ [new_user data h j])" for h j
      using that(1) by (auto simp: uk_sys_user_def new_user_def)
    with that none show ?thesis
      by (simp add: create_user_def validate_roles_def insert_user_def flush_user_def repo_create_def)
  qed
  moreover have "fst (login sec t (us_username u) password ip ua rid d') = Inl (AppException INVALID_CREDENTIALS 401)"
    by (simp add: login_def none)
  ultimately show ?thesis by blast
qed

section \<open>A small concrete state\<close>

text \<open>
  Toy primitives that meet the contracts: a hash is the password, a token spells the sign and the
  value of its expiry in front of the subject.
\<close>

definition sample_security :: security where
  "sample_security = \<lparr>sec_hash = (\<lambda>salt p. p), sec_verify = (\<lambda>p h. p = h),
     sec_encode = (\<lambda>p. (if jp_exp p < 0 then CHR ''-'' else CHR ''+'') #
       replicate (nat \<bar>jp_exp p\<bar>) (CHR ''e'') @ CHR '':'' # jp_sub p),
     sec_decode = (\<lambda>now token.
       let n = int (length (takeWhile (\<lambda>c. c = CHR ''e'') (tl token)))
       in if now < (if hd token = CHR ''-'' then - n else n)
          then Some (Some (tl (dropWhile (\<lambda>c. c = CHR ''e'') (tl token)))) else None),
     JWT_EXPIRE_MINUTES = 120\<rparr>"

lemma sample_jwt: "jwt_contract sample_security"
proof -
  have *: "takeWhile (\<lambda>c. c = CHR ''e'') (replicate n (CHR ''e'') @ CHR '':'' # s) = replicate n (CHR ''e'')"
    "dropWhile (\<lambda>c. c = CHR ''e'') (replicate n (CHR ''e'') @ CHR '':'' # s) = CHR '':'' # s" for n s
    by (induction n) simp_all
  show ?thesis
    unfolding jwt_contract_def by (simp add: sample_security_def * Let_def del: replicate.simps)
qed

definition admin_role :: SysRole where
  "admin_role = \<lparr>rl_id = 1, rl_role_code = ''SYSTEM_ADMIN'', rl_role_name = ''admin'', rl_description = None, rl_status = 1\<rparr>"

definition accounts_db :: db where
  "accounts_db = empty_db\<lparr>sys_role := \<lparr>rows = [admin_role], next_id = 2\<rparr>\<rparr>"

definition ann :: UserCreate where
  "ann = \<lparr>uc_username = ''ann'', uc_password = ''secret'', uc_nickname = None, uc_email = Some ''a@x'', uc_phone = None,
     uc_role_ids = [1]\<rparr>"

definition ann_db :: db where
  "ann_db = account_transaction sample_security 5 (CreateUser [] ann) accounts_db"

definition ann_row :: SysUser where
  "ann_row = new_user ann ''secret'' 1"

lemma accounts_db_inv: "accounts_inv accounts_db"
  by (simp add: accounts_inv_def accounts_db_def admin_role_def tbl_wf_def uk_sys_user_def empty_db_def empty_table_def)

lemma ann_reachable: "account_reachable sample_security accounts_db ann_db"
  unfolding ann_db_def by (rule account_reachable.step [OF account_reachable.start])

lemma ann_state:
  "users ann_db = [ann_row]" "user_get ann_db 1 = Some ann_row" "get_by_username ann_db ''ann'' = Some ann_row"
  by code_simp+

lemma accounts_stay_consistent_witness:
  "users ann_db = [ann_row] \<and> distinct (map us_username (users ann_db)) \<and> distinct (map role_pair (sys_user_role ann_db))"
  using accounts_stay_consistent [OF accounts_db_inv ann_reachable] ann_state(1) by simp

lemma ann_login:
  "\<exists>d. login sample_security 5 ''ann'' ''secret'' None None None ann_db =
     (Inr \<lparr>to_access_token = create_access_token sample_security 5 1, to_expires_in = 7200\<rparr>, d)"
  by (simp add: login_def ann_state ann_row_def new_user_def verify_password_def Let_def)
    (simp add: sample_security_def)

lemma ann_key: "0 \<le> us_id ann_row" "us_id ann_row < 10 ^ int_max_str_digits" "us_id ann_row = 1" "us_status ann_row = 1"
proof -
  have "(1 :: int) < 10 ^ int_max_str_digits" by (rule one_less_power) (simp_all add: int_max_str_digits_def)
  then show "0 \<le> us_id ann_row" "us_id ann_row < 10 ^ int_max_str_digits" "us_id ann_row = 1" "us_status ann_row = 1"
    by (simp_all add: ann_row_def new_user_def)
qed

lemma ann_session: "get_current_user sample_security 10 (create_access_token sample_security 5 1) ann_db = Inr ann_row"
  using issued_token [OF sample_jwt ann_key(1,2), unfolded ann_key(3), of 10 5]
  by (simp add: get_current_user_def ann_state(2) ann_key(4) timedelta_seconds_def sample_security_def)


lemma user_management_is_guarded_witness:
  "\<exists>e. post_user sample_security 10 [] [] ann accounts_db = Inl e"
proof -
  have "user_get accounts_db k = None" for k
    by (simp add: user_get_def repo_get_def accounts_db_def empty_db_def empty_table_def)
  then have "\<not> (\<exists>u. get_current_user sample_security 10 [] accounts_db = Inr u \<and> bound_to accounts_db (us_id u) ''SYSTEM_ADMIN'')"
    by (auto simp: get_current_user_def bindE_eq_Inr)
  from user_management_is_guarded [OF this, of "[]" ann 0] show ?thesis by blast
qed

lemma deleted_user_spec_witness:
  "create_user sample_security [] (ann\<lparr>uc_email := None, uc_role_ids := []\<rparr>)
     (account_transaction sample_security 9 (DeleteUser 1) ann_db) = Inl IntegrityError"
proof -
  have inv: "accounts_inv ann_db" by (rule account_reachable_inv [OF ann_reachable accounts_db_inv])
  have del: "delete_user 9 1 ann_db = Inr (account_transaction sample_security 9 (DeleteUser 1) ann_db)"
    by (simp add: delete_user_eq [THEN iffD2] ann_state(2) split: sum.splits)
  from deleted_user_spec [OF inv ann_state(2) del] show ?thesis
    by (simp add: ann_row_def new_user_def ann_def)
qed

end
