(* ===== verification/Metrics.thy ===== *)
theory Metrics
  imports Alert_Engine Upsert
begin

text \<open>
  Metrics: the queries and the daily archive of \<open>backend/app/repositories/metric_repository.py\<close>, and
  the monitoring centre (\<open>backend/app/services/monitor_service.py\<close>) with its buckets and rates. The
  database's \<open>AVG\<close>, \<open>MAX\<close> and \<open>MIN\<close> skip \<open>NULL\<close>; the session's time zone is UTC. The rounding of
  a \<open>NUMERIC\<close> column is left out.
\<close>

section \<open>Aggregates of the database\<close>

definition present :: "('a \<Rightarrow> 'b option) \<Rightarrow> 'a list \<Rightarrow> 'b list" where
  "present f xs = map (\<lambda>x. the (f x)) (filter (\<lambda>x. f x \<noteq> None) xs)"

definition sql_avg :: "('a \<Rightarrow> rat option) \<Rightarrow> 'a list \<Rightarrow> rat option" where
  "sql_avg f xs = (let vs = present f xs in if vs = [] then None else Some (sum_list vs / of_nat (length vs)))"

definition sql_max :: "('a \<Rightarrow> 'b::linorder option) \<Rightarrow> 'a list \<Rightarrow> 'b option" where
  "sql_max f xs = (let vs = present f xs in if vs = [] then None else Some (fold max vs (hd vs)))"

definition sql_min :: "('a \<Rightarrow> 'b::linorder option) \<Rightarrow> 'a list \<Rightarrow> 'b option" where
  "sql_min f xs = (let vs = present f xs in if vs = [] then None else Some (fold min vs (hd vs)))"

definition connections :: "MonitorServerMetric \<Rightarrow> rat option" where
  "connections m = map_option of_int (mt_tcp_connections m)"

section \<open>Queries\<close>

abbreviation metrics :: "db \<Rightarrow> MonitorServerMetric list" where
  "metrics d \<equiv> rows (monitor_server_metric d)"

abbreviation daily_metrics :: "db \<Rightarrow> MonitorServerMetricDaily list" where
  "daily_metrics d \<equiv> rows (monitor_server_metric_daily d)"

text \<open>\<open>ORDER BY collected_at DESC\<close>; rows with equal stamps stay in key order.\<close>

definition newest_first :: "MonitorServerMetric list \<Rightarrow> MonitorServerMetric list" where
  "newest_first ms = sort_key (\<lambda>m. - mt_collected_at m) ms"

definition metric_get_latest :: "db \<Rightarrow> ident \<Rightarrow> MonitorServerMetric option" where
  "metric_get_latest d server_id =
     (case newest_first (filter (\<lambda>m. mt_server_id m = server_id) (metrics d)) of [] \<Rightarrow> None | m # _ \<Rightarrow> Some m)"

definition in_range :: "ident \<Rightarrow> datetime \<Rightarrow> datetime \<Rightarrow> MonitorServerMetric \<Rightarrow> bool" where
  "in_range server_id start end m \<longleftrightarrow>
     mt_server_id m = server_id \<and> start \<le> mt_collected_at m \<and> mt_collected_at m \<le> end"

definition metric_get_history ::
  "db \<Rightarrow> ident \<Rightarrow> datetime \<Rightarrow> datetime \<Rightarrow> int \<Rightarrow> int \<Rightarrow> (int \<times> MonitorServerMetric list) result" where
  "metric_get_history d server_id start end page page_size =
     (let base = filter (in_range server_id start end) (metrics d)
      in bindE (paginate page page_size (newest_first base)) (\<lambda>items. Inr (int (length base), items)))"

record bucket_value =
  bv_avg :: "rat option"
  bv_max :: "rat option"
  bv_min :: "rat option"

record summary_row =
  sm_bucket :: datetime
  sm_cpu_usage :: bucket_value
  sm_memory_usage :: bucket_value
  sm_disk_usage :: bucket_value
  sm_load_1m :: bucket_value
  sm_load_5m :: bucket_value
  sm_load_15m :: bucket_value
  sm_tcp_connections :: bucket_value
  sm_network_in_max :: "int option"
  sm_network_out_max :: "int option"

definition bucket_of :: "int \<Rightarrow> datetime \<Rightarrow> datetime" where
  "bucket_of bucket_seconds t = t div timedelta_seconds bucket_seconds * timedelta_seconds bucket_seconds"

definition aggregate_value :: "(MonitorServerMetric \<Rightarrow> rat option) \<Rightarrow> MonitorServerMetric list \<Rightarrow> bucket_value" where
  "aggregate_value f ms = \<lparr>bv_avg = sql_avg f ms, bv_max = sql_max f ms, bv_min = sql_min f ms\<rparr>"

definition metric_get_summary ::
  "db \<Rightarrow> ident \<Rightarrow> datetime \<Rightarrow> datetime \<Rightarrow> int \<Rightarrow> summary_row list" where
  "metric_get_summary d server_id start end bucket_seconds =
     (let base = filter (in_range server_id start end) (metrics d);
          buckets = sort (remdups (map (\<lambda>m. bucket_of bucket_seconds (mt_collected_at m)) base))
      in map (\<lambda>b. let ms = filter (\<lambda>m. bucket_of bucket_seconds (mt_collected_at m) = b) base
           in \<lparr>sm_bucket = b, sm_cpu_usage = aggregate_value mt_cpu_usage ms,
              sm_memory_usage = aggregate_value mt_memory_usage ms,
              sm_disk_usage = aggregate_value mt_disk_usage ms,
              sm_load_1m = aggregate_value mt_load_1m ms, sm_load_5m = aggregate_value mt_load_5m ms,
              sm_load_15m = aggregate_value mt_load_15m ms,
              sm_tcp_connections = aggregate_value connections ms,
              sm_network_in_max = sql_max mt_network_in_bytes ms,
              sm_network_out_max = sql_max mt_network_out_bytes ms\<rparr>) buckets)"

text \<open>Python's \<open>round(x, 2)\<close>.\<close>

definition round2 :: "rat \<Rightarrow> rat" where
  "round2 x = of_int (round_half_even (x * 100)) / 100"

definition get_server_usage_avg :: "db \<Rightarrow> rat option \<times> rat option \<times> rat option" where
  "get_server_usage_avg d =
     (let latest = filter (\<lambda>m. \<forall>x \<in> set (metrics d). mt_server_id x = mt_server_id m \<longrightarrow>
            mt_collected_at x \<le> mt_collected_at m) (metrics d)
      in (map_option round2 (sql_avg mt_cpu_usage latest), map_option round2 (sql_avg mt_memory_usage latest),
          map_option round2 (sql_avg mt_disk_usage latest)))"

section \<open>The daily archive\<close>

text \<open>\<open>DATE(collected_at)\<close>: the day as the number of days since the epoch.\<close>

definition metric_date :: "datetime \<Rightarrow> int" where
  "metric_date t = t div timedelta_days 1"

definition metric_key :: "MonitorServerMetric \<Rightarrow> ident \<times> int" where
  "metric_key m = (mt_server_id m, metric_date (mt_collected_at m))"

definition daily_key :: "MonitorServerMetricDaily \<Rightarrow> ident \<times> int" where
  "daily_key r = (md_server_id r, md_metric_date r)"

text \<open>One group of the \<open>GROUP BY\<close> as the row of values; the key of the row is assigned on insertion.\<close>

definition daily_values :: "MonitorServerMetric list \<Rightarrow> ident \<times> int \<Rightarrow> MonitorServerMetricDaily" where
  "daily_values ms k = (let g = filter (\<lambda>m. metric_key m = k) ms in
     \<lparr>md_id = 0, md_server_id = fst k, md_metric_date = snd k,
      md_cpu_usage_avg = sql_avg mt_cpu_usage g, md_cpu_usage_max = sql_max mt_cpu_usage g,
      md_memory_usage_avg = sql_avg mt_memory_usage g, md_memory_usage_max = sql_max mt_memory_usage g,
      md_disk_usage_avg = sql_avg mt_disk_usage g, md_disk_usage_max = sql_max mt_disk_usage g,
      md_load_1m_avg = sql_avg mt_load_1m g, md_load_1m_max = sql_max mt_load_1m g,
      md_tcp_connections_avg = sql_avg connections g, md_tcp_connections_max = sql_max connections g,
      md_sample_count = int (length g)\<rparr>)"

text \<open>\<open>INSERT ... ON DUPLICATE KEY UPDATE\<close> of one group.\<close>

definition upsert_daily :: "MonitorServerMetricDaily \<Rightarrow> db \<Rightarrow> db" where
  "upsert_daily values d = d\<lparr>monitor_server_metric_daily :=
     upsert_row daily_key md_id (\<lambda>v r. v\<lparr>md_id := md_id r\<rparr>) (\<lambda>v k. v\<lparr>md_id := k\<rparr>) (daily_key values) values
       (monitor_server_metric_daily d)\<rparr>"

definition aggregate_daily :: "datetime \<Rightarrow> db \<Rightarrow> int \<times> db" where
  "aggregate_daily cutoff d =
     (let old = filter (\<lambda>m. mt_collected_at m < cutoff) (metrics d);
          groups = remdups (map metric_key old)
      in (int (length groups), fold (\<lambda>k. upsert_daily (daily_values old k)) groups d))"

definition delete_older_than :: "datetime \<Rightarrow> int \<Rightarrow> db \<Rightarrow> int \<times> db" where
  "delete_older_than now days d =
     (let old = (\<lambda>m. mt_collected_at m < now - timedelta_days days)
      in (int (length (filter old (metrics d))),
          d\<lparr>monitor_server_metric := tbl_delete old (monitor_server_metric d)\<rparr>))"

definition delete_daily_before :: "datetime \<Rightarrow> int \<Rightarrow> db \<Rightarrow> int \<times> db" where
  "delete_daily_before now days d =
     (let old = (\<lambda>r. md_metric_date r < metric_date (now - timedelta_days days))
      in (int (length (filter old (daily_metrics d))),
          d\<lparr>monitor_server_metric_daily := tbl_delete old (monitor_server_metric_daily d)\<rparr>))"

section \<open>The monitoring centre\<close>

definition monitored_server :: "db \<Rightarrow> ident \<Rightarrow> OpsServer result" where
  "monitored_server d server_id =
     (case server_get d server_id of None \<Rightarrow> Inl (AppException SERVER_NOT_FOUND 404) | Some s \<Rightarrow> Inr s)"

definition monitor_latest :: "db \<Rightarrow> ident \<Rightarrow> (OpsServer \<times> MonitorServerMetric option) result" where
  "monitor_latest d server_id =
     bindE (monitored_server d server_id) (\<lambda>s. Inr (s, metric_get_latest d server_id))"

definition monitor_history ::
  "db \<Rightarrow> ident \<Rightarrow> datetime \<Rightarrow> datetime \<Rightarrow> int \<Rightarrow> int \<Rightarrow> (int \<times> MonitorServerMetric list) result" where
  "monitor_history d server_id start end page page_size =
     bindE (monitored_server d server_id) (\<lambda>_. metric_get_history d server_id start end page page_size)"

text \<open>\<open>RANGE_CONFIG\<close>: the seconds of a range and of its buckets.\<close>

definition RANGE_CONFIG :: "string \<Rightarrow> (int \<times> int) option" where
  "RANGE_CONFIG key =
     (if key = ''1h'' then Some (3600, 60) else if key = ''6h'' then Some (21600, 60)
      else if key = ''24h'' then Some (86400, 300) else if key = ''7d'' then Some (604800, 3600) else None)"

definition bucket_dict :: "bucket_value \<Rightarrow> bucket_value option" where
  "bucket_dict v =
     (if bv_avg v = None \<and> bv_max v = None \<and> bv_min v = None then None
      else Some \<lparr>bv_avg = map_option round2 (bv_avg v), bv_max = map_option round2 (bv_max v),
                 bv_min = map_option round2 (bv_min v)\<rparr>)"

record MetricBucket =
  mb_time :: datetime
  mb_cpu_usage :: "bucket_value option"
  mb_memory_usage :: "bucket_value option"
  mb_disk_usage :: "bucket_value option"
  mb_load_1m :: "bucket_value option"
  mb_load_5m :: "bucket_value option"
  mb_load_15m :: "bucket_value option"
  mb_tcp_connections :: "bucket_value option"
  mb_network_in_rate :: rat
  mb_network_out_rate :: rat

record MetricSummary =
  ms_range :: string
  ms_bucket_seconds :: int
  ms_start :: datetime
  ms_end :: datetime
  ms_points :: "MetricBucket list"

text \<open>The rate of one point in MB/s from the sample of the point before it.\<close>

definition network_rate :: "int \<Rightarrow> int option \<Rightarrow> int option \<Rightarrow> rat" where
  "network_rate bucket prev current =
     (case (prev, current) of
        (Some p, Some c) \<Rightarrow> round4 (of_int (max 0 (c - p)) / of_int bucket / of_int (1024 * 1024))
      | _ \<Rightarrow> 0)"

fun summary_points :: "int \<Rightarrow> int option \<Rightarrow> int option \<Rightarrow> summary_row list \<Rightarrow> MetricBucket list" where
  "summary_points bucket prev_in prev_out [] = []"
| "summary_points bucket prev_in prev_out (row # rs) =
     \<lparr>mb_time = sm_bucket row, mb_cpu_usage = bucket_dict (sm_cpu_usage row),
      mb_memory_usage = bucket_dict (sm_memory_usage row), mb_disk_usage = bucket_dict (sm_disk_usage row),
      mb_load_1m = bucket_dict (sm_load_1m row), mb_load_5m = bucket_dict (sm_load_5m row),
      mb_load_15m = bucket_dict (sm_load_15m row), mb_tcp_connections = bucket_dict (sm_tcp_connections row),
      mb_network_in_rate = network_rate bucket prev_in (sm_network_in_max row),
      mb_network_out_rate = network_rate bucket prev_out (sm_network_out_max row)\<rparr>
     # summary_points bucket (sm_network_in_max row) (sm_network_out_max row) rs"

definition monitor_summary :: "datetime \<Rightarrow> db \<Rightarrow> ident \<Rightarrow> string \<Rightarrow> MetricSummary result" where
  "monitor_summary now d server_id range_key =
     bindE (monitored_server d server_id) (\<lambda>server.
       case RANGE_CONFIG range_key of
         None \<Rightarrow> Inl (AppException BAD_REQUEST 400)
       | Some (seconds, bucket) \<Rightarrow>
           (let end = now; start = end - timedelta_seconds seconds
            in Inr \<lparr>ms_range = range_key, ms_bucket_seconds = bucket, ms_start = start, ms_end = end,
                 ms_points = summary_points bucket None None
                   (metric_get_summary d (sv_id server) start end bucket)\<rparr>))"

definition monitor_assets :: "db \<Rightarrow> ident \<Rightarrow> (OpsServerDisk list \<times> OpsServerNetwork list) result" where
  "monitor_assets d server_id =
     bindE (monitored_server d server_id) (\<lambda>server.
       Inr (filter (\<lambda>k. dk_server_id k = sv_id server \<and> dk_status k = 1) (disks d),
            filter (\<lambda>n. nw_server_id n = sv_id server \<and> nw_status n = 1) (networks d)))"

record overview =
  ov_server_stats :: "agent_state option \<Rightarrow> int"
  ov_avg_usage :: "rat option \<times> rat option \<times> rat option"
  ov_active_alerts :: int
  ov_servers :: "(OpsServer \<times> MonitorServerMetric option) list"

definition monitor_overview :: "db \<Rightarrow> overview" where
  "monitor_overview d =
     (let servers = list_active d;
          latest_map = get_latest_map d (map sv_id servers)
      in \<lparr>ov_server_stats = get_status_counts d, ov_avg_usage = get_server_usage_avg d,
          ov_active_alerts = count_active d,
          ov_servers = rev (sort_key (\<lambda>(s, _). sv_id s) (map (\<lambda>s. (s, latest_map (sv_id s))) servers))\<rparr>)"

section \<open>The archive as a map\<close>

interpretation daily: upsert daily_key md_id "\<lambda>r. r\<lparr>md_id := 0\<rparr>" "\<lambda>v r. v\<lparr>md_id := md_id r\<rparr>"
  "\<lambda>v k. v\<lparr>md_id := k\<rparr>" daily_key "\<lambda>v _. v\<lparr>md_id := 0\<rparr>"
  by unfold_locales (simp_all add: daily_key_def)

lemma upsert_daily_put: "upsert_daily v d =
    d\<lparr>monitor_server_metric_daily := daily.put v (monitor_server_metric_daily d)\<rparr>"
  unfolding upsert_daily_def daily.put_def ..

lemma fold_upsert_daily:
  "fold (\<lambda>k. upsert_daily (f k)) ks d =
     d\<lparr>monitor_server_metric_daily := fold daily.put (map f ks) (monitor_server_metric_daily d)\<rparr>"
  by (induction ks arbitrary: d) (simp_all add: upsert_daily_put)

lemma daily_key_values [simp]: "daily_key (daily_values ms k) = k"
  by (simp add: daily_values_def daily_key_def Let_def)

section \<open>Rounding\<close>

lemma round_half_even_bounds: "\<lfloor>x\<rfloor> \<le> round_half_even x" "round_half_even x \<le> \<lfloor>x\<rfloor> + 1"
  by (simp_all add: round_half_even_def Let_def)

lemma round_half_even_mono:
  assumes "x \<le> y"
  shows "round_half_even x \<le> round_half_even y"
proof (cases "\<lfloor>x\<rfloor> = \<lfloor>y\<rfloor>")
  case True
  have "x - of_int \<lfloor>y\<rfloor> \<le> y - of_int \<lfloor>y\<rfloor>" using assms by simp
  then show ?thesis by (auto simp: round_half_even_def Let_def True)
next
  case False
  with floor_mono [OF assms] have "\<lfloor>x\<rfloor> + 1 \<le> \<lfloor>y\<rfloor>" by linarith
  with round_half_even_bounds [of x] round_half_even_bounds [of y] show ?thesis by linarith
qed

lemma round2_mono: "x \<le> y \<Longrightarrow> round2 x \<le> round2 y"
  by (auto simp: round2_def intro!: divide_right_mono round_half_even_mono)

lemma round4_nonneg: "0 \<le> x \<Longrightarrow> 0 \<le> round4 x"
proof -
  assume "0 \<le> x"
  then have "0 \<le> \<lfloor>x * 10000\<rfloor>" by simp
  with round_half_even_bounds(1) [of "x * 10000"] have "0 \<le> round_half_even (x * 10000)" by linarith
  then show ?thesis by (simp add: round4_def)
qed

lemma round2_nonneg: "0 \<le> x \<Longrightarrow> 0 \<le> round2 x"
  using round2_mono [of 0 x] by (simp add: round2_def round_half_even_def)

lemma round2_percentage: "0 \<le> x \<Longrightarrow> x \<le> 100 \<Longrightarrow> 0 \<le> round2 x \<and> round2 x \<le> 100"
  using round2_mono [of x 100] round2_nonneg [of x] by (simp add: round2_def round_half_even_def)

end
