(* ===== verification/Scheduler.thy ===== *)
theory Scheduler
  imports Metrics Task_Service
begin

text \<open>
  The background scheduler: the lock that lets one process run a job
  (\<open>backend/app/core/scheduler_lock.py\<close>) and the jobs with their intervals
  (\<open>backend/app/core/scheduler.py\<close>). Redis is a parameter: \<open>SET NX PX\<close>, \<open>GET\<close> and \<open>DEL\<close>, each of
  which may fail; the Lua script of the release is the function \<open>release_script\<close>. The token of
  \<open>uuid4\<close> is an argument. APScheduler is only told the jobs.
\<close>

section \<open>The lock\<close>

record 'r redis_ops =
  set_nx_px :: "datetime \<Rightarrow> string \<Rightarrow> string \<Rightarrow> int \<Rightarrow> 'r \<Rightarrow> (bool \<times> 'r) option"
  redis_get :: "datetime \<Rightarrow> string \<Rightarrow> 'r \<Rightarrow> string option"
  redis_del :: "datetime \<Rightarrow> string \<Rightarrow> 'r \<Rightarrow> 'r"
  redis_up :: "'r \<Rightarrow> bool"

definition release_script :: "'r redis_ops \<Rightarrow> datetime \<Rightarrow> string \<Rightarrow> string \<Rightarrow> 'r \<Rightarrow> 'r" where
  "release_script ops now key token r =
     (if redis_get ops now key r = Some token then redis_del ops now key r else r)"

text \<open>\<open>_release\<close>: a \<open>RedisError\<close> is logged and left to the time-out of the lock.\<close>

definition release :: "'r redis_ops \<Rightarrow> datetime \<Rightarrow> string \<Rightarrow> string \<Rightarrow> 'r \<Rightarrow> 'r" where
  "release ops now key token r = (if redis_up ops r then release_script ops now key token r else r)"

record lock_settings =
  SCHEDULER_LOCK_ENABLED :: bool
  SCHEDULER_LOCK_TTL_SECONDS :: int

definition lock_key :: "string \<Rightarrow> string" where
  "lock_key job_name = ''sched:lock:'' @ job_name"

definition lock_ms :: "int \<Rightarrow> int" where
  "lock_ms ttl_seconds = max 1 ttl_seconds * 1000"

text \<open>
  What \<open>scheduler_lock\<close> yields, and whether leaving the block releases a lock: without locking the
  job runs and there is nothing to release.
\<close>

datatype lock_outcome = RunUnlocked | RunLocked | Skip

definition scheduler_lock ::
  "'r redis_ops \<Rightarrow> lock_settings \<Rightarrow> datetime \<Rightarrow> string \<Rightarrow> string \<Rightarrow> int \<Rightarrow> 'r \<Rightarrow> lock_outcome \<times> 'r" where
  "scheduler_lock ops cfg now job_name token ttl_seconds r =
     (if \<not> SCHEDULER_LOCK_ENABLED cfg then (RunUnlocked, r)
      else case set_nx_px ops now (lock_key job_name) token (lock_ms ttl_seconds) r of
        None \<Rightarrow> (Skip, r)
      | Some (acquired, r') \<Rightarrow> (if acquired then RunLocked else Skip, r'))"

text \<open>
  \<open>run_with_lock\<close> of one process: the lock is taken at \<open>t1\<close>, the job runs, the lock is released at \<open>t2\<close>.
\<close>

definition run_with_lock ::
  "'r redis_ops \<Rightarrow> lock_settings \<Rightarrow> datetime \<Rightarrow> datetime \<Rightarrow> string \<Rightarrow> string \<Rightarrow> int \<Rightarrow> ('d \<Rightarrow> 'd) \<Rightarrow> 'd \<times> 'r \<Rightarrow> 'd \<times> 'r" where
  "run_with_lock ops cfg t1 t2 job_name token ttl_seconds fn s =
     (case s of (d, r) \<Rightarrow>
        (case scheduler_lock ops cfg t1 job_name token ttl_seconds r of
           (Skip, r') \<Rightarrow> (d, r')
         | (RunUnlocked, r') \<Rightarrow> (fn d, r')
         | (RunLocked, r') \<Rightarrow> (fn d, release ops t2 (lock_key job_name) token r')))"

section \<open>The jobs\<close>

record job_settings =
  TASK_CLEANUP_ENABLED :: bool
  TASK_RETENTION_DAYS :: int
  METRIC_CLEANUP_ENABLED :: bool
  METRIC_RETENTION_DAYS :: int
  METRIC_AGG_RETENTION_DAYS :: int
  AGENT_STATUS_REFRESH_SECONDS :: int
  ALERT_EVALUATE_INTERVAL_SECONDS :: int

definition default_jobs :: job_settings where
  "default_jobs = \<lparr>TASK_CLEANUP_ENABLED = True, TASK_RETENTION_DAYS = 30, METRIC_CLEANUP_ENABLED = True,
     METRIC_RETENTION_DAYS = 7, METRIC_AGG_RETENTION_DAYS = 180, AGENT_STATUS_REFRESH_SECONDS = 30,
     ALERT_EVALUATE_INTERVAL_SECONDS = 10\<rparr>"

text \<open>An exception of a job is logged; closing the session rolls its changes back.\<close>

definition best_effort :: "('a \<times> db) result \<Rightarrow> db \<Rightarrow> db" where
  "best_effort outcome d = (case outcome of Inl _ \<Rightarrow> d | Inr (_, d') \<Rightarrow> d')"

definition cleanup_old_task_executions :: "job_settings \<Rightarrow> datetime \<Rightarrow> db \<Rightarrow> db" where
  "cleanup_old_task_executions cfg now d =
     (if \<not> TASK_CLEANUP_ENABLED cfg then d else snd (cleanup_history now (TASK_RETENTION_DAYS cfg) d))"

definition scan_task_timeouts :: "datetime \<Rightarrow> db \<Rightarrow> db" where
  "scan_task_timeouts now d = snd (scan_timeouts now d)"

definition dispatch_task_retries :: "datetime \<Rightarrow> db \<Rightarrow> db" where
  "dispatch_task_retries now d = best_effort (dispatch_retries now 50 d) d"

definition fire_due_cron_tasks :: "(string \<Rightarrow> datetime \<Rightarrow> datetime option) \<Rightarrow> datetime \<Rightarrow> db \<Rightarrow> db" where
  "fire_due_cron_tasks cron_next now d = best_effort (fire_due_cron cron_next now d) d"

definition evaluate_alerts :: "datetime \<Rightarrow> db \<Rightarrow> db" where
  "evaluate_alerts now d = best_effort (evaluate_all now d) d"

definition refresh_agent_status_job :: "datetime \<Rightarrow> db \<Rightarrow> db" where
  "refresh_agent_status_job now d = snd (refresh_agent_statuses now d)"

text \<open>
  The archive reads the clock three times: for the cut-off of the aggregation, in
  \<open>delete_older_than\<close> and in \<open>delete_daily_before\<close>.
\<close>

definition cleanup_old_metrics :: "job_settings \<Rightarrow> datetime \<Rightarrow> datetime \<Rightarrow> datetime \<Rightarrow> db \<Rightarrow> db" where
  "cleanup_old_metrics cfg t1 t2 t3 d =
     (if \<not> METRIC_CLEANUP_ENABLED cfg then d
      else let d1 = snd (aggregate_daily (t1 - timedelta_days (METRIC_RETENTION_DAYS cfg)) d);
               d2 = snd (delete_older_than t2 (METRIC_RETENTION_DAYS cfg) d1)
           in snd (delete_daily_before t3 (METRIC_AGG_RETENTION_DAYS cfg) d2))"

text \<open>
  \<open>setup_scheduler\<close>: the jobs as they are added. A job added with \<open>next_run_time=None\<close> is paused,
  which is what APScheduler documents for that argument.
\<close>

record scheduled_job =
  jb_id :: string
  jb_seconds :: int
  jb_max_instances :: int
  jb_coalesce :: bool
  jb_paused :: bool

definition add_job :: "string \<Rightarrow> int \<Rightarrow> bool \<Rightarrow> scheduled_job" where
  "add_job job_id seconds paused =
     \<lparr>jb_id = job_id, jb_seconds = seconds, jb_max_instances = 1, jb_coalesce = True, jb_paused = paused\<rparr>"

definition setup_scheduler :: "job_settings \<Rightarrow> scheduled_job list option \<Rightarrow> scheduled_job list option" where
  "setup_scheduler cfg scheduler =
     (if scheduler \<noteq> None then scheduler
      else Some [
        add_job ''refresh_agent_status'' (AGENT_STATUS_REFRESH_SECONDS cfg) False,
        add_job ''cleanup_old_metrics'' (24 * 3600) True,
        add_job ''cleanup_old_task_executions'' (24 * 3600) True,
        add_job ''evaluate_alerts'' (ALERT_EVALUATE_INTERVAL_SECONDS cfg) False,
        add_job ''scan_task_timeouts'' 30 False,
        add_job ''dispatch_task_retries'' 5 False,
        add_job ''fire_due_cron_tasks'' 30 False])"

definition shutdown_scheduler :: "scheduled_job list option \<Rightarrow> scheduled_job list option" where
  "shutdown_scheduler scheduler = None"

end
