(* ===== verification/Metric_Properties.thy ===== *)
theory Metric_Properties
  imports Scheduler Samples
begin

text \<open>
  What the archive of metrics keeps and deletes, and what holds of every summary the monitoring
  centre returns.
\<close>

section \<open>The archive\<close>

text \<open>The archived values of a server and a day; the key of the row does not matter.\<close>

definition archived :: "db \<Rightarrow> ident \<times> int \<Rightarrow> MonitorServerMetricDaily option" where
  "archived d k = map_option (\<lambda>r. r\<lparr>md_id := 0\<rparr>) (List.find (\<lambda>r. daily_key r = k) (daily_metrics d))"

definition archive_keyed :: "db \<Rightarrow> bool" where
  "archive_keyed d \<longleftrightarrow> tbl_wf md_id (monitor_server_metric_daily d) \<and> distinct (map daily_key (daily_metrics d))"

lemma archived_look:
  "archived d k = daily.look (monitor_server_metric_daily d) k"
  "archive_keyed d \<longleftrightarrow> daily.keyed (monitor_server_metric_daily d)"
  by (simp_all add: archived_def archive_keyed_def daily.look_def daily.keyed_def)

lemma filter_key_map:
  assumes "distinct ks" and "\<And>k. g (f k) = k"
  shows "filter (\<lambda>a. g a = k) (map f ks) = (if k \<in> set ks then [f k] else [])"
  using assms by (induction ks) auto

lemma aggregate_daily_archived:
  assumes "archive_keyed d" and "aggregate_daily cutoff d = (n, d')"
  shows "archive_keyed d'" "metrics d' = metrics d"
    "archived d' k = (let old = filter (\<lambda>m. mt_collected_at m < cutoff) (metrics d)
       in if k \<in> metric_key ` set old then Some (daily_values old k) else archived d k)"
proof -
  let ?old = "filter (\<lambda>m. mt_collected_at m < cutoff) (metrics d)"
  let ?ks = "remdups (map metric_key ?old)"
  from assms(2) have d': "d' = d\<lparr>monitor_server_metric_daily :=
      fold daily.put (map (daily_values ?old) ?ks) (monitor_server_metric_daily d)\<rparr>"
    by (auto simp: aggregate_daily_def Let_def fold_upsert_daily)
  then show "metrics d' = metrics d" by simp
  show "archive_keyed d'" using assms(1) by (simp add: archived_look d' daily.keyed_fold)
  have "archived d' k = fold (\<lambda>a v. Some (a\<lparr>md_id := 0\<rparr>))
      (filter (\<lambda>a. daily_key a = k) (map (daily_values ?old) ?ks)) (archived d k)"
    using assms(1) by (simp add: archived_look d' daily.look_fold)
  also have "filter (\<lambda>a. daily_key a = k) (map (daily_values ?old) ?ks) =
      (if k \<in> metric_key ` set ?old then [daily_values ?old k] else [])"
    by (subst filter_key_map) auto
  finally show "archived d' k = (let old = ?old
       in if k \<in> metric_key ` set old then Some (daily_values old k) else archived d k)"
    by (simp add: Let_def daily_values_def)
qed

text \<open>
  C22. What the clean-up of metrics leaves. Of the samples, exactly those that are not older than the
  retention at the clock reading of the deletion. In the archive, each server and day with samples
  older than the retention at the first clock reading holds the aggregate of exactly those samples;
  every other day keeps what it held, and days before the retention of the archive are gone. The
  archive holds one row per server and day.
\<close>

theorem archive_spec:
  assumes "archive_keyed d" and "METRIC_CLEANUP_ENABLED cfg" and "cleanup_old_metrics cfg t1 t2 t3 d = d'"
  shows "metrics d' = filter (\<lambda>m. t2 - timedelta_days (METRIC_RETENTION_DAYS cfg) \<le> mt_collected_at m) (metrics d) \<and>
    (\<forall>k. archived d' k =
       (let old = filter (\<lambda>m. mt_collected_at m < t1 - timedelta_days (METRIC_RETENTION_DAYS cfg)) (metrics d)
        in if snd k < metric_date (t3 - timedelta_days (METRIC_AGG_RETENTION_DAYS cfg)) then None
           else if k \<in> metric_key ` set old then Some (daily_values old k) else archived d k)) \<and>
    archive_keyed d'"
proof -
  let ?cut = "metric_date (t3 - timedelta_days (METRIC_AGG_RETENTION_DAYS cfg))"
  obtain n d1 where a: "aggregate_daily (t1 - timedelta_days (METRIC_RETENTION_DAYS cfg)) d = (n, d1)"
    by (cases "aggregate_daily (t1 - timedelta_days (METRIC_RETENTION_DAYS cfg)) d")
  note agg = aggregate_daily_archived [OF assms(1) a]
  have d': "metrics d' = filter (\<lambda>m. t2 - timedelta_days (METRIC_RETENTION_DAYS cfg) \<le> mt_collected_at m) (metrics d1)"
    "monitor_server_metric_daily d' = tbl_delete (\<lambda>r. md_metric_date r < ?cut) (monitor_server_metric_daily d1)"
    using assms(2,3) a
    by (auto simp: cleanup_old_metrics_def Let_def delete_older_than_def delete_daily_before_def not_less)
  have "archived d' k = (if snd k < ?cut then None else archived d1 k)" for k
    unfolding archived_look d'(2)
    by (rule daily.look_delete [where Q = "\<lambda>k. snd k < ?cut"]) (simp add: daily_key_def)
  moreover have "archive_keyed d'"
    using agg(1) by (simp add: archived_look d'(2) daily.keyed_delete)
  ultimately show ?thesis using d'(1) agg(2,3) by (simp add: Let_def)
qed

definition sample_metric :: "ident \<Rightarrow> datetime \<Rightarrow> rat \<Rightarrow> MonitorServerMetric" where
  "sample_metric k t cpu = \<lparr>mt_id = k, mt_server_id = 1, mt_collected_at = t, mt_cpu_usage = Some cpu,
     mt_memory_usage = None, mt_memory_used_bytes = None, mt_disk_usage = None, mt_network_in_bytes = Some 10,
     mt_network_out_bytes = None, mt_load_1m = None, mt_load_5m = None, mt_load_15m = None,
     mt_tcp_connections = None, mt_uptime_seconds = None\<rparr>"

text \<open>Two samples of one day, at 0 and at 12 o'clock.\<close>

definition metric_db :: db where
  "metric_db = sample_db\<lparr>monitor_server_metric :=
     \<lparr>rows = [sample_metric 1 0 10, sample_metric 2 (timedelta_seconds 43200) 90], next_id = 3\<rparr>\<rparr>"

definition first_cleanup :: db where
  "first_cleanup = (let t = timedelta_days 7 + timedelta_seconds 21600 in cleanup_old_metrics default_jobs t t t metric_db)"

definition second_cleanup :: db where
  "second_cleanup = (let t = timedelta_days 8 + timedelta_seconds 21600 in cleanup_old_metrics default_jobs t t t first_cleanup)"

lemma archive_spec_witness:
  "map mt_id (metrics first_cleanup) = [2] \<and> map_option md_sample_count (archived first_cleanup (1, 0)) = Some 1"
proof -
  have k: "archive_keyed metric_db"
    by (simp add: archive_keyed_def metric_db_def sample_db_def empty_db_def empty_table_def tbl_wf_def)
  have c: "METRIC_CLEANUP_ENABLED default_jobs" "METRIC_RETENTION_DAYS default_jobs = 7"
    "METRIC_AGG_RETENTION_DAYS default_jobs = 180" by (simp_all add: default_jobs_def)
  let ?t = "timedelta_days 7 + timedelta_seconds 21600"
  have "cleanup_old_metrics default_jobs ?t ?t ?t metric_db = first_cleanup" by (simp add: first_cleanup_def Let_def)
  from archive_spec [OF k c(1) this] show ?thesis
    by (simp add: c metric_db_def sample_metric_def timedelta_days_def timedelta_seconds_def metric_date_def
        metric_key_def daily_values_def Let_def)
qed

text \<open>
  The cut-off of the archive falls inside a day, and the next run writes the aggregate of the
  rest of that day over the one of its first part: of the two samples of day 0 in the example, the
  archive ends up with the average and the count of the second one alone.
\<close>

theorem archive_overwrites_partial_day:
  "map_option (\<lambda>r. (md_sample_count r, md_cpu_usage_avg r)) (archived first_cleanup (1, 0)) = Some (1, Some 10) \<and>
   map_option (\<lambda>r. (md_sample_count r, md_cpu_usage_avg r)) (archived second_cleanup (1, 0)) = Some (1, Some 90) \<and>
   metrics second_cleanup = [] \<and> map metric_key (metrics metric_db) = [(1, 0), (1, 0)]"
  by code_simp

section \<open>Summaries\<close>

lemma network_rate_nonneg: "0 \<le> b \<Longrightarrow> 0 \<le> network_rate b p c"
  by (auto simp: network_rate_def intro!: round4_nonneg split: option.splits)

lemma fold_max_Max: "vs \<noteq> [] \<Longrightarrow> fold max vs (hd vs) = Max (set vs)"
  by (cases vs) (simp_all flip: Max.set_eq_fold)

lemma fold_min_Min: "vs \<noteq> [] \<Longrightarrow> fold min vs (hd vs) = Min (set vs)"
  by (cases vs) (simp_all flip: Min.set_eq_fold)

lemma sum_list_le: "(\<And>x. x \<in> set xs \<Longrightarrow> x \<le> (K :: rat)) \<Longrightarrow> sum_list xs \<le> of_nat (length xs) * K"
  by (induction xs) (auto simp: algebra_simps add_mono)

lemma sum_list_ge: "(\<And>x. x \<in> set xs \<Longrightarrow> (K :: rat) \<le> x) \<Longrightarrow> of_nat (length xs) * K \<le> sum_list xs"
  by (induction xs) (auto simp: algebra_simps add_mono)

text \<open>The three aggregates of a column are null together, and ordered otherwise.\<close>

lemma aggregate_ordered:
  "(bv_avg v = None \<and> bv_max v = None \<and> bv_min v = None) \<or>
   (\<exists>a x n. bv_avg v = Some a \<and> bv_max v = Some x \<and> bv_min v = Some n \<and> n \<le> a \<and> a \<le> x)"
  if "v = aggregate_value f ms" for v
proof (cases "present f ms = []")
  case True
  then show ?thesis by (simp add: that aggregate_value_def sql_avg_def sql_max_def sql_min_def)
next
  case False
  let ?vs = "present f ms"
  have len: "(0 :: rat) < of_nat (length ?vs)" using False by simp
  have "sum_list ?vs \<le> of_nat (length ?vs) * Max (set ?vs)" by (rule sum_list_le) simp
  moreover have "of_nat (length ?vs) * Min (set ?vs) \<le> sum_list ?vs" by (rule sum_list_ge) simp
  ultimately have "sum_list ?vs / of_nat (length ?vs) \<le> Max (set ?vs)" "Min (set ?vs) \<le> sum_list ?vs / of_nat (length ?vs)"
    using len by (simp_all add: field_simps)
  with False show ?thesis
    by (simp add: that aggregate_value_def sql_avg_def sql_max_def sql_min_def Let_def fold_max_Max fold_min_Min)
qed

definition ordered_value :: "bucket_value option \<Rightarrow> bool" where
  "ordered_value v \<longleftrightarrow> (case v of None \<Rightarrow> True | Some b \<Rightarrow>
     \<exists>a x n. bv_avg b = Some a \<and> bv_max b = Some x \<and> bv_min b = Some n \<and> n \<le> a \<and> a \<le> x)"

lemma ordered_bucket: "ordered_value (bucket_dict (aggregate_value f ms))"
proof -
  from aggregate_ordered [OF refl, of f ms] show ?thesis
    by (auto simp: ordered_value_def bucket_dict_def intro: round2_mono)
qed

definition ordered_point :: "MetricBucket \<Rightarrow> bool" where
  "ordered_point p \<longleftrightarrow> list_all ordered_value [mb_cpu_usage p, mb_memory_usage p, mb_disk_usage p, mb_load_1m p,
     mb_load_5m p, mb_load_15m p, mb_tcp_connections p] \<and> 0 \<le> mb_network_in_rate p \<and> 0 \<le> mb_network_out_rate p"

definition ordered_row :: "summary_row \<Rightarrow> bool" where
  "ordered_row r \<longleftrightarrow> list_all (\<lambda>v. ordered_value (bucket_dict v)) [sm_cpu_usage r, sm_memory_usage r, sm_disk_usage r,
     sm_load_1m r, sm_load_5m r, sm_load_15m r, sm_tcp_connections r]"

lemma summary_points_ordered:
  "0 \<le> b \<Longrightarrow> list_all ordered_row rs \<Longrightarrow> list_all ordered_point (summary_points b p q rs)"
  by (induction b p q rs rule: summary_points.induct) (simp_all add: ordered_point_def ordered_row_def network_rate_nonneg)

lemma summary_points_times: "map mb_time (summary_points b p q rs) = map sm_bucket rs"
  by (induction b p q rs rule: summary_points.induct) simp_all

lemma bucket_of_bounds:
  assumes "0 < b"
  shows "bucket_of b t \<le> t" "t < bucket_of b t + timedelta_seconds b"
proof -
  have pos: "0 < timedelta_seconds b" using assms by (simp add: timedelta_seconds_def)
  have "bucket_of b t = t - t mod timedelta_seconds b"
    by (simp add: bucket_of_def minus_mod_eq_div_mult)
  moreover have "0 \<le> t mod timedelta_seconds b" "t mod timedelta_seconds b < timedelta_seconds b"
    using pos by simp_all
  ultimately show "bucket_of b t \<le> t" "t < bucket_of b t + timedelta_seconds b" by linarith+
qed

lemma RANGE_CONFIG_pos: "RANGE_CONFIG key = Some (s, b) \<Longrightarrow> 0 < b \<and> b dvd s \<and> 0 < s"
  by (auto simp: RANGE_CONFIG_def split: if_splits)

text \<open>
  Every summary the monitoring centre returns is a proper chart: its points are in strictly
  increasing order of time, each is the bucket of a stored sample of that server inside the range, in
  each of the seven curves the minimum, the average and the maximum are ordered where there are
  values, and no network rate is negative, even when a counter was reset.
\<close>

theorem summary_is_ordered:
  assumes "monitor_summary now d server_id key = Inr s"
  shows "sorted_wrt (<) (map mb_time (ms_points s)) \<and> list_all ordered_point (ms_points s) \<and>
    (\<forall>p \<in> set (ms_points s). \<exists>m \<in> set (metrics d). mt_server_id m = server_id \<and>
       ms_start s \<le> mt_collected_at m \<and> mt_collected_at m \<le> ms_end s \<and>
       mb_time p \<le> mt_collected_at m \<and> mt_collected_at m < mb_time p + timedelta_seconds (ms_bucket_seconds s))"
proof -
  from assms obtain sv secs b where sv: "monitored_server d server_id = Inr sv" and b: "RANGE_CONFIG key = Some (secs, b)"
    and s: "s = \<lparr>ms_range = key, ms_bucket_seconds = b, ms_start = now - timedelta_seconds secs, ms_end = now,
      ms_points = summary_points b None None (metric_get_summary d (sv_id sv) (now - timedelta_seconds secs) now b)\<rparr>"
    by (auto simp: monitor_summary_def bindE_eq_Inr Let_def split: option.splits)
  have id: "sv_id sv = server_id"
    using sv by (auto simp: monitored_server_def server_get_def dest!: repo_get_in split: option.splits)
  note pos = RANGE_CONFIG_pos [OF b]
  let ?rows = "metric_get_summary d server_id (ms_start s) (ms_end s) b"
  have rows: "list_all ordered_row ?rows"
    by (simp add: metric_get_summary_def Let_def list_all_iff ordered_row_def ordered_bucket)
  have times: "map mb_time (ms_points s) = map sm_bucket ?rows"
    by (simp add: s id summary_points_times)
  have "sorted_wrt (<) (map sm_bucket ?rows)"
    by (simp add: metric_get_summary_def Let_def comp_def strict_sorted_iff)
  moreover have "list_all ordered_point (ms_points s)"
    using summary_points_ordered [OF _ rows, of b None None] pos by (simp add: s id)
  moreover have "\<exists>m \<in> set (metrics d). mt_server_id m = server_id \<and> ms_start s \<le> mt_collected_at m \<and>
       mt_collected_at m \<le> ms_end s \<and> mb_time p \<le> mt_collected_at m \<and>
       mt_collected_at m < mb_time p + timedelta_seconds (ms_bucket_seconds s)" if p: "p \<in> set (ms_points s)" for p
  proof -
    have "mb_time p \<in> set (map mb_time (ms_points s))" using p by simp
    then obtain m where m: "m \<in> set (metrics d)" "in_range server_id (ms_start s) (ms_end s) m"
      "mb_time p = bucket_of b (mt_collected_at m)"
      unfolding times by (auto simp: metric_get_summary_def Let_def)
    with bucket_of_bounds [of b "mt_collected_at m"] pos show ?thesis
      by (intro bexI [OF _ m(1)]) (simp add: in_range_def s)
  qed
  ultimately show ?thesis by (simp add: times)
qed

definition sample_summary :: MetricSummary where
  "sample_summary = (case monitor_summary (timedelta_seconds 43230) metric_db 1 ''1h'' of Inr s \<Rightarrow> s | Inl _ \<Rightarrow>
     \<lparr>ms_range = [], ms_bucket_seconds = 0, ms_start = 0, ms_end = 0, ms_points = []\<rparr>)"

lemma summary_is_ordered_witness:
  "map mb_time (ms_points sample_summary) = [43200000000] \<and> list_all ordered_point (ms_points sample_summary)"
proof -
  have "\<not> isl (monitor_summary (timedelta_seconds 43230) metric_db 1 ''1h'')" by code_simp
  then have "monitor_summary (timedelta_seconds 43230) metric_db 1 ''1h'' = Inr sample_summary"
    by (auto simp: sample_summary_def split: sum.splits)
  from summary_is_ordered [OF this] have "list_all ordered_point (ms_points sample_summary)" by blast
  moreover have "map mb_time (ms_points sample_summary) = [43200000000]" by code_simp
  ultimately show ?thesis by blast
qed

end
