(* ===== verification/Scheduler_Properties.thy ===== *)
theory Scheduler_Properties
  imports Scheduler
begin

text \<open>
  Mutual exclusion of the scheduler's jobs: the processes of all workers and instances as a step
  relation over the shared cache, and the invariant of the lock.
\<close>

section \<open>What Redis promises\<close>

text \<open>
  \<open>entry r key\<close> is the value stored under a key with the time it expires. \<open>SET NX PX\<close> creates an
  entry unless one is alive, \<open>GET\<close> reads an entry that is alive, \<open>DEL\<close> removes one.
\<close>

definition live_entry :: "('r \<Rightarrow> string \<Rightarrow> (string \<times> datetime) option) \<Rightarrow> datetime \<Rightarrow> string \<Rightarrow> 'r \<Rightarrow> string option" where
  "live_entry entry now key r =
     (case entry r key of None \<Rightarrow> None | Some (v, x) \<Rightarrow> if now < x then Some v else None)"

definition lock_contract :: "'r redis_ops \<Rightarrow> ('r \<Rightarrow> string \<Rightarrow> (string \<times> datetime) option) \<Rightarrow> bool" where
  "lock_contract ops entry \<longleftrightarrow>
     (\<forall>now key v ms r created r'. set_nx_px ops now key v ms r = Some (created, r') \<longrightarrow>
        created = (live_entry entry now key r = None) \<and>
        entry r' = (if created then (entry r)(key := Some (v, now + ms * 1000)) else entry r)) \<and>
     (\<forall>now key r. redis_get ops now key r = live_entry entry now key r) \<and>
     (\<forall>now key r. entry (redis_del ops now key r) = (entry r)(key := None))"

section \<open>The processes\<close>

text \<open>A process that runs the job, with the token of its lock and the time it took it.\<close>

record holder =
  hd_process :: nat
  hd_token :: string
  hd_since :: datetime

record 'r lock_state =
  ls_now :: datetime
  ls_cache :: 'r
  ls_running :: "holder list"
  ls_tokens :: "string list"

text \<open>
  The steps: time passes; a process tries the lock with a fresh token and runs the job if it gets it
  (otherwise only the cache may have changed); a process ends the job and releases the lock; a
  process dies without releasing; other jobs use the cache under their own keys.
\<close>

inductive lock_step ::
  "'r redis_ops \<Rightarrow> ('r \<Rightarrow> string \<Rightarrow> (string \<times> datetime) option) \<Rightarrow> lock_settings \<Rightarrow> string \<Rightarrow>
   'r lock_state \<Rightarrow> 'r lock_state \<Rightarrow> bool" for ops entry cfg job where
  tick: "ls_now s \<le> t \<Longrightarrow> lock_step ops entry cfg job s (s\<lparr>ls_now := t\<rparr>)"
| begin_job: "token \<notin> set (ls_tokens s) \<Longrightarrow>
    scheduler_lock ops cfg (ls_now s) job token (SCHEDULER_LOCK_TTL_SECONDS cfg) (ls_cache s) = (RunLocked, r) \<Longrightarrow>
    lock_step ops entry cfg job s (s\<lparr>ls_cache := r, ls_tokens := token # ls_tokens s,
      ls_running := \<lparr>hd_process = p, hd_token = token, hd_since = ls_now s\<rparr> # ls_running s\<rparr>)"
| skip_job: "token \<notin> set (ls_tokens s) \<Longrightarrow>
    scheduler_lock ops cfg (ls_now s) job token (SCHEDULER_LOCK_TTL_SECONDS cfg) (ls_cache s) = (Skip, r) \<Longrightarrow>
    lock_step ops entry cfg job s (s\<lparr>ls_cache := r, ls_tokens := token # ls_tokens s\<rparr>)"
| end_job: "h \<in> set (ls_running s) \<Longrightarrow>
    lock_step ops entry cfg job s (s\<lparr>ls_cache := release ops (ls_now s) (lock_key job) (hd_token h) (ls_cache s),
      ls_running := filter (\<lambda>g. g \<noteq> h) (ls_running s)\<rparr>)"
| crash: "lock_step ops entry cfg job s (s\<lparr>ls_running := filter (\<lambda>g. hd_process g \<noteq> p) (ls_running s)\<rparr>)"
| other: "entry r (lock_key job) = entry (ls_cache s) (lock_key job) \<Longrightarrow>
    lock_step ops entry cfg job s (s\<lparr>ls_cache := r\<rparr>)"

inductive_cases lock_stepE: "lock_step ops entry cfg job s s'"

inductive lock_reachable ::
  "'r redis_ops \<Rightarrow> ('r \<Rightarrow> string \<Rightarrow> (string \<times> datetime) option) \<Rightarrow> lock_settings \<Rightarrow> string \<Rightarrow> 'r lock_state \<Rightarrow> bool"
  for ops entry cfg job where
  start: "lock_reachable ops entry cfg job \<lparr>ls_now = t, ls_cache = r, ls_running = [], ls_tokens = []\<rparr>"
| step: "lock_reachable ops entry cfg job s \<Longrightarrow> lock_step ops entry cfg job s s' \<Longrightarrow>
    lock_reachable ops entry cfg job s'"

section \<open>The invariant\<close>

definition lock_time :: "lock_settings \<Rightarrow> datetime" where
  "lock_time cfg = lock_ms (SCHEDULER_LOCK_TTL_SECONDS cfg) * 1000"

text \<open>A process is within its time while the entry it created cannot have expired.\<close>

definition in_time :: "lock_settings \<Rightarrow> 'r lock_state \<Rightarrow> holder \<Rightarrow> bool" where
  "in_time cfg s h \<longleftrightarrow> ls_now s < hd_since h + lock_time cfg"

definition lock_inv ::
  "('r \<Rightarrow> string \<Rightarrow> (string \<times> datetime) option) \<Rightarrow> lock_settings \<Rightarrow> string \<Rightarrow> 'r lock_state \<Rightarrow> bool" where
  "lock_inv entry cfg job s \<longleftrightarrow>
     distinct (map hd_token (ls_running s)) \<and> (\<forall>h \<in> set (ls_running s). hd_token h \<in> set (ls_tokens s)) \<and>
     (\<forall>h \<in> set (ls_running s). in_time cfg s h \<longrightarrow>
        entry (ls_cache s) (lock_key job) = Some (hd_token h, hd_since h + lock_time cfg))"

lemma lock_inv_start: "lock_inv entry cfg job \<lparr>ls_now = t, ls_cache = r, ls_running = [], ls_tokens = []\<rparr>"
  by (simp add: lock_inv_def)

lemma scheduler_lock_entry:
  assumes "lock_contract ops entry"
    and "scheduler_lock ops cfg now job token ttl r = (outcome, r')" and "outcome \<noteq> RunUnlocked"
  shows "outcome = RunLocked \<Longrightarrow> live_entry entry now (lock_key job) r = None \<and>
      entry r' (lock_key job) = Some (token, now + lock_ms ttl * 1000)"
    and "outcome = Skip \<Longrightarrow> entry r' = entry r"
proof -
  consider "r' = r" "outcome = Skip" | created where
      "set_nx_px ops now (lock_key job) token (lock_ms ttl) r = Some (created, r')"
      "outcome = (if created then RunLocked else Skip)"
    using assms(2,3) by (auto simp: scheduler_lock_def split: if_splits option.splits)
  then have "(outcome = RunLocked \<longrightarrow> live_entry entry now (lock_key job) r = None \<and>
      entry r' (lock_key job) = Some (token, now + lock_ms ttl * 1000)) \<and> (outcome = Skip \<longrightarrow> entry r' = entry r)"
  proof cases
    case 1
    then show ?thesis by simp
  next
    case 2
    with assms(1) have "created = (live_entry entry now (lock_key job) r = None)"
      "entry r' = (if created then (entry r)(lock_key job := Some (token, now + lock_ms ttl * 1000)) else entry r)"
      unfolding lock_contract_def by blast+
    with 2(2) show ?thesis by auto
  qed
  then show "outcome = RunLocked \<Longrightarrow> live_entry entry now (lock_key job) r = None \<and>
      entry r' (lock_key job) = Some (token, now + lock_ms ttl * 1000)" "outcome = Skip \<Longrightarrow> entry r' = entry r"
    by blast+
qed

lemma release_entry:
  assumes "lock_contract ops entry" and "entry r key = Some (v, x)" and "v \<noteq> token"
  shows "entry (release ops now key token r) key = Some (v, x)"
  using assms by (auto simp: release_def release_script_def lock_contract_def live_entry_def)

lemma lock_inv_step:
  assumes contract: "lock_contract ops entry" and inv: "lock_inv entry cfg job s"
    and step: "lock_step ops entry cfg job s s'"
  shows "lock_inv entry cfg job s'"
  using step
proof cases
  case (tick t)
  with inv show ?thesis by (auto simp: lock_inv_def in_time_def)
next
  case (begin_job token r p)
  note e = scheduler_lock_entry(1) [OF contract begin_job(3), simplified]
  have "\<not> in_time cfg s h" if "h \<in> set (ls_running s)" for h
  proof
    assume t: "in_time cfg s h"
    with inv that have "entry (ls_cache s) (lock_key job) = Some (hd_token h, hd_since h + lock_time cfg)"
      by (simp add: lock_inv_def)
    with t e show False by (simp add: live_entry_def in_time_def)
  qed
  then show ?thesis
    using inv begin_job(1,2) e by (auto simp: lock_inv_def in_time_def lock_time_def)
next
  case (skip_job token r)
  have "entry r = entry (ls_cache s)"
    using scheduler_lock_entry(2) [OF contract skip_job(3)] by simp
  with inv skip_job(1) show ?thesis by (auto simp: lock_inv_def in_time_def)
next
  case (end_job h)
  have "entry (ls_cache s') (lock_key job) = Some (hd_token g, hd_since g + lock_time cfg)"
    if g: "g \<in> set (ls_running s)" "g \<noteq> h" "in_time cfg s g" for g
  proof -
    have "hd_token g \<noteq> hd_token h"
      using inv g(1,2) end_job(2) by (auto simp: lock_inv_def distinct_map dest: inj_onD)
    with inv g show ?thesis
      by (simp add: end_job(1) lock_inv_def release_entry [OF contract])
  qed
  with inv show ?thesis
    by (auto simp: lock_inv_def in_time_def end_job(1) distinct_map_filter)
next
  case (crash p)
  with inv show ?thesis by (auto simp: lock_inv_def in_time_def distinct_map_filter)
next
  case (other r)
  with inv show ?thesis by (auto simp: lock_inv_def in_time_def)
qed

lemma lock_reachable_inv:
  "lock_contract ops entry \<Longrightarrow> lock_reachable ops entry cfg job s \<Longrightarrow> lock_inv entry cfg job s"
  by (rotate_tac, induction rule: lock_reachable.induct) (simp_all add: lock_inv_start lock_inv_step)

lemma distinct_all_eq:
  assumes "distinct (map f xs)" and "\<And>x y. x \<in> set xs \<Longrightarrow> y \<in> set xs \<Longrightarrow> f x = f y"
  shows "length xs \<le> 1"
proof (cases xs)
  case (Cons x ys)
  show ?thesis
  proof (cases ys)
    case (Cons y zs)
    with \<open>xs = x # ys\<close> assms(1) assms(2) [of x y] show ?thesis by simp
  qed (simp add: Cons)
qed simp

text \<open>
  C23. One job at a time: however the processes interleave, crash and lose the cache's answers, at
  most one of those that run the job has been running it for less than the time-out of the lock. Two
  runs of a job overlap only when the older one outlives its lock.
\<close>

theorem scheduler_mutual_exclusion:
  assumes "lock_contract ops entry" and "lock_reachable ops entry cfg job s"
  shows "length (filter (in_time cfg s) (ls_running s)) \<le> 1"
proof -
  have inv: "lock_inv entry cfg job s" by (rule lock_reachable_inv [OF assms])
  let ?hs = "filter (in_time cfg s) (ls_running s)"
  have "hd_token g = hd_token h" if "g \<in> set ?hs" "h \<in> set ?hs" for g h
  proof -
    have "entry (ls_cache s) (lock_key job) = Some (hd_token g, hd_since g + lock_time cfg)"
      "entry (ls_cache s) (lock_key job) = Some (hd_token h, hd_since h + lock_time cfg)"
      using inv that by (simp_all add: lock_inv_def)
    then show ?thesis by simp
  qed
  moreover have "distinct (map hd_token ?hs)"
    using inv by (simp add: lock_inv_def distinct_map_filter)
  ultimately show ?thesis by (intro distinct_all_eq [of hd_token]) blast+
qed

section \<open>A run of two processes\<close>

text \<open>A cache in memory that meets the contract.\<close>

type_synonym memory = "(string \<times> string \<times> datetime) list"

definition memory_entry :: "memory \<Rightarrow> string \<Rightarrow> (string \<times> datetime) option" where
  "memory_entry r = map_of r"

definition memory_ops :: "memory redis_ops" where
  "memory_ops = \<lparr>
     set_nx_px = (\<lambda>now key v ms r. if live_entry memory_entry now key r = None
       then Some (True, (key, v, now + ms * 1000) # r) else Some (False, r)),
     redis_get = (\<lambda>now key r. live_entry memory_entry now key r),
     redis_del = (\<lambda>now key r. filter (\<lambda>e. fst e \<noteq> key) r), redis_up = (\<lambda>_. True)\<rparr>"

lemma map_of_filter_key: "map_of (filter (\<lambda>e. fst e \<noteq> k) r) = (map_of r)(k := None)"
  by (induction r) auto

lemma memory_lock_contract: "lock_contract memory_ops memory_entry"
  by (auto simp: lock_contract_def memory_ops_def memory_entry_def map_of_filter_key split: if_splits)

definition lock_on :: lock_settings where
  "lock_on = \<lparr>SCHEDULER_LOCK_ENABLED = True, SCHEDULER_LOCK_TTL_SECONDS = 600\<rparr>"

text \<open>The first process holds the lock, the second one is turned away ten seconds later.\<close>

definition contended :: "memory lock_state" where
  "contended = \<lparr>ls_now = 10000000, ls_cache = [(lock_key ''job'', ''t1'', 600000000)],
     ls_running = [\<lparr>hd_process = 1, hd_token = ''t1'', hd_since = 0\<rparr>], ls_tokens = [''t2'', ''t1'']\<rparr>"

lemma contended_reachable: "lock_reachable memory_ops memory_entry lock_on ''job'' contended"
proof -
  let ?s0 = "\<lparr>ls_now = 0, ls_cache = [], ls_running = [], ls_tokens = []\<rparr> :: memory lock_state"
  let ?s1 = "?s0\<lparr>ls_cache := [(lock_key ''job'', ''t1'', 600000000)], ls_tokens := [''t1''],
     ls_running := [\<lparr>hd_process = 1, hd_token = ''t1'', hd_since = 0\<rparr>]\<rparr>"
  have "lock_reachable memory_ops memory_entry lock_on ''job'' ?s0" by (rule lock_reachable.start)
  moreover have "lock_step memory_ops memory_entry lock_on ''job'' ?s0 ?s1"
    using lock_step.begin_job [of "''t1''" ?s0 memory_ops lock_on "''job''" "[(lock_key ''job'', ''t1'', 600000000)]" memory_entry 1]
    by (simp add: scheduler_lock_def lock_on_def memory_ops_def live_entry_def memory_entry_def lock_ms_def)
  ultimately have 1: "lock_reachable memory_ops memory_entry lock_on ''job'' ?s1" by (rule lock_reachable.step)
  have "lock_step memory_ops memory_entry lock_on ''job'' ?s1 (?s1\<lparr>ls_now := 10000000\<rparr>)"
    by (rule lock_step.tick) simp
  with 1 have 2: "lock_reachable memory_ops memory_entry lock_on ''job'' (?s1\<lparr>ls_now := 10000000\<rparr>)"
    by (rule lock_reachable.step)
  have "lock_step memory_ops memory_entry lock_on ''job'' (?s1\<lparr>ls_now := 10000000\<rparr>) contended"
    using lock_step.skip_job [of "''t2''" "?s1\<lparr>ls_now := 10000000\<rparr>" memory_ops lock_on "''job''"
        "[(lock_key ''job'', ''t1'', 600000000)]" memory_entry]
    by (simp add: scheduler_lock_def lock_on_def memory_ops_def live_entry_def memory_entry_def lock_ms_def contended_def)
  with 2 show ?thesis by (rule lock_reachable.step)
qed

lemma scheduler_mutual_exclusion_witness:
  "length (ls_running contended) = 1 \<and> length (filter (in_time lock_on contended) (ls_running contended)) \<le> 1"
  using scheduler_mutual_exclusion [OF memory_lock_contract contended_reachable] by (simp add: contended_def)

text \<open>
  Both daily clean-ups are added with \<open>next_run_time=None\<close>, which pauses a job: they never run.
\<close>

lemma cleanup_jobs_are_paused:
  "map jb_id (filter jb_paused (the (setup_scheduler default_jobs None))) =
     [''cleanup_old_metrics'', ''cleanup_old_task_executions'']"
  by code_simp

end
