(* ===== verification/Agent_Client.thy ===== *)
theory Agent_Client
  imports Agent_Signer Agent_Service Complex_Main
begin

text \<open>
  The HTTP client of the agent (\<open>agent/reporter/client.py\<close>) and the calls built on it
  (\<open>agent/reporter/report.py\<close>). What is outside the agent is a state \<open>'w\<close>, the world, and the
  functions of \<open>agent_env\<close> that act on it: the transport of httpx, \<open>random.random\<close>, the clock,
  \<open>uuid4\<close>, the start of a process. What the agent does to the world is recorded in a trace: requests,
  sleeps, and processes started. A payload is the record of the backend's schema with the same keys;
  \<open>dumps\<close> is its compact JSON text.
\<close>

section \<open>Values of the wire\<close>

datatype json = JNull | JBool bool | JInt int | JFloat rat | JStr string | JArr "json list" | JObj "(string \<times> json) list"

definition json_get :: "string \<Rightarrow> (string \<times> json) list \<Rightarrow> json" where
  "json_get k kv = (case map_of kv k of None \<Rightarrow> JNull | Some v \<Rightarrow> v)"

record task_report =
  rp_execution_id :: json
  rp_status :: string
  rp_result_text :: "string option"
  rp_error_message :: "string option"
  rp_error_type :: "string option"
  rp_logs :: "string option"

datatype payload =
    RegisterBody RegisterRequest
  | HeartbeatBody HeartbeatRequest
  | MetricsBody MetricsRequest
  | AssetsBody AssetsRequest
  | ServicesBody ServicesRequest
  | ResultBody task_report

text \<open>
  One request handed to httpx. With a signer the bytes of the body and the signed headers are given,
  without one the payload itself.
\<close>

datatype request_body = EmptyBody | JsonBody payload | Content string

record http_call =
  hc_method :: string
  hc_path :: string
  hc_body :: request_body
  hc_headers :: "signed_headers option"
  hc_content_type :: bool

text \<open>
  What comes back: \<open>NoReply\<close> is an \<open>httpx.HTTPError\<close>, or the \<open>ValueError\<close> of a body that is not JSON.
\<close>

datatype http_reply = NoReply | Reply int json

datatype run_outcome =
    Completed int string string
  | TimeoutExpired string
  | RunOSError string
  | RunValueError string
  | RunError string

datatype agent_event = Sent http_call http_reply | Slept rat | Ran "string list"

record ('w, 'sk) agent_env =
  transport :: "http_call \<Rightarrow> 'w \<Rightarrow> http_reply \<times> 'w"
  random_float :: "'w \<Rightarrow> rat \<times> 'w"
  clock :: "'w \<Rightarrow> datetime \<times> 'w"
  uuid4 :: "'w \<Rightarrow> string \<times> 'w"
  dumps :: "payload \<Rightarrow> string"
  key_ops :: "'sk key_pair_ops"
  subprocess_run :: "string list \<Rightarrow> json \<Rightarrow> 'w \<Rightarrow> run_outcome \<times> 'w"
  format_value :: "json \<Rightarrow> string"

record 'w agent_run =
  world :: 'w
  trace :: "agent_event list"

definition emit :: "agent_event \<Rightarrow> 'w agent_run \<Rightarrow> 'w agent_run" where
  "emit e s = s\<lparr>trace := trace s @ [e]\<rparr>"

definition send :: "('w, 'sk) agent_env \<Rightarrow> http_call \<Rightarrow> 'w agent_run \<Rightarrow> http_reply \<times> 'w agent_run" where
  "send env call s =
     (let (reply, w) = transport env call (world s)
      in (reply, \<lparr>world = w, trace = trace s @ [Sent call reply]\<rparr>))"

section \<open>The client\<close>

datatype reporter_error = TooManyRetries | FinalFailure | ErrorStatus int

datatype agent_error = ReporterError reporter_error | KeyError | TypeError | AttributeError | IndexError

record 'sk AgentClient =
  ac_retry_max_seconds :: int
  ac_retry_max_count :: int
  ac_retry_jitter :: bool
  ac_signer :: "'sk AgentSigner option"

text \<open>
  The response of the server. The body need not be an object: \<open>payload.get\<close> then has no attribute
  \<open>get\<close>, and \<open>"data" in payload\<close> is a test of membership or of a substring.
\<close>

definition interpret_response :: "int \<Rightarrow> json \<Rightarrow> agent_error + json" where
  "interpret_response status payload =
     (if status \<ge> 400 then
        (case payload of JObj kv \<Rightarrow> Inl (ReporterError (ErrorStatus status)) | _ \<Rightarrow> Inl AttributeError)
      else case payload of
        JObj kv \<Rightarrow> (case map_of kv ''data'' of Some v \<Rightarrow> Inr v | None \<Rightarrow> Inr payload)
      | JArr xs \<Rightarrow> if JStr ''data'' \<in> set xs then Inl TypeError else Inr payload
      | JStr text \<Rightarrow> if contains ''data'' text then Inl TypeError else Inr payload
      | _ \<Rightarrow> Inl TypeError)"

definition sleep_time :: "('w, 'sk) agent_env \<Rightarrow> 'sk AgentClient \<Rightarrow> rat \<Rightarrow> 'w agent_run \<Rightarrow> rat \<times> 'w agent_run" where
  "sleep_time env c delay s =
     (if ac_retry_jitter c then
        (let (r, w) = random_float env (world s)
         in (min (delay * (1 / 2 + r)) (of_int (ac_retry_max_seconds c)), s\<lparr>world := w\<rparr>))
      else (min delay (of_int (ac_retry_max_seconds c)), s))"

text \<open>The loop of \<open>_request\<close>; it ends because every failure but the last raises \<open>attempt\<close>.\<close>

function request_loop ::
  "('w, 'sk) agent_env \<Rightarrow> 'sk AgentClient \<Rightarrow> http_call \<Rightarrow> rat \<Rightarrow> int \<Rightarrow> 'w agent_run \<Rightarrow>
   (agent_error + json) \<times> 'w agent_run" where
  "request_loop env c call delay attempt s =
     (let (reply, s1) = send env call s in
      case reply of
        Reply status payload \<Rightarrow> (interpret_response status payload, s1)
      | NoReply \<Rightarrow>
          let attempt' = attempt + 1 in
          if attempt' > ac_retry_max_count c then (Inl (ReporterError TooManyRetries), s1)
          else if delay \<ge> of_int (ac_retry_max_seconds c) then (Inl (ReporterError FinalFailure), s1)
          else let (sleep_for, s2) = sleep_time env c delay s1 in
            request_loop env c call (min (delay * 2) (of_int (ac_retry_max_seconds c))) attempt'
              (emit (Slept sleep_for) s2))"
  by pat_completeness auto

termination
  by (relation "measure (\<lambda>(env, c, call, delay, attempt, s). nat (ac_retry_max_count c - attempt))") auto

declare request_loop.simps [simp del]

definition build_call ::
  "('w, 'sk) agent_env \<Rightarrow> 'sk AgentClient \<Rightarrow> string \<Rightarrow> string \<Rightarrow> payload option \<Rightarrow> 'w agent_run \<Rightarrow> http_call \<times> 'w agent_run" where
  "build_call env c verb path json s =
     (case ac_signer c of
        None \<Rightarrow>
          (\<lparr>hc_method = verb, hc_path = path, hc_body = (case json of None \<Rightarrow> EmptyBody | Some p \<Rightarrow> JsonBody p),
            hc_headers = None, hc_content_type = False\<rparr>, s)
      | Some signer \<Rightarrow>
          let body = (case json of None \<Rightarrow> [] | Some p \<Rightarrow> dumps env p);
              (now, w1) = clock env (world s);
              (uuid, w2) = uuid4 env w1;
              headers = sign_headers (key_ops env) now uuid signer verb path body
          in (\<lparr>hc_method = verb, hc_path = path, hc_body = (case json of None \<Rightarrow> EmptyBody | Some _ \<Rightarrow> Content body),
               hc_headers = Some headers, hc_content_type = (json \<noteq> None)\<rparr>, s\<lparr>world := w2\<rparr>))"

definition request ::
  "('w, 'sk) agent_env \<Rightarrow> 'sk AgentClient \<Rightarrow> string \<Rightarrow> string \<Rightarrow> payload option \<Rightarrow> 'w agent_run \<Rightarrow>
   (agent_error + json) \<times> 'w agent_run" where
  "request env c verb path json s =
     (let (call, s1) = build_call env c verb path json s in request_loop env c call 1 0 s1)"

definition client_post where
  "client_post env c path json = request env c ''POST'' path (Some json)"

definition client_get where
  "client_get env c path = request env c ''GET'' path None"

definition signing_public_key :: "('w, 'sk) agent_env \<Rightarrow> 'sk AgentClient \<Rightarrow> string option" where
  "signing_public_key env c = map_option (public_key_b64 (key_ops env)) (ac_signer c)"

section \<open>The calls\<close>

definition utcnow_iso :: "('w, 'sk) agent_env \<Rightarrow> 'w agent_run \<Rightarrow> wire_time \<times> 'w agent_run" where
  "utcnow_iso env s = (let (t, w) = clock env (world s) in (Aware t 0, s\<lparr>world := w\<rparr>))"

text \<open>
  \<open>report.register\<close>: \<open>system_info\<close> is the dictionary of the collector, here the request record whose
  fields for the code, the token, the version and the key are filled in.
\<close>

definition send_register ::
  "('w, 'sk) agent_env \<Rightarrow> 'sk AgentClient \<Rightarrow> string \<Rightarrow> string \<Rightarrow> RegisterRequest \<Rightarrow> string \<Rightarrow> 'w agent_run \<Rightarrow>
   (agent_error + json) \<times> 'w agent_run" where
  "send_register env c server_code token system_info agent_version s =
     client_post env c ''/api/v1/agent/register''
       (RegisterBody (system_info\<lparr>rg_server_code := server_code, rg_token := token,
          rg_agent_version := Some agent_version,
          rg_signing_public_key := (if truthy (signing_public_key env c) then signing_public_key env c else None)\<rparr>)) s"

definition send_heartbeat ::
  "('w, 'sk) agent_env \<Rightarrow> 'sk AgentClient \<Rightarrow> ident \<Rightarrow> string \<Rightarrow> 'w agent_run \<Rightarrow> (agent_error + json) \<times> 'w agent_run" where
  "send_heartbeat env c server_id agent_version s =
     (let (t, s1) = utcnow_iso env s in
      client_post env c ''/api/v1/agent/heartbeat''
        (HeartbeatBody \<lparr>hr_server_id = Some server_id, hr_agent_version = Some agent_version, hr_timestamp = Some t\<rparr>) s1)"

text \<open>\<open>metrics\<close> is the dictionary of the collector, the request record without its first two fields.\<close>

definition send_metrics ::
  "('w, 'sk) agent_env \<Rightarrow> 'sk AgentClient \<Rightarrow> ident \<Rightarrow> MetricsRequest \<Rightarrow> 'w agent_run \<Rightarrow> (agent_error + json) \<times> 'w agent_run" where
  "send_metrics env c server_id metrics s =
     (let (t, s1) = utcnow_iso env s in
      client_post env c ''/api/v1/agent/metrics''
        (MetricsBody (metrics\<lparr>mr_server_id := Some server_id, mr_timestamp := t\<rparr>)) s1)"

definition send_assets ::
  "('w, 'sk) agent_env \<Rightarrow> 'sk AgentClient \<Rightarrow> ident \<Rightarrow> DiskAsset list \<times> NetworkAsset list \<Rightarrow> 'w agent_run \<Rightarrow>
   (agent_error + json) \<times> 'w agent_run" where
  "send_assets env c server_id assets s =
     (let (t, s1) = utcnow_iso env s in
      client_post env c ''/api/v1/agent/assets''
        (AssetsBody \<lparr>as_server_id = Some server_id, as_timestamp = Some t, as_disks = fst assets, as_networks = snd assets\<rparr>) s1)"

definition send_services ::
  "('w, 'sk) agent_env \<Rightarrow> 'sk AgentClient \<Rightarrow> ident \<Rightarrow> ServiceStatus list \<Rightarrow> 'w agent_run \<Rightarrow>
   (agent_error + json) \<times> 'w agent_run" where
  "send_services env c server_id statuses s =
     (let (t, s1) = utcnow_iso env s in
      client_post env c ''/api/v1/agent/services''
        (ServicesBody \<lparr>sr_server_id = Some server_id, sr_timestamp = Some t, sr_services = statuses\<rparr>) s1)"

definition report_task_result ::
  "('w, 'sk) agent_env \<Rightarrow> 'sk AgentClient \<Rightarrow> task_report \<Rightarrow> 'w agent_run \<Rightarrow> (agent_error + json) \<times> 'w agent_run" where
  "report_task_result env c r s = client_post env c ''/api/v1/agent/task/result'' (ResultBody r) s"

end
