(* ===== verification/Agent_Worker.thy ===== *)
theory Agent_Worker
  imports Agent_Client Retry
begin

text \<open>
  The task worker of the agent: the classes of failures (\<open>agent/errors.py\<close>), the executor of
  \<open>systemctl\<close> and \<open>journalctl\<close> with its whitelist (\<open>agent/executor/service.py\<close>), and the poll that
  executes and reports tasks (\<open>agent/worker.py\<close>). A task is the JSON value the server sent. What a
  started process does is a parameter; \<open>RunValueError\<close> is its output not being text of the locale.
  The Chinese messages are written as their UTF-8 bytes.
\<close>

section \<open>Classes of failures\<close>

definition zh_whitelist :: string where
  "zh_whitelist =
    [CHR 0xE7, CHR 0x99, CHR 0xBD, CHR 0xE5, CHR 0x90, CHR 0x8D, CHR 0xE5, CHR 0x8D, CHR 0x95]"

definition classify_failure :: "string option \<Rightarrow> string" where
  "classify_failure output =
     (let text = lower (or_text output []) in
      if contains zh_timeout text \<or> contains ''timeout'' text then ''AGENT_EXECUTION_TIMEOUT''
      else if contains ''not found'' text \<or> contains ''not-found'' text \<or> contains ''no such file'' text \<or>
        contains ''unknown service'' text then ''COMMAND_NOT_FOUND''
      else if contains ''permission'' text \<or> contains ''access denied'' text \<or> contains ''authentication'' text
      then ''PERMISSION_DENIED''
      else if contains ''failed'' text \<or> contains ''inactive'' text \<or> contains ''dead'' text then ''SERVICE_UNHEALTHY''
      else ''UNKNOWN'')"

definition classify_validation_error :: "string \<Rightarrow> string" where
  "classify_validation_error message =
     (if contains zh_whitelist message \<or> contains ''whitelist'' (lower message)
      then ''SERVICE_NOT_WHITELISTED'' else ''TASK_ACTION_INVALID'')"

section \<open>The executor\<close>

definition zh_service :: string where
  "zh_service =
    [CHR 0xE6, CHR 0x9C, CHR 0x8D, CHR 0xE5, CHR 0x8A, CHR 0xA1, CHR 0x20]"

definition zh_not_allowed :: string where
  "zh_not_allowed =
    [CHR 0x20, CHR 0xE4, CHR 0xB8, CHR 0x8D, CHR 0xE5, CHR 0x9C, CHR 0xA8, CHR 0xE7, CHR 0x99,
    CHR 0xBD, CHR 0xE5, CHR 0x90, CHR 0x8D, CHR 0xE5, CHR 0x8D, CHR 0x95, CHR 0xE5, CHR 0x86,
    CHR 0x85, CHR 0xEF, CHR 0xBC, CHR 0x8C, CHR 0xE6, CHR 0x8B, CHR 0x92, CHR 0xE7, CHR 0xBB,
    CHR 0x9D, CHR 0xE6, CHR 0x89, CHR 0xA7, CHR 0xE8, CHR 0xA1, CHR 0x8C]"

definition zh_bad_action :: string where
  "zh_bad_action =
    [CHR 0xE4, CHR 0xB8, CHR 0x8D, CHR 0xE5, CHR 0x85, CHR 0x81, CHR 0xE8, CHR 0xAE, CHR 0xB8,
    CHR 0xE7, CHR 0x9A, CHR 0x84, CHR 0xE6, CHR 0x93, CHR 0x8D, CHR 0xE4, CHR 0xBD, CHR 0x9C,
    CHR 0xE7, CHR 0xB1, CHR 0xBB, CHR 0xE5, CHR 0x9E, CHR 0x8B, CHR 0x3A, CHR 0x20]"

definition zh_run_timeout :: string where
  "zh_run_timeout =
    [CHR 0xE6, CHR 0x89, CHR 0xA7, CHR 0xE8, CHR 0xA1, CHR 0x8C, CHR 0xE8, CHR 0xB6, CHR 0x85,
    CHR 0xE6, CHR 0x97, CHR 0xB6, CHR 0xEF, CHR 0xBC, CHR 0x88]"

definition zh_seconds_close :: string where
  "zh_seconds_close =
    [CHR 0x73, CHR 0xEF, CHR 0xBC, CHR 0x89]"

definition zh_run_failed :: string where
  "zh_run_failed =
    [CHR 0xE6, CHR 0x89, CHR 0xA7, CHR 0xE8, CHR 0xA1, CHR 0x8C, CHR 0xE5, CHR 0xA4, CHR 0xB1,
    CHR 0xE8, CHR 0xB4, CHR 0xA5, CHR 0x3A, CHR 0x20]"

definition zh_logs_failed :: string where
  "zh_logs_failed =
    [CHR 0xE8, CHR 0x8E, CHR 0xB7, CHR 0xE5, CHR 0x8F, CHR 0x96, CHR 0xE6, CHR 0x97, CHR 0xA5,
    CHR 0xE5, CHR 0xBF, CHR 0x97, CHR 0xE5, CHR 0xA4, CHR 0xB1, CHR 0xE8, CHR 0xB4, CHR 0xA5,
    CHR 0x3A, CHR 0x20]"

definition ALLOWED_ACTIONS :: "string list" where
  "ALLOWED_ACTIONS = [''STATUS'', ''START'', ''STOP'', ''RESTART'']"

definition ACTION_COMMANDS :: "string \<rightharpoonup> string list" where
  "ACTION_COMMANDS = map_of
     [(''STATUS'', [''systemctl'', ''is-active'']), (''START'', [''systemctl'', ''start'']),
      (''STOP'', [''systemctl'', ''stop'']), (''RESTART'', [''systemctl'', ''restart''])]"

definition LOG_LINES_DEFAULT :: int where
  "LOG_LINES_DEFAULT = 200"

text \<open>What the executor raises: a \<open>ValueError\<close>, or another exception, with its message.\<close>

datatype exec_error = RaisedValueError string | RaisedOther string

definition format_json :: "('w, 'sk) agent_env \<Rightarrow> json \<Rightarrow> string" where
  "format_json env j = (case j of JStr text \<Rightarrow> text | _ \<Rightarrow> format_value env j)"

definition unhashable :: "json \<Rightarrow> bool" where
  "unhashable j = (case j of JArr _ \<Rightarrow> True | JObj _ \<Rightarrow> True | _ \<Rightarrow> False)"

text \<open>
  \<open>validate\<close>: the names are the set \<open>allowed\<close>; testing whether a list or an object is in a set is a
  \<open>TypeError\<close>. Returns the service and the action as the strings they are.
\<close>

definition validate_action :: "('w, 'sk) agent_env \<Rightarrow> string list \<Rightarrow> json \<Rightarrow> json \<Rightarrow> exec_error + string \<times> string" where
  "validate_action env allowed service action =
     (if unhashable service then Inl (RaisedOther ''unhashable type'')
      else case service of
        JStr name \<Rightarrow>
          if name \<notin> set allowed then Inl (RaisedValueError (zh_service @ name @ zh_not_allowed))
          else (case action of
                  JStr a \<Rightarrow> if a \<in> set ALLOWED_ACTIONS then Inr (name, a)
                            else Inl (RaisedValueError (zh_bad_action @ a))
                | _ \<Rightarrow> Inl (RaisedValueError (zh_bad_action @ format_json env action)))
      | _ \<Rightarrow> Inl (RaisedValueError (zh_service @ format_json env service @ zh_not_allowed)))"

definition run_process ::
  "('w, 'sk) agent_env \<Rightarrow> string list \<Rightarrow> json \<Rightarrow> 'w agent_run \<Rightarrow> run_outcome \<times> 'w agent_run" where
  "run_process env command timeout s =
     (let (outcome, w) = subprocess_run env command timeout (world s)
      in (outcome, \<lparr>world = w, trace = trace s @ [Ran command]\<rparr>))"

text \<open>\<open>int(x)\<close> of a float, and \<open>int(timeout)\<close> of the time limit that was exceeded, a number.\<close>

definition py_trunc :: "rat \<Rightarrow> int" where
  "py_trunc q = (if q < 0 then - \<lfloor>- q\<rfloor> else \<lfloor>q\<rfloor>)"

definition timeout_text :: "json \<Rightarrow> string option" where
  "timeout_text timeout = (case timeout of
     JInt n \<Rightarrow> Some (py_str n)
   | JFloat q \<Rightarrow> Some (py_str (py_trunc q))
   | JBool b \<Rightarrow> Some (if b then ''1'' else ''0'')
   | _ \<Rightarrow> None)"

definition run_action ::
  "('w, 'sk) agent_env \<Rightarrow> string list \<Rightarrow> json \<Rightarrow> json \<Rightarrow> json \<Rightarrow> 'w agent_run \<Rightarrow>
   (exec_error + bool \<times> string) \<times> 'w agent_run" where
  "run_action env allowed service action timeout s =
     (case validate_action env allowed service action of
        Inl e \<Rightarrow> (Inl e, s)
      | Inr (name, a) \<Rightarrow>
          let (outcome, s') = run_process env (the (ACTION_COMMANDS a) @ [name]) timeout s in
          (case outcome of
             TimeoutExpired _ \<Rightarrow>
               (case timeout_text timeout of
                  Some t \<Rightarrow> Inr (False, zh_run_timeout @ t @ zh_seconds_close)
                | None \<Rightarrow> Inl (RaisedOther ''int() argument''))
           | RunOSError exc \<Rightarrow> Inr (False, zh_run_failed @ exc)
           | RunValueError exc \<Rightarrow> Inl (RaisedValueError exc)
           | RunError exc \<Rightarrow> Inl (RaisedOther exc)
           | Completed returncode out err \<Rightarrow>
               if returncode = 0 then Inr (True, strip out)
               else Inr (False, strip (if err = [] then out else err)), s'))"

definition fetch_logs ::
  "('w, 'sk) agent_env \<Rightarrow> string list \<Rightarrow> json \<Rightarrow> int \<Rightarrow> 'w agent_run \<Rightarrow> (exec_error + bool \<times> string) \<times> 'w agent_run" where
  "fetch_logs env allowed service lines s =
     (case validate_action env allowed service (JStr ''STATUS'') of
        Inl e \<Rightarrow> (Inl e, s)
      | Inr (name, _) \<Rightarrow>
          let (outcome, s') = run_process env
            [''journalctl'', ''-n'', py_str lines, ''-u'', name, ''--no-pager''] (JInt 30) s in
          (case outcome of
             TimeoutExpired exc \<Rightarrow> Inr (False, zh_logs_failed @ exc)
           | RunOSError exc \<Rightarrow> Inr (False, zh_logs_failed @ exc)
           | RunValueError exc \<Rightarrow> Inl (RaisedValueError exc)
           | RunError exc \<Rightarrow> Inl (RaisedOther exc)
           | Completed returncode out err \<Rightarrow>
               Inr (returncode = 0, strip (if out = [] then err else out)), s'))"

section \<open>The worker\<close>

definition failed_report :: "json \<Rightarrow> string \<Rightarrow> string \<Rightarrow> task_report" where
  "failed_report execution_id message error_type =
     \<lparr>rp_execution_id = execution_id, rp_status = ''FAILED'', rp_result_text = None,
      rp_error_message = Some message, rp_error_type = Some error_type, rp_logs = None\<rparr>"

text \<open>The report of an execution, by what the executor returned or raised.\<close>

definition task_outcome :: "json \<Rightarrow> json \<Rightarrow> exec_error + bool \<times> string \<Rightarrow> task_report" where
  "task_outcome execution_id action outcome = (case outcome of
     Inl (RaisedValueError exc) \<Rightarrow> failed_report execution_id exc (classify_validation_error exc)
   | Inl (RaisedOther exc) \<Rightarrow> failed_report execution_id exc ''UNKNOWN''
   | Inr (True, output) \<Rightarrow>
       \<lparr>rp_execution_id = execution_id, rp_status = ''SUCCESS'', rp_result_text = Some output,
        rp_error_message = None, rp_error_type = None,
        rp_logs = (if action = JStr ''LOGS'' then Some output else None)\<rparr>
   | Inr (False, output) \<Rightarrow> failed_report execution_id output (classify_failure (Some output)))"

definition run_task ::
  "('w, 'sk) agent_env \<Rightarrow> string list \<Rightarrow> (string \<times> json) list \<Rightarrow> 'w agent_run \<Rightarrow>
   (exec_error + bool \<times> string) \<times> 'w agent_run" where
  "run_task env allowed kv s =
     (let action = json_get ''action'' kv;
          service_name = json_get ''service_name'' kv;
          timeout = (case map_of kv ''timeout_seconds'' of None \<Rightarrow> JInt 60 | Some t \<Rightarrow> t)
      in if action = JStr ''LOGS'' then fetch_logs env allowed service_name LOG_LINES_DEFAULT s
         else run_action env allowed service_name action timeout s)"

definition execute_one ::
  "('w, 'sk) agent_env \<Rightarrow> 'sk AgentClient \<Rightarrow> string list \<Rightarrow> json \<Rightarrow> 'w agent_run \<Rightarrow> (agent_error + unit) \<times> 'w agent_run" where
  "execute_one env c allowed task s = (case task of
     JObj kv \<Rightarrow>
       (case map_of kv ''execution_id'' of
          None \<Rightarrow> (Inl KeyError, s)
        | Some execution_id \<Rightarrow>
            let (outcome, s1) = run_task env allowed kv s;
                (reply, s2) = report_task_result env c (task_outcome execution_id (json_get ''action'' kv) outcome) s1
            in (map_sum id (\<lambda>_. ()) reply, s2))
   | _ \<Rightarrow> (Inl TypeError, s))"

text \<open>
  The loop of \<open>poll_once\<close>. Logging a failed task calls \<open>task.get\<close>: when the task is not an object, that
  raises, and the rest of the tasks is lost.
\<close>

fun poll_tasks ::
  "('w, 'sk) agent_env \<Rightarrow> 'sk AgentClient \<Rightarrow> string list \<Rightarrow> json list \<Rightarrow> int \<Rightarrow> 'w agent_run \<Rightarrow>
   (agent_error + int) \<times> 'w agent_run" where
  "poll_tasks env c allowed [] processed s = (Inr processed, s)"
| "poll_tasks env c allowed (task # tasks) processed s =
     (case execute_one env c allowed task s of
        (Inr _, s1) \<Rightarrow> poll_tasks env c allowed tasks (processed + 1) s1
      | (Inl _, s1) \<Rightarrow>
          (case task of JObj _ \<Rightarrow> poll_tasks env c allowed tasks processed s1
           | _ \<Rightarrow> (Inl AttributeError, s1)))"

definition falsy :: "json \<Rightarrow> bool" where
  "falsy j \<longleftrightarrow> j \<in> {JNull, JBool False, JInt 0, JFloat 0, JStr [], JArr [], JObj []}"

text \<open>Iterating over an object gives its keys, over a string its characters, both strings.\<close>

definition json_items :: "json \<Rightarrow> json list option" where
  "json_items j = (case j of
     JArr xs \<Rightarrow> Some xs
   | JObj kv \<Rightarrow> Some (map (JStr \<circ> fst) kv)
   | JStr text \<Rightarrow> Some (map (\<lambda>c. JStr [c]) text)
   | _ \<Rightarrow> None)"

definition poll_once ::
  "('w, 'sk) agent_env \<Rightarrow> 'sk AgentClient \<Rightarrow> string list \<Rightarrow> 'w agent_run \<Rightarrow> (agent_error + int) \<times> 'w agent_run" where
  "poll_once env c allowed s =
     (case client_get env c ''/api/v1/agent/tasks/pending'' s of
        (Inl e, s1) \<Rightarrow> (Inl e, s1)
      | (Inr pending, s1) \<Rightarrow>
          (case json_items (if falsy pending then JArr [] else pending) of
             None \<Rightarrow> (Inl TypeError, s1)
           | Some tasks \<Rightarrow> poll_tasks env c allowed tasks 0 s1))"

end
