(* ===== verification/Agent_Collector.thy ===== *)
theory Agent_Collector
  imports Agent_Worker Metrics
begin

text \<open>
  The collectors of the agent (\<open>agent/collector/\<close>): what is made of the readings of psutil, of the
  files of \<open>/proc\<close> and of \<open>systemctl is-active\<close>. The readings are a record; a file is the list of its
  lines, \<open>None\<close> when it cannot be read. Only a line of \<open>/proc/cpuinfo\<close> without a colon makes a collector
  raise.
\<close>

section \<open>Readings\<close>

datatype address_family = AF_LINK | AF_INET | AF_OTHER

record partition =
  pt_device :: string
  pt_mountpoint :: string
  pt_fstype :: string
  pt_total :: "int option"

record host =
  h_cpu_percent :: rat
  h_cpu_count :: "int option"
  h_cpuinfo :: "string list option"
  h_vm_total :: int
  h_vm_used :: int
  h_vm_percent :: rat
  h_root_percent :: "rat option"
  h_partitions :: "partition list"
  h_bytes_sent :: int
  h_bytes_recv :: int
  h_af_inet :: "address_family option"
  h_interfaces :: "(string \<times> (address_family \<times> string) list) list"
  h_loadavg :: "rat \<times> rat \<times> rat"
  h_proc_tcp :: "int option"
  h_proc_tcp6 :: "int option"
  h_time :: rat
  h_boot_time :: rat
  h_hostname :: string
  h_system :: string
  h_release :: string
  h_machine :: string
  h_os_release :: "string list option"

section \<open>CPU, memory, disks\<close>

record CPUInfo =
  ci_usage_percent :: rat
  ci_cores :: int
  ci_model :: "string option"

text \<open>\<open>line.split(sep, 1)[1]\<close>, \<open>None\<close> an \<open>IndexError\<close>.\<close>

definition after_first :: "char \<Rightarrow> string \<Rightarrow> string option" where
  "after_first sep line = (case dropWhile (\<lambda>c. c \<noteq> sep) line of [] \<Rightarrow> None | _ # rest \<Rightarrow> Some rest)"

definition read_cpu_model :: "host \<Rightarrow> agent_error + string option" where
  "read_cpu_model h = (case h_cpuinfo h of
     None \<Rightarrow> Inr None
   | Some lines \<Rightarrow>
       (case List.find (has_prefix ''model name'') lines of
          None \<Rightarrow> Inr None
        | Some line \<Rightarrow> (case after_first (CHR '':'') line of
            None \<Rightarrow> Inl IndexError
          | Some rest \<Rightarrow> Inr (Some (strip rest)))))"

definition cpu_collect :: "host \<Rightarrow> agent_error + CPUInfo" where
  "cpu_collect h = bindE (read_cpu_model h) (\<lambda>model.
     Inr \<lparr>ci_usage_percent = round2 (h_cpu_percent h),
          ci_cores = (case h_cpu_count h of None \<Rightarrow> 0 | Some n \<Rightarrow> n), ci_model = model\<rparr>)"

record MemoryInfo =
  mi_total_bytes :: int
  mi_used_bytes :: int
  mi_usage_percent :: rat

definition memory_collect :: "host \<Rightarrow> MemoryInfo" where
  "memory_collect h =
     \<lparr>mi_total_bytes = h_vm_total h, mi_used_bytes = h_vm_used h, mi_usage_percent = round2 (h_vm_percent h)\<rparr>"

definition collect_usage_percent :: "host \<Rightarrow> rat" where
  "collect_usage_percent h = (case h_root_percent h of None \<Rightarrow> 0 | Some p \<Rightarrow> round2 p)"

definition disk_collect_assets :: "host \<Rightarrow> DiskAsset list" where
  "disk_collect_assets h =
     map (\<lambda>p. \<lparr>da_device_name = pt_device p, da_mount_point = Some (pt_mountpoint p),
            da_filesystem = Some (pt_fstype p), da_total_bytes = pt_total p\<rparr>)
       (filter (\<lambda>p. pt_total p \<noteq> None) (h_partitions h))"

section \<open>Network and system\<close>

text \<open>
  \<open>h_af_inet\<close> is \<open>getattr(psutil, "AF_INET", None)\<close>; psutil documents the attribute \<open>AF_LINK\<close> only, and a
  family is never equal to \<open>None\<close>.
\<close>

definition first_address :: "address_family option \<Rightarrow> (address_family \<times> string) list \<Rightarrow> string option" where
  "first_address family addrs = map_option snd (List.find (\<lambda>a. Some (fst a) = family) addrs)"

definition network_collect_assets :: "host \<Rightarrow> NetworkAsset list" where
  "network_collect_assets h =
     map (\<lambda>(interface, addrs). \<lparr>na_interface_name = interface, na_mac_address = first_address (Some AF_LINK) addrs,
            na_ip_address = first_address (h_af_inet h) addrs\<rparr>)
       (filter (\<lambda>(interface, _). interface \<noteq> ''lo'') (h_interfaces h))"

definition read_tcp_connections :: "host \<Rightarrow> int" where
  "read_tcp_connections h =
     (let count = (\<lambda>f. case f of None \<Rightarrow> 0 | Some lines \<Rightarrow> lines - 1)
      in max (count (h_proc_tcp h) + count (h_proc_tcp6 h)) 0)"

record SystemInfo =
  si_load_1m :: rat
  si_load_5m :: rat
  si_load_15m :: rat
  si_tcp_connections :: int
  si_uptime_seconds :: int
  si_hostname :: string
  si_kernel_version :: string

definition system_collect :: "host \<Rightarrow> SystemInfo" where
  "system_collect h = (case h_loadavg h of (l1, l5, l15) \<Rightarrow>
     \<lparr>si_load_1m = round2 l1, si_load_5m = round2 l5, si_load_15m = round2 l15,
      si_tcp_connections = read_tcp_connections h,
      si_uptime_seconds = py_trunc (h_time h - h_boot_time h), si_hostname = h_hostname h,
      si_kernel_version = h_release h\<rparr>)"

section \<open>Services\<close>

definition STATUS_MAP :: "string \<rightharpoonup> string" where
  "STATUS_MAP = map_of [(''active'', ''RUNNING''), (''inactive'', ''STOPPED''), (''failed'', ''FAILED'')]"

text \<open>Output that is not text of the locale is a \<open>ValueError\<close>, which is not caught; it is \<open>None\<close> here.\<close>

definition is_active_status :: "run_outcome \<Rightarrow> string option" where
  "is_active_status outcome = (case outcome of
     Completed returncode out _ \<Rightarrow>
       Some (if returncode = 0 then ''RUNNING''
             else case STATUS_MAP (lower (strip out)) of Some status \<Rightarrow> status | None \<Rightarrow> ''UNKNOWN'')
   | RunValueError _ \<Rightarrow> None
   | RunError _ \<Rightarrow> None
   | _ \<Rightarrow> Some ''UNKNOWN'')"

definition service_is_active :: "('w, 'sk) agent_env \<Rightarrow> string \<Rightarrow> 'w agent_run \<Rightarrow> string option \<times> 'w agent_run" where
  "service_is_active env service s =
     (let (outcome, s') = run_process env [''systemctl'', ''is-active'', service] (JInt 10) s
      in (is_active_status outcome, s'))"

fun collect_services ::
  "('w, 'sk) agent_env \<Rightarrow> string list \<Rightarrow> 'w agent_run \<Rightarrow> ServiceStatus list option \<times> 'w agent_run" where
  "collect_services env [] s = (Some [], s)"
| "collect_services env (name # names) s =
     (case service_is_active env name s of
        (None, s1) \<Rightarrow> (None, s1)
      | (Some status, s1) \<Rightarrow>
          (case collect_services env names s1 of
             (None, s2) \<Rightarrow> (None, s2)
           | (Some rest, s2) \<Rightarrow> (Some (\<lparr>st_service_name = name, st_current_status = status\<rparr> # rest), s2)))"

section \<open>The dictionaries of the agent\<close>

text \<open>The fields that \<open>report.py\<close> fills in have no value here.\<close>

definition collect_metrics :: "host \<Rightarrow> agent_error + MetricsRequest" where
  "collect_metrics h = bindE (cpu_collect h) (\<lambda>cpu.
     let mem = memory_collect h; sys = system_collect h in
     Inr \<lparr>mr_server_id = None, mr_timestamp = Naive 0, mr_cpu_usage = Some (ci_usage_percent cpu),
          mr_memory_usage = Some (mi_usage_percent mem), mr_memory_used_bytes = Some (mi_used_bytes mem),
          mr_disk_usage = Some (collect_usage_percent h), mr_network_in_bytes = Some (h_bytes_recv h),
          mr_network_out_bytes = Some (h_bytes_sent h), mr_load_1m = Some (si_load_1m sys),
          mr_load_5m = Some (si_load_5m sys), mr_load_15m = Some (si_load_15m sys),
          mr_tcp_connections = Some (si_tcp_connections sys), mr_uptime_seconds = Some (si_uptime_seconds sys)\<rparr>)"

definition strip_quotes :: "string \<Rightarrow> string" where
  "strip_quotes s = rev (dropWhile (\<lambda>c. c = CHR 0x22) (rev (dropWhile (\<lambda>c. c = CHR 0x22) s)))"

definition os_version :: "host \<Rightarrow> string" where
  "os_version h = (case h_os_release h of
     None \<Rightarrow> h_release h
   | Some lines \<Rightarrow>
       (case List.find (has_prefix ''PRETTY_NAME='') lines of
          None \<Rightarrow> h_release h
        | Some line \<Rightarrow> strip_quotes (strip (the (after_first (CHR ''='') line)))))"

definition collect_system_info :: "host \<Rightarrow> agent_error + RegisterRequest" where
  "collect_system_info h = bindE (cpu_collect h) (\<lambda>cpu.
     let mem = memory_collect h; sys = system_collect h;
         disk_total = sum_list (map (\<lambda>k. case da_total_bytes k of None \<Rightarrow> 0 | Some n \<Rightarrow> n) (disk_collect_assets h)) in
     Inr \<lparr>rg_server_code = [], rg_token = [], rg_hostname = si_hostname sys, rg_os_name = Some (h_system h),
          rg_os_version = Some (os_version h), rg_kernel_version = Some (si_kernel_version sys),
          rg_architecture = Some (h_machine h), rg_cpu_model = ci_model cpu, rg_cpu_cores = Some (ci_cores cpu),
          rg_memory_total_bytes = Some (mi_total_bytes mem), rg_disk_total_bytes = Some disk_total,
          rg_agent_version = None, rg_signing_public_key = None\<rparr>)"

definition collect_assets :: "host \<Rightarrow> DiskAsset list \<times> NetworkAsset list" where
  "collect_assets h = (disk_collect_assets h, network_collect_assets h)"

end
