(* ===== verification/Agent_Main.thy ===== *)
theory Agent_Main
  imports Agent_Collector
begin

text \<open>
  The main program of the agent (\<open>agent/main.py\<close>) and its configuration (\<open>agent/config/config.py\<close>):
  registration with back-off, and the four loops, each of which runs until the stop event is set and
  survives every exception. The threads share only the client and the world; a step of a loop is one
  iteration, and \<open>Agent_Threads\<close> interleaves them. YAML is a parameter: the configuration is the record it was read into.
\<close>

section \<open>Configuration\<close>

record ServerConfig =
  sc_url :: string
  sc_token :: string
  sc_server_code :: string
  sc_signing_key_file :: string

record CollectConfig =
  cc_heartbeat_interval :: int
  cc_metrics_interval :: int
  cc_assets_interval :: int
  cc_task_poll_interval :: int
  cc_retry_max_seconds :: int
  cc_retry_max_count :: int
  cc_services :: "string list"

record AgentConfig =
  cf_server :: ServerConfig
  cf_collect :: CollectConfig

definition agent_config_valid :: "AgentConfig \<Rightarrow> bool" where
  "agent_config_valid cfg \<longleftrightarrow>
     1 \<le> code_points (sc_token (cf_server cfg)) \<and> 1 \<le> code_points (sc_server_code (cf_server cfg)) \<and>
     5 \<le> cc_heartbeat_interval (cf_collect cfg) \<and> 2 \<le> cc_metrics_interval (cf_collect cfg) \<and>
     10 \<le> cc_assets_interval (cf_collect cfg) \<and> 2 \<le> cc_task_poll_interval (cf_collect cfg) \<and>
     1 \<le> cc_retry_max_seconds (cf_collect cfg) \<and> 0 \<le> cc_retry_max_count (cf_collect cfg)"

definition default_collect :: CollectConfig where
  "default_collect = \<lparr>cc_heartbeat_interval = 30, cc_metrics_interval = 10, cc_assets_interval = 60,
     cc_task_poll_interval = 5, cc_retry_max_seconds = 60, cc_retry_max_count = 2,
     cc_services = [''nginx'', ''docker'', ''ssh'']\<rparr>"

text \<open>
  \<open>load_config\<close>: \<open>None\<close> when pydantic refuses the data; a relative key file is resolved against the
  directory of the configuration file.
\<close>

definition load_config :: "string \<Rightarrow> AgentConfig \<Rightarrow> AgentConfig option" where
  "load_config directory data =
     (if \<not> agent_config_valid data then None
      else let key_file = sc_signing_key_file (cf_server data) in
        Some (data\<lparr>cf_server := (cf_server data)\<lparr>sc_signing_key_file :=
          (if has_prefix ''/'' key_file then key_file else directory @ ''/'' @ key_file)\<rparr>\<rparr>))"

section \<open>The agent\<close>

definition AGENT_VERSION :: string where
  "AGENT_VERSION = ''1.0.0''"

text \<open>What the loops need of the world: the readings of the host, the stop event, waiting for it, sleeping.\<close>

record 'w host_env =
  readings :: "'w \<Rightarrow> host \<times> 'w"
  stop_is_set :: "'w \<Rightarrow> bool"
  stop_wait :: "int \<Rightarrow> 'w \<Rightarrow> 'w"

definition agent_client :: "AgentConfig \<Rightarrow> 'sk AgentSigner \<Rightarrow> 'sk AgentClient" where
  "agent_client cfg signer = \<lparr>ac_retry_max_seconds = cc_retry_max_seconds (cf_collect cfg),
     ac_retry_max_count = cc_retry_max_count (cf_collect cfg), ac_retry_jitter = True, ac_signer = Some signer\<rparr>"

definition read_host :: "'w host_env \<Rightarrow> 'w agent_run \<Rightarrow> host \<times> 'w agent_run" where
  "read_host hst s = (let (h, w) = readings hst (world s) in (h, s\<lparr>world := w\<rparr>))"

definition wait_for :: "'w host_env \<Rightarrow> int \<Rightarrow> 'w agent_run \<Rightarrow> 'w agent_run" where
  "wait_for hst seconds s = s\<lparr>world := stop_wait hst seconds (world s)\<rparr>"

text \<open>One attempt of \<open>_register\<close>: \<open>None\<close> is any exception, also a response without \<open>server_id\<close>.\<close>

definition register_attempt ::
  "('w, 'sk) agent_env \<Rightarrow> 'w host_env \<Rightarrow> AgentConfig \<Rightarrow> 'sk AgentClient \<Rightarrow> 'w agent_run \<Rightarrow> json option \<times> 'w agent_run" where
  "register_attempt env hst cfg c s =
     (let (h, s1) = read_host hst s in
      case collect_system_info h of
        Inl e \<Rightarrow> (None, s1)
      | Inr system_info \<Rightarrow>
          let (reply, s2) = send_register env c (sc_server_code (cf_server cfg)) (sc_token (cf_server cfg))
                system_info AGENT_VERSION s1
          in (case reply of Inr (JObj kv) \<Rightarrow> map_of kv ''server_id'' | _ \<Rightarrow> None, s2))"

partial_function (option) register_loop ::
  "('w, 'sk) agent_env \<Rightarrow> 'w host_env \<Rightarrow> AgentConfig \<Rightarrow> 'sk AgentClient \<Rightarrow> rat \<Rightarrow> 'w agent_run \<Rightarrow>
   (json \<times> 'w agent_run) option" where
  "register_loop env hst cfg c delay s =
     (case register_attempt env hst cfg c s of
        (Some server_id, s1) \<Rightarrow> Some (server_id, s1)
      | (None, s1) \<Rightarrow>
          register_loop env hst cfg c (min (delay * 2) (of_int (cc_retry_max_seconds (cf_collect cfg))))
            (emit (Slept delay) s1))"

definition register_agent where
  "register_agent env hst cfg c s = register_loop env hst cfg c 1 s"

section \<open>The loops\<close>

definition heartbeat_step where
  "heartbeat_step env hst cfg c server_id s =
     wait_for hst (cc_heartbeat_interval (cf_collect cfg)) (snd (send_heartbeat env c server_id AGENT_VERSION s))"

definition metrics_step where
  "metrics_step env hst cfg c server_id s =
     wait_for hst (cc_metrics_interval (cf_collect cfg))
       (let (h, s1) = read_host hst s in
        case collect_metrics h of Inl e \<Rightarrow> s1 | Inr ms \<Rightarrow> snd (send_metrics env c server_id ms s1))"

text \<open>The services are sent only when the assets could be.\<close>

definition assets_step where
  "assets_step env hst cfg c server_id s =
     wait_for hst (cc_assets_interval (cf_collect cfg))
       (let (h, s1) = read_host hst s in
        case send_assets env c server_id (collect_assets h) s1 of
          (Inl _, s2) \<Rightarrow> s2
        | (Inr _, s2) \<Rightarrow>
            (case collect_services env (cc_services (cf_collect cfg)) s2 of
               (None, s3) \<Rightarrow> s3
             | (Some statuses, s3) \<Rightarrow> snd (send_services env c server_id statuses s3)))"

definition worker_step where
  "worker_step env hst cfg c s =
     wait_for hst (cc_task_poll_interval (cf_collect cfg)) (snd (poll_once env c (cc_services (cf_collect cfg)) s))"

text \<open>\<open>while not self._stop.is_set()\<close>.\<close>

partial_function (option) until_stopped ::
  "'w host_env \<Rightarrow> ('w agent_run \<Rightarrow> 'w agent_run) \<Rightarrow> 'w agent_run \<Rightarrow> 'w agent_run option" where
  "until_stopped hst step s = (if stop_is_set hst (world s) then Some s else until_stopped hst step (step s))"

definition heartbeat_loop where
  "heartbeat_loop env hst cfg c server_id = until_stopped hst (heartbeat_step env hst cfg c server_id)"

definition metrics_loop where
  "metrics_loop env hst cfg c server_id = until_stopped hst (metrics_step env hst cfg c server_id)"

definition assets_loop where
  "assets_loop env hst cfg c server_id = until_stopped hst (assets_step env hst cfg c server_id)"

definition task_worker_loop where
  "task_worker_loop env hst cfg c = until_stopped hst (worker_step env hst cfg c)"

text \<open>A step of the agent: an attempt to register, or an iteration of one of its threads.\<close>

inductive agent_step ::
  "('w, 'sk) agent_env \<Rightarrow> 'w host_env \<Rightarrow> AgentConfig \<Rightarrow> 'sk AgentClient \<Rightarrow> 'w agent_run \<Rightarrow> 'w agent_run \<Rightarrow> bool"
  for env hst cfg c where
  Registering: "agent_step env hst cfg c s (snd (register_attempt env hst cfg c s))"
| BackingOff: "agent_step env hst cfg c s (emit (Slept delay) s)"
| Beating: "agent_step env hst cfg c s (heartbeat_step env hst cfg c server_id s)"
| Measuring: "agent_step env hst cfg c s (metrics_step env hst cfg c server_id s)"
| Listing: "agent_step env hst cfg c s (assets_step env hst cfg c server_id s)"
| Working: "agent_step env hst cfg c s (worker_step env hst cfg c s)"

end
