(* ===== verification/Worker_Properties.thy ===== *)
theory Worker_Properties
  imports Agent_Worker Task_Service
begin

text \<open>
  What the client and the worker of the agent guarantee: a request ends within its budget of retries,
  only permitted commands are started whatever the server sends, every task handed out is reported,
  and how the backend takes the failures the agent reports.
\<close>

section \<open>The retries of a request\<close>

text \<open>
  How often a request is sent again at most: once for every \<open>i\<close> below the configured count with
  \<open>2 ^ i\<close> below the longest delay.
\<close>

definition retry_budget :: "'sk AgentClient \<Rightarrow> nat" where
  "retry_budget c =
     length (takeWhile (\<lambda>i. 2 ^ i < ac_retry_max_seconds c) [0..<nat (ac_retry_max_count c)])"

definition slept_ok :: "'sk AgentClient \<Rightarrow> nat \<Rightarrow> rat \<Rightarrow> bool" where
  "slept_ok c i t \<longleftrightarrow>
     (if ac_retry_jitter c
      then 2 ^ i / 2 \<le> t \<and> t \<le> 3 / 2 * 2 ^ i \<and> t \<le> of_int (ac_retry_max_seconds c)
      else t = 2 ^ i)"

definition ended :: "'sk AgentClient \<Rightarrow> nat \<Rightarrow> http_reply \<Rightarrow> agent_error + json \<Rightarrow> bool" where
  "ended c n final res = (case final of
     Reply status payload \<Rightarrow> res = interpret_response status payload
   | NoReply \<Rightarrow>
       if ac_retry_max_count c \<le> int n then res = Inl (ReporterError TooManyRetries)
       else ac_retry_max_seconds c \<le> 2 ^ n \<and> res = Inl (ReporterError FinalFailure))"

definition attempts :: "http_call \<Rightarrow> rat list \<Rightarrow> http_reply \<Rightarrow> agent_event list" where
  "attempts call sleeps final = concat (map (\<lambda>t. [Sent call NoReply, Slept t]) sleeps) @ [Sent call final]"

lemma sleep_time_ok:
  assumes "\<And>w. 0 \<le> fst (random_float env w) \<and> fst (random_float env w) < 1"
    and "delay = 2 ^ k" "delay < of_int (ac_retry_max_seconds c)"
  shows "slept_ok c k (fst (sleep_time env c delay s))" "trace (snd (sleep_time env c delay s)) = trace s"
proof -
  obtain r w where rw: "random_float env (world s) = (r, w)" by fastforce
  with assms(1) [of "world s"] have r: "0 \<le> r" "r < 1" by simp_all
  let ?d = "2 ^ k * (1 / 2 + r) :: rat"
  have lo: "2 ^ k / 2 \<le> ?d" using r(1) by (simp add: distrib_left)
  have "?d \<le> 2 ^ k * (3 / 2)" using r(2) by (intro mult_left_mono) simp_all
  then have hi: "?d \<le> 3 / 2 * 2 ^ k" by (simp add: mult.commute)
  have m: "(2 ^ k :: rat) < of_int (ac_retry_max_seconds c)" using assms(2,3) by simp
  then have h: "(2 ^ k / 2 :: rat) \<le> of_int (ac_retry_max_seconds c)"
    using zero_less_power [of "2 :: rat" k] by linarith
  show "slept_ok c k (fst (sleep_time env c delay s))"
  proof -
    let ?t = "min ?d (of_int (ac_retry_max_seconds c))"
    have "2 ^ k / 2 \<le> ?t" "?t \<le> 3 / 2 * 2 ^ k" "?t \<le> of_int (ac_retry_max_seconds c)"
      using lo h min.coboundedI1 [OF hi] by simp_all
    moreover have "min (2 ^ k) (of_int (ac_retry_max_seconds c)) = (2 ^ k :: rat)" using m by simp
    ultimately show ?thesis using rw assms(2) by (simp add: slept_ok_def sleep_time_def)
  qed
  show "trace (snd (sleep_time env c delay s)) = trace s"
    by (simp add: sleep_time_def split_beta)
qed

lemma of_int_2_power_le: "of_int m \<le> (2 ^ n :: rat) \<longleftrightarrow> m \<le> 2 ^ n"
  by (metis of_int_le_iff of_int_numeral of_int_power)

lemma request_loop_attempts:
  assumes "\<And>w. 0 \<le> fst (random_float env w) \<and> fst (random_float env w) < 1"
    and "request_loop env c call delay (int k) s = (res, s')"
    and "delay = 2 ^ k \<or> of_int (ac_retry_max_seconds c) \<le> delay \<and> ac_retry_max_seconds c \<le> 2 ^ k"
  shows "\<exists>sleeps final. trace s' = trace s @ attempts call sleeps final \<and>
    (\<forall>i < length sleeps. int (k + i) < ac_retry_max_count c \<and> 2 ^ (k + i) < ac_retry_max_seconds c \<and>
       slept_ok c (k + i) (sleeps ! i)) \<and> ended c (k + length sleeps) final res"
  using assms
proof (induction "nat (ac_retry_max_count c - int k)" arbitrary: delay k s rule: less_induct)
  case less
  let ?M = "ac_retry_max_seconds c"
  obtain reply s1 where s1: "send env call s = (reply, s1)" by fastforce
  then have t1: "trace s1 = trace s @ [Sent call reply]" by (auto simp: send_def split_beta)
  note run = less.prems(2) [unfolded request_loop.simps [of env c call delay "int k" s] s1 Let_def prod.case]
  have stop: ?case if "s' = s1" "ended c k reply res"
    by (rule exI [of _ "[]"], rule exI [of _ reply]) (use that t1 in \<open>simp add: attempts_def\<close>)
  show ?case
  proof (cases reply)
    case (Reply status payload)
    with run show ?thesis by (intro stop) (simp_all add: ended_def)
  next
    case NoReply
    show ?thesis
    proof (cases "int k + 1 > ac_retry_max_count c \<or> of_int ?M \<le> delay")
      case True
      have "?M \<le> 2 ^ k" if "of_int ?M \<le> delay"
        using that less.prems(3) by (auto simp: of_int_2_power_le)
      with True run NoReply show ?thesis by (intro stop) (auto simp: ended_def split: if_splits)
    next
      case False
      then have d: "delay = 2 ^ k" and lt: "int k < ac_retry_max_count c" "delay < of_int ?M"
        using less.prems(3) by auto
      then have M: "2 ^ k < ?M" by (metis linorder_not_less of_int_2_power_le)
      obtain t s2 where s2: "sleep_time env c delay s1 = (t, s2)" by fastforce
      have ok: "slept_ok c k t" "trace s2 = trace s1"
        using sleep_time_ok [OF less.prems(1) d lt(2), of s1] s2 by simp_all
      let ?s3 = "emit (Slept t) s2"
      have rec: "request_loop env c call (min (delay * 2) (of_int ?M)) (int (Suc k)) ?s3 = (res, s')"
        using run NoReply False s2 by (simp add: add.commute)
      have follow: "min (delay * 2) (of_int ?M) = 2 ^ Suc k \<or>
        of_int ?M \<le> min (delay * 2) (of_int ?M) \<and> ?M \<le> 2 ^ Suc k"
        using d of_int_2_power_le [of ?M "Suc k"] by (auto simp: min_def mult.commute)
      have "nat (ac_retry_max_count c - int (Suc k)) < nat (ac_retry_max_count c - int k)" using lt by simp
      from less.hyps [OF this less.prems(1) rec follow] obtain sleeps final where
        IH: "trace s' = trace ?s3 @ attempts call sleeps final"
          "\<forall>i < length sleeps. int (Suc k + i) < ac_retry_max_count c \<and> 2 ^ (Suc k + i) < ?M \<and>
             slept_ok c (Suc k + i) (sleeps ! i)"
          "ended c (Suc k + length sleeps) final res"
        by blast
      show ?thesis
      proof (intro exI conjI)
        show "trace s' = trace s @ attempts call (t # sleeps) final"
          using IH(1) t1 ok(2) NoReply by (simp add: attempts_def emit_def)
        show "\<forall>i < length (t # sleeps). int (k + i) < ac_retry_max_count c \<and> 2 ^ (k + i) < ?M \<and>
            slept_ok c (k + i) ((t # sleeps) ! i)"
          using IH(2) ok(1) lt(1) M by (auto simp: less_Suc_eq_0_disj)
        show "ended c (k + length (t # sleeps)) final res" using IH(3) by simp
      qed
    qed
  qed
qed

lemma retry_budget_iff:
  assumes "\<forall>i < n. int i < ac_retry_max_count c \<and> 2 ^ i < ac_retry_max_seconds c"
  shows "n \<le> retry_budget c"
    and "ac_retry_max_count c \<le> int n \<or> ac_retry_max_seconds c \<le> 2 ^ n \<Longrightarrow> n = retry_budget c"
proof -
  let ?N = "nat (ac_retry_max_count c)" and ?P = "\<lambda>i :: nat. 2 ^ i < ac_retry_max_seconds c"
  have "n \<le> ?N" using assms by (cases n) force+
  then have split: "[0..<?N] = [0..<n] @ [n..<?N]" by (metis upt_add_eq_append zero_le le_add_diff_inverse)
  have "takeWhile ?P [0..<?N] = [0..<n] @ takeWhile ?P [n..<?N]"
    unfolding split using assms by (subst takeWhile_append2) auto
  then have b: "retry_budget c = n + length (takeWhile ?P [n..<?N])" by (simp add: retry_budget_def)
  show "n \<le> retry_budget c" using b by simp
  assume "ac_retry_max_count c \<le> int n \<or> ac_retry_max_seconds c \<le> 2 ^ n"
  then have "takeWhile ?P [n..<?N] = []"
  proof
    assume "ac_retry_max_count c \<le> int n"
    then have "?N \<le> n" by simp
    then show ?thesis by simp
  next
    assume "ac_retry_max_seconds c \<le> 2 ^ n"
    then show ?thesis by (cases "n < ?N") (simp_all add: upt_conv_Cons)
  qed
  with b show "n = retry_budget c" by simp
qed

lemma build_call_fields:
  "build_call env c verb path json s = (call, s') \<Longrightarrow>
   hc_method call = verb \<and> hc_path call = path \<and> trace s' = trace s \<and>
   (case json of None \<Rightarrow> hc_body call = EmptyBody | Some p \<Rightarrow> hc_body call \<in> {JsonBody p, Content (dumps env p)})"
  by (auto simp: build_call_def split_beta Let_def split: option.splits)

lemma request_attempts:
  assumes "\<And>w. 0 \<le> fst (random_float env w) \<and> fst (random_float env w) < 1"
    and "request env c verb path json s = (res, s')"
  shows "\<exists>call sleeps final. trace s' = trace s @ attempts call sleeps final \<and>
    fst (build_call env c verb path json s) = call \<and> hc_method call = verb \<and> hc_path call = path \<and>
    length sleeps \<le> retry_budget c \<and> (\<forall>i < length sleeps. slept_ok c i (sleeps ! i)) \<and>
    (case final of Reply status payload \<Rightarrow> res = interpret_response status payload
     | NoReply \<Rightarrow> length sleeps = retry_budget c \<and>
         res \<in> {Inl (ReporterError TooManyRetries), Inl (ReporterError FinalFailure)})"
proof -
  obtain call s1 where b: "build_call env c verb path json s = (call, s1)" by fastforce
  with assms(2) have "request_loop env c call 1 (int 0) s1 = (res, s')" by (simp add: request_def)
  from request_loop_attempts [OF assms(1) this] obtain sleeps final where
    r: "trace s' = trace s1 @ attempts call sleeps final"
      "\<forall>i < length sleeps. int i < ac_retry_max_count c \<and> 2 ^ i < ac_retry_max_seconds c \<and> slept_ok c i (sleeps ! i)"
      "ended c (length sleeps) final res"
    by fastforce
  from r(2) have n: "\<forall>i < length sleeps. int i < ac_retry_max_count c \<and> 2 ^ i < ac_retry_max_seconds c" by blast
  show ?thesis
    using b r retry_budget_iff [OF n] build_call_fields [OF b]
    by (intro exI [of _ call] exI [of _ sleeps] exI [of _ final])
      (auto simp: ended_def split: http_reply.splits if_splits)
qed

section \<open>What a call leaves in the trace\<close>

definition adds :: "(agent_event \<Rightarrow> bool) \<Rightarrow> 'w agent_run \<Rightarrow> 'w agent_run \<Rightarrow> bool" where
  "adds P s s' \<longleftrightarrow> (\<exists>es. trace s' = trace s @ es \<and> list_all P es)"

lemma adds_refl [simp]: "adds P s s"
  by (simp add: adds_def)

lemma adds_trans [trans]: "adds P s t \<Longrightarrow> adds P t u \<Longrightarrow> adds P s u"
  by (force simp: adds_def)

lemma adds_same: "trace s' = trace s \<Longrightarrow> adds P s s'"
  by (simp add: adds_def)

lemma adds_mono: "adds P s s' \<Longrightarrow> (\<And>e. P e \<Longrightarrow> Q e) \<Longrightarrow> adds Q s s'"
  unfolding adds_def by (metis list.pred_mono_strong)

lemma adds_one: "trace s' = trace s @ [e] \<Longrightarrow> P e \<Longrightarrow> adds P s s'"
  by (simp add: adds_def)

text \<open>A request sends one call, the same each time, and sleeps; it starts no process.\<close>

definition of_call :: "http_call \<Rightarrow> agent_event \<Rightarrow> bool" where
  "of_call call e \<longleftrightarrow> (\<exists>reply. e = Sent call reply) \<or> (\<exists>t. e = Slept t)"

lemma of_call_simps [simp]: "of_call call (Slept t)" "of_call call (Sent call reply)"
  by (simp_all add: of_call_def)

lemma request_loop_trace:
  "request_loop env c call delay attempt s = (res, s') \<Longrightarrow>
   \<exists>reply es. trace s' = trace s @ Sent call reply # es \<and> list_all (of_call call) es"
proof (induction env c call delay attempt s rule: request_loop.induct)
  case (1 env c call delay attempt s)
  obtain reply s1 where s1: "send env call s = (reply, s1)" by fastforce
  then have t1: "trace s1 = trace s @ [Sent call reply]" by (auto simp: send_def split_beta)
  note run = "1.prems" [unfolded request_loop.simps [of env c call delay attempt s] s1 Let_def prod.case]
  show ?case
  proof (cases "s' = s1")
    case False
    with run obtain t s2 where r: "reply = NoReply" "\<not> attempt + 1 > ac_retry_max_count c"
      "\<not> delay \<ge> of_int (ac_retry_max_seconds c)" "sleep_time env c delay s1 = (t, s2)"
      "request_loop env c call (min (delay * 2) (of_int (ac_retry_max_seconds c))) (attempt + 1)
         (emit (Slept t) s2) = (res, s')"
      by (auto split: http_reply.splits if_splits prod.splits)
    have t2: "trace s2 = trace s1" using r(4) by (auto simp: sleep_time_def split_beta split: if_splits)
    obtain reply' es where IH: "trace s' = trace (emit (Slept t) s2) @ Sent call reply' # es"
      "list_all (of_call call) es"
      using "1.IH" [OF refl s1 [symmetric] r(1) refl r(2,3) refl r(4) [symmetric] r(5)] by blast
    then show ?thesis
      by (intro exI [of _ reply] exI [of _ "Slept t # Sent call reply' # es"])
        (simp add: t1 t2 emit_def)
  qed (use t1 in auto)
qed

lemma request_trace:
  assumes "request env c verb path json s = (res, s')"
  shows "\<exists>call reply es. trace s' = trace s @ Sent call reply # es \<and> list_all (of_call call) es \<and>
    hc_path call = path \<and>
    (case json of None \<Rightarrow> hc_body call = EmptyBody | Some p \<Rightarrow> hc_body call \<in> {JsonBody p, Content (dumps env p)})"
proof -
  obtain call s1 where b: "build_call env c verb path json s = (call, s1)" by fastforce
  with assms have "request_loop env c call 1 0 s1 = (res, s')" by (simp add: request_def)
  from request_loop_trace [OF this] build_call_fields [OF b] show ?thesis by metis
qed

section \<open>The processes of the executor\<close>

text \<open>The commands the executor may start.\<close>

definition permitted_command :: "string list \<Rightarrow> string list \<Rightarrow> bool" where
  "permitted_command allowed command \<longleftrightarrow>
     (\<exists>name \<in> set allowed.
        (\<exists>verb \<in> {''is-active'', ''start'', ''stop'', ''restart''}. command = [''systemctl'', verb, name]) \<or>
        command = [''journalctl'', ''-n'', ''200'', ''-u'', name, ''--no-pager''])"

text \<open>A request has no body or the bytes of a payload that satisfies \<open>V\<close>; a process is permitted.\<close>

definition event_ok ::
  "('w, 'sk) agent_env \<Rightarrow> (payload \<Rightarrow> bool) \<Rightarrow> string list \<Rightarrow> agent_event \<Rightarrow> bool" where
  "event_ok env V allowed e = (case e of
     Ran command \<Rightarrow> permitted_command allowed command
   | Sent call _ \<Rightarrow> hc_body call = EmptyBody \<or> (\<exists>p. V p \<and> hc_body call \<in> {JsonBody p, Content (dumps env p)})
   | Slept _ \<Rightarrow> True)"

lemma event_ok_simps [simp]: "event_ok env V allowed (Slept t)"
  "event_ok env V allowed (Ran command) \<longleftrightarrow> permitted_command allowed command"
  by (simp_all add: event_ok_def)

lemma calls_ok: "list_all (of_call call) es \<Longrightarrow> event_ok env V allowed (Sent call reply) \<Longrightarrow> list_all (event_ok env V allowed) es"
  by (auto simp: list_all_iff of_call_def event_ok_def split: agent_event.splits)

lemma validate_action_Inr:
  "validate_action env allowed service action = Inr (name, a) \<longleftrightarrow>
   service = JStr name \<and> name \<in> set allowed \<and> action = JStr a \<and> a \<in> set ALLOWED_ACTIONS"
  by (auto simp: validate_action_def unhashable_def split: json.splits if_splits)

lemma action_command_permitted:
  "a \<in> set ALLOWED_ACTIONS \<Longrightarrow> name \<in> set allowed \<Longrightarrow> permitted_command allowed (the (ACTION_COMMANDS a) @ [name])"
  by (auto simp: ALLOWED_ACTIONS_def ACTION_COMMANDS_def permitted_command_def)

lemma run_process_trace:
  "run_process env command timeout s = (outcome, s') \<Longrightarrow> trace s' = trace s @ [Ran command]"
  by (auto simp: run_process_def split_beta)

lemma py_str_200: "py_str 200 = ''200''"
  by code_simp

text \<open>A task starts no process, when it is refused, or one permitted process.\<close>

lemma run_task_trace:
  assumes "run_task env allowed kv s = (outcome, s')"
  shows "trace s' = trace s \<and> (\<exists>e. outcome = Inl e) \<or>
    (\<exists>command. permitted_command allowed command \<and> trace s' = trace s @ [Ran command])"
proof (cases "json_get ''action'' kv = JStr ''LOGS''")
  case True
  with assms have *: "fetch_logs env allowed (json_get ''service_name'' kv) LOG_LINES_DEFAULT s = (outcome, s')"
    by (simp add: run_task_def)
  show ?thesis
  proof (cases "validate_action env allowed (json_get ''service_name'' kv) (JStr ''STATUS'')")
    case (Inl e)
    with * show ?thesis by (auto simp: fetch_logs_def)
  next
    case (Inr na)
    then obtain name a where na: "na = (name, a)" "name \<in> set allowed"
      by (cases na) (auto simp: validate_action_Inr)
    let ?cmd = "[''journalctl'', ''-n'', ''200'', ''-u'', name, ''--no-pager'']"
    from * Inr na have "trace s' = trace s @ [Ran ?cmd]"
      by (auto simp: fetch_logs_def LOG_LINES_DEFAULT_def py_str_200 split_beta dest: run_process_trace
          intro!: run_process_trace [OF prod.collapse [symmetric]])
    with na(2) show ?thesis unfolding permitted_command_def by blast
  qed
next
  case False
  let ?t = "case map_of kv ''timeout_seconds'' of None \<Rightarrow> JInt 60 | Some t \<Rightarrow> t"
  from False assms have *:
    "run_action env allowed (json_get ''service_name'' kv) (json_get ''action'' kv) ?t s = (outcome, s')"
    by (simp add: run_task_def)
  show ?thesis
  proof (cases "validate_action env allowed (json_get ''service_name'' kv) (json_get ''action'' kv)")
    case (Inl e)
    with * show ?thesis by (auto simp: run_action_def)
  next
    case (Inr na)
    then obtain name a where na: "na = (name, a)" "name \<in> set allowed" "a \<in> set ALLOWED_ACTIONS"
      by (cases na) (auto simp: validate_action_Inr)
    from * Inr na have "trace s' = trace s @ [Ran (the (ACTION_COMMANDS a) @ [name])]"
      by (auto simp: run_action_def split_beta intro!: run_process_trace [OF prod.collapse [symmetric]])
    with action_command_permitted [OF na(3,2)] show ?thesis by blast
  qed
qed

section \<open>The reports of the worker\<close>

definition agent_failure_types :: "string list" where
  "agent_failure_types = [''COMMAND_NOT_FOUND'', ''PERMISSION_DENIED'', ''AGENT_EXECUTION_TIMEOUT'',
     ''SERVICE_NOT_WHITELISTED'', ''TASK_ACTION_INVALID'', ''SERVICE_UNHEALTHY'', ''UNKNOWN'']"

lemma task_outcome_cases:
  "rp_execution_id (task_outcome k a outcome) = k \<and>
   (if \<exists>output. outcome = Inr (True, output)
    then rp_status (task_outcome k a outcome) = ''SUCCESS'' \<and> rp_error_type (task_outcome k a outcome) = None
    else rp_status (task_outcome k a outcome) = ''FAILED'' \<and>
      (\<exists>t \<in> set agent_failure_types. rp_error_type (task_outcome k a outcome) = Some t))"
  by (auto simp: task_outcome_def failed_report_def agent_failure_types_def classify_failure_def
      classify_validation_error_def Let_def split: sum.splits exec_error.splits)

lemma agent_failures_not_retryable: "t \<in> set agent_failure_types \<Longrightarrow> \<not> is_retryable (Some t) m"
  by (auto simp: agent_failure_types_def is_retryable_def classify_error_def RETRYABLE_ERROR_TYPES_def)

text \<open>
  The part of the trace that belongs to one task: at most one permitted process, then the report of
  its execution to the result endpoint, sent at least once.
\<close>

definition task_events ::
  "('w, 'sk) agent_env \<Rightarrow> string list \<Rightarrow> json \<Rightarrow> agent_event list \<Rightarrow> bool" where
  "task_events env allowed execution_id es \<longleftrightarrow>
     (\<exists>ran sent call r.
        es = ran @ sent \<and>
        (ran = [] \<or> (\<exists>command. ran = [Ran command] \<and> permitted_command allowed command)) \<and>
        sent \<noteq> [] \<and> list_all (of_call call) sent \<and>
        hc_path call = ''/api/v1/agent/task/result'' \<and> hc_body call \<in> {JsonBody (ResultBody r), Content (dumps env (ResultBody r))} \<and>
        rp_execution_id r = execution_id \<and>
        (rp_status r = ''SUCCESS'' \<and> ran \<noteq> [] \<or>
         rp_status r = ''FAILED'' \<and> (\<exists>t \<in> set agent_failure_types. rp_error_type r = Some t)))"

lemma execute_one_trace:
  assumes "execute_one env c allowed (JObj kv) s = (res, s')" "map_of kv ''execution_id'' = Some k"
  shows "\<exists>es. trace s' = trace s @ es \<and> task_events env allowed k es"
proof -
  obtain outcome s1 where run: "run_task env allowed kv s = (outcome, s1)" by fastforce
  let ?r = "task_outcome k (json_get ''action'' kv) outcome"
  obtain reply where rep: "report_task_result env c ?r s1 = (reply, s')"
    using assms run by (cases "report_task_result env c ?r s1") (auto simp: execute_one_def)
  from run_task_trace [OF run] obtain ran where ran: "trace s1 = trace s @ ran"
    "ran = [] \<and> (\<exists>e. outcome = Inl e) \<or> (\<exists>command. ran = [Ran command] \<and> permitted_command allowed command)"
    by auto
  from request_trace [OF rep [unfolded report_task_result_def client_post_def]] obtain call reply' es where sent:
    "trace s' = trace s1 @ Sent call reply' # es" "list_all (of_call call) es"
    "hc_path call = ''/api/v1/agent/task/result''"
    "hc_body call \<in> {JsonBody (ResultBody ?r), Content (dumps env (ResultBody ?r))}"
    by auto
  have status: "rp_execution_id ?r = k" "rp_status ?r = ''SUCCESS'' \<and> ran \<noteq> [] \<or>
    rp_status ?r = ''FAILED'' \<and> (\<exists>t \<in> set agent_failure_types. rp_error_type ?r = Some t)"
    using task_outcome_cases [of k "json_get ''action'' kv" outcome] ran(2) by (auto split: if_splits)
  have "task_events env allowed k (ran @ Sent call reply' # es)"
    unfolding task_events_def
    by (rule exI [of _ ran], rule exI [of _ "Sent call reply' # es"], rule exI [of _ call], rule exI [of _ ?r])
      (use ran(2) sent(2-4) status in \<open>auto simp: of_call_def\<close>)
  with ran(1) sent(1) show ?thesis by simp
qed

section \<open>Everything a poll does\<close>

lemma request_ok:
  assumes "request env c verb path json s = (res, s')" and "\<And>p. json = Some p \<Longrightarrow> V p"
  shows "adds (event_ok env V allowed) s s'"
proof -
  from request_trace [OF assms(1)] obtain call reply es where
    t: "trace s' = trace s @ Sent call reply # es" "list_all (of_call call) es"
    and b: "case json of None \<Rightarrow> hc_body call = EmptyBody | Some p \<Rightarrow> hc_body call \<in> {JsonBody p, Content (dumps env p)}"
    by blast
  have ok: "event_ok env V allowed (Sent call reply')" for reply'
    using b assms(2) by (auto simp: event_ok_def split: option.splits)
  with calls_ok [OF t(2) ok] t(1) show ?thesis unfolding adds_def
    by (intro exI [of _ "Sent call reply # es"]) simp
qed

text \<open>The reports of the worker satisfy \<open>V\<close>.\<close>

definition accepts_reports :: "(payload \<Rightarrow> bool) \<Rightarrow> bool" where
  "accepts_reports V \<longleftrightarrow> (\<forall>r. rp_status r \<in> {''SUCCESS'', ''FAILED''} \<longrightarrow> V (ResultBody r))"

lemma task_events_ok:
  assumes "task_events env allowed k es" "accepts_reports V"
  shows "list_all (event_ok env V allowed) es"
proof -
  from assms(1) obtain ran sent call r where e: "es = ran @ sent"
    "ran = [] \<or> (\<exists>command. ran = [Ran command] \<and> permitted_command allowed command)"
    "list_all (of_call call) sent" "hc_body call \<in> {JsonBody (ResultBody r), Content (dumps env (ResultBody r))}"
    "rp_status r \<in> {''SUCCESS'', ''FAILED''}"
    unfolding task_events_def by (elim exE conjE) (rule that, auto)
  with assms(2) have "V (ResultBody r)" unfolding accepts_reports_def by blast
  with e(4) have "event_ok env V allowed (Sent call NoReply)" by (auto simp: event_ok_def)
  from calls_ok [OF e(3) this] e(1,2) show ?thesis by auto
qed

lemma execute_one_ok:
  assumes "execute_one env c allowed task s = (res, s')" "accepts_reports V"
  shows "adds (event_ok env V allowed) s s'"
proof (cases "\<exists>kv k. task = JObj kv \<and> map_of kv ''execution_id'' = Some k")
  case True
  then show ?thesis using assms execute_one_trace task_events_ok unfolding adds_def by metis
next
  case False
  then have "s' = s" using assms by (auto simp: execute_one_def split: json.splits option.splits)
  then show ?thesis by simp
qed

lemma poll_tasks_ok:
  assumes "poll_tasks env c allowed ts n s = (res, s')" "accepts_reports V"
  shows "adds (event_ok env V allowed) s s'"
  using assms(1)
proof (induction ts arbitrary: n s)
  case Nil
  then show ?case by simp
next
  case (Cons task ts)
  obtain r s1 where e: "execute_one env c allowed task s = (r, s1)" by fastforce
  from e Cons.prems have "s' = s1 \<or> (\<exists>m. poll_tasks env c allowed ts m s1 = (res, s'))"
    by (auto split: sum.splits json.splits)
  then have "adds (event_ok env V allowed) s1 s'" using Cons.IH by auto
  with execute_one_ok [OF e assms(2)] show ?case by (rule adds_trans)
qed

lemma poll_once_ok:
  assumes "poll_once env c allowed s = (res, s')" "accepts_reports V"
  shows "adds (event_ok env V allowed) s s'"
proof -
  obtain pending s1 where get: "client_get env c ''/api/v1/agent/tasks/pending'' s = (pending, s1)" by fastforce
  then have a: "adds (event_ok env V allowed) s s1" unfolding client_get_def by (rule request_ok) simp
  have "s' = s1 \<or> (\<exists>ts. poll_tasks env c allowed ts 0 s1 = (res, s'))"
    using assms(1) get by (auto simp: poll_once_def split: sum.splits option.splits)
  then have "adds (event_ok env V allowed) s1 s'" using poll_tasks_ok [OF _ assms(2)] by auto
  with a show ?thesis by (rule adds_trans)
qed

lemma poll_tasks_trace:
  assumes "\<forall>kv \<in> set kvs. map_of kv ''execution_id'' \<noteq> None"
  shows "\<exists>m s' blocks. poll_tasks env c allowed (map JObj kvs) n s = (Inr m, s') \<and> m \<le> n + int (length kvs) \<and>
    trace s' = trace s @ concat blocks \<and>
    list_all2 (\<lambda>kv. task_events env allowed (the (map_of kv ''execution_id''))) kvs blocks"
  using assms
proof (induction kvs arbitrary: n s)
  case Nil
  then show ?case by simp
next
  case (Cons kv kvs)
  obtain r s1 where e: "execute_one env c allowed (JObj kv) s = (r, s1)" by fastforce
  from Cons.prems obtain k where k: "map_of kv ''execution_id'' = Some k" by auto
  from execute_one_trace [OF e k] obtain es where es: "trace s1 = trace s @ es" "task_events env allowed k es" by blast
  define n' where "n' = (case r of Inl _ \<Rightarrow> n | Inr _ \<Rightarrow> n + 1)"
  have step: "poll_tasks env c allowed (map JObj (kv # kvs)) n s = poll_tasks env c allowed (map JObj kvs) n' s1"
    using e by (simp add: n'_def split: sum.splits)
  have "\<forall>kv \<in> set kvs. map_of kv ''execution_id'' \<noteq> None" using Cons.prems by simp
  from Cons.IH [OF this, of n' s1] obtain m s' blocks where IH:
    "poll_tasks env c allowed (map JObj kvs) n' s1 = (Inr m, s')" "m \<le> n' + int (length kvs)"
    "trace s' = trace s1 @ concat blocks"
    "list_all2 (\<lambda>kv. task_events env allowed (the (map_of kv ''execution_id''))) kvs blocks"
    by blast
  have "n' \<le> n + 1" by (simp add: n'_def split: sum.splits)
  with IH es k step show ?case
    by (intro exI [of _ m] exI [of _ s'] exI [of _ "es # blocks"]) simp
qed

end
