(* ===== verification/Agent_Runs.thy ===== *)
theory Agent_Runs
  imports Agent_Main Worker_Properties
begin

text \<open>
  The agent as a whole: whatever the servers, the clock and the processes it starts do, a run starts
  only permitted commands and sends only payloads that the backend accepts; the registration loop
  ends with the first success and its delays are the capped powers of two; a loop ends when the stop
  event is set.
\<close>

section \<open>Payloads\<close>

definition service_states :: "string set" where
  "service_states = {''RUNNING'', ''STOPPED'', ''FAILED'', ''UNKNOWN''}"

text \<open>The payload satisfies the schema of the backend for its endpoint.\<close>

definition payload_valid :: "string list \<Rightarrow> payload \<Rightarrow> bool" where
  "payload_valid allowed p = (case p of
     RegisterBody q \<Rightarrow> register_request_valid q
   | HeartbeatBody q \<Rightarrow> heartbeat_request_valid q
   | MetricsBody q \<Rightarrow> metrics_request_valid q
   | AssetsBody q \<Rightarrow> assets_request_valid q
   | ServicesBody q \<Rightarrow> services_request_valid q \<and>
       (\<forall>st \<in> set (sr_services q). st_service_name st \<in> set allowed \<and>
          st_current_status st \<in> service_states)
   | ResultBody r \<Rightarrow> rp_status r \<in> {''SUCCESS'', ''FAILED''})"

text \<open>What psutil and the system promise of their readings, and names that fit the columns of the backend.\<close>

definition host_sane :: "host \<Rightarrow> bool" where
  "host_sane h \<longleftrightarrow>
     0 \<le> h_cpu_percent h \<and> h_cpu_percent h \<le> 100 \<and> at_least_zero (h_cpu_count h) \<and>
     0 \<le> h_vm_total h \<and> 0 \<le> h_vm_used h \<and> 0 \<le> h_vm_percent h \<and> h_vm_percent h \<le> 100 \<and>
     percentage (h_root_percent h) \<and>
     list_all (\<lambda>p. code_points (pt_device p) \<le> 128 \<and> code_points (pt_mountpoint p) \<le> 255 \<and>
       code_points (pt_fstype p) \<le> 64 \<and> at_least_zero (pt_total p)) (h_partitions h) \<and>
     0 \<le> h_bytes_sent h \<and> 0 \<le> h_bytes_recv h \<and>
     list_all (\<lambda>(name, addrs). code_points name \<le> 128 \<and> list_all (\<lambda>a. code_points (snd a) \<le> 64) addrs)
       (h_interfaces h) \<and>
     0 \<le> fst (h_loadavg h) \<and> 0 \<le> fst (snd (h_loadavg h)) \<and> 0 \<le> snd (snd (h_loadavg h)) \<and>
     h_boot_time h \<le> h_time h \<and> code_points (h_hostname h) \<le> 128 \<and> code_points (h_system h) \<le> 128 \<and>
     code_points (h_release h) \<le> 128 \<and> code_points (h_machine h) \<le> 32 \<and> code_points (os_version h) \<le> 128 \<and>
     (case read_cpu_model h of Inr model \<Rightarrow> max_length 255 model | Inl _ \<Rightarrow> True)"

lemma py_trunc_nonneg: "0 \<le> x \<Longrightarrow> 0 \<le> py_trunc x"
  by (simp add: py_trunc_def)

lemma host_sane_rates:
  assumes "host_sane h"
  shows "0 \<le> round2 (h_cpu_percent h) \<and> round2 (h_cpu_percent h) \<le> 100"
    "0 \<le> mi_usage_percent (memory_collect h) \<and> mi_usage_percent (memory_collect h) \<le> 100"
    "0 \<le> mi_used_bytes (memory_collect h)" "0 \<le> mi_total_bytes (memory_collect h)"
    "0 \<le> collect_usage_percent h \<and> collect_usage_percent h \<le> 100"
    "0 \<le> h_bytes_recv h" "0 \<le> h_bytes_sent h"
    "0 \<le> si_load_1m (system_collect h)" "0 \<le> si_load_5m (system_collect h)" "0 \<le> si_load_15m (system_collect h)"
    "0 \<le> si_tcp_connections (system_collect h)" "0 \<le> si_uptime_seconds (system_collect h)"
  using assms unfolding host_sane_def
  by (simp_all add: memory_collect_def system_collect_def collect_usage_percent_def percentage_def split_beta
      round2_percentage round2_nonneg py_trunc_nonneg read_tcp_connections_def Let_def split: option.splits)

lemma collect_metrics_valid:
  assumes "host_sane h" "collect_metrics h = Inr q"
  shows "payload_valid allowed (MetricsBody (q\<lparr>mr_server_id := i, mr_timestamp := t\<rparr>))"
proof -
  from assms(2) obtain cpu where "cpu_collect h = Inr cpu" and q: "q =
    \<lparr>mr_server_id = None, mr_timestamp = Naive 0, mr_cpu_usage = Some (ci_usage_percent cpu),
     mr_memory_usage = Some (mi_usage_percent (memory_collect h)),
     mr_memory_used_bytes = Some (mi_used_bytes (memory_collect h)),
     mr_disk_usage = Some (collect_usage_percent h), mr_network_in_bytes = Some (h_bytes_recv h),
     mr_network_out_bytes = Some (h_bytes_sent h), mr_load_1m = Some (si_load_1m (system_collect h)),
     mr_load_5m = Some (si_load_5m (system_collect h)), mr_load_15m = Some (si_load_15m (system_collect h)),
     mr_tcp_connections = Some (si_tcp_connections (system_collect h)),
     mr_uptime_seconds = Some (si_uptime_seconds (system_collect h))\<rparr>"
    by (auto simp: collect_metrics_def bindE_eq_Inr Let_def)
  then have "ci_usage_percent cpu = round2 (h_cpu_percent h)" by (auto simp: cpu_collect_def bindE_eq_Inr)
  with host_sane_rates [OF assms(1)] show ?thesis
    by (simp add: q payload_valid_def metrics_request_valid_def percentage_def at_least_zero_def)
qed

lemma disk_total_nonneg:
  "host_sane h \<Longrightarrow> 0 \<le> (\<Sum>k\<leftarrow>disk_collect_assets h. case da_total_bytes k of None \<Rightarrow> 0 | Some n \<Rightarrow> n)"
  by (rule sum_list_nonneg)
    (auto simp: host_sane_def disk_collect_assets_def list_all_iff at_least_zero_def split: option.splits)

lemma host_sane_names:
  assumes "host_sane h" "cpu_collect h = Inr cpu"
  shows "code_points (si_hostname (system_collect h)) \<le> 128" "code_points (h_system h) \<le> 128"
    "code_points (os_version h) \<le> 128" "code_points (si_kernel_version (system_collect h)) \<le> 128"
    "code_points (h_machine h) \<le> 32" "max_length 255 (ci_model cpu)" "0 \<le> ci_cores cpu"
proof -
  from assms(2) obtain model where m: "read_cpu_model h = Inr model"
    "cpu = \<lparr>ci_usage_percent = round2 (h_cpu_percent h),
       ci_cores = (case h_cpu_count h of None \<Rightarrow> 0 | Some n \<Rightarrow> n), ci_model = model\<rparr>"
    by (auto simp: cpu_collect_def bindE_eq_Inr)
  have "at_least_zero (h_cpu_count h)" "case read_cpu_model h of Inr model \<Rightarrow> max_length 255 model | Inl _ \<Rightarrow> True"
    using assms(1) by (simp_all add: host_sane_def)
  with m show "max_length 255 (ci_model cpu)" "0 \<le> ci_cores cpu"
    by (simp_all add: at_least_zero_def split: option.splits)
  show "code_points (si_hostname (system_collect h)) \<le> 128" "code_points (h_system h) \<le> 128"
    "code_points (os_version h) \<le> 128" "code_points (si_kernel_version (system_collect h)) \<le> 128"
    "code_points (h_machine h) \<le> 32"
    using assms(1) by (simp_all add: host_sane_def system_collect_def split_beta)
qed

lemma collect_system_info_valid:
  assumes "host_sane h" "collect_system_info h = Inr q"
    and "code_points code \<le> 64" "1 \<le> code_points token" "max_length 32 version" "max_length 128 key"
  shows "payload_valid allowed (RegisterBody (q\<lparr>rg_server_code := code, rg_token := token,
    rg_agent_version := version, rg_signing_public_key := key\<rparr>))"
proof -
  let ?total = "\<Sum>k\<leftarrow>disk_collect_assets h. case da_total_bytes k of None \<Rightarrow> 0 | Some n \<Rightarrow> n"
  from assms(2) obtain cpu where cpu: "cpu_collect h = Inr cpu" and q: "q =
    \<lparr>rg_server_code = [], rg_token = [], rg_hostname = si_hostname (system_collect h), rg_os_name = Some (h_system h),
     rg_os_version = Some (os_version h), rg_kernel_version = Some (si_kernel_version (system_collect h)),
     rg_architecture = Some (h_machine h), rg_cpu_model = ci_model cpu, rg_cpu_cores = Some (ci_cores cpu),
     rg_memory_total_bytes = Some (mi_total_bytes (memory_collect h)), rg_disk_total_bytes = Some ?total,
     rg_agent_version = None, rg_signing_public_key = None\<rparr>"
    by (auto simp: collect_system_info_def bindE_eq_Inr Let_def)
  have some: "max_length n (Some x) \<longleftrightarrow> code_points x \<le> n" "at_least_zero (Some k) \<longleftrightarrow> 0 \<le> k" for n x and k :: int
    by (simp_all add: max_length_def at_least_zero_def)
  show ?thesis
    using host_sane_names [OF assms(1) cpu] host_sane_rates(4) [OF assms(1)] disk_total_nonneg [OF assms(1)] assms(3-6)
    by (simp add: q payload_valid_def register_request_valid_def some)
qed

lemma find_list_all: "list_all P xs \<Longrightarrow> List.find Q xs = Some x \<Longrightarrow> P x"
  by (metis find_Some_in list_all_iff)

lemma first_address_length:
  "list_all (\<lambda>a. code_points (snd a) \<le> 64) addrs \<Longrightarrow> max_length 64 (first_address family addrs)"
  by (auto simp: first_address_def max_length_def dest: find_list_all split: option.splits)

lemma collect_assets_valid:
  assumes "host_sane h"
  shows "payload_valid allowed (AssetsBody \<lparr>as_server_id = i, as_timestamp = t,
    as_disks = fst (collect_assets h), as_networks = snd (collect_assets h)\<rparr>)"
  using assms
  by (auto simp: payload_valid_def assets_request_valid_def collect_assets_def disk_collect_assets_def
      network_collect_assets_def host_sane_def list_all_iff max_length_def [of 255] max_length_def [of 64 "Some _"]
      intro!: first_address_length)

section \<open>The steps of the agent\<close>

abbreviation watched :: "AgentConfig \<Rightarrow> string list" where
  "watched cfg \<equiv> cc_services (cf_collect cfg)"

text \<open>\<open>V\<close> holds of every payload that the agent builds from the readings of its host.\<close>

definition accepts_payloads ::
  "(payload \<Rightarrow> bool) \<Rightarrow> ('w, 'sk) agent_env \<Rightarrow> 'w host_env \<Rightarrow> AgentConfig \<Rightarrow> 'sk AgentClient \<Rightarrow> bool" where
  "accepts_payloads V env hst cfg c \<longleftrightarrow>
     accepts_reports V \<and>
     (\<forall>w q key. collect_system_info (fst (readings hst w)) = Inr q \<longrightarrow>
        key = None \<or> key = signing_public_key env c \<longrightarrow>
        V (RegisterBody (q\<lparr>rg_server_code := sc_server_code (cf_server cfg), rg_token := sc_token (cf_server cfg),
          rg_agent_version := Some AGENT_VERSION, rg_signing_public_key := key\<rparr>))) \<and>
     (\<forall>i t. V (HeartbeatBody \<lparr>hr_server_id = i, hr_agent_version = Some AGENT_VERSION, hr_timestamp = t\<rparr>)) \<and>
     (\<forall>w q i t. collect_metrics (fst (readings hst w)) = Inr q \<longrightarrow>
        V (MetricsBody (q\<lparr>mr_server_id := i, mr_timestamp := t\<rparr>))) \<and>
     (\<forall>w i t. V (AssetsBody \<lparr>as_server_id = i, as_timestamp = t,
        as_disks = fst (collect_assets (fst (readings hst w))),
        as_networks = snd (collect_assets (fst (readings hst w)))\<rparr>)) \<and>
     (\<forall>i t xs. (\<forall>st \<in> set xs. st_service_name st \<in> set (watched cfg) \<and>
          st_current_status st \<in> service_states) \<longrightarrow>
        V (ServicesBody \<lparr>sr_server_id = i, sr_timestamp = t, sr_services = xs\<rparr>))"

lemma trace_read_host [simp]: "trace (snd (read_host hst s)) = trace s"
  by (simp add: read_host_def split_beta)

lemma trace_utcnow [simp]: "trace (snd (utcnow_iso env s)) = trace s"
  by (simp add: utcnow_iso_def split_beta)

lemma adds_wait [simp]: "adds P s (wait_for hst n s') \<longleftrightarrow> adds P s s'"
  by (simp add: adds_def wait_for_def)

lemma adds_from: "trace t = trace s \<Longrightarrow> adds P t u \<Longrightarrow> adds P s u"
  by (simp add: adds_def)

lemma client_post_ok:
  "V p \<Longrightarrow> adds (event_ok env V allowed) s (snd (client_post env c url p s))"
  unfolding client_post_def by (cases "request env c ''POST'' url (Some p) s") (auto dest: request_ok)

lemma is_active_status_range:
  "is_active_status outcome = Some st \<Longrightarrow> st \<in> service_states"
  by (auto simp: service_states_def is_active_status_def STATUS_MAP_def map_of_Cons_code
      split: run_outcome.splits option.splits if_splits dest!: map_of_SomeD)

lemma service_is_active_ok:
  assumes "service_is_active env name s = (st, s')" "name \<in> set allowed"
  shows "adds (event_ok env V allowed) s s'"
    and "st = Some status \<Longrightarrow> status \<in> service_states"
proof -
  from assms(1) obtain outcome where
    r: "run_process env [''systemctl'', ''is-active'', name] (JInt 10) s = (outcome, s')" "st = is_active_status outcome"
    by (auto simp: service_is_active_def split: prod.splits)
  show "adds (event_ok env V allowed) s s'"
    by (rule adds_one [OF run_process_trace [OF r(1)]]) (use assms(2) in \<open>simp add: permitted_command_def\<close>)
  show "status \<in> service_states" if "st = Some status"
    using is_active_status_range r(2) that by metis
qed

lemma collect_services_ok:
  assumes "collect_services env names s = (sts, s')" "set names \<subseteq> set allowed"
  shows "adds (event_ok env V allowed) s s' \<and>
    (\<forall>xs. sts = Some xs \<longrightarrow> (\<forall>st \<in> set xs. st_service_name st \<in> set allowed \<and>
       st_current_status st \<in> service_states))"
  using assms
proof (induction names arbitrary: s sts s')
  case Nil
  then show ?case by auto
next
  case (Cons name names)
  obtain st s1 where a: "service_is_active env name s = (st, s1)" by fastforce
  have ok: "adds (event_ok env V allowed) s s1"
    "\<And>status. st = Some status \<Longrightarrow> status \<in> service_states"
    using service_is_active_ok [OF a] Cons.prems(2) by auto
  obtain rest s2 where r: "collect_services env names s1 = (rest, s2)" by fastforce
  have IH: "adds (event_ok env V allowed) s1 s2"
    "\<And>xs st. rest = Some xs \<Longrightarrow> st \<in> set xs \<Longrightarrow> st_service_name st \<in> set allowed \<and>
       st_current_status st \<in> service_states"
    using Cons.IH [OF r] Cons.prems(2) by auto
  show ?case
    using Cons.prems a r ok IH adds_trans [OF ok(1) IH(1)] by (auto split: option.splits)
qed

lemma register_attempt_ok:
  assumes "accepts_payloads V env hst cfg c"
  shows "adds (event_ok env V allowed) s (snd (register_attempt env hst cfg c s))"
proof -
  have "adds (event_ok env V allowed) s (snd (send_register env c (sc_server_code (cf_server cfg))
      (sc_token (cf_server cfg)) q AGENT_VERSION (snd (read_host hst s))))"
    if "collect_system_info (fst (read_host hst s)) = Inr q" for q
    unfolding send_register_def
    by (rule adds_from [OF trace_read_host], rule client_post_ok)
      (use assms that in \<open>auto simp: accepts_payloads_def read_host_def split_beta\<close>)
  then show ?thesis
    by (auto simp: register_attempt_def split_beta adds_same split: sum.splits)
qed

lemma agent_step_ok:
  assumes "agent_step env hst cfg c s s'" "accepts_payloads V env hst cfg c"
  shows "adds (event_ok env V (watched cfg)) s s'"
  using assms(1)
proof cases
  case Registering
  then show ?thesis using register_attempt_ok assms(2) by simp
next
  case (BackingOff delay)
  then show ?thesis by (simp add: adds_def emit_def)
next
  case (Beating server_id)
  have "adds (event_ok env V (watched cfg)) s (snd (send_heartbeat env c server_id AGENT_VERSION s))"
    unfolding send_heartbeat_def split_beta Let_def
    by (rule adds_from [OF trace_utcnow], rule client_post_ok) (use assms(2) in \<open>simp add: accepts_payloads_def\<close>)
  with Beating show ?thesis by (simp add: heartbeat_step_def)
next
  case (Measuring server_id)
  let ?s1 = "snd (read_host hst s)"
  have "adds (event_ok env V (watched cfg)) ?s1 (snd (send_metrics env c server_id q ?s1))"
    if "collect_metrics (fst (read_host hst s)) = Inr q" for q
    unfolding send_metrics_def split_beta Let_def
    by (rule adds_from [OF trace_utcnow], rule client_post_ok)
      (use assms(2) that in \<open>simp add: accepts_payloads_def read_host_def split_beta\<close>)
  then have "adds (event_ok env V (watched cfg)) s (case collect_metrics (fst (read_host hst s)) of
      Inl e \<Rightarrow> ?s1 | Inr ms \<Rightarrow> snd (send_metrics env c server_id ms ?s1))"
    by (auto simp: adds_same intro: adds_from [OF trace_read_host] split: sum.splits)
  with Measuring show ?thesis by (simp add: metrics_step_def split_beta)
next
  case (Listing server_id)
  let ?h = "fst (read_host hst s)" and ?s1 = "snd (read_host hst s)"
  let ?ok = "event_ok env V (watched cfg)"
  obtain r s2 where a: "send_assets env c server_id (collect_assets ?h) ?s1 = (r, s2)" by fastforce
  have "adds ?ok ?s1 (snd (send_assets env c server_id (collect_assets ?h) ?s1))"
    unfolding send_assets_def split_beta Let_def
    by (rule adds_from [OF trace_utcnow], rule client_post_ok)
      (use assms(2) in \<open>simp add: accepts_payloads_def read_host_def split_beta\<close>)
  then have s2: "adds ?ok s s2" using a by (simp add: adds_from [OF trace_read_host])
  obtain sts s3 where b: "collect_services env (watched cfg) s2 = (sts, s3)" by fastforce
  note cs = collect_services_ok [OF b subset_refl]
  have s3: "adds ?ok s s3" using s2 cs by (blast intro: adds_trans)
  have "adds ?ok s3 (snd (send_services env c server_id xs s3))" if "sts = Some xs" for xs
    unfolding send_services_def split_beta Let_def
    by (rule adds_from [OF trace_utcnow], rule client_post_ok)
      (use assms(2) that cs in \<open>simp add: accepts_payloads_def\<close>)
  with s2 s3 have "adds ?ok s (case (r, s2) of (Inl _, s2) \<Rightarrow> s2 | (Inr _, s2) \<Rightarrow>
      (case (sts, s3) of (None, s3) \<Rightarrow> s3 | (Some statuses, s3) \<Rightarrow> snd (send_services env c server_id statuses s3)))"
    by (auto intro: adds_trans split: sum.splits option.splits)
  with Listing a b show ?thesis by (auto simp: assets_step_def split_beta split: sum.splits)
next
  case Working
  obtain r s1 where "poll_once env c (watched cfg) s = (r, s1)" by fastforce
  with Working show ?thesis
    using poll_once_ok assms(2) by (fastforce simp: worker_step_def accepts_payloads_def)
qed

lemma agent_run_ok:
  assumes "(agent_step env hst cfg c)\<^sup>*\<^sup>* s s'" "accepts_payloads V env hst cfg c"
  shows "adds (event_ok env V (watched cfg)) s s'"
  using assms(1) by (induction rule: rtranclp_induct) (auto intro: adds_trans agent_step_ok assms(2))

end
