(* ===== verification/Agent_Run_Properties.thy ===== *)
theory Agent_Run_Properties
  imports Agent_Runs
begin

text \<open>
  The properties of the agent's own program, with a concrete agent whose world is the list of the
  replies still to come.
\<close>

section \<open>A concrete agent\<close>

definition script_env :: "(http_reply list, string) agent_env" where
  "script_env = \<lparr>transport = (\<lambda>_ w. case w of [] \<Rightarrow> (NoReply, []) | r # rs \<Rightarrow> (r, rs)),
     random_float = (\<lambda>w. (1 / 4, w)), clock = (\<lambda>w. (0, w)), uuid4 = (\<lambda>w. (''u'', w)),
     dumps = (\<lambda>_. ''{}''),
     key_ops = \<lparr>public_bytes = (\<lambda>k. k), ed25519_sign = (\<lambda>_ m. m), agent_sha256_hex = (\<lambda>s. s)\<rparr>,
     subprocess_run = (\<lambda>_ _ w. (Completed 3 ''inactive'' [], w)), format_value = (\<lambda>_. ''?'')\<rparr>"

definition script_host :: host where
  "script_host = \<lparr>h_cpu_percent = 12, h_cpu_count = Some 4, h_cpuinfo = None, h_vm_total = 8, h_vm_used = 4,
     h_vm_percent = 50, h_root_percent = None, h_partitions = [], h_bytes_sent = 0, h_bytes_recv = 0,
     h_af_inet = None, h_interfaces = [], h_loadavg = (1, 1, 1), h_proc_tcp = Some 3, h_proc_tcp6 = None, h_time = 10,
     h_boot_time = 0, h_hostname = ''h'', h_system = ''Linux'', h_release = ''6'', h_machine = ''x'',
     h_os_release = None\<rparr>"

definition script_host_env :: "http_reply list host_env" where
  "script_host_env = \<lparr>readings = (\<lambda>w. (script_host, w)), stop_is_set = (\<lambda>w. w = []), stop_wait = (\<lambda>_ w. w)\<rparr>"

definition script_client :: "string AgentClient" where
  "script_client = \<lparr>ac_retry_max_seconds = 60, ac_retry_max_count = 2, ac_retry_jitter = True, ac_signer = None\<rparr>"

definition script_config :: AgentConfig where
  "script_config = \<lparr>cf_server = \<lparr>sc_url = ''http'', sc_token = ''t'', sc_server_code = ''s1'', sc_signing_key_file = ''k''\<rparr>,
     cf_collect = default_collect\<rparr>"

definition script_task :: "(string \<times> json) list" where
  "script_task = [(''execution_id'', JInt 7), (''action'', JStr ''RESTART''), (''service_name'', JStr ''nginx''),
     (''timeout_seconds'', JInt 30)]"

text \<open>The poll is answered with one task after a lost reply; its report is lost once, too.\<close>

definition script_start :: "http_reply list agent_run" where
  "script_start = \<lparr>world = [NoReply, Reply 200 (JObj [(''data'', JArr [JObj script_task])]), NoReply,
     Reply 200 (JObj [(''data'', JNull)])], trace = []\<rparr>"

section \<open>The client\<close>

text \<open>
  C27. Every request ends, after at most \<open>retry_budget\<close> repetitions. The same call, with the same body
  and the same signed headers, is sent each time; a repetition follows a lost reply only, after a
  sleep of \<open>2 ^ i\<close> seconds, or with jitter between half and one and a half times that and never more
  than the longest delay. The first reply decides the result, whatever its status; without a reply
  the budget has been used up and the error is one of the two of exhausted retries.
\<close>

theorem request_retries:
  assumes "\<And>w. 0 \<le> fst (random_float env w) \<and> fst (random_float env w) < 1"
    and "request env c verb path json s = (res, s')"
  shows "\<exists>call sleeps final. trace s' = trace s @ attempts call sleeps final \<and>
    fst (build_call env c verb path json s) = call \<and> hc_method call = verb \<and> hc_path call = path \<and>
    length sleeps \<le> retry_budget c \<and>
    (\<forall>i < length sleeps. if ac_retry_jitter c
       then 2 ^ i / 2 \<le> sleeps ! i \<and> sleeps ! i \<le> 3 / 2 * 2 ^ i \<and> sleeps ! i \<le> of_int (ac_retry_max_seconds c)
       else sleeps ! i = 2 ^ i) \<and>
    (case final of Reply status payload \<Rightarrow> res = interpret_response status payload
     | NoReply \<Rightarrow> length sleeps = retry_budget c \<and>
         res \<in> {Inl (ReporterError TooManyRetries), Inl (ReporterError FinalFailure)})"
  using request_attempts [OF assms] unfolding slept_ok_def by blast

lemma request_retries_witness:
  "retry_budget script_client = 2 \<and>
   (\<exists>call sleeps final. trace (snd (client_get script_env script_client ''/x'' script_start)) = attempts call sleeps final \<and>
     length sleeps \<le> 2)"
proof -
  have b: "retry_budget script_client = 2" by code_simp
  have "\<And>w. 0 \<le> fst (random_float script_env w) \<and> fst (random_float script_env w) < 1"
    by (simp add: script_env_def)
  from request_retries [OF this prod.collapse [symmetric], of script_client "''GET''" "''/x''" None script_start]
  have "\<exists>call sleeps final. trace (snd (client_get script_env script_client ''/x'' script_start)) =
      trace script_start @ attempts call sleeps final \<and> length sleeps \<le> retry_budget script_client"
    unfolding client_get_def by blast
  with b show ?thesis by (simp add: script_start_def)
qed

section \<open>The executor\<close>

text \<open>
  C24. The agent runs no other command than \<open>systemctl\<close> with one of four verbs, or \<open>journalctl\<close> for the
  last 200 lines, on a service of its own configuration: whatever the server answers, in every
  sequence of steps of its threads.
\<close>

theorem agent_starts_only_permitted_commands:
  assumes "(agent_step env hst cfg c)\<^sup>*\<^sup>* s s'" and "trace s = []" and "Ran command \<in> set (trace s')"
  shows "\<exists>name \<in> set (cc_services (cf_collect cfg)).
    (\<exists>verb \<in> {''is-active'', ''start'', ''stop'', ''restart''}. command = [''systemctl'', verb, name]) \<or>
    command = [''journalctl'', ''-n'', ''200'', ''-u'', name, ''--no-pager'']"
proof -
  have "accepts_payloads (\<lambda>_. True) env hst cfg c"
    by (simp add: accepts_payloads_def accepts_reports_def)
  from agent_run_ok [OF assms(1) this] have "list_all (event_ok env (\<lambda>_. True) (watched cfg)) (trace s')"
    using assms(2) by (auto simp: adds_def)
  with assms(3) have "event_ok env (\<lambda>_. True) (watched cfg) (Ran command)" by (auto simp: list_all_iff)
  then show ?thesis by (simp add: permitted_command_def)
qed

definition script_end :: "http_reply list agent_run" where
  "script_end = worker_step script_env script_host_env script_config script_client script_start"

lemma script_end_step:
  "(agent_step script_env script_host_env script_config script_client)\<^sup>*\<^sup>* script_start script_end"
  unfolding script_end_def by (rule r_into_rtranclp) (rule agent_step.Working)

lemma script_end_trace: "Ran [''systemctl'', ''restart'', ''nginx''] \<in> set (trace script_end)"
  by code_simp

lemma agent_starts_only_permitted_commands_witness:
  "\<exists>name \<in> {''nginx'', ''docker'', ''ssh''}.
    (\<exists>verb \<in> {''is-active'', ''start'', ''stop'', ''restart''}. [''systemctl'', ''restart'', ''nginx''] = [''systemctl'', verb, name]) \<or>
    [''systemctl'', ''restart'', ''nginx''] = [''journalctl'', ''-n'', ''200'', ''-u'', name, ''--no-pager'']"
proof -
  have "set (cc_services (cf_collect script_config)) = {''nginx'', ''docker'', ''ssh''}" "trace script_start = []"
    by (simp_all add: script_config_def default_collect_def script_start_def)
  with agent_starts_only_permitted_commands [OF script_end_step _ script_end_trace] show ?thesis by metis
qed


definition script_report :: task_report where
  "script_report = \<lparr>rp_execution_id = JInt 7, rp_status = ''FAILED'', rp_result_text = None,
     rp_error_message = Some ''inactive'', rp_error_type = Some ''SERVICE_UNHEALTHY'', rp_logs = None\<rparr>"

definition script_call :: http_call where
  "script_call = \<lparr>hc_method = ''POST'', hc_path = ''/api/v1/agent/task/result'',
     hc_body = JsonBody (ResultBody script_report), hc_headers = None, hc_content_type = False\<rparr>"

lemma script_call_sent: "Sent script_call NoReply \<in> set (trace script_end)"
  by code_simp


section \<open>The worker\<close>

text \<open>
  A poll that returns tasks leads, for every one of them and in their order, to at most one
  permitted process and to the report of that execution, sent at least once: \<open>SUCCESS\<close> after a process,
  or \<open>FAILED\<close> with one of the seven error types. An error of one task does not keep the others from
  being executed and reported.
\<close>

theorem poll_reports_every_task:
  assumes "client_get env c ''/api/v1/agent/tasks/pending'' s = (Inr (JArr (map JObj kvs)), s1)"
    and "\<forall>kv \<in> set kvs. map_of kv ''execution_id'' \<noteq> None"
  shows "\<exists>processed s' blocks. poll_once env c allowed s = (Inr processed, s') \<and> processed \<le> int (length kvs) \<and>
    trace s' = trace s1 @ concat blocks \<and>
    list_all2 (\<lambda>kv. task_events env allowed (the (map_of kv ''execution_id''))) kvs blocks"
proof -
  have "json_items (if falsy (JArr (map JObj kvs)) then JArr [] else JArr (map JObj kvs)) = Some (map JObj kvs)"
    by (simp add: json_items_def falsy_def)
  then have "poll_once env c allowed s = poll_tasks env c allowed (map JObj kvs) 0 s1"
    using assms(1) by (simp add: poll_once_def)
  with poll_tasks_trace [OF assms(2), of env c allowed 0 s1] show ?thesis by simp
qed

lemma poll_reports_every_task_witness:
  "\<exists>processed s' es. poll_once script_env script_client [''nginx''] script_start = (Inr processed, s') \<and>
    processed \<le> 1 \<and> task_events script_env [''nginx''] (JInt 7) es \<and>
    trace s' = trace (snd (client_get script_env script_client ''/api/v1/agent/tasks/pending'' script_start)) @ es"
proof -
  let ?get = "client_get script_env script_client ''/api/v1/agent/tasks/pending'' script_start"
  have "fst ?get = Inr (JArr (map JObj [script_task]))" by code_simp
  then have get: "?get = (Inr (JArr (map JObj [script_task])), snd ?get)" by (metis prod.collapse)
  have k: "map_of script_task ''execution_id'' = Some (JInt 7)" by code_simp
  have "\<forall>kv \<in> set [script_task]. map_of kv ''execution_id'' \<noteq> None" using k by simp
  from poll_reports_every_task [OF get this, of "[''nginx'']"] k show ?thesis
    by (auto simp: list_all2_Cons1)
qed

text \<open>The request the backend reads out of a report for execution \<open>k\<close>.\<close>

definition result_request :: "ident \<Rightarrow> task_report \<Rightarrow> TaskResultRequest" where
  "result_request k r = \<lparr>tr_execution_id = k, tr_status = rp_status r, tr_exit_code = None,
     tr_result_text = rp_result_text r, tr_error_message = rp_error_message r,
     tr_error_type = rp_error_type r, tr_logs = rp_logs r\<rparr>"

text \<open>
  C26. No failure that the agent reports is retried. Its error types and the retryable error types of
  the backend have nothing in common, so whatever the executor returned or raised, short of success,
  the execution ends as \<open>FAILED\<close>, also with attempts and time left.
\<close>

theorem agent_failures_are_final:
  assumes "\<And>output. outcome \<noteq> Inr (True, output)"
  shows "\<exists>message error_type.
    task_outcome execution_id action outcome = failed_report execution_id message error_type \<and>
    error_type \<notin> set RETRYABLE_ERROR_TYPES \<and>
    report_failure now (result_request k (task_outcome execution_id action outcome)) task e d =
      log_record (ex_id e) (text_or (Some message) LogExecutionFailed) LEVEL_ERROR
        (finish now FAILED None None (Some message) (Some error_type) (ex_id e) d)"
proof -
  let ?r = "task_outcome execution_id action outcome"
  have "\<exists>message error_type. ?r = failed_report execution_id message error_type"
    using assms unfolding task_outcome_def by (auto split: sum.splits exec_error.splits bool.splits)
  then obtain message error_type where r: "?r = failed_report execution_id message error_type" by blast
  have "\<exists>t \<in> set agent_failure_types. rp_error_type ?r = Some t"
    using task_outcome_cases [of execution_id action outcome] assms by (auto split: if_splits)
  with r have t: "error_type \<in> set agent_failure_types" by (simp add: failed_report_def)
  then have ne: "error_type \<noteq> []" "error_type \<notin> set RETRYABLE_ERROR_TYPES"
    by (auto simp: agent_failure_types_def RETRYABLE_ERROR_TYPES_def)
  have "report_failure now (result_request k ?r) task e d =
      log_record (ex_id e) (text_or (Some message) LogExecutionFailed) LEVEL_ERROR
        (finish now FAILED None None (Some message) (Some error_type) (ex_id e) d)"
    using agent_failures_not_retryable [OF t] ne(1)
    by (simp add: r report_failure_def result_request_def failed_report_def Let_def)
  with r ne(2) show ?thesis by blast
qed

lemma agent_failures_are_final_witness:
  "\<exists>message error_type. task_outcome (JInt 7) (JStr ''START'') (Inr (False, ''Connection timed out'')) =
      failed_report (JInt 7) message error_type \<and> error_type \<notin> set RETRYABLE_ERROR_TYPES"
  using agent_failures_are_final [of "Inr (False, ''Connection timed out'')" "JInt 7" "JStr ''START''"] by blast

section \<open>Registration\<close>

text \<open>The state before the attempt with number \<open>n\<close>, when the ones before it failed.\<close>

fun before_attempt ::
  "('w, 'sk) agent_env \<Rightarrow> 'w host_env \<Rightarrow> AgentConfig \<Rightarrow> 'sk AgentClient \<Rightarrow> 'w agent_run \<Rightarrow> nat \<Rightarrow> 'w agent_run" where
  "before_attempt env hst cfg c s 0 = s"
| "before_attempt env hst cfg c s (Suc n) =
     emit (Slept (min (2 ^ n) (of_int (cc_retry_max_seconds (cf_collect cfg)))))
       (snd (register_attempt env hst cfg c (before_attempt env hst cfg c s n)))"

lemma min_double: "0 \<le> (m :: rat) \<Longrightarrow> 0 \<le> x \<Longrightarrow> min (min x m * 2) m = min (2 * x) m"
  by (auto simp: min_def)

lemma register_loop_from:
  assumes "k \<le> n" and "1 \<le> cc_retry_max_seconds (cf_collect cfg)"
    and "\<And>i. i < n \<Longrightarrow> fst (register_attempt env hst cfg c (before_attempt env hst cfg c s i)) = None"
    and "register_attempt env hst cfg c (before_attempt env hst cfg c s n) = (Some server_id, s')"
  shows "register_loop env hst cfg c (min (2 ^ k) (of_int (cc_retry_max_seconds (cf_collect cfg))))
    (before_attempt env hst cfg c s k) = Some (server_id, s')"
  using assms(1)
proof (induction k rule: inc_induct)
  case base
  then show ?case using assms(4) by (subst register_loop.simps) simp
next
  case (step k)
  let ?M = "of_int (cc_retry_max_seconds (cf_collect cfg)) :: rat"
  have "0 \<le> ?M" using assms(2) by simp
  then have double: "min (min (2 ^ k) ?M * 2) ?M = min (2 ^ Suc k) ?M" using min_double by simp
  obtain s1 where a: "register_attempt env hst cfg c (before_attempt env hst cfg c s k) = (None, s1)"
    using assms(3) [OF step.hyps(2)] by (metis prod.collapse)
  then have "before_attempt env hst cfg c s (Suc k) = emit (Slept (min (2 ^ k) ?M)) s1" by simp
  with step.IH show ?case by (subst register_loop.simps) (simp only: a double prod.case option.case)
qed

lemma loop_stops:
  assumes "\<And>i. i < n \<Longrightarrow> \<not> stop_is_set hst (world ((step ^^ i) s))" and "stop_is_set hst (world ((step ^^ n) s))"
  shows "until_stopped hst step s = Some ((step ^^ n) s)"
  using assms
proof (induction n arbitrary: s)
  case 0
  then show ?case by (subst until_stopped.simps) simp
next
  case (Suc n)
  have "\<not> stop_is_set hst (world s)" using Suc.prems(1) [of 0] by simp
  moreover have "until_stopped hst step (step s) = Some ((step ^^ n) (step s))"
    using Suc.IH [of "step s"] Suc.prems(1) [of "Suc _"] Suc.prems(2) by (simp add: funpow_swap1)
  ultimately show ?case by (subst until_stopped.simps) (simp add: funpow_swap1)
qed

text \<open>
  C29. The agent registers: when the attempts before the one with number \<open>n\<close> fail, for whatever reason,
  and that one succeeds, the loop ends with its server id, after sleeps of 1, 2, 4, ... seconds,
  none of them longer than the configured delay. A thread of the agent then loops until the stop
  event is set and ends after the iteration that finds it set.
\<close>

theorem agent_registers_and_stops:
  assumes "agent_config_valid cfg"
    and "\<And>i. i < n \<Longrightarrow> fst (register_attempt env hst cfg c (before_attempt env hst cfg c s i)) = None"
    and "register_attempt env hst cfg c (before_attempt env hst cfg c s n) = (Some server_id, s')"
    and "\<And>i. i < m \<Longrightarrow> \<not> stop_is_set hst (world ((worker_step env hst cfg c ^^ i) s'))"
    and "stop_is_set hst (world ((worker_step env hst cfg c ^^ m) s'))"
  shows "register_agent env hst cfg c s = Some (server_id, s') \<and>
    task_worker_loop env hst cfg c s' = Some ((worker_step env hst cfg c ^^ m) s')"
proof -
  have M: "1 \<le> cc_retry_max_seconds (cf_collect cfg)" using assms(1) by (simp add: agent_config_valid_def)
  then have one: "min (2 ^ 0) (of_int (cc_retry_max_seconds (cf_collect cfg))) = (1 :: rat)" by simp
  have "before_attempt env hst cfg c s 0 = s" by simp
  with register_loop_from [OF le0 M assms(2,3)] have "register_agent env hst cfg c s = Some (server_id, s')"
    unfolding one register_agent_def by simp
  moreover have "task_worker_loop env hst cfg c s' = Some ((worker_step env hst cfg c ^^ m) s')"
    unfolding task_worker_loop_def by (rule loop_stops [OF assms(4,5)])
  ultimately show ?thesis by blast
qed

text \<open>A first attempt whose three requests are all lost, a second one that is answered.\<close>

definition register_start :: "http_reply list agent_run" where
  "register_start = \<lparr>world = [NoReply, NoReply, NoReply, Reply 200 (JObj [(''data'', JObj [(''server_id'', JInt 1)])]),
     Reply 200 (JObj [(''data'', JArr [])])], trace = []\<rparr>"

definition register_end :: "http_reply list agent_run" where
  "register_end = snd (register_attempt script_env script_host_env script_config script_client
     (before_attempt script_env script_host_env script_config script_client register_start 1))"

lemma agent_registers_and_stops_witness:
  "register_agent script_env script_host_env script_config script_client register_start = Some (JInt 1, register_end) \<and>
   task_worker_loop script_env script_host_env script_config script_client register_end =
     Some ((worker_step script_env script_host_env script_config script_client ^^ 1) register_end)"
proof -
  let ?attempt = "register_attempt script_env script_host_env script_config script_client"
  let ?before = "before_attempt script_env script_host_env script_config script_client register_start"
  let ?step = "worker_step script_env script_host_env script_config script_client"
  have valid: "agent_config_valid script_config" by code_simp
  have "fst (?attempt (?before 0)) = None" by code_simp
  then have lost: "fst (?attempt (?before i)) = None" if "i < 1" for i using that by simp
  have "fst (?attempt (?before 1)) = Some (JInt 1)" by code_simp
  then have won: "?attempt (?before 1) = (Some (JInt 1), register_end)"
    unfolding register_end_def by (metis prod.collapse)
  have "\<not> stop_is_set script_host_env (world register_end)" by code_simp
  then have run: "\<not> stop_is_set script_host_env (world ((?step ^^ i) register_end))" if "i < 1" for i using that by simp
  have "stop_is_set script_host_env (world (?step register_end))" by code_simp
  then have stop: "stop_is_set script_host_env (world ((?step ^^ 1) register_end))" by simp
  show ?thesis using agent_registers_and_stops [OF valid lost won run stop] by blast
qed

section \<open>Observations\<close>

text \<open>With a longest delay of one second, which the configuration allows, nothing is ever repeated.\<close>

lemma one_second_never_repeats: "ac_retry_max_seconds c \<le> 1 \<Longrightarrow> retry_budget c = 0"
proof (cases "nat (ac_retry_max_count c)")
  case (Suc n)
  then have "[0..<nat (ac_retry_max_count c)] = 0 # [1..<Suc n]" by (simp add: upt_conv_Cons)
  then show "ac_retry_max_seconds c \<le> 1 \<Longrightarrow> retry_budget c = 0" by (simp add: retry_budget_def)
qed (simp add: retry_budget_def)

text \<open>A \<open>journalctl\<close> that exceeds its 30 seconds: the text of the exception has no \<open>timeout\<close> in it.\<close>

lemma log_timeout_is_unknown:
  "classify_failure (Some (zh_logs_failed @ ''Command timed out after 30 seconds'')) = ''UNKNOWN''"
  by code_simp

text \<open>Output that is not text of the locale counts as a refused action, though the process has run.\<close>

lemma undecodable_output_is_refused_action:
  "task_outcome k (JStr ''LOGS'') (Inl (RaisedValueError ''invalid start byte'')) =
   failed_report k ''invalid start byte'' ''TASK_ACTION_INVALID''"
  by code_simp

text \<open>Without \<open>psutil.AF_INET\<close> no interface is ever reported with its address.\<close>

lemma no_address_without_af_inet:
  "h_af_inet h = None \<Longrightarrow> a \<in> set (snd (collect_assets h)) \<Longrightarrow> na_ip_address a = None"
  by (auto simp: collect_assets_def network_collect_assets_def first_address_def find_None_iff)

end
