(* ===== verification/Server_Service.thy ===== *)
theory Server_Service
  imports Server_Repository Agent_Service Users
begin

text \<open>
  The management of servers: \<open>backend/app/services/server_service.py\<close>, \<open>schemas/server.py\<close>. The
  plain text of a new agent token, which \<open>secrets.token_urlsafe\<close> makes, is an argument. The two
  unique keys of \<open>ops_server\<close> also count soft-deleted rows.
\<close>

record ServerCreate =
  sc_server_code :: string
  sc_hostname :: string
  sc_ip_address :: string
  sc_ssh_port :: int
  sc_remark :: "string option"

definition server_create_valid :: "ServerCreate \<Rightarrow> bool" where
  "server_create_valid c \<longleftrightarrow>
     1 \<le> code_points (sc_server_code c) \<and> code_points (sc_server_code c) \<le> 64 \<and>
     1 \<le> code_points (sc_hostname c) \<and> code_points (sc_hostname c) \<le> 128 \<and>
     1 \<le> code_points (sc_ip_address c) \<and> code_points (sc_ip_address c) \<le> 64 \<and>
     1 \<le> sc_ssh_port c \<and> sc_ssh_port c \<le> 65535 \<and> max_length 500 (sc_remark c)"

definition new_server :: "ServerCreate \<Rightarrow> ident option \<Rightarrow> ident \<Rightarrow> OpsServer" where
  "new_server data created_by k = \<lparr>sv_id = k, sv_server_code = sc_server_code data,
     sv_hostname = sc_hostname data, sv_ip_address = sc_ip_address data, sv_ssh_port = sc_ssh_port data,
     sv_os_name = None, sv_os_version = None, sv_kernel_version = None, sv_architecture = None,
     sv_cpu_model = None, sv_cpu_cores = None, sv_memory_total_bytes = None, sv_disk_total_bytes = None,
     sv_agent_version = None, sv_agent_status = OFFLINE, sv_last_heartbeat_at = None,
     sv_registered_at = None, sv_status = 1, sv_remark = sc_remark data, sv_created_by = created_by,
     sv_deleted_at = None\<rparr>"

definition uk_ops_server_code :: "db \<Rightarrow> bool" where
  "uk_ops_server_code d \<longleftrightarrow> distinct (map sv_server_code (servers d))"

text \<open>The flush of a new row checks both unique keys.\<close>

definition insert_server :: "(ident \<Rightarrow> OpsServer) \<Rightarrow> db \<Rightarrow> (ident \<times> db) result" where
  "insert_server mk d =
     (let d' = d\<lparr>ops_server := repo_create mk (ops_server d)\<rparr>
      in if uk_ops_server_code d' \<and> uk_ops_server_ip_port d' then Inr (next_id (ops_server d), d')
         else Inl IntegrityError)"

definition create_server :: "ServerCreate \<Rightarrow> ident option \<Rightarrow> db \<Rightarrow> (ident \<times> db) result" where
  "create_server data created_by d =
     (if get_by_server_code d (sc_server_code data) \<noteq> None then Inl (AppException SERVER_CODE_EXISTS 409)
      else if get_by_ip_port d (sc_ip_address data) (sc_ssh_port data) \<noteq> None
      then Inl (AppException SERVER_IP_EXISTS 409)
      else insert_server (new_server data created_by) d)"

fun agent_state_name :: "agent_state \<Rightarrow> string" where
  "agent_state_name ONLINE = ''ONLINE''"
| "agent_state_name WARNING = ''WARNING''"
| "agent_state_name OFFLINE = ''OFFLINE''"
| "agent_state_name UNKNOWN = ''UNKNOWN''"

definition list_servers :: "db \<Rightarrow> int \<Rightarrow> int \<Rightarrow> string option \<Rightarrow> (int \<times> OpsServer list) result" where
  "list_servers d page page_size agent_status =
     repo_list OpsServer_model (ops_server d) page page_size IdDesc
       (\<lambda>s. truthy agent_status \<longrightarrow> Some (agent_state_name (sv_agent_status s)) = agent_status)"

definition get_server :: "db \<Rightarrow> ident \<Rightarrow> OpsServer result" where
  "get_server d server_id =
     (case server_get d server_id of None \<Rightarrow> Inl (AppException SERVER_NOT_FOUND 404) | Some s \<Rightarrow> Inr s)"

text \<open>Returns the key of the new token and its plain text.\<close>

definition generate_agent_token ::
  "(string \<Rightarrow> string) \<Rightarrow> string \<Rightarrow> ident \<Rightarrow> string option \<Rightarrow> db \<Rightarrow> ((ident \<times> string) \<times> db) result" where
  "generate_agent_token hash plaintext server_id token_name d =
     bindE (get_server d server_id) (\<lambda>server. create_token hash plaintext (sv_id server) token_name d)"

definition list_services :: "db \<Rightarrow> ident \<Rightarrow> OpsServerService list result" where
  "list_services d server_id = bindE (get_server d server_id) (\<lambda>_. Inr (list_by_server d server_id))"

definition update_service_whitelist :: "ident \<Rightarrow> ident \<Rightarrow> int \<Rightarrow> db \<Rightarrow> db result" where
  "update_service_whitelist server_id service_id is_whitelisted d =
     bindE (get_server d server_id) (\<lambda>_.
       case repo_get OpsServerService_model (ops_server_service d) service_id of
         None \<Rightarrow> Inl (AppException SERVER_NOT_FOUND 404)
       | Some service \<Rightarrow>
           if ss_server_id service \<noteq> server_id then Inl (AppException SERVER_NOT_FOUND 404)
           else Inr (set_whitelist service_id is_whitelisted d))"

section \<open>Lemmas\<close>

lemma get_by_server_code_None:
  "get_by_server_code d code = None \<longleftrightarrow> (\<forall>s \<in> set (servers d). sv_deleted_at s = None \<longrightarrow> sv_server_code s \<noteq> code)"
  by (auto simp: get_by_server_code_def repo_get_by_def apply_soft_delete_def find_None_iff)

lemma get_by_ip_port_None:
  "get_by_ip_port d ip port = None \<longleftrightarrow>
     (\<forall>s \<in> set (servers d). sv_deleted_at s = None \<longrightarrow> (sv_ip_address s, sv_ssh_port s) \<noteq> (ip, port))"
  by (auto simp: get_by_ip_port_def repo_get_by_def apply_soft_delete_def find_None_iff)

text \<open>The unique keys of servers and of tokens, and what the primary keys promise.\<close>

definition servers_inv :: "db \<Rightarrow> bool" where
  "servers_inv d \<longleftrightarrow> tbl_wf sv_id (ops_server d) \<and> uk_ops_server_code d \<and> uk_ops_server_ip_port d \<and>
     tbl_wf at_id (ops_agent_token d) \<and> distinct (map at_token_hash (rows (ops_agent_token d)))"

lemma create_server_Inr:
  assumes "create_server data created_by d = Inr (k, d')"
  shows "k = next_id (ops_server d)" "d' = d\<lparr>ops_server := repo_create (new_server data created_by) (ops_server d)\<rparr>"
    "servers d' = servers d @ [new_server data created_by k]" "uk_ops_server_code d'" "uk_ops_server_ip_port d'"
  using assms by (auto simp: create_server_def insert_server_def Let_def repo_create_def split: if_splits)

lemma servers_inv_create:
  "servers_inv d \<Longrightarrow> create_server data created_by d = Inr (k, d') \<Longrightarrow> servers_inv d'"
  using create_server_Inr [of data created_by d k d']
  by (auto simp: servers_inv_def repo_create_def new_server_def intro: tbl_wf_insert)

lemma create_token_Inr:
  assumes "create_token hash plaintext server_id token_name d = Inr (r, d')"
  shows "\<exists>t. d' = d\<lparr>ops_agent_token := repo_create t (ops_agent_token d)\<rparr> \<and> r = (next_id (ops_agent_token d), plaintext) \<and>
    (\<forall>k. at_id (t k) = k \<and> at_server_id (t k) = server_id \<and> at_token_hash (t k) = hash plaintext \<and>
      at_status (t k) = 1 \<and> at_expires_at (t k) = None \<and> at_revoked_at (t k) = None \<and>
      at_signing_public_key (t k) = None) \<and>
    hash plaintext \<notin> set (map at_token_hash (rows (ops_agent_token d)))"
  using assms by (force simp: create_token_def Let_def split: if_splits)

lemma servers_inv_token:
  assumes "servers_inv d" "create_token hash plaintext server_id token_name d = Inr (r, d')"
  shows "servers_inv d'"
proof -
  from create_token_Inr [OF assms(2)] obtain t where
    t: "d' = d\<lparr>ops_agent_token := repo_create t (ops_agent_token d)\<rparr>"
      "\<And>k. at_id (t k) = k \<and> at_token_hash (t k) = hash plaintext"
      "hash plaintext \<notin> set (map at_token_hash (rows (ops_agent_token d)))"
    by blast
  with assms(1) show ?thesis
    by (auto simp: servers_inv_def repo_create_def uk_ops_server_code_def uk_ops_server_ip_port_def intro: tbl_wf_insert)
qed

lemma token_found:
  assumes "create_token (sha256_hex cr) plaintext server_id token_name d = Inr (r, d')"
  shows "\<exists>t. authenticate (sha256_hex cr) now d' plaintext = Some t \<and> at_server_id t = server_id \<and>
    at_signing_public_key t = None"
proof -
  from create_token_Inr [OF assms] obtain t where
    t: "d' = d\<lparr>ops_agent_token := repo_create t (ops_agent_token d)\<rparr>"
      "\<And>k. at_server_id (t k) = server_id \<and> at_token_hash (t k) = sha256_hex cr plaintext \<and>
        at_status (t k) = 1 \<and> at_expires_at (t k) = None \<and> at_revoked_at (t k) = None \<and>
        at_signing_public_key (t k) = None"
      "sha256_hex cr plaintext \<notin> set (map at_token_hash (rows (ops_agent_token d)))"
    by blast
  let ?new = "t (next_id (ops_agent_token d))"
  have "List.find (\<lambda>u. at_token_hash u = sha256_hex cr plaintext) (rows (ops_agent_token d)) = None"
    using t(3) unfolding find_None_iff by (force simp: image_iff)
  then have "get_by_token_hash d' (sha256_hex cr plaintext) = Some ?new"
    using t(1,2) by (simp add: get_by_token_hash_def repo_get_by_def repo_create_def find_append_None)
  with t(2) show ?thesis by (simp add: authenticate_def)
qed

end
