(* ===== verification/Server_Properties.thy ===== *)
theory Server_Properties
  imports Server_Service Agent_Sync
begin

text \<open>
  The way of a server into the platform: created by an administrator, given an agent token, and
  registered by the agent that holds the token. The unique keys of servers and tokens hold through
  every operation that writes them.
\<close>

section \<open>Uniqueness\<close>

lemma uk_code_set_server:
  assumes "\<And>s. sv_server_code (f s) = sv_server_code s"
  shows "uk_ops_server_code (set_server k f d) = uk_ops_server_code d"
proof -
  have "(\<lambda>s. sv_server_code (if sv_id s = k then f s else s)) = sv_server_code"
    by (rule ext) (simp add: assms)
  then show ?thesis by (simp add: uk_ops_server_code_def set_server_def repo_update_def comp_def)
qed

lemma tokens_set_server [frame]: "ops_agent_token (set_server k f d) = ops_agent_token d"
  by (simp add: set_server_def)

lemma servers_set_token [frame]: "ops_server (set_token k f d) = ops_server d"
  by (simp add: set_token_def)

lemma servers_inv_set_token:
  assumes "servers_inv d" "\<And>t. at_id (f t) = at_id t" "\<And>t. at_token_hash (f t) = at_token_hash t"
  shows "servers_inv (set_token k f d)"
proof -
  have "(\<lambda>t. at_token_hash (if at_id t = k then f t else t)) = at_token_hash"
    by (rule ext) (simp add: assms(3))
  with assms show ?thesis
    by (auto simp: servers_inv_def set_token_def repo_update_def uk_ops_server_code_def uk_ops_server_ip_port_def
        comp_def intro: tbl_wf_modify)
qed

lemma servers_inv_tables:
  "ops_server d' = ops_server d \<Longrightarrow> ops_agent_token d' = ops_agent_token d \<Longrightarrow> servers_inv d' = servers_inv d"
  by (simp add: servers_inv_def uk_ops_server_code_def uk_ops_server_ip_port_def)

lemma servers_inv_flush:
  assumes "servers_inv d" "flush_server (set_server k f d) = Inr d'"
    and "\<And>s. sv_id (f s) = sv_id s" "\<And>s. sv_server_code (f s) = sv_server_code s"
  shows "servers_inv d'"
proof -
  from assms(2) have d': "d' = set_server k f d" "uk_ops_server_ip_port d'"
    by (auto simp: flush_server_def split: if_splits)
  have "tbl_wf sv_id (ops_server d')"
    using assms(1,3) unfolding d'(1) by (intro tbl_wf_set_server) (simp_all add: servers_inv_def)
  with assms(1) d' show ?thesis
    by (simp add: servers_inv_def uk_code_set_server [OF assms(4)] frame)
qed

lemma set_server_set_server:
  assumes "\<And>s. sv_id (f s) = sv_id s"
  shows "set_server k g (set_server k f d) = set_server k (g \<circ> f) d"
  by (simp add: set_server_def repo_update_def tbl_modify_def assms comp_def if_distrib cong: if_cong)

lemma servers_inv_heartbeat:
  assumes "servers_inv d" "heartbeat now server data ip d = Inr (r, d')"
  shows "servers_inv d'"
proof -
  from assms(2) obtain d1 where d1: "update_last_heartbeat now (sv_id server) ip (hr_agent_version data) d = Inr d1"
    "ops_server d' = ops_server d1" "ops_agent_token d' = ops_agent_token d1"
    by (auto simp: heartbeat_def bindE_eq_Inr heartbeat_record_def)
  have "servers_inv d1"
    by (rule servers_inv_flush [OF assms(1) d1(1) [unfolded update_last_heartbeat_def]]) simp_all
  with d1 servers_inv_tables show ?thesis by metis
qed

text \<open>What \<open>register\<close> writes into the row of the server.\<close>

definition registered_row :: "datetime \<Rightarrow> RegisterRequest \<Rightarrow> string option \<Rightarrow> OpsServer \<Rightarrow> OpsServer" where
  "registered_row now q ip s =
     (let f = register_fields q; s' = s\<lparr>
        sv_hostname := rg_hostname q,
        sv_os_name := keep (si_os_name f) (sv_os_name s), sv_os_version := keep (si_os_version f) (sv_os_version s),
        sv_kernel_version := keep (si_kernel_version f) (sv_kernel_version s),
        sv_architecture := keep (si_architecture f) (sv_architecture s),
        sv_cpu_model := keep (si_cpu_model f) (sv_cpu_model s), sv_cpu_cores := keep (si_cpu_cores f) (sv_cpu_cores s),
        sv_memory_total_bytes := keep (si_memory_total_bytes f) (sv_memory_total_bytes s),
        sv_disk_total_bytes := keep (si_disk_total_bytes f) (sv_disk_total_bytes s),
        sv_agent_version := keep (si_agent_version f) (sv_agent_version s),
        sv_registered_at := Some now, sv_last_heartbeat_at := Some now, sv_agent_status := ONLINE\<rparr>
      in if truthy ip then s'\<lparr>sv_ip_address := the ip\<rparr> else s')"

lemma registered_row_simps [simp]:
  "sv_id (registered_row now q ip s) = sv_id s" "sv_server_code (registered_row now q ip s) = sv_server_code s"
  "sv_deleted_at (registered_row now q ip s) = sv_deleted_at s" "sv_status (registered_row now q ip s) = sv_status s"
  "sv_ssh_port (registered_row now q ip s) = sv_ssh_port s"
  "sv_agent_status (registered_row now q ip s) = ONLINE" "sv_last_heartbeat_at (registered_row now q ip s) = Some now"
  "sv_registered_at (registered_row now q ip s) = Some now" "sv_hostname (registered_row now q ip s) = rg_hostname q"
  "sv_ip_address (registered_row now q ip s) = or_text ip (sv_ip_address s)"
  by (auto simp: registered_row_def Let_def or_text_def truthy_def split: option.splits)

lemma register_writes:
  "set_server k (\<lambda>s. if truthy ip then s\<lparr>sv_ip_address := the ip\<rparr> else s) (register_server now k (register_fields q) d) =
   set_server k (registered_row now q ip) d"
proof -
  have "(\<lambda>s. if truthy ip then s\<lparr>sv_ip_address := the ip\<rparr> else s) \<circ> (\<lambda>s. s\<lparr>
       sv_hostname := (case si_hostname (register_fields q) of None \<Rightarrow> sv_hostname s | Some h \<Rightarrow> h),
       sv_os_name := keep (si_os_name (register_fields q)) (sv_os_name s),
       sv_os_version := keep (si_os_version (register_fields q)) (sv_os_version s),
       sv_kernel_version := keep (si_kernel_version (register_fields q)) (sv_kernel_version s),
       sv_architecture := keep (si_architecture (register_fields q)) (sv_architecture s),
       sv_cpu_model := keep (si_cpu_model (register_fields q)) (sv_cpu_model s),
       sv_cpu_cores := keep (si_cpu_cores (register_fields q)) (sv_cpu_cores s),
       sv_memory_total_bytes := keep (si_memory_total_bytes (register_fields q)) (sv_memory_total_bytes s),
       sv_disk_total_bytes := keep (si_disk_total_bytes (register_fields q)) (sv_disk_total_bytes s),
       sv_agent_version := keep (si_agent_version (register_fields q)) (sv_agent_version s),
       sv_registered_at := Some now,
       sv_last_heartbeat_at := Some now,
       sv_agent_status := ONLINE\<rparr>) = registered_row now q ip"
    by (rule ext) (simp add: registered_row_def register_fields_def Let_def)
  then show ?thesis
    unfolding register_server_def by (subst set_server_set_server) simp_all
qed

lemma server_get_after:
  "ops_server d' = ops_server d \<Longrightarrow> server_get d' k = server_get d k"
  by (simp add: server_get_def)

text \<open>A write that takes a server to another address is flushed when no other server is there.\<close>

lemma flush_moved:
  assumes f: "\<And>s. sv_id (f s) = sv_id s" "\<And>s. sv_ssh_port (f s) = sv_ssh_port s"
      "\<And>s. sv_ip_address (f s) = or_text ip (sv_ip_address s)"
    and "servers_inv d" "server_get d k = Some s"
    and "\<forall>v \<in> set (servers d). sv_id v \<noteq> k \<longrightarrow> (sv_ip_address v, sv_ssh_port v) \<noteq> (or_text ip (sv_ip_address s), sv_ssh_port s)"
  shows "flush_server (set_server k f d) = Inr (set_server k f d)"
proof -
  let ?key = "\<lambda>s. (sv_ip_address s, sv_ssh_port s)"
  let ?f = "\<lambda>s. if sv_id s = k then f s else s"
  have s: "s \<in> set (servers d)" "sv_id s = k" using repo_get_in assms(5) by (fastforce simp: server_get_def)+
  have unique: "v = s" if "v \<in> set (servers d)" "sv_id v = k" for v
    using that s assms(4) tbl_wf_inj by (fastforce simp: servers_inv_def)
  have "inj_on (\<lambda>s. ?key (?f s)) (set (servers d))"
  proof (rule inj_onI)
    fix x y assume xy: "x \<in> set (servers d)" "y \<in> set (servers d)" "?key (?f x) = ?key (?f y)"
    have same: "?key x = ?key y \<Longrightarrow> x = y"
      using xy(1,2) assms(4) by (auto simp: servers_inv_def uk_ops_server_ip_port_def distinct_map dest: inj_onD)
    have moved: "?key (?f v) = (or_text ip (sv_ip_address s), sv_ssh_port s)" if "v \<in> set (servers d)" "sv_id v = k" for v
      using unique [OF that] that(2) f by simp
    have kept: "?key (?f v) = ?key v" if "sv_id v \<noteq> k" for v using that by simp
    consider "sv_id x = k" "sv_id y = k" | "sv_id x = k" "sv_id y \<noteq> k" | "sv_id x \<noteq> k" "sv_id y = k" |
      "sv_id x \<noteq> k" "sv_id y \<noteq> k" by blast
    then show "x = y"
    proof cases
      case 1
      then show ?thesis using unique xy(1,2) by metis
    next
      case 2
      then show ?thesis using moved [OF xy(1)] kept [of y] xy(2,3) assms(6) by metis
    next
      case 3
      then show ?thesis using moved [OF xy(2)] kept [of x] xy(1,3) assms(6) by metis
    next
      case 4
      then show ?thesis using kept [of x] kept [of y] xy(3) same by metis
    qed
  qed
  moreover have "distinct (servers d)"
    using assms(4) by (auto simp: servers_inv_def tbl_wf_def distinct_map)
  ultimately have "distinct (map ?key (servers (set_server k f d)))"
    by (simp add: set_server_def repo_update_def comp_def distinct_map f)
  then show ?thesis by (simp add: flush_server_def uk_ops_server_ip_port_def)
qed

lemma flush_registered:
  assumes "servers_inv d" "server_get d k = Some s"
    and "\<forall>v \<in> set (servers d). sv_id v \<noteq> k \<longrightarrow> (sv_ip_address v, sv_ssh_port v) \<noteq> (or_text ip (sv_ip_address s), sv_ssh_port s)"
  shows "flush_server (set_server k (registered_row now q ip) d) = Inr (set_server k (registered_row now q ip) d)"
  by (rule flush_moved [OF _ _ _ assms]) simp_all

section \<open>Registration\<close>

lemma register_of_token:
  assumes "servers_inv d" "authenticate (sha256_hex cr) now d (rg_token q) = Some t"
    and "server_get d (at_server_id t) = Some s" "sv_status s = 1" "sv_server_code s = rg_server_code q"
    and free: "\<forall>v \<in> set (servers d). sv_id v \<noteq> sv_id s \<longrightarrow>
      (sv_ip_address v, sv_ssh_port v) \<noteq> (or_text ip (sv_ip_address s), sv_ssh_port s)"
  shows "\<exists>d'. register cr now q ip d = Inr ((sv_id s, ONLINE), d') \<and> servers_inv d' \<and>
    server_get d' (sv_id s) = Some (registered_row now q ip s)"
proof -
  let ?k = "sv_id s"
  have k: "at_server_id t = ?k" using repo_get_in assms(3) by (fastforce simp: server_get_def)
  let ?d1 = "set_server ?k (registered_row now q ip) d"
  have flush: "flush_server ?d1 = Inr ?d1"
    using assms(1,3) free unfolding k by (rule flush_registered)
  let ?d2 = "heartbeat_record now ?k (rg_agent_version q) ip None ?d1"
  let ?d3 = "register_key cr now t (rg_signing_public_key q) ?d2"
  let ?d4 = "update_last_used now (at_id t) ?d3"
  have reg: "register cr now q ip d = Inr ((?k, ONLINE), ?d4)"
    using assms(2-5) flush by (simp add: register_def register_writes k Let_def)
  have "servers_inv ?d1" by (rule servers_inv_flush [OF assms(1) flush]) simp_all
  moreover have "ops_server ?d2 = ops_server ?d1" "ops_agent_token ?d2 = ops_agent_token ?d1"
    by (simp_all add: heartbeat_record_def)
  ultimately have "servers_inv ?d2" using servers_inv_tables by blast
  then have "servers_inv ?d3"
    by (auto simp: register_key_def store_key_def intro: servers_inv_set_token)
  then have inv: "servers_inv ?d4" unfolding update_last_used_def by (rule servers_inv_set_token) simp_all
  have tbl: "ops_server ?d4 = ops_server ?d1"
    by (simp add: update_last_used_def register_key_def store_key_def frame heartbeat_record_def)
  have "server_get ?d1 ?k = Some (registered_row now q ip s)"
    using assms(1,3) unfolding k by (intro server_get_set_server) (simp_all add: servers_inv_def)
  with reg inv server_get_after [OF tbl] show ?thesis by auto
qed

lemma created_server_get:
  assumes "servers_inv d" "create_server data created_by d = Inr (k, d')"
  shows "server_get d' k = Some (new_server data created_by k)"
proof -
  note c = create_server_Inr [OF assms(2)]
  have "List.find (apply_soft_delete OpsServer_model (\<lambda>r. m_id OpsServer_model r = k)) (servers d) = None"
    using assms(1) c(1) by (auto simp: find_None_iff servers_inv_def tbl_wf_def apply_soft_delete_def)
  then show ?thesis
    using c(3) by (simp add: server_get_def repo_get_def find_append_None apply_soft_delete_def new_server_def)
qed

text \<open>
  A server comes into the platform: after its creation and the generation of a token, a
  registration that presents the plain text of the token with the code of the server succeeds for
  exactly that server, unless another server occupies the address the request comes from. The server
  is then online, with the name the agent sent and the address of the request; the unique keys of
  servers and tokens hold throughout.
\<close>

lemma onboarded_agent_registers:
  assumes "servers_inv d" and "create_server data created_by d = Inr (k, d1)"
    and "generate_agent_token (sha256_hex cr) plaintext k token_name d1 = Inr (r, d2)"
    and "rg_token q = plaintext" "rg_server_code q = sc_server_code data"
    and "\<forall>s \<in> set (servers d). (sv_ip_address s, sv_ssh_port s) \<noteq> (or_text ip (sc_ip_address data), sc_ssh_port data)"
  shows "\<exists>d3 s. snd r = plaintext \<and> register cr now q ip d2 = Inr ((k, ONLINE), d3) \<and> servers_inv d3 \<and>
    server_get d3 k = Some s \<and> sv_server_code s = sc_server_code data \<and> sv_agent_status s = ONLINE \<and>
    sv_last_heartbeat_at s = Some now \<and> sv_hostname s = rg_hostname q \<and>
    sv_ip_address s = or_text ip (sc_ip_address data)"
proof -
  let ?s = "new_server data created_by k"
  have inv1: "servers_inv d1" using assms(1,2) by (rule servers_inv_create)
  have get1: "server_get d1 k = Some ?s" using assms(1,2) by (rule created_server_get)
  have id: "sv_id ?s = k" by (simp add: new_server_def)
  have tok: "create_token (sha256_hex cr) plaintext k token_name d1 = Inr (r, d2)"
    using assms(3) get1 id by (simp add: generate_agent_token_def get_server_def)
  from create_token_Inr [OF tok] have r: "snd r = plaintext" "ops_server d2 = ops_server d1" by auto
  have inv2: "servers_inv d2" using inv1 tok by (rule servers_inv_token)
  from token_found [OF tok, of now] obtain t where
    t: "authenticate (sha256_hex cr) now d2 (rg_token q) = Some t" "at_server_id t = k"
    using assms(4) by blast
  have get2: "server_get d2 (at_server_id t) = Some ?s"
    using get1 t(2) server_get_after [OF r(2)] by simp
  have free: "\<forall>v \<in> set (servers d2). sv_id v \<noteq> sv_id ?s \<longrightarrow>
      (sv_ip_address v, sv_ssh_port v) \<noteq> (or_text ip (sv_ip_address ?s), sv_ssh_port ?s)"
    using assms(6) create_server_Inr(3) [OF assms(2)] r(2) by (auto simp: new_server_def)
  have "sv_status ?s = 1" "sv_server_code ?s = rg_server_code q" using assms(5) by (simp_all add: new_server_def)
  from register_of_token [OF inv2 t(1) get2 this free] r(1) id show ?thesis
    by (auto simp: new_server_def)
qed

definition onboarding_data :: ServerCreate where
  "onboarding_data = \<lparr>sc_server_code = ''s9'', sc_hostname = ''h'', sc_ip_address = ''10.0.0.9'', sc_ssh_port = 22,
     sc_remark = None\<rparr>"

definition onboarding_request :: RegisterRequest where
  "onboarding_request = \<lparr>rg_server_code = ''s9'', rg_token = ''secret'', rg_hostname = ''web'', rg_os_name = None,
     rg_os_version = None, rg_kernel_version = None, rg_architecture = None, rg_cpu_model = None,
     rg_cpu_cores = Some 2, rg_memory_total_bytes = None, rg_disk_total_bytes = None, rg_agent_version = None,
     rg_signing_public_key = None\<rparr>"

lemma onboarded_agent_registers_witness:
  "(case create_server onboarding_data (Some 1) agent_db of
      Inl _ \<Rightarrow> False
    | Inr (k, d1) \<Rightarrow> (case generate_agent_token (sha256_hex sample_crypto) ''secret'' k None d1 of
        Inl _ \<Rightarrow> False
      | Inr (r, d2) \<Rightarrow> \<exists>d3 s. register sample_crypto 7 onboarding_request (Some ''9.9.9.9'') d2 = Inr ((k, ONLINE), d3) \<and>
          server_get d3 k = Some s \<and> sv_hostname s = ''web'' \<and> sv_ip_address s = ''9.9.9.9''))"
proof -
  let ?c = "create_server onboarding_data (Some 1) agent_db"
  define d1 where "d1 = agent_db\<lparr>ops_server := repo_create (new_server onboarding_data (Some 1)) (ops_server agent_db)\<rparr>"
  have c: "?c = Inr (2, d1)" unfolding d1_def by code_simp
  have "\<not> isl (generate_agent_token (sha256_hex sample_crypto) ''secret'' 2 None d1)"
    unfolding d1_def by code_simp
  then obtain r d2 where g: "generate_agent_token (sha256_hex sample_crypto) ''secret'' 2 None d1 = Inr (r, d2)"
    by (metis isl_def obj_sumE surj_pair)
  have inv: "servers_inv agent_db" by code_simp
  have q: "rg_token onboarding_request = ''secret''" "rg_server_code onboarding_request = sc_server_code onboarding_data"
    "rg_hostname onboarding_request = ''web''"
    by (simp_all add: onboarding_request_def onboarding_data_def)
  have ip: "\<forall>s \<in> set (servers agent_db). (sv_ip_address s, sv_ssh_port s) \<noteq>
      (or_text (Some ''9.9.9.9'') (sc_ip_address onboarding_data), sc_ssh_port onboarding_data)"
    by code_simp
  from onboarded_agent_registers [OF inv c g q(1,2) ip, of 7] c g q(3) show ?thesis by auto
qed

end
