(* ===== verification/Discovery.thy ===== *)
theory Discovery
  imports Params "HOL-Library.List_Lexorder" "HOL-Library.Char_ord"
begin

text \<open>
  The read-only discovery of servers (\<open>backend/app/services/discovery_service.py\<close>,
  \<open>schemas/discovery.py\<close>). A network of the module \<open>ipaddress\<close> is its version, the number of its
  first address and the length of its prefix; reading one from text is a parameter. So are the sockets:
  what a connection attempt to an address and a port gives. The threads of the pool return their
  results in the order of the hosts.
\<close>

section \<open>Networks of \<open>ipaddress\<close>\<close>

datatype ip_version = IPv4 | IPv6

record ip_network =
  net_version :: ip_version
  net_first :: int
  net_prefix :: nat

record ip_addr =
  ad_version :: ip_version
  ad_number :: int

fun max_prefixlen :: "ip_version \<Rightarrow> nat" where
  "max_prefixlen IPv4 = 32"
| "max_prefixlen IPv6 = 128"

definition broadcast_address :: "ip_network \<Rightarrow> int" where
  "broadcast_address n = net_first n + 2 ^ (max_prefixlen (net_version n) - net_prefix n) - 1"

text \<open>\<open>a.subnet_of(b)\<close>; \<open>None\<close> is the \<open>TypeError\<close> of two versions.\<close>

definition subnet_of :: "ip_network \<Rightarrow> ip_network \<Rightarrow> bool option" where
  "subnet_of a b =
     (if net_version a \<noteq> net_version b then None
      else Some (net_first b \<le> net_first a \<and> broadcast_address b \<ge> broadcast_address a))"

text \<open>
  \<open>hosts()\<close>: both addresses of a network of two, the one of a network of one; otherwise without the
  first address and, in version 4, without the last one.
\<close>

definition hosts :: "ip_network \<Rightarrow> ip_addr list" where
  "hosts n = map (\<lambda>i. \<lparr>ad_version = net_version n, ad_number = i\<rparr>)
     (let first = net_first n; final = broadcast_address n; full = max_prefixlen (net_version n)
      in if net_prefix n = full then [first]
         else if net_prefix n = full - 1 then [first..final]
         else if net_version n = IPv4 then [first + 1..final - 1]
         else [first + 1..final])"

section \<open>The service\<close>

record discovery_settings =
  DISCOVERY_ENABLED :: bool
  DISCOVERY_ALLOWED_CIDRS :: "string list"
  DISCOVERY_MAX_HOSTS :: int
  DISCOVERY_SSH_PORT :: int

definition parse_networks :: "(string \<Rightarrow> ip_network option) \<Rightarrow> string list \<Rightarrow> ip_network list" where
  "parse_networks ip_network cidrs = List.map_filter ip_network cidrs"

fun is_within_allowed :: "ip_network \<Rightarrow> ip_network list \<Rightarrow> bool" where
  "is_within_allowed target [] = False"
| "is_within_allowed target (network # rest) =
     (case subnet_of target network of
        Some True \<Rightarrow> True
      | _ \<Rightarrow> is_within_allowed target rest)"

text \<open>
  A connection attempt: \<open>SocketFailed\<close> is an \<open>OSError\<close>, \<open>Refused\<close> a result of \<open>connect_ex\<close> other than
  zero, \<open>Connected\<close> the first bytes received, as text, or an \<open>OSError\<close> while reading them.
\<close>

datatype connection = SocketFailed | Refused | Connected "string option"

definition probe :: "(ip_addr \<Rightarrow> int \<Rightarrow> connection) \<Rightarrow> ip_addr \<Rightarrow> int \<Rightarrow> bool \<times> string option" where
  "probe connect ip port = (case connect ip port of
     SocketFailed \<Rightarrow> (False, None)
   | Refused \<Rightarrow> (False, None)
   | Connected received \<Rightarrow>
       let banner = (case received of None \<Rightarrow> [] | Some text \<Rightarrow> strip text)
       in (True, if banner = [] then None else Some banner))"

definition allowed_cidrs :: "discovery_settings \<Rightarrow> string list" where
  "allowed_cidrs cfg = sort (remdups (filter (\<lambda>c. strip c \<noteq> []) (DISCOVERY_ALLOWED_CIDRS cfg)))"

text \<open>The checks of \<open>scan\<close>, in their order, and the hosts it goes on to probe.\<close>

definition scan_hosts ::
  "(string \<Rightarrow> ip_network option) \<Rightarrow> discovery_settings \<Rightarrow> string \<Rightarrow> ip_addr list result" where
  "scan_hosts ip_network cfg cidr =
     (if \<not> DISCOVERY_ENABLED cfg then Inl (AppException FORBIDDEN 403)
      else let allowed = parse_networks ip_network (DISCOVERY_ALLOWED_CIDRS cfg) in
        if allowed = [] then Inl (AppException FORBIDDEN 403)
        else case ip_network cidr of
          None \<Rightarrow> Inl (AppException BAD_REQUEST 400)
        | Some target \<Rightarrow>
            if \<not> is_within_allowed target allowed then Inl (AppException FORBIDDEN 403)
            else let hs = hosts target in
              if int (length hs) > DISCOVERY_MAX_HOSTS cfg then Inl (AppException BAD_REQUEST 400)
              else Inr hs)"

record discovery_host =
  dh_ip :: ip_addr
  dh_port :: int
  dh_banner :: "string option"

definition scan ::
  "(string \<Rightarrow> ip_network option) \<Rightarrow> (ip_addr \<Rightarrow> int \<Rightarrow> connection) \<Rightarrow> discovery_settings \<Rightarrow> string \<Rightarrow> int option \<Rightarrow>
   discovery_host list result" where
  "scan ip_network connect cfg cidr port =
     bindE (scan_hosts ip_network cfg cidr) (\<lambda>hs.
       let scan_port = (case port of None \<Rightarrow> DISCOVERY_SSH_PORT cfg
                         | Some p \<Rightarrow> if p = 0 then DISCOVERY_SSH_PORT cfg else p);
           results = concat (map (\<lambda>h. case probe connect h scan_port of
             (True, banner) \<Rightarrow> [\<lparr>dh_ip = h, dh_port = scan_port, dh_banner = banner\<rparr>]
           | (False, _) \<Rightarrow> []) hs)
       in Inr (sort_key (\<lambda>r. ad_number (dh_ip r)) results))"

section \<open>The request\<close>

record DiscoveryScanRequest =
  ds_cidr :: string
  ds_port :: "int option"

definition scan_request_valid :: "DiscoveryScanRequest \<Rightarrow> bool" where
  "scan_request_valid q \<longleftrightarrow> code_points (ds_cidr q) \<le> 64 \<and>
     (case ds_port q of None \<Rightarrow> True | Some p \<Rightarrow> 1 \<le> p \<and> p \<le> 65535)"

section \<open>What a scan may touch\<close>

lemma hosts_in_network:
  assumes "h \<in> set (hosts n)"
  shows "ad_version h = net_version n" "net_first n \<le> ad_number h" "ad_number h \<le> broadcast_address n"
  using assms by (auto simp: hosts_def broadcast_address_def Let_def split: if_splits)

lemma distinct_upto: "distinct [i..j :: int]"
  by (induction i j rule: upto.induct) (subst upto.simps, auto)

lemma hosts_sorted: "sorted (map ad_number (hosts n))" "distinct (map ad_number (hosts n))"
  by (auto simp: hosts_def Let_def comp_def)

lemma is_within_allowed_iff: "is_within_allowed target ns \<longleftrightarrow> (\<exists>n \<in> set ns. subnet_of target n = Some True)"
  by (induction ns) (auto split: option.splits bool.splits)

lemma scan_hosts_Inr:
  "scan_hosts ip_network cfg cidr = Inr hs \<longleftrightarrow>
     DISCOVERY_ENABLED cfg \<and>
     (\<exists>target. ip_network cidr = Some target \<and> hs = hosts target \<and> int (length hs) \<le> DISCOVERY_MAX_HOSTS cfg \<and>
       (\<exists>c \<in> set (DISCOVERY_ALLOWED_CIDRS cfg). \<exists>n. ip_network c = Some n \<and> subnet_of target n = Some True))"
proof -
  have "n \<in> set (parse_networks ip_network cidrs) \<longleftrightarrow> (\<exists>c \<in> set cidrs. ip_network c = Some n)" for n cidrs
    by (induction cidrs) (auto simp: parse_networks_def map_filter_def image_iff)
  then show ?thesis
    by (auto simp: scan_hosts_def Let_def is_within_allowed_iff split: option.splits) blast
qed

text \<open>
  C31. A scan touches allowed addresses only, and reports what it found: it is refused unless the
  feature is enabled and the network lies inside an allowed one of its version; then every address
  that is probed belongs to that allowed network, there are at most as many as the limit, and the
  result lists exactly the hosts whose port accepts a connection, once each and in the order of their
  addresses.
\<close>

theorem scan_is_confined:
  assumes "scan ip_network connect cfg cidr port = Inr found"
  shows "\<exists>hs c n. scan_hosts ip_network cfg cidr = Inr hs \<and> DISCOVERY_ENABLED cfg \<and>
    c \<in> set (DISCOVERY_ALLOWED_CIDRS cfg) \<and> ip_network c = Some n \<and>
    int (length hs) \<le> DISCOVERY_MAX_HOSTS cfg \<and>
    (\<forall>h \<in> set hs. ad_version h = net_version n \<and> net_first n \<le> ad_number h \<and> ad_number h \<le> broadcast_address n) \<and>
    (let p = (if port = None \<or> port = Some 0 then DISCOVERY_SSH_PORT cfg else the port) in
       map dh_ip found = filter (\<lambda>h. fst (probe connect h p)) hs \<and>
       (\<forall>r \<in> set found. dh_port r = p \<and> dh_banner r = snd (probe connect (dh_ip r) p))) \<and>
    sorted (map (ad_number \<circ> dh_ip) found)"
proof -
  from assms obtain hs where hs: "scan_hosts ip_network cfg cidr = Inr hs"
    by (auto simp: scan_def bindE_eq_Inr)
  then obtain target c n where t: "DISCOVERY_ENABLED cfg" "ip_network cidr = Some target" "hs = hosts target"
    "int (length hs) \<le> DISCOVERY_MAX_HOSTS cfg" "c \<in> set (DISCOVERY_ALLOWED_CIDRS cfg)" "ip_network c = Some n"
    "subnet_of target n = Some True"
    unfolding scan_hosts_Inr by blast
  have inside: "ad_version h = net_version n \<and> net_first n \<le> ad_number h \<and> ad_number h \<le> broadcast_address n"
    if "h \<in> set hs" for h
    using hosts_in_network [of h target] that t(3,7) by (auto simp: subnet_of_def split: if_splits)
  define p where "p = (if port = None \<or> port = Some 0 then DISCOVERY_SSH_PORT cfg else the port)"
  have p: "(case port of None \<Rightarrow> DISCOVERY_SSH_PORT cfg | Some p \<Rightarrow> if p = 0 then DISCOVERY_SSH_PORT cfg else p) = p"
    by (simp add: p_def split: option.splits)
  let ?found = "\<lambda>hs. concat (map (\<lambda>h. case probe connect h p of
    (True, banner) \<Rightarrow> [\<lparr>dh_ip = h, dh_port = p, dh_banner = banner\<rparr>] | (False, _) \<Rightarrow> []) hs)"
  have ips: "map dh_ip (?found xs) = filter (\<lambda>h. fst (probe connect h p)) xs" for xs
    by (induction xs) (auto split: prod.splits bool.splits)
  have rows: "dh_port r = p \<and> dh_banner r = snd (probe connect (dh_ip r) p)" if "r \<in> set (?found xs)" for r xs
    using that by (auto split: prod.splits bool.splits) (metis snd_conv)
  have "map (\<lambda>r. ad_number (dh_ip r)) (?found hs) = map ad_number (filter (\<lambda>h. fst (probe connect h p)) hs)"
    using arg_cong [OF ips [of hs], of "map ad_number"] by (simp add: comp_def)
  moreover have "sorted (map ad_number (filter (\<lambda>h. fst (probe connect h p)) hs))"
    using hosts_sorted(1) t(3) sorted_filter by blast
  ultimately have srt: "sorted (map (\<lambda>r. ad_number (dh_ip r)) (?found hs))" by simp
  have "found = sort_key (\<lambda>r. ad_number (dh_ip r)) (?found hs)"
    using assms hs by (simp add: scan_def p Let_def)
  also have "\<dots> = ?found hs" using srt by (rule sort_key_id_if_sorted)
  finally have found: "found = ?found hs" .
  show ?thesis
    using hs t inside ips [of hs] rows [of _ hs] srt unfolding found p_def [symmetric] comp_def Let_def by blast
qed

definition sample_parse :: "string \<Rightarrow> ip_network option" where
  "sample_parse text = (if text = ''10.0.0.0/8'' then Some \<lparr>net_version = IPv4, net_first = 167772160, net_prefix = 8\<rparr>
     else if text = ''10.0.0.0/30'' then Some \<lparr>net_version = IPv4, net_first = 167772160, net_prefix = 30\<rparr> else None)"

definition sample_connect :: "ip_addr \<Rightarrow> int \<Rightarrow> connection" where
  "sample_connect h p = (if ad_number h = 167772162 \<and> p = 22 then Connected (Some ''SSH-2.0 '') else Refused)"

definition sample_discovery :: discovery_settings where
  "sample_discovery = \<lparr>DISCOVERY_ENABLED = True, DISCOVERY_ALLOWED_CIDRS = [''10.0.0.0/8''], DISCOVERY_MAX_HOSTS = 256,
     DISCOVERY_SSH_PORT = 22\<rparr>"

lemma scan_is_confined_witness:
  "\<exists>hs :: ip_addr list. scan sample_parse sample_connect sample_discovery ''10.0.0.0/30'' None =
      Inr [\<lparr>dh_ip = \<lparr>ad_version = IPv4, ad_number = 167772162\<rparr>, dh_port = 22, dh_banner = Some ''SSH-2.0''\<rparr>] \<and>
    int (length hs) \<le> 256 \<and> (\<forall>h \<in> set hs. ad_version h = IPv4 \<and> 167772160 \<le> ad_number h)"
proof -
  have s: "scan sample_parse sample_connect sample_discovery ''10.0.0.0/30'' None =
      Inr [\<lparr>dh_ip = \<lparr>ad_version = IPv4, ad_number = 167772162\<rparr>, dh_port = 22, dh_banner = Some ''SSH-2.0''\<rparr>]"
  proof -
    let ?net = "\<lparr>net_version = IPv4, net_first = 167772160, net_prefix = 30\<rparr> :: ip_network"
    let ?wide = "\<lparr>net_version = IPv4, net_first = 167772160, net_prefix = 8\<rparr> :: ip_network"
    have b: "broadcast_address ?net = 167772163" "broadcast_address ?wide = 184549375"
      by (simp_all add: broadcast_address_def)
    have u: "[167772161..167772162 :: int] = [167772161, 167772162]" by (simp add: upto_rec_numeral)
    have h: "hosts ?net = map (\<lambda>i. \<lparr>ad_version = IPv4, ad_number = i\<rparr>) [167772161, 167772162]"
      unfolding hosts_def b Let_def by (simp add: u)
    have q: "sample_parse ''10.0.0.0/30'' = Some ?net" "sample_parse ''10.0.0.0/8'' = Some ?wide"
      by (simp_all add: sample_parse_def)
    have sub: "subnet_of ?net ?wide = Some True" by (simp add: subnet_of_def b)
    have cfg: "DISCOVERY_ENABLED sample_discovery" "''10.0.0.0/8'' \<in> set (DISCOVERY_ALLOWED_CIDRS sample_discovery)"
      "int (length (hosts ?net)) \<le> DISCOVERY_MAX_HOSTS sample_discovery"
      by (simp_all add: sample_discovery_def h)
    have "scan_hosts sample_parse sample_discovery ''10.0.0.0/30'' = Inr (hosts ?net)"
      unfolding scan_hosts_Inr using q cfg sub by blast
    moreover have "strip ''SSH-2.0 '' = ''SSH-2.0''" by code_simp
    ultimately show ?thesis
      by (simp add: scan_def h probe_def sample_connect_def sample_discovery_def)
  qed
  from scan_is_confined [OF s] obtain hs :: "ip_addr list" and c n where
    h: "c \<in> set (DISCOVERY_ALLOWED_CIDRS sample_discovery)" "sample_parse c = Some n"
      "int (length hs) \<le> DISCOVERY_MAX_HOSTS sample_discovery"
      "\<forall>h \<in> set hs. ad_version h = net_version n \<and> net_first n \<le> ad_number h \<and> ad_number h \<le> broadcast_address n"
    by (elim exE conjE) (rule that, assumption+)
  have "c = ''10.0.0.0/8''" using h(1) by (simp add: sample_discovery_def)
  with h(2) have "net_version n = IPv4" "net_first n = 167772160" by (auto simp: sample_parse_def)
  with h(3,4) have "int (length hs) \<le> 256 \<and> (\<forall>h \<in> set hs. ad_version h = IPv4 \<and> 167772160 \<le> ad_number h)"
    by (simp add: sample_discovery_def)
  with s show ?thesis by blast
qed

end
