(* ===== verification/Seed.thy ===== *)
theory Seed
  imports Alert_Engine Users
begin

text \<open>
  The initial data of the backend (\<open>backend/app/core/seed.py\<close>): roles, permissions, alert rules and the
  first administrator, created when they are missing, each time the backend starts. Whether the
  database can be reached is a function of the number of the attempt. The Chinese names are written
  as their UTF-8 bytes.
\<close>

section \<open>The defaults\<close>

definition role_name_1 :: string where
  "role_name_1 =
    [CHR 0xE7, CHR 0xB3, CHR 0xBB, CHR 0xE7, CHR 0xBB, CHR 0x9F, CHR 0xE7, CHR 0xAE, CHR 0xA1,
    CHR 0xE7, CHR 0x90, CHR 0x86, CHR 0xE5, CHR 0x91, CHR 0x98]"

definition role_description_1 :: string where
  "role_description_1 =
    [CHR 0xE6, CHR 0x8B, CHR 0xA5, CHR 0xE6, CHR 0x9C, CHR 0x89, CHR 0xE7, CHR 0xB3, CHR 0xBB,
    CHR 0xE7, CHR 0xBB, CHR 0x9F, CHR 0xE5, CHR 0x85, CHR 0xA8, CHR 0xE9, CHR 0x83, CHR 0xA8,
    CHR 0xE7, CHR 0xAE, CHR 0xA1, CHR 0xE7, CHR 0x90, CHR 0x86, CHR 0xE6, CHR 0x9D, CHR 0x83,
    CHR 0xE9, CHR 0x99, CHR 0x90]"

definition role_name_2 :: string where
  "role_name_2 =
    [CHR 0xE8, CHR 0xBF, CHR 0x90, CHR 0xE7, CHR 0xBB, CHR 0xB4, CHR 0xE4, CHR 0xBA, CHR 0xBA,
    CHR 0xE5, CHR 0x91, CHR 0x98]"

definition role_description_2 :: string where
  "role_description_2 =
    [CHR 0xE8, CHR 0xB4, CHR 0x9F, CHR 0xE8, CHR 0xB4, CHR 0xA3, CHR 0xE6, CHR 0x9C, CHR 0x8D,
    CHR 0xE5, CHR 0x8A, CHR 0xA1, CHR 0xE5, CHR 0x99, CHR 0xA8, CHR 0xE7, CHR 0x9B, CHR 0x91,
    CHR 0xE6, CHR 0x8E, CHR 0xA7, CHR 0xE3, CHR 0x80, CHR 0x81, CHR 0xE5, CHR 0x91, CHR 0x8A,
    CHR 0xE8, CHR 0xAD, CHR 0xA6, CHR 0xE5, CHR 0x92, CHR 0x8C, CHR 0xE4, CHR 0xBB, CHR 0xBB,
    CHR 0xE5, CHR 0x8A, CHR 0xA1, CHR 0xE6, CHR 0x93, CHR 0x8D, CHR 0xE4, CHR 0xBD, CHR 0x9C]"

definition role_name_3 :: string where
  "role_name_3 =
    [CHR 0xE6, CHR 0x99, CHR 0xAE, CHR 0xE9, CHR 0x80, CHR 0x9A, CHR 0xE7, CHR 0x94, CHR 0xA8,
    CHR 0xE6, CHR 0x88, CHR 0xB7]"

definition role_description_3 :: string where
  "role_description_3 =
    [CHR 0xE6, CHR 0x9F, CHR 0xA5, CHR 0xE7, CHR 0x9C, CHR 0x8B, CHR 0xE6, CHR 0x8E, CHR 0x88,
    CHR 0xE6, CHR 0x9D, CHR 0x83, CHR 0xE6, CHR 0x9C, CHR 0x8D, CHR 0xE5, CHR 0x8A, CHR 0xA1,
    CHR 0xE5, CHR 0x99, CHR 0xA8, CHR 0xE5, CHR 0x92, CHR 0x8C, CHR 0xE7, CHR 0x9B, CHR 0x91,
    CHR 0xE6, CHR 0x8E, CHR 0xA7, CHR 0xE6, CHR 0x95, CHR 0xB0, CHR 0xE6, CHR 0x8D, CHR 0xAE]"

definition permission_name_1 :: string where
  "permission_name_1 =
    [CHR 0xE7, CHR 0x94, CHR 0xA8, CHR 0xE6, CHR 0x88, CHR 0xB7, CHR 0xE7, CHR 0xAE, CHR 0xA1,
    CHR 0xE7, CHR 0x90, CHR 0x86]"

definition permission_name_2 :: string where
  "permission_name_2 =
    [CHR 0xE7, CHR 0x94, CHR 0xA8, CHR 0xE6, CHR 0x88, CHR 0xB7, CHR 0xE5, CHR 0x88, CHR 0x97,
    CHR 0xE8, CHR 0xA1, CHR 0xA8]"

definition permission_name_3 :: string where
  "permission_name_3 =
    [CHR 0xE5, CHR 0x88, CHR 0x9B, CHR 0xE5, CHR 0xBB, CHR 0xBA, CHR 0xE7, CHR 0x94, CHR 0xA8,
    CHR 0xE6, CHR 0x88, CHR 0xB7]"

definition permission_name_4 :: string where
  "permission_name_4 =
    [CHR 0xE6, CHR 0x9B, CHR 0xB4, CHR 0xE6, CHR 0x96, CHR 0xB0, CHR 0xE7, CHR 0x94, CHR 0xA8,
    CHR 0xE6, CHR 0x88, CHR 0xB7]"

definition permission_name_5 :: string where
  "permission_name_5 =
    [CHR 0xE5, CHR 0x88, CHR 0xA0, CHR 0xE9, CHR 0x99, CHR 0xA4, CHR 0xE7, CHR 0x94, CHR 0xA8,
    CHR 0xE6, CHR 0x88, CHR 0xB7]"

definition rule_name_1 :: string where
  "rule_name_1 =
    (''CPU '' @ [CHR 0xE4, CHR 0xBD, CHR 0xBF, CHR 0xE7, CHR 0x94, CHR 0xA8, CHR 0xE7, CHR 0x8E,
    CHR 0x87, CHR 0xE8, CHR 0xBF, CHR 0x87, CHR 0xE9, CHR 0xAB, CHR 0x98])"

definition rule_name_2 :: string where
  "rule_name_2 =
    (''CPU '' @ [CHR 0xE4, CHR 0xBD, CHR 0xBF, CHR 0xE7, CHR 0x94, CHR 0xA8, CHR 0xE7, CHR 0x8E,
    CHR 0x87, CHR 0xE4, CHR 0xB8, CHR 0xA5, CHR 0xE9, CHR 0x87, CHR 0x8D, CHR 0xE8, CHR 0xBF,
    CHR 0x87, CHR 0xE9, CHR 0xAB, CHR 0x98])"

definition rule_name_3 :: string where
  "rule_name_3 =
    [CHR 0xE5, CHR 0x86, CHR 0x85, CHR 0xE5, CHR 0xAD, CHR 0x98, CHR 0xE4, CHR 0xBD, CHR 0xBF,
    CHR 0xE7, CHR 0x94, CHR 0xA8, CHR 0xE7, CHR 0x8E, CHR 0x87, CHR 0xE8, CHR 0xBF, CHR 0x87,
    CHR 0xE9, CHR 0xAB, CHR 0x98]"

definition rule_name_4 :: string where
  "rule_name_4 =
    [CHR 0xE5, CHR 0x86, CHR 0x85, CHR 0xE5, CHR 0xAD, CHR 0x98, CHR 0xE4, CHR 0xBD, CHR 0xBF,
    CHR 0xE7, CHR 0x94, CHR 0xA8, CHR 0xE7, CHR 0x8E, CHR 0x87, CHR 0xE4, CHR 0xB8, CHR 0xA5,
    CHR 0xE9, CHR 0x87, CHR 0x8D, CHR 0xE8, CHR 0xBF, CHR 0x87, CHR 0xE9, CHR 0xAB, CHR 0x98]"

definition rule_name_5 :: string where
  "rule_name_5 =
    [CHR 0xE7, CHR 0xA3, CHR 0x81, CHR 0xE7, CHR 0x9B, CHR 0x98, CHR 0xE4, CHR 0xBD, CHR 0xBF,
    CHR 0xE7, CHR 0x94, CHR 0xA8, CHR 0xE7, CHR 0x8E, CHR 0x87, CHR 0xE8, CHR 0xBF, CHR 0x87,
    CHR 0xE9, CHR 0xAB, CHR 0x98]"

definition rule_name_6 :: string where
  "rule_name_6 =
    [CHR 0xE7, CHR 0xA3, CHR 0x81, CHR 0xE7, CHR 0x9B, CHR 0x98, CHR 0xE4, CHR 0xBD, CHR 0xBF,
    CHR 0xE7, CHR 0x94, CHR 0xA8, CHR 0xE7, CHR 0x8E, CHR 0x87, CHR 0xE4, CHR 0xB8, CHR 0xA5,
    CHR 0xE9, CHR 0x87, CHR 0x8D, CHR 0xE8, CHR 0xBF, CHR 0x87, CHR 0xE9, CHR 0xAB, CHR 0x98]"

definition rule_name_7 :: string where
  "rule_name_7 =
    [CHR 0xE8, CHR 0xB4, CHR 0x9F, CHR 0xE8, CHR 0xBD, CHR 0xBD, CHR 0xE8, CHR 0xBF, CHR 0x87,
    CHR 0xE9, CHR 0xAB, CHR 0x98]"

definition rule_name_8 :: string where
  "rule_name_8 =
    [CHR 0xE8, CHR 0xB4, CHR 0x9F, CHR 0xE8, CHR 0xBD, CHR 0xBD, CHR 0xE4, CHR 0xB8, CHR 0xA5,
    CHR 0xE9, CHR 0x87, CHR 0x8D, CHR 0xE8, CHR 0xBF, CHR 0x87, CHR 0xE9, CHR 0xAB, CHR 0x98]"

definition rule_name_9 :: string where
  "rule_name_9 =
    (''Agent '' @ [CHR 0xE5, CHR 0xBF, CHR 0x83, CHR 0xE8, CHR 0xB7, CHR 0xB3, CHR 0xE4, CHR
    0xB8, CHR 0xA2, CHR 0xE5, CHR 0xA4, CHR 0xB1])"

definition rule_name_10 :: string where
  "rule_name_10 =
    (''Agent '' @ [CHR 0xE5, CHR 0xBF, CHR 0x83, CHR 0xE8, CHR 0xB7, CHR 0xB3, CHR 0xE4, CHR
    0xB8, CHR 0xA5, CHR 0xE9, CHR 0x87, CHR 0x8D, CHR 0xE4, CHR 0xB8, CHR 0xA2, CHR 0xE5, CHR
    0xA4, CHR 0xB1])"

definition DEFAULT_ROLES :: "(string \<times> string \<times> string) list" where
  "DEFAULT_ROLES = [
     (''SYSTEM_ADMIN'', role_name_1, role_description_1),
     (''OPS_ENGINEER'', role_name_2, role_description_2),
     (''NORMAL_USER'', role_name_3, role_description_3)]"

definition DEFAULT_PERMISSIONS :: "(string \<times> string \<times> string \<times> string \<times> string option) list" where
  "DEFAULT_PERMISSIONS = [
     (''user:manage'', permission_name_1, ''MENU'', ''/system/users'', None),
     (''user:list'', permission_name_2, ''API'', ''/api/v1/users'', Some ''GET''),
     (''user:create'', permission_name_3, ''API'', ''/api/v1/users'', Some ''POST''),
     (''user:update'', permission_name_4, ''API'', ''/api/v1/users/{id}'', Some ''PUT''),
     (''user:delete'', permission_name_5, ''API'', ''/api/v1/users/{id}'', Some ''DELETE'')]"

definition DEFAULT_ALERT_RULES :: "(string \<times> string \<times> string \<times> string \<times> rat \<times> int) list" where
  "DEFAULT_ALERT_RULES = [
     (rule_name_1, ''CPU'', ''WARNING'', ''GT'', 80, 300),
     (rule_name_2, ''CPU'', ''CRITICAL'', ''GT'', 95, 120),
     (rule_name_3, ''MEMORY'', ''WARNING'', ''GT'', 80, 300),
     (rule_name_4, ''MEMORY'', ''CRITICAL'', ''GT'', 95, 120),
     (rule_name_5, ''DISK'', ''WARNING'', ''GT'', 85, 300),
     (rule_name_6, ''DISK'', ''CRITICAL'', ''GT'', 95, 120),
     (rule_name_7, ''LOAD'', ''WARNING'', ''GT'', 1, 300),
     (rule_name_8, ''LOAD'', ''CRITICAL'', ''GT'', 2, 120),
     (rule_name_9, ''AGENT'', ''WARNING'', ''GT'', 90, 0),
     (rule_name_10, ''AGENT'', ''CRITICAL'', ''GT'', 180, 0)]"

section \<open>Creating what is missing\<close>

definition new_role :: "string \<times> string \<times> string \<Rightarrow> ident \<Rightarrow> SysRole" where
  "new_role item k = (case item of (code, name, description) \<Rightarrow>
     \<lparr>rl_id = k, rl_role_code = code, rl_role_name = name, rl_description = Some description, rl_status = 1\<rparr>)"

text \<open>One iteration of the loop over the roles, with the dictionary \<open>created_roles\<close>.\<close>

definition seed_role ::
  "string \<times> string \<times> string \<Rightarrow> (string \<rightharpoonup> ident) \<times> db \<Rightarrow> (string \<rightharpoonup> ident) \<times> db" where
  "seed_role item acc = (case acc of (created_roles, d) \<Rightarrow>
     (case role_by_code d (fst item) of
        Some role \<Rightarrow> (created_roles(fst item \<mapsto> rl_id role), d)
      | None \<Rightarrow> (created_roles(fst item \<mapsto> next_id (sys_role d)),
          d\<lparr>sys_role := repo_create (new_role item) (sys_role d)\<rparr>)))"

definition new_permission :: "string \<times> string \<times> string \<times> string \<times> string option \<Rightarrow> ident \<Rightarrow> SysPermission" where
  "new_permission item k = (case item of (code, name, kind, path, verb) \<Rightarrow>
     \<lparr>pm_id = k, pm_permission_code = code, pm_permission_name = name, pm_permission_type = kind,
      pm_path = Some path, pm_method = verb, pm_parent_id = None, pm_status = 1\<rparr>)"

definition seed_permission :: "string \<times> string \<times> string \<times> string \<times> string option \<Rightarrow> db \<Rightarrow> db" where
  "seed_permission item d =
     (if permission_by_code d (fst item) \<noteq> None then d
      else d\<lparr>sys_permission := repo_create (new_permission item) (sys_permission d)\<rparr>)"

definition new_rule :: "string \<times> string \<times> string \<times> string \<times> rat \<times> int \<Rightarrow> ident \<Rightarrow> AlertRule" where
  "new_rule item k = (case item of (name, metric_type, severity, operator, threshold, duration) \<Rightarrow>
     \<lparr>ar_id = k, ar_rule_name = name, ar_metric_type = metric_type, ar_target_type = ''SERVER'',
      ar_severity = severity, ar_operator = operator, ar_threshold = Some threshold,
      ar_duration_seconds = duration, ar_recovery_threshold = None, ar_enabled = 1,
      ar_description = None, ar_created_by = None\<rparr>)"

definition seed_rule :: "string \<times> string \<times> string \<times> string \<times> rat \<times> int \<Rightarrow> db \<Rightarrow> db" where
  "seed_rule item d =
     (if get_by_name d (fst item) \<noteq> None then d
      else d\<lparr>alert_rule := repo_create (new_rule item) (alert_rule d)\<rparr>)"

record seed_settings =
  SEED_ADMIN_USERNAME :: string
  SEED_ADMIN_PASSWORD :: string

definition new_admin :: "seed_settings \<Rightarrow> string \<Rightarrow> ident \<Rightarrow> SysUser" where
  "new_admin cfg password_hash k = \<lparr>us_id = k, us_username = SEED_ADMIN_USERNAME cfg,
     us_password_hash = password_hash, us_nickname = Some role_name_1, us_email = None, us_phone = None,
     us_status = 1, us_last_login_at = None, us_last_login_ip = None, us_deleted_at = None\<rparr>"

definition seed_admin :: "security \<Rightarrow> string \<Rightarrow> seed_settings \<Rightarrow> db \<Rightarrow> (ident \<times> db) result" where
  "seed_admin sec salt cfg d =
     (case get_by_username d (SEED_ADMIN_USERNAME cfg) of
        Some admin \<Rightarrow> Inr (us_id admin, d)
      | None \<Rightarrow> insert_user (new_admin cfg (hash_password sec salt (SEED_ADMIN_PASSWORD cfg))) d)"

definition init_seed_data_once :: "security \<Rightarrow> string \<Rightarrow> seed_settings \<Rightarrow> db \<Rightarrow> db result" where
  "init_seed_data_once sec salt cfg d =
     (let (created_roles, d1) = fold seed_role DEFAULT_ROLES (Map.empty, d);
          d2 = fold seed_permission DEFAULT_PERMISSIONS d1;
          d3 = fold seed_rule DEFAULT_ALERT_RULES d2
      in bindE (seed_admin sec salt cfg d3) (\<lambda>(admin, d4).
           Inr (case created_roles ''SYSTEM_ADMIN'' of
                  None \<Rightarrow> d4 | Some admin_role \<Rightarrow> set_roles admin [admin_role] d4)))"

text \<open>
  The loop of \<open>init_seed_data\<close> over \<open>range(1, max_attempts + 1)\<close>; returns the outcome and how often it
  slept. Without any attempt nothing is done and nothing is raised.
\<close>

fun seed_attempts ::
  "(int \<Rightarrow> bool) \<Rightarrow> (db \<Rightarrow> db result) \<Rightarrow> int \<Rightarrow> int list \<Rightarrow> nat \<Rightarrow> db \<Rightarrow> db result \<times> nat" where
  "seed_attempts reachable once max_attempts [] slept d = (Inr d, slept)"
| "seed_attempts reachable once max_attempts (attempt # rest) slept d =
     (case (if reachable attempt then once d else Inl OperationalError) of
        Inr d' \<Rightarrow> (Inr d', slept)
      | Inl e \<Rightarrow>
          if e \<noteq> OperationalError \<or> attempt \<ge> max_attempts then (Inl e, slept)
          else seed_attempts reachable once max_attempts rest (slept + 1) d)"

definition init_seed_data ::
  "(int \<Rightarrow> bool) \<Rightarrow> security \<Rightarrow> string \<Rightarrow> seed_settings \<Rightarrow> int \<Rightarrow> db \<Rightarrow> db result \<times> nat" where
  "init_seed_data reachable sec salt cfg max_attempts d =
     seed_attempts reachable (init_seed_data_once sec salt cfg) max_attempts [1..max_attempts] 0 d"

section \<open>Get or create\<close>

text \<open>
  The contract the three loops share: a state in which keys are present, and an operation that makes
  the key of its item present and no other one.
\<close>

locale get_or_create =
  fixes present :: "'k \<Rightarrow> 's \<Rightarrow> bool" and key :: "'x \<Rightarrow> 'k" and add :: "'x \<Rightarrow> 's \<Rightarrow> 's"
  assumes present_add: "present k (add x s) \<longleftrightarrow> k = key x \<or> present k s"
begin

definition ensure :: "'x \<Rightarrow> 's \<Rightarrow> 's" where
  "ensure x s = (if present (key x) s then s else add x s)"

lemma present_ensure: "present k (ensure x s) \<longleftrightarrow> k = key x \<or> present k s"
  by (auto simp: ensure_def present_add)

lemma present_fold: "present k (fold ensure xs s) \<longleftrightarrow> k \<in> key ` set xs \<or> present k s"
  by (induction xs arbitrary: s) (auto simp: present_ensure)

lemma fold_present: "\<forall>x \<in> set xs. present (key x) s \<Longrightarrow> fold ensure xs s = s"
  by (induction xs) (auto simp: ensure_def)

end

end
