(* ===== verification/Seed_Properties.thy ===== *)
theory Seed_Properties
  imports Seed User_Properties
begin

text \<open>
  The start of the backend: the seed leaves what exists, adds what is missing, does nothing the second
  time, and waits a bounded time for the database.
\<close>

section \<open>The three loops\<close>

lemma role_by_code_find: "role_by_code d code = List.find (\<lambda>r. rl_role_code r = code) (roles d)"
  by (simp add: role_by_code_def repo_get_by_def)

lemma permission_by_code_find:
  "permission_by_code d code = List.find (\<lambda>p. pm_permission_code p = code) (rows (sys_permission d))"
  by (simp add: permission_by_code_def repo_get_by_def)

lemma get_by_name_find: "get_by_name d name = List.find (\<lambda>r. ar_rule_name r = name) (alert_rules d)"
  by (simp add: get_by_name_def repo_get_by_def)

lemma find_append: "List.find P (xs @ ys) = (case List.find P xs of None \<Rightarrow> List.find P ys | Some x \<Rightarrow> Some x)"
  by (induction xs) auto

definition add_role :: "string \<times> string \<times> string \<Rightarrow> db \<Rightarrow> db" where
  "add_role item d = d\<lparr>sys_role := repo_create (new_role item) (sys_role d)\<rparr>"

definition add_permission :: "string \<times> string \<times> string \<times> string \<times> string option \<Rightarrow> db \<Rightarrow> db" where
  "add_permission item d = d\<lparr>sys_permission := repo_create (new_permission item) (sys_permission d)\<rparr>"

definition add_rule :: "string \<times> string \<times> string \<times> string \<times> rat \<times> int \<Rightarrow> db \<Rightarrow> db" where
  "add_rule item d = d\<lparr>alert_rule := repo_create (new_rule item) (alert_rule d)\<rparr>"

definition has_role :: "string \<Rightarrow> db \<Rightarrow> bool" where
  "has_role code d \<longleftrightarrow> role_by_code d code \<noteq> None"

definition has_permission :: "string \<Rightarrow> db \<Rightarrow> bool" where
  "has_permission code d \<longleftrightarrow> permission_by_code d code \<noteq> None"

definition has_rule :: "string \<Rightarrow> db \<Rightarrow> bool" where
  "has_rule name d \<longleftrightarrow> get_by_name d name \<noteq> None"

interpretation role_seed: get_or_create has_role fst add_role
  by unfold_locales (auto simp: has_role_def role_by_code_find add_role_def repo_create_def find_append new_role_def
      split: option.splits prod.splits)

interpretation permission_seed: get_or_create has_permission fst add_permission
  by unfold_locales (auto simp: has_permission_def permission_by_code_find add_permission_def repo_create_def find_append
      new_permission_def split: option.splits prod.splits)

interpretation rule_seed: get_or_create has_rule fst add_rule
  by unfold_locales (auto simp: has_rule_def get_by_name_find add_rule_def repo_create_def find_append new_rule_def
      split: option.splits prod.splits)

lemma seed_permission_ensure: "seed_permission = permission_seed.ensure"
  by (intro ext) (simp add: seed_permission_def permission_seed.ensure_def add_permission_def has_permission_def)

lemma seed_rule_ensure: "seed_rule = rule_seed.ensure"
  by (intro ext) (simp add: seed_rule_def rule_seed.ensure_def add_rule_def has_rule_def)

lemma seed_role_ensure: "snd (seed_role item acc) = role_seed.ensure item (snd acc)"
  by (auto simp: seed_role_def role_seed.ensure_def add_role_def has_role_def split: prod.splits option.splits)

lemma snd_fold_seed_role: "snd (fold seed_role items acc) = fold role_seed.ensure items (snd acc)"
  by (induction items arbitrary: acc) (simp_all add: seed_role_ensure)

text \<open>The dictionary holds, for every code it has seen, the key of the role with that code.\<close>

lemma created_roles_ok:
  assumes "\<forall>code k. created code = Some k \<longrightarrow> (\<exists>r. role_by_code d code = Some r \<and> rl_id r = k)"
    and "fold seed_role items (created, d) = (created', d')"
  shows "(\<forall>code k. created' code = Some k \<longrightarrow> (\<exists>r. role_by_code d' code = Some r \<and> rl_id r = k)) \<and>
    dom created' = dom created \<union> fst ` set items"
  using assms
proof (induction items arbitrary: created d)
  case Nil
  then show ?case by simp
next
  case (Cons item items)
  obtain created1 d1 where s: "seed_role item (created, d) = (created1, d1)" by fastforce
  have keep: "role_by_code d1 code = Some r" if "role_by_code d code = Some r" for code r
    using that s by (auto simp: seed_role_def role_by_code_find repo_create_def find_append split: option.splits)
  have new: "\<exists>r. role_by_code d1 (fst item) = Some r \<and> created1 = created(fst item \<mapsto> rl_id r)"
    using s by (auto simp: seed_role_def role_by_code_find repo_create_def find_append new_role_def
        split: option.splits prod.splits)
  have ok: "\<forall>code k. created1 code = Some k \<longrightarrow> (\<exists>r. role_by_code d1 code = Some r \<and> rl_id r = k)"
    using new keep Cons.prems(1) by (auto split: if_splits) blast
  have "dom created1 = insert (fst item) (dom created)" using new by auto
  with Cons.IH [OF ok] Cons.prems(2) s show ?case by auto
qed

section \<open>A run of the seed\<close>

lemma fold_frame:
  "sys_role (fold permission_seed.ensure xs s) = sys_role s" "sys_user (fold permission_seed.ensure xs s) = sys_user s"
  "alert_rule (fold permission_seed.ensure xs s) = alert_rule s"
  by (induction xs arbitrary: s) (simp_all add: permission_seed.ensure_def add_permission_def)

lemma fold_frame_rules:
  "sys_role (fold rule_seed.ensure ys s) = sys_role s" "sys_user (fold rule_seed.ensure ys s) = sys_user s"
  "sys_permission (fold rule_seed.ensure ys s) = sys_permission s"
  by (induction ys arbitrary: s) (simp_all add: rule_seed.ensure_def add_rule_def)

lemma fold_frame_roles:
  "sys_permission (fold role_seed.ensure zs s) = sys_permission s" "alert_rule (fold role_seed.ensure zs s) = alert_rule s"
  "sys_user (fold role_seed.ensure zs s) = sys_user s"
  by (induction zs arbitrary: s) (simp_all add: role_seed.ensure_def add_role_def)

lemma init_once_Inr:
  "init_seed_data_once sec salt cfg d = Inr d' \<longleftrightarrow>
   (\<exists>d1 r k d4. d1 = fold rule_seed.ensure DEFAULT_ALERT_RULES (fold permission_seed.ensure DEFAULT_PERMISSIONS
       (fold role_seed.ensure DEFAULT_ROLES d)) \<and>
     role_by_code d1 ''SYSTEM_ADMIN'' = Some r \<and> seed_admin sec salt cfg d1 = Inr (k, d4) \<and>
     d' = set_roles k [rl_id r] d4)"
proof -
  obtain created d0 where f: "fold seed_role DEFAULT_ROLES (Map.empty, d) = (created, d0)" by fastforce
  have d0: "d0 = fold role_seed.ensure DEFAULT_ROLES d"
    using snd_fold_seed_role [of DEFAULT_ROLES "(Map.empty, d)"] f by simp
  have admin: "''SYSTEM_ADMIN'' \<in> fst ` set DEFAULT_ROLES" by (simp add: DEFAULT_ROLES_def)
  have dict: "\<forall>code k. created code = Some k \<longrightarrow> (\<exists>r. role_by_code d0 code = Some r \<and> rl_id r = k)"
    "''SYSTEM_ADMIN'' \<in> dom created"
    using created_roles_ok [OF _ f] admin by auto
  then obtain r where r: "created ''SYSTEM_ADMIN'' = Some (rl_id r)" "role_by_code d0 ''SYSTEM_ADMIN'' = Some r"
    by blast
  have same: "role_by_code (fold rule_seed.ensure ys (fold permission_seed.ensure xs d0)) ''SYSTEM_ADMIN'' = Some r" for xs ys
    using r(2) by (simp add: role_by_code_def fold_frame fold_frame_rules)
  show ?thesis
    by (auto simp: init_seed_data_once_def f Let_def seed_permission_ensure seed_rule_ensure bindE_eq_Inr r(1) d0 [symmetric] same)
qed

lemma insert_user_Inr:
  "insert_user u d = Inr (k, d') \<longleftrightarrow> k = next_id (sys_user d) \<and> d' = d\<lparr>sys_user := repo_create u (sys_user d)\<rparr> \<and> uk_sys_user (users d')"
  by (auto simp: insert_user_def bindE_eq_Inr flush_user_def split: if_splits)

lemma seed_admin_found:
  assumes "seed_admin sec salt cfg d = Inr (k, d')"
  shows "\<exists>u. get_by_username d' (SEED_ADMIN_USERNAME cfg) = Some u \<and> us_id u = k"
    and "\<exists>t. d' = d\<lparr>sys_user := t\<rparr> \<and> (\<exists>us. rows t = users d @ us)"
proof -
  show "\<exists>u. get_by_username d' (SEED_ADMIN_USERNAME cfg) = Some u \<and> us_id u = k"
    using assms by (auto simp: seed_admin_def insert_user_Inr get_by_username_def repo_get_by_def repo_create_def
        apply_soft_delete_def find_append new_admin_def split: option.splits)
  show "\<exists>t. d' = d\<lparr>sys_user := t\<rparr> \<and> (\<exists>us. rows t = users d @ us)"
    using assms by (auto simp: seed_admin_def insert_user_Inr repo_create_def split: option.splits
        intro: exI [of _ "sys_user d"])
qed

lemma set_roles_idem: "set_roles u ids (set_roles u ids d) = set_roles u ids d"
  by (simp add: set_roles_def)

lemma fold_role_prefix: "\<exists>xs. roles (fold role_seed.ensure items d) = roles d @ xs"
proof (induction items arbitrary: d)
  case (Cons item items)
  have "\<exists>xs. roles (role_seed.ensure item d) = roles d @ xs"
    by (simp add: role_seed.ensure_def add_role_def repo_create_def)
  with Cons.IH [of "role_seed.ensure item d"] show ?case by fastforce
qed simp

lemma fold_rule_prefix: "\<exists>xs. alert_rules (fold rule_seed.ensure items d) = alert_rules d @ xs"
proof (induction items arbitrary: d)
  case (Cons item items)
  have "\<exists>xs. alert_rules (rule_seed.ensure item d) = alert_rules d @ xs"
    by (simp add: rule_seed.ensure_def add_rule_def repo_create_def)
  with Cons.IH [of "rule_seed.ensure item d"] show ?case by fastforce
qed simp

text \<open>
  C32. The seed can run at every start. When a run succeeds, the default roles, permissions and alert
  rules exist, the administrator exists and has the role SYSTEM_ADMIN and no other one, and no row of
  users, roles or alert rules that existed before was changed; a second run, whatever its salt, changes
  nothing at all.
\<close>

theorem seed_is_idempotent:
  assumes "init_seed_data_once sec salt cfg d = Inr d'"
  shows "(\<forall>item \<in> set DEFAULT_ROLES. role_by_code d' (fst item) \<noteq> None) \<and>
    (\<forall>item \<in> set DEFAULT_PERMISSIONS. permission_by_code d' (fst item) \<noteq> None) \<and>
    (\<forall>item \<in> set DEFAULT_ALERT_RULES. get_by_name d' (fst item) \<noteq> None) \<and>
    (\<exists>u r. get_by_username d' (SEED_ADMIN_USERNAME cfg) = Some u \<and> role_by_code d' ''SYSTEM_ADMIN'' = Some r \<and>
       get_role_ids d' (us_id u) = [rl_id r]) \<and>
    (\<exists>us rs as. users d' = users d @ us \<and> roles d' = roles d @ rs \<and> alert_rules d' = alert_rules d @ as) \<and>
    init_seed_data_once sec salt' cfg d' = Inr d'"
proof -
  let ?roles = "fold role_seed.ensure DEFAULT_ROLES" and ?perms = "fold permission_seed.ensure DEFAULT_PERMISSIONS"
  let ?rules = "fold rule_seed.ensure DEFAULT_ALERT_RULES"
  from assms obtain d1 r k d4 where run: "d1 = ?rules (?perms (?roles d))"
    "role_by_code d1 ''SYSTEM_ADMIN'' = Some r" "seed_admin sec salt cfg d1 = Inr (k, d4)" "d' = set_roles k [rl_id r] d4"
    unfolding init_once_Inr by blast
  from seed_admin_found(1) [OF run(3)] obtain u where u: "get_by_username d4 (SEED_ADMIN_USERNAME cfg) = Some u" "us_id u = k"
    by blast
  from seed_admin_found(2) [OF run(3)] obtain t us where t: "d4 = d1\<lparr>sys_user := t\<rparr>" "rows t = users d1 @ us" by blast
  have tables: "sys_role d' = sys_role d1" "sys_permission d' = sys_permission d1" "alert_rule d' = alert_rule d1"
    "sys_user d' = t"
    by (simp_all add: run(4) set_roles_def t(1))
  have d1: "sys_role d1 = sys_role (?roles d)" "sys_permission d1 = sys_permission (?perms (?roles d))"
    "alert_rule d1 = alert_rule (?rules (?perms (?roles d)))" "sys_user d1 = sys_user d"
    by (simp_all add: run(1) fold_frame fold_frame_rules fold_frame_roles)
  have has: "\<forall>item \<in> set DEFAULT_ROLES. has_role (fst item) d'"
    "\<forall>item \<in> set DEFAULT_PERMISSIONS. has_permission (fst item) d'"
    "\<forall>item \<in> set DEFAULT_ALERT_RULES. has_rule (fst item) d'"
    using role_seed.present_fold [of _ DEFAULT_ROLES d] permission_seed.present_fold [of _ DEFAULT_PERMISSIONS "?roles d"]
      rule_seed.present_fold [of _ DEFAULT_ALERT_RULES "?perms (?roles d)"]
    by (auto simp: has_role_def has_permission_def has_rule_def role_by_code_def permission_by_code_def get_by_name_def
        tables d1)
  have admin: "get_by_username d' (SEED_ADMIN_USERNAME cfg) = Some u" "role_by_code d' ''SYSTEM_ADMIN'' = Some r"
    "get_role_ids d' k = [rl_id r]"
    using u run(2) by (simp_all add: run(4) set_roles_def get_by_username_def role_by_code_def get_role_ids_def t(1)
        py_set_def)
  have same: "?rules (?perms (?roles d')) = d'"
    using has role_seed.fold_present permission_seed.fold_present rule_seed.fold_present by metis
  have "seed_admin sec salt' cfg d' = Inr (k, d')" using admin(1) u(2) by (simp add: seed_admin_def)
  moreover have "set_roles k [rl_id r] d' = d'" by (simp add: run(4) set_roles_idem)
  ultimately have again: "init_seed_data_once sec salt' cfg d' = Inr d'"
    unfolding init_once_Inr same using admin(2) by metis
  have "\<exists>rs. roles d' = roles d @ rs" "\<exists>as. alert_rules d' = alert_rules d @ as" "users d' = users d @ us"
    using fold_role_prefix [of DEFAULT_ROLES d] fold_rule_prefix [of DEFAULT_ALERT_RULES "?perms (?roles d)"] t(2)
    by (simp_all add: tables d1 fold_frame fold_frame_roles)
  with has admin u(2) again show ?thesis by (simp add: has_role_def has_permission_def has_rule_def)
qed

lemma once_not_operational: "init_seed_data_once sec salt cfg d \<noteq> Inl OperationalError"
  by (auto simp: init_seed_data_once_def Let_def bindE_eq_Inl seed_admin_def insert_user_def flush_user_def
      split: prod.splits option.splits if_splits)

text \<open>
  The start waits for the database, a bounded time: the loop ends after fewer sleeps than attempts;
  with the first attempt that reaches the database the seed runs, once, and its outcome, an error
  included, is that of the start; when no attempt reaches it, the error of the last one is raised.
\<close>

theorem startup_waits_for_database:
  assumes "1 \<le> max_attempts" and "init_seed_data reachable sec salt cfg max_attempts d = (res, slept)"
  shows "int slept < max_attempts \<and>
    (if \<exists>i. 1 \<le> i \<and> i \<le> max_attempts \<and> reachable i
     then reachable (int slept + 1) \<and> (\<forall>i. 1 \<le> i \<longrightarrow> i \<le> int slept \<longrightarrow> \<not> reachable i) \<and>
       res = init_seed_data_once sec salt cfg d
     else res = Inl OperationalError \<and> int slept = max_attempts - 1)"
proof -
  let ?once = "init_seed_data_once sec salt cfg"
  have "int m < max_attempts \<and>
      (if \<exists>i. int n + 1 \<le> i \<and> i \<le> max_attempts \<and> reachable i
       then reachable (int m + 1) \<and> (\<forall>i. int n + 1 \<le> i \<longrightarrow> i \<le> int m \<longrightarrow> \<not> reachable i) \<and> res = ?once d
       else res = Inl OperationalError \<and> int m = max_attempts - 1)"
    if "seed_attempts reachable ?once max_attempts [int n + 1..max_attempts] n d = (res, m)" "int n < max_attempts" for n m
    using that
  proof (induction "nat (max_attempts - int n)" arbitrary: n)
    case 0
    then show ?case by simp
  next
    case (Suc j)
    have list: "[int n + 1..max_attempts] = (int n + 1) # [int (Suc n) + 1..max_attempts]"
      using Suc.prems(2) by (subst upto.simps) (simp add: add.commute)
    show ?case
    proof (cases "reachable (int n + 1)")
      case True
      with Suc.prems list have "m = n" "res = ?once d"
        using once_not_operational [of sec salt cfg d] by (auto split: sum.splits if_splits)
      with True Suc.prems(2) show ?thesis by auto
    next
      case False
      show ?thesis
      proof (cases "int n + 1 \<ge> max_attempts")
        case True
        with False Suc.prems list have "m = n" "res = Inl OperationalError" by auto
        moreover have "\<not> (\<exists>i. int n + 1 \<le> i \<and> i \<le> max_attempts \<and> reachable i)"
        proof
          assume "\<exists>i. int n + 1 \<le> i \<and> i \<le> max_attempts \<and> reachable i"
          then obtain i where i: "int n + 1 \<le> i" "i \<le> max_attempts" "reachable i" by blast
          with True have "i = int n + 1" by linarith
          with i(3) False show False by simp
        qed
        ultimately show ?thesis using True Suc.prems(2) by simp
      next
        case again: False
        then have rest: "seed_attempts reachable ?once max_attempts [int (Suc n) + 1..max_attempts] (Suc n) d = (res, m)"
          using False Suc.prems(1) list by simp
        have skip: "(int (Suc n) + 1 \<le> i) = (int n + 1 \<le> i)" if "reachable i" for i
          using that False by (cases "i = int n + 1") auto
        have "j = nat (max_attempts - int (Suc n))" "int (Suc n) < max_attempts" using Suc.hyps(2) again by auto
        from Suc.hyps(1) [OF this(1) rest this(2)] skip show ?thesis by (smt (verit, best))
      qed
    qed
  qed
  from this [of 0 slept] assms show ?thesis by (simp add: init_seed_data_def)
qed

section \<open>The administrator\<close>

lemma seeding_users:
  "sys_user (fold rule_seed.ensure xs (fold permission_seed.ensure ys (fold role_seed.ensure zs d))) = sys_user d"
  by (simp add: fold_frame fold_frame_rules fold_frame_roles)

lemma seed_admin_error:
  assumes "\<And>d'. sys_user d' = sys_user d \<Longrightarrow> seed_admin sec salt cfg d' = Inl e"
  shows "init_seed_data_once sec salt cfg d = Inl e"
proof -
  obtain created d0 where f: "fold seed_role DEFAULT_ROLES (Map.empty, d) = (created, d0)" by fastforce
  then have "d0 = fold role_seed.ensure DEFAULT_ROLES d"
    using snd_fold_seed_role [of DEFAULT_ROLES "(Map.empty, d)"] by simp
  with f show ?thesis
    using assms seeding_users by (simp add: init_seed_data_once_def Let_def seed_permission_ensure seed_rule_ensure)
qed

text \<open>
  An administrator who has been deleted stops every further start: the name is looked for among the
  users that are not deleted, but still occupies the unique key.
\<close>

lemma deleted_admin_stops_the_start:
  assumes "u \<in> set (users d)" "us_username u = SEED_ADMIN_USERNAME cfg" "get_by_username d (SEED_ADMIN_USERNAME cfg) = None"
  shows "init_seed_data_once sec salt cfg d = Inl IntegrityError"
proof (rule seed_admin_error)
  fix d' :: db assume d': "sys_user d' = sys_user d"
  have "\<not> uk_sys_user (users d @ [new_admin cfg h k])" for h k
    using assms(1) by (auto simp: uk_sys_user_def new_admin_def assms(2) [symmetric])
  with assms(3) d' show "seed_admin sec salt cfg d' = Inl IntegrityError"
    by (simp add: seed_admin_def get_by_username_def insert_user_def flush_user_def repo_create_def)
qed

text \<open>Another role given to the administrator is gone after the next start.\<close>

lemma admin_roles_are_reset:
  assumes "init_seed_data_once sec salt cfg d = Inr d'" "get_by_username d (SEED_ADMIN_USERNAME cfg) = Some u"
  shows "\<exists>r. role_by_code d' ''SYSTEM_ADMIN'' = Some r \<and> get_role_ids d' (us_id u) = [rl_id r]"
proof -
  from assms(1) obtain d1 r k d4 where run: "sys_user d1 = sys_user d" "role_by_code d1 ''SYSTEM_ADMIN'' = Some r"
    "seed_admin sec salt cfg d1 = Inr (k, d4)" "d' = set_roles k [rl_id r] d4"
    unfolding init_once_Inr using seeding_users by metis
  then have "k = us_id u" "d4 = d1" using assms(2) by (simp_all add: seed_admin_def get_by_username_def)
  with run show ?thesis by (simp add: set_roles_def role_by_code_def get_role_ids_def py_set_def)
qed

section \<open>Concrete starts\<close>

definition seed_cfg :: seed_settings where
  "seed_cfg = \<lparr>SEED_ADMIN_USERNAME = ''admin'', SEED_ADMIN_PASSWORD = ''admin123456''\<rparr>"

definition seeded_db :: db where
  "seeded_db = projr (init_seed_data_once sample_security ''salt'' seed_cfg empty_db)"

lemma first_start_succeeds: "users d = [] \<Longrightarrow> \<exists>d'. init_seed_data_once sec salt cfg d = Inr d'"
proof -
  assume none: "users d = []"
  let ?d1 = "fold rule_seed.ensure DEFAULT_ALERT_RULES (fold permission_seed.ensure DEFAULT_PERMISSIONS
    (fold role_seed.ensure DEFAULT_ROLES d))"
  have "''SYSTEM_ADMIN'' \<in> fst ` set DEFAULT_ROLES" by (simp add: DEFAULT_ROLES_def)
  then have "has_role ''SYSTEM_ADMIN'' (fold role_seed.ensure DEFAULT_ROLES d)" by (simp add: role_seed.present_fold)
  then have "has_role ''SYSTEM_ADMIN'' ?d1"
    by (simp add: has_role_def role_by_code_def fold_frame fold_frame_rules)
  then obtain r where r: "role_by_code ?d1 ''SYSTEM_ADMIN'' = Some r" by (auto simp: has_role_def)
  have "users ?d1 = []" by (simp add: seeding_users none)
  then have "\<exists>k d4. seed_admin sec salt cfg ?d1 = Inr (k, d4)"
    by (simp add: seed_admin_def get_by_username_def repo_get_by_def insert_user_def flush_user_def repo_create_def
        uk_sys_user_def)
  with r show ?thesis unfolding init_once_Inr by blast
qed

lemma seeded: "init_seed_data_once sample_security ''salt'' seed_cfg empty_db = Inr seeded_db"
  using first_start_succeeds [of empty_db sample_security "''salt''" seed_cfg]
  by (auto simp: seeded_db_def empty_db_def empty_table_def)

lemma seed_is_idempotent_witness:
  "role_by_code seeded_db ''OPS_ENGINEER'' \<noteq> None \<and>
   (\<exists>u (r :: SysRole). get_by_username seeded_db ''admin'' = Some u \<and> get_role_ids seeded_db (us_id u) = [rl_id r]) \<and>
   init_seed_data_once sample_security ''other'' seed_cfg seeded_db = Inr seeded_db"
proof -
  have name: "SEED_ADMIN_USERNAME seed_cfg = ''admin''" by (simp add: seed_cfg_def)
  obtain item where item: "item \<in> set DEFAULT_ROLES" "fst item = ''OPS_ENGINEER''" by (auto simp: DEFAULT_ROLES_def)
  note all = seed_is_idempotent [OF seeded, of "''other''", unfolded name]
  have "role_by_code seeded_db (fst item) \<noteq> None" using all item(1) by blast
  with all item(2) show ?thesis by auto
qed

lemma startup_waits_for_database_witness:
  "init_seed_data (\<lambda>i. 3 \<le> i) sample_security ''salt'' seed_cfg 10 empty_db = (Inr seeded_db, 2)"
proof -
  obtain res slept where r: "init_seed_data (\<lambda>i. 3 \<le> i) sample_security ''salt'' seed_cfg 10 empty_db = (res, slept)"
    by fastforce
  have some: "\<exists>i. 1 \<le> i \<and> i \<le> 10 \<and> 3 \<le> (i :: int)" by (intro exI [of _ 3]) simp
  from startup_waits_for_database [OF _ r] some have s: "3 \<le> int slept + 1"
    "\<forall>i. 1 \<le> i \<longrightarrow> i \<le> int slept \<longrightarrow> \<not> 3 \<le> i" "res = Inr seeded_db"
    by (simp_all add: seeded)
  have "\<not> 3 \<le> int slept" using s(2) [rule_format, of 3] by auto
  with s r show ?thesis by simp
qed

end
