(* ===== verification/Api.thy ===== *)
theory Api
  imports Users Server_Service Discovery Task_Service Metrics
begin

text \<open>
  The endpoints of the users of the platform (\<open>backend/app/api/v1\<close>, all modules but \<open>agent.py\<close>) and
  the projections of \<open>schemas\<close> they answer with. An endpoint runs its guard, then validates its
  parameters and its body, then calls the service; \<open>Inl\<close> is the exception the handlers of
  \<open>exceptions/handlers.py\<close> answer, after which the database is the old one. A parameter that is not
  even of its type is a \<open>RequestValidationError\<close> like one out of its bounds; the texts of the
  messages and the columns the database fills by itself are left out.
\<close>

section \<open>What a request brings\<close>

text \<open>
  Besides the body: the clock, the bearer token of the \<open>Authorization\<close> header, the random texts the
  operation draws (the salt of \<open>bcrypt\<close>, the plain text of an agent token), and the parameters of the
  services.
\<close>

record api_context =
  cx_security :: security
  cx_token_hash :: "string \<Rightarrow> string"
  cx_ip_network :: "string \<Rightarrow> ip_network option"
  cx_connect :: "ip_addr \<Rightarrow> int \<Rightarrow> connection"
  cx_discovery :: discovery_settings
  cx_now :: datetime
  cx_bearer :: "string option"
  cx_salt :: string
  cx_plaintext :: string

definition with_bearer :: "api_context \<Rightarrow> (string \<Rightarrow> 'a result) \<Rightarrow> 'a result" where
  "with_bearer cx f = (case cx_bearer cx of None \<Rightarrow> Inl (HTTPException 401) | Some token \<Rightarrow> f token)"

definition logged_in :: "api_context \<Rightarrow> db \<Rightarrow> SysUser result" where
  "logged_in cx d = with_bearer cx (\<lambda>token. get_current_user (cx_security cx) (cx_now cx) token d)"

definition with_roles :: "string list \<Rightarrow> api_context \<Rightarrow> db \<Rightarrow> SysUser result" where
  "with_roles codes cx d = with_bearer cx (\<lambda>token. require_roles codes (cx_security cx) (cx_now cx) token d)"

text \<open>The two guards of the routers; \<open>admin_ops\<close> also stands for the dependency \<open>current_user\<close>.\<close>

definition admin_ops :: "api_context \<Rightarrow> db \<Rightarrow> SysUser result" where
  "admin_ops = with_roles [''SYSTEM_ADMIN'', ''OPS_ENGINEER'']"

definition system_admin :: "api_context \<Rightarrow> db \<Rightarrow> SysUser result" where
  "system_admin = with_roles [''SYSTEM_ADMIN'']"

definition check_params :: "bool \<Rightarrow> unit result" where
  "check_params ok = (if ok then Inr () else Inl RequestValidationError)"

definition page_params :: "int \<Rightarrow> int \<Rightarrow> int \<Rightarrow> bool" where
  "page_params limit page page_size \<longleftrightarrow> 1 \<le> page \<and> 1 \<le> page_size \<and> page_size \<le> limit"

section \<open>The response models\<close>

record TaskOut =
  to_id :: ident
  to_task_name :: string
  to_task_type :: string
  to_action :: "string option"
  to_service_name :: "string option"
  to_schedule_type :: string
  to_cron_expression :: "string option"
  to_status :: task_status
  to_timeout_seconds :: int
  to_max_attempts :: int
  to_attempt :: int
  to_confirmation_required :: int
  to_confirmed :: bool
  to_created_at :: datetime
  to_started_at :: "datetime option"
  to_finished_at :: "datetime option"

definition from_task :: "OpsTask \<Rightarrow> TaskOut" where
  "from_task t = \<lparr>to_id = tk_id t, to_task_name = tk_task_name t, to_task_type = tk_task_type t,
     to_action = tk_action t, to_service_name = tk_service_name t, to_schedule_type = tk_schedule_type t,
     to_cron_expression = tk_cron_expression t, to_status = tk_status t,
     to_timeout_seconds = tk_timeout_seconds t, to_max_attempts = tk_max_attempts t,
     to_attempt = tk_attempt t, to_confirmation_required = tk_confirmation_required t,
     to_confirmed = (tk_confirmed_by t \<noteq> None), to_created_at = tk_created_at t,
     to_started_at = tk_started_at t, to_finished_at = tk_finished_at t\<rparr>"

record RuleOut =
  ro_id :: ident
  ro_rule_name :: string
  ro_metric_type :: string
  ro_target_type :: string
  ro_severity :: string
  ro_operator :: string
  ro_threshold :: "rat option"
  ro_duration_seconds :: int
  ro_recovery_threshold :: "rat option"
  ro_enabled :: int
  ro_description :: "string option"

definition rule_out :: "AlertRule \<Rightarrow> RuleOut" where
  "rule_out r = \<lparr>ro_id = ar_id r, ro_rule_name = ar_rule_name r, ro_metric_type = ar_metric_type r,
     ro_target_type = ar_target_type r, ro_severity = ar_severity r, ro_operator = ar_operator r,
     ro_threshold = ar_threshold r, ro_duration_seconds = ar_duration_seconds r,
     ro_recovery_threshold = ar_recovery_threshold r, ro_enabled = ar_enabled r, ro_description = ar_description r\<rparr>"

record ServerOut =
  so_id :: ident
  so_server_code :: string
  so_hostname :: string
  so_ip_address :: string
  so_ssh_port :: int
  so_os_name :: "string option"
  so_os_version :: "string option"
  so_agent_version :: "string option"
  so_agent_status :: agent_state
  so_last_heartbeat_at :: "datetime option"
  so_registered_at :: "datetime option"
  so_status :: int
  so_remark :: "string option"

definition server_out :: "OpsServer \<Rightarrow> ServerOut" where
  "server_out s = \<lparr>so_id = sv_id s, so_server_code = sv_server_code s, so_hostname = sv_hostname s,
     so_ip_address = sv_ip_address s, so_ssh_port = sv_ssh_port s, so_os_name = sv_os_name s,
     so_os_version = sv_os_version s, so_agent_version = sv_agent_version s,
     so_agent_status = sv_agent_status s, so_last_heartbeat_at = sv_last_heartbeat_at s,
     so_registered_at = sv_registered_at s, so_status = sv_status s, so_remark = sv_remark s\<rparr>"

record AgentTokenResponse =
  tr_token_id :: ident
  tr_token_name :: string
  tr_token_prefix :: string
  tr_token :: string

record ServerServiceOut =
  sso_id :: ident
  sso_service_name :: string
  sso_display_name :: "string option"
  sso_service_type :: string
  sso_is_whitelisted :: int
  sso_is_critical :: int
  sso_current_status :: "string option"
  sso_last_checked_at :: "datetime option"

definition service_out :: "OpsServerService \<Rightarrow> ServerServiceOut" where
  "service_out s = \<lparr>sso_id = ss_id s, sso_service_name = ss_service_name s,
     sso_display_name = ss_display_name s, sso_service_type = ss_service_type s,
     sso_is_whitelisted = ss_is_whitelisted s, sso_is_critical = ss_is_critical s,
     sso_current_status = ss_current_status s, sso_last_checked_at = ss_last_checked_at s\<rparr>"

record RoleBrief =
  rb_id :: ident
  rb_role_code :: string
  rb_role_name :: string

definition role_brief :: "SysRole \<Rightarrow> RoleBrief" where
  "role_brief r = \<lparr>rb_id = rl_id r, rb_role_code = rl_role_code r, rb_role_name = rl_role_name r\<rparr>"

record UserOut =
  uo_id :: ident
  uo_username :: string
  uo_nickname :: "string option"
  uo_email :: "string option"
  uo_phone :: "string option"
  uo_status :: int
  uo_last_login_at :: "datetime option"
  uo_roles :: "RoleBrief list"

definition user_out :: "db \<Rightarrow> SysUser \<Rightarrow> UserOut" where
  "user_out d u = \<lparr>uo_id = us_id u, uo_username = us_username u, uo_nickname = us_nickname u,
     uo_email = us_email u, uo_phone = us_phone u, uo_status = us_status u,
     uo_last_login_at = us_last_login_at u, uo_roles = map role_brief (get_roles_by_user d (us_id u))\<rparr>"

text \<open>\<open>_metric_dict\<close> keeps every column of the row, the dashboard's \<open>_metric_summary\<close> six of them.\<close>

record metric_brief =
  mb_collected_at :: datetime
  mb_cpu_usage :: "rat option"
  mb_memory_usage :: "rat option"
  mb_disk_usage :: "rat option"
  mb_load_1m :: "rat option"
  mb_tcp_connections :: "int option"

definition metric_brief_of :: "MonitorServerMetric \<Rightarrow> metric_brief" where
  "metric_brief_of m = \<lparr>mb_collected_at = mt_collected_at m, mb_cpu_usage = mt_cpu_usage m,
     mb_memory_usage = mt_memory_usage m, mb_disk_usage = mt_disk_usage m, mb_load_1m = mt_load_1m m,
     mb_tcp_connections = mt_tcp_connections m\<rparr>"

text \<open>Disks and network interfaces are answered without their keys.\<close>

record disk_dict =
  di_device_name :: string
  di_mount_point :: "string option"
  di_filesystem :: "string option"
  di_total_bytes :: "int option"

record network_dict =
  ni_interface_name :: string
  ni_mac_address :: "string option"
  ni_ip_address :: "string option"

datatype api_data =
    NoData
  | TaskBody TaskOut
  | TaskPage int "TaskOut list"
  | TaskDetailBody TaskOut "ExecutionDetail list"
  | EventBody AlertEventOut
  | EventPage int "AlertEventOut list"
  | EventDetailBody AlertEventOut "AlertEventLogOut list"
  | RuleBody RuleOut
  | RuleList "RuleOut list"
  | LatestBody ServerOut "MonitorServerMetric option"
  | HistoryPage int "MonitorServerMetric list"
  | SummaryBody MetricSummary
  | AssetsBody "disk_dict list" "network_dict list"
  | OverviewBody "agent_state option \<Rightarrow> int" "rat option \<times> rat option \<times> rat option" int
      "(ServerOut \<times> metric_brief option) list"
  | ServerBody ServerOut
  | ServerPage int "ServerOut list"
  | TokenBody AgentTokenResponse
  | ServiceBody ServerServiceOut
  | ServiceList "ServerServiceOut list"
  | DiscoveryConfigBody bool "string list" int int
  | DiscoveryBody string int "discovery_host list"
  | UserBody UserOut
  | UserPage int "UserOut list"
  | RoleList "RoleBrief list"

section \<open>Tasks: \<open>tasks.py\<close>\<close>

definition get_task_page ::
  "int \<Rightarrow> int \<Rightarrow> string option \<Rightarrow> string option \<Rightarrow> api_context \<Rightarrow> db \<Rightarrow> (api_data \<times> db) result" where
  "get_task_page page page_size status task_type cx d =
     bindE (admin_ops cx d) (\<lambda>_.
     bindE (check_params (page_params 100 page page_size)) (\<lambda>_.
     bindE (list_tasks d page page_size status task_type) (\<lambda>(total, items).
       Inr (TaskPage total (map from_task items), d))))"

definition post_task :: "TaskCreate \<Rightarrow> string option \<Rightarrow> api_context \<Rightarrow> db \<Rightarrow> (api_data \<times> db) result" where
  "post_task data idempotency_key cx d =
     bindE (admin_ops cx d) (\<lambda>current_user.
     bindE (check_params (task_create_valid data \<and> max_length 128 idempotency_key)) (\<lambda>_.
     bindE (create_task (cx_now cx) data (us_id current_user) idempotency_key d) (\<lambda>(task_id, d').
     bindE (get_task_entity d' task_id) (\<lambda>task. Inr (TaskBody (from_task task), d')))))"

definition get_task :: "ident \<Rightarrow> api_context \<Rightarrow> db \<Rightarrow> (api_data \<times> db) result" where
  "get_task task_id cx d =
     bindE (admin_ops cx d) (\<lambda>_.
     bindE (get_task_detail d task_id) (\<lambda>(task, executions).
       Inr (TaskDetailBody (from_task task) executions, d)))"

definition post_task_confirm :: "ident \<Rightarrow> api_context \<Rightarrow> db \<Rightarrow> (api_data \<times> db) result" where
  "post_task_confirm task_id cx d =
     bindE (admin_ops cx d) (\<lambda>current_user.
     bindE (confirm_task (cx_now cx) task_id (us_id current_user) d) (\<lambda>d'.
     bindE (get_task_entity d' task_id) (\<lambda>task. Inr (TaskBody (from_task task), d'))))"

definition post_task_cancel :: "ident \<Rightarrow> api_context \<Rightarrow> db \<Rightarrow> (api_data \<times> db) result" where
  "post_task_cancel task_id cx d =
     bindE (admin_ops cx d) (\<lambda>_.
     bindE (cancel_task (cx_now cx) task_id d) (\<lambda>d'.
     bindE (get_task_entity d' task_id) (\<lambda>task. Inr (TaskBody (from_task task), d'))))"

section \<open>Alerts: \<open>alerts.py\<close>\<close>

definition get_alert_page ::
  "int \<Rightarrow> int \<Rightarrow> string option \<Rightarrow> string option \<Rightarrow> ident option \<Rightarrow> bool option \<Rightarrow> api_context \<Rightarrow> db \<Rightarrow>
   (api_data \<times> db) result" where
  "get_alert_page page page_size status severity server_id active cx d =
     bindE (logged_in cx d) (\<lambda>_.
     bindE (check_params (page_params 100 page page_size)) (\<lambda>_.
     bindE (list_event_dicts d page page_size status severity server_id active) (\<lambda>(total, items).
       Inr (EventPage total items, d))))"

definition get_alert_rules :: "api_context \<Rightarrow> db \<Rightarrow> (api_data \<times> db) result" where
  "get_alert_rules cx d = bindE (logged_in cx d) (\<lambda>_. Inr (RuleList (map rule_out (list_rules d)), d))"

definition get_alert :: "ident \<Rightarrow> api_context \<Rightarrow> db \<Rightarrow> (api_data \<times> db) result" where
  "get_alert event_id cx d =
     bindE (logged_in cx d) (\<lambda>_.
     bindE (get_event d event_id) (\<lambda>(event, logs). Inr (EventDetailBody event logs, d)))"

definition post_alert_ack :: "ident \<Rightarrow> api_context \<Rightarrow> db \<Rightarrow> (api_data \<times> db) result" where
  "post_alert_ack event_id cx d =
     bindE (admin_ops cx d) (\<lambda>current_user.
     bindE (acknowledge (cx_now cx) event_id (Some (us_id current_user)) d) (\<lambda>d'.
     bindE (get_event_or_404 d' event_id) (\<lambda>event. Inr (EventBody (event_dict d' event), d'))))"

definition post_alert_resolve :: "ident \<Rightarrow> api_context \<Rightarrow> db \<Rightarrow> (api_data \<times> db) result" where
  "post_alert_resolve event_id cx d =
     bindE (admin_ops cx d) (\<lambda>current_user.
     bindE (resolve (cx_now cx) event_id (Some (us_id current_user)) d) (\<lambda>d'.
     bindE (get_event_or_404 d' event_id) (\<lambda>event. Inr (EventBody (event_dict d' event), d'))))"

text \<open>The constraints of the two request models; a rule may be updated to any description.\<close>

definition rule_create_valid :: "RuleCreate \<Rightarrow> bool" where
  "rule_create_valid c \<longleftrightarrow>
     1 \<le> code_points (rc_rule_name c) \<and> code_points (rc_rule_name c) \<le> 128 \<and> 0 \<le> rc_duration_seconds c \<and>
     0 \<le> rc_enabled c \<and> rc_enabled c \<le> 1 \<and> max_length 500 (rc_description c)"

definition rule_update_valid :: "RuleUpdate \<Rightarrow> bool" where
  "rule_update_valid c \<longleftrightarrow>
     (case ru_rule_name c of Some (Some n) \<Rightarrow> 1 \<le> code_points n \<and> code_points n \<le> 128 | _ \<Rightarrow> True) \<and>
     (case ru_duration_seconds c of Some (Some n) \<Rightarrow> 0 \<le> n | _ \<Rightarrow> True) \<and>
     (case ru_enabled c of Some (Some n) \<Rightarrow> 0 \<le> n \<and> n \<le> 1 | _ \<Rightarrow> True)"

definition post_alert_rule :: "RuleCreate \<Rightarrow> api_context \<Rightarrow> db \<Rightarrow> (api_data \<times> db) result" where
  "post_alert_rule data cx d =
     bindE (system_admin cx d) (\<lambda>current_user.
     bindE (check_params (rule_create_valid data)) (\<lambda>_.
     bindE (create_rule data (Some (us_id current_user)) d) (\<lambda>d'.
     bindE (get_rule d' (next_id (alert_rule d))) (\<lambda>rule. Inr (RuleBody (rule_out rule), d')))))"

definition put_alert_rule :: "ident \<Rightarrow> RuleUpdate \<Rightarrow> api_context \<Rightarrow> db \<Rightarrow> (api_data \<times> db) result" where
  "put_alert_rule rule_id data cx d =
     bindE (system_admin cx d) (\<lambda>_.
     bindE (check_params (rule_update_valid data)) (\<lambda>_.
     bindE (update_rule rule_id data d) (\<lambda>d'.
     bindE (get_rule d' rule_id) (\<lambda>rule. Inr (RuleBody (rule_out rule), d')))))"

definition remove_alert_rule :: "ident \<Rightarrow> api_context \<Rightarrow> db \<Rightarrow> (api_data \<times> db) result" where
  "remove_alert_rule rule_id cx d =
     bindE (system_admin cx d) (\<lambda>_. bindE (delete_rule rule_id d) (\<lambda>d'. Inr (NoData, d')))"

section \<open>Monitoring: \<open>monitor.py\<close> and \<open>dashboard.py\<close>\<close>

definition get_metrics_latest :: "ident \<Rightarrow> api_context \<Rightarrow> db \<Rightarrow> (api_data \<times> db) result" where
  "get_metrics_latest server_id cx d =
     bindE (logged_in cx d) (\<lambda>_.
     bindE (monitor_latest d server_id) (\<lambda>(server, metric). Inr (LatestBody (server_out server) metric, d)))"

definition get_metrics_history ::
  "ident \<Rightarrow> datetime \<Rightarrow> datetime \<Rightarrow> int \<Rightarrow> int \<Rightarrow> api_context \<Rightarrow> db \<Rightarrow> (api_data \<times> db) result" where
  "get_metrics_history server_id start end page page_size cx d =
     bindE (logged_in cx d) (\<lambda>_.
     bindE (check_params (page_params 2000 page page_size)) (\<lambda>_.
     bindE (monitor_history d server_id start end page page_size) (\<lambda>(total, items).
       Inr (HistoryPage total items, d))))"

definition get_metrics_summary :: "ident \<Rightarrow> string \<Rightarrow> api_context \<Rightarrow> db \<Rightarrow> (api_data \<times> db) result" where
  "get_metrics_summary server_id time_range cx d =
     bindE (logged_in cx d) (\<lambda>_.
     bindE (check_params (time_range \<in> {''1h'', ''6h'', ''24h'', ''7d''})) (\<lambda>_.
     bindE (monitor_summary (cx_now cx) d server_id time_range) (\<lambda>summary. Inr (SummaryBody summary, d))))"

definition get_server_assets :: "ident \<Rightarrow> api_context \<Rightarrow> db \<Rightarrow> (api_data \<times> db) result" where
  "get_server_assets server_id cx d =
     bindE (logged_in cx d) (\<lambda>_.
     bindE (monitor_assets d server_id) (\<lambda>(ks, ns).
       Inr (AssetsBody
         (map (\<lambda>k. \<lparr>di_device_name = dk_device_name k, di_mount_point = dk_mount_point k,
            di_filesystem = dk_filesystem k, di_total_bytes = dk_total_bytes k\<rparr>) ks)
         (map (\<lambda>n. \<lparr>ni_interface_name = nw_interface_name n, ni_mac_address = nw_mac_address n,
            ni_ip_address = nw_ip_address n\<rparr>) ns), d)))"

definition get_dashboard :: "api_context \<Rightarrow> db \<Rightarrow> (api_data \<times> db) result" where
  "get_dashboard cx d =
     bindE (logged_in cx d) (\<lambda>_.
       let result = monitor_overview d
       in Inr (OverviewBody (ov_server_stats result) (ov_avg_usage result) (ov_active_alerts result)
            (map (\<lambda>(s, m). (server_out s, map_option metric_brief_of m)) (ov_servers result)), d))"

section \<open>Servers and discovery: \<open>servers.py\<close>, \<open>discovery.py\<close>\<close>

definition post_server :: "ServerCreate \<Rightarrow> api_context \<Rightarrow> db \<Rightarrow> (api_data \<times> db) result" where
  "post_server data cx d =
     bindE (system_admin cx d) (\<lambda>_.
     bindE (logged_in cx d) (\<lambda>current_user.
     bindE (check_params (server_create_valid data)) (\<lambda>_.
     bindE (create_server data (Some (us_id current_user)) d) (\<lambda>(server_id, d').
     bindE (get_server d' server_id) (\<lambda>server. Inr (ServerBody (server_out server), d'))))))"

definition get_server_page :: "int \<Rightarrow> int \<Rightarrow> string option \<Rightarrow> api_context \<Rightarrow> db \<Rightarrow> (api_data \<times> db) result" where
  "get_server_page page page_size agent_status cx d =
     bindE (system_admin cx d) (\<lambda>_.
     bindE (check_params (page_params 100 page page_size)) (\<lambda>_.
     bindE (list_servers d page page_size agent_status) (\<lambda>(total, items).
       Inr (ServerPage total (map server_out items), d))))"

definition get_server_by_id :: "ident \<Rightarrow> api_context \<Rightarrow> db \<Rightarrow> (api_data \<times> db) result" where
  "get_server_by_id server_id cx d =
     bindE (system_admin cx d) (\<lambda>_.
     bindE (get_server d server_id) (\<lambda>server. Inr (ServerBody (server_out server), d)))"

definition post_agent_token :: "ident \<Rightarrow> string option \<Rightarrow> api_context \<Rightarrow> db \<Rightarrow> (api_data \<times> db) result" where
  "post_agent_token server_id token_name cx d =
     bindE (system_admin cx d) (\<lambda>_.
     bindE (check_params (max_length 64 token_name)) (\<lambda>_.
     bindE (generate_agent_token (cx_token_hash cx) (cx_plaintext cx) server_id token_name d)
       (\<lambda>((token_id, plaintext), d').
       case repo_get OpsAgentToken_model (ops_agent_token d') token_id of
         None \<Rightarrow> Inl IntegrityError
       | Some token \<Rightarrow> Inr (TokenBody \<lparr>tr_token_id = token_id, tr_token_name = at_token_name token,
           tr_token_prefix = at_token_prefix token, tr_token = plaintext\<rparr>, d'))))"

definition get_server_services :: "ident \<Rightarrow> api_context \<Rightarrow> db \<Rightarrow> (api_data \<times> db) result" where
  "get_server_services server_id cx d =
     bindE (logged_in cx d) (\<lambda>_.
     bindE (list_services d server_id) (\<lambda>services. Inr (ServiceList (map service_out services), d)))"

definition put_service_whitelist :: "ident \<Rightarrow> ident \<Rightarrow> int \<Rightarrow> api_context \<Rightarrow> db \<Rightarrow> (api_data \<times> db) result" where
  "put_service_whitelist server_id service_id is_whitelisted cx d =
     bindE (system_admin cx d) (\<lambda>_.
     bindE (check_params (0 \<le> is_whitelisted \<and> is_whitelisted \<le> 1)) (\<lambda>_.
     bindE (update_service_whitelist server_id service_id is_whitelisted d) (\<lambda>d'.
       case repo_get OpsServerService_model (ops_server_service d') service_id of
         None \<Rightarrow> Inl IntegrityError
       | Some service \<Rightarrow> Inr (ServiceBody (service_out service), d'))))"

definition get_discovery_config :: "api_context \<Rightarrow> db \<Rightarrow> (api_data \<times> db) result" where
  "get_discovery_config cx d =
     bindE (system_admin cx d) (\<lambda>_.
       let cfg = cx_discovery cx
       in Inr (DiscoveryConfigBody (DISCOVERY_ENABLED cfg) (allowed_cidrs cfg) (DISCOVERY_MAX_HOSTS cfg)
            (DISCOVERY_SSH_PORT cfg), d))"

definition post_discovery_scan :: "DiscoveryScanRequest \<Rightarrow> api_context \<Rightarrow> db \<Rightarrow> (api_data \<times> db) result" where
  "post_discovery_scan data cx d =
     bindE (system_admin cx d) (\<lambda>_.
     bindE (check_params (scan_request_valid data)) (\<lambda>_.
     bindE (scan (cx_ip_network cx) (cx_connect cx) (cx_discovery cx) (ds_cidr data) (ds_port data)) (\<lambda>items.
       Inr (DiscoveryBody (ds_cidr data) (int (length items)) items, d))))"

section \<open>Users, roles and the session: \<open>users.py\<close>, \<open>roles.py\<close>, \<open>auth.py\<close>\<close>

text \<open>The operations behind these endpoints, with their guard, are those of \<open>Users\<close>.\<close>

definition api_user_page ::
  "int \<Rightarrow> int \<Rightarrow> string option \<Rightarrow> string option \<Rightarrow> api_context \<Rightarrow> db \<Rightarrow> (api_data \<times> db) result" where
  "api_user_page page page_size username status cx d =
     with_bearer cx (\<lambda>token.
     bindE (get_user_page (cx_security cx) (cx_now cx) token page page_size username status d) (\<lambda>(total, items).
       Inr (UserPage total (map (user_out d) items), d)))"

definition api_post_user :: "UserCreate \<Rightarrow> api_context \<Rightarrow> db \<Rightarrow> (api_data \<times> db) result" where
  "api_post_user data cx d =
     with_bearer cx (\<lambda>token.
     bindE (post_user (cx_security cx) (cx_now cx) token (cx_salt cx) data d) (\<lambda>(user_id, d').
     bindE (get_user d' user_id) (\<lambda>user. Inr (UserBody (user_out d' user), d'))))"

definition api_get_user :: "ident \<Rightarrow> api_context \<Rightarrow> db \<Rightarrow> (api_data \<times> db) result" where
  "api_get_user user_id cx d =
     bindE (system_admin cx d) (\<lambda>_.
     bindE (get_user d user_id) (\<lambda>user. Inr (UserBody (user_out d user), d)))"

definition api_put_user :: "ident \<Rightarrow> UserUpdate \<Rightarrow> api_context \<Rightarrow> db \<Rightarrow> (api_data \<times> db) result" where
  "api_put_user user_id data cx d =
     with_bearer cx (\<lambda>token.
     bindE (put_user (cx_security cx) (cx_now cx) token (cx_salt cx) user_id data d) (\<lambda>d'.
     bindE (get_user d' user_id) (\<lambda>user. Inr (UserBody (user_out d' user), d'))))"

definition api_remove_user :: "ident \<Rightarrow> api_context \<Rightarrow> db \<Rightarrow> (api_data \<times> db) result" where
  "api_remove_user user_id cx d =
     with_bearer cx (\<lambda>token.
     bindE (remove_user (cx_security cx) (cx_now cx) token user_id d) (\<lambda>d'. Inr (NoData, d')))"

definition api_list_roles :: "api_context \<Rightarrow> db \<Rightarrow> (api_data \<times> db) result" where
  "api_list_roles cx d =
     with_bearer cx (\<lambda>token.
     bindE (list_roles (cx_security cx) (cx_now cx) token d) (\<lambda>rs.
       Inr (RoleList (map (\<lambda>(k, code, name). \<lparr>rb_id = k, rb_role_code = code, rb_role_name = name\<rparr>) rs), d)))"

definition api_me :: "api_context \<Rightarrow> db \<Rightarrow> (api_data \<times> db) result" where
  "api_me cx d = bindE (logged_in cx d) (\<lambda>user. Inr (UserBody (user_out d user), d))"

section \<open>The router\<close>

text \<open>The requests the routers of \<open>main.py\<close> send to these endpoints.\<close>

datatype api_call =
    ListTasks int int "string option" "string option"
  | PostTask TaskCreate "string option"
  | GetTask ident
  | PostTaskConfirm ident
  | PostTaskCancel ident
  | ListAlerts int int "string option" "string option" "ident option" "bool option"
  | GetAlert ident
  | AckAlert ident
  | ResolveAlert ident
  | ListRules
  | PostRule RuleCreate
  | PutRule ident RuleUpdate
  | RemoveRule ident
  | MetricsLatest ident
  | MetricsHistory ident datetime datetime int int
  | MetricsSummary ident string
  | ServerAssets ident
  | Overview
  | ListServers int int "string option"
  | PostServer ServerCreate
  | GetServer ident
  | PostAgentToken ident "string option"
  | ListServices ident
  | PutWhitelist ident ident int
  | DiscoveryConfig
  | DiscoveryScan DiscoveryScanRequest
  | ListUsers int int "string option" "string option"
  | PostUser UserCreate
  | GetUser ident
  | PutUser ident UserUpdate
  | RemoveUser ident
  | ListRoles
  | Me

fun api_endpoint :: "api_call \<Rightarrow> api_context \<Rightarrow> db \<Rightarrow> (api_data \<times> db) result" where
  "api_endpoint (ListTasks p n st ty) = get_task_page p n st ty"
| "api_endpoint (PostTask data key) = post_task data key"
| "api_endpoint (GetTask k) = get_task k"
| "api_endpoint (PostTaskConfirm k) = post_task_confirm k"
| "api_endpoint (PostTaskCancel k) = post_task_cancel k"
| "api_endpoint (ListAlerts p n st sev sid active) = get_alert_page p n st sev sid active"
| "api_endpoint (GetAlert k) = get_alert k"
| "api_endpoint (AckAlert k) = post_alert_ack k"
| "api_endpoint (ResolveAlert k) = post_alert_resolve k"
| "api_endpoint ListRules = get_alert_rules"
| "api_endpoint (PostRule data) = post_alert_rule data"
| "api_endpoint (PutRule k data) = put_alert_rule k data"
| "api_endpoint (RemoveRule k) = remove_alert_rule k"
| "api_endpoint (MetricsLatest k) = get_metrics_latest k"
| "api_endpoint (MetricsHistory k a b p n) = get_metrics_history k a b p n"
| "api_endpoint (MetricsSummary k r) = get_metrics_summary k r"
| "api_endpoint (ServerAssets k) = get_server_assets k"
| "api_endpoint Overview = get_dashboard"
| "api_endpoint (ListServers p n st) = get_server_page p n st"
| "api_endpoint (PostServer data) = post_server data"
| "api_endpoint (GetServer k) = get_server_by_id k"
| "api_endpoint (PostAgentToken k name) = post_agent_token k name"
| "api_endpoint (ListServices k) = get_server_services k"
| "api_endpoint (PutWhitelist k j v) = put_service_whitelist k j v"
| "api_endpoint DiscoveryConfig = get_discovery_config"
| "api_endpoint (DiscoveryScan data) = post_discovery_scan data"
| "api_endpoint (ListUsers p n name st) = api_user_page p n name st"
| "api_endpoint (PostUser data) = api_post_user data"
| "api_endpoint (GetUser k) = api_get_user k"
| "api_endpoint (PutUser k data) = api_put_user k data"
| "api_endpoint (RemoveUser k) = api_remove_user k"
| "api_endpoint ListRoles = api_list_roles"
| "api_endpoint Me = api_me"

text \<open>
  A request as a step of the database: the session of a request that raises is rolled back. The
  answer is the HTTP status and the business code; 201 is the status of the four creating endpoints.
\<close>

fun created_status :: "api_call \<Rightarrow> int" where
  "created_status (PostTask _ _) = 201"
| "created_status (PostRule _) = 201"
| "created_status (PostServer _) = 201"
| "created_status (PostUser _) = 201"
| "created_status _ = 200"

definition api_request :: "api_call \<Rightarrow> api_context \<Rightarrow> db \<Rightarrow> (int \<times> ErrorCode \<times> api_data) \<times> db" where
  "api_request call cx d = (case api_endpoint call cx d of
     Inl e \<Rightarrow> ((fst (error_response e), snd (error_response e), NoData), d)
   | Inr (data, d') \<Rightarrow> ((created_status call, OK, data), d'))"

section \<open>The gauges: \<open>core/metrics.py\<close>, \<open>api/v1/metrics.py\<close>\<close>

record gauges =
  ops_agent_status :: "agent_state \<Rightarrow> int"
  ops_server_total :: int
  ops_alert_active :: "string \<Rightarrow> int"
  ops_task_status :: "task_status \<Rightarrow> int"

text \<open>Only the two severities have a series; the label of another one is never set.\<close>

definition ALERT_SEVERITIES :: "string list" where
  "ALERT_SEVERITIES = [''WARNING'', ''CRITICAL'']"

definition refresh_gauges :: "db \<Rightarrow> gauges" where
  "refresh_gauges d = \<lparr>ops_agent_status = (\<lambda>st. get_status_counts d (Some st)),
     ops_server_total = get_status_counts d None,
     ops_alert_active = (\<lambda>sev. if sev \<in> set ALERT_SEVERITIES then count_active_by_severity d sev else 0),
     ops_task_status = count_by_status d\<rparr>"

record metrics_settings =
  METRICS_ENABLED :: bool
  METRICS_TOKEN :: string

text \<open>\<open>authorization\<close> is the whole header.\<close>

definition get_metrics :: "metrics_settings \<Rightarrow> string option \<Rightarrow> db \<Rightarrow> gauges result" where
  "get_metrics cfg authorization d =
     (if \<not> METRICS_ENABLED cfg then Inl (HTTPException 404)
      else if METRICS_TOKEN cfg \<noteq> [] \<and> authorization \<noteq> Some (''Bearer '' @ METRICS_TOKEN cfg)
      then Inl (HTTPException 401)
      else Inr (refresh_gauges d))"

section \<open>\<open>health.py\<close>\<close>

text \<open>
  Whether \<open>SELECT 1\<close> ran and what \<open>ping()\<close> returned, where \<open>None\<close> is an exception; the answer is the
  HTTP status with the two flags. The business code is 0 in both cases.
\<close>

definition health :: "bool \<Rightarrow> bool option \<Rightarrow> int \<times> bool \<times> bool" where
  "health select_one ping =
     (let redis_ok = (case ping of None \<Rightarrow> False | Some b \<Rightarrow> b)
      in (if select_one \<and> redis_ok then 200 else 503, select_one, redis_ok))"

end
