(* ===== verification/Middleware.thy ===== *)
theory Middleware
  imports Api
begin

text \<open>
  The two layers around every endpoint: \<open>backend/app/middleware/request_context.py\<close>, which gives the
  request its identifier and guesses its user, and inside it \<open>operation_log.py\<close>, which writes the audit
  log in a transaction of its own. The application inside is a function of the database; its outcome
  is a response or an exception that no handler answers. The layers are composed as \<open>main.py\<close> adds them.
\<close>

section \<open>Requests\<close>

text \<open>\<open>cr_query\<close> is \<open>dict(request.query_params)\<close>.\<close>

record client_request =
  cr_method :: string
  cr_path :: string
  cr_query :: "(string \<times> string) list"
  cr_request_id :: "string option"
  cr_authorization :: "string option"
  cr_forwarded :: "string option"
  cr_peer :: "string option"

datatype app_outcome = Response int | Raised string

type_synonym application = "db \<Rightarrow> app_outcome \<times> db"

section \<open>\<open>request_context.py\<close>\<close>

definition request_id_of :: "string \<Rightarrow> client_request \<Rightarrow> string" where
  "request_id_of uuid q = or_text (cr_request_id q) uuid"

definition context_user :: "security \<Rightarrow> datetime \<Rightarrow> client_request \<Rightarrow> ident option" where
  "context_user sec now q =
     (case cr_authorization q of
        None \<Rightarrow> None
      | Some authorization \<Rightarrow>
          if has_prefix ''Bearer '' authorization
          then (case decode_access_token sec now (drop (length ''Bearer '') authorization) of
                  Inl _ \<Rightarrow> None | Inr user_id \<Rightarrow> Some user_id)
          else None)"

text \<open>
  The application gets the identifier and the user; a response carries the identifier as
  \<open>X-Request-ID\<close>, an exception has no response to carry it.
\<close>

definition request_context ::
  "security \<Rightarrow> datetime \<Rightarrow> string \<Rightarrow> client_request \<Rightarrow> (string \<Rightarrow> ident option \<Rightarrow> application) \<Rightarrow> db \<Rightarrow>
   (app_outcome \<times> string option) \<times> db" where
  "request_context sec now uuid q call_next d =
     (let request_id = request_id_of uuid q
      in case call_next request_id (context_user sec now q) d of
           (Response st, d') \<Rightarrow> ((Response st, Some request_id), d')
         | (Raised m, d') \<Rightarrow> ((Raised m, None), d'))"

section \<open>\<open>operation_log.py\<close>\<close>

definition EXCLUDE_PATHS :: "string list" where
  "EXCLUDE_PATHS = [''/api/v1/health'', ''/api/v1/auth/login'', ''/docs'', ''/redoc'', ''/openapi.json'']"

definition not_audited :: "bool \<Rightarrow> string \<Rightarrow> bool" where
  "not_audited enabled path \<longleftrightarrow>
     \<not> enabled \<or> \<not> has_prefix ''/api/v1'' path \<or> has_prefix ''/api/v1/agent/'' path \<or> path \<in> set EXCLUDE_PATHS"

text \<open>\<open>path.strip("/").split("/")\<close>\<close>

definition path_parts :: "string \<Rightarrow> string list" where
  "path_parts path = split_on (CHR ''/'')
     (rev (dropWhile (\<lambda>c. c = CHR ''/'') (rev (dropWhile (\<lambda>c. c = CHR ''/'') path))))"

definition guess_module :: "string \<Rightarrow> string" where
  "guess_module path = (let parts = path_parts path in if length parts \<ge> 3 then parts ! 2 else path)"

definition guess_resource :: "string \<Rightarrow> string" where
  "guess_resource path =
     (let parts = path_parts path
      in if length parts \<ge> 4 then parts ! 3 else if length parts \<ge> 3 then parts ! 2 else path)"

definition log_row ::
  "client_request \<Rightarrow> string \<Rightarrow> ident option \<Rightarrow> int \<Rightarrow> int \<Rightarrow> string option \<Rightarrow> db \<Rightarrow> ident \<Rightarrow> SysOperationLog" where
  "log_row q request_id user_id http_status took error_message d k = \<lparr>
     ol_id = k, ol_user_id = user_id,
     ol_username = (case user_id of None \<Rightarrow> None
       | Some uid \<Rightarrow> map_option us_username (List.find (\<lambda>u. us_id u = uid) (users d))),
     ol_module = guess_module (cr_path q),
     ol_operation = cr_method q @ '' '' @ guess_resource (cr_path q),
     ol_http_method = cr_method q, ol_request_path = cr_path q,
     ol_request_ip = get_client_ip (cr_forwarded q) (cr_peer q), ol_request_id = Some request_id,
     ol_request_params = (if cr_query q = [] then None else Some (cr_query q)),
     ol_result_status = (if http_status \<ge> 400 \<or> truthy error_message then LOGIN_FAILED else LOGIN_SUCCESS),
     ol_error_message = error_message, ol_duration_ms = took\<rparr>"

text \<open>
  What the table accepts: the widths of its columns (\<open>models/audit.py\<close>), which the strict mode of the
  database enforces, and the foreign key of the user, whose row may be a deleted one.
\<close>

definition log_row_accepted :: "db \<Rightarrow> SysOperationLog \<Rightarrow> bool" where
  "log_row_accepted d row \<longleftrightarrow>
     (case ol_user_id row of None \<Rightarrow> True | Some uid \<Rightarrow> uid \<in> us_id ` set (users d)) \<and>
     code_points (ol_module row) \<le> 64 \<and> code_points (ol_operation row) \<le> 64 \<and>
     code_points (ol_http_method row) \<le> 16 \<and> code_points (ol_request_path row) \<le> 255 \<and>
     max_length 64 (ol_request_ip row) \<and> max_length 64 (ol_request_id row)"

text \<open>\<open>_write_log\<close>: \<open>available\<close> is a database that can be reached; any failure is swallowed.\<close>

definition write_log ::
  "bool \<Rightarrow> client_request \<Rightarrow> string \<Rightarrow> ident option \<Rightarrow> int \<Rightarrow> int \<Rightarrow> string option \<Rightarrow> db \<Rightarrow> db" where
  "write_log available q request_id user_id http_status took error_message d =
     (let row = log_row q request_id user_id http_status took error_message d
      in if available \<and> log_row_accepted d (row (next_id (sys_operation_log d)))
         then d\<lparr>sys_operation_log := repo_create row (sys_operation_log d)\<rparr> else d)"

record audit_settings =
  OPERATION_LOG_ENABLED :: bool
  au_available :: bool
  au_duration_ms :: int

definition operation_log ::
  "audit_settings \<Rightarrow> client_request \<Rightarrow> application \<Rightarrow> string \<Rightarrow> ident option \<Rightarrow> application" where
  "operation_log au q call_next request_id user_id d =
     (if not_audited (OPERATION_LOG_ENABLED au) (cr_path q) then call_next d
      else case call_next d of
        (Response st, d') \<Rightarrow>
          (Response st, write_log (au_available au) q request_id user_id st (au_duration_ms au) None d')
      | (Raised m, d') \<Rightarrow>
          (Raised m, write_log (au_available au) q request_id user_id 500 (au_duration_ms au) (Some m) d'))"

section \<open>The platform as its users see it\<close>

definition number_segment :: "ident \<Rightarrow> string" where
  "number_segment k = CHR ''/'' # py_str k"

text \<open>Method and path of a request, from the decorators of the endpoints and the prefixes of the routers.\<close>

fun route :: "api_call \<Rightarrow> string \<times> string" where
  "route (ListTasks _ _ _ _) = (''GET'', ''/api/v1/tasks'')"
| "route (PostTask _ _) = (''POST'', ''/api/v1/tasks'')"
| "route (GetTask k) = (''GET'', ''/api/v1/tasks'' @ number_segment k)"
| "route (PostTaskConfirm k) = (''POST'', ''/api/v1/tasks'' @ number_segment k @ ''/confirm'')"
| "route (PostTaskCancel k) = (''POST'', ''/api/v1/tasks'' @ number_segment k @ ''/cancel'')"
| "route (ListAlerts _ _ _ _ _ _) = (''GET'', ''/api/v1/alerts'')"
| "route (GetAlert k) = (''GET'', ''/api/v1/alerts'' @ number_segment k)"
| "route (AckAlert k) = (''POST'', ''/api/v1/alerts'' @ number_segment k @ ''/ack'')"
| "route (ResolveAlert k) = (''POST'', ''/api/v1/alerts'' @ number_segment k @ ''/resolve'')"
| "route ListRules = (''GET'', ''/api/v1/alerts/rules'')"
| "route (PostRule _) = (''POST'', ''/api/v1/alerts/rules'')"
| "route (PutRule k _) = (''PUT'', ''/api/v1/alerts/rules'' @ number_segment k)"
| "route (RemoveRule k) = (''DELETE'', ''/api/v1/alerts/rules'' @ number_segment k)"
| "route (MetricsLatest k) = (''GET'', ''/api/v1/servers'' @ number_segment k @ ''/metrics/latest'')"
| "route (MetricsHistory k _ _ _ _) = (''GET'', ''/api/v1/servers'' @ number_segment k @ ''/metrics/history'')"
| "route (MetricsSummary k _) = (''GET'', ''/api/v1/servers'' @ number_segment k @ ''/metrics/summary'')"
| "route (ServerAssets k) = (''GET'', ''/api/v1/servers'' @ number_segment k @ ''/assets'')"
| "route Overview = (''GET'', ''/api/v1/dashboard/overview'')"
| "route (ListServers _ _ _) = (''GET'', ''/api/v1/servers'')"
| "route (PostServer _) = (''POST'', ''/api/v1/servers'')"
| "route (GetServer k) = (''GET'', ''/api/v1/servers'' @ number_segment k)"
| "route (PostAgentToken k _) = (''POST'', ''/api/v1/servers'' @ number_segment k @ ''/agent-token'')"
| "route (ListServices k) = (''GET'', ''/api/v1/servers'' @ number_segment k @ ''/services'')"
| "route (PutWhitelist k j _) =
     (''PUT'', ''/api/v1/servers'' @ number_segment k @ ''/services'' @ number_segment j @ ''/whitelist'')"
| "route DiscoveryConfig = (''GET'', ''/api/v1/discovery/config'')"
| "route (DiscoveryScan _) = (''POST'', ''/api/v1/discovery/scan'')"
| "route (ListUsers _ _ _ _) = (''GET'', ''/api/v1/users'')"
| "route (PostUser _) = (''POST'', ''/api/v1/users'')"
| "route (GetUser k) = (''GET'', ''/api/v1/users'' @ number_segment k)"
| "route (PutUser k _) = (''PUT'', ''/api/v1/users'' @ number_segment k)"
| "route (RemoveUser k) = (''DELETE'', ''/api/v1/users'' @ number_segment k)"
| "route ListRoles = (''GET'', ''/api/v1/roles'')"
| "route Me = (''GET'', ''/api/v1/auth/me'')"

text \<open>
  An endpoint as an application. Its exceptions are answered inside, by the handlers, but for the two
  of Python itself: the handler of \<open>Exception\<close> sits outside of the middleware. \<open>text_of\<close> is \<open>str\<close> of
  an exception.
\<close>

definition escapes :: "py_error \<Rightarrow> bool" where
  "escapes e \<longleftrightarrow> e = KeyError \<or> e = ValueError"

definition api_application :: "(py_error \<Rightarrow> string) \<Rightarrow> api_call \<Rightarrow> api_context \<Rightarrow> application" where
  "api_application text_of call cx d =
     (case api_endpoint call cx d of
        Inl e \<Rightarrow> if escapes e then (Raised (text_of e), d) else (Response (fst (error_response e)), d)
      | Inr (_, d') \<Rightarrow> (Response (created_status call), d'))"

definition serve ::
  "(py_error \<Rightarrow> string) \<Rightarrow> audit_settings \<Rightarrow> string \<Rightarrow> client_request \<Rightarrow> api_call \<Rightarrow> api_context \<Rightarrow> db \<Rightarrow>
   (app_outcome \<times> string option) \<times> db" where
  "serve text_of au uuid q call cx =
     request_context (cx_security cx) (cx_now cx) uuid q (operation_log au q (api_application text_of call cx))"

end
