(* ===== verification/Reach.thy ===== *)
theory Reach
  imports Task_Invariant Alert_Engine Agent_Service Users Server_Service
begin

text \<open>
  The tables an operation can reach. The database is divided among the components that write it; what
  lies beyond a component's tables is the database with those tables emptied, and an operation of the
  component leaves that as it is. The composition of the components rests on these lemmas.
\<close>

section \<open>The division\<close>

definition beyond_tasks :: "db \<Rightarrow> db" where
  "beyond_tasks d = d\<lparr>ops_task := empty_table, ops_task_target := empty_table,
     ops_task_execution := empty_table, ops_task_log := empty_table\<rparr>"

definition beyond_events :: "db \<Rightarrow> db" where
  "beyond_events d = d\<lparr>alert_event := empty_table, alert_event_log := empty_table\<rparr>"

definition beyond_rules :: "db \<Rightarrow> db" where
  "beyond_rules d = d\<lparr>alert_rule := empty_table\<rparr>"

definition beyond_servers :: "db \<Rightarrow> db" where
  "beyond_servers d = d\<lparr>ops_server := empty_table, ops_server_disk := empty_table,
     ops_server_network := empty_table, ops_server_service := empty_table, ops_agent_token := empty_table,
     ops_agent_heartbeat := empty_table, monitor_server_metric := empty_table,
     monitor_server_metric_daily := empty_table\<rparr>"

definition beyond_accounts :: "db \<Rightarrow> db" where
  "beyond_accounts d = d\<lparr>sys_user := empty_table, sys_user_role := [], sys_login_log := empty_table\<rparr>"

lemma fold_beyond: "(\<And>x s. x \<in> set xs \<Longrightarrow> rest (f x s) = rest s) \<Longrightarrow> rest (fold f xs s) = rest s"
  by (induction xs arbitrary: s) simp_all

lemma foldE_beyond:
  assumes "\<And>x s s'. f x s = Inr s' \<Longrightarrow> rest s' = rest s" and "foldE f xs s = Inr s'"
  shows "rest s' = rest s"
  by (rule foldE_invariant [where P = "\<lambda>t. rest t = rest s", OF _ refl assms(2)]) (simp add: assms(1))

section \<open>Tasks\<close>

named_theorems tasks_reach

lemma beyond_tasks_writes [simp]:
  "beyond_tasks (set_task k f d) = beyond_tasks d" "beyond_tasks (set_target k g d) = beyond_tasks d"
  "beyond_tasks (set_execution k h d) = beyond_tasks d" "beyond_tasks (log_record k c l d) = beyond_tasks d"
  "beyond_tasks (d\<lparr>ops_task := t\<rparr>) = beyond_tasks d" "beyond_tasks (d\<lparr>ops_task_target := tt\<rparr>) = beyond_tasks d"
  "beyond_tasks (d\<lparr>ops_task_execution := te\<rparr>) = beyond_tasks d" "beyond_tasks (d\<lparr>ops_task_log := logs\<rparr>) = beyond_tasks d"
  by (simp_all add: beyond_tasks_def set_task_def set_target_def set_execution_def log_record_def)

lemma beyond_tasks_steps [simp]:
  "beyond_tasks (aggregate_task_status now k d) = beyond_tasks d" "beyond_tasks (finish now st c r m ty k d) = beyond_tasks d"
  "beyond_tasks (mark_running now k d) = beyond_tasks d" "beyond_tasks (mark_retrying now kind m due k d) = beyond_tasks d"
  "beyond_tasks (mark_dead now kind m k d) = beyond_tasks d" "beyond_tasks (mark_timeout now n k d) = beyond_tasks d"
  "beyond_tasks (report_failure now req task e d) = beyond_tasks d"
  by (simp_all add: aggregate_task_status_def Let_def execution_writes report_failure_def)

lemma beyond_create_targets: "create_targets k sids d = (gs, d') \<Longrightarrow> beyond_tasks d' = beyond_tasks d"
  by (auto simp: create_targets_def Let_def)

lemma beyond_create_execution: "create_execution k g s a d = Inr d' \<Longrightarrow> beyond_tasks d' = beyond_tasks d"
  by (auto simp: create_execution_def insert_execution_def Let_def split: if_splits)

lemma beyond_create_executions: "create_executions k gs d = Inr d' \<Longrightarrow> beyond_tasks d' = beyond_tasks d"
  unfolding create_executions_def
  by (erule foldE_beyond [rotated]) (auto simp: insert_execution_def Let_def split: if_splits)

lemma beyond_insert_task: "insert_task mk d = Inr (k, d') \<Longrightarrow> beyond_tasks d' = beyond_tasks d"
  by (auto simp: insert_task_def Let_def split: if_splits)

lemma beyond_store_task:
  assumes "store_task mk sch sids d = Inr (k, d')"
  shows "beyond_tasks d' = beyond_tasks d"
proof -
  from assms obtain j d1 where d1: "insert_task mk d = Inr (j, d1)"
    by (auto simp: store_task_def bindE_eq_Inr)
  obtain gs d2 where d2: "create_targets j sids d1 = (gs, d2)" by fastforce
  have "beyond_tasks d' = beyond_tasks d2"
    using assms d1 d2 by (auto simp: store_task_def bindE_eq_Inr split: if_splits dest: beyond_create_executions)
  with beyond_insert_task [OF d1] beyond_create_targets [OF d2] show ?thesis by simp
qed

lemma create_task_reach [tasks_reach]:
  "create_task now data c key d = Inr (k, d') \<Longrightarrow> beyond_tasks d' = beyond_tasks d"
  by (auto simp: create_task_unfold bindE_eq_Inr split: option.splits if_splits dest!: beyond_store_task)

lemma confirm_task_reach [tasks_reach]: "confirm_task now k op d = Inr d' \<Longrightarrow> beyond_tasks d' = beyond_tasks d"
  by (auto simp: confirm_task_def bindE_eq_Inr split: if_splits)

lemma cancel_task_reach [tasks_reach]: "cancel_task now k d = Inr d' \<Longrightarrow> beyond_tasks d' = beyond_tasks d"
  by (auto simp: cancel_task_def bindE_eq_Inr fold_beyond split: if_splits)

lemma fetch_pending_reach [tasks_reach]: "beyond_tasks (snd (fetch_pending now sid d)) = beyond_tasks d"
proof -
  have "beyond_tasks (snd (claim_execution now e s)) = beyond_tasks (snd s)" for e s
    by (auto simp: claim_execution_def Let_def split: prod.split option.split)
  then show ?thesis
    using fold_beyond [of "fetch_pending_by_server d sid 10" "\<lambda>s. beyond_tasks (snd s)" "claim_execution now" "([], d)"]
    by (simp add: fetch_pending_def)
qed

lemma report_result_reach [tasks_reach]: "report_result now sid r d = Inr d' \<Longrightarrow> beyond_tasks d' = beyond_tasks d"
  by (auto simp: report_result_def bindE_eq_Inr split: option.splits if_splits)

lemma scan_timeouts_reach [tasks_reach]: "beyond_tasks (snd (scan_timeouts now d)) = beyond_tasks d"
proof -
  have "beyond_tasks (snd (scan_task now t s)) = beyond_tasks (snd s)" for t s
    by (auto simp: scan_task_def Let_def fold_beyond split: prod.split)
  then show ?thesis
    using fold_beyond [where rest = "\<lambda>s. beyond_tasks (snd s)" and f = "scan_task now" and s = "(0, d)"]
    by (simp add: scan_timeouts_def)
qed

lemma dispatch_retries_reach [tasks_reach]:
  assumes "dispatch_retries now n d = Inr (m, d')"
  shows "beyond_tasks d' = beyond_tasks d"
proof -
  have "beyond_tasks (snd s') = beyond_tasks (snd s)" if "dispatch_one now e s = Inr s'" for e s s'
    using that by (cases s) (auto simp: dispatch_one_def bindE_eq_Inr Let_def split: if_splits dest!: beyond_create_execution)
  with assms foldE_beyond [where rest = "\<lambda>s. beyond_tasks (snd s)" and f = "dispatch_one now"] show ?thesis
    by (fastforce simp: dispatch_retries_def)
qed

lemma fire_due_cron_reach [tasks_reach]:
  assumes "fire_due_cron cron now d = Inr (m, d')"
  shows "beyond_tasks d' = beyond_tasks d"
proof -
  have "beyond_tasks (snd s') = beyond_tasks (snd s)" if "fire_one cron now t s = Inr s'" for t s s'
    using that by (cases s) (auto simp: fire_one_def bindE_eq_Inr split: if_splits option.splits dest!: beyond_create_executions)
  with assms foldE_beyond [where rest = "\<lambda>s. beyond_tasks (snd s)" and f = "fire_one cron now"] show ?thesis
    by (fastforce simp: fire_due_cron_def)
qed

lemma cleanup_history_reach [tasks_reach]: "beyond_tasks (snd (cleanup_history now n d)) = beyond_tasks d"
proof -
  have "beyond_tasks (snd (delete_terminal_before c e)) = beyond_tasks e"
    "beyond_tasks (snd (delete_finished_tasks_before c e)) = beyond_tasks e" for c e
    by (simp_all add: delete_terminal_before_def delete_finished_tasks_before_def Let_def)
  then show ?thesis by (simp add: cleanup_history_def split_def Let_def)
qed

section \<open>Alerts\<close>

named_theorems events_reach

lemma beyond_events_writes [simp]:
  "beyond_events (set_event k f d) = beyond_events d" "beyond_events (event_log_record k old new v m op d) = beyond_events d"
  "beyond_events (d\<lparr>alert_event := e\<rparr>) = beyond_events d" "beyond_events (transition ev st val m d) = beyond_events d"
  by (simp_all add: beyond_events_def set_event_def event_log_record_def transition_def)

lemma acknowledge_reach [events_reach]: "acknowledge now k op d = Inr d' \<Longrightarrow> beyond_events d' = beyond_events d"
  by (auto simp: acknowledge_def bindE_eq_Inr split: if_splits)

lemma resolve_reach [events_reach]: "resolve now k op d = Inr d' \<Longrightarrow> beyond_events d' = beyond_events d"
  by (auto simp: resolve_def bindE_eq_Inr split: if_splits)

lemma evaluate_pair_reach:
  "evaluate_pair now latest rule server s = Inr s' \<Longrightarrow> beyond_events (snd s') = beyond_events (snd s)"
  by (cases s) (auto simp: evaluate_pair_def handle_violation_def handle_recovery_def insert_event_def bindE_eq_Inr Let_def
      split: option.splits if_splits)

lemma evaluate_all_reach [events_reach]:
  assumes "evaluate_all now d = Inr (n, d')"
  shows "beyond_events d' = beyond_events d"
proof (cases "get_enabled d = [] \<or> list_active d = []")
  case True
  with assms show ?thesis by (auto simp: evaluate_all_def)
next
  case False
  let ?latest = "get_latest_map d (map sv_id (list_active d))"
  have inner: "beyond_events (snd s') = beyond_events (snd s)"
    if "foldE (evaluate_pair now ?latest rule) (list_active d) s = Inr s'" for rule s s'
    using foldE_beyond [OF _ that, of "\<lambda>s. beyond_events (snd s)"] evaluate_pair_reach by blast
  have "foldE (\<lambda>rule. foldE (evaluate_pair now ?latest rule) (list_active d)) (get_enabled d) (0, d) = Inr (n, d')"
    using assms False by (simp add: evaluate_all_def Let_def)
  from foldE_beyond [OF _ this, of "\<lambda>s. beyond_events (snd s)"] inner show ?thesis by simp
qed

lemma rules_reach:
  "create_rule rc who d = Inr d' \<Longrightarrow> beyond_rules d' = beyond_rules d"
  "update_rule k ru d = Inr d' \<Longrightarrow> beyond_rules d' = beyond_rules d"
  "delete_rule k d = Inr d' \<Longrightarrow> beyond_rules d' = beyond_rules d"
  by (auto simp: create_rule_def update_rule_def delete_rule_def bindE_eq_Inr beyond_rules_def split: if_splits)

section \<open>Servers, agents and metrics\<close>

named_theorems servers_reach

lemma beyond_servers_writes [simp]:
  "beyond_servers (set_server k f d) = beyond_servers d" "beyond_servers (set_token k g d) = beyond_servers d"
  "beyond_servers (d\<lparr>ops_server := a\<rparr>) = beyond_servers d" "beyond_servers (d\<lparr>ops_server_disk := b\<rparr>) = beyond_servers d"
  "beyond_servers (d\<lparr>ops_server_network := c\<rparr>) = beyond_servers d"
  "beyond_servers (d\<lparr>ops_server_service := e\<rparr>) = beyond_servers d"
  "beyond_servers (d\<lparr>ops_agent_token := h\<rparr>) = beyond_servers d"
  "beyond_servers (heartbeat_record now sid v ip c2 d) = beyond_servers d"
  "beyond_servers (metric_record m d) = beyond_servers d" "beyond_servers (set_whitelist j w d) = beyond_servers d"
  "beyond_servers (update_last_used now tid d) = beyond_servers d" "beyond_servers (store_key now tid key d) = beyond_servers d"
  by (simp_all add: beyond_servers_def set_server_def set_token_def heartbeat_record_def metric_record_def
      set_whitelist_def set_service_def update_last_used_def store_key_def)

lemma beyond_flush_server: "flush_server d = Inr d' \<Longrightarrow> beyond_servers d' = beyond_servers d"
  by (auto simp: flush_server_def split: if_splits)

lemma create_server_reach [servers_reach]: "create_server sc who d = Inr (k, d') \<Longrightarrow> beyond_servers d' = beyond_servers d"
  by (auto simp: create_server_def insert_server_def Let_def split: if_splits)

lemma agent_token_reach [servers_reach]:
  "generate_agent_token h p k name d = Inr (r, d') \<Longrightarrow> beyond_servers d' = beyond_servers d"
  by (auto simp: generate_agent_token_def create_token_def bindE_eq_Inr Let_def split: if_splits)

lemma whitelist_reach [servers_reach]:
  "update_service_whitelist k j v d = Inr d' \<Longrightarrow> beyond_servers d' = beyond_servers d"
  by (auto simp: update_service_whitelist_def bindE_eq_Inr split: option.splits if_splits)

lemma register_reach [servers_reach]: "register cr now q ip d = Inr (r, d') \<Longrightarrow> beyond_servers d' = beyond_servers d"
  by (auto simp: register_def register_key_def register_server_def bindE_eq_Inr Let_def
      split: option.splits if_splits dest!: beyond_flush_server)

lemma rotate_reach [servers_reach]: "rotate_signing_key cr now t key d = Inr (r, d') \<Longrightarrow> beyond_servers d' = beyond_servers d"
  by (auto simp: rotate_signing_key_def split: if_splits)

lemma heartbeat_reach [servers_reach]: "heartbeat now s q ip d = Inr (r, d') \<Longrightarrow> beyond_servers d' = beyond_servers d"
  by (auto simp: heartbeat_def update_last_heartbeat_def bindE_eq_Inr dest!: beyond_flush_server)

lemma ingest_reach [servers_reach]: "ingest_metrics now s q d = Inr (r, d') \<Longrightarrow> beyond_servers d' = beyond_servers d"
  by (auto simp: ingest_metrics_def bindE_eq_Inr)

lemma sync_reach [servers_reach]:
  "sync_assets now s qa d = Inr (r, d') \<Longrightarrow> beyond_servers d' = beyond_servers d"
  "sync_services now s qs d = Inr (r, d') \<Longrightarrow> beyond_servers d' = beyond_servers d"
  by (auto simp: sync_assets_def sync_services_def bindE_eq_Inr Let_def fold_upsert_disk fold_upsert_network
      fold_upsert_status disk_delete_missing_def network_delete_missing_def)

lemma refresh_reach [servers_reach]: "beyond_servers (snd (refresh_agent_statuses now d)) = beyond_servers d"
  by (simp add: refresh_agent_statuses_def Let_def)

section \<open>Accounts\<close>

named_theorems accounts_reach

lemma beyond_accounts_writes [simp]:
  "beyond_accounts (set_user k f d) = beyond_accounts d" "beyond_accounts (set_roles k ids d) = beyond_accounts d"
  "beyond_accounts (d\<lparr>sys_user := u\<rparr>) = beyond_accounts d"
  "beyond_accounts (create_login_log a b c e f2 g h d) = beyond_accounts d"
  "beyond_accounts (update_last_login now k ip d) = beyond_accounts d"
  by (simp_all add: beyond_accounts_def set_user_def set_roles_def create_login_log_def update_last_login_def)

lemma user_reach [accounts_reach]:
  "create_user sec salt uc d = Inr (k, d') \<Longrightarrow> beyond_accounts d' = beyond_accounts d"
  "update_user sec salt k uu d = Inr d' \<Longrightarrow> beyond_accounts d' = beyond_accounts d"
  "delete_user now k d = Inr d' \<Longrightarrow> beyond_accounts d' = beyond_accounts d"
  by (auto simp: create_user_def insert_user_def update_user_def delete_user_def flush_user_def bindE_eq_Inr Let_def
      split: if_splits option.splits)

lemma login_reach [accounts_reach]: "beyond_accounts (snd (login sec now name password ip ua rid d)) = beyond_accounts d"
  by (auto simp: login_def Let_def split: option.split)

end
