(* ===== verification/Api_Properties.thy ===== *)
theory Api_Properties
  imports Api User_Properties Reach
begin

text \<open>
  Who may do what through the endpoints of the users: the permission tables of
  \<open>docs/modules/*.md\<close> as a specification, the guards of the endpoints against it, and the tables of
  the database that a request of each role can reach.
\<close>

section \<open>Guards\<close>

text \<open>The caller is an account that is neither disabled nor deleted, with one of the roles if any is required.\<close>

definition caller :: "api_context \<Rightarrow> db \<Rightarrow> SysUser \<Rightarrow> bool" where
  "caller cx d u \<longleftrightarrow> (\<exists>token. cx_bearer cx = Some token \<and>
     get_current_user (cx_security cx) (cx_now cx) token d = Inr u)"

definition has_role_of :: "string list \<Rightarrow> db \<Rightarrow> SysUser \<Rightarrow> bool" where
  "has_role_of codes d u \<longleftrightarrow> codes = [] \<or> (\<exists>code \<in> set codes. bound_to d (us_id u) code)"

lemma caller_unique: "caller cx d u \<Longrightarrow> caller cx d v \<Longrightarrow> u = v"
  by (auto simp: caller_def)

lemma logged_in_Inr: "logged_in cx d = Inr u \<longleftrightarrow> caller cx d u"
  by (simp add: logged_in_def with_bearer_def caller_def split: option.split)

lemma with_roles_Inr: "codes \<noteq> [] \<Longrightarrow> with_roles codes cx d = Inr u \<longleftrightarrow> caller cx d u \<and> has_role_of codes d u"
  by (auto simp: with_roles_def with_bearer_def caller_def has_role_of_def require_roles_Inr split: option.split)

section \<open>The documented permissions\<close>

definition ADMIN :: "string list" where
  "ADMIN = [''SYSTEM_ADMIN'']"

definition ADMIN_OPS :: "string list" where
  "ADMIN_OPS = [''SYSTEM_ADMIN'', ''OPS_ENGINEER'']"

text \<open>The tables of the documents; an empty list is an account of any role.\<close>

fun documented_roles :: "api_call \<Rightarrow> string list" where
  "documented_roles (ListTasks _ _ _ _) = ADMIN_OPS"
| "documented_roles (PostTask _ _) = ADMIN_OPS"
| "documented_roles (GetTask _) = ADMIN_OPS"
| "documented_roles (PostTaskConfirm _) = ADMIN_OPS"
| "documented_roles (PostTaskCancel _) = ADMIN_OPS"
| "documented_roles (ListAlerts _ _ _ _ _ _) = []"
| "documented_roles (GetAlert _) = []"
| "documented_roles (AckAlert _) = ADMIN_OPS"
| "documented_roles (ResolveAlert _) = ADMIN_OPS"
| "documented_roles ListRules = []"
| "documented_roles (PostRule _) = ADMIN"
| "documented_roles (PutRule _ _) = ADMIN"
| "documented_roles (RemoveRule _) = ADMIN"
| "documented_roles (MetricsLatest _) = []"
| "documented_roles (MetricsHistory _ _ _ _ _) = []"
| "documented_roles (MetricsSummary _ _) = []"
| "documented_roles (ServerAssets _) = []"
| "documented_roles Overview = []"
| "documented_roles (ListServers _ _ _) = ADMIN"
| "documented_roles (PostServer _) = ADMIN"
| "documented_roles (GetServer _) = ADMIN"
| "documented_roles (PostAgentToken _ _) = ADMIN"
| "documented_roles (ListServices _) = []"
| "documented_roles (PutWhitelist _ _ _) = ADMIN"
| "documented_roles DiscoveryConfig = ADMIN"
| "documented_roles (DiscoveryScan _) = ADMIN"
| "documented_roles (ListUsers _ _ _ _) = ADMIN"
| "documented_roles (PostUser _) = ADMIN"
| "documented_roles (GetUser _) = ADMIN"
| "documented_roles (PutUser _ _) = ADMIN"
| "documented_roles (RemoveUser _) = ADMIN"
| "documented_roles ListRoles = ADMIN"
| "documented_roles Me = []"

definition guard_of :: "string list \<Rightarrow> api_context \<Rightarrow> db \<Rightarrow> SysUser result" where
  "guard_of codes = (if codes = [] then logged_in else with_roles codes)"

lemma guard_of_simps: "guard_of [] = logged_in" "guard_of ADMIN = system_admin" "guard_of ADMIN_OPS = admin_ops"
  by (simp_all add: guard_of_def ADMIN_def ADMIN_OPS_def system_admin_def admin_ops_def)

lemma guard_of_Inr: "guard_of codes cx d = Inr u \<longleftrightarrow> caller cx d u \<and> has_role_of codes d u"
  by (simp add: guard_of_def logged_in_Inr with_roles_Inr has_role_of_def)

lemma guard_status:
  assumes "guard_of codes cx d = Inl e"
  shows "fst (error_response e) = (if \<exists>u. caller cx d u then 403 else 401)"
proof -
  have no: "fst (error_response x) = 401" if "get_current_user sec now token d = Inl x" for x sec now token
    using that by (auto simp: get_current_user_def bindE_eq_Inl decode_access_token_def unauthorized_def
        split: option.splits if_splits)
  show ?thesis
  proof (cases "logged_in cx d")
    case (Inl x)
    then have "x = e" using assms
      by (auto simp: guard_of_def with_roles_def logged_in_def with_bearer_def require_roles_def split: if_splits option.splits)
    moreover have "fst (error_response x) = 401" using Inl no
      by (auto simp: logged_in_def with_bearer_def split: option.splits)
    moreover have "\<not> caller cx d u" for u using Inl by (simp flip: logged_in_Inr)
    ultimately show ?thesis by auto
  next
    case (Inr u)
    then have "e = AppException FORBIDDEN 403" using assms
      by (auto simp: guard_of_def with_roles_def logged_in_def with_bearer_def require_roles_def split: if_splits option.splits)
    with Inr show ?thesis by (auto simp: logged_in_Inr)
  qed
qed

lemma admin_only_bearer:
  "with_bearer cx (\<lambda>token. bindE (bindE (admin_only (cx_security cx) (cx_now cx) token d) (f token)) g) =
   bindE (system_admin cx d) (\<lambda>u. with_bearer cx (\<lambda>token. bindE (f token u) g))"
  by (auto simp: with_bearer_def system_admin_def with_roles_def admin_only_def bindE_def split: option.split sum.split)

lemmas endpoint_defs = get_task_page_def post_task_def get_task_def post_task_confirm_def post_task_cancel_def
  get_alert_page_def get_alert_rules_def get_alert_def post_alert_ack_def post_alert_resolve_def
  post_alert_rule_def put_alert_rule_def remove_alert_rule_def get_metrics_latest_def get_metrics_history_def
  get_metrics_summary_def get_server_assets_def get_dashboard_def post_server_def get_server_page_def
  get_server_by_id_def post_agent_token_def get_server_services_def put_service_whitelist_def
  get_discovery_config_def post_discovery_scan_def api_get_user_def api_me_def

lemmas user_endpoint_defs = api_user_page_def api_post_user_def api_put_user_def api_remove_user_def
  api_list_roles_def get_user_page_def post_user_def put_user_def remove_user_def list_roles_def admin_only_bearer

text \<open>Every endpoint runs the documented guard before anything else.\<close>

lemma endpoint_guard:
  "\<exists>f. api_endpoint call cx d = bindE (guard_of (documented_roles call) cx d) f"
  by (cases call)
    (simp_all only: api_endpoint.simps documented_roles.simps guard_of_simps endpoint_defs user_endpoint_defs, blast+)

section \<open>The reach of a request\<close>

text \<open>
  The tables of the task engine and of the alert events are the only ones an operator may write;
  \<open>beyond_operations\<close> is the rest of the database.
\<close>

definition beyond_operations :: "db \<Rightarrow> db" where
  "beyond_operations d = d\<lparr>ops_task := empty_table, ops_task_target := empty_table,
     ops_task_execution := empty_table, ops_task_log := empty_table,
     alert_event := empty_table, alert_event_log := empty_table\<rparr>"

text \<open>What only agents, logins and the audit write.\<close>

definition records :: "db \<Rightarrow> db" where
  "records d = d\<lparr>ops_task := empty_table, ops_task_target := empty_table, ops_task_execution := empty_table,
     ops_task_log := empty_table, alert_event := empty_table, alert_event_log := empty_table,
     alert_rule := empty_table, ops_server := empty_table, ops_server_service := empty_table,
     ops_agent_token := empty_table, sys_user := empty_table, sys_user_role := []\<rparr>"

lemma records_beyond: "beyond_operations d' = beyond_operations d \<Longrightarrow> records d' = records d"
proof -
  have "records (beyond_operations e) = records e" for e by (simp add: records_def beyond_operations_def)
  then show "beyond_operations d' = beyond_operations d \<Longrightarrow> records d' = records d" by metis
qed

lemma beyond_operations_tasks: "beyond_tasks d' = beyond_tasks d \<Longrightarrow> beyond_operations d' = beyond_operations d"
proof -
  have "beyond_operations (beyond_tasks e) = beyond_operations e" for e by (simp add: beyond_operations_def beyond_tasks_def)
  then show "beyond_tasks d' = beyond_tasks d \<Longrightarrow> beyond_operations d' = beyond_operations d" by metis
qed

lemma beyond_operations_events: "beyond_events d' = beyond_events d \<Longrightarrow> beyond_operations d' = beyond_operations d"
proof -
  have "beyond_operations (beyond_events e) = beyond_operations e" for e
    by (simp add: beyond_operations_def beyond_events_def)
  then show "beyond_events d' = beyond_events d \<Longrightarrow> beyond_operations d' = beyond_operations d" by metis
qed

lemmas operations_reach = create_task_reach [THEN beyond_operations_tasks] confirm_task_reach [THEN beyond_operations_tasks]
  cancel_task_reach [THEN beyond_operations_tasks] acknowledge_reach [THEN beyond_operations_events]
  resolve_reach [THEN beyond_operations_events]

text \<open>An endpoint whose documented guard is not that of the administrator.\<close>

lemma reach_of_others:
  assumes "documented_roles call \<noteq> ADMIN" and "api_endpoint call cx d = Inr (data, d')"
  shows "if documented_roles call = [] then d' = d else beyond_operations d' = beyond_operations d"
  using assms
  by (cases call) (auto simp: ADMIN_def ADMIN_OPS_def endpoint_defs bindE_eq_Inr Let_def dest!: operations_reach)

section \<open>The reach of an administrator\<close>

lemma records_simps [simp]:
  "records (d\<lparr>alert_rule := a\<rparr>) = records d" "records (d\<lparr>ops_server := s\<rparr>) = records d"
  "records (d\<lparr>ops_agent_token := tk\<rparr>) = records d" "records (d\<lparr>sys_user := us\<rparr>) = records d"
  "records (set_user k f d) = records d" "records (set_roles k ids d) = records d"
  "records (set_whitelist j v d) = records d"
  by (simp_all add: records_def set_user_def set_roles_def set_whitelist_def set_service_def)

lemma records_rules:
  "create_rule rc who d = Inr d' \<Longrightarrow> records d' = records d" "update_rule k ru d = Inr d' \<Longrightarrow> records d' = records d"
  "delete_rule k d = Inr d' \<Longrightarrow> records d' = records d"
  by (auto simp: create_rule_def update_rule_def delete_rule_def bindE_eq_Inr split: if_splits)

lemma records_servers:
  "create_server data who d = Inr (k, d') \<Longrightarrow> records d' = records d"
  "generate_agent_token h p k name d = Inr (r, d') \<Longrightarrow> records d' = records d"
  "update_service_whitelist k j v d = Inr d' \<Longrightarrow> records d' = records d"
  by (auto simp: create_server_def insert_server_def generate_agent_token_def create_token_def
      update_service_whitelist_def bindE_eq_Inr Let_def split: if_splits option.splits)

lemma records_flush_user: "flush_user d = Inr d' \<Longrightarrow> records d' = records d"
  by (auto simp: flush_user_def split: if_splits)

lemma records_users:
  "create_user sec salt uc d = Inr (k, d') \<Longrightarrow> records d' = records d"
  "update_user sec salt k uu d = Inr d' \<Longrightarrow> records d' = records d"
  "delete_user now k d = Inr d' \<Longrightarrow> records d' = records d"
  by (auto simp: create_user_def insert_user_def update_user_def delete_user_def bindE_eq_Inr Let_def
      split: if_splits option.splits dest!: records_flush_user)

lemma reach_of_admin:
  assumes "api_endpoint call cx d = Inr (data, d')"
  shows "records d' = records d"
proof (cases "documented_roles call = ADMIN")
  case False
  from reach_of_others [OF this assms] show ?thesis by (auto split: if_splits dest: records_beyond)
next
  case True
  with assms show ?thesis
    by (cases call) (auto simp: ADMIN_def ADMIN_OPS_def endpoint_defs user_endpoint_defs bindE_eq_Inr Let_def
        with_bearer_def split: option.splits if_splits dest: records_rules records_servers records_users)
qed

section \<open>Errors of the services\<close>

text \<open>No service answers 401: that is the guards' status.\<close>

definition not_401 :: "'a result \<Rightarrow> bool" where
  "not_401 x \<longleftrightarrow> (\<forall>e. x = Inl e \<longrightarrow> fst (error_response e) \<noteq> 401)"

lemma not_401_Inr [simp]: "not_401 (Inr x)"
  by (simp add: not_401_def)

lemma not_401_Inl [simp]: "not_401 (Inl e) \<longleftrightarrow> fst (error_response e) \<noteq> 401"
  by (simp add: not_401_def)

lemma not_401_bind: "not_401 x \<Longrightarrow> (\<And>a. x = Inr a \<Longrightarrow> not_401 (f a)) \<Longrightarrow> not_401 (bindE x f)"
  by (cases x) simp_all

lemma not_401_foldE: "(\<And>x s. not_401 (f x s)) \<Longrightarrow> not_401 (foldE f xs s)"
  by (induction xs arbitrary: s) (auto intro: not_401_bind)

named_theorems quiet \<open>operations that do not answer 401\<close>

lemma quiet_lists: "not_401 (validate_server_list d ids)" "not_401 (whitelisted_on d name ss)"
  by (induction ids, auto simp: bindE_def split: option.split sum.splits)
    (induction ss, auto split: option.split)

lemma quiet_get [quiet]:
  "not_401 (get_task_entity d k)" "not_401 (get_rule d k)" "not_401 (get_event_or_404 d k)" "not_401 (get_server d k)"
  "not_401 (get_user d k)" "not_401 (monitored_server d k)" "not_401 (check_params b)" "not_401 (paginate p n xs)"
  by (auto simp: get_task_entity_def get_rule_def get_event_or_404_def get_server_def get_user_def
      monitored_server_def check_params_def paginate_def split: option.split)

lemma quiet_basic [quiet]:
  "not_401 (repo_list m t p n ord P)" "not_401 (flush_user d)" "not_401 (validate_roles d ids)"
  "not_401 (insert_execution mk d)" "not_401 (insert_task mt d)" "not_401 (normalize_action td)"
  "not_401 (validate_servers d ids)" "not_401 (insert_server ms d)" "not_401 (validate_service_whitelist d ss sn act)"
  "not_401 (create_token h pt k tn d)" "not_401 (scan_hosts ipn cfg cidr)" "not_401 (optional_int lo hi v)"
  "not_401 (repo_soft_delete m now k t)"
  by (auto simp: repo_list_def Let_def flush_user_def validate_roles_def insert_execution_def insert_task_def
      normalize_action_def validate_servers_def insert_server_def validate_service_whitelist_def create_token_def
      scan_hosts_def optional_int_def repo_soft_delete_def quiet_lists quiet intro!: not_401_bind split: option.split)

lemma quiet_create_executions [quiet]: "not_401 (create_executions k gs d)"
  unfolding create_executions_def by (rule not_401_foldE) (rule quiet)

lemma quiet_store_task [quiet]: "not_401 (store_task mk sch sids d)"
  by (auto simp: store_task_def intro!: not_401_bind quiet split: prod.split)

lemma quiet_operations [quiet]:
  "not_401 (create_task now data c key d)" "not_401 (confirm_task now k op d)" "not_401 (cancel_task now k d)"
  "not_401 (get_task_detail d k)" "not_401 (list_tasks d p n st ty)"
  "not_401 (acknowledge now k who d)" "not_401 (resolve now k who d)" "not_401 (get_event d k)"
  "not_401 (list_event_dicts d p n st sev sid active)"
  by (auto simp: create_task_unfold confirm_task_def cancel_task_def get_task_detail_def list_tasks_def
      acknowledge_def resolve_def get_event_def list_event_dicts_def list_events_def Let_def
      intro!: not_401_bind quiet split: option.split prod.split)

lemma quiet_management [quiet]:
  "not_401 (create_rule rc w d)" "not_401 (update_rule k ru d)" "not_401 (delete_rule k d)"
  "not_401 (create_server sc w d)" "not_401 (list_servers d p n st)" "not_401 (generate_agent_token h pt k tn d)"
  "not_401 (list_services d k)" "not_401 (update_service_whitelist k j v d)"
  "not_401 (scan ipn conn cfg cidr port)" "not_401 (create_user sec salt uc d)" "not_401 (list_users d p n name us)"
  "not_401 (update_user sec salt k uu d)" "not_401 (delete_user now k d)"
  by (auto simp: create_rule_def update_rule_def delete_rule_def create_server_def list_servers_def
      generate_agent_token_def list_services_def update_service_whitelist_def scan_def create_user_def
      insert_user_def list_users_def update_user_def delete_user_def Let_def
      intro!: not_401_bind quiet split: option.split prod.split)

lemma quiet_monitoring [quiet]:
  "not_401 (monitor_latest d k)" "not_401 (monitor_history d k a b p n)" "not_401 (monitor_summary now d k r)"
  "not_401 (monitor_assets d k)"
  by (auto simp: monitor_latest_def monitor_history_def monitor_summary_def monitor_assets_def metric_get_history_def Let_def
      intro!: not_401_bind quiet split: option.split prod.split)

lemma admitted_not_401:
  assumes "caller cx d u" and "has_role_of (documented_roles call) d u"
  shows "not_401 (api_endpoint call cx d)"
proof -
  from assms have g: "guard_of (documented_roles call) cx d = Inr u" by (simp add: guard_of_Inr)
  have l: "logged_in cx d = Inr u" using assms(1) by (simp add: logged_in_Inr)
  from assms(1) obtain token where t: "cx_bearer cx = Some token" by (auto simp: caller_def)
  show ?thesis
    using g by (cases call) (auto simp: guard_of_simps endpoint_defs user_endpoint_defs l t with_bearer_def Let_def
        intro!: not_401_bind quiet split: prod.split option.split)
qed

section \<open>The properties\<close>


text \<open>
  C34. What a request can reach. A request that fails changes nothing. A caller with no role beyond that
  of a normal user changes nothing at all; one who is not an administrator changes no table but those
  of tasks, executions and alert events; and nobody, administrators included, can write what is
  recorded about them through the endpoints: the logs of logins and operations, the heartbeats, the
  metrics and their archive, the roles and their permissions.
\<close>

theorem api_reach:
  assumes "api_request call cx d = ((status, code, data), d')"
  shows "records d' = records d \<and> (status \<ge> 400 \<longrightarrow> d' = d) \<and>
    (d' \<noteq> d \<longrightarrow> (\<exists>u. caller cx d u \<and> has_role_of ADMIN_OPS d u \<and>
       (\<not> has_role_of ADMIN d u \<longrightarrow> beyond_operations d' = beyond_operations d)))"
proof (cases "api_endpoint call cx d")
  case (Inl e)
  with assms show ?thesis by (simp add: api_request_def)
next
  case (Inr r)
  then have r: "api_endpoint call cx d = Inr (data, d')" "status = created_status call"
    using assms by (auto simp: api_request_def split: prod.splits)
  have "status < 400" unfolding r(2) by (cases call) simp_all
  moreover have "\<exists>u. caller cx d u \<and> has_role_of ADMIN_OPS d u \<and>
       (\<not> has_role_of ADMIN d u \<longrightarrow> beyond_operations d' = beyond_operations d)" if "d' \<noteq> d"
  proof -
    obtain f where f: "api_endpoint call cx d = bindE (guard_of (documented_roles call) cx d) f"
      using endpoint_guard by blast
    with r(1) obtain u where u: "caller cx d u" "has_role_of (documented_roles call) d u"
      by (auto simp: bindE_eq_Inr guard_of_Inr)
    show ?thesis
    proof (cases "documented_roles call = ADMIN")
      case True
      with u show ?thesis by (intro exI [of _ u]) (auto simp: has_role_of_def ADMIN_def ADMIN_OPS_def)
    next
      case False
      with reach_of_others [OF False r(1)] that
      have "documented_roles call = ADMIN_OPS" "beyond_operations d' = beyond_operations d"
        by (cases call; auto split: if_splits)+
      with u show ?thesis by auto
    qed
  qed
  ultimately show ?thesis using reach_of_admin [OF r(1)] by auto
qed

section \<open>A concrete request\<close>

definition api_sample :: api_context where
  "api_sample = \<lparr>cx_security = sample_security, cx_token_hash = (\<lambda>t. CHR ''h'' # t), cx_ip_network = sample_parse,
     cx_connect = sample_connect, cx_discovery = sample_discovery, cx_now = 10,
     cx_bearer = Some (create_access_token sample_security 5 1), cx_salt = [], cx_plaintext = ''token''\<rparr>"

definition web_server :: ServerCreate where
  "web_server = \<lparr>sc_server_code = ''web'', sc_hostname = ''web'', sc_ip_address = ''10.0.0.2'', sc_ssh_port = 22,
     sc_remark = None\<rparr>"

text \<open>Ann, an administrator, creates a server.\<close>

lemma sample_caller: "caller api_sample ann_db ann_row"
  using ann_session by (simp add: caller_def api_sample_def)

lemma ann_tables:
  "roles ann_db = [admin_role]" "sys_user_role ann_db = [\<lparr>ur_user_id = 1, ur_role_id = 1\<rparr>]"
  "ops_server ann_db = empty_table"
  by code_simp+

lemma sample_admin: "system_admin api_sample ann_db = Inr ann_row"
proof -
  have "has_role_of [''SYSTEM_ADMIN''] ann_db ann_row"
    by (simp add: has_role_of_def bound_to_def ann_tables ann_key(3)) (simp add: admin_role_def)
  with sample_caller show ?thesis by (simp add: system_admin_def with_roles_Inr)
qed

lemma sample_creation:
  "\<exists>data d'. api_request (PostServer web_server) api_sample ann_db = ((201, OK, data), d') \<and> length (servers d') = 1"
proof -
  have "server_create_valid web_server" by code_simp
  with sample_caller show ?thesis
    by (auto simp: api_request_def post_server_def sample_admin logged_in_Inr [THEN iffD2] check_params_def
        create_server_def get_by_server_code_def get_by_ip_port_def repo_get_by_def insert_server_def Let_def
        ann_tables empty_table_def repo_create_def uk_ops_server_code_def uk_ops_server_ip_port_def
        get_server_def server_get_def repo_get_def apply_soft_delete_def new_server_def)
qed

lemma api_reach_witness:
  "\<exists>d'. snd (api_request (PostServer web_server) api_sample ann_db) = d' \<and> length (servers d') = 1 \<and>
     records d' = records ann_db \<and> (\<exists>u. caller api_sample ann_db u \<and> has_role_of ADMIN_OPS ann_db u)"
proof -
  obtain data d' where d': "api_request (PostServer web_server) api_sample ann_db = ((201, OK, data), d')"
    "length (servers d') = 1"
    using sample_creation by blast
  then have "d' \<noteq> ann_db" by (auto simp: ann_tables empty_table_def)
  with api_reach [OF d'(1)] d' show ?thesis by auto
qed

end
