(* ===== verification/Middleware_Properties.thy ===== *)
theory Middleware_Properties
  imports Middleware Api_Properties
begin

text \<open>
  The audit: every request to the endpoints of the users leaves one row that tells its user, its
  identifier and its outcome, and how a client can avoid that.
\<close>

section \<open>Paths\<close>

lemma hd_split_on: "hd (split_on c s) = takeWhile (\<lambda>x. x \<noteq> c) s"
  by (induction s) (auto split: list.split)

lemma show_nat_last: "show_nat n \<noteq> [] \<and> last (show_nat n) \<noteq> CHR ''/''"
proof -
  have "show_nat n \<noteq> []" by (subst show_nat.simps) simp
  moreover from this obtain m where "m < 10" "last (show_nat n) = digit_char m"
    using show_nat_digits [OF last_in_set] by blast
  moreover from this have "is_digit (last (show_nat n))" by (simp add: digit_char_simps)
  moreover have "\<not> is_digit (CHR ''/'')" by code_simp
  ultimately show ?thesis by metis
qed

lemma py_str_last: "py_str k \<noteq> [] \<and> last (py_str k) \<noteq> CHR ''/''"
  using show_nat_last by (simp add: py_str_def)

lemma path_parts_api:
  assumes "rest \<noteq> []" "last rest \<noteq> CHR ''/''"
  shows "path_parts (''/api/v1/'' @ rest) = ''api'' # ''v1'' # split_on (CHR ''/'') rest"
proof -
  have "dropWhile (\<lambda>c. c = CHR ''/'') (rev (''api/v1/'' @ rest)) = rev (''api/v1/'' @ rest)"
    using assms by (cases rest rule: rev_cases) simp_all
  then have "path_parts (''/api/v1/'' @ rest) = split_on (CHR ''/'') (''api/v1/'' @ rest)"
    by (simp add: path_parts_def)
  also have "\<dots> = ''api'' # ''v1'' # split_on (CHR ''/'') rest" by simp
  finally show ?thesis .
qed

lemma guess_module_api:
  "rest \<noteq> [] \<Longrightarrow> last rest \<noteq> CHR ''/'' \<Longrightarrow> guess_module (''/api/v1/'' @ rest) = takeWhile (\<lambda>x. x \<noteq> CHR ''/'') rest"
  using hd_split_on [of "CHR ''/''" rest]
  by (cases "split_on (CHR ''/'') rest") (simp_all add: guess_module_def path_parts_api Let_def del: append_Cons)

lemma route_shape:
  "\<exists>rest. snd (route call) = ''/api/v1/'' @ rest \<and> rest \<noteq> [] \<and> last rest \<noteq> CHR ''/'' \<and>
     takeWhile (\<lambda>x. x \<noteq> CHR ''/'') rest \<in> {''tasks'', ''alerts'', ''servers'', ''dashboard'', ''discovery'', ''users'',
       ''roles'', ''auth''}"
  by (cases call) (simp_all add: number_segment_def py_str_last)

lemma module_of_route: "guess_module (snd (route call)) = takeWhile (\<lambda>x. x \<noteq> CHR ''/'') (drop 8 (snd (route call)))"
proof -
  obtain rest where r: "snd (route call) = ''/api/v1/'' @ rest" "rest \<noteq> []" "last rest \<noteq> CHR ''/''"
    using route_shape by blast
  show ?thesis unfolding r(1) guess_module_api [OF r(2,3)] by simp
qed

lemma routes_are_audited: "\<not> not_audited True (snd (route call))"
proof -
  obtain rest where r: "snd (route call) = ''/api/v1/'' @ rest" "takeWhile (\<lambda>x. x \<noteq> CHR ''/'') rest \<in>
    {''tasks'', ''alerts'', ''servers'', ''dashboard'', ''discovery'', ''users'', ''roles'', ''auth''}"
    using route_shape by blast
  have "\<not> has_prefix ''agent/'' rest" using r(2) by (auto simp: has_prefix_append)
  moreover have "snd (route call) \<notin> set EXCLUDE_PATHS"
    by (cases call) (simp_all add: EXCLUDE_PATHS_def number_segment_def)
  ultimately show ?thesis by (simp add: not_audited_def r(1))
qed

section \<open>The row\<close>

definition user_ids :: "db \<Rightarrow> ident set" where
  "user_ids d = us_id ` set (users d)"

lemma user_ids_simps [simp]:
  "user_ids (d\<lparr>alert_rule := a\<rparr>) = user_ids d" "user_ids (d\<lparr>ops_server := s\<rparr>) = user_ids d"
  "user_ids (d\<lparr>ops_agent_token := tk\<rparr>) = user_ids d" "user_ids (set_roles k ids d) = user_ids d"
  "user_ids (set_whitelist j v d) = user_ids d"
  by (simp_all add: user_ids_def set_roles_def set_whitelist_def set_service_def)

lemma user_ids_set_user: "(\<And>u. us_id (f u) = us_id u) \<Longrightarrow> user_ids (set_user k f d) = user_ids d"
  using ids_set_user [of f k d] by (simp add: user_ids_def flip: set_map)

lemma user_ids_management:
  "create_rule rc who d = Inr d' \<Longrightarrow> user_ids d' = user_ids d" "update_rule k ru d = Inr d' \<Longrightarrow> user_ids d' = user_ids d"
  "delete_rule k d = Inr d' \<Longrightarrow> user_ids d' = user_ids d"
  "create_server sc who d = Inr (k, d') \<Longrightarrow> user_ids d' = user_ids d"
  "generate_agent_token h pt k name d = Inr (r, d') \<Longrightarrow> user_ids d' = user_ids d"
  "update_service_whitelist k j v d = Inr d' \<Longrightarrow> user_ids d' = user_ids d"
  by (auto simp: create_rule_def update_rule_def delete_rule_def create_server_def insert_server_def
      generate_agent_token_def create_token_def update_service_whitelist_def bindE_eq_Inr Let_def
      split: if_splits option.splits)

lemma user_ids_accounts:
  "create_user sec salt uc d = Inr (k, d') \<Longrightarrow> user_ids d \<subseteq> user_ids d'"
  "update_user sec salt k uu d = Inr d' \<Longrightarrow> user_ids d' = user_ids d"
  "delete_user now k d = Inr d' \<Longrightarrow> user_ids d' = user_ids d"
  by (auto simp: create_user_def insert_user_def update_user_def delete_user_eq bindE_eq_Inr Let_def flush_user_def
      repo_create_def user_ids_set_user apply_update_def split: if_splits option.splits)
    (auto simp: user_ids_def)

definition keeps_users :: "db \<Rightarrow> db \<Rightarrow> bool" where
  "keeps_users d d' \<longleftrightarrow> user_ids d \<subseteq> user_ids d'"

lemma keeps_users_refl [simp]: "keeps_users d d"
  by (simp add: keeps_users_def)

lemmas keeps = user_ids_management [THEN equalityD2, folded keeps_users_def]
  user_ids_accounts(1) [folded keeps_users_def] user_ids_accounts(2,3) [THEN equalityD2, folded keeps_users_def]

lemma users_kept:
  assumes "api_endpoint call cx d = Inr (data, d')"
  shows "keeps_users d d'"
proof (cases "documented_roles call = ADMIN")
  case True
  with assms show ?thesis
    by (cases call) (auto simp: ADMIN_def ADMIN_OPS_def endpoint_defs user_endpoint_defs bindE_eq_Inr Let_def
        with_bearer_def split: option.splits if_splits intro: keeps)
next
  case False
  then have "beyond_operations d' = beyond_operations d" using reach_of_others [OF False assms] by (auto split: if_splits)
  then have "sys_user (beyond_operations d') = sys_user (beyond_operations d)" by simp
  then have "sys_user d' = sys_user d" by (simp add: beyond_operations_def)
  then show ?thesis by (simp add: keeps_users_def user_ids_def)
qed

lemma code_points_append: "code_points (s @ t) = code_points s + code_points t"
  by (simp add: code_points_def)

lemma code_points_space: "code_points (CHR '' '' # s) = 1 + code_points s"
  by (simp add: code_points_def)

lemma row_accepted:
  assumes "(cr_method q, cr_path q) = route call" and "code_points rid \<le> 64"
    and "max_length 64 (get_client_ip (cr_forwarded q) (cr_peer q))" and "code_points (cr_path q) \<le> 255"
    and "code_points (guess_resource (cr_path q)) \<le> 57" and "\<forall>uid. user = Some uid \<longrightarrow> uid \<in> user_ids d"
  shows "log_row_accepted d (log_row q rid user st took err d k)"
proof -
  obtain rest where r: "cr_path q = ''/api/v1/'' @ rest" "rest \<noteq> []" "last rest \<noteq> CHR ''/''"
    "takeWhile (\<lambda>x. x \<noteq> CHR ''/'') rest \<in> {''tasks'', ''alerts'', ''servers'', ''dashboard'', ''discovery'', ''users'',
       ''roles'', ''auth''}"
    using route_shape [of call] assms(1) by (metis snd_conv)
  then have "code_points (guess_module (cr_path q)) \<le> 64"
    unfolding r(1) guess_module_api [OF r(2,3)] using r(4) by (auto simp: code_points_def)
  moreover have "cr_method q \<in> {''GET'', ''POST'', ''PUT'', ''DELETE''}"
    using assms(1) by (cases call) auto
  then have "code_points (cr_method q) \<le> 6" by (auto simp: code_points_def)
  ultimately show ?thesis
    using assms(2-6) by (auto simp: log_row_accepted_def log_row_def code_points_append code_points_space user_ids_def split: option.split)
qed

lemma api_application_request:
  "api_application text_of call cx d = (if \<exists>e. api_endpoint call cx d = Inl e \<and> escapes e
     then (Raised (text_of (projl (api_endpoint call cx d))), snd (api_request call cx d))
     else (Response (fst (fst (api_request call cx d))), snd (api_request call cx d)))"
  by (auto simp: api_application_def api_request_def split: sum.splits)

lemma escaped_status: "api_endpoint call cx d = Inl e \<Longrightarrow> escapes e \<Longrightarrow> fst (fst (api_request call cx d)) = 500"
  by (auto simp: api_request_def escapes_def)

lemma context_user_caller:
  assumes "caller cx d u" "cr_authorization q = map_option (\<lambda>t. ''Bearer '' @ t) (cx_bearer cx)"
  shows "context_user (cx_security cx) (cx_now cx) q = Some (us_id u)"
proof -
  from assms(1) obtain token where t: "cx_bearer cx = Some token"
    "get_current_user (cx_security cx) (cx_now cx) token d = Inr u"
    by (auto simp: caller_def)
  then have "decode_access_token (cx_security cx) (cx_now cx) token = Inr (us_id u)"
    by (auto simp: get_current_user_def bindE_eq_Inr split: option.splits if_splits dest: user_get_in)
  with assms(2) t(1) show ?thesis by (simp add: context_user_def)
qed

text \<open>
  C36. Every request is audited. With the log enabled and the database reachable, and unless what the
  client sent is wider than the columns, serving a request adds exactly one row, whatever its outcome:
  it names the part of the platform, the method and the path, the identifier that also comes back in the
  response, the account that was authenticated, and SUCCESS exactly when the status is below 400. The
  rest of the database is what the endpoint alone leaves.
\<close>

theorem api_requests_are_audited:
  assumes "OPERATION_LOG_ENABLED au" and "au_available au" and "(cr_method q, cr_path q) = route call"
    and "code_points (request_id_of uuid q) \<le> 64" and "max_length 64 (get_client_ip (cr_forwarded q) (cr_peer q))"
    and "code_points (cr_path q) \<le> 255" and "code_points (guess_resource (cr_path q)) \<le> 57"
    and "cr_authorization q = map_option (\<lambda>t. ''Bearer '' @ t) (cx_bearer cx)"
    and "\<forall>uid. context_user (cx_security cx) (cx_now cx) q = Some uid \<longrightarrow> uid \<in> user_ids d"
    and "api_request call cx d = ((status, code, data), d1)"
    and "serve text_of au uuid q call cx d = ((outcome, header), d')"
  shows "\<exists>row. d' = d1\<lparr>sys_operation_log := sys_operation_log d'\<rparr> \<and>
    rows (sys_operation_log d') = rows (sys_operation_log d) @ [row] \<and>
    ol_module row = takeWhile (\<lambda>x. x \<noteq> CHR ''/'') (drop 8 (cr_path q)) \<and>
    (ol_http_method row, ol_request_path row) = route call \<and> ol_request_id row = Some (request_id_of uuid q) \<and>
    (\<forall>u. caller cx d u \<longrightarrow> ol_user_id row = Some (us_id u)) \<and>
    (ol_result_status row = LOGIN_SUCCESS \<longleftrightarrow> status < 400) \<and>
    (outcome = Response status \<and> header = Some (request_id_of uuid q) \<or> status = 500 \<and> header = None)"
proof -
  let ?rid = "request_id_of uuid q" and ?user = "context_user (cx_security cx) (cx_now cx) q"
  let ?answer = "api_endpoint call cx d"
  let ?raised = "\<exists>e. ?answer = Inl e \<and> escapes e"
  define err where "err = (if ?raised then Some (text_of (projl ?answer)) else None)"
  define row where "row = log_row q ?rid ?user status (au_duration_ms au) err d1"
  have st: "?raised \<Longrightarrow> status = 500" using assms(10) escaped_status by fastforce
  have path: "cr_path q = snd (route call)" using assms(3) by (metis snd_conv)
  have on: "\<not> not_audited (OPERATION_LOG_ENABLED au) (cr_path q)"
    using routes_are_audited assms(1) by (simp add: path)
  have "keeps_users d d1"
    using assms(10) users_kept by (auto simp: api_request_def split: sum.splits)
  then have "\<forall>uid. ?user = Some uid \<longrightarrow> uid \<in> user_ids d1" using assms(9) by (auto simp: keeps_users_def)
  then have acc: "log_row_accepted d1 (row k)" for k
    unfolding row_def by (rule row_accepted [OF assms(3-7)])
  have run: "operation_log au q (api_application text_of call cx) ?rid ?user d =
      (if ?raised then Raised (the err) else Response status, write_log True q ?rid ?user status (au_duration_ms au) err d1)"
    using on assms(2,10) st by (auto simp: operation_log_def api_application_request err_def)
  have written: "write_log True q ?rid ?user status (au_duration_ms au) err d1 =
      d1\<lparr>sys_operation_log := repo_create row (sys_operation_log d1)\<rparr>"
    using acc by (simp add: write_log_def row_def Let_def)
  have "records d1 = records d \<and> sys_operation_log (records d1) = sys_operation_log d1 \<and>
      sys_operation_log (records d) = sys_operation_log d"
    using assms(10) reach_of_admin by (auto simp: api_request_def records_def split: sum.splits)
  then have old: "sys_operation_log d1 = sys_operation_log d" by metis
  let ?row = "row (next_id (sys_operation_log d1))"
  have d': "d' = d1\<lparr>sys_operation_log := repo_create row (sys_operation_log d1)\<rparr>"
    and oh: "if ?raised then header = None else outcome = Response status \<and> header = Some ?rid"
    using assms(11) unfolding serve_def request_context_def Let_def run written
    by (auto split: if_splits)
  have "rows (sys_operation_log d') = rows (sys_operation_log d) @ [?row]"
    by (simp add: d' repo_create_def old)
  moreover have "d' = d1\<lparr>sys_operation_log := sys_operation_log d'\<rparr>" by (simp add: d')
  moreover have "ol_module ?row = takeWhile (\<lambda>x. x \<noteq> CHR ''/'') (drop 8 (cr_path q))"
    using module_of_route [of call] by (simp add: row_def log_row_def path)
  moreover have "(ol_http_method ?row, ol_request_path ?row) = route call" "ol_request_id ?row = Some ?rid"
    using assms(3) by (simp_all add: row_def log_row_def)
  moreover have "\<forall>u. caller cx d u \<longrightarrow> ol_user_id ?row = Some (us_id u)"
    using context_user_caller [OF _ assms(8)] by (simp add: row_def log_row_def)
  moreover have "ol_result_status ?row = LOGIN_SUCCESS \<longleftrightarrow> status < 400"
    using st by (auto simp: row_def log_row_def err_def)
  moreover have "outcome = Response status \<and> header = Some ?rid \<or> status = 500 \<and> header = None"
    using oh st by (auto split: if_splits)
  ultimately show ?thesis by blast
qed

text \<open>
  A client that sends an identifier wider than its column keeps the request out of the audit: the
  endpoint runs, the row is refused by the database, and the refusal is swallowed.
\<close>

lemma long_request_id_is_not_audited:
  assumes "code_points (request_id_of uuid q) > 64"
  shows "snd (serve text_of au uuid q call cx d) = snd (api_request call cx d)"
proof -
  have "\<not> log_row_accepted d1 (log_row q (request_id_of uuid q) user st took err d1 k)" for d1 user st took err k
    using assms by (simp add: log_row_accepted_def log_row_def)
  then have "snd (operation_log au q (api_application text_of call cx) (request_id_of uuid q) user d) =
      snd (api_request call cx d)" for user
    by (simp add: operation_log_def api_application_request write_log_def Let_def)
  then show ?thesis
    by (simp add: serve_def request_context_def Let_def split: prod.split app_outcome.split) (metis snd_conv)
qed

text \<open>
  The guard takes the scheme of the header in any case (RFC 7235), the audit only \<open>Bearer\<close>: a request
  with \<open>bearer\<close> is audited without its user.
\<close>

lemma lower_case_bearer_is_anonymous:
  "cr_authorization q = Some (''bearer '' @ token) \<Longrightarrow> context_user sec now q = None"
  by (simp add: context_user_def)

text \<open>The operation of a row does not tell the operations on one task apart.\<close>

lemma confirm_and_cancel_look_alike:
  "guess_resource (snd (route (PostTaskConfirm k))) = guess_resource (snd (route (PostTaskCancel k)))"
proof -
  have r: "guess_resource (''/api/v1/tasks'' @ number_segment k @ CHR ''/'' # w) = takeWhile (\<lambda>x. x \<noteq> CHR ''/'') (py_str k)"
    if w: "w \<noteq> []" "last w \<noteq> CHR ''/''" for w
  proof -
    let ?rest = "''tasks'' @ CHR ''/'' # py_str k @ CHR ''/'' # w"
    have "''/api/v1/tasks'' @ number_segment k @ CHR ''/'' # w = ''/api/v1/'' @ ?rest"
      by (simp add: number_segment_def)
    moreover have "path_parts (''/api/v1/'' @ ?rest) = [''api'', ''v1'', ''tasks''] @ split_on (CHR ''/'') (py_str k @ CHR ''/'' # w)"
      using path_parts_api [of ?rest] w by simp
    moreover have "hd (split_on (CHR ''/'') (py_str k @ CHR ''/'' # w)) = takeWhile (\<lambda>x. x \<noteq> CHR ''/'') (py_str k)"
      by (simp add: hd_split_on takeWhile_tail)
    ultimately show ?thesis
      by (cases "split_on (CHR ''/'') (py_str k @ CHR ''/'' # w)")
        (simp_all only: guess_resource_def Let_def, simp_all)
  qed
  from r [of "''confirm''"] r [of "''cancel''"] show ?thesis by (simp only: route.simps snd_conv append.simps) simp
qed

section \<open>A concrete request\<close>

definition sample_audit :: audit_settings where
  "sample_audit = \<lparr>OPERATION_LOG_ENABLED = True, au_available = True, au_duration_ms = 3\<rparr>"

definition sample_client :: client_request where
  "sample_client = \<lparr>cr_method = ''POST'', cr_path = ''/api/v1/servers'', cr_query = [], cr_request_id = Some ''r1'',
     cr_authorization = map_option (\<lambda>t. ''Bearer '' @ t) (cx_bearer api_sample), cr_forwarded = None,
     cr_peer = Some ''10.0.0.9''\<rparr>"

lemma sample_client_simps:
  "cr_method sample_client = ''POST''" "cr_path sample_client = ''/api/v1/servers''"
  "request_id_of uuid sample_client = ''r1''" "get_client_ip (cr_forwarded sample_client) (cr_peer sample_client) = Some ''10.0.0.9''"
  "cr_authorization sample_client = map_option (\<lambda>t. ''Bearer '' @ t) (cx_bearer api_sample)"
  by (simp_all add: sample_client_def request_id_of_def get_client_ip_def)

lemma api_requests_are_audited_witness:
  "\<exists>row. rows (sys_operation_log (snd (serve (\<lambda>_. []) sample_audit ''u'' sample_client (PostServer web_server) api_sample ann_db))) =
       rows (sys_operation_log ann_db) @ [row] \<and>
     ol_module row = ''servers'' \<and> ol_user_id row = Some 1 \<and> ol_result_status row = LOGIN_SUCCESS \<and>
     ol_request_id row = Some ''r1''"
proof -
  obtain data d1 where r: "api_request (PostServer web_server) api_sample ann_db = ((201, OK, data), d1)"
    using sample_creation by blast
  obtain outcome header d' where s: "serve (\<lambda>_. []) sample_audit ''u'' sample_client (PostServer web_server) api_sample ann_db =
      ((outcome, header), d')"
    by (metis surj_pair)
  have u: "context_user (cx_security api_sample) (cx_now api_sample) sample_client = Some 1"
    using context_user_caller [OF sample_caller sample_client_simps(5)] ann_key(3) by simp
  have "(cr_method sample_client, cr_path sample_client) = route (PostServer web_server)"
    by (simp add: sample_client_simps)
  moreover have "code_points ''r1'' \<le> 64" "code_points ''10.0.0.9'' \<le> 64" "code_points ''/api/v1/servers'' \<le> 255"
    "code_points (guess_resource ''/api/v1/servers'') \<le> 57"
    by code_simp+
  moreover have "1 \<in> user_ids ann_db" using ann_key(3) by (simp add: user_ids_def ann_state(1))
  ultimately have "\<exists>row. rows (sys_operation_log d') = rows (sys_operation_log ann_db) @ [row] \<and>
      ol_module row = takeWhile (\<lambda>x. x \<noteq> CHR ''/'') (drop 8 ''/api/v1/servers'') \<and> ol_request_id row = Some ''r1'' \<and>
      (\<forall>v. caller api_sample ann_db v \<longrightarrow> ol_user_id row = Some (us_id v)) \<and> ol_result_status row = LOGIN_SUCCESS"
    using api_requests_are_audited [OF _ _ _ _ _ _ _ sample_client_simps(5) _ r s] u
    by (simp add: sample_client_simps sample_audit_def) blast
  with sample_caller ann_key(3) s show ?thesis by auto
qed

end
