(* ===== verification/Platform.thy ===== *)
theory Platform
  imports Middleware_Properties Agent_Protocol Server_Properties Alert_Properties Seed_Properties Scheduler Agent_Api
begin

text \<open>
  The platform as a whole (\<open>backend/app/main.py\<close>): the start with its seed, the requests of the users
  behind the middleware, the logins, the requests of the agents and the jobs of the scheduler, in any
  order, at any readings of the clocks. Each of them is one transaction, so a run of the platform is a
  sequence of them; the invariants of the components hold together in every database it reaches.
\<close>

section \<open>The invariants together\<close>

definition platform_inv :: "db \<Rightarrow> bool" where
  "platform_inv d \<longleftrightarrow> task_inv d \<and> alert_inv d \<and> alert_keys_ok d \<and> accounts_inv d \<and> servers_inv d"

lemma platform_inv_empty: "platform_inv empty_db"
proof -
  have "accounts_inv empty_db" "servers_inv empty_db" "alert_keys_ok empty_db"
    by (simp_all add: accounts_inv_def servers_inv_def alert_keys_ok_def uk_sys_user_def uk_ops_server_code_def
        uk_ops_server_ip_port_def empty_db_def) (simp_all add: empty_table_def)
  then show ?thesis using task_inv_empty alert_inv_empty by (simp add: platform_inv_def)
qed

text \<open>An operation that stays within the tables of its component need only keep that one's invariant.\<close>

lemma platform_inv_tables:
  assumes "platform_inv d" and "alert_rule d' = alert_rule d"
    and "ops_task d' = ops_task d \<and> ops_task_target d' = ops_task_target d \<and> ops_task_execution d' = ops_task_execution d \<or>
      task_inv d'"
    and "alert_event d' = alert_event d \<and> alert_event_log d' = alert_event_log d \<or> alert_inv d'"
    and "sys_user d' = sys_user d \<and> sys_role d' = sys_role d \<and> sys_user_role d' = sys_user_role d \<or> accounts_inv d'"
    and "ops_server d' = ops_server d \<and> ops_agent_token d' = ops_agent_token d \<or> servers_inv d'"
  shows "platform_inv d'"
proof -
  have "task_inv d'" using assms(1,3) task_inv_tables [of d d'] unfolding platform_inv_def by blast
  moreover have "alert_inv d'" using assms(1,4) alert_inv_tables [of d d'] unfolding platform_inv_def by blast
  moreover have "accounts_inv d'" using assms(1,5) accounts_inv_tables [of d' d] unfolding platform_inv_def by blast
  moreover have s: "servers_inv d'" using assms(1,6) servers_inv_tables [of d' d] unfolding platform_inv_def by blast
  moreover have "alert_keys_ok d'" using assms(1,2) s by (simp add: platform_inv_def alert_keys_ok_def servers_inv_def)
  ultimately show ?thesis by (simp add: platform_inv_def)
qed

lemma beyond_same:
  "beyond_tasks d' = beyond_tasks d \<Longrightarrow> f (beyond_tasks d') = f (beyond_tasks d)"
  "beyond_events d' = beyond_events d \<Longrightarrow> g (beyond_events d') = g (beyond_events d)"
  "beyond_rules d' = beyond_rules d \<Longrightarrow> h (beyond_rules d') = h (beyond_rules d)"
  "beyond_servers d' = beyond_servers d \<Longrightarrow> k (beyond_servers d') = k (beyond_servers d)"
  "beyond_accounts d' = beyond_accounts d \<Longrightarrow> l (beyond_accounts d') = l (beyond_accounts d)"
  by simp_all

lemma platform_inv_task:
  assumes "platform_inv d" "beyond_tasks d' = beyond_tasks d" "task_inv d'"
  shows "platform_inv d'"
  using beyond_same(1) [OF assms(2), of alert_rule] beyond_same(1) [OF assms(2), of alert_event]
    beyond_same(1) [OF assms(2), of alert_event_log] beyond_same(1) [OF assms(2), of sys_user]
    beyond_same(1) [OF assms(2), of sys_role] beyond_same(1) [OF assms(2), of sys_user_role]
    beyond_same(1) [OF assms(2), of ops_server] beyond_same(1) [OF assms(2), of ops_agent_token] assms(3)
  by (intro platform_inv_tables [OF assms(1)]) (simp_all add: beyond_tasks_def)

lemma platform_inv_event:
  assumes "platform_inv d" "beyond_events d' = beyond_events d" "alert_inv d'"
  shows "platform_inv d'"
  using beyond_same(2) [OF assms(2), of alert_rule] beyond_same(2) [OF assms(2), of ops_task]
    beyond_same(2) [OF assms(2), of ops_task_target] beyond_same(2) [OF assms(2), of ops_task_execution]
    beyond_same(2) [OF assms(2), of sys_user] beyond_same(2) [OF assms(2), of sys_role]
    beyond_same(2) [OF assms(2), of sys_user_role] beyond_same(2) [OF assms(2), of ops_server]
    beyond_same(2) [OF assms(2), of ops_agent_token] assms(3)
  by (intro platform_inv_tables [OF assms(1)]) (simp_all add: beyond_events_def)

lemma platform_inv_server:
  assumes "platform_inv d" "beyond_servers d' = beyond_servers d" "servers_inv d'"
  shows "platform_inv d'"
  using beyond_same(4) [OF assms(2), of alert_rule] beyond_same(4) [OF assms(2), of alert_event]
    beyond_same(4) [OF assms(2), of alert_event_log] beyond_same(4) [OF assms(2), of sys_user]
    beyond_same(4) [OF assms(2), of sys_role] beyond_same(4) [OF assms(2), of sys_user_role]
    beyond_same(4) [OF assms(2), of ops_task] beyond_same(4) [OF assms(2), of ops_task_target]
    beyond_same(4) [OF assms(2), of ops_task_execution] assms(3)
  by (intro platform_inv_tables [OF assms(1)]) (simp_all add: beyond_servers_def)

lemma platform_inv_account:
  assumes "platform_inv d" "beyond_accounts d' = beyond_accounts d" "accounts_inv d'"
  shows "platform_inv d'"
  using beyond_same(5) [OF assms(2), of alert_rule] beyond_same(5) [OF assms(2), of alert_event]
    beyond_same(5) [OF assms(2), of alert_event_log] beyond_same(5) [OF assms(2), of ops_server]
    beyond_same(5) [OF assms(2), of ops_agent_token] beyond_same(5) [OF assms(2), of ops_task]
    beyond_same(5) [OF assms(2), of ops_task_target] beyond_same(5) [OF assms(2), of ops_task_execution] assms(3)
  by (intro platform_inv_tables [OF assms(1)]) (simp_all add: beyond_accounts_def)

lemma platform_inv_rule:
  assumes "platform_inv d" "beyond_rules d' = beyond_rules d" "alert_keys_ok d'"
  shows "platform_inv d'"
proof -
  have "ops_task d' = ops_task d" "ops_task_target d' = ops_task_target d" "ops_task_execution d' = ops_task_execution d"
    using beyond_same(3) [OF assms(2), of ops_task] beyond_same(3) [OF assms(2), of ops_task_target]
      beyond_same(3) [OF assms(2), of ops_task_execution]
    by (simp_all add: beyond_rules_def)
  then have "task_inv d'" using assms(1) task_inv_tables [of d d'] by (simp add: platform_inv_def)
  moreover have "alert_event d' = alert_event d" "alert_event_log d' = alert_event_log d"
    using beyond_same(3) [OF assms(2), of alert_event] beyond_same(3) [OF assms(2), of alert_event_log]
    by (simp_all add: beyond_rules_def)
  then have "alert_inv d'" using assms(1) alert_inv_tables [of d d'] by (simp add: platform_inv_def)
  moreover have "accounts_inv d'"
    using assms(1) beyond_same(3) [OF assms(2), of sys_user] beyond_same(3) [OF assms(2), of sys_role]
      beyond_same(3) [OF assms(2), of sys_user_role]
    by (intro accounts_inv_tables [of d' d, THEN iffD2]) (simp_all add: platform_inv_def beyond_rules_def)
  moreover have "servers_inv d'"
    using assms(1) beyond_same(3) [OF assms(2), of ops_server] beyond_same(3) [OF assms(2), of ops_agent_token]
    by (intro servers_inv_tables [of d' d, THEN iffD2]) (simp_all add: platform_inv_def beyond_rules_def)
  ultimately show ?thesis using assms(3) by (simp add: platform_inv_def)
qed

lemmas platform_intros = platform_inv_task platform_inv_event platform_inv_server platform_inv_account platform_inv_rule

lemma platform_inv_log: "platform_inv d \<Longrightarrow> platform_inv (d\<lparr>sys_operation_log := l\<rparr>)"
  by (erule platform_inv_tables) simp_all

section \<open>The requests of the users\<close>

lemma server_ops_inv:
  assumes "platform_inv d"
  shows "create_server sc who d = Inr (k, d') \<Longrightarrow> platform_inv d'"
    and "generate_agent_token h p k name d = Inr (r, d') \<Longrightarrow> platform_inv d'"
    and "update_service_whitelist k j v d = Inr d' \<Longrightarrow> platform_inv d'"
proof -
  have inv: "servers_inv d" using assms by (simp add: platform_inv_def)
  show "create_server sc who d = Inr (k, d') \<Longrightarrow> platform_inv d'"
    by (rule platform_inv_server [OF assms create_server_reach servers_inv_create [OF inv]])
  show "platform_inv d'" if g: "generate_agent_token h p k name d = Inr (r, d')"
  proof (rule platform_inv_server [OF assms agent_token_reach [OF g]])
    from g obtain s :: OpsServer where "create_token h p (sv_id s) name d = Inr (r, d')"
      by (auto simp: generate_agent_token_def bindE_eq_Inr)
    then show "servers_inv d'" by (rule servers_inv_token [OF inv])
  qed
  show "platform_inv d'" if u: "update_service_whitelist k j v d = Inr d'"
  proof (rule platform_inv_server [OF assms whitelist_reach [OF u]])
    have "ops_server d' = ops_server d" "ops_agent_token d' = ops_agent_token d"
      using u by (auto simp: update_service_whitelist_def bindE_eq_Inr set_whitelist_def set_service_def
          split: option.splits if_splits)
    then show "servers_inv d'" using inv servers_inv_tables by blast
  qed
qed

lemma user_ops_inv:
  assumes "platform_inv d"
  shows "create_user sec salt uc d = Inr (k, d') \<Longrightarrow> platform_inv d'"
    and "update_user sec salt k uu d = Inr d' \<Longrightarrow> platform_inv d'"
    and "delete_user now k d = Inr d' \<Longrightarrow> platform_inv d'"
    and "platform_inv (snd (login sec now name password ip ua rid d))"
proof -
  have inv: "accounts_inv d" using assms by (simp add: platform_inv_def)
  show "create_user sec salt uc d = Inr (k, d') \<Longrightarrow> platform_inv d'"
    by (rule platform_inv_account [OF assms user_reach(1) create_user_inv [OF inv]])
  show "update_user sec salt k uu d = Inr d' \<Longrightarrow> platform_inv d'"
    by (rule platform_inv_account [OF assms user_reach(2) update_user_inv [OF inv]])
  show "delete_user now k d = Inr d' \<Longrightarrow> platform_inv d'"
    by (rule platform_inv_account [OF assms user_reach(3) delete_user_inv [OF inv]])
  show "platform_inv (snd (login sec now name password ip ua rid d))"
    by (rule platform_inv_account [OF assms login_reach login_inv [OF inv]])
qed

lemma task_ops_inv:
  assumes "platform_inv d"
  shows "task_create_valid data \<Longrightarrow> create_task now data c key d = Inr (k, d') \<Longrightarrow> platform_inv d'"
    and "confirm_task now k op d = Inr d' \<Longrightarrow> platform_inv d'" and "cancel_task now k d = Inr d' \<Longrightarrow> platform_inv d'"
proof -
  have inv: "task_inv d" using assms by (simp add: platform_inv_def)
  show "task_create_valid data \<Longrightarrow> create_task now data c key d = Inr (k, d') \<Longrightarrow> platform_inv d'"
    by (rule platform_inv_task [OF assms create_task_reach create_task_inv [OF inv]])
  show "confirm_task now k op d = Inr d' \<Longrightarrow> platform_inv d'"
    by (rule platform_inv_task [OF assms confirm_task_reach confirm_task_inv [OF inv]])
  show "cancel_task now k d = Inr d' \<Longrightarrow> platform_inv d'"
    by (rule platform_inv_task [OF assms cancel_task_reach cancel_task_inv [OF inv]])
qed

lemma alert_ops_inv:
  assumes "platform_inv d"
  shows "acknowledge now k who d = Inr d' \<Longrightarrow> platform_inv d'" and "resolve now k who d = Inr d' \<Longrightarrow> platform_inv d'"
    and "create_rule rc who d = Inr d' \<Longrightarrow> platform_inv d'" and "update_rule k ru d = Inr d' \<Longrightarrow> platform_inv d'"
    and "delete_rule k d = Inr d' \<Longrightarrow> platform_inv d'"
proof -
  have inv: "alert_inv d" and keys: "alert_keys_ok d" using assms by (simp_all add: platform_inv_def)
  show "acknowledge now k who d = Inr d' \<Longrightarrow> platform_inv d'"
    by (rule platform_inv_event [OF assms acknowledge_reach acknowledge_inv [OF inv]])
  show "resolve now k who d = Inr d' \<Longrightarrow> platform_inv d'"
    by (rule platform_inv_event [OF assms resolve_reach resolve_inv [OF inv]])
  show "create_rule rc who d = Inr d' \<Longrightarrow> platform_inv d'"
    by (rule platform_inv_rule [OF assms rules_reach(1) rule_ops_keys(1) [OF keys]])
  show "update_rule k ru d = Inr d' \<Longrightarrow> platform_inv d'"
    by (rule platform_inv_rule [OF assms rules_reach(2) rule_ops_keys(2) [OF keys]])
  show "delete_rule k d = Inr d' \<Longrightarrow> platform_inv d'"
    by (rule platform_inv_rule [OF assms rules_reach(3) rule_ops_keys(3) [OF keys]])
qed

lemmas user_request_inv = server_ops_inv user_ops_inv(1-3) task_ops_inv alert_ops_inv

lemma api_endpoint_inv:
  assumes "platform_inv d" "api_endpoint call cx d = Inr (data, d')"
  shows "platform_inv d'"
  using assms(2) user_request_inv [OF assms(1)] assms(1)
  by (cases call) (auto simp: endpoint_defs user_endpoint_defs bindE_eq_Inr Let_def with_bearer_def check_params_def
      split: option.splits if_splits)

section \<open>The requests of the agents\<close>

lemma servers_inv_key: "servers_inv d \<Longrightarrow> servers_inv (store_key now k key d)"
  unfolding store_key_def by (rule servers_inv_set_token) simp_all

lemma servers_inv_register:
  assumes "servers_inv d" "register cr now q ip d = Inr (r, d')"
  shows "servers_inv d'"
proof -
  from assms(2) obtain token :: OpsAgentToken and server :: OpsServer and d1 where
    d1: "flush_server (set_server (sv_id server) (registered_row now q ip) d) = Inr d1"
    and d': "d' = update_last_used now (at_id token)
      (register_key cr now token (rg_signing_public_key q) (heartbeat_record now (sv_id server) (rg_agent_version q) ip None d1))"
    by (auto simp: register_def register_writes bindE_eq_Inr Let_def split: option.splits if_splits)
  have "servers_inv d1" by (rule servers_inv_flush [OF assms(1) d1]) simp_all
  moreover have "ops_server (heartbeat_record now k v ip c d1) = ops_server d1"
    "ops_agent_token (heartbeat_record now k v ip c d1) = ops_agent_token d1" for k v c
    by (simp_all add: heartbeat_record_def)
  ultimately have "servers_inv (heartbeat_record now k v ip c d1)" for k v c using servers_inv_tables by blast
  then have "servers_inv (register_key cr now token (rg_signing_public_key q)
      (heartbeat_record now (sv_id server) (rg_agent_version q) ip None d1))"
    by (simp add: register_key_def servers_inv_key)
  then show ?thesis unfolding d' update_last_used_def by (rule servers_inv_set_token) simp_all
qed

lemma agent_ops_inv:
  assumes "platform_inv d"
  shows "register cr now rq ip d = Inr (r, d') \<Longrightarrow> platform_inv d'"
    and "rotate_signing_key cr now t key d = Inr (u, d') \<Longrightarrow> platform_inv d'"
    and "heartbeat now s hq ip d = Inr (x, d') \<Longrightarrow> platform_inv d'"
    and "ingest_metrics now s mq d = Inr (x, d') \<Longrightarrow> platform_inv d'"
    and "sync_assets now s aq d = Inr (x, d') \<Longrightarrow> platform_inv d'"
    and "sync_services now s sq d = Inr (x, d') \<Longrightarrow> platform_inv d'"
    and "platform_inv (snd (fetch_pending now sid d))"
    and "report_result now sid tq d = Inr d' \<Longrightarrow> platform_inv d'"
proof -
  have inv: "servers_inv d" and tasks: "task_inv d" using assms by (simp_all add: platform_inv_def)
  show "register cr now rq ip d = Inr (r, d') \<Longrightarrow> platform_inv d'"
    by (rule platform_inv_server [OF assms register_reach servers_inv_register [OF inv]])
  show "platform_inv d'" if k: "rotate_signing_key cr now t key d = Inr (u, d')"
    by (rule platform_inv_server [OF assms rotate_reach [OF k]])
      (use k servers_inv_key [OF inv] in \<open>auto simp: rotate_signing_key_def split: if_splits\<close>)
  show "heartbeat now s hq ip d = Inr (x, d') \<Longrightarrow> platform_inv d'"
    by (rule platform_inv_server [OF assms heartbeat_reach servers_inv_heartbeat [OF inv]])
  have same: "servers_inv e" if "ops_server e = ops_server d" "ops_agent_token e = ops_agent_token d" for e
    using that inv servers_inv_tables by blast
  show "platform_inv d'" if i: "ingest_metrics now s mq d = Inr (x, d')"
    by (rule platform_inv_server [OF assms ingest_reach [OF i] same])
      (use i in \<open>auto simp: ingest_metrics_def metric_record_def bindE_eq_Inr\<close>)
  show "platform_inv d'" if a: "sync_assets now s aq d = Inr (x, d')"
    by (rule platform_inv_server [OF assms sync_reach(1) [OF a] same])
      (use a in \<open>auto simp: sync_assets_def bindE_eq_Inr Let_def fold_upsert_disk fold_upsert_network
         disk_delete_missing_def network_delete_missing_def\<close>)
  show "platform_inv d'" if a: "sync_services now s sq d = Inr (x, d')"
    by (rule platform_inv_server [OF assms sync_reach(2) [OF a] same])
      (use a in \<open>auto simp: sync_services_def bindE_eq_Inr fold_upsert_status\<close>)
  show "platform_inv (snd (fetch_pending now sid d))"
    by (rule platform_inv_task [OF assms fetch_pending_reach fetch_pending_inv [OF tasks]])
  show "report_result now sid tq d = Inr d' \<Longrightarrow> platform_inv d'"
    by (rule platform_inv_task [OF assms report_result_reach report_result_inv [OF tasks]])
qed

lemma agent_endpoint_inv:
  assumes "platform_inv d" "\<And>s q x e. service s q d = Inr (x, e) \<Longrightarrow> platform_inv e"
  shows "platform_inv (fst (snd (agent_endpoint dependency parse valid service request d r)))"
  using assms by (auto simp: agent_endpoint_def run_service_def split: sum.split option.split)

lemma map_sum_pair: "map_sum id (Pair ()) x = Inr (u, e) \<longleftrightarrow> x = Inr e"
  by (cases x) auto

lemma agent_requests_inv:
  assumes "platform_inv d"
  shows "platform_inv (fst (snd (post_register cr now p1 ip q d r)))"
    "platform_inv (fst (snd (post_signing_key cr set_nx cfg now p2 q d r)))"
    "platform_inv (fst (snd (post_heartbeat cr set_nx cfg now p3 ip q d r)))"
    "platform_inv (fst (snd (post_metrics cr set_nx cfg now p4 q d r)))"
    "platform_inv (fst (snd (post_assets cr set_nx cfg now p5 q d r)))"
    "platform_inv (fst (snd (post_services cr set_nx cfg now p6 q d r)))"
    "platform_inv (fst (snd (get_tasks_pending cr set_nx cfg now q d r)))"
    "platform_inv (fst (snd (post_task_result cr set_nx cfg now p7 q d r)))"
  unfolding post_register_def post_signing_key_def post_heartbeat_def post_metrics_def post_assets_def
    post_services_def get_tasks_pending_def post_task_result_def
       apply (rule agent_endpoint_inv [OF assms], blast dest: agent_ops_inv(1-6) [OF assms])+
   apply (rule agent_endpoint_inv [OF assms], metis Inr_inject agent_ops_inv(7) [OF assms] snd_conv)
  apply (rule agent_endpoint_inv [OF assms], metis map_sum_pair agent_ops_inv(8) [OF assms])
  done

section \<open>The jobs and the start\<close>

lemma servers_inv_refresh: "servers_inv d \<Longrightarrow> servers_inv (snd (refresh_agent_statuses now d))"
  by (auto simp: servers_inv_def refresh_agent_statuses_def Let_def uk_ops_server_code_def uk_ops_server_ip_port_def
      comp_def if_distrib intro!: tbl_wf_modify cong: if_cong)

lemma cleanup_metrics_reach: "\<exists>m md. cleanup_old_metrics jobs t1 t2 t3 d =
    d\<lparr>monitor_server_metric := m, monitor_server_metric_daily := md\<rparr>"
proof (cases "METRIC_CLEANUP_ENABLED jobs")
  case True
  then show ?thesis
    by (auto simp: cleanup_old_metrics_def Let_def aggregate_daily_def fold_upsert_daily delete_older_than_def
        delete_daily_before_def)
next
  case False
  then show ?thesis
    by (intro exI [of _ "monitor_server_metric d"] exI [of _ "monitor_server_metric_daily d"])
      (simp add: cleanup_old_metrics_def)
qed

lemma jobs_inv:
  assumes "platform_inv d"
  shows "platform_inv (scan_task_timeouts now d)" "platform_inv (dispatch_task_retries now d)"
    "platform_inv (fire_due_cron_tasks cron now d)" "platform_inv (evaluate_alerts now d)"
    "platform_inv (refresh_agent_status_job now d)" "platform_inv (cleanup_old_task_executions jobs now d)"
    "platform_inv (cleanup_old_metrics jobs t1 t2 t3 d)"
proof -
  have tasks: "task_inv d" and servers: "servers_inv d" and alerts: "alert_inv d" "alert_keys_ok d"
    using assms by (simp_all add: platform_inv_def)
  show "platform_inv (scan_task_timeouts now d)"
    unfolding scan_task_timeouts_def
    by (rule platform_inv_task [OF assms scan_timeouts_reach scan_timeouts_inv [OF tasks]])
  obtain n d1 where d1: "dispatch_retries now 50 d = Inr (n, d1)" "task_inv d1"
    using dispatch_retries_ok [OF tasks] by blast
  show "platform_inv (dispatch_task_retries now d)"
    using platform_inv_task [OF assms dispatch_retries_reach [OF d1(1)] d1(2)] d1(1)
    by (simp add: dispatch_task_retries_def best_effort_def)
  obtain m d2 where d2: "fire_due_cron cron now d = Inr (m, d2)" "task_inv d2" using fire_due_cron_ok [OF tasks] by blast
  show "platform_inv (fire_due_cron_tasks cron now d)"
    using platform_inv_task [OF assms fire_due_cron_reach [OF d2(1)] d2(2)] d2(1)
    by (simp add: fire_due_cron_tasks_def best_effort_def)
  obtain k d3 where d3: "evaluate_all now d = Inr (k, d3)" "alert_inv d3" using evaluate_all_ok [OF alerts] by blast
  show "platform_inv (evaluate_alerts now d)"
    using platform_inv_event [OF assms evaluate_all_reach [OF d3(1)] d3(2)] d3(1)
    by (simp add: evaluate_alerts_def best_effort_def)
  show "platform_inv (refresh_agent_status_job now d)"
    unfolding refresh_agent_status_job_def
    by (rule platform_inv_server [OF assms refresh_reach servers_inv_refresh [OF servers]])
  show "platform_inv (cleanup_old_task_executions jobs now d)"
    using platform_inv_task [OF assms cleanup_history_reach cleanup_history_inv [OF tasks]] assms
    by (simp add: cleanup_old_task_executions_def)
  obtain mm md where "cleanup_old_metrics jobs t1 t2 t3 d = d\<lparr>monitor_server_metric := mm, monitor_server_metric_daily := md\<rparr>"
    using cleanup_metrics_reach by blast
  then show "platform_inv (cleanup_old_metrics jobs t1 t2 t3 d)"
    using assms by (auto intro: platform_inv_tables [OF assms])
qed

text \<open>What the three loops of the seed do to the accounts and the rules.\<close>

definition accounts_rules_inv :: "db \<Rightarrow> bool" where
  "accounts_rules_inv d \<longleftrightarrow> accounts_inv d \<and> tbl_wf ar_id (alert_rule d)"

lemma ensure_inv:
  assumes "accounts_rules_inv d"
  shows "accounts_rules_inv (role_seed.ensure item d)" "accounts_rules_inv (permission_seed.ensure item2 d)"
    "accounts_rules_inv (rule_seed.ensure item3 d)"
  using assms
  by (auto simp: accounts_rules_inv_def accounts_inv_def role_seed.ensure_def add_role_def permission_seed.ensure_def
      add_permission_def rule_seed.ensure_def add_rule_def repo_create_def new_role_def new_rule_def
      intro!: tbl_wf_insert split: prod.splits)

lemma insert_user_inv:
  assumes "accounts_inv d" "insert_user mk d = Inr (k, d')" "\<And>j. us_id (mk j) = j"
  shows "accounts_inv d'" "k \<in> us_id ` set (users d')"
proof -
  have d': "d' = d\<lparr>sys_user := repo_create mk (sys_user d)\<rparr>" "k = next_id (sys_user d)" "uk_sys_user (users d')"
    using assms(2) unfolding insert_user_Inr by blast+
  have "uk_sys_user (rows (repo_create mk (sys_user d)))" using d'(3) unfolding d'(1) by simp
  then show "accounts_inv d'" using assms(1,3) by (auto simp: d'(1) accounts_inv_def repo_create_def tbl_wf_insert)
  show "k \<in> us_id ` set (users d')" by (simp add: d'(1,2) repo_create_def assms(3))
qed

lemma seed_admin_inv:
  assumes "accounts_inv d" "seed_admin sec salt cfg d = Inr (k, d')"
  shows "accounts_inv d'" "k \<in> us_id ` set (users d')"
proof -
  show "accounts_inv d'"
    using assms insert_user_inv(1) by (auto simp: seed_admin_def new_admin_def split: option.splits)
  obtain u where u: "get_by_username d' (SEED_ADMIN_USERNAME cfg) = Some u" "us_id u = k"
    using seed_admin_found(1) [OF assms(2)] by blast
  then show "k \<in> us_id ` set (users d')"
    by (auto simp: get_by_username_def repo_get_by_def apply_soft_delete_def dest!: find_Some_in)
qed

text \<open>The tables the start may touch are those of the accounts and of the rules.\<close>

definition beyond_seed :: "db \<Rightarrow> db" where
  "beyond_seed d = d\<lparr>sys_user := sys_user empty_db, sys_role := sys_role empty_db, sys_user_role := [],
     sys_permission := sys_permission empty_db, alert_rule := alert_rule empty_db\<rparr>"

lemma beyond_seed_ensure:
  "beyond_seed (role_seed.ensure item d) = beyond_seed d"
  "beyond_seed (permission_seed.ensure item2 d) = beyond_seed d"
  "beyond_seed (rule_seed.ensure item3 d) = beyond_seed d"
  by (simp_all add: beyond_seed_def role_seed.ensure_def add_role_def permission_seed.ensure_def add_permission_def
      rule_seed.ensure_def add_rule_def split: prod.splits)

lemma seed_reach:
  assumes "init_seed_data_once sec salt cfg d = Inr d'"
  shows "beyond_seed d' = beyond_seed d"
proof -
  let ?d1 = "fold rule_seed.ensure DEFAULT_ALERT_RULES (fold permission_seed.ensure DEFAULT_PERMISSIONS
    (fold role_seed.ensure DEFAULT_ROLES d))"
  from assms obtain k d4 rs where run: "seed_admin sec salt cfg ?d1 = Inr (k, d4)" "d' = set_roles k rs d4"
    unfolding init_once_Inr by blast
  have "beyond_seed ?d1 = beyond_seed d"
    by (intro fold_invariant' [where P = "\<lambda>s. beyond_seed s = beyond_seed d"]) (simp_all add: beyond_seed_ensure)
  moreover obtain t where "d4 = ?d1\<lparr>sys_user := t\<rparr>" using seed_admin_found(2) [OF run(1)] by blast
  ultimately show ?thesis by (simp add: run(2) set_roles_def beyond_seed_def)
qed

lemma seed_inv:
  assumes "platform_inv d" "init_seed_data_once sec salt cfg d = Inr d'"
  shows "platform_inv d'"
proof -
  let ?d1 = "fold rule_seed.ensure DEFAULT_ALERT_RULES (fold permission_seed.ensure DEFAULT_PERMISSIONS
    (fold role_seed.ensure DEFAULT_ROLES d))"
  from assms(2) obtain r k d4 where run: "role_by_code ?d1 ''SYSTEM_ADMIN'' = Some r"
    "seed_admin sec salt cfg ?d1 = Inr (k, d4)" "d' = set_roles k [rl_id r] d4"
    unfolding init_once_Inr by blast
  have "accounts_rules_inv d" using assms(1) by (simp add: platform_inv_def accounts_rules_inv_def alert_keys_ok_def)
  then have inv1: "accounts_rules_inv ?d1"
    by (intro fold_invariant' [where P = accounts_rules_inv] ensure_inv)
  then have acc: "accounts_inv ?d1" and rules: "tbl_wf ar_id (alert_rule ?d1)" by (simp_all add: accounts_rules_inv_def)
  obtain t where d4: "d4 = ?d1\<lparr>sys_user := t\<rparr>" using seed_admin_found(2) [OF run(2)] by blast
  have "rl_id r \<in> rl_id ` set (roles d4)"
    using run(1) by (auto simp: d4 role_by_code_find dest!: find_Some_in)
  then have "accounts_inv d'"
    using seed_admin_inv [OF acc run(2)] unfolding run(3) by (intro accounts_inv_set_roles) simp_all
  moreover have same: "f (beyond_seed d') = f (beyond_seed d)" for f :: "db \<Rightarrow> 'x"
    by (simp add: seed_reach [OF assms(2)])
  moreover have "alert_rule d' = alert_rule ?d1" by (simp add: run(3) d4 set_roles_def)
  moreover have "tbl_wf sv_id (ops_server d)" using assms(1) by (simp add: platform_inv_def servers_inv_def)
  ultimately have "alert_keys_ok d'" using same [of ops_server] rules
    by (simp add: alert_keys_ok_def beyond_seed_def)
  have "task_inv d'"
    using assms(1) same [of ops_task] same [of ops_task_target] same [of ops_task_execution]
    by (intro task_inv_tables [of d d']) (simp_all add: platform_inv_def beyond_seed_def)
  moreover have "alert_inv d'"
    using assms(1) same [of alert_event] same [of alert_event_log]
    by (intro alert_inv_tables [of d d']) (simp_all add: platform_inv_def beyond_seed_def)
  moreover have "servers_inv d'"
    using assms(1) same [of ops_server] same [of ops_agent_token]
    by (intro servers_inv_tables [of d' d, THEN iffD2]) (simp_all add: platform_inv_def beyond_seed_def)
  ultimately show ?thesis using \<open>accounts_inv d'\<close> \<open>alert_keys_ok d'\<close> by (simp add: platform_inv_def)
qed

section \<open>The platform as one system\<close>

text \<open>
  The start of the application, \<open>lifespan\<close> in \<open>backend/app/main.py\<close>: the seed, whose error ends the
  start, then the scheduler.
\<close>

definition lifespan :: "bool \<Rightarrow> (db \<Rightarrow> db result \<times> nat) \<Rightarrow> job_settings \<Rightarrow> db \<Rightarrow> (db \<times> scheduled_job list option) result" where
  "lifespan SEED_INIT_DATA seed jobs d =
     bindE (if SEED_INIT_DATA then fst (seed d) else Inr d) (\<lambda>d'. Inr (d', setup_scheduler jobs None))"

text \<open>
  A step is a transaction that commits: a request of a user, a login, a request of an agent, a job of
  the scheduler, or the start of a process; what fails or is rolled back leaves the database as it was.
  The clock, the headers, the bodies and the state of the replay cache are arbitrary in every step.
\<close>

inductive platform_step :: "'pk crypto \<Rightarrow> 'r set_nx_ex \<Rightarrow> settings \<Rightarrow> db \<Rightarrow> db \<Rightarrow> bool"
  for cr :: "'pk crypto" and set_nx :: "'r set_nx_ex" and cfg :: settings where
  user: "platform_step cr set_nx cfg d (snd (serve text_of au uuid q call cx d))"
| login: "platform_step cr set_nx cfg d (snd (post_login sec now data ip ua rid d))"
| register: "platform_step cr set_nx cfg d (fst (snd (post_register cr now p1 ip q d (r :: 'r))))"
| signing_key: "platform_step cr set_nx cfg d (fst (snd (post_signing_key cr set_nx cfg now p2 q d r)))"
| heartbeat: "platform_step cr set_nx cfg d (fst (snd (post_heartbeat cr set_nx cfg now p3 ip q d r)))"
| metrics: "platform_step cr set_nx cfg d (fst (snd (post_metrics cr set_nx cfg now p4 q d r)))"
| assets: "platform_step cr set_nx cfg d (fst (snd (post_assets cr set_nx cfg now p5 q d r)))"
| services: "platform_step cr set_nx cfg d (fst (snd (post_services cr set_nx cfg now p6 q d r)))"
| pending: "platform_step cr set_nx cfg d (fst (snd (get_tasks_pending cr set_nx cfg now q d r)))"
| result: "platform_step cr set_nx cfg d (fst (snd (post_task_result cr set_nx cfg now p7 q d r)))"
| timeouts: "platform_step cr set_nx cfg d (scan_task_timeouts now d)"
| retries: "platform_step cr set_nx cfg d (dispatch_task_retries now d)"
| cron: "platform_step cr set_nx cfg d (fire_due_cron_tasks cron_next now d)"
| alerts: "platform_step cr set_nx cfg d (evaluate_alerts now d)"
| statuses: "platform_step cr set_nx cfg d (refresh_agent_status_job now d)"
| history: "platform_step cr set_nx cfg d (cleanup_old_task_executions jobs now d)"
| archive: "platform_step cr set_nx cfg d (cleanup_old_metrics jobs t1 t2 t3 d)"
| start: "lifespan seeding (init_seed_data up sec salt sd n) jobs d = Inr (d', scheduler) \<Longrightarrow>
    platform_step cr set_nx cfg d d'"

inductive platform_reachable :: "'pk crypto \<Rightarrow> 'r set_nx_ex \<Rightarrow> settings \<Rightarrow> db \<Rightarrow> bool"
  for cr :: "'pk crypto" and set_nx :: "'r set_nx_ex" and cfg :: settings where
  empty: "platform_reachable cr set_nx cfg empty_db"
| step: "platform_reachable cr set_nx cfg d \<Longrightarrow> platform_step cr set_nx cfg d d' \<Longrightarrow> platform_reachable cr set_nx cfg d'"

lemma serve_inv:
  assumes "platform_inv d"
  shows "platform_inv (snd (serve text_of au uuid q call cx d))"
proof -
  have app: "platform_inv (snd (api_application text_of call cx d))"
    using assms api_endpoint_inv [OF assms] by (auto simp: api_application_def split: sum.split)
  then have "platform_inv (snd (operation_log au q (api_application text_of call cx) rid u d))" for rid u
    by (auto simp: operation_log_def write_log_def Let_def platform_inv_log split: prod.split app_outcome.split)
  then show ?thesis
    unfolding serve_def request_context_def Let_def
    by (auto split: prod.split app_outcome.split) (metis snd_conv)+
qed

lemma seed_attempts_outcome:
  "fst (seed_attempts up once n xs slept d) = Inr d' \<Longrightarrow> d' = d \<or> once d = Inr d'"
  by (induction xs arbitrary: slept) (auto split: sum.splits if_splits)

lemma lifespan_inv:
  assumes "platform_inv d" "lifespan seeding (init_seed_data up sec salt sd n) jobs d = Inr (d', scheduler)"
  shows "platform_inv d'"
proof -
  have "d' = d \<or> init_seed_data_once sec salt sd d = Inr d'"
    using assms(2) seed_attempts_outcome [of up "init_seed_data_once sec salt sd" n _ 0 d d']
    by (auto simp: lifespan_def init_seed_data_def bindE_eq_Inr split: if_splits)
  then show ?thesis using seed_inv [OF assms(1)] assms(1) by blast
qed

lemma platform_step_inv: "platform_step cr set_nx cfg d d' \<Longrightarrow> platform_inv d \<Longrightarrow> platform_inv d'"
proof (induction rule: platform_step.induct)
  case (login d sec now data ip ua rid)
  then show ?case using user_ops_inv(4) [OF login] by (simp add: post_login_def)
qed (rule serve_inv agent_requests_inv jobs_inv lifespan_inv; assumption)+

lemma platform_reachable_inv: "platform_reachable cr set_nx cfg d \<Longrightarrow> platform_inv d"
  by (induction rule: platform_reachable.induct) (simp_all add: platform_inv_empty platform_step_inv)

text \<open>
  C1. The platform as a whole stays consistent. Starting from the empty database, and whatever users,
  agents, scheduler and restarts do in whatever order: a target of a task has at most one execution
  in progress, an alert key at most one event that is not resolved, user names, e-mail addresses,
  server codes, the addresses of servers and the hashes of agent tokens are unique, and every role
  binding names a user and a role that exist.
\<close>

theorem platform_stays_consistent:
  assumes "platform_reachable cr set_nx cfg d"
  shows "inj_on ex_target_id {e \<in> set (executions d). active_execution e} \<and>
    inj_on ev_alert_key {e \<in> set (alert_events d). ev_status e \<noteq> EV_RESOLVED} \<and>
    distinct (map us_username (users d)) \<and>
    distinct (map us_email (filter (\<lambda>u. us_email u \<noteq> None) (users d))) \<and>
    distinct (map role_pair (sys_user_role d)) \<and>
    (\<forall>b \<in> set (sys_user_role d). ur_user_id b \<in> us_id ` set (users d) \<and> ur_role_id b \<in> rl_id ` set (roles d)) \<and>
    distinct (map sv_server_code (servers d)) \<and>
    distinct (map (\<lambda>s. (sv_ip_address s, sv_ssh_port s)) (servers d)) \<and>
    distinct (map at_token_hash (rows (ops_agent_token d)))"
proof -
  have inv: "task_inv d" "alert_inv d" "accounts_inv d" "servers_inv d"
    using platform_reachable_inv [OF assms] by (simp_all add: platform_inv_def)
  have "inj_on ex_target_id {e \<in> set (executions d). active_execution e}"
    using one_active_per_target [OF inv(1)] by (auto intro: inj_onI)
  moreover have "inj_on ev_alert_key {e \<in> set (alert_events d). ev_status e \<noteq> EV_RESOLVED}"
    using active_eq [OF alert_inv_core [OF inv(2)]] by (auto simp: active_event_def intro: inj_onI)
  ultimately show ?thesis
    using inv(3,4) by (simp add: accounts_inv_def uk_sys_user_def servers_inv_def uk_ops_server_code_def
        uk_ops_server_ip_port_def)
qed

lemma seeded_reachable: "platform_reachable cr set_nx cfg seeded_db"
proof (rule platform_reachable.step [OF platform_reachable.empty platform_step.start])
  show "lifespan True (init_seed_data (\<lambda>_. True) sample_security ''salt'' seed_cfg 10) default_jobs empty_db =
    Inr (seeded_db, setup_scheduler default_jobs None)"
    by (simp add: lifespan_def init_seed_data_def upto.simps [of 1 10] seeded)
qed

lemma platform_stays_consistent_witness:
  "distinct (map us_username (users (evaluate_alerts 0 seeded_db))) \<and>
   inj_on ev_alert_key {e \<in> set (alert_events (evaluate_alerts 0 seeded_db)). ev_status e \<noteq> EV_RESOLVED}"
  using platform_stays_consistent [OF platform_reachable.step [OF seeded_reachable
      [where cr = sample_crypto and set_nx = memory_set and cfg = strict_settings] platform_step.alerts [where now = 0]]]
  by blast

end
