(* ===== verification/Agent_Package.thy ===== *)
theory Agent_Package
  imports Params "HOL-Library.List_Lexorder" "HOL-Library.Char_ord"
begin

text \<open>
  The package of the agent that a server downloads (\<open>backend/app/services/agent_package.py\<close>) and its
  two endpoints in \<open>backend/app/api/v1/agent.py\<close>. The file system is a tree of directories and files,
  without symbolic links and without errors of permission; a path is the list \<open>Path.parts\<close>. The
  archive is the list of its members, in the order in which they are added; the encodings \<open>tar\<close> and
  \<open>gzip\<close> are those of the standard library. White space at the ends of a \<open>VERSION\<close> file is ASCII.
\<close>

section \<open>The file system\<close>

datatype node = File string | Dir "(string \<times> node) list"

type_synonym path = "string list"

text \<open>\<open>AGENT_BUNDLE_DIR\<close> is the setting, \<open>ho_source\<close> is \<open>Path(__file__).resolve().parents[3]\<close>.\<close>

record host =
  ho_root :: node
  ho_cwd :: path
  ho_source :: path
  AGENT_BUNDLE_DIR :: string

text \<open>The parts of \<open>Path(s)\<close>: exactly two leading slashes are a root of their own.\<close>

definition py_path :: "string \<Rightarrow> path" where
  "py_path s =
     (if has_prefix ''//'' s \<and> \<not> has_prefix ''///'' s then [''//'']
      else if has_prefix ''/'' s then [''/''] else []) @
     filter (\<lambda>p. p \<noteq> [] \<and> p \<noteq> ''.'') (split_on (CHR ''/'') s)"

text \<open>Where the walk along a path ends; the first argument holds the present directory and those above.\<close>

fun descend :: "node list \<Rightarrow> path \<Rightarrow> node option" where
  "descend [] p = None"
| "descend (n # up) [] = Some n"
| "descend (File c # up) (x # xs) = None"
| "descend (Dir es # up) (x # xs) =
     (if x = ''..'' then descend (if up = [] then [Dir es] else up) xs
      else case map_of es x of None \<Rightarrow> None | Some n \<Rightarrow> descend (n # Dir es # up) xs)"

definition find_node :: "host \<Rightarrow> path \<Rightarrow> node option" where
  "find_node h p =
     (case p of
        x # xs \<Rightarrow> if x = ''/'' \<or> x = ''//'' then descend [ho_root h] xs else descend [ho_root h] (ho_cwd h @ p)
      | [] \<Rightarrow> descend [ho_root h] (ho_cwd h))"

definition is_file :: "host \<Rightarrow> path \<Rightarrow> bool" where
  "is_file h p = (case find_node h p of Some (File _) \<Rightarrow> True | _ \<Rightarrow> False)"

definition is_dir :: "host \<Rightarrow> path \<Rightarrow> bool" where
  "is_dir h p = (case find_node h p of Some (Dir _) \<Rightarrow> True | _ \<Rightarrow> False)"

text \<open>\<open>rglob("*")\<close>: everything below a directory, with its path from there.\<close>

fun below :: "node \<Rightarrow> (path \<times> node) list" and below_entries :: "(string \<times> node) list \<Rightarrow> (path \<times> node) list" where
  "below (File c) = []"
| "below (Dir es) = below_entries es"
| "below_entries [] = []"
| "below_entries ((name, n) # es) = ([name], n) # map (\<lambda>(p, x). (name # p, x)) (below n) @ below_entries es"

section \<open>Text files\<close>

text \<open>Well-formed UTF-8, which \<open>read_text\<close> insists on.\<close>

definition byte_between :: "nat \<Rightarrow> nat \<Rightarrow> char \<Rightarrow> bool" where
  "byte_between a b c \<longleftrightarrow> a \<le> of_char c \<and> of_char c \<le> b"

abbreviation "continuation \<equiv> byte_between 0x80 0xBF"

fun utf8_valid :: "string \<Rightarrow> bool" where
  "utf8_valid [] = True"
| "utf8_valid (a # s) =
     (if byte_between 0 0x7F a then utf8_valid s
      else case s of
        [] \<Rightarrow> False
      | b # s2 \<Rightarrow>
          if byte_between 0xC2 0xDF a then continuation b \<and> utf8_valid s2
          else case s2 of
            [] \<Rightarrow> False
          | c # s3 \<Rightarrow>
              if byte_between 0xE0 0xEF a then
                byte_between (if a = CHR 0xE0 then 0xA0 else 0x80) (if a = CHR 0xED then 0x9F else 0xBF) b \<and>
                continuation c \<and> utf8_valid s3
              else case s3 of
                [] \<Rightarrow> False
              | d # s4 \<Rightarrow>
                  byte_between 0xF0 0xF4 a \<and>
                  byte_between (if a = CHR 0xF0 then 0x90 else 0x80) (if a = CHR 0xF4 then 0x8F else 0xBF) b \<and>
                  continuation c \<and> continuation d \<and> utf8_valid s4)"

text \<open>Text mode turns the line ends of other systems into a newline.\<close>

fun universal_newlines :: "string \<Rightarrow> string" where
  "universal_newlines [] = []"
| "universal_newlines (c # s) =
     (if c = CHR 13 then CHR 10 # (case s of [] \<Rightarrow> [] | d # t \<Rightarrow> if d = CHR 10 then universal_newlines t else universal_newlines s)
      else c # universal_newlines s)"

datatype package_error = AgentPackageError | UnicodeDecodeError

text \<open>\<open>read_text(encoding="utf-8")\<close> of a file that exists.\<close>

definition read_text :: "host \<Rightarrow> path \<Rightarrow> package_error + string" where
  "read_text h p =
     (case find_node h p of
        Some (File c) \<Rightarrow> if utf8_valid c then Inr (universal_newlines c) else Inl UnicodeDecodeError
      | _ \<Rightarrow> Inr [])"

section \<open>The parts of a package\<close>

definition RUNTIME_PYTHON :: string where "RUNTIME_PYTHON = ''python''"
definition RUNTIME_GO :: string where "RUNTIME_GO = ''go''"
definition SUPPORTED_RUNTIMES :: "string list" where "SUPPORTED_RUNTIMES = [RUNTIME_PYTHON, RUNTIME_GO]"

definition EXCLUDE_PARTS :: "string list" where
  "EXCLUDE_PARTS = [''.venv'', ''__pycache__'', ''tests'', ''.pytest_cache'', ''.git'']"
definition EXCLUDE_FILES :: "string list" where "EXCLUDE_FILES = [''config.yaml'']"
definition DEFAULT_VERSION :: string where "DEFAULT_VERSION = ''1.0.0''"
definition PACKAGE_PREFIX :: string where "PACKAGE_PREFIX = ''ops-agent''"

definition normalize_runtime :: "string option \<Rightarrow> string" where
  "normalize_runtime runtime =
     (case runtime of
        Some r \<Rightarrow> if r \<in> set SUPPORTED_RUNTIMES then r else RUNTIME_PYTHON
      | None \<Rightarrow> RUNTIME_PYTHON)"

definition bundle_root :: "host \<Rightarrow> path" where
  "bundle_root h =
     (let configured = strip (AGENT_BUNDLE_DIR h)
      in if configured \<noteq> [] \<and> is_dir h (py_path configured) then py_path configured else ho_source h)"

definition agent_dir_of :: "path \<Rightarrow> string \<Rightarrow> path" where
  "agent_dir_of root runtime = root @ [if runtime = RUNTIME_GO then ''agent-go'' else ''agent'']"

definition systemd_file_of :: "path \<Rightarrow> string \<Rightarrow> path" where
  "systemd_file_of root runtime =
     (let name = if runtime = RUNTIME_GO then ''server-agent-go.service'' else ''server-agent.service''
      in root @ [''deploy'', ''systemd'', name])"

definition agent_version :: "host \<Rightarrow> path option \<Rightarrow> string \<Rightarrow> package_error + string" where
  "agent_version h root runtime =
     (let base = (case root of Some r \<Rightarrow> r | None \<Rightarrow> bundle_root h);
          version_file = agent_dir_of base (normalize_runtime (Some runtime)) @ [''VERSION'']
      in if is_file h version_file
         then bindE (read_text h version_file) (\<lambda>text. Inr (or_text (Some (strip text)) DEFAULT_VERSION))
         else Inr DEFAULT_VERSION)"

definition read_install_script :: "host \<Rightarrow> string \<Rightarrow> package_error + string" where
  "read_install_script h runtime =
     (let path = agent_dir_of (bundle_root h) (normalize_runtime (Some runtime)) @ [''install.sh'']
      in if \<not> is_file h path then Inl AgentPackageError else read_text h path)"

section \<open>The archive\<close>

datatype member = FileMember string | DirMember

type_synonym archive = "(string \<times> member) list"

fun member_of :: "node \<Rightarrow> member" where
  "member_of (File c) = FileMember c"
| "member_of (Dir es) = DirMember"

fun join_path :: "path \<Rightarrow> string" where
  "join_path [] = []"
| "join_path [p] = p"
| "join_path (p # q # ps) = p @ ''/'' @ join_path (q # ps)"

text \<open>
  \<open>tar.add\<close>: a directory is followed by what is below it, the entries of each directory in the order of
  their names, which is the order of the paths.
\<close>

definition tar_add :: "host \<Rightarrow> path \<Rightarrow> string \<Rightarrow> archive" where
  "tar_add h p arcname =
     (case find_node h p of
        None \<Rightarrow> []
      | Some n \<Rightarrow> (arcname, member_of n) #
          map (\<lambda>(q, x). (arcname @ ''/'' @ join_path q, member_of x)) (sort_key fst (below n)))"

text \<open>
  \<open>_add_tree\<close>: the loop over the sorted paths. All of them begin with \<open>source\<close>, so they are sorted by
  what follows; the test of the excluded parts reads the whole path.
\<close>

definition add_tree :: "host \<Rightarrow> path \<Rightarrow> string \<Rightarrow> archive" where
  "add_tree h source arcname =
     (case find_node h source of
        None \<Rightarrow> []
      | Some n \<Rightarrow> concat (map (\<lambda>(p, x).
          if \<exists>part \<in> set (source @ p). part \<in> set EXCLUDE_PARTS then []
          else if last p \<in> set EXCLUDE_FILES then []
          else case x of Dir _ \<Rightarrow> [] | File c \<Rightarrow> [(arcname @ ''/'' @ join_path p, FileMember c)])
          (sort_key fst (below n))))"

definition version_member :: "string \<Rightarrow> string \<times> member" where
  "version_member version = (PACKAGE_PREFIX @ ''/VERSION'', FileMember (version @ [CHR 10]))"

definition build_python_package :: "host \<Rightarrow> path \<Rightarrow> path \<Rightarrow> path \<Rightarrow> string \<Rightarrow> archive" where
  "build_python_package h agent_dir systemd_file install_script version =
     tar_add h install_script (PACKAGE_PREFIX @ ''/install.sh'') @ [version_member version] @
     add_tree h agent_dir (PACKAGE_PREFIX @ ''/agent'') @
     tar_add h systemd_file (PACKAGE_PREFIX @ ''/deploy/systemd/'' @ last systemd_file)"

text \<open>The names in \<open>dist\<close> that \<open>glob("ops-agent-*")\<close> finds, sorted.\<close>

definition binaries :: "host \<Rightarrow> path \<Rightarrow> string list" where
  "binaries h dist_dir =
     (case find_node h dist_dir of
        Some (Dir es) \<Rightarrow> sort (filter (has_prefix ''ops-agent-'') (map fst es))
      | _ \<Rightarrow> [])"

definition build_go_package :: "host \<Rightarrow> path \<Rightarrow> path \<Rightarrow> path \<Rightarrow> string \<Rightarrow> package_error + archive" where
  "build_go_package h agent_dir systemd_file install_script version =
     (let dist_dir = agent_dir @ [''dist''];
          example = agent_dir @ [''config'', ''config.yaml.example'']
      in if \<not> is_dir h dist_dir \<or> binaries h dist_dir = [] then Inl AgentPackageError
         else Inr (
           tar_add h install_script (PACKAGE_PREFIX @ ''/install.sh'') @ [version_member version] @
           (if is_file h example then tar_add h example (PACKAGE_PREFIX @ ''/config/config.yaml.example'') else []) @
           concat (map (\<lambda>name. tar_add h (dist_dir @ [name]) (PACKAGE_PREFIX @ ''/dist/'' @ name)) (binaries h dist_dir)) @
           tar_add h systemd_file (PACKAGE_PREFIX @ ''/deploy/systemd/'' @ last systemd_file)))"

definition build_agent_package :: "host \<Rightarrow> string \<Rightarrow> package_error + archive \<times> string" where
  "build_agent_package h runtime_arg =
     (let runtime = normalize_runtime (Some runtime_arg);
          root = bundle_root h;
          agent_dir = agent_dir_of root runtime;
          systemd_file = systemd_file_of root runtime;
          install_script = agent_dir @ [''install.sh'']
      in if \<not> is_dir h agent_dir \<or> \<not> is_file h systemd_file \<or> \<not> is_file h install_script
         then Inl AgentPackageError
         else bindE (agent_version h (Some root) runtime) (\<lambda>version.
              bindE (if runtime = RUNTIME_GO
                     then build_go_package h agent_dir systemd_file install_script version
                     else Inr (build_python_package h agent_dir systemd_file install_script version)) (\<lambda>content.
              Inr (content, PACKAGE_PREFIX @ ''-'' @ runtime @ ''-'' @ version @ ''.tar.gz''))))"

section \<open>The endpoints\<close>

text \<open>An \<open>AgentPackageError\<close> is a 404; the other exception escapes the endpoint.\<close>

definition answer_package :: "package_error + 'a \<Rightarrow> 'a result" where
  "answer_package outcome =
     (case outcome of
        Inl AgentPackageError \<Rightarrow> Inl (AppException NOT_FOUND 404)
      | Inl UnicodeDecodeError \<Rightarrow> Inl ValueError
      | Inr x \<Rightarrow> Inr x)"

definition download_agent_package :: "host \<Rightarrow> string \<Rightarrow> (archive \<times> string) result" where
  "download_agent_package h runtime = answer_package (build_agent_package h (normalize_runtime (Some runtime)))"

definition get_install_script :: "host \<Rightarrow> string \<Rightarrow> string result" where
  "get_install_script h runtime = answer_package (read_install_script h (normalize_runtime (Some runtime)))"

end
