(* ===== verification/Package_Properties.thy ===== *)
theory Package_Properties
  imports Agent_Package "HOL-Library.Multiset"
begin

text \<open>
  What the package of the agent contains: exactly the sources that are not excluded, with the script of
  the installation, the version and the unit file, each under a name of its own.
\<close>

section \<open>File names and trees\<close>

definition file_name :: "string \<Rightarrow> bool" where
  "file_name x \<longleftrightarrow> x \<noteq> [] \<and> CHR ''/'' \<notin> set x \<and> x \<noteq> ''.'' \<and> x \<noteq> ''..''"

fun wf_node :: "node \<Rightarrow> bool" and wf_entries :: "(string \<times> node) list \<Rightarrow> bool" where
  "wf_node (File c) = True"
| "wf_node (Dir es) = (distinct (map fst es) \<and> wf_entries es)"
| "wf_entries [] = True"
| "wf_entries ((name, n) # es) = (file_name name \<and> wf_node n \<and> wf_entries es)"

lemma wf_entries_iff: "wf_entries es \<longleftrightarrow> (\<forall>(name, n) \<in> set es. file_name name \<and> wf_node n)"
  by (induction es) auto

lemma descend_wf: "\<forall>m \<in> set st. wf_node m \<Longrightarrow> descend st p = Some n \<Longrightarrow> wf_node n"
  by (induction st p rule: descend.induct)
    (auto simp: wf_entries_iff split: if_splits option.splits dest: map_of_SomeD)

lemma descend_append: "descend st p = Some n \<Longrightarrow> \<exists>up. \<forall>q. descend st (p @ q) = descend (n # up) q"
  by (induction st p rule: descend.induct) (auto split: if_splits option.splits)

lemma descend_cons:
  "x \<noteq> ''..'' \<Longrightarrow> descend (Dir es # up) (x # xs) =
     (case map_of es x of None \<Rightarrow> None | Some n \<Rightarrow> descend (n # Dir es # up) xs)"
  by simp

text \<open>What is below a node is what the walk from there finds.\<close>

lemma below_iff:
  "wf_node n \<Longrightarrow> (p, x) \<in> set (below n) \<longleftrightarrow> p \<noteq> [] \<and> ''..'' \<notin> set p \<and> descend (n # up) p = Some x"
  "wf_entries es \<Longrightarrow> distinct (map fst es) \<Longrightarrow> (p, x) \<in> set (below_entries es) \<longleftrightarrow>
     (case p of [] \<Rightarrow> False | y # ys \<Rightarrow> y \<noteq> ''..'' \<and> ''..'' \<notin> set ys \<and>
        (case map_of es y of None \<Rightarrow> False | Some n \<Rightarrow> descend (n # up) ys = Some x))"
proof (induction n and es arbitrary: p up and p up rule: below_below_entries.induct)
  case (1 c)
  then show ?case by (cases p) auto
next
  case (2 es)
  then have "(p, x) \<in> set (below_entries es) \<longleftrightarrow>
     (case p of [] \<Rightarrow> False | y # ys \<Rightarrow> y \<noteq> ''..'' \<and> ''..'' \<notin> set ys \<and>
        (case map_of es y of None \<Rightarrow> False | Some n \<Rightarrow> descend (n # Dir es # up) ys = Some x))"
    by simp
  then show ?case by (cases p) (auto split: option.splits)
next
  case 3
  then show ?case by (simp split: list.split)
next
  case (4 name n es)
  have name: "name \<noteq> ''..''" "name \<notin> fst ` set es" using 4(3,4) by (auto simp: file_name_def)
  have sub: "(ys, x) \<in> set (below n) \<longleftrightarrow> ys \<noteq> [] \<and> ''..'' \<notin> set ys \<and> descend (n # up) ys = Some x" for ys
    using 4(1) [of ys up] 4(3) by simp
  have rest: "map_of es name = None" using name(2) by (simp add: map_of_eq_None_iff)
  have "(p, x) \<in> set (map (\<lambda>(q, y). (name # q, y)) (below n)) \<longleftrightarrow> (\<exists>ys. p = name # ys \<and> (ys, x) \<in> set (below n))"
    by force
  then show ?case
    using 4(2) [of p up] 4(3,4) name rest sub by (cases p) (auto split: option.splits)
qed

lemma distinct_below:
  "wf_node n \<Longrightarrow> distinct (map fst (below n))"
  "wf_entries es \<Longrightarrow> distinct (map fst es) \<Longrightarrow> distinct (map fst (below_entries es)) \<and>
     (\<forall>q \<in> fst ` set (below_entries es). q \<noteq> [] \<and> hd q \<in> fst ` set es)"
proof (induction n and es rule: below_below_entries.induct)
  case (4 name n es)
  let ?keys = "map fst (below n)"
  have sub: "[] \<notin> set ?keys" using below_iff(1) [of n "[]"] 4(3) by auto
  have entries: "map fst (below_entries ((name, n) # es)) = [name] # map ((#) name) ?keys @ map fst (below_entries es)"
    by (simp add: case_prod_unfold comp_def)
  have d: "distinct ?keys" "distinct (map fst (below_entries es))" and es: "name \<notin> fst ` set es"
    and hds: "\<forall>q \<in> set (map fst (below_entries es)). q \<noteq> [] \<and> hd q \<in> fst ` set es"
    using 4 by auto
  have "name # q \<notin> set (map fst (below_entries es))" for q
  proof
    assume "name # q \<in> set (map fst (below_entries es))"
    with hds have "hd (name # q) \<in> fst ` set es" by blast
    with es show False by simp
  qed
  moreover have "distinct (map ((#) name) ?keys)" using d(1) by (simp add: distinct_map inj_on_def)
  ultimately have "distinct (map fst (below_entries ((name, n) # es)))"
    unfolding entries using d(2) sub by auto
  moreover have "\<forall>q \<in> set (map fst (below_entries ((name, n) # es))). q \<noteq> [] \<and> hd q \<in> fst ` set ((name, n) # es)"
    unfolding entries using hds by auto
  ultimately show ?case by (simp only: set_map simp_thms)
qed auto

lemma find_node_below:
  assumes "wf_node (ho_root h)" "find_node h source = Some n" "source \<noteq> []"
  shows "(p, x) \<in> set (below n) \<longleftrightarrow> p \<noteq> [] \<and> ''..'' \<notin> set p \<and> find_node h (source @ p) = Some x"
    and "wf_node n"
proof -
  obtain st src where src: "find_node h source = descend st src" "\<forall>m \<in> set st. wf_node m"
    "find_node h (source @ q) = descend st (src @ q)" for q
  proof -
    obtain y ys where y: "source = y # ys" using assms(3) by (cases source) auto
    show ?thesis
    proof (cases "y = ''/'' \<or> y = ''//''")
      case True
      with assms(1) y show ?thesis by (intro that [of "[ho_root h]" ys]) (auto simp: find_node_def)
    next
      case False
      with assms(1) y show ?thesis by (intro that [of "[ho_root h]" "ho_cwd h @ source"]) (auto simp: find_node_def)
    qed
  qed
  then have d: "descend st src = Some n" using assms(2) by simp
  show "wf_node n" using descend_wf [OF src(2) d] .
  obtain up where "\<forall>q. descend st (src @ q) = descend (n # up) q" using descend_append [OF d] by blast
  then show "(p, x) \<in> set (below n) \<longleftrightarrow> p \<noteq> [] \<and> ''..'' \<notin> set p \<and> find_node h (source @ p) = Some x"
    using below_iff(1) [OF \<open>wf_node n\<close>, of p x up] src(3) by simp
qed

lemma below_names:
  "wf_node n \<Longrightarrow> (p, x) \<in> set (below n) \<Longrightarrow> \<forall>y \<in> set p. file_name y"
  "wf_entries es \<Longrightarrow> (p, x) \<in> set (below_entries es) \<Longrightarrow> \<forall>y \<in> set p. file_name y"
  by (induction n and es arbitrary: p and p rule: below_below_entries.induct) (fastforce split: prod.splits)+

lemma split_on_append: "sep \<notin> set a \<Longrightarrow> split_on sep (a @ sep # b) = a # split_on sep b"
  by (induction a) auto

lemma split_on_single: "sep \<notin> set a \<Longrightarrow> split_on sep a = [a]"
  by (induction a) auto

lemma split_join_path: "p \<noteq> [] \<Longrightarrow> \<forall>x \<in> set p. file_name x \<Longrightarrow> split_on (CHR ''/'') (join_path p) = p"
  by (induction p rule: join_path.induct) (auto simp: split_on_append split_on_single file_name_def)

section \<open>The members\<close>

text \<open>What the loop of \<open>_add_tree\<close> keeps.\<close>

definition kept :: "path \<Rightarrow> path \<times> node \<Rightarrow> bool" where
  "kept source e \<longleftrightarrow> set (source @ fst e) \<inter> set EXCLUDE_PARTS = {} \<and> last (fst e) \<notin> set EXCLUDE_FILES \<and>
     (\<exists>c. snd e = File c)"

lemma add_tree_filter:
  assumes "find_node h source = Some n"
  shows "add_tree h source arcname =
    map (\<lambda>e. (arcname @ ''/'' @ join_path (fst e), member_of (snd e))) (filter (kept source) (sort_key fst (below n)))"
proof -
  have "concat (map (\<lambda>(p, x).
          if \<exists>part \<in> set (source @ p). part \<in> set EXCLUDE_PARTS then []
          else if last p \<in> set EXCLUDE_FILES then []
          else case x of Dir _ \<Rightarrow> [] | File c \<Rightarrow> [(arcname @ ''/'' @ join_path p, FileMember c)]) es) =
    map (\<lambda>e. (arcname @ ''/'' @ join_path (fst e), member_of (snd e))) (filter (kept source) es)" for es
    by (induction es) (auto simp: kept_def disjoint_iff split: node.split)
  then show ?thesis using assms by (simp add: add_tree_def)
qed

lemma add_tree_members:
  assumes "wf_node (ho_root h)" "find_node h source = Some n" "source \<noteq> []"
  shows "(name, m) \<in> set (add_tree h source arcname) \<longleftrightarrow>
    (\<exists>p c. p \<noteq> [] \<and> ''..'' \<notin> set p \<and> find_node h (source @ p) = Some (File c) \<and>
      set (source @ p) \<inter> set EXCLUDE_PARTS = {} \<and> last p \<notin> set EXCLUDE_FILES \<and>
      name = arcname @ ''/'' @ join_path p \<and> m = FileMember c)"
proof -
  let ?kept = "\<lambda>p. set (source @ p) \<inter> set EXCLUDE_PARTS = {} \<and> last p \<notin> set EXCLUDE_FILES"
  have "(name, m) \<in> set (add_tree h source arcname) \<longleftrightarrow>
      (\<exists>p x. (p, x) \<in> set (below n) \<and> kept source (p, x) \<and> name = arcname @ ''/'' @ join_path p \<and> m = member_of x)"
    unfolding add_tree_filter [OF assms(2)] set_map set_filter set_sort image_iff Bex_def mem_Collect_eq split_paired_Ex
      fst_conv snd_conv prod.inject by (simp only: conj_assoc)
  also have "\<dots> \<longleftrightarrow> (\<exists>p c. (p, File c) \<in> set (below n) \<and> ?kept p \<and> name = arcname @ ''/'' @ join_path p \<and> m = FileMember c)"
    unfolding kept_def fst_conv snd_conv using member_of.simps(1) by metis
  finally show ?thesis using find_node_below(1) [OF assms] by (simp only: conj_assoc)
qed

lemma add_tree_distinct:
  assumes "wf_node (ho_root h)" "find_node h source = Some n" "source \<noteq> []"
  shows "distinct (map fst (add_tree h source arcname))"
proof -
  let ?es = "filter (kept source) (sort_key fst (below n))"
  note wf = find_node_below(2) [OF assms]
  have "mset (map fst (sort_key fst (below n))) = mset (map fst (below n))" by simp
  then have "distinct (map fst (sort_key fst (below n)))"
    using distinct_below(1) [OF wf] mset_eq_imp_distinct_iff by blast
  then have d: "distinct (map fst ?es)" by (rule distinct_map_filter)
  have "inj_on (\<lambda>p. arcname @ ''/'' @ join_path p) (set (map fst ?es))"
  proof (rule inj_onI)
    fix p q
    assume "p \<in> set (map fst ?es)" "q \<in> set (map fst ?es)" and eq: "arcname @ ''/'' @ join_path p = arcname @ ''/'' @ join_path q"
    then obtain x y where "(p, x) \<in> set (below n)" "(q, y) \<in> set (below n)" by auto
    then have "p \<noteq> []" "q \<noteq> []" "\<forall>y \<in> set p. file_name y" "\<forall>y \<in> set q. file_name y"
      using below_iff(1) [OF wf] below_names(1) [OF wf] by blast+
    with eq split_join_path show "p = q" by (metis append_same_eq same_append_eq)
  qed
  then have "distinct (map (\<lambda>p. arcname @ ''/'' @ join_path p) (map fst ?es))" using d by (subst distinct_map) blast
  moreover have "map fst (add_tree h source arcname) = map (\<lambda>p. arcname @ ''/'' @ join_path p) (map fst ?es)"
    by (simp add: add_tree_filter [OF assms(2)])
  ultimately show ?thesis by metis
qed

lemma tar_add_file: "find_node h p = Some (File c) \<Longrightarrow> tar_add h p arcname = [(arcname, FileMember c)]"
  by (simp add: tar_add_def)

text \<open>A Python package that was built, with what it was built from.\<close>

lemma python_package:
  assumes "build_agent_package h runtime = Inr (archive, filename)"
    and "normalize_runtime (Some runtime) = RUNTIME_PYTHON"
  obtains version script unit_file es where
    "agent_version h None RUNTIME_PYTHON = Inr version" "filename = ''ops-agent-python-'' @ version @ ''.tar.gz''"
    "find_node h (bundle_root h @ [''agent'']) = Some (Dir es)"
    "find_node h (bundle_root h @ [''agent'', ''install.sh'']) = Some (File script)"
    "find_node h (bundle_root h @ [''deploy'', ''systemd'', ''server-agent.service'']) = Some (File unit_file)"
    "archive = [(''ops-agent/install.sh'', FileMember script), (''ops-agent/VERSION'', FileMember (version @ [CHR 10]))] @
       add_tree h (bundle_root h @ [''agent'']) ''ops-agent/agent'' @
       [(''ops-agent/deploy/systemd/server-agent.service'', FileMember unit_file)]"
proof -
  note defs = RUNTIME_PYTHON_def RUNTIME_GO_def PACKAGE_PREFIX_def agent_dir_of_def systemd_file_of_def
  obtain version es script unit_file where
    v: "agent_version h (Some (bundle_root h)) RUNTIME_PYTHON = Inr version"
    "find_node h (bundle_root h @ [''agent'']) = Some (Dir es)"
    "find_node h (bundle_root h @ [''agent'', ''install.sh'']) = Some (File script)"
    "find_node h (bundle_root h @ [''deploy'', ''systemd'', ''server-agent.service'']) = Some (File unit_file)"
    "filename = ''ops-agent-python-'' @ version @ ''.tar.gz''"
    "archive = build_python_package h (bundle_root h @ [''agent''])
       (bundle_root h @ [''deploy'', ''systemd'', ''server-agent.service'']) (bundle_root h @ [''agent'', ''install.sh'']) version"
    using assms unfolding build_agent_package_def Let_def assms(2)
    by (auto simp: defs is_dir_def is_file_def bindE_eq_Inr split: if_splits option.splits node.splits)
  moreover have "agent_version h None RUNTIME_PYTHON = Inr version" using v(1) by (simp add: agent_version_def)
  ultimately show ?thesis
    by (intro that) (auto simp: build_python_package_def tar_add_file version_member_def PACKAGE_PREFIX_def)
qed

text \<open>
  C37. The package a server downloads. A Python package that is built has members of different names, all
  of them files: the script of the installation, the version, the unit file, and of the tree of the
  agent exactly the files that are in no excluded directory and are no \<open>config.yaml\<close>, at any depth,
  each with its content.
\<close>

theorem package_contents:
  assumes "wf_node (ho_root h)" and "set (bundle_root h) \<inter> set EXCLUDE_PARTS = {}"
    and "normalize_runtime (Some runtime) = RUNTIME_PYTHON"
    and "build_agent_package h runtime = Inr (archive, filename)"
  shows "distinct (map fst archive) \<and> (\<forall>name. (name, DirMember) \<notin> set archive) \<and>
    (\<forall>name content. (name, FileMember content) \<in> set archive \<longleftrightarrow>
       name = ''ops-agent/install.sh'' \<and>
         find_node h (bundle_root h @ [''agent'', ''install.sh'']) = Some (File content) \<or>
       name = ''ops-agent/VERSION'' \<and>
         (\<exists>version. agent_version h None RUNTIME_PYTHON = Inr version \<and> content = version @ [CHR 10]) \<or>
       name = ''ops-agent/deploy/systemd/server-agent.service'' \<and>
         find_node h (bundle_root h @ [''deploy'', ''systemd'', ''server-agent.service'']) = Some (File content) \<or>
       (\<exists>p. p \<noteq> [] \<and> ''..'' \<notin> set p \<and> find_node h (bundle_root h @ [''agent''] @ p) = Some (File content) \<and>
          set p \<inter> set EXCLUDE_PARTS = {} \<and> last p \<noteq> ''config.yaml'' \<and>
          name = ''ops-agent/agent/'' @ join_path p))"
proof -
  obtain version script unit_file es where
    v: "agent_version h None RUNTIME_PYTHON = Inr version" and
    tree: "find_node h (bundle_root h @ [''agent'']) = Some (Dir es)" and
    f: "find_node h (bundle_root h @ [''agent'', ''install.sh'']) = Some (File script)"
      "find_node h (bundle_root h @ [''deploy'', ''systemd'', ''server-agent.service'']) = Some (File unit_file)" and
    archive: "archive = [(''ops-agent/install.sh'', FileMember script), (''ops-agent/VERSION'', FileMember (version @ [CHR 10]))] @
       add_tree h (bundle_root h @ [''agent'']) ''ops-agent/agent'' @
       [(''ops-agent/deploy/systemd/server-agent.service'', FileMember unit_file)]"
    by (rule python_package [OF assms(4,3)]) blast
  let ?sources = "add_tree h (bundle_root h @ [''agent'']) ''ops-agent/agent''"
  have excl: "set ((bundle_root h @ [''agent'']) @ p) \<inter> set EXCLUDE_PARTS = {} \<longleftrightarrow> set p \<inter> set EXCLUDE_PARTS = {}" for p
    using assms(2) by (auto simp: EXCLUDE_PARTS_def)
  have members: "(name, m) \<in> set ?sources \<longleftrightarrow>
    (\<exists>p c. p \<noteq> [] \<and> ''..'' \<notin> set p \<and> find_node h (bundle_root h @ [''agent''] @ p) = Some (File c) \<and>
      set p \<inter> set EXCLUDE_PARTS = {} \<and> last p \<noteq> ''config.yaml'' \<and>
      name = ''ops-agent/agent/'' @ join_path p \<and> m = FileMember c)" for name m
    using add_tree_members [OF assms(1) tree, of name m "''ops-agent/agent''"]
    unfolding excl by (simp add: EXCLUDE_FILES_def)
  have "distinct (map fst ?sources)" by (rule add_tree_distinct [OF assms(1) tree]) simp
  moreover have "''ops-agent/install.sh'' \<notin> fst ` set ?sources" "''ops-agent/VERSION'' \<notin> fst ` set ?sources"
    "''ops-agent/deploy/systemd/server-agent.service'' \<notin> fst ` set ?sources"
    by (auto simp: members)
  ultimately have "distinct (map fst archive)" by (simp add: archive)
  then show ?thesis by (auto simp: archive members v f)
qed

text \<open>When there is no package, and which exception it is.\<close>

lemma package_needs:
  assumes "normalize_runtime (Some runtime) = RUNTIME_PYTHON"
  shows "download_agent_package h runtime = Inl (AppException NOT_FOUND 404) \<longleftrightarrow>
    \<not> is_dir h (bundle_root h @ [''agent'']) \<or> \<not> is_file h (bundle_root h @ [''agent'', ''install.sh'']) \<or>
    \<not> is_file h (bundle_root h @ [''deploy'', ''systemd'', ''server-agent.service''])"
proof -
  have n: "normalize_runtime (Some RUNTIME_PYTHON) = RUNTIME_PYTHON"
    by (simp add: normalize_runtime_def SUPPORTED_RUNTIMES_def)
  have v: "agent_version h r RUNTIME_PYTHON \<noteq> Inl AgentPackageError" for r
    by (auto simp: agent_version_def read_text_def Let_def split: option.splits node.splits)
  then show ?thesis
    unfolding download_agent_package_def build_agent_package_def Let_def assms n
    by (auto simp: answer_package_def agent_dir_of_def systemd_file_of_def RUNTIME_PYTHON_def RUNTIME_GO_def
        bindE_eq_Inl split: sum.splits package_error.splits)
qed

text \<open>
  The test of the excluded parts reads the whole path, so a bundle in or below a directory of such a
  name, \<open>/srv/tests\<close> for instance, gives a package without any source, and no error.
\<close>

theorem excluded_root_ships_nothing:
  assumes "set (bundle_root h) \<inter> set EXCLUDE_PARTS \<noteq> {}"
    and "normalize_runtime (Some runtime) = RUNTIME_PYTHON" "build_agent_package h runtime = Inr (archive, filename)"
  shows "map fst archive = [''ops-agent/install.sh'', ''ops-agent/VERSION'', ''ops-agent/deploy/systemd/server-agent.service'']"
proof -
  obtain version script unit_file es where
    tree: "find_node h (bundle_root h @ [''agent'']) = Some (Dir es)" and
    archive: "archive = [(''ops-agent/install.sh'', FileMember script), (''ops-agent/VERSION'', FileMember (version @ [CHR 10]))] @
       add_tree h (bundle_root h @ [''agent'']) ''ops-agent/agent'' @
       [(''ops-agent/deploy/systemd/server-agent.service'', FileMember unit_file)]"
    by (rule python_package [OF assms(3,2)]) blast
  have "kept (bundle_root h @ [''agent'']) = (\<lambda>_. False)" using assms(1) by (intro ext) (auto simp: kept_def)
  then show ?thesis by (simp add: archive add_tree_filter [OF tree])
qed

section \<open>An instance\<close>

definition sample_bundle :: node where
  "sample_bundle = Dir [
     (''deploy'', Dir [(''systemd'', Dir [(''server-agent.service'', File ''[Unit]'')])]),
     (''agent'', Dir [(''install.sh'', File ''#!''), (''VERSION'', File [CHR ''2'', CHR 10]),
        (''config'', Dir [(''config.yaml'', File ''token: x''), (''config.py'', File ''c'')]),
        (''tests'', Dir [(''test_a.py'', File ''t'')])])]"

definition sample_host :: "string \<Rightarrow> host" where
  "sample_host dir = \<lparr>ho_root = Dir [(''srv'', sample_bundle), (''tests'', sample_bundle)], ho_cwd = [],
     ho_source = [''/'', ''srv''], AGENT_BUNDLE_DIR = dir\<rparr>"

lemma sample_package:
  "wf_node (ho_root (sample_host []))" "bundle_root (sample_host []) = [''/'', ''srv'']"
  "normalize_runtime (Some ''ruby'') = RUNTIME_PYTHON"
  "set (bundle_root (sample_host [])) \<inter> set EXCLUDE_PARTS = {}"
  "find_node (sample_host []) [''/'', ''srv'', ''agent'', ''config'', ''config.py''] = Some (File ''c'')"
  by code_simp+

lemma sample_package_built: "\<exists>archive. build_agent_package (sample_host []) ''ruby'' = Inr (archive, ''ops-agent-python-2.tar.gz'')"
proof -
  have vf: "find_node (sample_host []) [''/'', ''srv'', ''agent'', ''VERSION''] = Some (File [CHR ''2'', CHR 10])"
    by code_simp
  have "strip [CHR ''2'', CHR 10] = ''2''" by code_simp
  then have "agent_version (sample_host []) (Some [''/'', ''srv'']) RUNTIME_PYTHON = Inr ''2''"
    by (simp add: agent_version_def normalize_runtime_def SUPPORTED_RUNTIMES_def agent_dir_of_def RUNTIME_PYTHON_def
        RUNTIME_GO_def is_file_def read_text_def vf byte_between_def)
  moreover have "is_dir (sample_host []) [''/'', ''srv'', ''agent'']" "is_file (sample_host []) [''/'', ''srv'', ''agent'', ''install.sh'']"
    "is_file (sample_host []) [''/'', ''srv'', ''deploy'', ''systemd'', ''server-agent.service'']"
    by code_simp+
  ultimately show ?thesis
    by (simp add: build_agent_package_def Let_def sample_package(2,3) agent_dir_of_def systemd_file_of_def
        RUNTIME_PYTHON_def RUNTIME_GO_def PACKAGE_PREFIX_def)
qed

lemma package_contents_witness:
  "\<exists>archive. build_agent_package (sample_host []) ''ruby'' = Inr (archive, ''ops-agent-python-2.tar.gz'') \<and>
    distinct (map fst archive) \<and> (''ops-agent/agent/config/config.py'', FileMember ''c'') \<in> set archive"
proof -
  obtain archive where a: "build_agent_package (sample_host []) ''ruby'' = Inr (archive, ''ops-agent-python-2.tar.gz'')"
    using sample_package_built by blast
  note all = package_contents [OF sample_package(1,4,3) a, unfolded sample_package(2)]
  have "(''ops-agent/agent/config/config.py'', FileMember ''c'') \<in> set archive"
    unfolding all [THEN conjunct2, THEN conjunct2, rule_format]
    by (intro disjI2 exI [of _ "[''config'', ''config.py'']"]) (simp add: EXCLUDE_PARTS_def sample_package(5))
  then show ?thesis by (intro exI [of _ archive] conjI a all [THEN conjunct1])
qed

end
