(* ===== verification/Schema.thy ===== *)
theory Schema
  imports Prelude
begin

text \<open>
  Database schemas and the statements that change them, the operations of Alembic that the migrations
  use (\<open>backend/migrations/versions\<close>). The comments of tables and columns are left out. A statement that
  the database refuses is \<open>None\<close>; the refusals are those that MySQL documents. One of them is special
  to its storage engine, that a foreign key must keep an index, and a parameter: \<open>strict\<close>.
\<close>

section \<open>Schemas\<close>

text \<open>The argument of the integer types is \<open>unsigned\<close>.\<close>

datatype sql_type =
    BIGINT bool | INTEGER bool | SMALLINT bool | TINYINT
  | VARCHAR nat | FIXED_CHAR nat | TEXT | MEDIUMTEXT | JSON_DOC
  | NUMERIC nat nat | DATETIME nat | DATE

datatype column_extra = Plain | AutoIncrement | Computed string

text \<open>Name, type, whether \<open>NULL\<close> is admitted, and the default of the server.\<close>

datatype column = Column (co_name: string) (co_type: sql_type) (co_nullable: bool) (co_default: "string option")
  (co_extra: column_extra)

text \<open>Unique keys and indexes with their names; a foreign key has a name, a column, a table and its column.\<close>

record table =
  ta_columns :: "column list"
  ta_primary :: "string list"
  ta_unique :: "(string \<times> string list) list"
  ta_foreign :: "(string \<times> string \<times> string \<times> string) list"
  ta_indexes :: "(string \<times> string list) list"

type_synonym schema = "(string \<times> table) list"

datatype ddl =
    CreateTable string table
  | DropTable string
  | CreateIndex string string "string list"
  | DropIndex string string
  | AddColumn string column
  | DropColumn string string
  | AlterColumn string column
  | CreateUnique string string "string list"
  | DropUnique string string

record revision =
  rv_revision :: string
  rv_down_revision :: "string option"
  rv_upgrade :: "ddl list"
  rv_downgrade :: "ddl list"

section \<open>Statements\<close>

definition column_names :: "table \<Rightarrow> string list" where
  "column_names t = map co_name (ta_columns t)"

definition foreign_names :: "table \<Rightarrow> string list" where
  "foreign_names t = map fst (ta_foreign t)"

text \<open>The columns an index or a key of the table begins with.\<close>

definition leading_columns :: "table \<Rightarrow> string list" where
  "leading_columns t = map hd (filter (\<lambda>cs. cs \<noteq> []) (ta_primary t # map snd (ta_unique t) @ map snd (ta_indexes t)))"

definition key_names :: "table \<Rightarrow> string list" where
  "key_names t = map fst (ta_unique t) @ map fst (ta_indexes t)"

text \<open>A table that can be created beside the others: its keys are on its columns, its references lead to keys.\<close>

definition creatable :: "schema \<Rightarrow> string \<Rightarrow> table \<Rightarrow> bool" where
  "creatable s n t \<longleftrightarrow>
     n \<notin> fst ` set s \<and> distinct (column_names t) \<and> distinct (key_names t) \<and>
     set (ta_primary t) \<subseteq> set (column_names t) \<and>
     list_all (\<lambda>(_, cs). cs \<noteq> [] \<and> set cs \<subseteq> set (column_names t)) (ta_unique t @ ta_indexes t) \<and>
     distinct (foreign_names t) \<and>
     list_all (\<lambda>(name, c, rt, rc). c \<in> set (column_names t) \<and>
       list_all (\<lambda>(_, u). name \<notin> set (foreign_names u)) s \<and>
       (case map_of ((n, t) # s) rt of None \<Rightarrow> False | Some u \<Rightarrow> rc \<in> set (leading_columns u))) (ta_foreign t)"

definition with_table :: "(table \<Rightarrow> table option) \<Rightarrow> string \<Rightarrow> schema \<Rightarrow> schema option" where
  "with_table f n s =
     (case map_of s n of
        None \<Rightarrow> None
      | Some t \<Rightarrow> map_option (\<lambda>u. map (\<lambda>(m, v). (m, if m = n then u else v)) s) (f t))"

text \<open>Whether a column with a foreign key loses its last index.\<close>

definition strips_foreign :: "bool \<Rightarrow> table \<Rightarrow> table \<Rightarrow> bool" where
  "strips_foreign strict t u \<longleftrightarrow> strict \<and>
     list_ex (\<lambda>(_, c, _, _). c \<in> set (leading_columns t) \<and> c \<notin> set (leading_columns u)) (ta_foreign t)"

definition add_key :: "string \<Rightarrow> string list \<Rightarrow> table \<Rightarrow> bool" where
  "add_key name cs t \<longleftrightarrow> name \<notin> set (key_names t) \<and> cs \<noteq> [] \<and> set cs \<subseteq> set (column_names t)"

definition without :: "string \<Rightarrow> (string \<times> 'a) list \<Rightarrow> (string \<times> 'a) list" where
  "without name = filter (\<lambda>k. fst k \<noteq> name)"

text \<open>A dropped column leaves the indexes it is in; an index without columns goes.\<close>

definition strip_column :: "string \<Rightarrow> (string \<times> string list) list \<Rightarrow> (string \<times> string list) list" where
  "strip_column c ks = filter (\<lambda>k. snd k \<noteq> []) (map (\<lambda>(name, cs). (name, filter (\<lambda>x. x \<noteq> c) cs)) ks)"

text \<open>The statements that change one table, and the table they change.\<close>

fun alter :: "bool \<Rightarrow> ddl \<Rightarrow> table \<Rightarrow> table option" where
  "alter strict (CreateIndex name n cs) t =
     (if add_key name cs t then Some (t\<lparr>ta_indexes := ta_indexes t @ [(name, cs)]\<rparr>) else None)"
| "alter strict (DropIndex name n) t =
     (let u = t\<lparr>ta_indexes := without name (ta_indexes t)\<rparr>
      in if name \<in> set (map fst (ta_indexes t)) \<and> \<not> strips_foreign strict t u then Some u else None)"
| "alter strict (AddColumn n c) t =
     (if co_name c \<in> set (column_names t) then None else Some (t\<lparr>ta_columns := ta_columns t @ [c]\<rparr>))"
| "alter strict (DropColumn n c) t =
     (if c \<notin> set (column_names t) \<or> list_ex (\<lambda>(_, fc, _, _). fc = c) (ta_foreign t) then None
      else Some (t\<lparr>ta_columns := filter (\<lambda>x. co_name x \<noteq> c) (ta_columns t),
        ta_primary := filter (\<lambda>x. x \<noteq> c) (ta_primary t), ta_unique := strip_column c (ta_unique t),
        ta_indexes := strip_column c (ta_indexes t)\<rparr>))"
| "alter strict (AlterColumn n c) t =
     (if co_name c \<notin> set (column_names t) then None
      else Some (t\<lparr>ta_columns := map (\<lambda>x. if co_name x = co_name c then c else x) (ta_columns t)\<rparr>))"
| "alter strict (CreateUnique name n cs) t =
     (if add_key name cs t then Some (t\<lparr>ta_unique := ta_unique t @ [(name, cs)]\<rparr>) else None)"
| "alter strict (DropUnique name n) t =
     (let u = t\<lparr>ta_unique := without name (ta_unique t)\<rparr>
      in if name \<in> set (map fst (ta_unique t)) \<and> \<not> strips_foreign strict t u then Some u else None)"
| "alter strict _ t = None"

fun table_of :: "ddl \<Rightarrow> string" where
  "table_of (CreateTable n _) = n"
| "table_of (DropTable n) = n"
| "table_of (CreateIndex _ n _) = n"
| "table_of (DropIndex _ n) = n"
| "table_of (AddColumn n _) = n"
| "table_of (DropColumn n _) = n"
| "table_of (AlterColumn n _) = n"
| "table_of (CreateUnique _ n _) = n"
| "table_of (DropUnique _ n) = n"

definition execute :: "bool \<Rightarrow> ddl \<Rightarrow> schema \<Rightarrow> schema option" where
  "execute strict op s =
     (case op of
        CreateTable n t \<Rightarrow> if creatable s n t then Some (s @ [(n, t)]) else None
      | DropTable n \<Rightarrow>
          if n \<notin> fst ` set s \<or> list_ex (\<lambda>(m, t). m \<noteq> n \<and> list_ex (\<lambda>(_, _, rt, _). rt = n) (ta_foreign t)) s then None
          else Some (without n s)
      | _ \<Rightarrow> with_table (alter strict op) (table_of op) s)"

fun run :: "bool \<Rightarrow> ddl list \<Rightarrow> schema \<Rightarrow> schema option" where
  "run strict [] s = Some s"
| "run strict (op # ops) s = (case execute strict op s of None \<Rightarrow> None | Some s' \<Rightarrow> run strict ops s')"

text \<open>The chain of the revisions: each names the one before it as its \<open>down_revision\<close>.\<close>

fun linear_history :: "string option \<Rightarrow> revision list \<Rightarrow> bool" where
  "linear_history prev [] = True"
| "linear_history prev (r # rs) = (rv_down_revision r = prev \<and> linear_history (Some (rv_revision r)) rs)"

definition upgrade_head :: "bool \<Rightarrow> revision list \<Rightarrow> schema \<Rightarrow> schema option" where
  "upgrade_head strict revs = run strict (concat (map rv_upgrade revs))"

section \<open>Equality up to order\<close>

definition same_elements :: "'a list \<Rightarrow> 'a list \<Rightarrow> bool" where
  "same_elements xs ys \<longleftrightarrow> length xs = length ys \<and> set xs \<subseteq> set ys \<and> set ys \<subseteq> set xs"

definition same_table :: "table \<Rightarrow> table \<Rightarrow> bool" where
  "same_table t u \<longleftrightarrow> same_elements (ta_columns t) (ta_columns u) \<and> ta_primary t = ta_primary u \<and>
     same_elements (ta_unique t) (ta_unique u) \<and> same_elements (ta_foreign t) (ta_foreign u) \<and>
     same_elements (ta_indexes t) (ta_indexes u)"

definition same_schema :: "schema \<Rightarrow> schema \<Rightarrow> bool" where
  "same_schema s u \<longleftrightarrow> same_elements (map fst s) (map fst u) \<and>
     list_all (\<lambda>(n, t). case map_of u n of None \<Rightarrow> False | Some t' \<Rightarrow> same_table t t') s"

text \<open>A table with the indexes that are created right after it.\<close>

type_synonym table_group = "string \<times> table \<times> (string \<times> string list) list"

fun statements :: "table_group \<Rightarrow> ddl list" where
  "statements (n, t, idx) = CreateTable n t # map (\<lambda>(name, cs). CreateIndex name n cs) idx"

end
