(* ===== verification/Metadata.thy ===== *)
theory Metadata
  imports Schema
begin

text \<open>
  The tables as the ORM declares them: every class of \<open>backend/app/models\<close> with the columns, keys and
  indexes that end up in \<open>Base.metadata\<close>. A column is nullable when its annotation admits \<open>None\<close>.
  Relationships, defaults of Python and comments are not part of the database.
\<close>

definition sys_user_model :: table where
  "sys_user_model = \<lparr>ta_columns = [
       Column ''id'' (BIGINT True) False None AutoIncrement,
       Column ''username'' (VARCHAR 64) False None Plain,
       Column ''password_hash'' (VARCHAR 255) False None Plain,
       Column ''nickname'' (VARCHAR 64) True None Plain,
       Column ''email'' (VARCHAR 128) True None Plain,
       Column ''phone'' (VARCHAR 32) True None Plain,
       Column ''status'' (TINYINT) False (Some ''1'') Plain,
       Column ''last_login_at'' (DATETIME 3) True None Plain,
       Column ''last_login_ip'' (VARCHAR 64) True None Plain,
       Column ''created_at'' (DATETIME 3) False (Some ''CURRENT_TIMESTAMP(3)'') Plain,
       Column ''updated_at'' (DATETIME 3) False (Some ''CURRENT_TIMESTAMP(3) ON UPDATE CURRENT_TIMESTAMP(3)'') Plain,
       Column ''deleted_at'' (DATETIME 3) True None Plain],
     ta_primary = [''id''],
     ta_unique = [(''uk_sys_user_username'', [''username'']),
       (''uk_sys_user_email'', [''email''])],
     ta_foreign = [],
     ta_indexes = [(''idx_sys_user_status'', [''status'']),
       (''idx_sys_user_deleted_at'', [''deleted_at''])]\<rparr>"

definition sys_role_model :: table where
  "sys_role_model = \<lparr>ta_columns = [
       Column ''id'' (BIGINT True) False None AutoIncrement,
       Column ''role_code'' (VARCHAR 64) False None Plain,
       Column ''role_name'' (VARCHAR 64) False None Plain,
       Column ''description'' (VARCHAR 255) True None Plain,
       Column ''status'' (TINYINT) False (Some ''1'') Plain,
       Column ''created_at'' (DATETIME 3) False (Some ''CURRENT_TIMESTAMP(3)'') Plain,
       Column ''updated_at'' (DATETIME 3) False (Some ''CURRENT_TIMESTAMP(3) ON UPDATE CURRENT_TIMESTAMP(3)'') Plain],
     ta_primary = [''id''],
     ta_unique = [(''uk_sys_role_code'', [''role_code''])],
     ta_foreign = [],
     ta_indexes = [(''idx_sys_role_status'', [''status''])]\<rparr>"

definition sys_permission_model :: table where
  "sys_permission_model = \<lparr>ta_columns = [
       Column ''id'' (BIGINT True) False None AutoIncrement,
       Column ''permission_code'' (VARCHAR 128) False None Plain,
       Column ''permission_name'' (VARCHAR 128) False None Plain,
       Column ''permission_type'' (VARCHAR 16) False None Plain,
       Column ''path'' (VARCHAR 255) True None Plain,
       Column ''method'' (VARCHAR 16) True None Plain,
       Column ''parent_id'' (BIGINT True) True None Plain,
       Column ''status'' (TINYINT) False (Some ''1'') Plain,
       Column ''created_at'' (DATETIME 3) False (Some ''CURRENT_TIMESTAMP(3)'') Plain,
       Column ''updated_at'' (DATETIME 3) False (Some ''CURRENT_TIMESTAMP(3) ON UPDATE CURRENT_TIMESTAMP(3)'') Plain],
     ta_primary = [''id''],
     ta_unique = [(''uk_sys_permission_code'', [''permission_code''])],
     ta_foreign = [(''fk_sys_permission_parent'', ''parent_id'', ''sys_permission'', ''id'')],
     ta_indexes = [(''idx_sys_permission_parent_id'', [''parent_id'']),
       (''idx_sys_permission_type_status'', [''permission_type'', ''status''])]\<rparr>"

definition sys_user_role_model :: table where
  "sys_user_role_model = \<lparr>ta_columns = [
       Column ''user_id'' (BIGINT True) False None Plain,
       Column ''role_id'' (BIGINT True) False None Plain,
       Column ''created_at'' (DATETIME 3) False (Some ''CURRENT_TIMESTAMP(3)'') Plain],
     ta_primary = [''user_id'', ''role_id''],
     ta_unique = [],
     ta_foreign = [(''fk_sys_user_role_user'', ''user_id'', ''sys_user'', ''id''),
       (''fk_sys_user_role_role'', ''role_id'', ''sys_role'', ''id'')],
     ta_indexes = [(''idx_sys_user_role_role_id'', [''role_id''])]\<rparr>"

definition sys_role_permission_model :: table where
  "sys_role_permission_model = \<lparr>ta_columns = [
       Column ''role_id'' (BIGINT True) False None Plain,
       Column ''permission_id'' (BIGINT True) False None Plain,
       Column ''created_at'' (DATETIME 3) False (Some ''CURRENT_TIMESTAMP(3)'') Plain],
     ta_primary = [''role_id'', ''permission_id''],
     ta_unique = [],
     ta_foreign = [(''fk_sys_role_permission_role'', ''role_id'', ''sys_role'', ''id''),
       (''fk_sys_role_permission_permission'', ''permission_id'', ''sys_permission'', ''id'')],
     ta_indexes = [(''idx_sys_role_permission_permission_id'', [''permission_id''])]\<rparr>"

definition sys_login_log_model :: table where
  "sys_login_log_model = \<lparr>ta_columns = [
       Column ''id'' (BIGINT True) False None AutoIncrement,
       Column ''user_id'' (BIGINT True) True None Plain,
       Column ''username'' (VARCHAR 64) False None Plain,
       Column ''login_ip'' (VARCHAR 64) True None Plain,
       Column ''user_agent'' (VARCHAR 500) True None Plain,
       Column ''login_status'' (VARCHAR 16) False None Plain,
       Column ''failure_reason'' (VARCHAR 255) True None Plain,
       Column ''request_id'' (VARCHAR 64) True None Plain,
       Column ''created_at'' (DATETIME 3) False (Some ''CURRENT_TIMESTAMP(3)'') Plain],
     ta_primary = [''id''],
     ta_unique = [],
     ta_foreign = [(''fk_sys_login_log_user'', ''user_id'', ''sys_user'', ''id'')],
     ta_indexes = [(''idx_sys_login_log_status_time'', [''login_status'', ''created_at'']),
       (''idx_sys_login_log_user_time'', [''user_id'', ''created_at'']),
       (''idx_sys_login_log_username_time'', [''username'', ''created_at''])]\<rparr>"

definition sys_operation_log_model :: table where
  "sys_operation_log_model = \<lparr>ta_columns = [
       Column ''id'' (BIGINT True) False None AutoIncrement,
       Column ''user_id'' (BIGINT True) True None Plain,
       Column ''username'' (VARCHAR 64) True None Plain,
       Column ''module'' (VARCHAR 64) False None Plain,
       Column ''operation'' (VARCHAR 64) False None Plain,
       Column ''http_method'' (VARCHAR 16) True None Plain,
       Column ''request_path'' (VARCHAR 255) True None Plain,
       Column ''target_type'' (VARCHAR 32) True None Plain,
       Column ''target_id'' (BIGINT True) True None Plain,
       Column ''server_id'' (BIGINT True) True None Plain,
       Column ''request_ip'' (VARCHAR 64) True None Plain,
       Column ''request_id'' (VARCHAR 64) True None Plain,
       Column ''request_params'' (JSON_DOC) True None Plain,
       Column ''result_status'' (VARCHAR 24) False None Plain,
       Column ''error_message'' (TEXT) True None Plain,
       Column ''duration_ms'' (BIGINT True) True None Plain,
       Column ''created_at'' (DATETIME 3) False (Some ''CURRENT_TIMESTAMP(3)'') Plain],
     ta_primary = [''id''],
     ta_unique = [],
     ta_foreign = [(''fk_sys_operation_log_user'', ''user_id'', ''sys_user'', ''id''),
       (''fk_sys_operation_log_server'', ''server_id'', ''ops_server'', ''id'')],
     ta_indexes = [(''idx_sys_operation_log_created_at'', [''created_at'']),
       (''idx_sys_operation_log_module_time'', [''module'', ''created_at'']),
       (''idx_sys_operation_log_server_time'', [''server_id'', ''created_at'']),
       (''idx_sys_operation_log_status_time'', [''result_status'', ''created_at'']),
       (''idx_sys_operation_log_user_time'', [''user_id'', ''created_at''])]\<rparr>"

definition ops_server_model :: table where
  "ops_server_model = \<lparr>ta_columns = [
       Column ''id'' (BIGINT True) False None AutoIncrement,
       Column ''server_code'' (VARCHAR 64) False None Plain,
       Column ''hostname'' (VARCHAR 128) False None Plain,
       Column ''ip_address'' (VARCHAR 64) False None Plain,
       Column ''ssh_port'' (SMALLINT True) False (Some ''22'') Plain,
       Column ''os_name'' (VARCHAR 128) True None Plain,
       Column ''os_version'' (VARCHAR 128) True None Plain,
       Column ''kernel_version'' (VARCHAR 128) True None Plain,
       Column ''architecture'' (VARCHAR 32) True None Plain,
       Column ''cpu_model'' (VARCHAR 255) True None Plain,
       Column ''cpu_cores'' (INTEGER True) True None Plain,
       Column ''memory_total_bytes'' (BIGINT True) True None Plain,
       Column ''disk_total_bytes'' (BIGINT True) True None Plain,
       Column ''agent_version'' (VARCHAR 32) True None Plain,
       Column ''agent_status'' (VARCHAR 16) False (Some ([CHR 0x27] @ ''OFFLINE'' @ [CHR 0x27])) Plain,
       Column ''last_heartbeat_at'' (DATETIME 3) True None Plain,
       Column ''registered_at'' (DATETIME 3) True None Plain,
       Column ''status'' (TINYINT) False (Some ''1'') Plain,
       Column ''remark'' (VARCHAR 500) True None Plain,
       Column ''created_by'' (BIGINT True) True None Plain,
       Column ''created_at'' (DATETIME 3) False (Some ''CURRENT_TIMESTAMP(3)'') Plain,
       Column ''updated_at'' (DATETIME 3) False (Some ''CURRENT_TIMESTAMP(3) ON UPDATE CURRENT_TIMESTAMP(3)'') Plain,
       Column ''deleted_at'' (DATETIME 3) True None Plain],
     ta_primary = [''id''],
     ta_unique = [(''uk_ops_server_code'', [''server_code'']),
       (''uk_ops_server_ip_port'', [''ip_address'', ''ssh_port''])],
     ta_foreign = [(''fk_ops_server_created_by'', ''created_by'', ''sys_user'', ''id'')],
     ta_indexes = [(''fk_ops_server_created_by'', [''created_by'']),
       (''idx_ops_server_agent_status'', [''agent_status'']),
       (''idx_ops_server_hostname'', [''hostname'']),
       (''idx_ops_server_last_heartbeat'', [''last_heartbeat_at'']),
       (''idx_ops_server_status'', [''status''])]\<rparr>"

definition ops_server_disk_model :: table where
  "ops_server_disk_model = \<lparr>ta_columns = [
       Column ''id'' (BIGINT True) False None AutoIncrement,
       Column ''server_id'' (BIGINT True) False None Plain,
       Column ''device_name'' (VARCHAR 128) False None Plain,
       Column ''mount_point'' (VARCHAR 255) True None Plain,
       Column ''filesystem'' (VARCHAR 64) True None Plain,
       Column ''total_bytes'' (BIGINT True) True None Plain,
       Column ''status'' (TINYINT) False (Some ''1'') Plain,
       Column ''created_at'' (DATETIME 3) False (Some ''CURRENT_TIMESTAMP(3)'') Plain,
       Column ''updated_at'' (DATETIME 3) False (Some ''CURRENT_TIMESTAMP(3) ON UPDATE CURRENT_TIMESTAMP(3)'') Plain],
     ta_primary = [''id''],
     ta_unique = [(''uk_ops_server_disk'', [''server_id'', ''device_name'', ''mount_point''])],
     ta_foreign = [(''fk_ops_server_disk_server'', ''server_id'', ''ops_server'', ''id'')],
     ta_indexes = [(''idx_ops_server_disk_server_id'', [''server_id''])]\<rparr>"

definition ops_server_network_model :: table where
  "ops_server_network_model = \<lparr>ta_columns = [
       Column ''id'' (BIGINT True) False None AutoIncrement,
       Column ''server_id'' (BIGINT True) False None Plain,
       Column ''interface_name'' (VARCHAR 128) False None Plain,
       Column ''mac_address'' (VARCHAR 64) True None Plain,
       Column ''ip_address'' (VARCHAR 64) True None Plain,
       Column ''status'' (TINYINT) False (Some ''1'') Plain,
       Column ''created_at'' (DATETIME 3) False (Some ''CURRENT_TIMESTAMP(3)'') Plain,
       Column ''updated_at'' (DATETIME 3) False (Some ''CURRENT_TIMESTAMP(3) ON UPDATE CURRENT_TIMESTAMP(3)'') Plain],
     ta_primary = [''id''],
     ta_unique = [(''uk_ops_server_network_interface'', [''server_id'', ''interface_name''])],
     ta_foreign = [(''fk_ops_server_network_server'', ''server_id'', ''ops_server'', ''id'')],
     ta_indexes = [(''idx_ops_server_network_server_id'', [''server_id''])]\<rparr>"

definition ops_agent_token_model :: table where
  "ops_agent_token_model = \<lparr>ta_columns = [
       Column ''id'' (BIGINT True) False None AutoIncrement,
       Column ''server_id'' (BIGINT True) False None Plain,
       Column ''token_name'' (VARCHAR 64) False None Plain,
       Column ''token_prefix'' (VARCHAR 16) False None Plain,
       Column ''token_hash'' (FIXED_CHAR 64) False None Plain,
       Column ''signing_public_key'' (VARCHAR 128) True None Plain,
       Column ''signing_algorithm'' (VARCHAR 16) True (Some ([CHR 0x27] @ ''ed25519'' @ [CHR 0x27])) Plain,
       Column ''key_registered_at'' (DATETIME 3) True None Plain,
       Column ''status'' (TINYINT) False (Some ''1'') Plain,
       Column ''expires_at'' (DATETIME 3) True None Plain,
       Column ''last_used_at'' (DATETIME 3) True None Plain,
       Column ''created_at'' (DATETIME 3) False (Some ''CURRENT_TIMESTAMP(3)'') Plain,
       Column ''revoked_at'' (DATETIME 3) True None Plain],
     ta_primary = [''id''],
     ta_unique = [(''uk_ops_agent_token_hash'', [''token_hash''])],
     ta_foreign = [(''fk_ops_agent_token_server'', ''server_id'', ''ops_server'', ''id'')],
     ta_indexes = [(''idx_ops_agent_token_server_status'', [''server_id'', ''status''])]\<rparr>"

definition ops_agent_heartbeat_model :: table where
  "ops_agent_heartbeat_model = \<lparr>ta_columns = [
       Column ''id'' (BIGINT True) False None AutoIncrement,
       Column ''server_id'' (BIGINT True) False None Plain,
       Column ''agent_version'' (VARCHAR 32) True None Plain,
       Column ''ip_address'' (VARCHAR 64) True None Plain,
       Column ''collected_at'' (DATETIME 3) False None Plain,
       Column ''received_at'' (DATETIME 3) False (Some ''CURRENT_TIMESTAMP(3)'') Plain,
       Column ''created_at'' (DATETIME 3) False (Some ''CURRENT_TIMESTAMP(3)'') Plain],
     ta_primary = [''id''],
     ta_unique = [],
     ta_foreign = [(''fk_ops_agent_heartbeat_server'', ''server_id'', ''ops_server'', ''id'')],
     ta_indexes = [(''idx_ops_agent_heartbeat_received_at'', [''received_at'']),
       (''idx_ops_agent_heartbeat_server_time'', [''server_id'', ''collected_at''])]\<rparr>"

definition ops_server_service_model :: table where
  "ops_server_service_model = \<lparr>ta_columns = [
       Column ''id'' (BIGINT True) False None AutoIncrement,
       Column ''server_id'' (BIGINT True) False None Plain,
       Column ''service_name'' (VARCHAR 64) False None Plain,
       Column ''display_name'' (VARCHAR 128) True None Plain,
       Column ''service_type'' (VARCHAR 32) False (Some ([CHR 0x27] @ ''SYSTEMD'' @ [CHR 0x27])) Plain,
       Column ''is_whitelisted'' (TINYINT) False (Some ''1'') Plain,
       Column ''is_critical'' (TINYINT) False (Some ''0'') Plain,
       Column ''current_status'' (VARCHAR 32) True None Plain,
       Column ''last_checked_at'' (DATETIME 3) True None Plain,
       Column ''status'' (TINYINT) False (Some ''1'') Plain,
       Column ''created_at'' (DATETIME 3) False (Some ''CURRENT_TIMESTAMP(3)'') Plain,
       Column ''updated_at'' (DATETIME 3) False (Some ''CURRENT_TIMESTAMP(3) ON UPDATE CURRENT_TIMESTAMP(3)'') Plain],
     ta_primary = [''id''],
     ta_unique = [(''uk_ops_server_service'', [''server_id'', ''service_name''])],
     ta_foreign = [(''fk_ops_server_service_server'', ''server_id'', ''ops_server'', ''id'')],
     ta_indexes = [(''idx_ops_server_service_status'', [''server_id'', ''current_status'']),
       (''idx_ops_server_service_critical'', [''is_critical'', ''current_status''])]\<rparr>"

definition ops_server_container_model :: table where
  "ops_server_container_model = \<lparr>ta_columns = [
       Column ''id'' (BIGINT True) False None AutoIncrement,
       Column ''server_id'' (BIGINT True) False None Plain,
       Column ''container_id'' (VARCHAR 128) False None Plain,
       Column ''container_name'' (VARCHAR 255) False None Plain,
       Column ''image_name'' (VARCHAR 255) True None Plain,
       Column ''container_status'' (VARCHAR 32) True None Plain,
       Column ''restart_count'' (INTEGER True) True None Plain,
       Column ''container_created_at'' (DATETIME 3) True None Plain,
       Column ''is_critical'' (TINYINT) False (Some ''0'') Plain,
       Column ''last_seen_at'' (DATETIME 3) True None Plain,
       Column ''status'' (TINYINT) False (Some ''1'') Plain,
       Column ''created_at'' (DATETIME 3) False (Some ''CURRENT_TIMESTAMP(3)'') Plain,
       Column ''updated_at'' (DATETIME 3) False (Some ''CURRENT_TIMESTAMP(3) ON UPDATE CURRENT_TIMESTAMP(3)'') Plain],
     ta_primary = [''id''],
     ta_unique = [(''uk_ops_server_container'', [''server_id'', ''container_id''])],
     ta_foreign = [(''fk_ops_server_container_server'', ''server_id'', ''ops_server'', ''id'')],
     ta_indexes = [(''idx_ops_server_container_status'', [''server_id'', ''container_status'']),
       (''idx_ops_server_container_critical'', [''is_critical'', ''container_status''])]\<rparr>"

definition monitor_server_metric_model :: table where
  "monitor_server_metric_model = \<lparr>ta_columns = [
       Column ''id'' (BIGINT True) False None AutoIncrement,
       Column ''server_id'' (BIGINT True) False None Plain,
       Column ''collected_at'' (DATETIME 3) False None Plain,
       Column ''cpu_usage'' (NUMERIC 5 2) True None Plain,
       Column ''memory_usage'' (NUMERIC 5 2) True None Plain,
       Column ''memory_used_bytes'' (BIGINT True) True None Plain,
       Column ''disk_usage'' (NUMERIC 5 2) True None Plain,
       Column ''network_in_bytes'' (BIGINT True) True None Plain,
       Column ''network_out_bytes'' (BIGINT True) True None Plain,
       Column ''load_1m'' (NUMERIC 10 2) True None Plain,
       Column ''load_5m'' (NUMERIC 10 2) True None Plain,
       Column ''load_15m'' (NUMERIC 10 2) True None Plain,
       Column ''tcp_connections'' (INTEGER True) True None Plain,
       Column ''uptime_seconds'' (BIGINT True) True None Plain,
       Column ''created_at'' (DATETIME 3) False (Some ''CURRENT_TIMESTAMP(3)'') Plain],
     ta_primary = [''id''],
     ta_unique = [],
     ta_foreign = [(''fk_monitor_server_metric_server'', ''server_id'', ''ops_server'', ''id'')],
     ta_indexes = [(''idx_monitor_server_metric_collected_at'', [''collected_at'']),
       (''idx_monitor_server_metric_server_time'', [''server_id'', ''collected_at''])]\<rparr>"

definition monitor_server_metric_daily_model :: table where
  "monitor_server_metric_daily_model = \<lparr>ta_columns = [
       Column ''id'' (BIGINT True) False None AutoIncrement,
       Column ''server_id'' (BIGINT True) False None Plain,
       Column ''metric_date'' (DATE) False None Plain,
       Column ''cpu_usage_avg'' (NUMERIC 12 4) True None Plain,
       Column ''cpu_usage_max'' (NUMERIC 12 4) True None Plain,
       Column ''memory_usage_avg'' (NUMERIC 12 4) True None Plain,
       Column ''memory_usage_max'' (NUMERIC 12 4) True None Plain,
       Column ''disk_usage_avg'' (NUMERIC 12 4) True None Plain,
       Column ''disk_usage_max'' (NUMERIC 12 4) True None Plain,
       Column ''load_1m_avg'' (NUMERIC 12 4) True None Plain,
       Column ''load_1m_max'' (NUMERIC 12 4) True None Plain,
       Column ''tcp_connections_avg'' (NUMERIC 12 4) True None Plain,
       Column ''tcp_connections_max'' (NUMERIC 12 4) True None Plain,
       Column ''sample_count'' (INTEGER True) False None Plain,
       Column ''created_at'' (DATETIME 3) False (Some ''CURRENT_TIMESTAMP(3)'') Plain,
       Column ''updated_at'' (DATETIME 3) False (Some ''CURRENT_TIMESTAMP(3) ON UPDATE CURRENT_TIMESTAMP(3)'') Plain],
     ta_primary = [''id''],
     ta_unique = [(''uk_metric_daily_server_date'', [''server_id'', ''metric_date''])],
     ta_foreign = [(''fk_metric_daily_server'', ''server_id'', ''ops_server'', ''id'')],
     ta_indexes = [(''idx_metric_daily_date'', [''metric_date''])]\<rparr>"

definition monitor_disk_metric_model :: table where
  "monitor_disk_metric_model = \<lparr>ta_columns = [
       Column ''id'' (BIGINT True) False None AutoIncrement,
       Column ''disk_id'' (BIGINT True) False None Plain,
       Column ''server_id'' (BIGINT True) False None Plain,
       Column ''collected_at'' (DATETIME 3) False None Plain,
       Column ''used_bytes'' (BIGINT True) True None Plain,
       Column ''total_bytes'' (BIGINT True) True None Plain,
       Column ''usage_percent'' (NUMERIC 5 2) True None Plain,
       Column ''read_bytes'' (BIGINT True) True None Plain,
       Column ''write_bytes'' (BIGINT True) True None Plain,
       Column ''created_at'' (DATETIME 3) False (Some ''CURRENT_TIMESTAMP(3)'') Plain],
     ta_primary = [''id''],
     ta_unique = [],
     ta_foreign = [(''fk_monitor_disk_metric_disk'', ''disk_id'', ''ops_server_disk'', ''id''),
       (''fk_monitor_disk_metric_server'', ''server_id'', ''ops_server'', ''id'')],
     ta_indexes = [(''idx_monitor_disk_metric_disk_time'', [''disk_id'', ''collected_at'']),
       (''idx_monitor_disk_metric_server_time'', [''server_id'', ''collected_at''])]\<rparr>"

definition monitor_network_metric_model :: table where
  "monitor_network_metric_model = \<lparr>ta_columns = [
       Column ''id'' (BIGINT True) False None AutoIncrement,
       Column ''network_id'' (BIGINT True) False None Plain,
       Column ''server_id'' (BIGINT True) False None Plain,
       Column ''collected_at'' (DATETIME 3) False None Plain,
       Column ''bytes_received'' (BIGINT True) True None Plain,
       Column ''bytes_sent'' (BIGINT True) True None Plain,
       Column ''packets_received'' (BIGINT True) True None Plain,
       Column ''packets_sent'' (BIGINT True) True None Plain,
       Column ''errors_received'' (INTEGER True) True None Plain,
       Column ''errors_sent'' (INTEGER True) True None Plain,
       Column ''created_at'' (DATETIME 3) False (Some ''CURRENT_TIMESTAMP(3)'') Plain],
     ta_primary = [''id''],
     ta_unique = [],
     ta_foreign = [(''fk_monitor_network_metric_network'', ''network_id'', ''ops_server_network'', ''id''),
       (''fk_monitor_network_metric_server'', ''server_id'', ''ops_server'', ''id'')],
     ta_indexes = [(''idx_monitor_network_metric_network_time'', [''network_id'', ''collected_at'']),
       (''idx_monitor_network_metric_server_time'', [''server_id'', ''collected_at''])]\<rparr>"

definition monitor_container_metric_model :: table where
  "monitor_container_metric_model = \<lparr>ta_columns = [
       Column ''id'' (BIGINT True) False None AutoIncrement,
       Column ''container_asset_id'' (BIGINT True) False None Plain,
       Column ''server_id'' (BIGINT True) False None Plain,
       Column ''container_id'' (VARCHAR 128) False None Plain,
       Column ''container_status'' (VARCHAR 32) True None Plain,
       Column ''cpu_usage'' (NUMERIC 7 3) True None Plain,
       Column ''memory_usage'' (NUMERIC 7 3) True None Plain,
       Column ''memory_used_bytes'' (BIGINT True) True None Plain,
       Column ''network_in_bytes'' (BIGINT True) True None Plain,
       Column ''network_out_bytes'' (BIGINT True) True None Plain,
       Column ''restart_count'' (INTEGER True) True None Plain,
       Column ''collected_at'' (DATETIME 3) False None Plain,
       Column ''created_at'' (DATETIME 3) False (Some ''CURRENT_TIMESTAMP(3)'') Plain],
     ta_primary = [''id''],
     ta_unique = [],
     ta_foreign = [(''fk_monitor_container_metric_asset'', ''container_asset_id'', ''ops_server_container'', ''id''),
       (''fk_monitor_container_metric_server'', ''server_id'', ''ops_server'', ''id'')],
     ta_indexes = [(''idx_monitor_container_metric_asset_time'', [''container_asset_id'', ''collected_at'']),
       (''idx_monitor_container_metric_server_time'', [''server_id'', ''collected_at''])]\<rparr>"

definition monitor_process_snapshot_model :: table where
  "monitor_process_snapshot_model = \<lparr>ta_columns = [
       Column ''id'' (BIGINT True) False None AutoIncrement,
       Column ''server_id'' (BIGINT True) False None Plain,
       Column ''process_pid'' (INTEGER True) False None Plain,
       Column ''process_name'' (VARCHAR 255) True None Plain,
       Column ''username'' (VARCHAR 128) True None Plain,
       Column ''cpu_percent'' (NUMERIC 7 3) True None Plain,
       Column ''memory_percent'' (NUMERIC 7 3) True None Plain,
       Column ''memory_bytes'' (BIGINT True) True None Plain,
       Column ''process_status'' (VARCHAR 32) True None Plain,
       Column ''command_line'' (TEXT) True None Plain,
       Column ''collected_at'' (DATETIME 3) False None Plain,
       Column ''created_at'' (DATETIME 3) False (Some ''CURRENT_TIMESTAMP(3)'') Plain],
     ta_primary = [''id''],
     ta_unique = [],
     ta_foreign = [(''fk_monitor_process_snapshot_server'', ''server_id'', ''ops_server'', ''id'')],
     ta_indexes = [(''idx_monitor_process_snapshot_server_time'', [''server_id'', ''collected_at'']),
       (''idx_monitor_process_snapshot_server_pid_time'', [''server_id'', ''process_pid'', ''collected_at''])]\<rparr>"

definition ops_task_model :: table where
  "ops_task_model = \<lparr>ta_columns = [
       Column ''id'' (BIGINT True) False None AutoIncrement,
       Column ''task_name'' (VARCHAR 128) False None Plain,
       Column ''task_type'' (VARCHAR 32) False None Plain,
       Column ''action'' (VARCHAR 32) True None Plain,
       Column ''service_name'' (VARCHAR 64) True None Plain,
       Column ''schedule_type'' (VARCHAR 16) False (Some ([CHR 0x27] @ ''ONCE'' @ [CHR 0x27])) Plain,
       Column ''cron_expression'' (VARCHAR 128) True None Plain,
       Column ''status'' (VARCHAR 24) False (Some ([CHR 0x27] @ ''CREATED'' @ [CHR 0x27])) Plain,
       Column ''created_by'' (BIGINT True) False None Plain,
       Column ''started_at'' (DATETIME 3) True None Plain,
       Column ''finished_at'' (DATETIME 3) True None Plain,
       Column ''timeout_seconds'' (INTEGER True) False (Some ''300'') Plain,
       Column ''max_attempts'' (INTEGER True) False (Some ''3'') Plain,
       Column ''attempt'' (INTEGER True) False (Some ''0'') Plain,
       Column ''deadline_at'' (DATETIME 3) True None Plain,
       Column ''idempotency_key'' (VARCHAR 128) True None Plain,
       Column ''confirmation_required'' (TINYINT) False (Some ''0'') Plain,
       Column ''confirmed_by'' (BIGINT True) True None Plain,
       Column ''confirmed_at'' (DATETIME 3) True None Plain,
       Column ''created_at'' (DATETIME 3) False (Some ''CURRENT_TIMESTAMP(3)'') Plain,
       Column ''updated_at'' (DATETIME 3) False (Some ''CURRENT_TIMESTAMP(3) ON UPDATE CURRENT_TIMESTAMP(3)'') Plain],
     ta_primary = [''id''],
     ta_unique = [(''uk_ops_task_idempotency'', [''idempotency_key''])],
     ta_foreign = [(''fk_ops_task_created_by'', ''created_by'', ''sys_user'', ''id''),
       (''fk_ops_task_confirmed_by'', ''confirmed_by'', ''sys_user'', ''id'')],
     ta_indexes = [(''fk_ops_task_confirmed_by'', [''confirmed_by'']),
       (''idx_ops_task_creator_time'', [''created_by'', ''created_at'']),
       (''idx_ops_task_schedule'', [''schedule_type'', ''status'']),
       (''idx_ops_task_status'', [''status''])]\<rparr>"

definition ops_task_target_model :: table where
  "ops_task_target_model = \<lparr>ta_columns = [
       Column ''id'' (BIGINT True) False None AutoIncrement,
       Column ''task_id'' (BIGINT True) False None Plain,
       Column ''server_id'' (BIGINT True) False None Plain,
       Column ''target_status'' (VARCHAR 24) False (Some ([CHR 0x27] @ ''PENDING'' @ [CHR 0x27])) Plain,
       Column ''created_at'' (DATETIME 3) False (Some ''CURRENT_TIMESTAMP(3)'') Plain],
     ta_primary = [''id''],
     ta_unique = [(''uk_ops_task_target'', [''task_id'', ''server_id''])],
     ta_foreign = [(''fk_ops_task_target_task'', ''task_id'', ''ops_task'', ''id''),
       (''fk_ops_task_target_server'', ''server_id'', ''ops_server'', ''id'')],
     ta_indexes = [(''idx_ops_task_target_server_id'', [''server_id'']),
       (''idx_ops_task_target_status'', [''target_status''])]\<rparr>"

definition ops_task_execution_model :: table where
  "ops_task_execution_model = \<lparr>ta_columns = [
       Column ''id'' (BIGINT True) False None AutoIncrement,
       Column ''task_id'' (BIGINT True) False None Plain,
       Column ''target_id'' (BIGINT True) False None Plain,
       Column ''server_id'' (BIGINT True) False None Plain,
       Column ''status'' (VARCHAR 24) False (Some ([CHR 0x27] @ ''PENDING'' @ [CHR 0x27])) Plain,
       Column ''attempt'' (INTEGER True) False (Some ''1'') Plain,
       Column ''next_retry_at'' (DATETIME 3) True None Plain,
       Column ''error_type'' (VARCHAR 32) True None Plain,
       Column ''exit_code'' (INTEGER False) True None Plain,
       Column ''result_text'' (MEDIUMTEXT) True None Plain,
       Column ''error_message'' (TEXT) True None Plain,
       Column ''started_at'' (DATETIME 3) True None Plain,
       Column ''finished_at'' (DATETIME 3) True None Plain,
       Column ''duration_ms'' (BIGINT True) True None Plain,
       Column ''created_at'' (DATETIME 3) False (Some ''CURRENT_TIMESTAMP(3)'') Plain,
       Column ''updated_at'' (DATETIME 3) False (Some ''CURRENT_TIMESTAMP(3) ON UPDATE CURRENT_TIMESTAMP(3)'') Plain],
     ta_primary = [''id''],
     ta_unique = [(''uk_ops_task_execution_target'', [''task_id'', ''target_id'', ''attempt''])],
     ta_foreign = [(''fk_ops_task_execution_task'', ''task_id'', ''ops_task'', ''id''),
       (''fk_ops_task_execution_target'', ''target_id'', ''ops_task_target'', ''id''),
       (''fk_ops_task_execution_server'', ''server_id'', ''ops_server'', ''id'')],
     ta_indexes = [(''fk_ops_task_execution_target'', [''target_id'']),
       (''idx_ops_task_execution_server_time'', [''server_id'', ''created_at'']),
       (''idx_ops_task_execution_task_status'', [''task_id'', ''status'']),
       (''idx_ops_task_execution_retry'', [''status'', ''next_retry_at''])]\<rparr>"

definition ops_task_log_model :: table where
  "ops_task_log_model = \<lparr>ta_columns = [
       Column ''id'' (BIGINT True) False None AutoIncrement,
       Column ''execution_id'' (BIGINT True) False None Plain,
       Column ''log_level'' (VARCHAR 16) False (Some ([CHR 0x27] @ ''INFO'' @ [CHR 0x27])) Plain,
       Column ''log_content'' (MEDIUMTEXT) False None Plain,
       Column ''created_at'' (DATETIME 3) False (Some ''CURRENT_TIMESTAMP(3)'') Plain],
     ta_primary = [''id''],
     ta_unique = [],
     ta_foreign = [(''fk_ops_task_log_execution'', ''execution_id'', ''ops_task_execution'', ''id'')],
     ta_indexes = [(''idx_ops_task_log_execution_time'', [''execution_id'', ''created_at''])]\<rparr>"

definition alert_rule_model :: table where
  "alert_rule_model = \<lparr>ta_columns = [
       Column ''id'' (BIGINT True) False None AutoIncrement,
       Column ''rule_name'' (VARCHAR 128) False None Plain,
       Column ''metric_type'' (VARCHAR 64) False None Plain,
       Column ''target_type'' (VARCHAR 32) False (Some ([CHR 0x27] @ ''SERVER'' @ [CHR 0x27])) Plain,
       Column ''severity'' (VARCHAR 16) False None Plain,
       Column ''operator'' (VARCHAR 8) False None Plain,
       Column ''threshold'' (NUMERIC 12 4) True None Plain,
       Column ''duration_seconds'' (INTEGER True) False (Some ''0'') Plain,
       Column ''recovery_threshold'' (NUMERIC 12 4) True None Plain,
       Column ''enabled'' (TINYINT) False (Some ''1'') Plain,
       Column ''description'' (VARCHAR 500) True None Plain,
       Column ''created_by'' (BIGINT True) True None Plain,
       Column ''created_at'' (DATETIME 3) False (Some ''CURRENT_TIMESTAMP(3)'') Plain,
       Column ''updated_at'' (DATETIME 3) False (Some ''CURRENT_TIMESTAMP(3) ON UPDATE CURRENT_TIMESTAMP(3)'') Plain],
     ta_primary = [''id''],
     ta_unique = [],
     ta_foreign = [(''fk_alert_rule_created_by'', ''created_by'', ''sys_user'', ''id'')],
     ta_indexes = [(''fk_alert_rule_created_by'', [''created_by'']),
       (''idx_alert_rule_metric_enabled'', [''metric_type'', ''enabled'']),
       (''idx_alert_rule_target_enabled'', [''target_type'', ''enabled''])]\<rparr>"

definition alert_event_model :: table where
  "alert_event_model = \<lparr>ta_columns = [
       Column ''id'' (BIGINT True) False None AutoIncrement,
       Column ''rule_id'' (BIGINT True) False None Plain,
       Column ''server_id'' (BIGINT True) True None Plain,
       Column ''resource_type'' (VARCHAR 32) False (Some ([CHR 0x27] @ ''SERVER'' @ [CHR 0x27])) Plain,
       Column ''resource_id'' (BIGINT True) True None Plain,
       Column ''alert_key'' (VARCHAR 255) False None Plain,
       Column ''metric_type'' (VARCHAR 64) False None Plain,
       Column ''severity'' (VARCHAR 16) False None Plain,
       Column ''status'' (VARCHAR 24) False (Some ([CHR 0x27] @ ''PENDING'' @ [CHR 0x27])) Plain,
       Column ''is_active'' (TINYINT) True None (Computed (''CASE WHEN status IN ('' @ [CHR 0x27] @ ''PENDING'' @ [CHR 0x27] @ '', '' @ [CHR 0x27] @ ''FIRING'' @ [CHR 0x27] @ '', '' @ [CHR 0x27] @ ''ACKNOWLEDGED'' @ [CHR 0x27] @ '') THEN 1 ELSE NULL END'')),
       Column ''first_fired_at'' (DATETIME 3) True None Plain,
       Column ''last_fired_at'' (DATETIME 3) True None Plain,
       Column ''acknowledged_by'' (BIGINT True) True None Plain,
       Column ''acknowledged_at'' (DATETIME 3) True None Plain,
       Column ''resolved_at'' (DATETIME 3) True None Plain,
       Column ''current_value'' (NUMERIC 12 4) True None Plain,
       Column ''threshold_value'' (NUMERIC 12 4) True None Plain,
       Column ''message'' (VARCHAR 500) False None Plain,
       Column ''created_at'' (DATETIME 3) False (Some ''CURRENT_TIMESTAMP(3)'') Plain,
       Column ''updated_at'' (DATETIME 3) False (Some ''CURRENT_TIMESTAMP(3) ON UPDATE CURRENT_TIMESTAMP(3)'') Plain],
     ta_primary = [''id''],
     ta_unique = [(''uk_alert_event_active_key'', [''alert_key'', ''is_active''])],
     ta_foreign = [(''fk_alert_event_rule'', ''rule_id'', ''alert_rule'', ''id''),
       (''fk_alert_event_server'', ''server_id'', ''ops_server'', ''id''),
       (''fk_alert_event_acknowledged_by'', ''acknowledged_by'', ''sys_user'', ''id'')],
     ta_indexes = [(''fk_alert_event_acknowledged_by'', [''acknowledged_by'']),
       (''idx_alert_event_rule_id'', [''rule_id'']),
       (''idx_alert_event_server_status'', [''server_id'', ''status'']),
       (''idx_alert_event_status_time'', [''status'', ''created_at''])]\<rparr>"

definition alert_event_log_model :: table where
  "alert_event_log_model = \<lparr>ta_columns = [
       Column ''id'' (BIGINT True) False None AutoIncrement,
       Column ''event_id'' (BIGINT True) False None Plain,
       Column ''old_status'' (VARCHAR 24) True None Plain,
       Column ''new_status'' (VARCHAR 24) False None Plain,
       Column ''current_value'' (NUMERIC 12 4) True None Plain,
       Column ''message'' (VARCHAR 500) True None Plain,
       Column ''operator_id'' (BIGINT True) True None Plain,
       Column ''created_at'' (DATETIME 3) False (Some ''CURRENT_TIMESTAMP(3)'') Plain],
     ta_primary = [''id''],
     ta_unique = [],
     ta_foreign = [(''fk_alert_event_log_event'', ''event_id'', ''alert_event'', ''id''),
       (''fk_alert_event_log_operator'', ''operator_id'', ''sys_user'', ''id'')],
     ta_indexes = [(''fk_alert_event_log_operator'', [''operator_id'']),
       (''idx_alert_event_log_event_time'', [''event_id'', ''created_at''])]\<rparr>"

definition metadata_tables :: schema where
  "metadata_tables = [
     (''sys_user'', sys_user_model),
     (''sys_role'', sys_role_model),
     (''sys_permission'', sys_permission_model),
     (''sys_user_role'', sys_user_role_model),
     (''sys_role_permission'', sys_role_permission_model),
     (''sys_login_log'', sys_login_log_model),
     (''sys_operation_log'', sys_operation_log_model),
     (''ops_server'', ops_server_model),
     (''ops_server_disk'', ops_server_disk_model),
     (''ops_server_network'', ops_server_network_model),
     (''ops_agent_token'', ops_agent_token_model),
     (''ops_agent_heartbeat'', ops_agent_heartbeat_model),
     (''ops_server_service'', ops_server_service_model),
     (''ops_server_container'', ops_server_container_model),
     (''monitor_server_metric'', monitor_server_metric_model),
     (''monitor_server_metric_daily'', monitor_server_metric_daily_model),
     (''monitor_disk_metric'', monitor_disk_metric_model),
     (''monitor_network_metric'', monitor_network_metric_model),
     (''monitor_container_metric'', monitor_container_metric_model),
     (''monitor_process_snapshot'', monitor_process_snapshot_model),
     (''ops_task'', ops_task_model),
     (''ops_task_target'', ops_task_target_model),
     (''ops_task_execution'', ops_task_execution_model),
     (''ops_task_log'', ops_task_log_model),
     (''alert_rule'', alert_rule_model),
     (''alert_event'', alert_event_model),
     (''alert_event_log'', alert_event_log_model)]"

lemmas model_defs = sys_user_model_def sys_role_model_def sys_permission_model_def sys_user_role_model_def sys_role_permission_model_def sys_login_log_model_def sys_operation_log_model_def ops_server_model_def ops_server_disk_model_def ops_server_network_model_def ops_agent_token_model_def ops_agent_heartbeat_model_def ops_server_service_model_def ops_server_container_model_def monitor_server_metric_model_def monitor_server_metric_daily_model_def monitor_disk_metric_model_def monitor_network_metric_model_def monitor_container_metric_model_def monitor_process_snapshot_model_def ops_task_model_def ops_task_target_model_def ops_task_execution_model_def ops_task_log_model_def alert_rule_model_def alert_event_model_def alert_event_log_model_def

end
