(* ===== verification/Migrations.thy ===== *)
theory Migrations
  imports Metadata
begin

text \<open>
  The revisions of \<open>backend/migrations/versions\<close>, statement by statement. The baseline is split by
  tables; each group creates one table and then its indexes.
\<close>

definition sys_permission_group :: table_group where
  "sys_permission_group = (''sys_permission'',
     \<lparr>ta_columns = [
       Column ''id'' (BIGINT True) False None AutoIncrement,
       Column ''permission_code'' (VARCHAR 128) False None Plain,
       Column ''permission_name'' (VARCHAR 128) False None Plain,
       Column ''permission_type'' (VARCHAR 16) False None Plain,
       Column ''path'' (VARCHAR 255) True None Plain,
       Column ''method'' (VARCHAR 16) True None Plain,
       Column ''parent_id'' (BIGINT True) True None Plain,
       Column ''status'' (TINYINT) False (Some ''1'') Plain,
       Column ''created_at'' (DATETIME 3) False (Some ''CURRENT_TIMESTAMP(3)'') Plain,
       Column ''updated_at'' (DATETIME 3) False (Some ''CURRENT_TIMESTAMP(3) ON UPDATE CURRENT_TIMESTAMP(3)'') Plain],
     ta_primary = [''id''],
     ta_unique = [(''uk_sys_permission_code'', [''permission_code''])],
     ta_foreign = [(''fk_sys_permission_parent'', ''parent_id'', ''sys_permission'', ''id'')],
     ta_indexes = []\<rparr>,
     [(''idx_sys_permission_parent_id'', [''parent_id'']),
       (''idx_sys_permission_type_status'', [''permission_type'', ''status''])])"

definition sys_role_group :: table_group where
  "sys_role_group = (''sys_role'',
     \<lparr>ta_columns = [
       Column ''id'' (BIGINT True) False None AutoIncrement,
       Column ''role_code'' (VARCHAR 64) False None Plain,
       Column ''role_name'' (VARCHAR 64) False None Plain,
       Column ''description'' (VARCHAR 255) True None Plain,
       Column ''status'' (TINYINT) False (Some ''1'') Plain,
       Column ''created_at'' (DATETIME 3) False (Some ''CURRENT_TIMESTAMP(3)'') Plain,
       Column ''updated_at'' (DATETIME 3) False (Some ''CURRENT_TIMESTAMP(3) ON UPDATE CURRENT_TIMESTAMP(3)'') Plain],
     ta_primary = [''id''],
     ta_unique = [(''uk_sys_role_code'', [''role_code''])],
     ta_foreign = [],
     ta_indexes = []\<rparr>,
     [(''idx_sys_role_status'', [''status''])])"

definition sys_user_group :: table_group where
  "sys_user_group = (''sys_user'',
     \<lparr>ta_columns = [
       Column ''id'' (BIGINT True) False None AutoIncrement,
       Column ''username'' (VARCHAR 64) False None Plain,
       Column ''password_hash'' (VARCHAR 255) False None Plain,
       Column ''nickname'' (VARCHAR 64) True None Plain,
       Column ''email'' (VARCHAR 128) True None Plain,
       Column ''phone'' (VARCHAR 32) True None Plain,
       Column ''status'' (TINYINT) False (Some ''1'') Plain,
       Column ''last_login_at'' (DATETIME 3) True None Plain,
       Column ''last_login_ip'' (VARCHAR 64) True None Plain,
       Column ''created_at'' (DATETIME 3) False (Some ''CURRENT_TIMESTAMP(3)'') Plain,
       Column ''updated_at'' (DATETIME 3) False (Some ''CURRENT_TIMESTAMP(3) ON UPDATE CURRENT_TIMESTAMP(3)'') Plain,
       Column ''deleted_at'' (DATETIME 3) True None Plain],
     ta_primary = [''id''],
     ta_unique = [(''uk_sys_user_email'', [''email'']),
       (''uk_sys_user_username'', [''username''])],
     ta_foreign = [],
     ta_indexes = []\<rparr>,
     [(''idx_sys_user_deleted_at'', [''deleted_at'']),
       (''idx_sys_user_status'', [''status''])])"

definition alert_rule_group :: table_group where
  "alert_rule_group = (''alert_rule'',
     \<lparr>ta_columns = [
       Column ''id'' (BIGINT True) False None AutoIncrement,
       Column ''rule_name'' (VARCHAR 128) False None Plain,
       Column ''metric_type'' (VARCHAR 64) False None Plain,
       Column ''target_type'' (VARCHAR 32) False (Some ([CHR 0x27] @ ''SERVER'' @ [CHR 0x27])) Plain,
       Column ''severity'' (VARCHAR 16) False None Plain,
       Column ''operator'' (VARCHAR 8) False None Plain,
       Column ''threshold'' (NUMERIC 12 4) True None Plain,
       Column ''duration_seconds'' (INTEGER True) False (Some ''0'') Plain,
       Column ''recovery_threshold'' (NUMERIC 12 4) True None Plain,
       Column ''enabled'' (TINYINT) False (Some ''1'') Plain,
       Column ''description'' (VARCHAR 500) True None Plain,
       Column ''created_by'' (BIGINT True) True None Plain,
       Column ''created_at'' (DATETIME 3) False (Some ''CURRENT_TIMESTAMP(3)'') Plain,
       Column ''updated_at'' (DATETIME 3) False (Some ''CURRENT_TIMESTAMP(3) ON UPDATE CURRENT_TIMESTAMP(3)'') Plain],
     ta_primary = [''id''],
     ta_unique = [],
     ta_foreign = [(''fk_alert_rule_created_by'', ''created_by'', ''sys_user'', ''id'')],
     ta_indexes = []\<rparr>,
     [(''fk_alert_rule_created_by'', [''created_by'']),
       (''idx_alert_rule_metric_enabled'', [''metric_type'', ''enabled'']),
       (''idx_alert_rule_target_enabled'', [''target_type'', ''enabled''])])"

definition ops_server_group :: table_group where
  "ops_server_group = (''ops_server'',
     \<lparr>ta_columns = [
       Column ''id'' (BIGINT True) False None AutoIncrement,
       Column ''server_code'' (VARCHAR 64) False None Plain,
       Column ''hostname'' (VARCHAR 128) False None Plain,
       Column ''ip_address'' (VARCHAR 64) False None Plain,
       Column ''ssh_port'' (SMALLINT True) False (Some ''22'') Plain,
       Column ''os_name'' (VARCHAR 128) True None Plain,
       Column ''os_version'' (VARCHAR 128) True None Plain,
       Column ''kernel_version'' (VARCHAR 128) True None Plain,
       Column ''architecture'' (VARCHAR 32) True None Plain,
       Column ''cpu_model'' (VARCHAR 255) True None Plain,
       Column ''cpu_cores'' (INTEGER True) True None Plain,
       Column ''memory_total_bytes'' (BIGINT True) True None Plain,
       Column ''disk_total_bytes'' (BIGINT True) True None Plain,
       Column ''agent_version'' (VARCHAR 32) True None Plain,
       Column ''agent_status'' (VARCHAR 16) False (Some ([CHR 0x27] @ ''OFFLINE'' @ [CHR 0x27])) Plain,
       Column ''last_heartbeat_at'' (DATETIME 3) True None Plain,
       Column ''registered_at'' (DATETIME 3) True None Plain,
       Column ''status'' (TINYINT) False (Some ''1'') Plain,
       Column ''remark'' (VARCHAR 500) True None Plain,
       Column ''created_by'' (BIGINT True) True None Plain,
       Column ''created_at'' (DATETIME 3) False (Some ''CURRENT_TIMESTAMP(3)'') Plain,
       Column ''updated_at'' (DATETIME 3) False (Some ''CURRENT_TIMESTAMP(3) ON UPDATE CURRENT_TIMESTAMP(3)'') Plain,
       Column ''deleted_at'' (DATETIME 3) True None Plain],
     ta_primary = [''id''],
     ta_unique = [(''uk_ops_server_ip_port'', [''ip_address'', ''ssh_port'']),
       (''uk_ops_server_code'', [''server_code''])],
     ta_foreign = [(''fk_ops_server_created_by'', ''created_by'', ''sys_user'', ''id'')],
     ta_indexes = []\<rparr>,
     [(''fk_ops_server_created_by'', [''created_by'']),
       (''idx_ops_server_agent_status'', [''agent_status'']),
       (''idx_ops_server_hostname'', [''hostname'']),
       (''idx_ops_server_last_heartbeat'', [''last_heartbeat_at'']),
       (''idx_ops_server_status'', [''status''])])"

definition ops_task_group :: table_group where
  "ops_task_group = (''ops_task'',
     \<lparr>ta_columns = [
       Column ''id'' (BIGINT True) False None AutoIncrement,
       Column ''task_name'' (VARCHAR 128) False None Plain,
       Column ''task_type'' (VARCHAR 32) False None Plain,
       Column ''action'' (VARCHAR 32) True None Plain,
       Column ''service_name'' (VARCHAR 64) True None Plain,
       Column ''schedule_type'' (VARCHAR 16) False (Some ([CHR 0x27] @ ''ONCE'' @ [CHR 0x27])) Plain,
       Column ''cron_expression'' (VARCHAR 128) True None Plain,
       Column ''status'' (VARCHAR 24) False (Some ([CHR 0x27] @ ''CREATED'' @ [CHR 0x27])) Plain,
       Column ''created_by'' (BIGINT True) False None Plain,
       Column ''started_at'' (DATETIME 3) True None Plain,
       Column ''finished_at'' (DATETIME 3) True None Plain,
       Column ''timeout_seconds'' (INTEGER True) False (Some ''300'') Plain,
       Column ''confirmation_required'' (TINYINT) False (Some ''0'') Plain,
       Column ''confirmed_by'' (BIGINT True) True None Plain,
       Column ''confirmed_at'' (DATETIME 3) True None Plain,
       Column ''created_at'' (DATETIME 3) False (Some ''CURRENT_TIMESTAMP(3)'') Plain,
       Column ''updated_at'' (DATETIME 3) False (Some ''CURRENT_TIMESTAMP(3) ON UPDATE CURRENT_TIMESTAMP(3)'') Plain],
     ta_primary = [''id''],
     ta_unique = [],
     ta_foreign = [(''fk_ops_task_confirmed_by'', ''confirmed_by'', ''sys_user'', ''id''),
       (''fk_ops_task_created_by'', ''created_by'', ''sys_user'', ''id'')],
     ta_indexes = []\<rparr>,
     [(''fk_ops_task_confirmed_by'', [''confirmed_by'']),
       (''idx_ops_task_creator_time'', [''created_by'', ''created_at'']),
       (''idx_ops_task_schedule'', [''schedule_type'', ''status'']),
       (''idx_ops_task_status'', [''status''])])"

definition sys_login_log_group :: table_group where
  "sys_login_log_group = (''sys_login_log'',
     \<lparr>ta_columns = [
       Column ''id'' (BIGINT True) False None AutoIncrement,
       Column ''user_id'' (BIGINT True) True None Plain,
       Column ''username'' (VARCHAR 64) False None Plain,
       Column ''login_ip'' (VARCHAR 64) True None Plain,
       Column ''user_agent'' (VARCHAR 500) True None Plain,
       Column ''login_status'' (VARCHAR 16) False None Plain,
       Column ''failure_reason'' (VARCHAR 255) True None Plain,
       Column ''request_id'' (VARCHAR 64) True None Plain,
       Column ''created_at'' (DATETIME 3) False (Some ''CURRENT_TIMESTAMP(3)'') Plain],
     ta_primary = [''id''],
     ta_unique = [],
     ta_foreign = [(''fk_sys_login_log_user'', ''user_id'', ''sys_user'', ''id'')],
     ta_indexes = []\<rparr>,
     [(''idx_sys_login_log_status_time'', [''login_status'', ''created_at'']),
       (''idx_sys_login_log_user_time'', [''user_id'', ''created_at'']),
       (''idx_sys_login_log_username_time'', [''username'', ''created_at''])])"

definition sys_role_permission_group :: table_group where
  "sys_role_permission_group = (''sys_role_permission'',
     \<lparr>ta_columns = [
       Column ''role_id'' (BIGINT True) False None Plain,
       Column ''permission_id'' (BIGINT True) False None Plain,
       Column ''created_at'' (DATETIME 3) False (Some ''CURRENT_TIMESTAMP(3)'') Plain],
     ta_primary = [''role_id'', ''permission_id''],
     ta_unique = [],
     ta_foreign = [(''fk_sys_role_permission_permission'', ''permission_id'', ''sys_permission'', ''id''),
       (''fk_sys_role_permission_role'', ''role_id'', ''sys_role'', ''id'')],
     ta_indexes = []\<rparr>,
     [(''idx_sys_role_permission_permission_id'', [''permission_id''])])"

definition sys_user_role_group :: table_group where
  "sys_user_role_group = (''sys_user_role'',
     \<lparr>ta_columns = [
       Column ''user_id'' (BIGINT True) False None Plain,
       Column ''role_id'' (BIGINT True) False None Plain,
       Column ''created_at'' (DATETIME 3) False (Some ''CURRENT_TIMESTAMP(3)'') Plain],
     ta_primary = [''user_id'', ''role_id''],
     ta_unique = [],
     ta_foreign = [(''fk_sys_user_role_role'', ''role_id'', ''sys_role'', ''id''),
       (''fk_sys_user_role_user'', ''user_id'', ''sys_user'', ''id'')],
     ta_indexes = []\<rparr>,
     [(''idx_sys_user_role_role_id'', [''role_id''])])"

definition alert_event_group :: table_group where
  "alert_event_group = (''alert_event'',
     \<lparr>ta_columns = [
       Column ''id'' (BIGINT True) False None AutoIncrement,
       Column ''rule_id'' (BIGINT True) False None Plain,
       Column ''server_id'' (BIGINT True) True None Plain,
       Column ''resource_type'' (VARCHAR 32) False (Some ([CHR 0x27] @ ''SERVER'' @ [CHR 0x27])) Plain,
       Column ''resource_id'' (BIGINT True) True None Plain,
       Column ''alert_key'' (VARCHAR 255) False None Plain,
       Column ''metric_type'' (VARCHAR 64) False None Plain,
       Column ''severity'' (VARCHAR 16) False None Plain,
       Column ''status'' (VARCHAR 24) False (Some ([CHR 0x27] @ ''PENDING'' @ [CHR 0x27])) Plain,
       Column ''is_active'' (TINYINT) True None (Computed (''CASE WHEN status IN ('' @ [CHR 0x27] @ ''PENDING'' @ [CHR 0x27] @ '', '' @ [CHR 0x27] @ ''FIRING'' @ [CHR 0x27] @ '', '' @ [CHR 0x27] @ ''ACKNOWLEDGED'' @ [CHR 0x27] @ '') THEN 1 ELSE NULL END'')),
       Column ''first_fired_at'' (DATETIME 3) True None Plain,
       Column ''last_fired_at'' (DATETIME 3) True None Plain,
       Column ''acknowledged_by'' (BIGINT True) True None Plain,
       Column ''acknowledged_at'' (DATETIME 3) True None Plain,
       Column ''resolved_at'' (DATETIME 3) True None Plain,
       Column ''current_value'' (NUMERIC 12 4) True None Plain,
       Column ''threshold_value'' (NUMERIC 12 4) True None Plain,
       Column ''message'' (VARCHAR 500) False None Plain,
       Column ''created_at'' (DATETIME 3) False (Some ''CURRENT_TIMESTAMP(3)'') Plain,
       Column ''updated_at'' (DATETIME 3) False (Some ''CURRENT_TIMESTAMP(3) ON UPDATE CURRENT_TIMESTAMP(3)'') Plain],
     ta_primary = [''id''],
     ta_unique = [(''uk_alert_event_active_key'', [''alert_key'', ''is_active''])],
     ta_foreign = [(''fk_alert_event_acknowledged_by'', ''acknowledged_by'', ''sys_user'', ''id''),
       (''fk_alert_event_rule'', ''rule_id'', ''alert_rule'', ''id''),
       (''fk_alert_event_server'', ''server_id'', ''ops_server'', ''id'')],
     ta_indexes = []\<rparr>,
     [(''fk_alert_event_acknowledged_by'', [''acknowledged_by'']),
       (''idx_alert_event_rule_id'', [''rule_id'']),
       (''idx_alert_event_server_status'', [''server_id'', ''status'']),
       (''idx_alert_event_status_time'', [''status'', ''created_at''])])"

definition monitor_process_snapshot_group :: table_group where
  "monitor_process_snapshot_group = (''monitor_process_snapshot'',
     \<lparr>ta_columns = [
       Column ''id'' (BIGINT True) False None AutoIncrement,
       Column ''server_id'' (BIGINT True) False None Plain,
       Column ''process_pid'' (INTEGER True) False None Plain,
       Column ''process_name'' (VARCHAR 255) True None Plain,
       Column ''username'' (VARCHAR 128) True None Plain,
       Column ''cpu_percent'' (NUMERIC 7 3) True None Plain,
       Column ''memory_percent'' (NUMERIC 7 3) True None Plain,
       Column ''memory_bytes'' (BIGINT True) True None Plain,
       Column ''process_status'' (VARCHAR 32) True None Plain,
       Column ''command_line'' (TEXT) True None Plain,
       Column ''collected_at'' (DATETIME 3) False None Plain,
       Column ''created_at'' (DATETIME 3) False (Some ''CURRENT_TIMESTAMP(3)'') Plain],
     ta_primary = [''id''],
     ta_unique = [],
     ta_foreign = [(''fk_monitor_process_snapshot_server'', ''server_id'', ''ops_server'', ''id'')],
     ta_indexes = []\<rparr>,
     [(''idx_monitor_process_snapshot_server_pid_time'', [''server_id'', ''process_pid'', ''collected_at'']),
       (''idx_monitor_process_snapshot_server_time'', [''server_id'', ''collected_at''])])"

definition monitor_server_metric_group :: table_group where
  "monitor_server_metric_group = (''monitor_server_metric'',
     \<lparr>ta_columns = [
       Column ''id'' (BIGINT True) False None AutoIncrement,
       Column ''server_id'' (BIGINT True) False None Plain,
       Column ''collected_at'' (DATETIME 3) False None Plain,
       Column ''cpu_usage'' (NUMERIC 5 2) True None Plain,
       Column ''memory_usage'' (NUMERIC 5 2) True None Plain,
       Column ''memory_used_bytes'' (BIGINT True) True None Plain,
       Column ''disk_usage'' (NUMERIC 5 2) True None Plain,
       Column ''network_in_bytes'' (BIGINT True) True None Plain,
       Column ''network_out_bytes'' (BIGINT True) True None Plain,
       Column ''load_1m'' (NUMERIC 10 2) True None Plain,
       Column ''load_5m'' (NUMERIC 10 2) True None Plain,
       Column ''load_15m'' (NUMERIC 10 2) True None Plain,
       Column ''tcp_connections'' (INTEGER True) True None Plain,
       Column ''uptime_seconds'' (BIGINT True) True None Plain,
       Column ''created_at'' (DATETIME 3) False (Some ''CURRENT_TIMESTAMP(3)'') Plain],
     ta_primary = [''id''],
     ta_unique = [],
     ta_foreign = [(''fk_monitor_server_metric_server'', ''server_id'', ''ops_server'', ''id'')],
     ta_indexes = []\<rparr>,
     [(''idx_monitor_server_metric_collected_at'', [''collected_at'']),
       (''idx_monitor_server_metric_server_time'', [''server_id'', ''collected_at''])])"

definition ops_agent_heartbeat_group :: table_group where
  "ops_agent_heartbeat_group = (''ops_agent_heartbeat'',
     \<lparr>ta_columns = [
       Column ''id'' (BIGINT True) False None AutoIncrement,
       Column ''server_id'' (BIGINT True) False None Plain,
       Column ''agent_version'' (VARCHAR 32) True None Plain,
       Column ''ip_address'' (VARCHAR 64) True None Plain,
       Column ''collected_at'' (DATETIME 3) False None Plain,
       Column ''received_at'' (DATETIME 3) False (Some ''CURRENT_TIMESTAMP(3)'') Plain,
       Column ''created_at'' (DATETIME 3) False (Some ''CURRENT_TIMESTAMP(3)'') Plain],
     ta_primary = [''id''],
     ta_unique = [],
     ta_foreign = [(''fk_ops_agent_heartbeat_server'', ''server_id'', ''ops_server'', ''id'')],
     ta_indexes = []\<rparr>,
     [(''idx_ops_agent_heartbeat_received_at'', [''received_at'']),
       (''idx_ops_agent_heartbeat_server_time'', [''server_id'', ''collected_at''])])"

definition ops_agent_token_group :: table_group where
  "ops_agent_token_group = (''ops_agent_token'',
     \<lparr>ta_columns = [
       Column ''id'' (BIGINT True) False None AutoIncrement,
       Column ''server_id'' (BIGINT True) False None Plain,
       Column ''token_name'' (VARCHAR 64) False None Plain,
       Column ''token_prefix'' (VARCHAR 16) False None Plain,
       Column ''token_hash'' (FIXED_CHAR 64) False None Plain,
       Column ''status'' (TINYINT) False (Some ''1'') Plain,
       Column ''expires_at'' (DATETIME 3) True None Plain,
       Column ''last_used_at'' (DATETIME 3) True None Plain,
       Column ''created_at'' (DATETIME 3) False (Some ''CURRENT_TIMESTAMP(3)'') Plain,
       Column ''revoked_at'' (DATETIME 3) True None Plain],
     ta_primary = [''id''],
     ta_unique = [(''uk_ops_agent_token_hash'', [''token_hash''])],
     ta_foreign = [(''fk_ops_agent_token_server'', ''server_id'', ''ops_server'', ''id'')],
     ta_indexes = []\<rparr>,
     [(''idx_ops_agent_token_server_status'', [''server_id'', ''status''])])"

definition ops_server_container_group :: table_group where
  "ops_server_container_group = (''ops_server_container'',
     \<lparr>ta_columns = [
       Column ''id'' (BIGINT True) False None AutoIncrement,
       Column ''server_id'' (BIGINT True) False None Plain,
       Column ''container_id'' (VARCHAR 128) False None Plain,
       Column ''container_name'' (VARCHAR 255) False None Plain,
       Column ''image_name'' (VARCHAR 255) True None Plain,
       Column ''container_status'' (VARCHAR 32) True None Plain,
       Column ''restart_count'' (INTEGER True) True None Plain,
       Column ''container_created_at'' (DATETIME 3) True None Plain,
       Column ''is_critical'' (TINYINT) False (Some ''0'') Plain,
       Column ''last_seen_at'' (DATETIME 3) True None Plain,
       Column ''status'' (TINYINT) False (Some ''1'') Plain,
       Column ''created_at'' (DATETIME 3) False (Some ''CURRENT_TIMESTAMP(3)'') Plain,
       Column ''updated_at'' (DATETIME 3) False (Some ''CURRENT_TIMESTAMP(3) ON UPDATE CURRENT_TIMESTAMP(3)'') Plain],
     ta_primary = [''id''],
     ta_unique = [(''uk_ops_server_container'', [''server_id'', ''container_id''])],
     ta_foreign = [(''fk_ops_server_container_server'', ''server_id'', ''ops_server'', ''id'')],
     ta_indexes = []\<rparr>,
     [(''idx_ops_server_container_critical'', [''is_critical'', ''container_status'']),
       (''idx_ops_server_container_status'', [''server_id'', ''container_status''])])"

definition ops_server_disk_group :: table_group where
  "ops_server_disk_group = (''ops_server_disk'',
     \<lparr>ta_columns = [
       Column ''id'' (BIGINT True) False None AutoIncrement,
       Column ''server_id'' (BIGINT True) False None Plain,
       Column ''device_name'' (VARCHAR 128) False None Plain,
       Column ''mount_point'' (VARCHAR 255) True None Plain,
       Column ''filesystem'' (VARCHAR 64) True None Plain,
       Column ''total_bytes'' (BIGINT True) True None Plain,
       Column ''status'' (TINYINT) False (Some ''1'') Plain,
       Column ''created_at'' (DATETIME 3) False (Some ''CURRENT_TIMESTAMP(3)'') Plain,
       Column ''updated_at'' (DATETIME 3) False (Some ''CURRENT_TIMESTAMP(3) ON UPDATE CURRENT_TIMESTAMP(3)'') Plain],
     ta_primary = [''id''],
     ta_unique = [(''uk_ops_server_disk'', [''server_id'', ''device_name'', ''mount_point''])],
     ta_foreign = [(''fk_ops_server_disk_server'', ''server_id'', ''ops_server'', ''id'')],
     ta_indexes = []\<rparr>,
     [(''idx_ops_server_disk_server_id'', [''server_id''])])"

definition ops_server_network_group :: table_group where
  "ops_server_network_group = (''ops_server_network'',
     \<lparr>ta_columns = [
       Column ''id'' (BIGINT True) False None AutoIncrement,
       Column ''server_id'' (BIGINT True) False None Plain,
       Column ''interface_name'' (VARCHAR 128) False None Plain,
       Column ''mac_address'' (VARCHAR 64) True None Plain,
       Column ''ip_address'' (VARCHAR 64) True None Plain,
       Column ''status'' (TINYINT) False (Some ''1'') Plain,
       Column ''created_at'' (DATETIME 3) False (Some ''CURRENT_TIMESTAMP(3)'') Plain,
       Column ''updated_at'' (DATETIME 3) False (Some ''CURRENT_TIMESTAMP(3) ON UPDATE CURRENT_TIMESTAMP(3)'') Plain],
     ta_primary = [''id''],
     ta_unique = [(''uk_ops_server_network_interface'', [''server_id'', ''interface_name''])],
     ta_foreign = [(''fk_ops_server_network_server'', ''server_id'', ''ops_server'', ''id'')],
     ta_indexes = []\<rparr>,
     [(''idx_ops_server_network_server_id'', [''server_id''])])"

definition ops_server_service_group :: table_group where
  "ops_server_service_group = (''ops_server_service'',
     \<lparr>ta_columns = [
       Column ''id'' (BIGINT True) False None AutoIncrement,
       Column ''server_id'' (BIGINT True) False None Plain,
       Column ''service_name'' (VARCHAR 64) False None Plain,
       Column ''display_name'' (VARCHAR 128) True None Plain,
       Column ''service_type'' (VARCHAR 32) False (Some ([CHR 0x27] @ ''SYSTEMD'' @ [CHR 0x27])) Plain,
       Column ''is_whitelisted'' (TINYINT) False (Some ''1'') Plain,
       Column ''is_critical'' (TINYINT) False (Some ''0'') Plain,
       Column ''current_status'' (VARCHAR 32) True None Plain,
       Column ''last_checked_at'' (DATETIME 3) True None Plain,
       Column ''status'' (TINYINT) False (Some ''1'') Plain,
       Column ''created_at'' (DATETIME 3) False (Some ''CURRENT_TIMESTAMP(3)'') Plain,
       Column ''updated_at'' (DATETIME 3) False (Some ''CURRENT_TIMESTAMP(3) ON UPDATE CURRENT_TIMESTAMP(3)'') Plain],
     ta_primary = [''id''],
     ta_unique = [(''uk_ops_server_service'', [''server_id'', ''service_name''])],
     ta_foreign = [(''fk_ops_server_service_server'', ''server_id'', ''ops_server'', ''id'')],
     ta_indexes = []\<rparr>,
     [(''idx_ops_server_service_critical'', [''is_critical'', ''current_status'']),
       (''idx_ops_server_service_status'', [''server_id'', ''current_status''])])"

definition ops_task_target_group :: table_group where
  "ops_task_target_group = (''ops_task_target'',
     \<lparr>ta_columns = [
       Column ''id'' (BIGINT True) False None AutoIncrement,
       Column ''task_id'' (BIGINT True) False None Plain,
       Column ''server_id'' (BIGINT True) False None Plain,
       Column ''target_status'' (VARCHAR 24) False (Some ([CHR 0x27] @ ''PENDING'' @ [CHR 0x27])) Plain,
       Column ''created_at'' (DATETIME 3) False (Some ''CURRENT_TIMESTAMP(3)'') Plain],
     ta_primary = [''id''],
     ta_unique = [(''uk_ops_task_target'', [''task_id'', ''server_id''])],
     ta_foreign = [(''fk_ops_task_target_server'', ''server_id'', ''ops_server'', ''id''),
       (''fk_ops_task_target_task'', ''task_id'', ''ops_task'', ''id'')],
     ta_indexes = []\<rparr>,
     [(''idx_ops_task_target_server_id'', [''server_id'']),
       (''idx_ops_task_target_status'', [''target_status''])])"

definition sys_operation_log_group :: table_group where
  "sys_operation_log_group = (''sys_operation_log'',
     \<lparr>ta_columns = [
       Column ''id'' (BIGINT True) False None AutoIncrement,
       Column ''user_id'' (BIGINT True) True None Plain,
       Column ''username'' (VARCHAR 64) True None Plain,
       Column ''module'' (VARCHAR 64) False None Plain,
       Column ''operation'' (VARCHAR 64) False None Plain,
       Column ''http_method'' (VARCHAR 16) True None Plain,
       Column ''request_path'' (VARCHAR 255) True None Plain,
       Column ''target_type'' (VARCHAR 32) True None Plain,
       Column ''target_id'' (BIGINT True) True None Plain,
       Column ''server_id'' (BIGINT True) True None Plain,
       Column ''request_ip'' (VARCHAR 64) True None Plain,
       Column ''request_id'' (VARCHAR 64) True None Plain,
       Column ''request_params'' (JSON_DOC) True None Plain,
       Column ''result_status'' (VARCHAR 24) False None Plain,
       Column ''error_message'' (TEXT) True None Plain,
       Column ''duration_ms'' (BIGINT True) True None Plain,
       Column ''created_at'' (DATETIME 3) False (Some ''CURRENT_TIMESTAMP(3)'') Plain],
     ta_primary = [''id''],
     ta_unique = [],
     ta_foreign = [(''fk_sys_operation_log_server'', ''server_id'', ''ops_server'', ''id''),
       (''fk_sys_operation_log_user'', ''user_id'', ''sys_user'', ''id'')],
     ta_indexes = []\<rparr>,
     [(''idx_sys_operation_log_created_at'', [''created_at'']),
       (''idx_sys_operation_log_module_time'', [''module'', ''created_at'']),
       (''idx_sys_operation_log_server_time'', [''server_id'', ''created_at'']),
       (''idx_sys_operation_log_status_time'', [''result_status'', ''created_at'']),
       (''idx_sys_operation_log_user_time'', [''user_id'', ''created_at''])])"

definition alert_event_log_group :: table_group where
  "alert_event_log_group = (''alert_event_log'',
     \<lparr>ta_columns = [
       Column ''id'' (BIGINT True) False None AutoIncrement,
       Column ''event_id'' (BIGINT True) False None Plain,
       Column ''old_status'' (VARCHAR 24) True None Plain,
       Column ''new_status'' (VARCHAR 24) False None Plain,
       Column ''current_value'' (NUMERIC 12 4) True None Plain,
       Column ''message'' (VARCHAR 500) True None Plain,
       Column ''operator_id'' (BIGINT True) True None Plain,
       Column ''created_at'' (DATETIME 3) False (Some ''CURRENT_TIMESTAMP(3)'') Plain],
     ta_primary = [''id''],
     ta_unique = [],
     ta_foreign = [(''fk_alert_event_log_event'', ''event_id'', ''alert_event'', ''id''),
       (''fk_alert_event_log_operator'', ''operator_id'', ''sys_user'', ''id'')],
     ta_indexes = []\<rparr>,
     [(''fk_alert_event_log_operator'', [''operator_id'']),
       (''idx_alert_event_log_event_time'', [''event_id'', ''created_at''])])"

definition monitor_container_metric_group :: table_group where
  "monitor_container_metric_group = (''monitor_container_metric'',
     \<lparr>ta_columns = [
       Column ''id'' (BIGINT True) False None AutoIncrement,
       Column ''container_asset_id'' (BIGINT True) False None Plain,
       Column ''server_id'' (BIGINT True) False None Plain,
       Column ''container_id'' (VARCHAR 128) False None Plain,
       Column ''container_status'' (VARCHAR 32) True None Plain,
       Column ''cpu_usage'' (NUMERIC 7 3) True None Plain,
       Column ''memory_usage'' (NUMERIC 7 3) True None Plain,
       Column ''memory_used_bytes'' (BIGINT True) True None Plain,
       Column ''network_in_bytes'' (BIGINT True) True None Plain,
       Column ''network_out_bytes'' (BIGINT True) True None Plain,
       Column ''restart_count'' (INTEGER True) True None Plain,
       Column ''collected_at'' (DATETIME 3) False None Plain,
       Column ''created_at'' (DATETIME 3) False (Some ''CURRENT_TIMESTAMP(3)'') Plain],
     ta_primary = [''id''],
     ta_unique = [],
     ta_foreign = [(''fk_monitor_container_metric_asset'', ''container_asset_id'', ''ops_server_container'', ''id''),
       (''fk_monitor_container_metric_server'', ''server_id'', ''ops_server'', ''id'')],
     ta_indexes = []\<rparr>,
     [(''idx_monitor_container_metric_asset_time'', [''container_asset_id'', ''collected_at'']),
       (''idx_monitor_container_metric_server_time'', [''server_id'', ''collected_at''])])"

definition monitor_disk_metric_group :: table_group where
  "monitor_disk_metric_group = (''monitor_disk_metric'',
     \<lparr>ta_columns = [
       Column ''id'' (BIGINT True) False None AutoIncrement,
       Column ''disk_id'' (BIGINT True) False None Plain,
       Column ''server_id'' (BIGINT True) False None Plain,
       Column ''collected_at'' (DATETIME 3) False None Plain,
       Column ''used_bytes'' (BIGINT True) True None Plain,
       Column ''total_bytes'' (BIGINT True) True None Plain,
       Column ''usage_percent'' (NUMERIC 5 2) True None Plain,
       Column ''read_bytes'' (BIGINT True) True None Plain,
       Column ''write_bytes'' (BIGINT True) True None Plain,
       Column ''created_at'' (DATETIME 3) False (Some ''CURRENT_TIMESTAMP(3)'') Plain],
     ta_primary = [''id''],
     ta_unique = [],
     ta_foreign = [(''fk_monitor_disk_metric_disk'', ''disk_id'', ''ops_server_disk'', ''id''),
       (''fk_monitor_disk_metric_server'', ''server_id'', ''ops_server'', ''id'')],
     ta_indexes = []\<rparr>,
     [(''idx_monitor_disk_metric_disk_time'', [''disk_id'', ''collected_at'']),
       (''idx_monitor_disk_metric_server_time'', [''server_id'', ''collected_at''])])"

definition monitor_network_metric_group :: table_group where
  "monitor_network_metric_group = (''monitor_network_metric'',
     \<lparr>ta_columns = [
       Column ''id'' (BIGINT True) False None AutoIncrement,
       Column ''network_id'' (BIGINT True) False None Plain,
       Column ''server_id'' (BIGINT True) False None Plain,
       Column ''collected_at'' (DATETIME 3) False None Plain,
       Column ''bytes_received'' (BIGINT True) True None Plain,
       Column ''bytes_sent'' (BIGINT True) True None Plain,
       Column ''packets_received'' (BIGINT True) True None Plain,
       Column ''packets_sent'' (BIGINT True) True None Plain,
       Column ''errors_received'' (INTEGER True) True None Plain,
       Column ''errors_sent'' (INTEGER True) True None Plain,
       Column ''created_at'' (DATETIME 3) False (Some ''CURRENT_TIMESTAMP(3)'') Plain],
     ta_primary = [''id''],
     ta_unique = [],
     ta_foreign = [(''fk_monitor_network_metric_network'', ''network_id'', ''ops_server_network'', ''id''),
       (''fk_monitor_network_metric_server'', ''server_id'', ''ops_server'', ''id'')],
     ta_indexes = []\<rparr>,
     [(''idx_monitor_network_metric_network_time'', [''network_id'', ''collected_at'']),
       (''idx_monitor_network_metric_server_time'', [''server_id'', ''collected_at''])])"

definition ops_task_execution_group :: table_group where
  "ops_task_execution_group = (''ops_task_execution'',
     \<lparr>ta_columns = [
       Column ''id'' (BIGINT True) False None AutoIncrement,
       Column ''task_id'' (BIGINT True) False None Plain,
       Column ''target_id'' (BIGINT True) False None Plain,
       Column ''server_id'' (BIGINT True) False None Plain,
       Column ''status'' (VARCHAR 24) False (Some ([CHR 0x27] @ ''PENDING'' @ [CHR 0x27])) Plain,
       Column ''exit_code'' (INTEGER False) True None Plain,
       Column ''result_text'' (MEDIUMTEXT) True None Plain,
       Column ''error_message'' (TEXT) True None Plain,
       Column ''started_at'' (DATETIME 3) True None Plain,
       Column ''finished_at'' (DATETIME 3) True None Plain,
       Column ''duration_ms'' (BIGINT True) True None Plain,
       Column ''created_at'' (DATETIME 3) False (Some ''CURRENT_TIMESTAMP(3)'') Plain,
       Column ''updated_at'' (DATETIME 3) False (Some ''CURRENT_TIMESTAMP(3) ON UPDATE CURRENT_TIMESTAMP(3)'') Plain],
     ta_primary = [''id''],
     ta_unique = [(''uk_ops_task_execution_target'', [''task_id'', ''target_id''])],
     ta_foreign = [(''fk_ops_task_execution_server'', ''server_id'', ''ops_server'', ''id''),
       (''fk_ops_task_execution_target'', ''target_id'', ''ops_task_target'', ''id''),
       (''fk_ops_task_execution_task'', ''task_id'', ''ops_task'', ''id'')],
     ta_indexes = []\<rparr>,
     [(''fk_ops_task_execution_target'', [''target_id'']),
       (''idx_ops_task_execution_server_time'', [''server_id'', ''created_at'']),
       (''idx_ops_task_execution_task_status'', [''task_id'', ''status''])])"

definition ops_task_log_group :: table_group where
  "ops_task_log_group = (''ops_task_log'',
     \<lparr>ta_columns = [
       Column ''id'' (BIGINT True) False None AutoIncrement,
       Column ''execution_id'' (BIGINT True) False None Plain,
       Column ''log_level'' (VARCHAR 16) False (Some ([CHR 0x27] @ ''INFO'' @ [CHR 0x27])) Plain,
       Column ''log_content'' (MEDIUMTEXT) False None Plain,
       Column ''created_at'' (DATETIME 3) False (Some ''CURRENT_TIMESTAMP(3)'') Plain],
     ta_primary = [''id''],
     ta_unique = [],
     ta_foreign = [(''fk_ops_task_log_execution'', ''execution_id'', ''ops_task_execution'', ''id'')],
     ta_indexes = []\<rparr>,
     [(''idx_ops_task_log_execution_time'', [''execution_id'', ''created_at''])])"

definition baseline_groups :: "table_group list" where
  "baseline_groups = [
     sys_permission_group,
     sys_role_group,
     sys_user_group,
     alert_rule_group,
     ops_server_group,
     ops_task_group,
     sys_login_log_group,
     sys_role_permission_group,
     sys_user_role_group,
     alert_event_group,
     monitor_process_snapshot_group,
     monitor_server_metric_group,
     ops_agent_heartbeat_group,
     ops_agent_token_group,
     ops_server_container_group,
     ops_server_disk_group,
     ops_server_network_group,
     ops_server_service_group,
     ops_task_target_group,
     sys_operation_log_group,
     alert_event_log_group,
     monitor_container_metric_group,
     monitor_disk_metric_group,
     monitor_network_metric_group,
     ops_task_execution_group,
     ops_task_log_group]"

lemmas group_defs = sys_permission_group_def sys_role_group_def sys_user_group_def alert_rule_group_def ops_server_group_def ops_task_group_def sys_login_log_group_def sys_role_permission_group_def sys_user_role_group_def alert_event_group_def monitor_process_snapshot_group_def monitor_server_metric_group_def ops_agent_heartbeat_group_def ops_agent_token_group_def ops_server_container_group_def ops_server_disk_group_def ops_server_network_group_def ops_server_service_group_def ops_task_target_group_def sys_operation_log_group_def alert_event_log_group_def monitor_container_metric_group_def monitor_disk_metric_group_def monitor_network_metric_group_def ops_task_execution_group_def ops_task_log_group_def

definition upgrade_096f952de48e :: "ddl list" where
  "upgrade_096f952de48e = concat (map statements baseline_groups)"

definition downgrade_096f952de48e :: "ddl list" where
  "downgrade_096f952de48e = [
     DropIndex ''idx_ops_task_log_execution_time'' ''ops_task_log'',
     DropTable ''ops_task_log'',
     DropIndex ''idx_ops_task_execution_task_status'' ''ops_task_execution'',
     DropIndex ''idx_ops_task_execution_server_time'' ''ops_task_execution'',
     DropIndex ''fk_ops_task_execution_target'' ''ops_task_execution'',
     DropTable ''ops_task_execution'',
     DropIndex ''idx_monitor_network_metric_server_time'' ''monitor_network_metric'',
     DropIndex ''idx_monitor_network_metric_network_time'' ''monitor_network_metric'',
     DropTable ''monitor_network_metric'',
     DropIndex ''idx_monitor_disk_metric_server_time'' ''monitor_disk_metric'',
     DropIndex ''idx_monitor_disk_metric_disk_time'' ''monitor_disk_metric'',
     DropTable ''monitor_disk_metric'',
     DropIndex ''idx_monitor_container_metric_server_time'' ''monitor_container_metric'',
     DropIndex ''idx_monitor_container_metric_asset_time'' ''monitor_container_metric'',
     DropTable ''monitor_container_metric'',
     DropIndex ''idx_alert_event_log_event_time'' ''alert_event_log'',
     DropIndex ''fk_alert_event_log_operator'' ''alert_event_log'',
     DropTable ''alert_event_log'',
     DropIndex ''idx_sys_operation_log_user_time'' ''sys_operation_log'',
     DropIndex ''idx_sys_operation_log_status_time'' ''sys_operation_log'',
     DropIndex ''idx_sys_operation_log_server_time'' ''sys_operation_log'',
     DropIndex ''idx_sys_operation_log_module_time'' ''sys_operation_log'',
     DropIndex ''idx_sys_operation_log_created_at'' ''sys_operation_log'',
     DropTable ''sys_operation_log'',
     DropIndex ''idx_ops_task_target_status'' ''ops_task_target'',
     DropIndex ''idx_ops_task_target_server_id'' ''ops_task_target'',
     DropTable ''ops_task_target'',
     DropIndex ''idx_ops_server_service_status'' ''ops_server_service'',
     DropIndex ''idx_ops_server_service_critical'' ''ops_server_service'',
     DropTable ''ops_server_service'',
     DropIndex ''idx_ops_server_network_server_id'' ''ops_server_network'',
     DropTable ''ops_server_network'',
     DropIndex ''idx_ops_server_disk_server_id'' ''ops_server_disk'',
     DropTable ''ops_server_disk'',
     DropIndex ''idx_ops_server_container_status'' ''ops_server_container'',
     DropIndex ''idx_ops_server_container_critical'' ''ops_server_container'',
     DropTable ''ops_server_container'',
     DropIndex ''idx_ops_agent_token_server_status'' ''ops_agent_token'',
     DropTable ''ops_agent_token'',
     DropIndex ''idx_ops_agent_heartbeat_server_time'' ''ops_agent_heartbeat'',
     DropIndex ''idx_ops_agent_heartbeat_received_at'' ''ops_agent_heartbeat'',
     DropTable ''ops_agent_heartbeat'',
     DropIndex ''idx_monitor_server_metric_server_time'' ''monitor_server_metric'',
     DropIndex ''idx_monitor_server_metric_collected_at'' ''monitor_server_metric'',
     DropTable ''monitor_server_metric'',
     DropIndex ''idx_monitor_process_snapshot_server_time'' ''monitor_process_snapshot'',
     DropIndex ''idx_monitor_process_snapshot_server_pid_time'' ''monitor_process_snapshot'',
     DropTable ''monitor_process_snapshot'',
     DropIndex ''idx_alert_event_status_time'' ''alert_event'',
     DropIndex ''idx_alert_event_server_status'' ''alert_event'',
     DropIndex ''idx_alert_event_rule_id'' ''alert_event'',
     DropIndex ''fk_alert_event_acknowledged_by'' ''alert_event'',
     DropTable ''alert_event'',
     DropIndex ''idx_sys_user_role_role_id'' ''sys_user_role'',
     DropTable ''sys_user_role'',
     DropIndex ''idx_sys_role_permission_permission_id'' ''sys_role_permission'',
     DropTable ''sys_role_permission'',
     DropIndex ''idx_sys_login_log_username_time'' ''sys_login_log'',
     DropIndex ''idx_sys_login_log_user_time'' ''sys_login_log'',
     DropIndex ''idx_sys_login_log_status_time'' ''sys_login_log'',
     DropTable ''sys_login_log'',
     DropIndex ''idx_ops_task_status'' ''ops_task'',
     DropIndex ''idx_ops_task_schedule'' ''ops_task'',
     DropIndex ''idx_ops_task_creator_time'' ''ops_task'',
     DropIndex ''fk_ops_task_confirmed_by'' ''ops_task'',
     DropTable ''ops_task'',
     DropIndex ''idx_ops_server_status'' ''ops_server'',
     DropIndex ''idx_ops_server_last_heartbeat'' ''ops_server'',
     DropIndex ''idx_ops_server_hostname'' ''ops_server'',
     DropIndex ''idx_ops_server_agent_status'' ''ops_server'',
     DropIndex ''fk_ops_server_created_by'' ''ops_server'',
     DropTable ''ops_server'',
     DropIndex ''idx_alert_rule_target_enabled'' ''alert_rule'',
     DropIndex ''idx_alert_rule_metric_enabled'' ''alert_rule'',
     DropIndex ''fk_alert_rule_created_by'' ''alert_rule'',
     DropTable ''alert_rule'',
     DropIndex ''idx_sys_user_status'' ''sys_user'',
     DropIndex ''idx_sys_user_deleted_at'' ''sys_user'',
     DropTable ''sys_user'',
     DropIndex ''idx_sys_role_status'' ''sys_role'',
     DropTable ''sys_role'',
     DropIndex ''idx_sys_permission_type_status'' ''sys_permission'',
     DropIndex ''idx_sys_permission_parent_id'' ''sys_permission'',
     DropTable ''sys_permission'']"

definition revision_096f952de48e :: revision where
  "revision_096f952de48e = \<lparr>rv_revision = ''096f952de48e'', rv_down_revision = None,
     rv_upgrade = upgrade_096f952de48e, rv_downgrade = downgrade_096f952de48e\<rparr>"

definition upgrade_b1805a5af57f :: "ddl list" where
  "upgrade_b1805a5af57f = [
     AddColumn ''ops_task'' (Column ''max_attempts'' (INTEGER True) False (Some ''3'') Plain),
     AddColumn ''ops_task'' (Column ''attempt'' (INTEGER True) False (Some ''0'') Plain),
     AddColumn ''ops_task'' (Column ''deadline_at'' (DATETIME 3) True None Plain),
     AddColumn ''ops_task'' (Column ''idempotency_key'' (VARCHAR 128) True None Plain),
     CreateUnique ''uk_ops_task_idempotency'' ''ops_task'' [''idempotency_key''],
     AddColumn ''ops_task_execution'' (Column ''attempt'' (INTEGER True) False (Some ''1'') Plain),
     AddColumn ''ops_task_execution'' (Column ''next_retry_at'' (DATETIME 3) True None Plain),
     AddColumn ''ops_task_execution'' (Column ''error_type'' (VARCHAR 32) True None Plain),
     AlterColumn ''ops_task_execution'' (Column ''status'' (VARCHAR 24) False (Some ([CHR 0x27] @ ''PENDING'' @ [CHR 0x27])) Plain),
     DropUnique ''uk_ops_task_execution_target'' ''ops_task_execution'',
     CreateUnique ''uk_ops_task_execution_target'' ''ops_task_execution'' [''task_id'', ''target_id'', ''attempt''],
     CreateIndex ''idx_ops_task_execution_retry'' ''ops_task_execution'' [''status'', ''next_retry_at'']]"

definition downgrade_b1805a5af57f :: "ddl list" where
  "downgrade_b1805a5af57f = [
     DropIndex ''idx_ops_task_execution_retry'' ''ops_task_execution'',
     DropUnique ''uk_ops_task_execution_target'' ''ops_task_execution'',
     CreateUnique ''uk_ops_task_execution_target'' ''ops_task_execution'' [''task_id'', ''target_id''],
     AlterColumn ''ops_task_execution'' (Column ''status'' (VARCHAR 24) False (Some ([CHR 0x27] @ ''PENDING'' @ [CHR 0x27])) Plain),
     DropColumn ''ops_task_execution'' ''error_type'',
     DropColumn ''ops_task_execution'' ''next_retry_at'',
     DropColumn ''ops_task_execution'' ''attempt'',
     DropUnique ''uk_ops_task_idempotency'' ''ops_task'',
     DropColumn ''ops_task'' ''idempotency_key'',
     DropColumn ''ops_task'' ''deadline_at'',
     DropColumn ''ops_task'' ''attempt'',
     DropColumn ''ops_task'' ''max_attempts'']"

definition revision_b1805a5af57f :: revision where
  "revision_b1805a5af57f = \<lparr>rv_revision = ''b1805a5af57f'', rv_down_revision = Some ''096f952de48e'',
     rv_upgrade = upgrade_b1805a5af57f, rv_downgrade = downgrade_b1805a5af57f\<rparr>"

definition upgrade_7aa13a973276 :: "ddl list" where
  "upgrade_7aa13a973276 = [
     AddColumn ''ops_agent_token'' (Column ''signing_public_key'' (VARCHAR 128) True None Plain),
     AddColumn ''ops_agent_token'' (Column ''signing_algorithm'' (VARCHAR 16) True (Some ([CHR 0x27] @ ''ed25519'' @ [CHR 0x27])) Plain),
     AddColumn ''ops_agent_token'' (Column ''key_registered_at'' (DATETIME 3) True None Plain)]"

definition downgrade_7aa13a973276 :: "ddl list" where
  "downgrade_7aa13a973276 = [
     DropColumn ''ops_agent_token'' ''key_registered_at'',
     DropColumn ''ops_agent_token'' ''signing_algorithm'',
     DropColumn ''ops_agent_token'' ''signing_public_key'']"

definition revision_7aa13a973276 :: revision where
  "revision_7aa13a973276 = \<lparr>rv_revision = ''7aa13a973276'', rv_down_revision = Some ''b1805a5af57f'',
     rv_upgrade = upgrade_7aa13a973276, rv_downgrade = downgrade_7aa13a973276\<rparr>"

definition monitor_server_metric_daily_group :: table_group where
  "monitor_server_metric_daily_group = (''monitor_server_metric_daily'',
     \<lparr>ta_columns = [
       Column ''id'' (BIGINT True) False None AutoIncrement,
       Column ''server_id'' (BIGINT True) False None Plain,
       Column ''metric_date'' (DATE) False None Plain,
       Column ''cpu_usage_avg'' (NUMERIC 12 4) True None Plain,
       Column ''cpu_usage_max'' (NUMERIC 12 4) True None Plain,
       Column ''memory_usage_avg'' (NUMERIC 12 4) True None Plain,
       Column ''memory_usage_max'' (NUMERIC 12 4) True None Plain,
       Column ''disk_usage_avg'' (NUMERIC 12 4) True None Plain,
       Column ''disk_usage_max'' (NUMERIC 12 4) True None Plain,
       Column ''load_1m_avg'' (NUMERIC 12 4) True None Plain,
       Column ''load_1m_max'' (NUMERIC 12 4) True None Plain,
       Column ''tcp_connections_avg'' (NUMERIC 12 4) True None Plain,
       Column ''tcp_connections_max'' (NUMERIC 12 4) True None Plain,
       Column ''sample_count'' (INTEGER True) False None Plain,
       Column ''created_at'' (DATETIME 3) False (Some ''CURRENT_TIMESTAMP(3)'') Plain,
       Column ''updated_at'' (DATETIME 3) False (Some ''CURRENT_TIMESTAMP(3) ON UPDATE CURRENT_TIMESTAMP(3)'') Plain],
     ta_primary = [''id''],
     ta_unique = [(''uk_metric_daily_server_date'', [''server_id'', ''metric_date''])],
     ta_foreign = [(''fk_metric_daily_server'', ''server_id'', ''ops_server'', ''id'')],
     ta_indexes = []\<rparr>,
     [(''idx_metric_daily_date'', [''metric_date''])])"

definition upgrade_4f50bb136572 :: "ddl list" where
  "upgrade_4f50bb136572 = statements monitor_server_metric_daily_group"

definition downgrade_4f50bb136572 :: "ddl list" where
  "downgrade_4f50bb136572 = [
     DropIndex ''idx_metric_daily_date'' ''monitor_server_metric_daily'',
     DropTable ''monitor_server_metric_daily'']"

definition revision_4f50bb136572 :: revision where
  "revision_4f50bb136572 = \<lparr>rv_revision = ''4f50bb136572'', rv_down_revision = Some ''7aa13a973276'',
     rv_upgrade = upgrade_4f50bb136572, rv_downgrade = downgrade_4f50bb136572\<rparr>"

definition REVISIONS :: "revision list" where
  "REVISIONS = [revision_096f952de48e, revision_b1805a5af57f, revision_7aa13a973276, revision_4f50bb136572]"

end
