(* ===== verification/Schema_Properties.thy ===== *)
theory Schema_Properties
  imports Migrations
begin

text \<open>
  The migrations build the tables the ORM declares, and can be taken back. The statements are run on
  summaries of the tables: a statement reads only names, keys and foreign keys.
\<close>

section \<open>Runs\<close>

lemma run_append: "run strict (a @ b) s = (case run strict a s of None \<Rightarrow> None | Some s' \<Rightarrow> run strict b s')"
  by (induction a arbitrary: s) (auto split: option.split)

text \<open>What a storage engine with the rule for foreign keys accepts is accepted, with the same result, by one without.\<close>

lemma alter_lenient: "alter True op t = Some u \<Longrightarrow> alter strict op t = Some u"
  by (cases op) (auto simp: Let_def strips_foreign_def split: if_splits)

lemma with_table_mono:
  "(\<And>t u. f t = Some u \<Longrightarrow> g t = Some u) \<Longrightarrow> with_table f n s = Some v \<Longrightarrow> with_table g n s = Some v"
  by (auto simp: with_table_def split: option.splits)

lemma execute_lenient: "execute True op s = Some u \<Longrightarrow> execute strict op s = Some u"
  unfolding execute_def
  by (cases op) (simp_all del: alter.simps table_of.simps, (erule with_table_mono [rotated], erule alter_lenient)+)

lemma run_lenient: "run True ops s = Some u \<Longrightarrow> run strict ops s = Some u"
proof (induction ops arbitrary: s)
  case (Cons op ops)
  then obtain v where "execute True op s = Some v" "run True ops v = Some u" by (auto split: option.splits)
  with Cons.IH execute_lenient [of op s v strict] show ?case by simp
qed simp

definition put :: "string \<Rightarrow> table \<Rightarrow> schema \<Rightarrow> schema" where
  "put n u s = map (\<lambda>(m, v). (m, if m = n then u else v)) s"

lemma put_simps [simp]:
  "put n u [] = []" "put n u ((m, v) # s) = (m, if m = n then u else v) # put n u s" "put n u (s @ s') = put n u s @ put n u s'"
  by (simp_all add: put_def)

lemma put_other: "n \<notin> fst ` set s \<Longrightarrow> put n u s = s"
  by (induction s) auto

lemma map_of_put: "map_of (put n u s) m = (if m = n then map_option (\<lambda>_. u) (map_of s n) else map_of s m)"
  by (induction s) auto

lemma put_put: "put n u (put n v s) = put n u s"
  by (induction s) auto

lemma put_swap: "n \<noteq> m \<Longrightarrow> put n u (put m v s) = put m v (put n u s)"
  by (induction s) auto

lemma put_same: "distinct (map fst s) \<Longrightarrow> map_of s n = Some t \<Longrightarrow> put n t s = s"
  by (induction s) (auto simp: put_other)

lemma names_put [simp]: "map fst (put n u s) = map fst s"
  by (induction s) auto

fun is_alter :: "string \<Rightarrow> ddl \<Rightarrow> bool" where
  "is_alter n (CreateTable m t) = False"
| "is_alter n (DropTable m) = False"
| "is_alter n op = (table_of op = n)"

fun alter_all :: "bool \<Rightarrow> ddl list \<Rightarrow> table \<Rightarrow> table option" where
  "alter_all strict [] t = Some t"
| "alter_all strict (op # ops) t = (case alter strict op t of None \<Rightarrow> None | Some u \<Rightarrow> alter_all strict ops u)"

lemma execute_alter:
  "is_alter n op \<Longrightarrow> map_of s n = Some t \<Longrightarrow> execute strict op s = map_option (\<lambda>u. put n u s) (alter strict op t)"
  by (cases op) (simp_all add: execute_def with_table_def put_def)

text \<open>A run of statements on one table happens within this table.\<close>

lemma run_alter_all:
  "\<forall>op \<in> set ops. is_alter n op \<Longrightarrow> map_of s n = Some t \<Longrightarrow> alter_all strict ops t = Some u \<Longrightarrow> ops \<noteq> [] \<Longrightarrow>
   run strict ops s = Some (put n u s)"
proof (induction ops arbitrary: s t)
  case (Cons op ops)
  then obtain v where v: "alter strict op t = Some v" "alter_all strict ops v = Some u" by (auto split: option.splits)
  have "execute strict op s = Some (put n v s)" using execute_alter [of n op s t strict] Cons.prems v(1) by simp
  moreover have "run strict ops (put n v s) = Some (put n u s)"
  proof (cases "ops = []")
    case False
    have "map_of (put n v s) n = Some v" using Cons.prems(2) by (simp add: map_of_put)
    with Cons.IH [of "put n v s" v] Cons.prems(1) v(2) False show ?thesis by (simp add: put_put)
  qed (use v in simp)
  ultimately show ?case by simp
qed simp

lemma alter_all_refused: "is_alter n op \<Longrightarrow> map_of s n = Some t \<Longrightarrow> alter strict op t = None \<Longrightarrow> run strict (op # ops) s = None"
  by (simp add: execute_alter)

section \<open>A table and its indexes\<close>

fun finish :: "table_group \<Rightarrow> string \<times> table" where
  "finish (n, t, idx) = (n, t\<lparr>ta_indexes := idx\<rparr>)"

definition table_ok :: "table \<Rightarrow> (string \<times> string list) list \<Rightarrow> bool" where
  "table_ok t idx \<longleftrightarrow> ta_indexes t = [] \<and> distinct (column_names t) \<and> distinct (map fst (ta_unique t) @ map fst idx) \<and>
     set (ta_primary t) \<subseteq> set (column_names t) \<and>
     list_all (\<lambda>(_, cs). cs \<noteq> [] \<and> set cs \<subseteq> set (column_names t)) (ta_unique t @ idx) \<and>
     distinct (foreign_names t) \<and> list_all (\<lambda>(_, c, _, _). c \<in> set (column_names t)) (ta_foreign t)"

text \<open>Of the tables before it a new one needs the names, the foreign keys and the leading columns.\<close>

type_synonym summary = "string \<times> string list \<times> string list"

definition refs_ok :: "summary list \<Rightarrow> string \<Rightarrow> table \<Rightarrow> bool" where
  "refs_ok prev n t \<longleftrightarrow> n \<notin> fst ` set prev \<and>
     list_all (\<lambda>(name, c, rt, rc). list_all (\<lambda>(_, fns, _). name \<notin> set fns) prev \<and>
       (case map_of ((n, foreign_names t, leading_columns t) # prev) rt of None \<Rightarrow> False | Some (_, ls) \<Rightarrow> rc \<in> set ls))
       (ta_foreign t)"

fun groups_ok :: "summary list \<Rightarrow> table_group list \<Rightarrow> bool" where
  "groups_ok prev [] = True"
| "groups_ok prev ((n, t, idx) # gs) =
     (table_ok t idx \<and> refs_ok prev n t \<and> groups_ok (prev @ [(n, foreign_names t, leading_columns t)]) gs)"

definition summarises :: "summary list \<Rightarrow> schema \<Rightarrow> bool" where
  "summarises prev s \<longleftrightarrow> list_all2 (\<lambda>(n, fns, ls) (m, t). m = n \<and> foreign_names t = fns \<and> set ls \<subseteq> set (leading_columns t)) prev s"

lemma summarises_names: "summarises prev s \<Longrightarrow> fst ` set prev = fst ` set s"
  unfolding summarises_def by (induction rule: list_all2_induct) auto

lemma summarises_foreign: "summarises prev s \<Longrightarrow> list_all (\<lambda>(_, fns, _). x \<notin> set fns) prev \<Longrightarrow> list_all (\<lambda>(_, u). x \<notin> set (foreign_names u)) s"
  unfolding summarises_def by (induction rule: list_all2_induct) auto

lemma summarises_lookup: "summarises prev s \<Longrightarrow> map_of prev rt = Some (fns, ls) \<Longrightarrow> \<exists>u. map_of s rt = Some u \<and> set ls \<subseteq> set (leading_columns u)"
  unfolding summarises_def by (induction rule: list_all2_induct) (auto split: if_splits)

lemma group_creatable:
  assumes "table_ok t idx" "refs_ok prev n t" "summarises prev s"
  shows "creatable s n t"
proof -
  have "n \<notin> fst ` set s" using assms(2) summarises_names [OF assms(3)] by (simp add: refs_ok_def)
  moreover have "distinct (key_names t)" "ta_indexes t = []" using assms(1) by (auto simp: table_ok_def key_names_def)
  moreover have "list_all (\<lambda>(name, c, rt, rc). c \<in> set (column_names t) \<and>
       list_all (\<lambda>(_, u). name \<notin> set (foreign_names u)) s \<and>
       (case map_of ((n, t) # s) rt of None \<Rightarrow> False | Some u \<Rightarrow> rc \<in> set (leading_columns u))) (ta_foreign t)"
    unfolding list_all_iff
  proof (clarify, intro conjI)
    fix name c rt rc
    assume f: "(name, c, rt, rc) \<in> set (ta_foreign t)"
    show "c \<in> set (column_names t)" using assms(1) f by (auto simp: table_ok_def list_all_iff)
    have r: "list_all (\<lambda>(_, fns, _). name \<notin> set fns) prev"
      "case map_of ((n, foreign_names t, leading_columns t) # prev) rt of None \<Rightarrow> False | Some (_, ls) \<Rightarrow> rc \<in> set ls"
      using assms(2) f by (auto simp: refs_ok_def list_all_iff)
    show "\<forall>(_, u) \<in> set s. name \<notin> set (foreign_names u)"
      using summarises_foreign [OF assms(3) r(1)] by (simp add: list_all_iff)
    show "case map_of ((n, t) # s) rt of None \<Rightarrow> False | Some u \<Rightarrow> rc \<in> set (leading_columns u)"
      using r(2) summarises_lookup [OF assms(3), of rt] by (fastforce split: if_splits option.splits)
  qed
  ultimately show ?thesis using assms(1) by (simp add: creatable_def table_ok_def)
qed

lemma map_of_last: "n \<notin> fst ` set s \<Longrightarrow> map_of (s @ [(n, t)]) n = Some t"
  by (simp add: map_of_append map_add_def map_of_eq_None_iff [THEN iffD2] split: option.split)

lemma put_last: "n \<notin> fst ` set s \<Longrightarrow> put n u (s @ [(n, t)]) = s @ [(n, u)]"
  by (simp add: put_other)

lemma add_indexes:
  "distinct (map fst (ta_unique t) @ map fst (done_idx @ idx)) \<Longrightarrow>
   list_all (\<lambda>(_, cs). cs \<noteq> [] \<and> set cs \<subseteq> set (column_names t)) idx \<Longrightarrow>
   alter_all strict (map (\<lambda>(name, cs). CreateIndex name n cs) idx) (t\<lparr>ta_indexes := done_idx\<rparr>) =
     Some (t\<lparr>ta_indexes := done_idx @ idx\<rparr>)"
proof (induction idx arbitrary: done_idx)
  case (Cons i idx)
  obtain name cs where i: "i = (name, cs)" by fastforce
  have "add_key name cs (t\<lparr>ta_indexes := done_idx\<rparr>)"
    using Cons.prems by (auto simp: add_key_def key_names_def column_names_def i)
  then show ?case using Cons.IH [of "done_idx @ [(name, cs)]"] Cons.prems by (simp add: i)
qed simp

lemma run_group:
  assumes "table_ok t idx" "refs_ok prev n t" "summarises prev s"
  shows "run strict (statements (n, t, idx)) s = Some (s @ [finish (n, t, idx)])"
proof -
  have n: "n \<notin> fst ` set s" using assms(2) summarises_names [OF assms(3)] by (simp add: refs_ok_def)
  have ix: "ta_indexes t = []" using assms(1) by (simp add: table_ok_def)
  then have "t\<lparr>ta_indexes := []\<rparr> = t" by simp
  then have all: "alter_all strict (map (\<lambda>(name, cs). CreateIndex name n cs) idx) t = Some (t\<lparr>ta_indexes := idx\<rparr>)"
    using add_indexes [of t "[]" idx strict n] assms(1) by (simp add: table_ok_def)
  have "run strict (map (\<lambda>(name, cs). CreateIndex name n cs) idx) (s @ [(n, t)]) = Some (s @ [(n, t\<lparr>ta_indexes := idx\<rparr>)])"
  proof (cases "idx = []")
    case True
    with ix show ?thesis by simp
  next
    case False
    have "\<forall>op \<in> set (map (\<lambda>(name, cs). CreateIndex name n cs) idx). is_alter n op" by auto
    from run_alter_all [OF this map_of_last [OF n] all] False show ?thesis
      by (simp only: map_is_Nil_conv put_last [OF n] simp_thms)
  qed
  then show ?thesis using group_creatable [OF assms] by (simp add: execute_def)
qed

lemma run_groups:
  "groups_ok prev gs \<Longrightarrow> summarises prev s \<Longrightarrow> run strict (concat (map statements gs)) s = Some (s @ map finish gs)"
proof (induction gs arbitrary: prev s)
  case (Cons g gs)
  obtain n t idx where g: "g = (n, t, idx)" by (cases g)
  have one: "run strict (statements g) s = Some (s @ [finish g])"
    unfolding g using Cons.prems by (intro run_group [of t idx prev n s]) (simp_all add: g)
  have "ta_indexes t = []" using Cons.prems(1) by (simp add: g table_ok_def)
  then have "set (leading_columns t) \<subseteq> set (leading_columns (t\<lparr>ta_indexes := idx\<rparr>))"
    by (auto simp: leading_columns_def)
  then have "summarises (prev @ [(n, foreign_names t, leading_columns t)]) (s @ [finish g])"
    using Cons.prems(2) by (simp add: summarises_def g foreign_names_def list_all2_appendI)
  moreover have "groups_ok (prev @ [(n, foreign_names t, leading_columns t)]) gs" using Cons.prems(1) by (simp add: g)
  ultimately have "run strict (concat (map statements gs)) (s @ [finish g]) = Some ((s @ [finish g]) @ map finish gs)"
    by (intro Cons.IH)
  then show ?case using one by (simp add: run_append del: statements.simps finish.simps)
qed simp

fun summary_of :: "table_group \<Rightarrow> summary" where
  "summary_of (n, t, idx) = (n, foreign_names t, leading_columns t)"

lemma groups_summarised:
  "groups_ok prev gs \<Longrightarrow> summarises prev s \<Longrightarrow> summarises (prev @ map summary_of gs) (s @ map finish gs)"
proof (induction gs arbitrary: prev s)
  case (Cons g gs)
  obtain n t idx where g: "g = (n, t, idx)" by (cases g)
  have "ta_indexes t = []" using Cons.prems(1) by (simp add: g table_ok_def)
  then have "set (leading_columns t) \<subseteq> set (leading_columns (t\<lparr>ta_indexes := idx\<rparr>))"
    by (auto simp: leading_columns_def)
  then have "summarises (prev @ [summary_of g]) (s @ [finish g])"
    using Cons.prems(2) by (simp add: summarises_def g foreign_names_def list_all2_appendI)
  with Cons.IH [of "prev @ [summary_of g]" "s @ [finish g]"] Cons.prems(1) show ?case by (simp add: g)
qed simp

lemma summarises_put:
  "summarises prev s \<Longrightarrow> map_of s n = Some t \<Longrightarrow> distinct (map fst s) \<Longrightarrow> ta_foreign u = ta_foreign t \<Longrightarrow>
   set (leading_columns t) \<subseteq> set (leading_columns u) \<Longrightarrow> summarises prev (put n u s)"
  unfolding summarises_def
  by (induction rule: list_all2_induct) (auto simp: foreign_names_def put_other split: if_splits)

section \<open>Taking groups back\<close>

fun undo :: "table_group \<Rightarrow> ddl list" where
  "undo (n, t, idx) = map (\<lambda>(name, cs). DropIndex name n) (rev idx) @ [DropTable n]"

definition refers_to :: "string \<Rightarrow> table \<Rightarrow> bool" where
  "refers_to n t \<longleftrightarrow> list_ex (\<lambda>(_, _, rt, _). rt = n) (ta_foreign t)"

lemma drop_last_table:
  assumes "n \<notin> fst ` set s" "\<forall>(m, v) \<in> set s. \<not> refers_to n v"
  shows "execute strict (DropTable n) (s @ [(n, t)]) = Some s"
proof -
  have "without n (s @ [(n, t)]) = s" using assms(1) by (auto simp: without_def filter_id_conv)
  moreover have "\<not> list_ex (\<lambda>(m, t). m \<noteq> n \<and> list_ex (\<lambda>(_, _, rt, _). rt = n) (ta_foreign t)) (s @ [(n, t)])"
    using assms(2) by (auto simp: list_ex_iff refers_to_def)
  ultimately show ?thesis by (simp add: execute_def)
qed

lemma drop_indexes:
  "distinct (map fst idx) \<Longrightarrow>
   alter_all False (map (\<lambda>(name, cs). DropIndex name n) (rev idx)) (t\<lparr>ta_indexes := idx\<rparr>) = Some (t\<lparr>ta_indexes := []\<rparr>)"
proof (induction idx rule: rev_induct)
  case (snoc i idx)
  obtain name cs where i: "i = (name, cs)" by fastforce
  have "without name (idx @ [i]) = idx" using snoc.prems by (auto simp: i without_def filter_id_conv)
  with snoc show ?case by (simp add: i strips_foreign_def)
qed simp

lemma run_undo:
  assumes "distinct (map fst idx)" "n \<notin> fst ` set s" "\<forall>(m, v) \<in> set s. \<not> refers_to n v"
  shows "run False (undo (n, t, idx)) (s @ [finish (n, t, idx)]) = Some s"
proof -
  let ?drops = "map (\<lambda>(name, cs). DropIndex name n) (rev idx)"
  have "\<exists>u. run False ?drops (s @ [(n, t\<lparr>ta_indexes := idx\<rparr>)]) = Some (s @ [(n, u)])"
  proof (cases "idx = []")
    case False
    have "\<forall>op \<in> set ?drops. is_alter n op" by auto
    from run_alter_all [OF this map_of_last [OF assms(2)] drop_indexes [OF assms(1), of n t]] False show ?thesis
      by (simp only: map_is_Nil_conv rev_is_Nil_conv put_last [OF assms(2)] simp_thms) blast
  qed simp
  then show ?thesis using drop_last_table [OF assms(2,3)] by (auto simp: run_append)
qed

lemma groups_ok_append:
  "groups_ok prev (gs @ hs) \<longleftrightarrow> groups_ok prev gs \<and> groups_ok (prev @ map summary_of gs) hs"
  by (induction gs arbitrary: prev) auto

lemma refs_within:
  "groups_ok prev gs \<Longrightarrow> (n, t) \<in> set (map finish gs) \<Longrightarrow> refers_to m t \<Longrightarrow> m \<in> fst ` set prev \<union> fst ` set gs"
proof (induction gs arbitrary: prev)
  case (Cons g gs)
  obtain k u idx where g: "g = (k, u, idx)" by (cases g)
  show ?case
  proof (cases "(n, t) = finish g")
    case True
    then obtain name c rc where f: "(name, c, m, rc) \<in> set (ta_foreign u)"
      using Cons.prems(3) by (auto simp: g refers_to_def list_ex_iff)
    have "case map_of ((k, foreign_names u, leading_columns u) # prev) m of None \<Rightarrow> False | Some (_, ls) \<Rightarrow> rc \<in> set ls"
      using Cons.prems(1) f by (auto simp: g refs_ok_def list_all_iff)
    then show ?thesis by (auto simp: g split: if_splits option.splits dest!: map_of_SomeD) (metis fst_conv image_eqI)
  next
    case False
    with Cons.IH [of "prev @ [summary_of g]"] Cons.prems show ?thesis by (auto simp: g)
  qed
qed simp

lemma run_undo_groups:
  "groups_ok [] gs \<Longrightarrow> run False (concat (map undo (rev gs))) (map finish gs) = Some []"
proof (induction gs rule: rev_induct)
  case (snoc g gs)
  obtain n t idx where g: "g = (n, t, idx)" by (cases g)
  have ok: "groups_ok [] gs" "table_ok t idx" "refs_ok (map summary_of gs) n t"
    using snoc.prems by (simp_all add: groups_ok_append g)
  have fresh: "n \<notin> fst ` set gs" using ok(3) by (force simp: refs_ok_def image_iff)
  then have "n \<notin> fst ` set (map finish gs)" by (force simp: image_iff)
  moreover have "\<forall>(m, v) \<in> set (map finish gs). \<not> refers_to n v" using refs_within [OF ok(1)] fresh by fastforce
  moreover have "distinct (map fst idx)" using ok(2) by (simp add: table_ok_def)
  ultimately have "run False (undo g) (map finish gs @ [finish g]) = Some (map finish gs)"
    unfolding g by (intro run_undo)
  then show ?case using snoc.IH [OF ok(1)] by (simp add: run_append del: undo.simps finish.simps)
qed simp

section \<open>The baseline\<close>

definition baseline :: schema where
  "baseline = map finish baseline_groups"

lemma baseline_groups_ok: "groups_ok [] baseline_groups"
  by code_simp

lemma run_baseline: "run strict upgrade_096f952de48e [] = Some baseline"
  using run_groups [OF baseline_groups_ok, of "[]" strict]
  by (simp add: upgrade_096f952de48e_def baseline_def summarises_def)

text \<open>The table of a group.\<close>

definition base_table :: "table_group \<Rightarrow> table" where
  "base_table g = (case g of (n, t, idx) \<Rightarrow> t\<lparr>ta_indexes := idx\<rparr>)"

lemma finish_group: "finish g = (fst g, base_table g)"
  by (cases g) (simp add: base_table_def)

lemma group_names:
  "fst sys_permission_group = ''sys_permission''" "fst sys_role_group = ''sys_role''"
  "fst sys_user_group = ''sys_user''" "fst alert_rule_group = ''alert_rule''"
  "fst ops_server_group = ''ops_server''" "fst ops_task_group = ''ops_task''"
  "fst sys_login_log_group = ''sys_login_log''" "fst sys_role_permission_group = ''sys_role_permission''"
  "fst sys_user_role_group = ''sys_user_role''" "fst alert_event_group = ''alert_event''"
  "fst monitor_process_snapshot_group = ''monitor_process_snapshot''" "fst monitor_server_metric_group = ''monitor_server_metric''"
  "fst ops_agent_heartbeat_group = ''ops_agent_heartbeat''" "fst ops_agent_token_group = ''ops_agent_token''"
  "fst ops_server_container_group = ''ops_server_container''" "fst ops_server_disk_group = ''ops_server_disk''"
  "fst ops_server_network_group = ''ops_server_network''" "fst ops_server_service_group = ''ops_server_service''"
  "fst ops_task_target_group = ''ops_task_target''" "fst sys_operation_log_group = ''sys_operation_log''"
  "fst alert_event_log_group = ''alert_event_log''" "fst monitor_container_metric_group = ''monitor_container_metric''"
  "fst monitor_disk_metric_group = ''monitor_disk_metric''" "fst monitor_network_metric_group = ''monitor_network_metric''"
  "fst ops_task_execution_group = ''ops_task_execution''" "fst ops_task_log_group = ''ops_task_log''"
  "fst monitor_server_metric_daily_group = ''monitor_server_metric_daily''"
  by (simp_all add: group_defs monitor_server_metric_daily_group_def)

lemma baseline_tables:
  "baseline = [
     (''sys_permission'', base_table sys_permission_group),
     (''sys_role'', base_table sys_role_group),
     (''sys_user'', base_table sys_user_group),
     (''alert_rule'', base_table alert_rule_group),
     (''ops_server'', base_table ops_server_group),
     (''ops_task'', base_table ops_task_group),
     (''sys_login_log'', base_table sys_login_log_group),
     (''sys_role_permission'', base_table sys_role_permission_group),
     (''sys_user_role'', base_table sys_user_role_group),
     (''alert_event'', base_table alert_event_group),
     (''monitor_process_snapshot'', base_table monitor_process_snapshot_group),
     (''monitor_server_metric'', base_table monitor_server_metric_group),
     (''ops_agent_heartbeat'', base_table ops_agent_heartbeat_group),
     (''ops_agent_token'', base_table ops_agent_token_group),
     (''ops_server_container'', base_table ops_server_container_group),
     (''ops_server_disk'', base_table ops_server_disk_group),
     (''ops_server_network'', base_table ops_server_network_group),
     (''ops_server_service'', base_table ops_server_service_group),
     (''ops_task_target'', base_table ops_task_target_group),
     (''sys_operation_log'', base_table sys_operation_log_group),
     (''alert_event_log'', base_table alert_event_log_group),
     (''monitor_container_metric'', base_table monitor_container_metric_group),
     (''monitor_disk_metric'', base_table monitor_disk_metric_group),
     (''monitor_network_metric'', base_table monitor_network_metric_group),
     (''ops_task_execution'', base_table ops_task_execution_group),
     (''ops_task_log'', base_table ops_task_log_group)]"
  by (simp add: baseline_def baseline_groups_def finish_group group_names)

lemma distinct_baseline: "distinct (map fst baseline)"
  by (simp add: baseline_tables)

section \<open>The tables and their declarations\<close>

text \<open>Most tables declare their columns in the order in which the migration creates them.\<close>

lemma same_tableI:
  assumes "ta_columns t = ta_columns u" "ta_primary t = ta_primary u" "same_elements (ta_unique t) (ta_unique u)"
    "same_elements (ta_foreign t) (ta_foreign u)" "same_elements (ta_indexes t) (ta_indexes u)"
  shows "same_table t u"
  using assms by (simp add: same_table_def same_elements_def)

lemma untouched_tables:
  "same_table (base_table sys_permission_group) sys_permission_model"
  "same_table (base_table sys_role_group) sys_role_model"
  "same_table (base_table sys_user_group) sys_user_model"
  "same_table (base_table alert_rule_group) alert_rule_model"
  "same_table (base_table ops_server_group) ops_server_model"
  "same_table (base_table sys_login_log_group) sys_login_log_model"
  "same_table (base_table sys_role_permission_group) sys_role_permission_model"
  "same_table (base_table sys_user_role_group) sys_user_role_model"
  "same_table (base_table alert_event_group) alert_event_model"
  "same_table (base_table monitor_process_snapshot_group) monitor_process_snapshot_model"
  "same_table (base_table monitor_server_metric_group) monitor_server_metric_model"
  "same_table (base_table ops_agent_heartbeat_group) ops_agent_heartbeat_model"
  "same_table (base_table ops_server_container_group) ops_server_container_model"
  "same_table (base_table ops_server_disk_group) ops_server_disk_model"
  "same_table (base_table ops_server_network_group) ops_server_network_model"
  "same_table (base_table ops_server_service_group) ops_server_service_model"
  "same_table (base_table ops_task_target_group) ops_task_target_model"
  "same_table (base_table sys_operation_log_group) sys_operation_log_model"
  "same_table (base_table alert_event_log_group) alert_event_log_model"
  "same_table (base_table monitor_container_metric_group) monitor_container_metric_model"
  "same_table (base_table monitor_disk_metric_group) monitor_disk_metric_model"
  "same_table (base_table monitor_network_metric_group) monitor_network_metric_model"
  "same_table (base_table ops_task_log_group) ops_task_log_model"
  "same_table (base_table monitor_server_metric_daily_group) monitor_server_metric_daily_model"
  by (rule same_tableI;
      simp add: base_table_def group_defs monitor_server_metric_daily_group_def model_defs same_elements_def)+

text \<open>The three tables that later revisions change, with the way back.\<close>

definition goes_and_returns :: "ddl list \<Rightarrow> ddl list \<Rightarrow> table \<Rightarrow> table \<Rightarrow> bool" where
  "goes_and_returns up down t model \<longleftrightarrow>
     (case alter_all True up t of None \<Rightarrow> False
      | Some u \<Rightarrow> same_table u model \<and> alter_all True down u = Some t \<and> ta_foreign u = ta_foreign t \<and>
          set (leading_columns t) \<subseteq> set (leading_columns u))"

lemma goes_and_returnsE:
  assumes "goes_and_returns up down t model"
  obtains u where "alter_all True up t = Some u" "same_table u model" "alter_all True down u = Some t"
    "ta_foreign u = ta_foreign t" "set (leading_columns t) \<subseteq> set (leading_columns u)"
  using assms by (auto simp: goes_and_returns_def split: option.splits)

lemma changed_task: "goes_and_returns (take 5 upgrade_b1805a5af57f) (drop 7 downgrade_b1805a5af57f)
    (base_table ops_task_group) ops_task_model"
  by code_simp

lemma changed_execution: "goes_and_returns (drop 5 upgrade_b1805a5af57f) (take 7 downgrade_b1805a5af57f)
    (base_table ops_task_execution_group) ops_task_execution_model"
  by code_simp

lemma changed_token: "goes_and_returns upgrade_7aa13a973276 downgrade_7aa13a973276
    (base_table ops_agent_token_group) ops_agent_token_model"
  by code_simp

section \<open>The revisions\<close>

lemma put_back: "distinct (map fst s) \<Longrightarrow> map_of s n = Some t \<Longrightarrow> put n t (put n u s) = s"
  by (simp add: put_put put_same)

lemma find_baseline:
  "map_of baseline ''ops_task'' = Some (base_table ops_task_group)"
  "map_of baseline ''ops_task_execution'' = Some (base_table ops_task_execution_group)"
  "map_of baseline ''ops_agent_token'' = Some (base_table ops_agent_token_group)"
  by (simp_all add: baseline_tables)

text \<open>A change of one table that goes and returns does so in every schema with this table.\<close>

lemma run_goes_and_returns:
  assumes "goes_and_returns up down t model" "map_of s n = Some t" "distinct (map fst s)"
    and "\<forall>op \<in> set (up @ down). is_alter n op" "up \<noteq> []" "down \<noteq> []"
  obtains u where "run strict up s = Some (put n u s)" "run strict down (put n u s) = Some s" "same_table u model"
    "ta_foreign u = ta_foreign t" "set (leading_columns t) \<subseteq> set (leading_columns u)"
proof -
  from goes_and_returnsE [OF assms(1)] obtain u where u: "alter_all True up t = Some u" "same_table u model"
    "alter_all True down u = Some t" "ta_foreign u = ta_foreign t" "set (leading_columns t) \<subseteq> set (leading_columns u)" .
  have "run True up s = Some (put n u s)" using run_alter_all [OF _ assms(2) u(1) assms(5)] assms(4) by simp
  moreover have "map_of (put n u s) n = Some u" using assms(2) by (simp add: map_of_put)
  from run_alter_all [OF _ this u(3) assms(6)] have "run True down (put n u s) = Some s"
    using assms(4) put_back [OF assms(3,2)] by simp
  ultimately show ?thesis using u that run_lenient by blast
qed

lemma daily_ok: "groups_ok (map summary_of baseline_groups) [monitor_server_metric_daily_group]"
  by code_simp

lemma daily_unreferenced: "list_all (\<lambda>g. \<not> refers_to ''monitor_server_metric_daily'' (base_table g)) baseline_groups"
  by code_simp

text \<open>The archive is a table of its own: created on any schema with the tables of the baseline, and dropped again.\<close>

lemma daily_goes_and_returns:
  assumes "summarises (map summary_of baseline_groups) s"
    and "\<forall>(m, v) \<in> set s. \<not> refers_to ''monitor_server_metric_daily'' v"
  shows "run strict upgrade_4f50bb136572 s = Some (s @ [finish monitor_server_metric_daily_group])"
    and "run strict downgrade_4f50bb136572 (s @ [finish monitor_server_metric_daily_group]) = Some s"
proof -
  let ?g = monitor_server_metric_daily_group
  let ?n = "''monitor_server_metric_daily''"
  show "run strict upgrade_4f50bb136572 s = Some (s @ [finish ?g])"
    using run_groups [OF daily_ok assms(1), of strict] by (simp add: upgrade_4f50bb136572_def)
  have fresh: "?n \<notin> fst ` set s"
  proof -
    obtain t idx where g: "?g = (?n, t, idx)" using group_names(27) by (metis prod.collapse)
    have "refs_ok (map summary_of baseline_groups) ?n t" using daily_ok by (simp add: g)
    then show ?thesis using summarises_names [OF assms(1)] by (simp add: refs_ok_def)
  qed
  have "case alter True (DropIndex ''idx_metric_daily_date'' ?n) (base_table ?g) of None \<Rightarrow> False | Some u \<Rightarrow> True"
    by code_simp
  then obtain u where u: "alter True (DropIndex ''idx_metric_daily_date'' ?n) (base_table ?g) = Some u"
    by (auto split: option.splits)
  then have "run True [DropIndex ''idx_metric_daily_date'' ?n] (s @ [(?n, base_table ?g)]) = Some (s @ [(?n, u)])"
    using run_alter_all [OF _ map_of_last [OF fresh], of "[DropIndex ''idx_metric_daily_date'' ?n]" True] put_last [OF fresh]
    by simp
  then have "run True downgrade_4f50bb136572 (s @ [(?n, base_table ?g)]) = Some s"
    using drop_last_table [OF fresh assms(2), of True]
      run_append [of True "[DropIndex ''idx_metric_daily_date'' ?n]" "[DropTable ?n]"]
    by (simp add: downgrade_4f50bb136572_def del: run.simps add: run.simps(1)) (simp add: run.simps)
  then show "run strict downgrade_4f50bb136572 (s @ [finish ?g]) = Some s"
    unfolding finish_group group_names(27) by (rule run_lenient)
qed

lemma unreferenced_put:
  assumes "\<forall>(m, v) \<in> set s. \<not> refers_to k v" "map_of s n = Some t" "ta_foreign u = ta_foreign t"
  shows "\<forall>(m, v) \<in> set (put n u s). \<not> refers_to k v"
proof -
  have "\<not> refers_to k u" using assms(1,3) map_of_SomeD [OF assms(2)] by (auto simp: refers_to_def)
  with assms(1) show ?thesis by (auto simp: put_def split: if_splits)
qed

text \<open>The schemas after each of the revisions.\<close>

lemma all_revisions:
  obtains s2 s3 tt te ta where
    "run strict upgrade_b1805a5af57f baseline = Some s2" "run strict downgrade_b1805a5af57f s2 = Some baseline"
    "run strict upgrade_7aa13a973276 s2 = Some s3" "run strict downgrade_7aa13a973276 s3 = Some s2"
    "run strict upgrade_4f50bb136572 s3 = Some (s3 @ [finish monitor_server_metric_daily_group])"
    "run strict downgrade_4f50bb136572 (s3 @ [finish monitor_server_metric_daily_group]) = Some s3"
    "s3 = put ''ops_agent_token'' ta (put ''ops_task_execution'' te (put ''ops_task'' tt baseline))"
    "same_table tt ops_task_model" "same_table te ops_task_execution_model" "same_table ta ops_agent_token_model"
proof -
  note b18 = upgrade_b1805a5af57f_def downgrade_b1805a5af57f_def
  have split: "upgrade_b1805a5af57f = take 5 upgrade_b1805a5af57f @ drop 5 upgrade_b1805a5af57f"
    "downgrade_b1805a5af57f = take 7 downgrade_b1805a5af57f @ drop 7 downgrade_b1805a5af57f" by simp_all
  obtain tt where tt: "run strict (take 5 upgrade_b1805a5af57f) baseline = Some (put ''ops_task'' tt baseline)"
    "run strict (drop 7 downgrade_b1805a5af57f) (put ''ops_task'' tt baseline) = Some baseline" "same_table tt ops_task_model"
    "ta_foreign tt = ta_foreign (base_table ops_task_group)"
    "set (leading_columns (base_table ops_task_group)) \<subseteq> set (leading_columns tt)"
    by (rule run_goes_and_returns [OF changed_task find_baseline(1) distinct_baseline]) (simp_all add: b18)
  let ?s1 = "put ''ops_task'' tt baseline"
  have l1: "map_of ?s1 ''ops_task_execution'' = Some (base_table ops_task_execution_group)" "distinct (map fst ?s1)"
    using find_baseline distinct_baseline by (simp_all add: map_of_put)
  obtain te where te: "run strict (drop 5 upgrade_b1805a5af57f) ?s1 = Some (put ''ops_task_execution'' te ?s1)"
    "run strict (take 7 downgrade_b1805a5af57f) (put ''ops_task_execution'' te ?s1) = Some ?s1"
    "same_table te ops_task_execution_model" "ta_foreign te = ta_foreign (base_table ops_task_execution_group)"
    "set (leading_columns (base_table ops_task_execution_group)) \<subseteq> set (leading_columns te)"
    by (rule run_goes_and_returns [OF changed_execution l1]) (simp_all add: b18)
  let ?s2 = "put ''ops_task_execution'' te ?s1"
  have l2: "map_of ?s2 ''ops_agent_token'' = Some (base_table ops_agent_token_group)" "distinct (map fst ?s2)"
    using find_baseline distinct_baseline by (simp_all add: map_of_put)
  obtain ta where ta: "run strict upgrade_7aa13a973276 ?s2 = Some (put ''ops_agent_token'' ta ?s2)"
    "run strict downgrade_7aa13a973276 (put ''ops_agent_token'' ta ?s2) = Some ?s2" "same_table ta ops_agent_token_model"
    "ta_foreign ta = ta_foreign (base_table ops_agent_token_group)"
    "set (leading_columns (base_table ops_agent_token_group)) \<subseteq> set (leading_columns ta)"
    by (rule run_goes_and_returns [OF changed_token l2])
      (simp_all add: upgrade_7aa13a973276_def downgrade_7aa13a973276_def)
  let ?s3 = "put ''ops_agent_token'' ta ?s2"
  have "summarises (map summary_of baseline_groups) baseline"
    using groups_summarised [OF baseline_groups_ok, of "[]"] by (simp add: baseline_def summarises_def)
  from summarises_put [OF this find_baseline(1) distinct_baseline tt(4,5)]
  have "summarises (map summary_of baseline_groups) ?s1" .
  from summarises_put [OF this l1 te(4,5)] have "summarises (map summary_of baseline_groups) ?s2" .
  from summarises_put [OF this l2 ta(4,5)] have sum: "summarises (map summary_of baseline_groups) ?s3" .
  have "\<forall>(m, v) \<in> set baseline. \<not> refers_to ''monitor_server_metric_daily'' v"
    using daily_unreferenced by (auto simp: baseline_def list_all_iff finish_group)
  from unreferenced_put [OF this find_baseline(1) tt(4)] have "\<forall>(m, v) \<in> set ?s1. \<not> refers_to ''monitor_server_metric_daily'' v" .
  from unreferenced_put [OF this l1(1) te(4)] have "\<forall>(m, v) \<in> set ?s2. \<not> refers_to ''monitor_server_metric_daily'' v" .
  from unreferenced_put [OF this l2(1) ta(4)] have "\<forall>(m, v) \<in> set ?s3. \<not> refers_to ''monitor_server_metric_daily'' v" .
  note daily = daily_goes_and_returns [OF sum this, of strict]
  have "run strict upgrade_b1805a5af57f baseline = Some ?s2"
    by (subst split(1)) (simp only: run_append tt(1) te(1) option.case)
  moreover have "run strict downgrade_b1805a5af57f ?s2 = Some baseline"
    by (subst split(2)) (simp only: run_append tt(2) te(2) option.case)
  ultimately show ?thesis using that ta(1-3) daily tt(3) te(3) by blast
qed

section \<open>Properties\<close>

lemma upgrade_head_revisions:
  "upgrade_head strict REVISIONS [] =
    (case run strict upgrade_b1805a5af57f baseline of None \<Rightarrow> None
     | Some s \<Rightarrow> (case run strict upgrade_7aa13a973276 s of None \<Rightarrow> None
        | Some s' \<Rightarrow> run strict upgrade_4f50bb136572 s'))"
  by (simp add: upgrade_head_def REVISIONS_def revision_096f952de48e_def revision_b1805a5af57f_def
      revision_7aa13a973276_def revision_4f50bb136572_def run_append run_baseline split: option.split)

lemma head_is_declared:
  assumes "same_table tt ops_task_model" "same_table te ops_task_execution_model" "same_table ta ops_agent_token_model"
  shows "same_schema (put ''ops_agent_token'' ta (put ''ops_task_execution'' te (put ''ops_task'' tt baseline)) @
    [finish monitor_server_metric_daily_group]) metadata_tables"
proof -
  let ?s = "put ''ops_agent_token'' ta (put ''ops_task_execution'' te (put ''ops_task'' tt baseline)) @
    [finish monitor_server_metric_daily_group]"
  have "map fst ?s = map fst baseline @ [''monitor_server_metric_daily'']" by (simp add: finish_group group_names(27))
  moreover have "same_elements (map fst baseline @ [''monitor_server_metric_daily'']) (map fst metadata_tables)"
    unfolding baseline_tables metadata_tables_def by code_simp
  moreover have "list_all (\<lambda>(n, t). case map_of metadata_tables n of None \<Rightarrow> False | Some t' \<Rightarrow> same_table t t') ?s"
    unfolding baseline_tables by (simp add: metadata_tables_def finish_group group_names(27) untouched_tables assms)
  ultimately show ?thesis by (simp only: same_schema_def simp_thms)
qed

text \<open>
  C38. The migrations build what the ORM declares. The revisions form one chain, every statement of
  theirs is accepted, and the schema after the last one has, table by table, the columns with their
  types, nullability and defaults, the primary, unique and foreign keys and the indexes of the classes
  of the ORM, and nothing else.
\<close>

theorem migrations_build_the_models:
  "linear_history None REVISIONS \<and>
   (\<exists>s. upgrade_head strict REVISIONS [] = Some s \<and> same_schema s metadata_tables)"
proof -
  obtain s2 s3 tt te ta where s:
    "run strict upgrade_b1805a5af57f baseline = Some s2" "run strict upgrade_7aa13a973276 s2 = Some s3"
    "run strict upgrade_4f50bb136572 s3 = Some (s3 @ [finish monitor_server_metric_daily_group])"
    "s3 = put ''ops_agent_token'' ta (put ''ops_task_execution'' te (put ''ops_task'' tt baseline))"
    "same_table tt ops_task_model" "same_table te ops_task_execution_model" "same_table ta ops_agent_token_model"
    using all_revisions [of strict] by metis
  then have "upgrade_head strict REVISIONS [] = Some (s3 @ [finish monitor_server_metric_daily_group])"
    by (simp add: upgrade_head_revisions)
  moreover have "linear_history None REVISIONS"
    by (simp add: REVISIONS_def revision_096f952de48e_def revision_b1805a5af57f_def revision_7aa13a973276_def
        revision_4f50bb136572_def)
  ultimately show ?thesis using head_is_declared [OF s(5-7)] s(4) by blast
qed

lemma baseline_undo: "downgrade_096f952de48e = concat (map undo (rev baseline_groups))"
  by (simp add: downgrade_096f952de48e_def baseline_groups_def group_defs)

lemma baseline_downgrade_stuck: "run True downgrade_096f952de48e baseline = None"
proof -
  have "alter True (DropIndex ''idx_ops_task_log_execution_time'' ''ops_task_log'') (base_table ops_task_log_group) = None"
    by code_simp
  moreover have "map_of baseline ''ops_task_log'' = Some (base_table ops_task_log_group)" by (simp add: baseline_tables)
  ultimately show ?thesis unfolding downgrade_096f952de48e_def by (intro alter_all_refused) simp_all
qed

text \<open>
  C39. The way back. The downgrade of each of the three later revisions restores exactly the schema its
  upgrade started from. That of the baseline empties the database, unless the storage engine insists on
  an index for every foreign key, as that of MySQL does: then its first statement is refused, because
  the index it drops is the only one of the foreign key of the task logs.
\<close>

theorem revisions_can_be_taken_back:
  "\<exists>s1 s2 s3 s4.
     run strict upgrade_096f952de48e [] = Some s1 \<and>
     run strict downgrade_096f952de48e s1 = (if strict then None else Some []) \<and>
     run strict upgrade_b1805a5af57f s1 = Some s2 \<and> run strict downgrade_b1805a5af57f s2 = Some s1 \<and>
     run strict upgrade_7aa13a973276 s2 = Some s3 \<and> run strict downgrade_7aa13a973276 s3 = Some s2 \<and>
     run strict upgrade_4f50bb136572 s3 = Some s4 \<and> run strict downgrade_4f50bb136572 s4 = Some s3"
proof -
  have "run strict downgrade_096f952de48e baseline = (if strict then None else Some [])"
    using baseline_downgrade_stuck run_undo_groups [OF baseline_groups_ok] by (simp add: baseline_undo baseline_def)
  then show ?thesis using all_revisions [of strict] run_baseline [of strict] by metis
qed

text \<open>
  The unique keys the operations of the model check are those of the database: user names and e-mail
  addresses, role bindings, server codes and addresses, token hashes, idempotency keys, targets and
  attempts of a task, active alerts.
\<close>

lemma keys_of_the_operations:
  "snd ` set (ta_unique sys_user_model) = {[''username''], [''email'']}"
  "ta_primary sys_user_role_model = [''user_id'', ''role_id'']"
  "snd ` set (ta_unique ops_server_model) = {[''server_code''], [''ip_address'', ''ssh_port'']}"
  "snd ` set (ta_unique ops_agent_token_model) = {[''token_hash'']}"
  "snd ` set (ta_unique ops_task_model) = {[''idempotency_key'']}"
  "snd ` set (ta_unique ops_task_target_model) = {[''task_id'', ''server_id'']}"
  "snd ` set (ta_unique ops_task_execution_model) = {[''task_id'', ''target_id'', ''attempt'']}"
  "snd ` set (ta_unique alert_event_model) = {[''alert_key'', ''is_active'']}"
  by (auto simp: model_defs)

end
