(* ===== verification/Logging.thy ===== *)
theory Logging
  imports Middleware
begin

text \<open>
  The structured logs of the backend (\<open>backend/app/core/logging.py\<close>), the trace identifier in them
  (\<open>current_trace_id\<close> of \<open>core/tracing.py\<close>) and the logger of the agent (\<open>agent/utils/logger.py\<close>). A log
  record is what \<open>logging\<close> hands to the formatter: the texts of its time, message and exception are its
  fields. The extra fields are texts, numbers or \<open>None\<close>. \<open>json.dumps(..., ensure_ascii=False)\<close> is
  written out for such values.
\<close>

section \<open>JSON\<close>

datatype log_value = Null | Text string | Number int

definition hex_digit :: "nat \<Rightarrow> char" where
  "hex_digit n = (if n < 10 then char_of (48 + n) else char_of (87 + n))"

abbreviation "quote \<equiv> CHR 0x22"
abbreviation "backslash \<equiv> CHR 0x5C"

definition json_char :: "char \<Rightarrow> string" where
  "json_char c =
     (if c = quote then [backslash, quote]
      else if c = backslash then [backslash, backslash]
      else if c = CHR 8 then [backslash, CHR ''b'']
      else if c = CHR 12 then [backslash, CHR ''f'']
      else if c = CHR 10 then [backslash, CHR ''n'']
      else if c = CHR 13 then [backslash, CHR ''r'']
      else if c = CHR 9 then [backslash, CHR ''t'']
      else let n = of_char c in
        if n < 32 then [backslash, CHR ''u'', CHR ''0'', CHR ''0'', hex_digit (n div 16), hex_digit (n mod 16)]
        else [c])"

definition json_string :: "string \<Rightarrow> string" where
  "json_string s = quote # concat (map json_char s) @ [quote]"

fun json_value :: "log_value \<Rightarrow> string" where
  "json_value Null = ''null''"
| "json_value (Text s) = json_string s"
| "json_value (Number n) = py_str n"

fun json_fields :: "(string \<times> log_value) list \<Rightarrow> string" where
  "json_fields [] = []"
| "json_fields [(k, v)] = json_string k @ '': '' @ json_value v"
| "json_fields ((k, v) # f # fs) = json_string k @ '': '' @ json_value v @ '', '' @ json_fields (f # fs)"

definition json_dict :: "(string \<times> log_value) list \<Rightarrow> string" where
  "json_dict members = ''{'' @ json_fields members @ ''}''"

section \<open>The formatter\<close>

definition SERVICE_NAME :: string where "SERVICE_NAME = ''backend''"

text \<open>The three context variables.\<close>

record log_context =
  request_id_ctx :: "string option"
  user_id_ctx :: "ident option"
  trace_id_ctx :: "string option"

record log_record =
  lg_created :: string
  lg_levelname :: string
  lg_name :: string
  lg_message :: string
  lg_agent_id :: log_value
  lg_action :: log_value
  lg_exception :: "string option"

text \<open>
  The current span as \<open>opentelemetry\<close> reports it, validity and number; \<open>None\<close> when the package is
  missing or fails. The identifier has 32 hexadecimal digits at least.
\<close>

fun hex_digits :: "nat \<Rightarrow> string" where
  "hex_digits n = (if n < 16 then [hex_digit n] else hex_digits (n div 16) @ [hex_digit (n mod 16)])"

declare hex_digits.simps [simp del]

definition format_032x :: "nat \<Rightarrow> string" where
  "format_032x n = (let ds = hex_digits n in replicate (32 - length ds) (CHR ''0'') @ ds)"

definition current_trace_id :: "(bool \<times> nat) option \<Rightarrow> string option" where
  "current_trace_id spn =
     (case spn of
        None \<Rightarrow> None
      | Some (is_valid, trace_id) \<Rightarrow> if is_valid then Some (format_032x trace_id) else None)"

definition text_or_null :: "string option \<Rightarrow> log_value" where
  "text_or_null v = (case v of None \<Rightarrow> Null | Some s \<Rightarrow> Text s)"

definition number_or_null :: "ident option \<Rightarrow> log_value" where
  "number_or_null v = (case v of None \<Rightarrow> Null | Some n \<Rightarrow> Number n)"

definition log_payload :: "log_context \<Rightarrow> (bool \<times> nat) option \<Rightarrow> log_record \<Rightarrow> (string \<times> log_value) list" where
  "log_payload cx spn r =
     [(''timestamp'', Text (lg_created r)), (''level'', Text (lg_levelname r)), (''service'', Text SERVICE_NAME),
      (''logger'', Text (lg_name r)), (''request_id'', text_or_null (request_id_ctx cx)),
      (''trace_id'', text_or_null (py_or (trace_id_ctx cx) (current_trace_id spn))),
      (''user_id'', number_or_null (user_id_ctx cx)), (''message'', Text (lg_message r))] @
     filter (\<lambda>(_, v). v \<noteq> Null) [(''agent_id'', lg_agent_id r), (''action'', lg_action r)] @
     (case lg_exception r of None \<Rightarrow> [] | Some e \<Rightarrow> [(''error'', Text e)])"

definition format_log :: "log_context \<Rightarrow> (bool \<times> nat) option \<Rightarrow> log_record \<Rightarrow> string" where
  "format_log cx spn r = json_dict (log_payload cx spn r)"

text \<open>What \<open>RequestContextMiddleware\<close> sets while it calls the application, and resets afterwards.\<close>

definition request_log_context :: "security \<Rightarrow> datetime \<Rightarrow> string \<Rightarrow> client_request \<Rightarrow> log_context \<Rightarrow> log_context" where
  "request_log_context sec now uuid q cx =
     cx\<lparr>request_id_ctx := Some (request_id_of uuid q), user_id_ctx := context_user sec now q\<rparr>"

section \<open>The loggers\<close>

datatype log_handler = JsonHandler | FileHandler string | StreamHandler | OtherHandler nat

record logger_state =
  ls_handlers :: "log_handler list"
  ls_level :: "string option"
  ls_propagate :: bool

text \<open>The root logger has the empty name. An unknown level is a \<open>ValueError\<close>.\<close>

type_synonym loggers = "string \<Rightarrow> logger_state"

definition LEVEL_NAMES :: "string list" where
  "LEVEL_NAMES = [''CRITICAL'', ''FATAL'', ''ERROR'', ''WARN'', ''WARNING'', ''INFO'', ''DEBUG'', ''NOTSET'']"

definition UVICORN_LOGGERS :: "string list" where
  "UVICORN_LOGGERS = [''uvicorn'', ''uvicorn.error'', ''uvicorn.access'']"

definition setup_logging :: "string \<Rightarrow> loggers \<Rightarrow> py_error + loggers" where
  "setup_logging level ls =
     (if upper level \<notin> set LEVEL_NAMES then Inl ValueError
      else let ls1 = ls([] := (ls [])\<lparr>ls_handlers := [JsonHandler], ls_level := Some (upper level)\<rparr>)
           in Inr (fold (\<lambda>name m. m(name := (m name)\<lparr>ls_handlers := [], ls_propagate := True\<rparr>)) UVICORN_LOGGERS ls1))"

text \<open>\<open>setup_logger\<close> of the agent: the level is set before the handlers are replaced.\<close>

definition setup_logger :: "string \<Rightarrow> string option \<Rightarrow> loggers \<Rightarrow> py_error + loggers" where
  "setup_logger level log_file ls =
     (if upper level \<notin> set LEVEL_NAMES then Inl ValueError
      else Inr (ls(''agent'' := (ls ''agent'')\<lparr>ls_level := Some (upper level),
        ls_handlers := [if truthy log_file then FileHandler (the log_file) else StreamHandler]\<rparr>)))"

text \<open>The handlers that get a record: those of its logger and, as long as each propagates, of its parents.\<close>

definition parent_logger :: "string \<Rightarrow> string" where
  "parent_logger name = rev (drop 1 (dropWhile (\<lambda>c. c \<noteq> CHR ''.'') (rev name)))"

function call_handlers :: "loggers \<Rightarrow> string \<Rightarrow> log_handler list" where
  "call_handlers ls name = ls_handlers (ls name) @
     (if name \<noteq> [] \<and> ls_propagate (ls name) then call_handlers ls (parent_logger name) else [])"
  by pat_completeness auto
termination
proof (relation "measure (\<lambda>(_, name). length name)")
  fix ls :: loggers and name :: string
  assume n: "name \<noteq> [] \<and> ls_propagate (ls name)"
  have "length (dropWhile (\<lambda>c. c \<noteq> CHR ''.'') (rev name)) \<le> length name"
    using length_dropWhile_le [of _ "rev name"] by simp
  moreover have "0 < length name" using n by simp
  ultimately have "length (dropWhile (\<lambda>c. c \<noteq> CHR ''.'') (rev name)) - 1 < length name" by linarith
  then show "((ls, parent_logger name), ls, name) \<in> measure (\<lambda>(_, name). length name)"
    by (simp add: parent_logger_def)
qed simp

declare call_handlers.simps [simp del]

end
