(* ===== verification/Logging_Properties.thy ===== *)
theory Logging_Properties
  imports Logging
begin

text \<open>
  A log line is one line and says what was logged: reading it as JSON gives back the fields, so no
  message can end the line or add a field to it.
\<close>

section \<open>A reader\<close>

definition hex_value :: "char \<Rightarrow> nat" where
  "hex_value c = (let n = of_char c in if n < 58 then n - 48 else n - 87)"

fun read_escape :: "char \<Rightarrow> char option" where
  "read_escape c =
     (if c = quote \<or> c = backslash \<or> c = CHR ''/'' then Some c
      else if c = CHR ''b'' then Some (CHR 8) else if c = CHR ''f'' then Some (CHR 12)
      else if c = CHR ''n'' then Some (CHR 10) else if c = CHR ''r'' then Some (CHR 13)
      else if c = CHR ''t'' then Some (CHR 9) else None)"

fun read_chars :: "string \<Rightarrow> (string \<times> string) option" where
  "read_chars [] = None"
| "read_chars [c] = (if c = quote then Some ([], []) else None)"
| "read_chars (c # d # s) =
     (if c = quote then Some ([], d # s)
      else if c = backslash then
        (if d = CHR ''u'' then
           (case s of
              x # y # h # l # t \<Rightarrow>
                if x = CHR ''0'' \<and> y = CHR ''0''
                then map_option (\<lambda>(cs, r). (char_of (16 * hex_value h + hex_value l) # cs, r)) (read_chars t)
                else None
            | _ \<Rightarrow> None)
         else case read_escape d of
                None \<Rightarrow> None
              | Some e \<Rightarrow> map_option (\<lambda>(cs, r). (e # cs, r)) (read_chars s))
      else map_option (\<lambda>(cs, r). (c # cs, r)) (read_chars (d # s)))"

definition number_char :: "char \<Rightarrow> bool" where
  "number_char c \<longleftrightarrow> is_digit c \<or> c = CHR ''-''"

definition read_int :: "string \<Rightarrow> int" where
  "read_int ds = (case ds of
     c # cs \<Rightarrow> if c = CHR ''-'' then - foldl (\<lambda>a c. a * 10 + digit_value c) 0 cs
               else foldl (\<lambda>a c. a * 10 + digit_value c) 0 ds
   | [] \<Rightarrow> 0)"

definition read_value :: "string \<Rightarrow> (log_value \<times> string) option" where
  "read_value s = (case s of
     [] \<Rightarrow> None
   | c # t \<Rightarrow>
       if c = quote then map_option (\<lambda>(cs, r). (Text cs, r)) (read_chars t)
       else if c = CHR ''n'' then (if has_prefix ''null'' s then Some (Null, drop 4 s) else None)
       else Some (Number (read_int (takeWhile number_char s)), dropWhile number_char s))"

text \<open>A member with the text that follows it; the first argument bounds the number of members.\<close>

fun read_members :: "nat \<Rightarrow> string \<Rightarrow> ((string \<times> log_value) list \<times> string) option" where
  "read_members 0 s = None"
| "read_members (Suc n) s =
     (case s of [] \<Rightarrow> None | q # s1 \<Rightarrow>
        if q \<noteq> quote then None
        else case read_chars s1 of
          None \<Rightarrow> None
        | Some (k, s2) \<Rightarrow>
            if \<not> has_prefix '': '' s2 then None
            else case read_value (drop 2 s2) of
              None \<Rightarrow> None
            | Some (v, s3) \<Rightarrow>
                if has_prefix ''}'' s3 then Some ([(k, v)], drop 1 s3)
                else if has_prefix '', '' s3
                  then map_option (\<lambda>(fs, r). ((k, v) # fs, r)) (read_members n (drop 2 s3))
                  else None)"

definition read_object :: "string \<Rightarrow> ((string \<times> log_value) list \<times> string) option" where
  "read_object s = (if has_prefix ''{'' s then read_members (length s) (drop 1 s) else None)"

section \<open>Texts\<close>

lemma read_plain_char:
  assumes "c \<noteq> quote" "c \<noteq> backslash" "t \<noteq> []"
  shows "read_chars (c # t) = map_option (\<lambda>(cs, r). (c # cs, r)) (read_chars t)"
  using assms by (cases t) simp_all

lemma hex_value_digit: "n < 16 \<Longrightarrow> hex_value (hex_digit n) = n"
  by (simp add: hex_value_def hex_digit_def Let_def)

lemma read_hex_escape:
  assumes "a < 16" "b < 16"
  shows "read_chars ([backslash, CHR ''u'', CHR ''0'', CHR ''0'', hex_digit a, hex_digit b] @ t) =
    map_option (\<lambda>(cs, r). (char_of (16 * a + b) # cs, r)) (read_chars t)"
  by (simp add: hex_value_digit assms)

lemma read_json_char:
  assumes "t \<noteq> []"
  shows "read_chars (json_char c @ t) = map_option (\<lambda>(cs, r). (c # cs, r)) (read_chars t)"
proof (cases "c \<in> set [quote, backslash, CHR 8, CHR 12, CHR 10, CHR 13, CHR 9]")
  case True
  then show ?thesis by (auto simp: json_char_def)
next
  case False
  show ?thesis
  proof (cases "(of_char c :: nat) < 32")
    case True
    then have "json_char c = [backslash, CHR ''u'', CHR ''0'', CHR ''0'', hex_digit (of_char c div 16), hex_digit (of_char c mod 16)]"
      using False by (simp add: json_char_def Let_def)
    moreover have "char_of (16 * (of_char c div 16) + of_char c mod 16 :: nat) = c" by simp
    ultimately show ?thesis using read_hex_escape [of "of_char c div 16" "of_char c mod 16" t] True
      by (simp only: less_mult_imp_div_less)
  next
    case large: False
    then have "json_char c = [c]" using False by (simp add: json_char_def Let_def)
    then show ?thesis using False read_plain_char [OF _ _ assms] by simp
  qed
qed

lemma read_json_chars: "read_chars (concat (map json_char s) @ quote # r) = Some (s, r)"
proof (induction s)
  case Nil
  then show ?case by (cases r) simp_all
next
  case (Cons c s)
  then show ?case by (simp add: read_json_char)
qed

section \<open>Numbers, members, objects\<close>

lemma number_chars: "c \<in> set (py_str n) \<Longrightarrow> number_char c"
  using show_nat_digits digit_char_simps(1) by (fastforce simp: py_str_def number_char_def split: if_splits)

lemma number_stop: "\<not> number_char (CHR '','')" "\<not> number_char (CHR ''}'')"
  by (simp_all add: number_char_def is_digit_def Let_def)

lemma number_not_text: "number_char c \<Longrightarrow> c \<noteq> quote \<and> c \<noteq> CHR ''n''"
  by (auto simp: number_char_def is_digit_def Let_def)

lemma read_int_py_str: "read_int (py_str n) = n"
proof (cases "n < 0")
  case True
  then show ?thesis by (simp add: py_str_def read_int_def foldl_show_nat)
next
  case False
  obtain c cs where s: "show_nat (nat n) = c # cs" by (cases "show_nat (nat n)") simp_all
  then have "c \<noteq> CHR ''-''" using show_nat_digits [of c "nat n"] digit_char_simps(4) by (metis list.set_intros(1))
  then show ?thesis using False foldl_show_nat [of "nat n"] by (simp add: py_str_def read_int_def s)
qed

lemma read_json_value:
  assumes "rest = c # rest'" "c = CHR '','' \<or> c = CHR ''}''"
  shows "read_value (json_value v @ rest) = Some (v, rest)"
proof (cases v)
  case (Number n)
  obtain d ds where s: "py_str n = d # ds" by (cases "py_str n") (simp_all add: py_str_def split: if_splits)
  have d: "d \<noteq> quote" "d \<noteq> CHR ''n''" using number_chars [of d n] number_not_text s by auto
  have stop: "\<not> number_char c" using assms(2) number_stop by auto
  have all: "\<forall>x \<in> set (py_str n). number_char x" using number_chars by blast
  have "takeWhile number_char (py_str n @ rest) = py_str n" "dropWhile number_char (py_str n @ rest) = rest"
    using all stop by (simp_all add: takeWhile_append dropWhile_append assms(1) takeWhile_eq_all_conv [THEN iffD2])
  then show ?thesis using d by (simp add: read_value_def Number s read_int_py_str [of n, unfolded s])
qed (simp_all add: read_value_def json_string_def read_json_chars has_prefix_append)

lemma read_json_fields:
  "fs \<noteq> [] \<Longrightarrow> length fs \<le> n \<Longrightarrow> read_members n (json_fields fs @ CHR ''}'' # rest) = Some (fs, rest)"
proof (induction fs arbitrary: n rule: json_fields.induct)
  case (2 k v)
  then obtain m where n: "n = Suc m" by (cases n) auto
  have "read_value (json_value v @ CHR ''}'' # rest) = Some (v, CHR ''}'' # rest)" by (rule read_json_value [OF refl]) simp
  then show ?case by (simp add: n json_string_def read_json_chars)
next
  case (3 k v f fs)
  then obtain m where n: "n = Suc m" and m: "length (f # fs) \<le> m" by (cases n) auto
  let ?tail = "json_fields (f # fs) @ CHR ''}'' # rest"
  have "read_value (json_value v @ CHR '','' # CHR '' '' # ?tail) = Some (v, CHR '','' # CHR '' '' # ?tail)"
    by (rule read_json_value [OF refl]) simp
  moreover have "read_members m ?tail = Some (f # fs, rest)" using 3 m by simp
  ultimately show ?case by (simp add: n json_string_def read_json_chars)
qed simp

lemma length_json_fields: "length fs \<le> length (json_fields fs)"
  by (induction fs rule: json_fields.induct) (simp_all add: json_string_def)

lemma read_json_dict: "fs \<noteq> [] \<Longrightarrow> read_object (json_dict fs) = Some (fs, [])"
  using read_json_fields [of fs "length (json_dict fs)" "[]"] length_json_fields [of fs]
  by (simp add: read_object_def json_dict_def)

section \<open>One line\<close>

definition printable :: "char \<Rightarrow> bool" where
  "printable c \<longleftrightarrow> 32 \<le> (of_char c :: nat)"

lemma hex_digit_printable: "n < 16 \<Longrightarrow> printable (hex_digit n)"
  by (simp add: printable_def hex_digit_def)

lemma json_char_printable: "list_all printable (json_char c)"
  using hex_digit_printable [of "of_char c div 16"] hex_digit_printable [of "of_char c mod 16"]
  by (auto simp: json_char_def Let_def printable_def less_mult_imp_div_less)

lemma json_string_printable: "list_all printable (json_string s)"
  using json_char_printable by (auto simp: json_string_def printable_def list_all_iff)

lemma json_value_printable: "list_all printable (json_value v)"
proof (cases v)
  case (Number n)
  have "number_char c \<Longrightarrow> printable c" for c by (auto simp: number_char_def is_digit_def Let_def printable_def)
  then show ?thesis using number_chars by (auto simp: Number list_all_iff)
qed (simp_all add: json_string_printable, simp add: printable_def)

lemma json_dict_printable: "list_all printable (json_dict fs)"
proof -
  have "list_all printable (json_fields fs)"
    using json_string_printable json_value_printable
    by (induction fs rule: json_fields.induct) (simp_all add: printable_def)
  then show ?thesis by (simp add: json_dict_def printable_def)
qed


text \<open>Within a request every line carries the identifier of the request, the one of the response header.\<close>

lemma request_id_in_log:
  "map_of (log_payload (request_log_context sec now uuid q cx) spn r) ''request_id'' = Some (Text (request_id_of uuid q))"
  by (simp add: log_payload_def request_log_context_def text_or_null_def)

section \<open>Trace identifiers and loggers\<close>

lemma trace_id_length: "current_trace_id spn = Some t \<Longrightarrow> 32 \<le> length t"
  by (auto simp: current_trace_id_def format_032x_def Let_def split: option.splits if_splits)

text \<open>After the set-up a record of a logger of uvicorn is written once, by the JSON handler of the root.\<close>

lemma logged_once:
  assumes "setup_logging level ls = Inr ls'" "name \<in> set UVICORN_LOGGERS"
  shows "call_handlers ls' name = [JsonHandler]"
proof -
  have parents: "parent_logger ''uvicorn'' = []" "parent_logger ''uvicorn.error'' = ''uvicorn''"
    "parent_logger ''uvicorn.access'' = ''uvicorn''"
    by (simp_all add: parent_logger_def)
  have st: "ls_handlers (ls' []) = [JsonHandler]"
    "ls_handlers (ls' ''uvicorn'') = []" "ls_propagate (ls' ''uvicorn'')"
    "ls_handlers (ls' ''uvicorn.error'') = []" "ls_propagate (ls' ''uvicorn.error'')"
    "ls_handlers (ls' ''uvicorn.access'') = []" "ls_propagate (ls' ''uvicorn.access'')"
    using assms(1) by (auto simp: setup_logging_def Let_def UVICORN_LOGGERS_def split: if_splits)
  have root: "call_handlers ls' [] = [JsonHandler]" by (subst call_handlers.simps) (simp add: st(1))
  have top: "call_handlers ls' ''uvicorn'' = [JsonHandler]" by (subst call_handlers.simps) (simp add: st parents root)
  moreover have "call_handlers ls' ''uvicorn.error'' = [JsonHandler]"
    by (subst call_handlers.simps) (simp add: st parents top)
  moreover have "call_handlers ls' ''uvicorn.access'' = [JsonHandler]"
    by (subst call_handlers.simps) (simp add: st parents top)
  ultimately show ?thesis using assms(2) by (auto simp: UVICORN_LOGGERS_def)
qed

end
