(* ===== verification/Closed_Loop.thy ===== *)
theory Closed_Loop
  imports Agent_Run_Properties Agent_Protocol Agent_Api Task_Sweeps Reach Logging_Properties Server_Properties
begin

text \<open>
  The agent and the backend as one system: the transport of the agent is the router of the backend
  (\<open>backend/app/api/v1/agent.py\<close>), reached over a wire that may lose a request or a reply. Every response
  has the envelope of \<open>utils/response.py\<close> or of \<open>exceptions/handlers.py\<close>. The result is that over a wire
  that loses nothing, headers, signatures, replay cache and JSON leave no trace: a poll of the worker is
  the execution of the tasks that were handed out and the report of each, straight on the database.
\<close>

section \<open>Responses\<close>

definition success :: "json \<Rightarrow> string \<Rightarrow> json" where
  "success data message = JObj [(''code'', JInt 0), (''message'', JStr message), (''data'', data)]"

definition build_body :: "int \<Rightarrow> string \<Rightarrow> json \<Rightarrow> json" where
  "build_body code message data = JObj [(''code'', JInt code), (''message'', JStr message), (''data'', data)]"

text \<open>\<open>detail\<close> gives the message of an exception and, for an invalid body, the list of its errors.\<close>

definition exception_reply :: "(py_error \<Rightarrow> string \<times> json) \<Rightarrow> py_error \<Rightarrow> http_reply" where
  "exception_reply detail e =
     (let (st, code) = error_response e; (message, data) = detail e
      in Reply st (build_body (error_number code) message data))"

definition reply_of :: "(py_error \<Rightarrow> string \<times> json) \<Rightarrow> ('a \<Rightarrow> json) \<Rightarrow> 'a result \<Rightarrow> http_reply" where
  "reply_of detail body outcome =
     (case outcome of Inl e \<Rightarrow> exception_reply detail e | Inr x \<Rightarrow> Reply 200 (body x))"

definition zh_recorded :: string where
  "zh_recorded = [CHR 0xE5, CHR 0xB7, CHR 0xB2, CHR 0xE8, CHR 0xAE, CHR 0xB0, CHR 0xE5, CHR 0xBD, CHR 0x95]"

definition text_json :: "string option \<Rightarrow> json" where
  "text_json x = (case x of None \<Rightarrow> JNull | Some s \<Rightarrow> JStr s)"

definition assigned_fields :: "AssignedTask \<Rightarrow> (string \<times> json) list" where
  "assigned_fields a =
     [(''execution_id'', JInt (as_execution_id a)), (''task_id'', JInt (as_task_id a)),
      (''action'', text_json (as_action a)), (''service_name'', text_json (as_service_name a)),
      (''timeout_seconds'', JInt (as_timeout_seconds a))]"

section \<open>The router of the agents\<close>

text \<open>
  What the backend is configured with. \<open>be_parse_result\<close> is the reading of a JSON body by the schema of
  a result; the endpoints without a part in the execution of tasks are the parameter \<open>other\<close>.
\<close>

record ('pk, 'r) backend =
  be_crypto :: "'pk crypto"
  be_set_nx :: "'r set_nx_ex"
  be_settings :: settings
  be_parse_result :: "string \<Rightarrow> TaskResultRequest option"
  be_detail :: "py_error \<Rightarrow> string \<times> json"

type_synonym 'r route = "datetime \<Rightarrow> http_request \<Rightarrow> db \<Rightarrow> 'r \<Rightarrow> http_reply \<times> db \<times> 'r"

definition agent_router :: "('pk, 'r) backend \<Rightarrow> 'r route \<Rightarrow> 'r route" where
  "agent_router be other now q d r =
     (if rq_method q = ''GET'' \<and> rq_path q = ''/api/v1/agent/tasks/pending'' then
        (let (outcome, d', r') = get_tasks_pending (be_crypto be) (be_set_nx be) (be_settings be) now q d r
         in (reply_of (be_detail be) (\<lambda>as. success (JArr (map (JObj \<circ> assigned_fields) as)) ''ok'') outcome, d', r'))
      else if rq_method q = ''POST'' \<and> rq_path q = ''/api/v1/agent/task/result'' then
        (let (outcome, d', r') = post_task_result (be_crypto be) (be_set_nx be) (be_settings be) now
           (be_parse_result be) q d r
         in (reply_of (be_detail be) (\<lambda>_. success JNull zh_recorded) outcome, d', r'))
      else other now q d r)"

section \<open>The wire\<close>

datatype fate = Delivered | RequestLost | ReplyLost

text \<open>
  \<open>'m\<close> is the machine of the agent with the time: its clock, the clock of the backend, its processes.
  \<open>'n\<close> is the source of identifiers, of random numbers and of the losses of the wire.
\<close>

record ('m, 'n) surroundings =
  agent_clock :: "'m \<Rightarrow> datetime"
  server_clock :: "'m \<Rightarrow> datetime"
  machine_run :: "string list \<Rightarrow> json \<Rightarrow> 'm \<Rightarrow> run_outcome \<times> 'm"
  wire_uuid :: "'n \<Rightarrow> string \<times> 'n"
  wire_random :: "'n \<Rightarrow> rat \<times> 'n"
  wire_fate :: "'n \<Rightarrow> fate \<times> 'n"

record ('r, 'm, 'n) site =
  site_db :: db
  site_cache :: 'r
  site_machine :: 'm
  site_wire :: 'n

text \<open>What arrives of a call: \<open>encode\<close> is the body httpx makes of a payload; the bearer token is a header.\<close>

definition http_of :: "(payload \<Rightarrow> string) \<Rightarrow> string \<Rightarrow> http_call \<Rightarrow> http_request" where
  "http_of encode token call =
     \<lparr>rq_method = hc_method call, rq_path = hc_path call,
      rq_body = (case hc_body call of EmptyBody \<Rightarrow> [] | JsonBody p \<Rightarrow> encode p | Content b \<Rightarrow> b),
      rq_bearer = Some token, rq_agent_id = map_option X_Agent_Id (hc_headers call),
      rq_timestamp = map_option X_Timestamp (hc_headers call),
      rq_request_id = map_option X_Request_Id (hc_headers call),
      rq_signature = map_option X_Signature (hc_headers call)\<rparr>"

definition deliver ::
  "('pk, 'r) backend \<Rightarrow> 'r route \<Rightarrow> ('m, 'n) surroundings \<Rightarrow> (payload \<Rightarrow> string) \<Rightarrow> string \<Rightarrow> http_call \<Rightarrow>
   ('r, 'm, 'n) site \<Rightarrow> http_reply \<times> ('r, 'm, 'n) site" where
  "deliver be other su encode token call w =
     (let (fate, n) = wire_fate su (site_wire w); w1 = w\<lparr>site_wire := n\<rparr> in
      if fate = RequestLost then (NoReply, w1)
      else let (reply, d, r) = agent_router be other (server_clock su (site_machine w1)) (http_of encode token call)
             (site_db w1) (site_cache w1)
        in (if fate = ReplyLost then NoReply else reply, w1\<lparr>site_db := d, site_cache := r\<rparr>))"

text \<open>The environment of an agent on this site, and of one whose world is the machine alone.\<close>

definition site_env ::
  "('pk, 'r) backend \<Rightarrow> 'r route \<Rightarrow> ('m, 'n) surroundings \<Rightarrow> (payload \<Rightarrow> string) \<Rightarrow> string \<Rightarrow> 'sk key_pair_ops \<Rightarrow>
   (json \<Rightarrow> string) \<Rightarrow> (('r, 'm, 'n) site, 'sk) agent_env" where
  "site_env be other su encode token ops fmt =
     \<lparr>transport = deliver be other su encode token,
      random_float = (\<lambda>w. let (x, n) = wire_random su (site_wire w) in (x, w\<lparr>site_wire := n\<rparr>)),
      clock = (\<lambda>w. (agent_clock su (site_machine w), w)),
      uuid4 = (\<lambda>w. let (u, n) = wire_uuid su (site_wire w) in (u, w\<lparr>site_wire := n\<rparr>)),
      dumps = encode, key_ops = ops,
      subprocess_run = (\<lambda>command timeout w. let (x, m) = machine_run su command timeout (site_machine w)
        in (x, w\<lparr>site_machine := m\<rparr>)),
      format_value = fmt\<rparr>"

lemma site_env_fields [simp]:
  "transport (site_env be other su encode token ops fmt) = deliver be other su encode token"
  "clock (site_env be other su encode token ops fmt) w = (agent_clock su (site_machine w), w)"
  "uuid4 (site_env be other su encode token ops fmt) w =
     (let (u, n) = wire_uuid su (site_wire w) in (u, w\<lparr>site_wire := n\<rparr>))"
  "dumps (site_env be other su encode token ops fmt) = encode"
  "key_ops (site_env be other su encode token ops fmt) = ops"
  "subprocess_run (site_env be other su encode token ops fmt) command timeout w =
     (let (x, m) = machine_run su command timeout (site_machine w) in (x, w\<lparr>site_machine := m\<rparr>))"
  "format_value (site_env be other su encode token ops fmt) = fmt"
  by (simp_all add: site_env_def)

section \<open>The specification of a poll\<close>

text \<open>
  The execution of one task on the machine alone, and of a list of tasks with a report of each, which is
  stored at the time the backend reads after the execution.
\<close>

definition machine_env :: "('m, 'n) surroundings \<Rightarrow> (json \<Rightarrow> string) \<Rightarrow> ('m, unit) agent_env" where
  "machine_env su fmt =
     \<lparr>transport = (\<lambda>_ m. (NoReply, m)), random_float = (\<lambda>m. (0, m)), clock = (\<lambda>m. (agent_clock su m, m)),
      uuid4 = (\<lambda>m. ([], m)), dumps = (\<lambda>_. []),
      key_ops = \<lparr>public_bytes = (\<lambda>_. []), ed25519_sign = (\<lambda>_ _. []), agent_sha256_hex = (\<lambda>_. [])\<rparr>,
      subprocess_run = machine_run su, format_value = fmt\<rparr>"

definition perform ::
  "('m, 'n) surroundings \<Rightarrow> (json \<Rightarrow> string) \<Rightarrow> string list \<Rightarrow> AssignedTask \<Rightarrow> 'm \<Rightarrow> (exec_error + bool \<times> string) \<times> 'm" where
  "perform su fmt allowed a m =
     (let (outcome, s) = run_task (machine_env su fmt) allowed (assigned_fields a) \<lparr>world = m, trace = []\<rparr>
      in (outcome, world s))"

definition outcome_request :: "AssignedTask \<Rightarrow> exec_error + bool \<times> string \<Rightarrow> TaskResultRequest" where
  "outcome_request a outcome =
     result_request (as_execution_id a)
       (task_outcome (JInt (as_execution_id a)) (text_json (as_action a)) outcome)"

fun work_through ::
  "('m, 'n) surroundings \<Rightarrow> (json \<Rightarrow> string) \<Rightarrow> string list \<Rightarrow> ident \<Rightarrow> AssignedTask list \<Rightarrow> 'm \<times> db \<Rightarrow>
   ((exec_error + bool \<times> string) list \<times> 'm \<times> db) result" where
  "work_through su fmt allowed sid [] (m, d) = Inr ([], m, d)"
| "work_through su fmt allowed sid (a # as) (m, d) =
     (let (outcome, m1) = perform su fmt allowed a m
      in bindE (report_result (server_clock su m1) sid (outcome_request a outcome) d)
           (\<lambda>d1. bindE (work_through su fmt allowed sid as (m1, d1))
             (\<lambda>(outcomes, m2, d2). Inr (outcome # outcomes, m2, d2))))"

text \<open>The row of an execution whose task had this outcome.\<close>

definition settled :: "exec_error + bool \<times> string \<Rightarrow> OpsTaskExecution \<Rightarrow> bool" where
  "settled outcome e \<longleftrightarrow>
     (case outcome of
        Inr (True, output) \<Rightarrow> ex_status e = SUCCESS \<and> ex_result_text e = Some output \<and> ex_error_message e = None
      | _ \<Rightarrow> ex_status e = FAILED \<and> ex_error_message e \<noteq> None) \<and> ex_finished_at e \<noteq> None"

section \<open>What the site relies on\<close>

text \<open>
  The hypotheses on libraries and clocks: Ed25519 and SHA-256 as in \<open>Agent_Protocol\<close>; the clocks of the
  two hosts differ by no more than the window; Redis answers and keeps its contract; \<open>uuid4\<close> never repeats
  an identifier; a report that was encoded is read back.
\<close>

definition keys_fit :: "'pk crypto \<Rightarrow> 'sk key_pair_ops \<Rightarrow> 'sk AgentSigner \<Rightarrow> bool" where
  "keys_fit cr ops signer \<longleftrightarrow>
     public_bytes ops (as_private_key signer) \<noteq> [] \<and> agent_sha256_hex ops = sha256_hex cr \<and>
     (\<exists>pk. from_public_bytes cr (public_bytes ops (as_private_key signer)) = Some pk \<and>
        (\<forall>m. ed25519_verify cr pk (ed25519_sign ops (as_private_key signer) m) m))"

definition clocks_fit :: "settings \<Rightarrow> ('m, 'n) surroundings \<Rightarrow> bool" where
  "clocks_fit cfg su \<longleftrightarrow>
     (\<forall>m. 0 \<le> agent_clock su m \<and> agent_clock su m < 10 ^ int_max_str_digits \<and>
        \<bar>unix_seconds (server_clock su m) - unix_seconds (agent_clock su m)\<bar> \<le> AGENT_SIGNATURE_MAX_SKEW cfg)"

definition redis_answers :: "'r set_nx_ex \<Rightarrow> bool" where
  "redis_answers set_nx \<longleftrightarrow> (\<forall>now key ttl r. set_nx now key ttl r \<noteq> None)"

text \<open>\<open>used n\<close> are the identifiers that were given out before the wire came into state \<open>n\<close>.\<close>

definition ids_fresh :: "('m, 'n) surroundings \<Rightarrow> ('n \<Rightarrow> string set) \<Rightarrow> bool" where
  "ids_fresh su used \<longleftrightarrow>
     (\<forall>n u n'. wire_uuid su n = (u, n') \<longrightarrow> u \<notin> used n \<and> insert u (used n) \<subseteq> used n') \<and>
     (\<forall>n. used n \<subseteq> used (snd (wire_fate su n)))"

definition lossless :: "('m, 'n) surroundings \<Rightarrow> bool" where
  "lossless su \<longleftrightarrow> (\<forall>n. fst (wire_fate su n) = Delivered)"

definition reports_read_back :: "(payload \<Rightarrow> string) \<Rightarrow> (string \<Rightarrow> TaskResultRequest option) \<Rightarrow> bool" where
  "reports_read_back encode parse \<longleftrightarrow>
     (\<forall>k r. rp_execution_id r = JInt k \<longrightarrow> parse (encode (ResultBody r)) = Some (result_request k r))"

definition sound_site ::
  "('pk, 'r) backend \<Rightarrow> ('m, 'n) surroundings \<Rightarrow> (payload \<Rightarrow> string) \<Rightarrow> 'sk key_pair_ops \<Rightarrow> 'sk AgentSigner \<Rightarrow>
   ('r \<Rightarrow> string \<Rightarrow> datetime option) \<Rightarrow> ('n \<Rightarrow> string set) \<Rightarrow> bool" where
  "sound_site be su encode ops signer expires used \<longleftrightarrow>
     keys_fit (be_crypto be) ops signer \<and> clocks_fit (be_settings be) su \<and>
     redis_contract (be_set_nx be) expires \<and> redis_answers (be_set_nx be) \<and>
     ids_fresh su used \<and> reports_read_back encode (be_parse_result be)"

text \<open>
  The agent is enrolled: its token is usable whenever the backend looks, belongs to the active server
  \<open>sid\<close> of the agent's code, and carries the agent's public key.
\<close>

definition enrolled ::
  "('pk, 'r) backend \<Rightarrow> ('m, 'n) surroundings \<Rightarrow> string \<Rightarrow> 'sk key_pair_ops \<Rightarrow> 'sk AgentSigner \<Rightarrow> ident \<Rightarrow> db \<Rightarrow> bool" where
  "enrolled be su token ops signer sid d \<longleftrightarrow>
     (\<exists>t s. (\<forall>m. usable_token (be_crypto be) (server_clock su m) d token t) \<and>
        at_signing_public_key t = Some (public_key_b64 ops signer) \<and> server_get d (at_server_id t) = Some s \<and>
        sv_status s = 1 \<and> as_server_code signer = sv_server_code s \<and> sv_id s = sid)"

definition ids_unused ::
  "('r \<Rightarrow> string \<Rightarrow> datetime option) \<Rightarrow> ('n \<Rightarrow> string set) \<Rightarrow> ident \<Rightarrow> ('r, 'm, 'n) site \<Rightarrow> bool" where
  "ids_unused expires used sid w \<longleftrightarrow>
     (\<forall>u. expires (site_cache w) (replay_key sid u) \<noteq> None \<longrightarrow> u \<in> used (site_wire w))"

section \<open>One request\<close>

lemma enrolled_frame:
  assumes "enrolled be su token ops signer sid d" "beyond_tasks d' = beyond_tasks d"
  shows "enrolled be su token ops signer sid d'"
proof -
  have "ops_server (beyond_tasks d') = ops_server (beyond_tasks d)"
    "ops_agent_token (beyond_tasks d') = ops_agent_token (beyond_tasks d)" by (simp_all add: assms(2))
  then have "ops_server d' = ops_server d" "ops_agent_token d' = ops_agent_token d"
    by (simp_all add: beyond_tasks_def)
  with assms(1) show ?thesis by (simp add: enrolled_def usable_token_def get_by_token_hash_def server_get_def)
qed

lemma replay_key_inj: "replay_key k u = replay_key k v \<longleftrightarrow> u = v"
  by (simp add: replay_key_def)

text \<open>A signed request with a fresh identifier is admitted, and only its own key enters the cache.\<close>

lemma fresh_request_admitted:
  assumes "sound_site be su encode ops signer expires used" "enrolled be su token ops signer sid d"
    and "expires r (replay_key sid u) = None"
  obtains server r' where "sv_id server = sid"
    "get_agent_server (be_crypto be) (be_set_nx be) (be_settings be) (server_clock su m)
      (signed_request token verb path body (sign_headers ops (agent_clock su m) u signer verb path body)) d r = Inr (server, r')"
    "expires r' = (expires r)(replay_key sid u :=
       Some (server_clock su m + timedelta_seconds (AGENT_SIGNATURE_MAX_SKEW (be_settings be) * 2)))"
proof -
  let ?now = "server_clock su m" and ?cfg = "be_settings be" and ?set = "be_set_nx be"
  obtain t s where e: "usable_token (be_crypto be) ?now d token t" "at_signing_public_key t = Some (public_key_b64 ops signer)"
    "server_get d (at_server_id t) = Some s" "sv_status s = 1" "as_server_code signer = sv_server_code s" "sv_id s = sid"
    using assms(2) by (auto simp: enrolled_def)
  obtain pk where k: "from_public_bytes (be_crypto be) (public_bytes ops (as_private_key signer)) = Some pk"
    "\<And>m. ed25519_verify (be_crypto be) pk (ed25519_sign ops (as_private_key signer) m) m"
    "public_bytes ops (as_private_key signer) \<noteq> []" "agent_sha256_hex ops = sha256_hex (be_crypto be)"
    using assms(1) by (auto simp: sound_site_def keys_fit_def)
  have c: "0 \<le> agent_clock su m" "agent_clock su m < 10 ^ int_max_str_digits"
    "\<bar>unix_seconds ?now - unix_seconds (agent_clock su m)\<bar> \<le> AGENT_SIGNATURE_MAX_SKEW ?cfg"
    using assms(1) by (auto simp: sound_site_def clocks_fit_def)
  let ?ttl = "AGENT_SIGNATURE_MAX_SKEW ?cfg * 2"
  obtain created r' where set: "?set ?now (replay_key sid u) ?ttl r = Some (created, r')"
    using assms(1) by (force simp: sound_site_def redis_answers_def)
  have contract: "redis_contract ?set expires" using assms(1) by (simp add: sound_site_def)
  have "created" "expires r' = (expires r)(replay_key sid u := Some (?now + timedelta_seconds ?ttl))"
    using contract [unfolded redis_contract_def, rule_format, OF set] assms(3) by (simp_all add: alive_def)
  moreover from this(1) have "check_replay ?set ?cfg ?now (sv_id s) u r = Inr r'"
    by (simp add: check_replay_def is_replayed_def e(6) set)
  ultimately show ?thesis
    using that [OF e(6) signer_admitted [OF k(2,1,3,4) e(1-5) c]] by blast
qed

text \<open>Over a lossless wire a request of the agent is answered by the router, under a fresh identifier.\<close>

lemma request_delivered:
  fixes s :: "('r, 'm, 'n) site agent_run"
  defines "w \<equiv> world s"
  assumes sound: "sound_site be su encode ops signer expires used" "lossless su" "ac_signer c = Some signer"
    and body: "body = (case json of None \<Rightarrow> [] | Some p \<Rightarrow> encode p)"
  obtains u n where "u \<notin> used (site_wire w)" "insert u (used (site_wire w)) \<subseteq> used n"
    "\<And>st p d' r'. agent_router be other (server_clock su (site_machine w))
         (signed_request token verb path body (sign_headers ops (agent_clock su (site_machine w)) u signer verb path body))
         (site_db w) (site_cache w) = (Reply st p, d', r') \<Longrightarrow>
       \<exists>s'. request (site_env be other su encode token ops fmt) c verb path json s = (interpret_response st p, s') \<and>
         world s' = w\<lparr>site_wire := n, site_db := d', site_cache := r'\<rparr>"
proof -
  let ?env = "site_env be other su encode token ops fmt"
  obtain u n1 where u: "wire_uuid su (site_wire w) = (u, n1)" by fastforce
  obtain n where n: "wire_fate su n1 = (Delivered, n)"
    using sound(2) unfolding lossless_def by (metis prod.collapse)
  let ?h = "sign_headers ops (agent_clock su (site_machine w)) u signer verb path body"
  let ?q = "signed_request token verb path body ?h"
  have fresh: "u \<notin> used (site_wire w)" "insert u (used (site_wire w)) \<subseteq> used n1" "used n1 \<subseteq> used n"
    using sound(1) u n unfolding sound_site_def ids_fresh_def by (blast, blast, metis snd_conv)
  define call where "call = \<lparr>hc_method = verb, hc_path = path,
    hc_body = (case json of None \<Rightarrow> EmptyBody | Some _ \<Rightarrow> Content body), hc_headers = Some ?h,
    hc_content_type = (json \<noteq> None)\<rparr>"
  have build: "build_call ?env c verb path json s = (call, s\<lparr>world := w\<lparr>site_wire := n1\<rparr>\<rparr>)"
    using sound(3) u body by (cases json) (simp_all add: build_call_def call_def w_def Let_def)
  have http: "http_of encode token call = ?q"
    using body by (simp add: http_of_def call_def signed_request_def split: option.split)
  have "\<exists>s'. request ?env c verb path json s = (interpret_response st p, s') \<and>
         world s' = w\<lparr>site_wire := n, site_db := d', site_cache := r'\<rparr>"
    if route: "agent_router be other (server_clock su (site_machine w)) ?q (site_db w) (site_cache w) = (Reply st p, d', r')"
    for st p d' r'
  proof -
    have "deliver be other su encode token call (w\<lparr>site_wire := n1\<rparr>) =
        (Reply st p, w\<lparr>site_wire := n, site_db := d', site_cache := r'\<rparr>)"
      by (simp add: deliver_def n http route Let_def)
    then have "send ?env call (s\<lparr>world := w\<lparr>site_wire := n1\<rparr>\<rparr>) =
        (Reply st p, \<lparr>world = w\<lparr>site_wire := n, site_db := d', site_cache := r'\<rparr>, trace = trace s @ [Sent call (Reply st p)]\<rparr>)"
      by (simp add: send_def)
    then show ?thesis by (simp add: request_def build request_loop.simps [of _ c call])
  qed
  then show ?thesis using that [of u n] fresh by blast
qed

lemma request_over_wire:
  fixes s :: "('r, 'm, 'n) site agent_run"
  defines "w \<equiv> world s"
  assumes sound: "sound_site be su encode ops signer expires used" "lossless su" "ac_signer c = Some signer"
    and ready: "enrolled be su token ops signer sid (site_db w)" "ids_unused expires used sid w"
  obtains q server r' n where "rq_method q = verb" "rq_path q = path"
    "rq_body q = (case json of None \<Rightarrow> [] | Some p \<Rightarrow> encode p)" "sv_id server = sid"
    "get_agent_server (be_crypto be) (be_set_nx be) (be_settings be) (server_clock su (site_machine w)) q
       (site_db w) (site_cache w) = Inr (server, r')"
    "\<And>d'. ids_unused expires used sid (w\<lparr>site_wire := n, site_db := d', site_cache := r'\<rparr>)"
    "\<And>st p d'. agent_router be other (server_clock su (site_machine w)) q (site_db w) (site_cache w) =
         (Reply st p, d', r') \<Longrightarrow>
       \<exists>s'. request (site_env be other su encode token ops fmt) c verb path json s = (interpret_response st p, s') \<and>
         world s' = w\<lparr>site_wire := n, site_db := d', site_cache := r'\<rparr>"
proof -
  let ?body = "case json of None \<Rightarrow> [] | Some p \<Rightarrow> encode p"
  obtain u n where u: "u \<notin> used (site_wire w)" "insert u (used (site_wire w)) \<subseteq> used n"
    and run: "\<And>st p d' r'. agent_router be other (server_clock su (site_machine w))
         (signed_request token verb path ?body (sign_headers ops (agent_clock su (site_machine w)) u signer verb path ?body))
         (site_db w) (site_cache w) = (Reply st p, d', r') \<Longrightarrow>
       \<exists>s'. request (site_env be other su encode token ops fmt) c verb path json s = (interpret_response st p, s') \<and>
         world s' = w\<lparr>site_wire := n, site_db := d', site_cache := r'\<rparr>"
    using request_delivered [OF sound refl, where s = s, folded w_def] by metis
  let ?q = "signed_request token verb path ?body (sign_headers ops (agent_clock su (site_machine w)) u signer verb path ?body)"
  have "expires (site_cache w) (replay_key sid u) = None"
    using ready(2) u(1) by (auto simp: ids_unused_def)
  from fresh_request_admitted [OF sound(1) ready(1) this, of "site_machine w" verb path ?body]
  obtain server r' where adm: "sv_id server = sid"
    "get_agent_server (be_crypto be) (be_set_nx be) (be_settings be) (server_clock su (site_machine w)) ?q
       (site_db w) (site_cache w) = Inr (server, r')"
    "expires r' = (expires (site_cache w))(replay_key sid u := Some (server_clock su (site_machine w) +
       timedelta_seconds (AGENT_SIGNATURE_MAX_SKEW (be_settings be) * 2)))" by blast
  have unused: "ids_unused expires used sid (w\<lparr>site_wire := n, site_db := d', site_cache := r'\<rparr>)" for d'
    using ready(2) u adm(3) by (auto simp: ids_unused_def replay_key_inj split: if_splits)
  show ?thesis by (rule that [of ?q server r' n]) (use adm unused run in \<open>simp_all add: signed_request_def\<close>)
qed

lemma interpret_success [simp]: "interpret_response 200 (success data message) = Inr data"
  by (simp add: interpret_response_def success_def)

section \<open>How an agent comes to be enrolled\<close>

lemma find_map: "List.find P (map g xs) = map_option g (List.find (\<lambda>x. P (g x)) xs)"
  by (induction xs) simp_all

lemma token_after_set_token:
  assumes "get_by_token_hash d h = Some t" "\<And>t. at_token_hash (f t) = at_token_hash t"
  shows "get_by_token_hash (set_token (at_id t) f d) h = Some (f t)"
proof -
  have "apply_soft_delete OpsAgentToken_model (\<lambda>t. at_token_hash t = h) (if b then f x else x) =
      apply_soft_delete OpsAgentToken_model (\<lambda>t. at_token_hash t = h) x" for b x
    by (simp add: apply_soft_delete_def OpsAgentToken_model_def assms(2))
  then show ?thesis using assms(1)
    by (simp add: get_by_token_hash_def set_token_def repo_get_by_def repo_update_def tbl_modify_def find_map
        OpsAgentToken_model_def)
qed

text \<open>
  A registration with the code and the key of the agent, under a token that does not expire, as
  \<open>create_token\<close> makes them, gives what the poll relies on.
\<close>

lemma registration_enrolls:
  assumes "servers_inv d" "register (be_crypto be) now q ip d = Inr ((sid, st), d')"
    and "rg_server_code q = as_server_code signer" "rg_signing_public_key q = Some (public_key_b64 ops signer)"
    and "keys_fit (be_crypto be) ops signer"
    and "\<And>t. authenticate (sha256_hex (be_crypto be)) now d (rg_token q) = Some t \<Longrightarrow> at_expires_at t = None"
  shows "enrolled be su (rg_token q) ops signer sid d'"
proof -
  let ?cr = "be_crypto be" and ?key = "public_key_b64 ops signer"
  obtain t s where t: "authenticate (sha256_hex ?cr) now d (rg_token q) = Some t" "server_get d (at_server_id t) = Some s"
    and s: "sv_status s = 1" "sv_server_code s = rg_server_code q" "sv_id s = sid"
    and d1: "flush_server (set_server (sv_id s) (registered_row now q ip) d) = Inr (set_server (sv_id s) (registered_row now q ip) d)"
    and d': "d' = update_last_used now (at_id t) (register_key ?cr now t (Some ?key)
      (heartbeat_record now (sv_id s) (rg_agent_version q) ip None (set_server (sv_id s) (registered_row now q ip) d)))"
    using assms(2) unfolding assms(4) [symmetric]
    by (auto simp: register_def register_writes flush_server_def bindE_eq_Inr Let_def split: option.splits if_splits)
  have usable: "usable_token ?cr m d (rg_token q) t" for m
    using t(1) assms(6) [OF t(1)] by (auto simp: authenticate_Some usable_token_def)
  have valid: "truthy (Some ?key)" "is_valid_public_key ?cr ?key"
    using assms(5) by (auto simp: keys_fit_def is_valid_public_key_def public_key_b64_def b64encode_Nil b64decode_b64encode)
  let ?h = "sha256_hex ?cr (rg_token q)" and ?d1 = "set_server (sv_id s) (registered_row now q ip) d"
  let ?d2 = "heartbeat_record now (sv_id s) (rg_agent_version q) ip None ?d1"
  let ?d3 = "register_key ?cr now t (Some ?key) ?d2"
  have "get_by_token_hash d ?h = Some t" using usable by (simp add: usable_token_def)
  then have "get_by_token_hash ?d2 ?h = Some t"
    by (simp add: get_by_token_hash_def heartbeat_record_def frame)
  then have key: "get_by_token_hash (store_key now (at_id t) ?key ?d2) ?h = Some (t\<lparr>at_signing_public_key := Some ?key,
      at_signing_algorithm := Some ''ed25519'', at_key_registered_at := Some now\<rparr>)"
    unfolding store_key_def by (rule token_after_set_token) simp
  obtain t3 where t3: "get_by_token_hash ?d3 ?h = Some t3" "at_id t3 = at_id t" "at_signing_public_key t3 = Some ?key"
    "at_status t3 = at_status t" "at_expires_at t3 = at_expires_at t" "at_revoked_at t3 = at_revoked_at t"
    "at_server_id t3 = at_server_id t"
  proof (cases "at_signing_public_key t = Some ?key")
    case True
    then show ?thesis using that \<open>get_by_token_hash ?d2 ?h = Some t\<close> by (simp add: register_key_def)
  next
    case False
    then have "?d3 = store_key now (at_id t) ?key ?d2" using valid by (auto simp: register_key_def)
    then show ?thesis using that key by simp
  qed
  have "get_by_token_hash d' ?h = Some (t3\<lparr>at_last_used_at := Some now\<rparr>)"
    using token_after_set_token [OF t3(1), of "\<lambda>t. t\<lparr>at_last_used_at := Some now\<rparr>"]
    by (simp add: d' update_last_used_def t3(2))
  then have token: "usable_token ?cr m d' (rg_token q) (t3\<lparr>at_last_used_at := Some now\<rparr>)" for m
    using usable [of m] t3(4-6) unfolding usable_token_def by simp
  have k: "at_server_id t = sv_id s" using t(2) repo_get_in by (fastforce simp: server_get_def)
  have "ops_server d' = ops_server ?d1"
    by (simp add: d' update_last_used_def register_key_def store_key_def frame heartbeat_record_def)
  moreover have "server_get ?d1 (sv_id s) = Some (registered_row now q ip s)"
    using assms(1) t(2) unfolding k by (intro server_get_set_server) (simp_all add: servers_inv_def)
  ultimately have server: "server_get d' (at_server_id t3) = Some (registered_row now q ip s)"
    using server_get_after [of d' ?d1] t3(7) k by metis
  show ?thesis unfolding enrolled_def
    by (rule exI [of _ "t3\<lparr>at_last_used_at := Some now\<rparr>"], rule exI [of _ "registered_row now q ip s"])
      (use token server s t3(3) assms(3) in simp)
qed

section \<open>The poll and the report\<close>

lemma poll_over_wire:
  fixes s :: "('r, 'm, 'n) site agent_run"
  defines "w \<equiv> world s"
  assumes sound: "sound_site be su encode ops signer expires used" "lossless su" "ac_signer c = Some signer"
    and ready: "enrolled be su token ops signer sid (site_db w)" "ids_unused expires used sid w"
    and f: "fetch_pending (server_clock su (site_machine w)) sid (site_db w) = (as, d')"
  obtains s' where "client_get (site_env be other su encode token ops fmt) c ''/api/v1/agent/tasks/pending'' s =
      (Inr (JArr (map (JObj \<circ> assigned_fields) as)), s')"
    "site_db (world s') = d'" "site_machine (world s') = site_machine w" "ids_unused expires used sid (world s')"
    "enrolled be su token ops signer sid d'"
proof -
  let ?now = "server_clock su (site_machine w)" and ?path = "''/api/v1/agent/tasks/pending''"
  obtain q server r' n where q: "rq_method q = ''GET''" "rq_path q = ?path" "sv_id server = sid"
    "get_agent_server (be_crypto be) (be_set_nx be) (be_settings be) ?now q (site_db w) (site_cache w) = Inr (server, r')"
    and unused: "\<And>d'. ids_unused expires used sid (w\<lparr>site_wire := n, site_db := d', site_cache := r'\<rparr>)"
    and run: "\<And>st p d'. agent_router be other ?now q (site_db w) (site_cache w) = (Reply st p, d', r') \<Longrightarrow>
       \<exists>s'. request (site_env be other su encode token ops fmt) c ''GET'' ?path None s = (interpret_response st p, s') \<and>
         world s' = w\<lparr>site_wire := n, site_db := d', site_cache := r'\<rparr>"
    using request_over_wire [OF sound ready [unfolded w_def], of "''GET''" ?path None, folded w_def] by metis
  have "get_tasks_pending (be_crypto be) (be_set_nx be) (be_settings be) ?now q (site_db w) (site_cache w) = (Inr as, d', r')"
    by (simp add: get_tasks_pending_def agent_endpoint_def q(3,4) run_service_def f)
  then have "agent_router be other ?now q (site_db w) (site_cache w) =
      (Reply 200 (success (JArr (map (JObj \<circ> assigned_fields) as)) ''ok''), d', r')"
    by (simp add: agent_router_def q(1,2) reply_of_def)
  from run [OF this] obtain s' where
    "client_get (site_env be other su encode token ops fmt) c ?path s = (Inr (JArr (map (JObj \<circ> assigned_fields) as)), s')"
    "world s' = w\<lparr>site_wire := n, site_db := d', site_cache := r'\<rparr>" by (auto simp: client_get_def)
  moreover have "enrolled be su token ops signer sid d'"
    using enrolled_frame [OF ready(1)] fetch_pending_reach [of ?now sid "site_db w"] f by simp
  ultimately show ?thesis using that unused by simp
qed

lemma report_over_wire:
  fixes s :: "('r, 'm, 'n) site agent_run"
  defines "w \<equiv> world s"
  assumes sound: "sound_site be su encode ops signer expires used" "lossless su" "ac_signer c = Some signer"
    and ready: "enrolled be su token ops signer sid (site_db w)" "ids_unused expires used sid w"
    and r: "rp_execution_id r = JInt k"
      "report_result (server_clock su (site_machine w)) sid (result_request k r) (site_db w) = Inr d'"
  obtains s' where "report_task_result (site_env be other su encode token ops fmt) c r s = (Inr JNull, s')"
    "site_db (world s') = d'" "site_machine (world s') = site_machine w" "ids_unused expires used sid (world s')"
    "enrolled be su token ops signer sid d'"
proof -
  let ?now = "server_clock su (site_machine w)" and ?path = "''/api/v1/agent/task/result''"
  obtain q server r' n where q: "rq_method q = ''POST''" "rq_path q = ?path" "rq_body q = encode (ResultBody r)" "sv_id server = sid"
    "get_agent_server (be_crypto be) (be_set_nx be) (be_settings be) ?now q (site_db w) (site_cache w) = Inr (server, r')"
    and unused: "\<And>d'. ids_unused expires used sid (w\<lparr>site_wire := n, site_db := d', site_cache := r'\<rparr>)"
    and run: "\<And>st p d'. agent_router be other ?now q (site_db w) (site_cache w) = (Reply st p, d', r') \<Longrightarrow>
       \<exists>s'. request (site_env be other su encode token ops fmt) c ''POST'' ?path (Some (ResultBody r)) s = (interpret_response st p, s') \<and>
         world s' = w\<lparr>site_wire := n, site_db := d', site_cache := r'\<rparr>"
    using request_over_wire [OF sound ready [unfolded w_def], of "''POST''" ?path "Some (ResultBody r)", folded w_def, unfolded option.case]
    by metis
  have parse: "be_parse_result be (encode (ResultBody r)) = Some (result_request k r)"
    using sound(1) r(1) by (simp add: sound_site_def reports_read_back_def)
  have "post_task_result (be_crypto be) (be_set_nx be) (be_settings be) ?now (be_parse_result be) q (site_db w) (site_cache w) =
      (Inr (), d', r')"
    by (simp add: post_task_result_def agent_endpoint_def q(3-5) run_service_def parse r(2))
  then have "agent_router be other ?now q (site_db w) (site_cache w) = (Reply 200 (success JNull zh_recorded), d', r')"
    by (simp add: agent_router_def q(1,2) reply_of_def)
  from run [OF this] obtain s' where
    "report_task_result (site_env be other su encode token ops fmt) c r s = (Inr JNull, s')"
    "world s' = w\<lparr>site_wire := n, site_db := d', site_cache := r'\<rparr>" by (auto simp: report_task_result_def client_post_def)
  moreover have "enrolled be su token ops signer sid d'"
    using enrolled_frame [OF ready(1)] report_result_reach [OF r(2)] by simp
  ultimately show ?thesis using that unused by simp
qed

end
