(* ===== verification/Poll_Properties.thy ===== *)
theory Poll_Properties
  imports Closed_Loop
begin

text \<open>
  A poll of the worker against the backend: over a wire that loses nothing it is the work on the machine
  and the database; after a lost reply the repeated poll is refused. With a concrete site.
\<close>

section \<open>The execution of the tasks\<close>

lemma run_process_over_wire:
  assumes "run_process (machine_env su fmt) command timeout t = (x, t')" "site_machine (world s) = world t"
  obtains s' where "run_process (site_env be other su encode token ops fmt) command timeout s = (x, s')"
    "world s' = (world s)\<lparr>site_machine := world t'\<rparr>"
  using assms by (auto simp: run_process_def machine_env_def Let_def split: prod.splits)

lemma validate_action_over_wire:
  "validate_action (site_env be other su encode token ops fmt) = validate_action (machine_env su fmt)"
proof -
  have fmt: "format_json (site_env be other su encode token ops fmt) = format_json (machine_env su fmt)"
    by (intro ext) (simp add: format_json_def machine_env_def split: json.split)
  show ?thesis by (intro ext) (unfold validate_action_def fmt, rule refl)
qed

lemma run_task_over_wire:
  fixes s :: "('r, 'm, 'n) site agent_run"
  assumes "perform su fmt allowed a (site_machine (world s)) = (outcome, m')"
  obtains s' where "run_task (site_env be other su encode token ops fmt) allowed (assigned_fields a) s = (outcome, s')"
    "world s' = (world s)\<lparr>site_machine := m'\<rparr>"
proof -
  let ?env = "site_env be other su encode token ops fmt" and ?m = "machine_env su fmt"
  let ?t = "\<lparr>world = site_machine (world s), trace = []\<rparr>"
  have same: "site_machine (world s) = world ?t" by simp
  obtain t' where t': "run_task ?m allowed (assigned_fields a) ?t = (outcome, t')" "world t' = m'"
    using assms by (auto simp: perform_def Let_def split: prod.splits)
  have "\<exists>s'. run_task ?env allowed (assigned_fields a) s = (outcome, s') \<and> world s' = (world s)\<lparr>site_machine := world t'\<rparr>"
  proof -
    have "\<exists>s'. run_action ?env allowed service action timeout s = (outcome, s') \<and> world s' = (world s)\<lparr>site_machine := world t'\<rparr>"
      if run: "run_action ?m allowed service action timeout ?t = (outcome, t')" for service action timeout
    proof (cases "validate_action ?m allowed service action")
      case (Inl e)
      then show ?thesis using run by (auto simp: run_action_def validate_action_over_wire)
    next
      case (Inr na)
      obtain name ac where na: "na = (name, ac)" by fastforce
      obtain x t1 where x: "run_process ?m (the (ACTION_COMMANDS ac) @ [name]) timeout ?t = (x, t1)" by fastforce
      obtain s1 where s1: "run_process ?env (the (ACTION_COMMANDS ac) @ [name]) timeout s = (x, s1)"
        "world s1 = (world s)\<lparr>site_machine := world t1\<rparr>" using run_process_over_wire [OF x same] by blast
      show ?thesis using run x s1 by (simp add: run_action_def validate_action_over_wire Inr na Let_def)
    qed
    moreover have "\<exists>s'. fetch_logs ?env allowed service n s = (outcome, s') \<and> world s' = (world s)\<lparr>site_machine := world t'\<rparr>"
      if run: "fetch_logs ?m allowed service n ?t = (outcome, t')" for service n
    proof (cases "validate_action ?m allowed service (JStr ''STATUS'')")
      case (Inl e)
      then show ?thesis using run by (auto simp: fetch_logs_def validate_action_over_wire)
    next
      case (Inr na)
      obtain name ac where na: "na = (name, ac)" by fastforce
      let ?command = "[''journalctl'', ''-n'', py_str n, ''-u'', name, ''--no-pager'']"
      obtain x t1 where x: "run_process ?m ?command (JInt 30) ?t = (x, t1)" by fastforce
      obtain s1 where s1: "run_process ?env ?command (JInt 30) s = (x, s1)"
        "world s1 = (world s)\<lparr>site_machine := world t1\<rparr>" using run_process_over_wire [OF x same] by blast
      show ?thesis using run x s1 by (simp add: fetch_logs_def validate_action_over_wire Inr na Let_def)
    qed
    ultimately show ?thesis using t'(1) unfolding run_task_def Let_def by (simp split: if_splits)
  qed
  with t'(2) that show ?thesis by blast
qed

lemma assigned_fields_get [simp]:
  "map_of (assigned_fields a) ''execution_id'' = Some (JInt (as_execution_id a))"
  "json_get ''action'' (assigned_fields a) = text_json (as_action a)"
  by (simp_all add: assigned_fields_def json_get_def)

text \<open>Over a wire that loses nothing, the loop of the worker is the work on the machine and the database.\<close>

lemma work_over_wire:
  fixes s :: "('r, 'm, 'n) site agent_run"
  assumes sound: "sound_site be su encode ops signer expires used" "lossless su" "ac_signer c = Some signer"
    and "enrolled be su token ops signer sid (site_db (world s))" "ids_unused expires used sid (world s)"
    and "work_through su fmt allowed sid as (site_machine (world s), site_db (world s)) = Inr (outcomes, m', d')"
  shows "\<exists>s'. poll_tasks (site_env be other su encode token ops fmt) c allowed (map (JObj \<circ> assigned_fields) as) k s =
      (Inr (k + int (length as)), s') \<and> site_db (world s') = d' \<and> site_machine (world s') = m'"
  using assms(4-6)
proof (induction as arbitrary: s k outcomes)
  case Nil
  then show ?case by simp
next
  case (Cons a as)
  obtain outcome m1 where p: "perform su fmt allowed a (site_machine (world s)) = (outcome, m1)" by fastforce
  obtain d1 outcomes' where d1: "report_result (server_clock su m1) sid (outcome_request a outcome) (site_db (world s)) = Inr d1"
    "work_through su fmt allowed sid as (m1, d1) = Inr (outcomes', m', d')"
    using Cons.prems(3) p by (auto simp: bindE_eq_Inr)
  obtain s1 where s1: "run_task (site_env be other su encode token ops fmt) allowed (assigned_fields a) s = (outcome, s1)"
    "world s1 = (world s)\<lparr>site_machine := m1\<rparr>" using run_task_over_wire [OF p] by blast
  let ?r = "task_outcome (JInt (as_execution_id a)) (text_json (as_action a)) outcome"
  have k: "rp_execution_id ?r = JInt (as_execution_id a)" using task_outcome_cases by metis
  have ready: "enrolled be su token ops signer sid (site_db (world s1))" "ids_unused expires used sid (world s1)"
    using Cons.prems(1,2) by (simp_all add: s1(2) ids_unused_def)
  have "report_result (server_clock su (site_machine (world s1))) sid (result_request (as_execution_id a) ?r) (site_db (world s1)) = Inr d1"
    using d1(1) by (simp add: s1(2) outcome_request_def)
  from report_over_wire [OF sound ready k this] obtain s2 where
    s2: "report_task_result (site_env be other su encode token ops fmt) c ?r s1 = (Inr JNull, s2)"
    "site_db (world s2) = d1" "site_machine (world s2) = m1" "ids_unused expires used sid (world s2)"
    "enrolled be su token ops signer sid d1" by (metis s1(2) site.select_convs(3) site.surjective site.update_convs(3))
  have "execute_one (site_env be other su encode token ops fmt) c allowed (JObj (assigned_fields a)) s = (Inr (), s2)"
    by (simp add: execute_one_def s1(1) s2(1) Let_def)
  moreover have "enrolled be su token ops signer sid (site_db (world s2))" using s2(2,5) by simp
  ultimately show ?case using Cons.IH [OF _ s2(4), of outcomes' "k + 1"] d1(2) s2(2,3) by (simp add: algebra_simps)
qed

section \<open>A poll completes what it was given\<close>

lemma outcome_settles:
  "settled outcome (reported_row now (outcome_request a outcome) t e)"
proof (cases "\<exists>output. outcome = Inr (True, output)")
  case True
  then show ?thesis
    by (auto simp: settled_def reported_row_def outcome_request_def result_request_def task_outcome_def)
next
  case False
  let ?r = "task_outcome (JInt (as_execution_id a)) (text_json (as_action a)) outcome"
  have "\<exists>message ty. ?r = failed_report (JInt (as_execution_id a)) message ty"
  proof (cases outcome)
    case (Inl exc)
    then show ?thesis by (cases exc) (auto simp: task_outcome_def)
  next
    case (Inr res)
    then show ?thesis using False by (cases res; cases "fst res") (auto simp: task_outcome_def)
  qed
  then obtain message ty where r: "?r = failed_report (JInt (as_execution_id a)) message ty" by blast
  then have "\<not> is_retryable (Some ty) m" for m
    using task_outcome_cases [of "JInt (as_execution_id a)" "text_json (as_action a)" outcome] False
      agent_failures_not_retryable by (auto simp: failed_report_def)
  then have "reported_row now (outcome_request a outcome) t e =
      e\<lparr>ex_status := FAILED, ex_exit_code := None, ex_result_text := None, ex_error_message := Some message,
        ex_error_type := Some (classify_error (Some ty) (Some message)), ex_finished_at := Some now,
        ex_duration_ms := elapsed now e\<rparr>"
    by (simp add: reported_row_def outcome_request_def result_request_def r failed_report_def)
  then show ?thesis using False by (auto simp: settled_def split: sum.split bool.split)
qed

lemma work_through_settles:
  assumes "task_inv d" "distinct (map as_execution_id as)"
    and "\<forall>a \<in> set as. \<exists>e. execution_get d (as_execution_id a) = Some e \<and> ex_server_id e = sid \<and> active_execution e"
  shows "\<exists>outcomes m' d'. work_through su fmt allowed sid as (m, d) = Inr (outcomes, m', d') \<and> task_inv d' \<and>
    list_all2 (\<lambda>a outcome. \<exists>e. execution_get d' (as_execution_id a) = Some e \<and> settled outcome e) as outcomes \<and>
    (\<forall>y \<in> set (executions d). ex_id y \<notin> as_execution_id ` set as \<longrightarrow> y \<in> set (executions d'))"
  using assms
proof (induction as arbitrary: m d)
  case Nil
  then show ?case by simp
next
  case (Cons a as)
  obtain outcome m1 where p: "perform su fmt allowed a m = (outcome, m1)" by fastforce
  obtain e where e: "execution_get d (as_execution_id a) = Some e" "ex_server_id e = sid" "active_execution e"
    using Cons.prems(3) by auto
  let ?r = "outcome_request a outcome"
  have id: "ex_id e = as_execution_id a" and mem: "e \<in> set (executions d)" using execution_get_in [OF e(1)] by auto
  have r: "execution_get d (tr_execution_id ?r) = Some e" using e(1) by (simp add: outcome_request_def result_request_def)
  obtain t where t: "task_get d (ex_task_id e) = Some t" using execution_task [OF Cons.prems(1) mem] by metis
  obtain d1 where d1: "report_result (server_clock su m1) sid ?r d = Inr d1"
    using report_result_active [OF Cons.prems(1) r e(2,3) t] by blast
  have inv: "task_inv d1" using report_result_inv [OF Cons.prems(1)] d1 by blast
  note row = report_result_row [OF Cons.prems(1) r e(2,3) t d1]
  have get: "execution_get d1 (as_execution_id x) = Some y"
    if "x \<in> set as" "execution_get d (as_execution_id x) = Some y" for x y
  proof -
    have "as_execution_id x \<noteq> as_execution_id a" using Cons.prems(2) imageI [OF that(1), of as_execution_id] by auto
    then have "y \<in> set (executions d1)" using row(2) [of y] execution_get_in [OF that(2)] id by simp
    then show ?thesis using execution_get_unique [OF inv] execution_get_in [OF that(2)] by metis
  qed
  then have "\<forall>x \<in> set as. \<exists>y. execution_get d1 (as_execution_id x) = Some y \<and> ex_server_id y = sid \<and> active_execution y"
    using Cons.prems(3) by fastforce
  then obtain outcomes m' d' where w: "work_through su fmt allowed sid as (m1, d1) = Inr (outcomes, m', d')" "task_inv d'"
    "list_all2 (\<lambda>a outcome. \<exists>e. execution_get d' (as_execution_id a) = Some e \<and> settled outcome e) as outcomes"
    "\<forall>y \<in> set (executions d1). ex_id y \<notin> as_execution_id ` set as \<longrightarrow> y \<in> set (executions d')"
    using Cons.IH [OF inv, of m1] Cons.prems(2) by auto
  let ?e' = "reported_row (server_clock su m1) ?r t e"
  have "?e' \<in> set (executions d1)" "ex_id ?e' = as_execution_id a" using execution_get_in [OF row(1)] id by auto
  then have "execution_get d' (as_execution_id a) = Some ?e'"
    using w(2,4) Cons.prems(2) execution_get_unique [of d' ?e'] by force
  moreover have "\<forall>y \<in> set (executions d). ex_id y \<notin> as_execution_id ` set (a # as) \<longrightarrow> y \<in> set (executions d')"
    using row(2) w(4) id by auto
  ultimately show ?case using w(1-3) p d1 outcome_settles by (auto simp: Let_def)
qed

lemma fetched_executions:
  assumes "task_inv d" "fetch_pending now sid d = (as, d')"
  shows "distinct (map as_execution_id as)"
    and "\<forall>a \<in> set as. \<exists>e. execution_get d' (as_execution_id a) = Some e \<and> ex_server_id e = sid \<and> active_execution e"
    and "\<forall>y \<in> set (executions d). ex_id y \<notin> as_execution_id ` set as \<longrightarrow> y \<in> set (executions d')"
proof -
  note f = fetch_pending_rows [OF assms]
  have ids: "map as_execution_id as = map ex_id (fetch_pending_by_server d sid 10)" by (simp add: f(2) assigned_of_id)
  then have set: "as_execution_id ` set as = ex_id ` set (fetch_pending_by_server d sid 10)" by (metis set_map)
  show "distinct (map as_execution_id as)" using f(1) ids by simp
  show "\<forall>y \<in> set (executions d). ex_id y \<notin> as_execution_id ` set as \<longrightarrow> y \<in> set (executions d')"
    unfolding f(3) set by force
  have inv: "task_inv d'" using fetch_pending_inv [OF assms(1), of now sid] assms(2) by simp
  show "\<forall>a \<in> set as. \<exists>e. execution_get d' (as_execution_id a) = Some e \<and> ex_server_id e = sid \<and> active_execution e"
  proof
    fix a assume "a \<in> set as"
    then obtain e where e: "e \<in> set (fetch_pending_by_server d sid 10)" "as_execution_id a = ex_id e"
      by (auto simp: f(2) assigned_of_id)
    then have "start_execution now e \<in> set (executions d')" using f(4) by (force simp: f(3))
    then have "execution_get d' (ex_id e) = Some (start_execution now e)"
      using execution_get_unique [OF inv] by (force simp: start_execution_def)
    then show "\<exists>e. execution_get d' (as_execution_id a) = Some e \<and> ex_server_id e = sid \<and> active_execution e"
      using f(4) e by (simp add: start_execution_def active_execution_def terminal_status_def)
  qed
qed

text \<open>
  C2. The agent and the backend together, over a wire that loses nothing. A poll of the worker returns the
  number of executions the backend handed out, and what remains of it is the work itself: the tasks are
  executed on the machine in their order and each outcome is stored, as if the worker wrote straight into
  the database; authentication, signature, replay check, JSON and envelope refuse or change nothing. At
  the end every execution that was handed out is settled by its own outcome, \<open>SUCCESS\<close> with the output or
  \<open>FAILED\<close> with a message, none is left running, and no other execution has changed.
\<close>

theorem poll_completes_tasks:
  assumes "sound_site be su encode ops signer expires used" "lossless su" "ac_signer c = Some signer"
    and "reachable cron (site_db (world s))" "enrolled be su token ops signer sid (site_db (world s))"
    and "ids_unused expires used sid (world s)"
    and "fetch_pending (server_clock su (site_machine (world s))) sid (site_db (world s)) = (as, d1)"
  shows "\<exists>s' outcomes m' d'.
    poll_once (site_env be other su encode token ops fmt) c allowed s = (Inr (int (length as)), s') \<and>
    work_through su fmt allowed sid as (site_machine (world s), d1) = Inr (outcomes, m', d') \<and>
    site_db (world s') = d' \<and> site_machine (world s') = m' \<and>
    list_all2 (\<lambda>a outcome. \<exists>e. execution_get d' (as_execution_id a) = Some e \<and> settled outcome e) as outcomes \<and>
    (\<forall>y \<in> set (executions (site_db (world s))). ex_id y \<notin> as_execution_id ` set as \<longrightarrow> y \<in> set (executions d'))"
proof -
  let ?env = "site_env be other su encode token ops fmt" and ?tasks = "map (JObj \<circ> assigned_fields) as"
  note inv = reachable_inv [OF assms(4)]
  obtain s1 where s1: "client_get ?env c ''/api/v1/agent/tasks/pending'' s = (Inr (JArr ?tasks), s1)"
    "site_db (world s1) = d1" "site_machine (world s1) = site_machine (world s)" "ids_unused expires used sid (world s1)"
    "enrolled be su token ops signer sid d1"
    using poll_over_wire [OF assms(1-3,5-7)] by blast
  have inv1: "task_inv d1" using fetch_pending_inv [OF inv, of "server_clock su (site_machine (world s))" sid] assms(7) by simp
  note f = fetched_executions [OF inv assms(7)]
  from work_through_settles [OF inv1 f(1,2), of su fmt allowed "site_machine (world s)"] obtain outcomes m' d' where
    w: "work_through su fmt allowed sid as (site_machine (world s), d1) = Inr (outcomes, m', d')"
    "list_all2 (\<lambda>a outcome. \<exists>e. execution_get d' (as_execution_id a) = Some e \<and> settled outcome e) as outcomes"
    "\<forall>y \<in> set (executions d1). ex_id y \<notin> as_execution_id ` set as \<longrightarrow> y \<in> set (executions d')" by blast
  have "enrolled be su token ops signer sid (site_db (world s1))"
    "work_through su fmt allowed sid as (site_machine (world s1), site_db (world s1)) = Inr (outcomes, m', d')"
    using s1(2,3,5) w(1) by simp_all
  from work_over_wire [where k = 0 and other = other, OF assms(1-3) this(1) s1(4) this(2)] obtain s' where
    s': "poll_tasks ?env c allowed ?tasks 0 s1 = (Inr (int (length as)), s')" "site_db (world s') = d'"
    "site_machine (world s') = m'" by auto
  have "json_items (if falsy (JArr ?tasks) then JArr [] else JArr ?tasks) = Some ?tasks"
    by (simp add: json_items_def falsy_def)
  then have "poll_once ?env c allowed s = (Inr (int (length as)), s')" by (simp add: poll_once_def s1(1) s'(1))
  then show ?thesis using w s' f(3) by blast
qed

section \<open>What a lost reply does\<close>

text \<open>
  A request that was admitted is refused when it comes again, and the client repeats a request with the
  headers it has signed once.
\<close>

lemma replayed_request_refused:
  assumes "redis_contract (be_set_nx be) expires" "redis_answers (be_set_nx be)"
    and "get_agent_server (be_crypto be) (be_set_nx be) (be_settings be) now q d r = Inr (server, r')"
    and "enrolled be su token ops signer (sv_id server) d" "rq_bearer q = Some token" "now = server_clock su m"
    and "rq_request_id q = Some u" "headers_complete q" "public_bytes ops (as_private_key signer) \<noteq> []"
    and "alive expires now (replay_key (sv_id server) u) r'" "beyond_tasks d' = beyond_tasks d"
  shows "get_agent_server (be_crypto be) (be_set_nx be) (be_settings be) now q d' r' =
    Inl (AppException AGENT_REQUEST_REPLAYED 401)"
proof -
  have "ops_server (beyond_tasks d') = ops_server (beyond_tasks d)"
    "ops_agent_token (beyond_tasks d') = ops_agent_token (beyond_tasks d)" by (simp_all add: assms(11))
  then have same: "authenticate (sha256_hex (be_crypto be)) now d' token = authenticate (sha256_hex (be_crypto be)) now d token"
    "server_get d' = server_get d"
    by (simp_all add: beyond_tasks_def authenticate_def get_by_token_hash_def server_get_def fun_eq_iff)
  obtain t s where t: "authenticate (sha256_hex (be_crypto be)) now d token = Some t"
    "at_signing_public_key t = Some (public_key_b64 ops signer)" "server_get d (at_server_id t) = Some s" "sv_status s = 1"
    using assms(4,6) by (auto simp: enrolled_def authenticate_Some)
  have key: "truthy (at_signing_public_key t)" using t(2) assms(9) by (simp add: public_key_b64_def b64encode_Nil)
  have s: "s = server" and v: "verify_agent_signature (be_crypto be) (be_set_nx be) (be_settings be) now q t s r = Inr r'"
    using assms(3) t by (auto simp: get_agent_server_def oauth2_scheme_def assms(5) resolve_agent_def bindE_eq_Inr)
  obtain created r2 where set: "be_set_nx be now (replay_key (sv_id server) u) (AGENT_SIGNATURE_MAX_SKEW (be_settings be) * 2) r' = Some (created, r2)"
    using assms(2) by (force simp: redis_answers_def)
  then have "\<not> created" using assms(1) [unfolded redis_contract_def, rule_format, OF set] assms(10) by simp
  then have "check_replay (be_set_nx be) (be_settings be) now (sv_id server) u r' = Inl (AppException AGENT_REQUEST_REPLAYED 401)"
    by (simp add: check_replay_def is_replayed_def set)
  moreover have "verify_agent_signature (be_crypto be) (be_set_nx be) (be_settings be) now q t s r' =
      check_replay (be_set_nx be) (be_settings be) now (sv_id server) u r'"
    using v key assms(7,8)
    by (auto simp: verify_agent_signature_def headers_complete_def s split: option.splits if_splits)
  ultimately show ?thesis
    by (simp add: get_agent_server_def oauth2_scheme_def assms(5) resolve_agent_def same t)
qed

text \<open>
  When the reply of a poll is lost, the executions it handed out are marked \<open>RUNNING\<close>, the repeated poll
  is refused with 401, the poll raises, and no task is executed: they wait for the timeout sweep.
\<close>

lemma lost_poll_strands_executions:
  fixes s :: "('r, 'm, 'n) site agent_run"
  defines "w \<equiv> world s"
  assumes sound: "sound_site be su encode ops signer expires used" "0 < AGENT_SIGNATURE_MAX_SKEW (be_settings be)"
    and client: "ac_signer c = Some signer" "1 \<le> ac_retry_max_count c" "1 < ac_retry_max_seconds c"
    and ready: "enrolled be su token ops signer sid (site_db w)" "ids_unused expires used sid w"
    and losses: "wire_fate su (snd (wire_uuid su (site_wire w))) = (ReplyLost, n1)"
      "wire_fate su (if ac_retry_jitter c then snd (wire_random su n1) else n1) = (Delivered, n2)"
    and f: "fetch_pending (server_clock su (site_machine w)) sid (site_db w) = (as, d1)"
  shows "\<exists>s'. poll_once (site_env be other su encode token ops fmt) c allowed s = (Inl (ReporterError (ErrorStatus 401)), s') \<and>
    site_db (world s') = d1 \<and> site_machine (world s') = site_machine w"
proof -
  let ?env = "site_env be other su encode token ops fmt" and ?m = "site_machine w"
  let ?now = "server_clock su ?m" and ?path = "''/api/v1/agent/tasks/pending''"
  obtain u n0 where u: "wire_uuid su (site_wire w) = (u, n0)" by fastforce
  have n1: "wire_fate su n0 = (ReplyLost, n1)" using losses(1) u by simp
  have "u \<notin> used (site_wire w)" using sound(1) u unfolding sound_site_def ids_fresh_def by blast
  then have "expires (site_cache w) (replay_key sid u) = None" using ready(2) by (auto simp: ids_unused_def)
  let ?h = "sign_headers ops (agent_clock su ?m) u signer ''GET'' ?path []"
  let ?q = "signed_request token ''GET'' ?path [] ?h"
  define call where "call = \<lparr>hc_method = ''GET'', hc_path = ?path, hc_body = EmptyBody, hc_headers = Some ?h,
    hc_content_type = False\<rparr>"
  obtain server r' where adm: "sv_id server = sid"
    "get_agent_server (be_crypto be) (be_set_nx be) (be_settings be) ?now ?q (site_db w) (site_cache w) = Inr (server, r')"
    "expires r' = (expires (site_cache w))(replay_key sid u := Some (?now + timedelta_seconds (AGENT_SIGNATURE_MAX_SKEW (be_settings be) * 2)))"
    using fresh_request_admitted [OF sound(1) ready(1) \<open>expires (site_cache w) (replay_key sid u) = None\<close>, of ?m "''GET''" ?path "[]"] by blast
  have build: "build_call ?env c ''GET'' ?path None s = (call, s\<lparr>world := w\<lparr>site_wire := n0\<rparr>\<rparr>)"
    using client(1) u by (simp add: build_call_def call_def w_def Let_def)
  have http: "http_of encode token call = ?q"
    by (simp add: http_of_def call_def signed_request_def)
  have alive: "alive expires ?now (replay_key (sv_id server) u) r'"
    using sound(2) by (simp add: alive_def adm(1,3) timedelta_seconds_def)
  have reach: "beyond_tasks d1 = beyond_tasks (site_db w)"
    using fetch_pending_reach [of ?now sid "site_db w"] f by simp
  have q: "rq_bearer ?q = Some token" "rq_request_id ?q = Some u" "headers_complete ?q"
    by (simp_all add: signed_request_def headers_complete_def sign_headers_def Let_def)
  have redis: "redis_contract (be_set_nx be) expires" "redis_answers (be_set_nx be)"
    "public_bytes ops (as_private_key signer) \<noteq> []"
    using sound(1) by (simp_all add: sound_site_def keys_fit_def)
  note refused = replayed_request_refused [OF redis(1,2) adm(2) ready(1) [folded adm(1)] q(1) refl q(2,3) redis(3) alive reach]
  let ?w1 = "w\<lparr>site_wire := n1, site_db := d1, site_cache := r'\<rparr>"
  let ?n = "if ac_retry_jitter c then snd (wire_random su n1) else n1"
  have path: "rq_method ?q = ''GET''" "rq_path ?q = ?path" by (simp_all add: signed_request_def)
  have first: "deliver be other su encode token call (w\<lparr>site_wire := n0\<rparr>) = (NoReply, ?w1)"
    by (simp add: deliver_def n1 http agent_router_def path get_tasks_pending_def agent_endpoint_def adm(1,2)
        run_service_def f Let_def)
  have "agent_router be other ?now ?q d1 r' = (exception_reply (be_detail be) (AppException AGENT_REQUEST_REPLAYED 401), d1, r')"
    by (simp add: agent_router_def path get_tasks_pending_def agent_endpoint_def refused reply_of_def)
  then have "deliver be other su encode token call (?w1\<lparr>site_wire := k\<rparr>) =
      (exception_reply (be_detail be) (AppException AGENT_REQUEST_REPLAYED 401), ?w1\<lparr>site_wire := n2\<rparr>)"
    if "wire_fate su k = (Delivered, n2)" for k
    by (simp add: deliver_def that http Let_def)
  note second = this [OF losses(2)]
  have "interpret_response 401 (build_body k m v) = Inl (ReporterError (ErrorStatus 401))" for k m v
    by (simp add: interpret_response_def build_body_def)
  then have answer: "\<exists>p. exception_reply (be_detail be) (AppException AGENT_REQUEST_REPLAYED 401) = Reply 401 p \<and>
      interpret_response 401 p = Inl (ReporterError (ErrorStatus 401))"
    by (simp add: exception_reply_def split: prod.split)
  have "\<exists>s'. request ?env c ''GET'' ?path None s = (Inl (ReporterError (ErrorStatus 401)), s') \<and> world s' = ?w1\<lparr>site_wire := n2\<rparr>"
  proof -
    obtain p where p: "exception_reply (be_detail be) (AppException AGENT_REQUEST_REPLAYED 401) = Reply 401 p"
      "interpret_response 401 p = Inl (ReporterError (ErrorStatus 401))" using answer by blast
    have again: "\<exists>s'. request_loop ?env c call delay 1 t = (Inl (ReporterError (ErrorStatus 401)), s') \<and>
        world s' = ?w1\<lparr>site_wire := n2\<rparr>" if "world t = ?w1\<lparr>site_wire := ?n\<rparr>" for t delay
      using that second p by (subst request_loop.simps) (simp add: send_def)
    show ?thesis
    proof (cases "ac_retry_jitter c")
      case True
      obtain x n' where "wire_random su n1 = (x, n')" by fastforce
      then show ?thesis using again True client(2,3) first
        by (simp add: request_def build, subst request_loop.simps) (simp add: send_def sleep_time_def emit_def site_env_def)
    next
      case False
      then show ?thesis using again client(2,3) first
        by (simp add: request_def build, subst request_loop.simps) (simp add: send_def sleep_time_def emit_def)
    qed
  qed
  then show ?thesis by (auto simp: poll_once_def client_get_def)
qed

section \<open>A concrete site\<close>

text \<open>The report as JSON with the writer and the reader of the log lines.\<close>

definition report_fields :: "task_report \<Rightarrow> (string \<times> log_value) list" where
  "report_fields r =
     [(''execution_id'', case rp_execution_id r of JInt k \<Rightarrow> Number k | _ \<Rightarrow> Null), (''status'', Text (rp_status r)),
      (''result_text'', text_or_null (rp_result_text r)), (''error_message'', text_or_null (rp_error_message r)),
      (''error_type'', text_or_null (rp_error_type r)), (''logs'', text_or_null (rp_logs r))]"

definition loop_encode :: "payload \<Rightarrow> string" where
  "loop_encode p = (case p of ResultBody r \<Rightarrow> json_dict (report_fields r) | _ \<Rightarrow> [])"

definition field_text :: "(string \<times> log_value) list \<Rightarrow> string \<Rightarrow> string option" where
  "field_text fs k = (case map_of fs k of Some (Text s) \<Rightarrow> Some s | _ \<Rightarrow> None)"

definition loop_parse :: "string \<Rightarrow> TaskResultRequest option" where
  "loop_parse s =
     (case read_object s of
        Some (fs, []) \<Rightarrow>
          (case (map_of fs ''execution_id'', field_text fs ''status'') of
             (Some (Number k), Some status) \<Rightarrow>
               Some \<lparr>tr_execution_id = k, tr_status = status, tr_exit_code = None, tr_result_text = field_text fs ''result_text'',
                 tr_error_message = field_text fs ''error_message'', tr_error_type = field_text fs ''error_type'',
                 tr_logs = field_text fs ''logs''\<rparr>
           | _ \<Rightarrow> None)
      | _ \<Rightarrow> None)"

lemma loop_reports: "reports_read_back loop_encode loop_parse"
proof -
  have "loop_parse (loop_encode (ResultBody r)) = Some (result_request k r)" if k: "rp_execution_id r = JInt k" for k r
  proof -
    have "read_object (loop_encode (ResultBody r)) = Some (report_fields r, [])"
      using read_json_dict [of "report_fields r"] by (simp add: loop_encode_def report_fields_def)
    then show ?thesis
      by (simp add: loop_parse_def report_fields_def k field_text_def result_request_def text_or_null_def split: option.split)
  qed
  then show ?thesis by (simp add: reports_read_back_def)
qed

definition loop_backend :: "(string, (string \<times> datetime) list) backend" where
  "loop_backend = \<lparr>be_crypto = sample_crypto, be_set_nx = memory_set, be_settings = strict_settings,
     be_parse_result = loop_parse, be_detail = (\<lambda>_. ([], JNull))\<rparr>"

definition loop_surroundings :: "(nat, nat) surroundings" where
  "loop_surroundings = \<lparr>agent_clock = (\<lambda>m. 10), server_clock = (\<lambda>m. 10),
     machine_run = (\<lambda>_ _ m. (Completed 0 ''active'' [], Suc m)),
     wire_uuid = (\<lambda>n. (replicate n (CHR ''u''), Suc n)), wire_random = (\<lambda>n. (1 / 4, n)),
     wire_fate = (\<lambda>n. (Delivered, n))\<rparr>"

definition loop_used :: "nat \<Rightarrow> string set" where
  "loop_used n = (\<lambda>k. replicate k (CHR ''u'')) ` {..<n}"

lemma loop_sound: "sound_site loop_backend loop_surroundings loop_encode sample_keys sample_signer map_of loop_used"
proof -
  have "replicate n (CHR ''u'') \<notin> loop_used n" for n
  proof
    assume "replicate n (CHR ''u'') \<in> loop_used n"
    then obtain k where "k < n" "replicate n (CHR ''u'') = replicate k (CHR ''u'')" by (auto simp: loop_used_def)
    then show False by (metis length_replicate less_irrefl)
  qed
  moreover have "insert (replicate n (CHR ''u'')) (loop_used n) \<subseteq> loop_used (Suc n)" for n
    by (auto simp: loop_used_def lessThan_Suc)
  ultimately have "ids_fresh loop_surroundings loop_used"
    unfolding ids_fresh_def loop_surroundings_def by simp
  moreover have "keys_fit sample_crypto sample_keys sample_signer"
    by (simp add: keys_fit_def sample_crypto_def sample_keys_def sample_signer_def)
  moreover have "clocks_fit strict_settings loop_surroundings"
  proof -
    have "1 < int_max_str_digits" by (simp add: int_max_str_digits_def)
    from power_strict_increasing [OF this, of "10 :: int"] show ?thesis
      by (simp add: clocks_fit_def loop_surroundings_def strict_settings_def default_settings_def)
  qed
  moreover have "redis_answers memory_set" by (auto simp: redis_answers_def memory_set_def split: option.splits)
  ultimately show ?thesis
    using memory_contract loop_reports by (simp add: sound_site_def loop_backend_def)
qed

definition loop_client :: "string AgentClient" where
  "loop_client = script_client\<lparr>ac_signer := Some sample_signer\<rparr>"

definition loop_request :: TaskCreate where
  "loop_request = check_request\<lparr>tc_action := Some ''STATUS'', tc_service_name := Some ''nginx''\<rparr>"

definition loop_db :: db where
  "loop_db = (case create_task 0 loop_request 1 None sample_db of Inr (k, d) \<Rightarrow> d | Inl e \<Rightarrow> sample_db)"

lemma loop_reachable: "reachable cron_never loop_db"
proof (rule reachable.commit [OF sample_reachable])
  show "request_valid (CreateTask loop_request 1 None)"
    by (simp add: task_create_valid_def code_points_def loop_request_def check_request_def)
  have "\<not> (case create_task 0 loop_request 1 None sample_db of Inl e \<Rightarrow> True | Inr r \<Rightarrow> False)" by code_simp
  then show "task_transaction cron_never 0 (CreateTask loop_request 1 None) sample_db = Inr loop_db"
    by (auto simp: loop_db_def split: sum.splits)
qed

definition loop_start :: "((string \<times> datetime) list, nat, nat) site agent_run" where
  "loop_start = \<lparr>world = \<lparr>site_db = loop_db\<lparr>ops_agent_token := ops_agent_token agent_db\<rparr>, site_cache = [],
     site_machine = 0, site_wire = 0\<rparr>, trace = []\<rparr>"

definition no_other :: "(string \<times> datetime) list route" where
  "no_other now q d r = (exception_reply (\<lambda>_. ([], JNull)) (HTTPException 404), d, r)"

lemma poll_completes_tasks_witness:
  "\<exists>s' e. poll_once (site_env loop_backend no_other loop_surroundings loop_encode ''t'' sample_keys (\<lambda>_. []))
      loop_client [''nginx''] loop_start = (Inr 1, s') \<and>
     execution_get (site_db (world s')) 1 = Some e \<and> ex_status e = SUCCESS \<and> ex_result_text e = Some ''active''"
proof -
  let ?d = "site_db (world loop_start)"
  have lossless: "lossless loop_surroundings" by (simp add: lossless_def loop_surroundings_def)
  have signer: "ac_signer loop_client = Some sample_signer" by (simp add: loop_client_def)
  have r: "reachable cron_never ?d"
    by (rule reachable.other [OF loop_reachable]) (simp_all add: loop_start_def)
  have "get_by_token_hash ?d (sha256_hex sample_crypto ''t'') = Some sample_token"
    and server: "server_get ?d 1 = Some sample_server" by code_simp+
  then have token: "usable_token sample_crypto 10 ?d ''t'' sample_token" by (simp add: usable_token_def sample_token_def)
  have enr: "enrolled loop_backend loop_surroundings ''t'' sample_keys sample_signer 1 ?d"
    unfolding enrolled_def
    by (rule exI [of _ sample_token], rule exI [of _ sample_server])
      (use token server in \<open>simp add: loop_backend_def loop_surroundings_def sample_token_def sample_server_def sample_signer_def\<close>)
  have unused: "ids_unused map_of loop_used 1 (world loop_start)" by (simp add: ids_unused_def loop_start_def)
  let ?a = "\<lparr>as_execution_id = 1, as_task_id = 1, as_action = Some ''STATUS'', as_service_name = Some ''nginx'',
    as_timeout_seconds = 60\<rparr>"
  have "fst (fetch_pending 10 1 ?d) = [?a]" by code_simp
  then have f: "fetch_pending (server_clock loop_surroundings (site_machine (world loop_start))) 1 ?d = ([?a], snd (fetch_pending 10 1 ?d))"
    by (simp add: loop_surroundings_def prod_eq_iff)
  have p: "fst (perform loop_surroundings (\<lambda>_. []) [''nginx''] ?a 0) = Inr (True, ''active'')" by code_simp
  from poll_completes_tasks [OF loop_sound lossless signer r enr unused f, of no_other "\<lambda>_. []" "[''nginx'']"] p
  show ?thesis
    by (auto simp: list_all2_Cons1 settled_def bindE_eq_Inr loop_start_def split: prod.splits)
qed

text \<open>The same site with a wire that loses the first reply: the execution is left running.\<close>

definition lossy_surroundings :: "(nat, nat) surroundings" where
  "lossy_surroundings = loop_surroundings\<lparr>wire_fate := (\<lambda>n. (if n = 1 then ReplyLost else Delivered, Suc n))\<rparr>"

lemma lost_poll_example:
  "\<exists>s' e. poll_once (site_env loop_backend no_other lossy_surroundings loop_encode ''t'' sample_keys (\<lambda>_. []))
      loop_client [''nginx''] loop_start = (Inl (ReporterError (ErrorStatus 401)), s') \<and>
     execution_get (site_db (world s')) 1 = Some e \<and> ex_status e = RUNNING \<and> site_machine (world s') = 0"
proof -
  let ?run = "poll_once (site_env loop_backend no_other lossy_surroundings loop_encode ''t'' sample_keys (\<lambda>_. []))
      loop_client [''nginx''] loop_start"
  have "fst ?run = Inl (ReporterError (ErrorStatus 401))" by code_simp
  moreover have "map_option ex_status (execution_get (site_db (world (snd ?run))) 1) = Some RUNNING" by code_simp
  moreover have "site_machine (world (snd ?run)) = 0" by code_simp
  ultimately show ?thesis by (cases ?run) auto
qed

text \<open>
  The backend accepts a check or a request for logs without a service, or of one that only the agent's own
  list excludes; the agent refuses it, so such a task always fails.
\<close>

lemma service_unknown_to_agent:
  assumes "\<And>name. as_service_name a = Some name \<Longrightarrow> name \<notin> set allowed"
  shows "\<exists>message. perform su fmt allowed a m = (Inl (RaisedValueError message), m)"
proof -
  have refused: "\<exists>message. validate_action (machine_env su fmt) allowed (text_json (as_service_name a)) action =
      Inl (RaisedValueError message)" for action
    using assms by (auto simp: validate_action_def unhashable_def text_json_def split: option.split)
  have name: "json_get ''service_name'' (assigned_fields a) = text_json (as_service_name a)"
    by (simp add: assigned_fields_def json_get_def)
  let ?action = "if text_json (as_action a) = JStr ''LOGS'' then JStr ''STATUS'' else text_json (as_action a)"
  obtain message where
    "validate_action (machine_env su fmt) allowed (text_json (as_service_name a)) ?action = Inl (RaisedValueError message)"
    using refused by blast
  then show ?thesis
    by (cases "text_json (as_action a) = JStr ''LOGS''")
      (simp_all add: perform_def run_task_def run_action_def fetch_logs_def name)
qed

end
