(* ===== verification/Lifecycle.thy ===== *)
theory Lifecycle
  imports Poll_Properties
begin

text \<open>
  An agent joins the platform: the rest of the router of the agents (\<open>backend/app/api/v1/agent.py\<close>) with the
  JSON of its answers, and the registration and the heartbeats of \<open>agent/main.py\<close> sent to it over the wire of
  \<open>Closed_Loop\<close>. A server that an administrator has created comes online by the first attempt of its agent,
  and stays online through its heartbeats; what the polls of \<open>Poll_Properties\<close> rely on then holds.
\<close>

section \<open>The other endpoints of the agents\<close>

text \<open>
  The reading of the bodies by the schemas, the address \<open>get_client_ip\<close> finds, and \<open>isoformat\<close>.
\<close>

record agent_forms =
  fm_register :: "string \<Rightarrow> RegisterRequest option"
  fm_signing_key :: "string \<Rightarrow> SigningKeyRequest option"
  fm_heartbeat :: "string \<Rightarrow> HeartbeatRequest option"
  fm_metrics :: "string \<Rightarrow> MetricsRequest option"
  fm_assets :: "string \<Rightarrow> AssetsRequest option"
  fm_services :: "string \<Rightarrow> ServicesRequest option"
  fm_ip :: "string option"
  fm_isoformat :: "datetime \<Rightarrow> string"

definition zh_registered :: string where
  "zh_registered = [CHR 0xE6, CHR 0xB3, CHR 0xA8, CHR 0xE5, CHR 0x86, CHR 0x8C, CHR 0xE6, CHR 0x88, CHR 0x90,
     CHR 0xE5, CHR 0x8A, CHR 0x9F]"

definition zh_key_updated :: string where
  "zh_key_updated = [CHR 0xE7, CHR 0xAD, CHR 0xBE, CHR 0xE5, CHR 0x90, CHR 0x8D, CHR 0xE5, CHR 0x85, CHR 0xAC,
     CHR 0xE9, CHR 0x92, CHR 0xA5, CHR 0xE5, CHR 0xB7, CHR 0xB2, CHR 0xE6, CHR 0x9B, CHR 0xB4, CHR 0xE6, CHR 0x96, CHR 0xB0]"

text \<open>\<open>{"server_id": k, name: isoformat(t)}\<close>, the answer of the four reports.\<close>

definition stamped :: "agent_forms \<Rightarrow> string \<Rightarrow> ident \<times> datetime \<Rightarrow> json" where
  "stamped fm name kt = success (JObj [(''server_id'', JInt (fst kt)), (name, JStr (fm_isoformat fm (snd kt)))]) ''ok''"

definition answer :: "('pk, 'r) backend \<Rightarrow> ('a \<Rightarrow> json) \<Rightarrow> ('a, 'r) response \<Rightarrow> http_reply \<times> db \<times> 'r" where
  "answer be render response = (case response of (outcome, d, r) \<Rightarrow> (reply_of (be_detail be) render outcome, d, r))"

definition agent_routes :: "('pk, 'r) backend \<Rightarrow> agent_forms \<Rightarrow> 'r route" where
  "agent_routes be fm now q d r =
     (let cr = be_crypto be; nx = be_set_nx be; cfg = be_settings be in
      if rq_method q \<noteq> ''POST'' then (exception_reply (be_detail be) (HTTPException 404), d, r)
      else if rq_path q = ''/api/v1/agent/register'' then
        answer be (\<lambda>(k, st). success (JObj [(''server_id'', JInt k), (''agent_status'', JStr (agent_state_name st))]) zh_registered)
          (post_register cr now (fm_register fm) (fm_ip fm) q d r)
      else if rq_path q = ''/api/v1/agent/signing-key'' then
        answer be (\<lambda>_. success JNull zh_key_updated) (post_signing_key cr nx cfg now (fm_signing_key fm) q d r)
      else if rq_path q = ''/api/v1/agent/heartbeat'' then
        answer be (stamped fm ''received_at'') (post_heartbeat cr nx cfg now (fm_heartbeat fm) (fm_ip fm) q d r)
      else if rq_path q = ''/api/v1/agent/metrics'' then
        answer be (stamped fm ''recorded_at'') (post_metrics cr nx cfg now (fm_metrics fm) q d r)
      else if rq_path q = ''/api/v1/agent/assets'' then
        answer be (stamped fm ''synced_at'') (post_assets cr nx cfg now (fm_assets fm) q d r)
      else if rq_path q = ''/api/v1/agent/services'' then
        answer be (stamped fm ''synced_at'') (post_services cr nx cfg now (fm_services fm) q d r)
      else (exception_reply (be_detail be) (HTTPException 404), d, r))"

text \<open>The host and the stop event of an agent on a site: they belong to its machine.\<close>

definition site_host ::
  "('m \<Rightarrow> host \<times> 'm) \<Rightarrow> ('m \<Rightarrow> bool) \<Rightarrow> (int \<Rightarrow> 'm \<Rightarrow> 'm) \<Rightarrow> ('r, 'm, 'n) site host_env" where
  "site_host readings_of stopped wait =
     \<lparr>readings = (\<lambda>w. let (h, m) = readings_of (site_machine w) in (h, w\<lparr>site_machine := m\<rparr>)),
      stop_is_set = (\<lambda>w. stopped (site_machine w)),
      stop_wait = (\<lambda>n w. w\<lparr>site_machine := wait n (site_machine w)\<rparr>)\<rparr>"

section \<open>Being online\<close>

text \<open>
  The agent of server \<open>k\<close> is enrolled, its last sign of life was at \<open>t\<close>, and the server has the address its
  requests come from.
\<close>

definition online ::
  "('pk, 'r) backend \<Rightarrow> agent_forms \<Rightarrow> ('m, 'n) surroundings \<Rightarrow> string \<Rightarrow> 'sk key_pair_ops \<Rightarrow> 'sk AgentSigner \<Rightarrow>
   ('r \<Rightarrow> string \<Rightarrow> datetime option) \<Rightarrow> ('n \<Rightarrow> string set) \<Rightarrow> ident \<Rightarrow> datetime \<Rightarrow> ('r, 'm, 'n) site \<Rightarrow> bool" where
  "online be fm su token ops signer expires used k t w \<longleftrightarrow>
     enrolled be su token ops signer k (site_db w) \<and> ids_unused expires used k w \<and> servers_inv (site_db w) \<and>
     (\<exists>v. server_get (site_db w) k = Some v \<and> sv_agent_status v = ONLINE \<and> sv_last_heartbeat_at v = Some t \<and>
        or_text (fm_ip fm) (sv_ip_address v) = sv_ip_address v)"

text \<open>The sweep of the statuses leaves a server online for thirty seconds.\<close>

lemma online_swept:
  assumes "server_get d k = Some v" "sv_agent_status v = ONLINE" "sv_last_heartbeat_at v = Some t"
    and "now \<le> t + timedelta_seconds 30"
  shows "map_option sv_agent_status (server_get (snd (refresh_agent_statuses now d)) k) = Some ONLINE"
  using assms by (simp add: server_get_swept agent_status_case_def)

section \<open>The registration\<close>

text \<open>The request the agent sends: what the collector found with the code, the token, the version and the key.\<close>

definition registration :: "AgentConfig \<Rightarrow> 'sk key_pair_ops \<Rightarrow> 'sk AgentSigner \<Rightarrow> RegisterRequest \<Rightarrow> RegisterRequest" where
  "registration cfg ops signer info = info\<lparr>rg_server_code := ServerConfig.sc_server_code (cf_server cfg),
     rg_token := sc_token (cf_server cfg), rg_agent_version := Some AGENT_VERSION,
     rg_signing_public_key := Some (public_key_b64 ops signer)\<rparr>"

lemma key_truthy: "keys_fit cr ops signer \<Longrightarrow> truthy (Some (public_key_b64 ops signer))"
  by (simp add: keys_fit_def public_key_b64_def b64encode_Nil)

lemma signed_request_fields [simp]:
  "rq_method (signed_request token verb path body h) = verb" "rq_path (signed_request token verb path body h) = path"
  "rq_body (signed_request token verb path body h) = body"
  by (simp_all add: signed_request_def)

lemma register_over_wire:
  fixes s :: "('r, 'm, 'n) site agent_run"
  assumes sound: "sound_site be su encode ops signer expires used" "lossless su" "ac_signer c = Some signer"
    and host: "readings_of (site_machine (world s)) = (h, m)" "collect_system_info h = Inr info"
    and q: "q = registration cfg ops signer info" "register_request_valid q" "fm_register fm (encode (RegisterBody q)) = Some q"
    and reg: "register (be_crypto be) (server_clock su m) q (fm_ip fm) (site_db (world s)) = Inr ((k, st), d')"
    and unused: "ids_unused expires used k (world s)"
  obtains s' where
    "register_attempt (site_env be (agent_routes be fm) su encode token ops fmt) (site_host readings_of stopped wait) cfg c s =
       (Some (JInt k), s')"
    "site_db (world s') = d'" "site_machine (world s') = m" "ids_unused expires used k (world s')"
proof -
  let ?env = "site_env be (agent_routes be fm) su encode token ops fmt" and ?hst = "site_host readings_of stopped wait"
  let ?path = "''/api/v1/agent/register''"
  define s1 where "s1 = s\<lparr>world := (world s)\<lparr>site_machine := m\<rparr>\<rparr>"
  define w where "w = world s1"
  have w: "site_db w = site_db (world s)" "site_machine w = m" "site_cache w = site_cache (world s)"
    "site_wire w = site_wire (world s)" by (simp_all add: w_def s1_def)
  have read: "read_host ?hst s = (h, s1)" by (simp add: read_host_def site_host_def host(1) s1_def)
  have body: "encode (RegisterBody q) = (case Some (RegisterBody q) of None \<Rightarrow> [] | Some p \<Rightarrow> encode p)" by simp
  obtain u n where "u \<notin> used (site_wire w)" and u: "insert u (used (site_wire w)) \<subseteq> used n"
    and run: "\<And>st p d' r'. agent_router be (agent_routes be fm) (server_clock su (site_machine w))
         (signed_request token ''POST'' ?path (encode (RegisterBody q))
           (sign_headers ops (agent_clock su (site_machine w)) u signer ''POST'' ?path (encode (RegisterBody q))))
         (site_db w) (site_cache w) = (Reply st p, d', r') \<Longrightarrow>
       \<exists>s'. request ?env c ''POST'' ?path (Some (RegisterBody q)) s1 = (interpret_response st p, s') \<and>
         world s' = w\<lparr>site_wire := n, site_db := d', site_cache := r'\<rparr>"
    by (rule request_delivered [OF sound body, where s = s1 and verb = "''POST''" and path = ?path
          and other = "agent_routes be fm" and token = token and fmt = fmt, folded w_def]) (rule that)
  let ?q = "signed_request token ''POST'' ?path (encode (RegisterBody q))
      (sign_headers ops (agent_clock su (site_machine w)) u signer ''POST'' ?path (encode (RegisterBody q)))"
  have "post_register (be_crypto be) (server_clock su m) (fm_register fm) (fm_ip fm) ?q (site_db w) (site_cache w) =
      (Inr (k, st), d', site_cache w)"
    using q(2,3) reg by (simp add: post_register_def agent_endpoint_def w(1) run_service_def)
  then have "agent_router be (agent_routes be fm) (server_clock su (site_machine w)) ?q (site_db w) (site_cache w) =
      (Reply 200 (success (JObj [(''server_id'', JInt k), (''agent_status'', JStr (agent_state_name st))]) zh_registered),
        d', site_cache w)"
    by (simp add: agent_router_def agent_routes_def w(2) answer_def reply_of_def)
  from run [OF this] obtain s' where
    s': "request ?env c ''POST'' ?path (Some (RegisterBody q)) s1 =
      (Inr (JObj [(''server_id'', JInt k), (''agent_status'', JStr (agent_state_name st))]), s')"
    "world s' = w\<lparr>site_wire := n, site_db := d', site_cache := site_cache w\<rparr>" by auto
  have "signing_public_key ?env c = Some (public_key_b64 ops signer)"
    by (simp add: signing_public_key_def sound(3))
  moreover have "truthy (Some (public_key_b64 ops signer))" using sound(1) key_truthy unfolding sound_site_def by blast
  ultimately have "register_attempt ?env ?hst cfg c s = (Some (JInt k), s')"
    using s'(1) by (simp add: register_attempt_def read host(2) send_register_def client_post_def q(1) registration_def)
  moreover have "ids_unused expires used k (world s')"
    using unused u by (auto simp: s'(2) w ids_unused_def)
  ultimately show ?thesis using that s'(2) w(2) by simp
qed

section \<open>Heartbeats\<close>

definition beat_row :: "datetime \<Rightarrow> string option \<Rightarrow> string option \<Rightarrow> OpsServer \<Rightarrow> OpsServer" where
  "beat_row now ip agent_version s = s\<lparr>sv_last_heartbeat_at := Some now, sv_ip_address := or_text ip (sv_ip_address s),
     sv_agent_version := (if truthy agent_version then agent_version else sv_agent_version s), sv_agent_status := ONLINE\<rparr>"

lemma beat_row_simps [simp]:
  "sv_id (beat_row now ip v s) = sv_id s" "sv_ssh_port (beat_row now ip v s) = sv_ssh_port s"
  "sv_server_code (beat_row now ip v s) = sv_server_code s" "sv_status (beat_row now ip v s) = sv_status s"
  "sv_deleted_at (beat_row now ip v s) = sv_deleted_at s" "sv_agent_status (beat_row now ip v s) = ONLINE"
  "sv_ip_address (beat_row now ip v s) = or_text ip (sv_ip_address s)" "sv_last_heartbeat_at (beat_row now ip v s) = Some now"
  by (simp_all add: beat_row_def)

text \<open>A heartbeat from the address of the server finds no other server there.\<close>

lemma own_address_is_free:
  assumes "servers_inv d" "server_get d k = Some v" "or_text ip (sv_ip_address v) = sv_ip_address v"
  shows "\<forall>u \<in> set (servers d). sv_id u \<noteq> k \<longrightarrow>
    (sv_ip_address u, sv_ssh_port u) \<noteq> (or_text ip (sv_ip_address v), sv_ssh_port v)"
proof (intro ballI impI)
  fix u assume u: "u \<in> set (servers d)" "sv_id u \<noteq> k"
  have v: "v \<in> set (servers d)" "sv_id v = k" using repo_get_in assms(2) by (fastforce simp: server_get_def)+
  have "inj_on (\<lambda>s. (sv_ip_address s, sv_ssh_port s)) (set (servers d))"
    using assms(1) by (simp add: servers_inv_def uk_ops_server_ip_port_def distinct_map)
  with u v show "(sv_ip_address u, sv_ssh_port u) \<noteq> (or_text ip (sv_ip_address v), sv_ssh_port v)"
    unfolding assms(3) by (auto dest: inj_onD)
qed

lemma heartbeat_keeps_online:
  assumes on: "online be fm su token ops signer expires used k t w" and id: "sv_id server = k" "hr_server_id q = Some k"
  obtains x d' where "heartbeat now server q (fm_ip fm) (site_db w) = Inr (x, d')"
    "\<And>w'. site_db w' = d' \<Longrightarrow> ids_unused expires used k w' \<Longrightarrow> online be fm su token ops signer expires used k now w'"
proof -
  let ?d = "site_db w" and ?f = "beat_row now (fm_ip fm) (hr_agent_version q)"
  let ?d1 = "set_server k ?f ?d"
  obtain v where v: "server_get ?d k = Some v" "or_text (fm_ip fm) (sv_ip_address v) = sv_ip_address v"
    and inv: "servers_inv ?d" and enr: "enrolled be su token ops signer k ?d" using on by (auto simp: online_def)
  have flush: "flush_server ?d1 = Inr ?d1"
    by (rule flush_moved [OF _ _ _ inv v(1) own_address_is_free [OF inv v]]) simp_all
  have written: "update_last_heartbeat now k (fm_ip fm) (hr_agent_version q) ?d = flush_server ?d1"
    by (simp add: update_last_heartbeat_def beat_row_def [abs_def])
  let ?d2 = "heartbeat_record now k (hr_agent_version q) (fm_ip fm)
      (Some (case hr_timestamp q of None \<Rightarrow> now | Some ts \<Rightarrow> normalize_utc ts)) ?d1"
  have h: "heartbeat now server q (fm_ip fm) ?d = Inr ((k, now), ?d2)"
    by (simp add: heartbeat_def assert_server_match_def id written flush)
  have same: "ops_server ?d2 = ops_server ?d1" "ops_agent_token ?d2 = ops_agent_token ?d"
    by (simp_all add: heartbeat_record_def set_server_def)
  have "servers_inv ?d1" by (rule servers_inv_flush [OF inv flush]) simp_all
  moreover have "ops_agent_token ?d2 = ops_agent_token ?d1" by (simp add: heartbeat_record_def)
  ultimately have inv2: "servers_inv ?d2" using servers_inv_tables same(1) by blast
  have "server_get ?d1 k = Some (?f v)"
    by (rule server_get_set_server) (use inv v in \<open>simp_all add: servers_inv_def\<close>)
  then have get2: "server_get ?d2 k = Some (?f v)" using server_get_after [OF same(1)] by simp
  obtain tk s where e: "\<And>m. usable_token (be_crypto be) (server_clock su m) ?d token tk"
    "at_signing_public_key tk = Some (public_key_b64 ops signer)" "server_get ?d (at_server_id tk) = Some s"
    "sv_status s = 1" "as_server_code signer = sv_server_code s" "sv_id s = k"
    using enr by (auto simp: enrolled_def)
  have k: "at_server_id tk = k" using e(3,6) repo_get_in by (fastforce simp: server_get_def)
  then have "s = v" using e(3) v(1) by simp
  then have "enrolled be su token ops signer k ?d2"
    unfolding enrolled_def using e k get2 same(2)
    by (intro exI [of _ tk] exI [of _ "?f v"]) (simp add: usable_token_def get_by_token_hash_def)
  then have "online be fm su token ops signer expires used k now w'" if "site_db w' = ?d2" "ids_unused expires used k w'" for w'
    unfolding online_def using that inv2 get2 v(2) by simp
  with h show ?thesis using that by blast
qed

text \<open>The heartbeat the agent sends in state \<open>m\<close> of its machine.\<close>

definition beat_request :: "ident \<Rightarrow> datetime \<Rightarrow> HeartbeatRequest" where
  "beat_request k ts = \<lparr>hr_server_id = Some k, hr_agent_version = Some AGENT_VERSION, hr_timestamp = Some (Aware ts 0)\<rparr>"

lemma heartbeat_over_wire:
  fixes s :: "('r, 'm, 'n) site agent_run"
  defines "w \<equiv> world s"
  assumes sound: "sound_site be su encode ops signer expires used" "lossless su" "ac_signer c = Some signer"
    and on: "online be fm su token ops signer expires used k t w"
    and read: "fm_heartbeat fm (encode (HeartbeatBody (beat_request k (agent_clock su (site_machine w))))) =
      Some (beat_request k (agent_clock su (site_machine w)))"
  obtains reply s' where
    "send_heartbeat (site_env be (agent_routes be fm) su encode token ops fmt) c k AGENT_VERSION s = (Inr reply, s')"
    "online be fm su token ops signer expires used k (server_clock su (site_machine w)) (world s')"
    "site_machine (world s') = site_machine w"
proof -
  let ?env = "site_env be (agent_routes be fm) su encode token ops fmt" and ?path = "''/api/v1/agent/heartbeat''"
  let ?now = "server_clock su (site_machine w)" and ?b = "beat_request k (agent_clock su (site_machine w))"
  have ready: "enrolled be su token ops signer k (site_db (world s))" "ids_unused expires used k (world s)"
    using on by (simp_all add: online_def w_def)
  obtain q server r' n where q: "rq_method q = ''POST''" "rq_path q = ?path" "rq_body q = encode (HeartbeatBody ?b)"
    "sv_id server = k"
    "get_agent_server (be_crypto be) (be_set_nx be) (be_settings be) ?now q (site_db w) (site_cache w) = Inr (server, r')"
    and unused: "\<And>d'. ids_unused expires used k (w\<lparr>site_wire := n, site_db := d', site_cache := r'\<rparr>)"
    and run: "\<And>st p d'. agent_router be (agent_routes be fm) ?now q (site_db w) (site_cache w) = (Reply st p, d', r') \<Longrightarrow>
       \<exists>s'. request ?env c ''POST'' ?path (Some (HeartbeatBody ?b)) s = (interpret_response st p, s') \<and>
         world s' = w\<lparr>site_wire := n, site_db := d', site_cache := r'\<rparr>"
    using request_over_wire [OF sound ready, of "''POST''" ?path "Some (HeartbeatBody ?b)", folded w_def, unfolded option.case]
    by metis
  obtain x d' where h: "heartbeat ?now server ?b (fm_ip fm) (site_db w) = Inr (x, d')"
    and keeps: "\<And>w'. site_db w' = d' \<Longrightarrow> ids_unused expires used k w' \<Longrightarrow> online be fm su token ops signer expires used k ?now w'"
    by (rule heartbeat_keeps_online [OF on q(4), of ?b ?now]) (simp add: beat_request_def, rule that)
  have "max_length 32 (Some AGENT_VERSION)" by code_simp
  then have valid: "heartbeat_request_valid ?b" by (simp add: heartbeat_request_valid_def beat_request_def)
  have "post_heartbeat (be_crypto be) (be_set_nx be) (be_settings be) ?now (fm_heartbeat fm) (fm_ip fm) q (site_db w) (site_cache w) =
      (Inr x, d', r')"
    by (simp add: post_heartbeat_def agent_endpoint_def q(3,5) read valid h run_service_def)
  then have "agent_router be (agent_routes be fm) ?now q (site_db w) (site_cache w) =
      (Reply 200 (stamped fm ''received_at'' x), d', r')"
    by (simp add: agent_router_def agent_routes_def q(1,2) answer_def reply_of_def)
  from run [OF this] obtain reply s' where
    s': "request ?env c ''POST'' ?path (Some (HeartbeatBody ?b)) s = (Inr reply, s')"
    "world s' = w\<lparr>site_wire := n, site_db := d', site_cache := r'\<rparr>" by (auto simp: stamped_def)
  have "utcnow_iso ?env s = (Aware (agent_clock su (site_machine w)) 0, s)"
    by (simp add: utcnow_iso_def w_def)
  then have "send_heartbeat ?env c k AGENT_VERSION s = (Inr reply, s')"
    using s'(1) by (simp add: send_heartbeat_def client_post_def beat_request_def)
  moreover have "online be fm su token ops signer expires used k ?now (world s')"
    by (rule keeps) (simp_all add: s'(2) unused)
  ultimately show ?thesis using that s'(2) by simp
qed

section \<open>From the creation of a server to its heartbeats\<close>

lemma new_token_never_expires:
  assumes "create_token hash plaintext k name d = Inr (r, d')" "authenticate hash now d' plaintext = Some t"
  shows "at_expires_at t = None"
proof -
  obtain mk where mk: "d' = d\<lparr>ops_agent_token := repo_create mk (ops_agent_token d)\<rparr>"
    "\<And>k. at_token_hash (mk k) = hash plaintext \<and> at_expires_at (mk k) = None"
    "hash plaintext \<notin> set (map at_token_hash (rows (ops_agent_token d)))"
    using create_token_Inr [OF assms(1)] by blast
  have "get_by_token_hash d' (hash plaintext) = Some t"
    using assms(2) by (auto simp: authenticate_def split: option.splits if_splits)
  then have "t \<in> set (rows (ops_agent_token d')) \<and> at_token_hash t = hash plaintext"
    unfolding get_by_token_hash_def by (rule repo_get_by_in)
  then show ?thesis using mk by (force simp: repo_create_def image_iff)
qed

text \<open>
  C30. A server comes into the platform with its agent. After the creation of the server and of a token, the
  first attempt of an agent configured with the token and the code of the server registers it, over a wire
  that loses nothing and unless another server occupies its address: the agent learns the number of its
  server, its key is enrolled, and the server is online with this sign of life. It stays online through
  every sweep of the next thirty seconds; and whenever the agent of a server that is online sends a
  heartbeat, the heartbeat is accepted and the server is online from then.
\<close>

theorem onboarded_agent_comes_online:
  fixes s :: "('r, 'm, 'n) site agent_run"
  assumes sound: "sound_site be su encode ops signer expires used" "lossless su" "ac_signer c = Some signer"
    and admin: "servers_inv d0" "create_server data created_by d0 = Inr (k, d1)"
      "generate_agent_token (sha256_hex (be_crypto be)) token k token_name d1 = Inr (r, site_db (world s))"
    and cfg: "sc_token (cf_server cfg) = token" "ServerConfig.sc_server_code (cf_server cfg) = sc_server_code data"
      "as_server_code signer = sc_server_code data"
    and host: "readings_of (site_machine (world s)) = (h, m)" "collect_system_info h = Inr info"
    and body: "register_request_valid (registration cfg ops signer info)"
      "fm_register fm (encode (RegisterBody (registration cfg ops signer info))) = Some (registration cfg ops signer info)"
      "\<And>m. fm_heartbeat fm (encode (HeartbeatBody (beat_request k (agent_clock su m)))) = Some (beat_request k (agent_clock su m))"
    and free: "\<forall>v \<in> set (servers d0). (sv_ip_address v, sv_ssh_port v) \<noteq> (or_text (fm_ip fm) (sc_ip_address data), sc_ssh_port data)"
    and unused: "ids_unused expires used k (world s)"
  shows "\<exists>s'. register_attempt (site_env be (agent_routes be fm) su encode token ops fmt) (site_host readings_of stopped wait) cfg c s =
      (Some (JInt k), s') \<and>
    online be fm su token ops signer expires used k (server_clock su m) (world s') \<and>
    (\<forall>now \<le> server_clock su m + timedelta_seconds 30.
      map_option sv_agent_status (server_get (snd (refresh_agent_statuses now (site_db (world s')))) k) = Some ONLINE) \<and>
    (\<forall>t u. online be fm su token ops signer expires used k t (world u) \<longrightarrow>
      (\<exists>reply u'. send_heartbeat (site_env be (agent_routes be fm) su encode token ops fmt) c k AGENT_VERSION u = (Inr reply, u') \<and>
        online be fm su token ops signer expires used k (server_clock su (site_machine (world u))) (world u')))"
proof -
  let ?q = "registration cfg ops signer info" and ?d = "site_db (world s)" and ?now = "server_clock su m"
  have q: "rg_token ?q = token" "rg_server_code ?q = sc_server_code data" "rg_signing_public_key ?q = Some (public_key_b64 ops signer)"
    using cfg by (simp_all add: registration_def)
  obtain d' v where reg: "register (be_crypto be) ?now ?q (fm_ip fm) ?d = Inr ((k, ONLINE), d')"
    and v: "servers_inv d'" "server_get d' k = Some v" "sv_agent_status v = ONLINE" "sv_last_heartbeat_at v = Some ?now"
      "sv_ip_address v = or_text (fm_ip fm) (sc_ip_address data)"
    using onboarded_agent_registers [OF admin q(1,2) free, of ?now] by blast
  obtain s' where s': "register_attempt (site_env be (agent_routes be fm) su encode token ops fmt)
      (site_host readings_of stopped wait) cfg c s = (Some (JInt k), s')"
    "site_db (world s') = d'" "site_machine (world s') = m" "ids_unused expires used k (world s')"
    by (rule register_over_wire [where readings_of = readings_of and q = ?q, OF sound host refl body(1,2) reg unused])
      (rule that)
  have inv1: "servers_inv d1" using admin(1,2) by (rule servers_inv_create)
  have get1: "server_get d1 k = Some (new_server data created_by k)" using admin(1,2) by (rule created_server_get)
  have tok: "create_token (sha256_hex (be_crypto be)) token k token_name d1 = Inr (r, ?d)"
    using admin(3) get1 by (simp add: generate_agent_token_def get_server_def new_server_def)
  have inv: "servers_inv ?d" using inv1 tok by (rule servers_inv_token)
  have "enrolled be su (rg_token ?q) ops signer k d'"
    by (rule registration_enrolls [OF inv reg])
      (use q cfg sound(1) new_token_never_expires [OF tok] in \<open>simp_all add: sound_site_def\<close>)
  moreover have "or_text (fm_ip fm) (sv_ip_address v) = sv_ip_address v"
    unfolding v(5) by (auto simp: or_text_def split: option.split)
  ultimately have on: "online be fm su token ops signer expires used k ?now (world s')"
    unfolding online_def s'(2) using q(1) s'(4) v(1-4) by auto
  have beats: "\<exists>reply u'. send_heartbeat (site_env be (agent_routes be fm) su encode token ops fmt) c k AGENT_VERSION u = (Inr reply, u') \<and>
      online be fm su token ops signer expires used k (server_clock su (site_machine (world u))) (world u')"
    if "online be fm su token ops signer expires used k t (world u)" for t u
    using heartbeat_over_wire [OF sound that body(3)] by metis
  show ?thesis
    using s'(1) on beats online_swept [OF v(2-4)] unfolding s'(2) [symmetric] by blast
qed

section \<open>A concrete site\<close>

definition join_server :: ServerCreate where
  "join_server = \<lparr>sc_server_code = as_server_code sample_signer, sc_hostname = ''h'', sc_ip_address = ''10.0.0.9'',
     sc_ssh_port = 22, sc_remark = None\<rparr>"

definition join_config :: AgentConfig where
  "join_config = script_config\<lparr>cf_server := (cf_server script_config)\<lparr>sc_token := ''t'',
     ServerConfig.sc_server_code := as_server_code sample_signer\<rparr>\<rparr>"

definition join_info :: RegisterRequest where
  "join_info = (case collect_system_info script_host of Inr q \<Rightarrow> q | Inl _ \<Rightarrow> onboarding_request)"

definition join_forms :: agent_forms where
  "join_forms = \<lparr>fm_register = (\<lambda>_. Some (registration join_config sample_keys sample_signer join_info)),
     fm_signing_key = (\<lambda>_. None), fm_heartbeat = (\<lambda>_. Some (beat_request 1 10)), fm_metrics = (\<lambda>_. None),
     fm_assets = (\<lambda>_. None), fm_services = (\<lambda>_. None), fm_ip = Some ''10.0.0.7'', fm_isoformat = (\<lambda>_. [])\<rparr>"

definition join_db1 :: db where
  "join_db1 = empty_db\<lparr>ops_server := repo_create (new_server join_server None) (ops_server empty_db)\<rparr>"

definition join_db :: db where
  "join_db = (case generate_agent_token (sha256_hex sample_crypto) ''t'' 1 None join_db1 of Inr (r, d) \<Rightarrow> d | Inl _ \<Rightarrow> join_db1)"

definition join_start :: "((string \<times> datetime) list, nat, nat) site agent_run" where
  "join_start = \<lparr>world = \<lparr>site_db = join_db, site_cache = [], site_machine = 0, site_wire = 0\<rparr>, trace = []\<rparr>"

lemma onboarded_agent_comes_online_witness:
  "\<exists>s'. register_attempt (site_env loop_backend (agent_routes loop_backend join_forms) loop_surroundings loop_encode ''t''
        sample_keys (\<lambda>_. [])) (site_host (\<lambda>m. (script_host, m)) (\<lambda>_. False) (\<lambda>_ m. m)) join_config loop_client join_start =
      (Some (JInt 1), s') \<and>
    map_option sv_agent_status (server_get (snd (refresh_agent_statuses (10 + timedelta_seconds 29) (site_db (world s')))) 1) =
      Some ONLINE"
proof -
  have lossless: "lossless loop_surroundings" by (simp add: lossless_def loop_surroundings_def)
  have signer: "ac_signer loop_client = Some sample_signer" by (simp add: loop_client_def)
  have inv: "servers_inv empty_db" by (simp add: servers_inv_def uk_ops_server_code_def uk_ops_server_ip_port_def empty_db_def)
      (simp add: empty_table_def)
  have c: "create_server join_server None empty_db = Inr (1, join_db1)" unfolding join_db1_def by code_simp
  have "\<not> isl (generate_agent_token (sha256_hex sample_crypto) ''t'' 1 None join_db1)" by code_simp
  then obtain r where g: "generate_agent_token (sha256_hex (be_crypto loop_backend)) ''t'' 1 None join_db1 = Inr (r, site_db (world join_start))"
    by (cases "generate_agent_token (sha256_hex sample_crypto) ''t'' 1 None join_db1")
      (auto simp: join_db_def join_start_def loop_backend_def)
  have cfg: "sc_token (cf_server join_config) = ''t''"
    "ServerConfig.sc_server_code (cf_server join_config) = sc_server_code join_server"
    "as_server_code sample_signer = sc_server_code join_server"
    by (simp_all add: join_config_def join_server_def)
  have host: "(\<lambda>m. (script_host, m)) (site_machine (world join_start)) = (script_host, 0)" by (simp add: join_start_def)
  have "\<not> isl (collect_system_info script_host)" by code_simp
  then have info: "collect_system_info script_host = Inr join_info"
    by (cases "collect_system_info script_host") (simp_all add: join_info_def)
  have valid: "register_request_valid (registration join_config sample_keys sample_signer join_info)" by code_simp
  have forms: "fm_register join_forms (loop_encode (RegisterBody (registration join_config sample_keys sample_signer join_info))) =
      Some (registration join_config sample_keys sample_signer join_info)"
    "\<And>m. fm_heartbeat join_forms (loop_encode (HeartbeatBody (beat_request 1 (agent_clock loop_surroundings m)))) =
      Some (beat_request 1 (agent_clock loop_surroundings m))"
    by (simp_all add: join_forms_def loop_surroundings_def)
  have free: "\<forall>v \<in> set (servers empty_db). (sv_ip_address v, sv_ssh_port v) \<noteq>
      (or_text (fm_ip join_forms) (sc_ip_address join_server), sc_ssh_port join_server)"
    by (simp add: empty_db_def empty_table_def)
  have unused: "ids_unused map_of loop_used 1 (world join_start)" by (simp add: ids_unused_def join_start_def)
  have now: "server_clock loop_surroundings (0 :: nat) = 10" by (simp add: loop_surroundings_def)
  from onboarded_agent_comes_online [where readings_of = "\<lambda>m. (script_host, m)", OF loop_sound lossless signer inv c g cfg
      host info valid forms free unused, of "\<lambda>_. []" "\<lambda>_. False" "\<lambda>_ m. m"] obtain s' where
    "register_attempt (site_env loop_backend (agent_routes loop_backend join_forms) loop_surroundings loop_encode ''t''
        sample_keys (\<lambda>_. [])) (site_host (\<lambda>m. (script_host, m)) (\<lambda>_. False) (\<lambda>_ m. m)) join_config loop_client join_start =
      (Some (JInt 1), s')"
    "\<forall>now \<le> 10 + timedelta_seconds 30.
      map_option sv_agent_status (server_get (snd (refresh_agent_statuses now (site_db (world s')))) 1) = Some ONLINE"
    unfolding now by blast
  then show ?thesis by (auto simp: timedelta_seconds_def)
qed

end
