(* ===== verification/Agent_Threads.thy ===== *)
theory Agent_Threads
  imports Agent_Main
begin

text \<open>
  The agent as a process (\<open>Agent.run\<close> of \<open>agent/main.py\<close>, \<open>TaskWorker.run\<close> of \<open>agent/worker.py\<close>): the
  main thread registers, starts four daemon threads, installs the signal handlers and waits for the
  stop event; then it closes the client and the interpreter ends with whatever the daemon threads are
  doing. A step is one transition of one thread: a test of the stop event, one iteration of a loop
  with the wait at its end, and for the worker one request, one command or one report.
\<close>

section \<open>The threads\<close>

datatype periodic = Heartbeat | MetricsLoop | AssetsLoop

text \<open>A loop is at its head, inside an iteration that the stop event no longer prevents, or has ended.\<close>

datatype loop_phase = LoopHead | InBody | LoopEnded

text \<open>
  The worker, too: inside \<open>poll_once\<close> it holds the tasks that are left to execute, or the report of the
  task it has just executed with the tasks after it.
\<close>

datatype worker_phase =
    WorkerHead
  | Polling
  | Holding "json list"
  | Reporting json task_report "json list"
  | Resting
  | WorkerEnded

text \<open>
  The main thread: registering with the delay after the next failure; with the threads running but the
  handlers not yet installed; waiting for the stop event; with the client closed; gone.
\<close>

datatype main_phase = Registering rat | Starting | Serving | Closing | Exited

text \<open>
  \<open>pr_handed\<close> are the tasks the backend has handed over and \<open>pr_done\<close> those the worker is done with,
  each with its report if one was sent: they are what the properties speak of, the program keeps neither.
\<close>

record 'w process =
  pr_main :: main_phase
  pr_stop :: bool
  pr_server_id :: ident
  pr_loops :: "periodic \<Rightarrow> loop_phase"
  pr_worker :: worker_phase
  pr_run :: "'w agent_run"
  pr_handed :: "json list"
  pr_done :: "(json \<times> task_report option) list"

text \<open>\<open>Agent.__init__\<close>: the event is clear; reading the key may fail, then there is no agent.\<close>

definition agent_init ::
  "('sk \<Rightarrow> bool) \<Rightarrow> 'sk \<Rightarrow> AgentConfig \<Rightarrow> 'sk option \<Rightarrow> 'w \<Rightarrow> ('sk AgentClient \<times> 'w process) result" where
  "agent_init is_ed25519 generated cfg key_file w =
     bindE (load_or_create_signer is_ed25519 generated (sc_server_code (cf_server cfg)) key_file) (\<lambda>(signer, _).
       Inr (agent_client cfg signer,
         \<lparr>pr_main = Registering 1, pr_stop = False, pr_server_id = 0, pr_loops = (\<lambda>_. LoopHead),
          pr_worker = WorkerHead, pr_run = \<lparr>world = w, trace = []\<rparr>, pr_handed = [], pr_done = []\<rparr>))"

section \<open>One iteration\<close>

fun iteration :: "('w, 'sk) agent_env \<Rightarrow> 'w host_env \<Rightarrow> AgentConfig \<Rightarrow> 'sk AgentClient \<Rightarrow> ident \<Rightarrow> periodic \<Rightarrow>
  'w agent_run \<Rightarrow> 'w agent_run" where
  "iteration env hst cfg c server_id Heartbeat = heartbeat_step env hst cfg c server_id"
| "iteration env hst cfg c server_id MetricsLoop = metrics_step env hst cfg c server_id"
| "iteration env hst cfg c server_id AssetsLoop = assets_step env hst cfg c server_id"

text \<open>A request of a closed client is a \<open>RuntimeError\<close>, which the loops log: only the readings are left.\<close>

fun closed_iteration :: "'w host_env \<Rightarrow> AgentConfig \<Rightarrow> periodic \<Rightarrow> 'w agent_run \<Rightarrow> 'w agent_run" where
  "closed_iteration hst cfg Heartbeat s = wait_for hst (cc_heartbeat_interval (cf_collect cfg)) s"
| "closed_iteration hst cfg MetricsLoop s = wait_for hst (cc_metrics_interval (cf_collect cfg)) (snd (read_host hst s))"
| "closed_iteration hst cfg AssetsLoop s = wait_for hst (cc_assets_interval (cf_collect cfg)) (snd (read_host hst s))"

definition loop_turn ::
  "('w, 'sk) agent_env \<Rightarrow> 'w host_env \<Rightarrow> AgentConfig \<Rightarrow> 'sk AgentClient \<Rightarrow> periodic \<Rightarrow> 'w process \<Rightarrow> 'w process" where
  "loop_turn env hst cfg c l p = (case pr_loops p l of
     LoopHead \<Rightarrow> p\<lparr>pr_loops := (pr_loops p)(l := (if pr_stop p then LoopEnded else InBody))\<rparr>
   | InBody \<Rightarrow> p\<lparr>pr_loops := (pr_loops p)(l := LoopHead),
       pr_run := (if pr_main p = Closing then closed_iteration hst cfg l (pr_run p)
         else iteration env hst cfg c (pr_server_id p) l (pr_run p))\<rparr>
   | LoopEnded \<Rightarrow> p)"

section \<open>The worker\<close>

text \<open>The tasks of a poll; \<open>None\<close> is an exception, which \<open>run\<close> logs.\<close>

definition fetch_tasks ::
  "('w, 'sk) agent_env \<Rightarrow> 'sk AgentClient \<Rightarrow> 'w agent_run \<Rightarrow> json list option \<times> 'w agent_run" where
  "fetch_tasks env c s = (case client_get env c ''/api/v1/agent/tasks/pending'' s of
     (Inl _, s1) \<Rightarrow> (None, s1)
   | (Inr pending, s1) \<Rightarrow> (json_items (if falsy pending then JArr [] else pending), s1))"

text \<open>
  A task without an execution id is logged and passed over; a task that is not an object ends the poll,
  and those after it are passed over with it.
\<close>

definition worker_turn ::
  "('w, 'sk) agent_env \<Rightarrow> 'w host_env \<Rightarrow> AgentConfig \<Rightarrow> 'sk AgentClient \<Rightarrow> 'w process \<Rightarrow> 'w process" where
  "worker_turn env hst cfg c p = (case pr_worker p of
     WorkerHead \<Rightarrow> p\<lparr>pr_worker := (if pr_stop p then WorkerEnded else Polling)\<rparr>
   | Polling \<Rightarrow>
       if pr_main p = Closing then p\<lparr>pr_worker := Resting\<rparr>
       else (case fetch_tasks env c (pr_run p) of
           (None, s) \<Rightarrow> p\<lparr>pr_worker := Resting, pr_run := s\<rparr>
         | (Some tasks, s) \<Rightarrow> p\<lparr>pr_worker := Holding tasks, pr_run := s, pr_handed := pr_handed p @ tasks\<rparr>)
   | Holding [] \<Rightarrow> p\<lparr>pr_worker := Resting\<rparr>
   | Holding (task # tasks) \<Rightarrow>
       (case task of
          JObj kv \<Rightarrow>
            (case map_of kv ''execution_id'' of
               None \<Rightarrow> p\<lparr>pr_worker := Holding tasks, pr_done := pr_done p @ [(task, None)]\<rparr>
             | Some execution_id \<Rightarrow>
                 let (outcome, s) = run_task env (cc_services (cf_collect cfg)) kv (pr_run p)
                 in p\<lparr>pr_worker := Reporting task (task_outcome execution_id (json_get ''action'' kv) outcome) tasks,
                    pr_run := s\<rparr>)
        | _ \<Rightarrow> p\<lparr>pr_worker := Resting, pr_done := pr_done p @ map (\<lambda>t. (t, None)) (task # tasks)\<rparr>)
   | Reporting task r tasks \<Rightarrow>
       if pr_main p = Closing then p\<lparr>pr_worker := Holding tasks, pr_done := pr_done p @ [(task, None)]\<rparr>
       else p\<lparr>pr_worker := Holding tasks, pr_done := pr_done p @ [(task, Some r)],
         pr_run := snd (report_task_result env c r (pr_run p))\<rparr>
   | Resting \<Rightarrow> p\<lparr>pr_worker := WorkerHead,
       pr_run := wait_for hst (cc_task_poll_interval (cf_collect cfg)) (pr_run p)\<rparr>
   | WorkerEnded \<Rightarrow> p)"

section \<open>The process\<close>

definition threads_alive :: "main_phase \<Rightarrow> bool" where
  "threads_alive m \<longleftrightarrow> m \<in> {Starting, Serving, Closing}"

text \<open>
  The steps. Before the handlers are installed a signal ends the process; afterwards it sets the event.
  The backend identifies a server by a number.
\<close>

inductive process_step ::
  "('w, 'sk) agent_env \<Rightarrow> 'w host_env \<Rightarrow> AgentConfig \<Rightarrow> 'sk AgentClient \<Rightarrow> 'w process \<Rightarrow> 'w process \<Rightarrow> bool"
  for env hst cfg c where
  Registered: "process_step env hst cfg c p (p\<lparr>pr_main := Starting, pr_server_id := k, pr_run := s\<rparr>)"
    if "pr_main p = Registering delay" "register_attempt env hst cfg c (pr_run p) = (Some (JInt k), s)"
| Refused: "process_step env hst cfg c p
      (p\<lparr>pr_main := Registering (min (delay * 2) (of_int (cc_retry_max_seconds (cf_collect cfg)))),
         pr_run := emit (Slept delay) s\<rparr>)"
    if "pr_main p = Registering delay" "register_attempt env hst cfg c (pr_run p) = (None, s)"
| Killed: "process_step env hst cfg c p (p\<lparr>pr_main := Exited\<rparr>)"
    if "pr_main p = Starting \<or> (\<exists>delay. pr_main p = Registering delay)"
| Installed: "process_step env hst cfg c p (p\<lparr>pr_main := Serving\<rparr>)" if "pr_main p = Starting"
| Signalled: "process_step env hst cfg c p (p\<lparr>pr_stop := True\<rparr>)" if "pr_main p = Serving \<or> pr_main p = Closing"
| Stopped: "process_step env hst cfg c p (p\<lparr>pr_main := Closing\<rparr>)" if "pr_main p = Serving" "pr_stop p"
| Gone: "process_step env hst cfg c p (p\<lparr>pr_main := Exited\<rparr>)" if "pr_main p = Closing"
| Turning: "process_step env hst cfg c p (loop_turn env hst cfg c l p)" if "threads_alive (pr_main p)"
| Working: "process_step env hst cfg c p (worker_turn env hst cfg c p)" if "threads_alive (pr_main p)"

inductive_cases process_stepE: "process_step env hst cfg c p q"

end
