(* ===== verification/Agent_Threads_Properties.thy ===== *)
theory Agent_Threads_Properties
  imports Agent_Threads Agent_Run_Properties
begin

text \<open>
  The properties of the agent as a process: the small steps of the worker are the poll of
  \<open>Agent_Worker\<close>; every task that was handed over is accounted for in every interleaving; nothing but
  the registration is sent before the registration has succeeded; after the stop event no new tasks
  are fetched; and what the end of the process leaves behind.
\<close>

section \<open>The worker alone\<close>

text \<open>The turns of the worker while no other thread moves.\<close>

lemma poll_tasks_run:
  "snd (poll_tasks env c allowed ts n s) = snd (poll_tasks env c allowed ts m s)"
proof (induction ts arbitrary: n m s)
  case (Cons task ts)
  obtain r s1 where "execute_one env c allowed task s = (r, s1)" by fastforce
  then show ?case using Cons by (cases r) (auto split: json.splits)
qed simp

lemma worker_holding:
  assumes "pr_worker p = Holding ts" "pr_main p \<noteq> Closing"
  shows "\<exists>n q. (worker_turn env hst cfg c ^^ n) p = q \<and> pr_worker q = Resting \<and> pr_main q = pr_main p \<and>
    pr_run q = snd (poll_tasks env c (cc_services (cf_collect cfg)) ts 0 (pr_run p))"
  using assms
proof (induction ts arbitrary: p)
  case Nil
  then show ?case
    by (intro exI [where x = 1] exI [where x = "worker_turn env hst cfg c p"]) (simp add: worker_turn_def)
next
  case (Cons task ts)
  let ?turn = "worker_turn env hst cfg c" and ?allowed = "cc_services (cf_collect cfg)"
  show ?case
  proof (cases task)
    case (JObj kv)
    show ?thesis
    proof (cases "map_of kv ''execution_id''")
      case None
      let ?p1 = "?turn p"
      have p1: "pr_worker ?p1 = Holding ts" "pr_main ?p1 = pr_main p" "pr_run ?p1 = pr_run p"
        using Cons.prems JObj None by (simp_all add: worker_turn_def)
      obtain n where n: "pr_worker ((?turn ^^ n) ?p1) = Resting" "pr_main ((?turn ^^ n) ?p1) = pr_main p"
        "pr_run ((?turn ^^ n) ?p1) = snd (poll_tasks env c ?allowed ts 0 (pr_run p))"
        using Cons.IH [of ?p1] Cons.prems p1 by auto
      show ?thesis
        using n JObj None by (intro exI [where x = "Suc n"]) (simp add: funpow_swap1 execute_one_def)
    next
      case (Some k)
      obtain outcome s1 where run: "run_task env ?allowed kv (pr_run p) = (outcome, s1)" by fastforce
      let ?r = "task_outcome k (json_get ''action'' kv) outcome"
      let ?p2 = "?turn (?turn p)"
      obtain reply s2 where rep: "report_task_result env c ?r s1 = (reply, s2)" by fastforce
      have p2: "pr_worker ?p2 = Holding ts" "pr_main ?p2 = pr_main p" "pr_run ?p2 = s2"
        using Cons.prems JObj Some run rep by (simp_all add: worker_turn_def)
      obtain n where n: "pr_worker ((?turn ^^ n) ?p2) = Resting" "pr_main ((?turn ^^ n) ?p2) = pr_main p"
        "pr_run ((?turn ^^ n) ?p2) = snd (poll_tasks env c ?allowed ts 0 s2)"
        using Cons.IH [of ?p2] Cons.prems p2 by auto
      have "execute_one env c ?allowed task (pr_run p) = (map_sum id (\<lambda>_. ()) reply, s2)"
        using JObj Some run rep by (simp add: execute_one_def)
      then have "snd (poll_tasks env c ?allowed (task # ts) 0 (pr_run p)) = snd (poll_tasks env c ?allowed ts 0 s2)"
        using JObj poll_tasks_run by (cases reply) (auto intro: poll_tasks_run)
      then show ?thesis
        using n by (intro exI [where x = "Suc (Suc n)"]) (simp add: funpow_swap1)
    qed
  qed (use Cons.prems in \<open>auto simp: worker_turn_def execute_one_def
      intro!: exI [where x = 1] exI [where x = "worker_turn env hst cfg c p"]\<close>)
qed

text \<open>
  Left alone, the small steps of the worker thread carry out exactly one \<open>poll_once\<close>: the same
  requests, commands, sleeps and reports in the same order, ending in the wait between two polls.
\<close>

theorem worker_thread_polls:
  assumes "pr_worker p = Polling" and "pr_main p \<noteq> Closing"
  shows "\<exists>n q. (worker_turn env hst cfg c ^^ n) p = q \<and> pr_worker q = Resting \<and>
    pr_run q = snd (poll_once env c (cc_services (cf_collect cfg)) (pr_run p))"
proof -
  let ?turn = "worker_turn env hst cfg c"
  obtain fetched s1 where f: "fetch_tasks env c (pr_run p) = (fetched, s1)" by fastforce
  show ?thesis
  proof (cases fetched)
    case None
    then have "pr_worker (?turn p) = Resting" "pr_run (?turn p) = s1"
      using assms f by (simp_all add: worker_turn_def)
    moreover have "s1 = snd (poll_once env c (cc_services (cf_collect cfg)) (pr_run p))"
      using f None by (auto simp: fetch_tasks_def poll_once_def split: sum.splits prod.splits)
    ultimately show ?thesis by (intro exI [where x = 1] exI [where x = "?turn p"]) simp
  next
    case (Some ts)
    then have p1: "pr_worker (?turn p) = Holding ts" "pr_main (?turn p) \<noteq> Closing" "pr_run (?turn p) = s1"
      using assms f by (simp_all add: worker_turn_def)
    have "snd (poll_once env c (cc_services (cf_collect cfg)) (pr_run p)) =
        snd (poll_tasks env c (cc_services (cf_collect cfg)) ts 0 s1)"
      using f Some by (auto simp: fetch_tasks_def poll_once_def split: sum.splits prod.splits)
    then show ?thesis
      using worker_holding [OF p1(1,2), of env hst cfg c] p1(3)
      by (metis funpow_swap1 funpow_simps_right(2) o_apply)
  qed
qed

section \<open>The tasks of a process\<close>

text \<open>The tasks the worker holds, the one whose report it is about to send included.\<close>

fun in_hand :: "worker_phase \<Rightarrow> json list" where
  "in_hand (Holding ts) = ts"
| "in_hand (Reporting task _ ts) = task # ts"
| "in_hand _ = []"

definition accounted :: "'w process \<Rightarrow> bool" where
  "accounted p \<longleftrightarrow> pr_handed p = map fst (pr_done p) @ in_hand (pr_worker p)"

definition report_for :: "json \<Rightarrow> task_report \<Rightarrow> bool" where
  "report_for task r \<longleftrightarrow> (\<exists>kv. task = JObj kv \<and> map_of kv ''execution_id'' = Some (rp_execution_id r))"

definition reports_match :: "'w process \<Rightarrow> bool" where
  "reports_match p \<longleftrightarrow> (\<forall>task r. (task, Some r) \<in> set (pr_done p) \<longrightarrow> report_for task r) \<and>
     (\<forall>task r ts. pr_worker p = Reporting task r ts \<longrightarrow> report_for task r)"

text \<open>The worker changes its own fields and the run; it opens no task it was not handed.\<close>

lemma worker_turn_main [simp]:
  "pr_main (worker_turn env hst cfg c p) = pr_main p" "pr_stop (worker_turn env hst cfg c p) = pr_stop p"
  by (simp_all add: worker_turn_def Let_def split: worker_phase.splits list.splits json.splits option.splits prod.splits)

lemma loop_turn_fields [simp]:
  "pr_main (loop_turn env hst cfg c l p) = pr_main p" "pr_stop (loop_turn env hst cfg c l p) = pr_stop p"
  "pr_worker (loop_turn env hst cfg c l p) = pr_worker p" "pr_handed (loop_turn env hst cfg c l p) = pr_handed p"
  "pr_done (loop_turn env hst cfg c l p) = pr_done p"
  by (simp_all add: loop_turn_def split: loop_phase.splits)

lemma worker_turn_accounted:
  assumes "accounted p" "reports_match p"
  shows "accounted (worker_turn env hst cfg c p) \<and> reports_match (worker_turn env hst cfg c p)"
  using assms
  by (auto simp: accounted_def reports_match_def worker_turn_def report_for_def Let_def task_outcome_cases
      comp_def split: worker_phase.splits list.splits json.splits option.splits prod.splits)

lemma process_step_accounted:
  assumes "process_step env hst cfg c p q" "accounted p \<and> reports_match p"
  shows "accounted q \<and> reports_match q"
  using assms worker_turn_accounted [of p env hst cfg c]
  by (auto elim!: process_stepE simp: accounted_def reports_match_def)

definition fresh_process :: "'w process \<Rightarrow> bool" where
  "fresh_process p \<longleftrightarrow> pr_worker p = WorkerHead \<and> pr_handed p = [] \<and> pr_done p = [] \<and>
     trace (pr_run p) = [] \<and> \<not> pr_stop p \<and> pr_main p = Registering 1"

lemma agent_init_fresh: "agent_init ok generated cfg key_file w = Inr (c, p) \<Longrightarrow> fresh_process p"
  by (auto simp: agent_init_def fresh_process_def bindE_eq_Inr)

lemma run_accounted:
  assumes "(process_step env hst cfg c)\<^sup>*\<^sup>* p q" "fresh_process p"
  shows "accounted q \<and> reports_match q"
  using assms(1)
proof (induction rule: rtranclp_induct)
  case base
  then show ?case using assms(2) by (simp add: fresh_process_def accounted_def reports_match_def)
qed (rule process_step_accounted)

section \<open>The stop event\<close>

text \<open>A worker that is not already past its test of the event fetches nothing once it is set.\<close>

lemma stop_step:
  assumes "process_step env hst cfg c p q" "pr_stop p" "pr_worker p \<noteq> Polling"
  shows "pr_stop q \<and> pr_worker q \<noteq> Polling \<and> pr_handed q = pr_handed p"
  using assms
  by (auto elim!: process_stepE simp: worker_turn_def Let_def
      split: worker_phase.splits list.splits json.splits option.splits prod.splits if_splits)

lemma stop_run:
  assumes "(process_step env hst cfg c)\<^sup>*\<^sup>* p q" "pr_stop p" "pr_worker p \<noteq> Polling"
  shows "pr_handed q = pr_handed p"
proof -
  have "pr_stop q \<and> pr_worker q \<noteq> Polling \<and> pr_handed q = pr_handed p"
    using assms(1)
  proof (induction rule: rtranclp_induct)
    case (step y z)
    then show ?case using stop_step by metis
  qed (use assms in simp)
  then show ?thesis by simp
qed

section \<open>What goes over the wire\<close>

abbreviation result_path :: string where
  "result_path \<equiv> ''/api/v1/agent/task/result''"

text \<open>Events that are no call to the result endpoint.\<close>

definition no_report :: "agent_event \<Rightarrow> bool" where
  "no_report e = (case e of Sent call _ \<Rightarrow> hc_path call \<noteq> result_path | _ \<Rightarrow> True)"

definition to_register :: "agent_event \<Rightarrow> bool" where
  "to_register e = (case e of Sent call _ \<Rightarrow> hc_path call = ''/api/v1/agent/register'' | _ \<Rightarrow> True)"

definition result_call :: "('w, 'sk) agent_env \<Rightarrow> task_report \<Rightarrow> http_call \<Rightarrow> bool" where
  "result_call env r call \<longleftrightarrow> hc_path call = result_path \<and>
     hc_body call \<in> {JsonBody (ResultBody r), Content (dumps env (ResultBody r))}"

lemma request_adds:
  assumes "\<And>call reply. hc_path call = path \<Longrightarrow> P (Sent call reply)" "\<And>t. P (Slept t)"
  shows "adds P s (snd (request env c verb path json s))"
proof -
  obtain res s' where r: "request env c verb path json s = (res, s')" by fastforce
  obtain call reply es where t: "trace s' = trace s @ Sent call reply # es" "list_all (of_call call) es" "hc_path call = path"
    using request_trace [OF r] by blast
  have "list_all P es" by (rule list.pred_mono_strong [OF t(2)]) (auto simp: of_call_def assms t(3))
  then show ?thesis using t assms(1) [OF t(3)] unfolding adds_def r by simp
qed

lemma post_quiet: "path \<noteq> result_path \<Longrightarrow> adds no_report s (snd (client_post env c path body s))"
  unfolding client_post_def by (rule request_adds) (simp_all add: no_report_def)

lemma services_quiet: "adds no_report s (snd (collect_services env names s))"
proof (induction names arbitrary: s)
  case (Cons name names)
  obtain st s1 where a: "service_is_active env name s = (st, s1)" by fastforce
  then obtain outcome where "run_process env [''systemctl'', ''is-active'', name] (JInt 10) s = (outcome, s1)"
    by (auto simp: service_is_active_def split: prod.splits)
  from adds_one [OF run_process_trace [OF this]] have "adds no_report s s1" by (simp add: no_report_def)
  moreover obtain rest s2 where r: "collect_services env names s1 = (rest, s2)" by fastforce
  ultimately have "adds no_report s s2" using Cons [of s1] by (auto intro: adds_trans)
  then show ?case using a r \<open>adds no_report s s1\<close> by (auto split: option.splits)
qed simp

lemma body_quiet: "adds no_report s (snd (send_heartbeat env c k v s))"
  "adds no_report s (snd (send_metrics env c k ms s))" "adds no_report s (snd (send_assets env c k xs s))"
  "adds no_report s (snd (send_services env c k sts s))" "adds no_report s (snd (send_register env c code tok q v s))"
  unfolding send_heartbeat_def send_metrics_def send_assets_def send_services_def send_register_def split_beta Let_def
  by (rule adds_from [OF trace_utcnow post_quiet], simp)+ (rule post_quiet, simp)

lemma loop_body_quiet: "adds no_report s (iteration env hst cfg c k l s)"
proof (cases l)
  case Heartbeat
  then show ?thesis by (simp add: heartbeat_step_def body_quiet)
next
  case MetricsLoop
  then show ?thesis
    using adds_from [OF trace_read_host body_quiet(2)]
    by (auto simp: metrics_step_def split_beta adds_same split: sum.splits)
next
  case AssetsLoop
  let ?s1 = "snd (read_host hst s)" and ?xs = "collect_assets (fst (read_host hst s))"
  obtain r s2 where a: "send_assets env c k ?xs ?s1 = (r, s2)" by fastforce
  then have 2: "adds no_report s s2" using adds_from [OF trace_read_host body_quiet(3)] by (metis snd_conv)
  obtain sts s3 where b: "collect_services env (cc_services (cf_collect cfg)) s2 = (sts, s3)" by fastforce
  then have 3: "adds no_report s s3" using adds_trans [OF 2] services_quiet by (metis snd_conv)
  have 4: "adds no_report s (snd (send_services env c k xs s3))" for xs by (rule adds_trans [OF 3 body_quiet(4)])
  show ?thesis using AssetsLoop a b 2 3 4 by (auto simp: assets_step_def split_beta split: sum.splits option.splits)
qed

lemma closed_quiet: "adds P s (closed_iteration hst cfg l s)"
  by (cases l) (simp_all add: adds_same)

lemma register_quiet: "adds no_report s (snd (register_attempt env hst cfg c s))"
  using adds_from [OF trace_read_host body_quiet(5)]
  by (auto simp: register_attempt_def split_beta adds_same split: sum.splits)

lemma register_registers: "adds to_register s (snd (register_attempt env hst cfg c s))"
proof -
  have "adds to_register t (snd (send_register env c code tok q v t))" for code tok q v t
    unfolding send_register_def client_post_def by (rule request_adds) (simp_all add: to_register_def)
  from adds_from [OF trace_read_host this] show ?thesis
    by (auto simp: register_attempt_def split_beta adds_same split: sum.splits)
qed

lemma fetch_quiet: "adds no_report s (snd (fetch_tasks env c s))"
  using request_adds [of "''/api/v1/agent/tasks/pending''" no_report s env c "''GET''" None]
  by (auto simp: fetch_tasks_def client_get_def no_report_def split: sum.splits prod.splits)

lemma run_task_quiet: "adds no_report s (snd (run_task env allowed kv s))"
proof -
  obtain outcome s' where "run_task env allowed kv s = (outcome, s')" by fastforce
  from run_task_trace [OF this] show ?thesis
    unfolding \<open>run_task env allowed kv s = (outcome, s')\<close> by (auto simp: adds_def no_report_def)
qed

lemma report_sent: "\<exists>call reply es. trace (snd (report_task_result env c r s)) = trace s @ Sent call reply # es \<and>
    list_all (of_call call) es \<and> result_call env r call"
proof -
  obtain res s' where r: "request env c ''POST'' result_path (Some (ResultBody r)) s = (res, s')" by fastforce
  from request_trace [OF r] show ?thesis
    unfolding report_task_result_def client_post_def r result_call_def by auto
qed

text \<open>The reports of the process are exactly what was sent to the result endpoint.\<close>

definition sent_reports :: "'w process \<Rightarrow> task_report set" where
  "sent_reports p = {r. \<exists>task. (task, Some r) \<in> set (pr_done p)}"

definition on_wire :: "('w, 'sk) agent_env \<Rightarrow> 'w process \<Rightarrow> bool" where
  "on_wire env p \<longleftrightarrow>
     (\<forall>r \<in> sent_reports p. \<exists>call reply. Sent call reply \<in> set (trace (pr_run p)) \<and> result_call env r call) \<and>
     (\<forall>call reply. Sent call reply \<in> set (trace (pr_run p)) \<longrightarrow> hc_path call = result_path \<longrightarrow>
        (\<exists>r \<in> sent_reports p. result_call env r call))"

lemma on_wire_quiet:
  assumes "on_wire env p" "adds no_report (pr_run p) (pr_run q)" "sent_reports q = sent_reports p"
  shows "on_wire env q"
proof -
  obtain es where t: "trace (pr_run q) = trace (pr_run p) @ es" and es: "list_all no_report es"
    using assms(2) by (auto simp: adds_def)
  have "hc_path call \<noteq> result_path" if "Sent call reply \<in> set es" for call reply
    using es that by (auto simp: list_all_iff no_report_def)
  then show ?thesis using assms(1) unfolding on_wire_def assms(3) t by (simp only: set_append Un_iff) blast
qed

lemma on_wire_report:
  assumes "on_wire env p" "sent_reports q = insert r (sent_reports p)"
    and "pr_run q = snd (report_task_result env c r (pr_run p))"
  shows "on_wire env q"
proof -
  obtain call reply es where t: "trace (pr_run q) = trace (pr_run p) @ Sent call reply # es"
    and es: "list_all (of_call call) es" and c: "result_call env r call"
    using report_sent [of env c r "pr_run p"] unfolding assms(3) by blast
  have "call' = call" if "Sent call' reply' \<in> set es" for call' reply'
    using es that by (auto simp: list_all_iff of_call_def)
  then have new: "\<exists>x \<in> sent_reports q. result_call env x call'"
    if "Sent call' reply' \<in> set (Sent call reply # es)" for call' reply'
    using that c assms(2) by auto
  show ?thesis
    unfolding on_wire_def
  proof (intro conjI ballI allI impI)
    fix x assume "x \<in> sent_reports q"
    then show "\<exists>call' reply'. Sent call' reply' \<in> set (trace (pr_run q)) \<and> result_call env x call'"
      using assms(1,2) c unfolding on_wire_def t by (cases "x = r") (auto, blast)
  next
    fix call' reply' assume "Sent call' reply' \<in> set (trace (pr_run q))" "hc_path call' = result_path"
    then show "\<exists>x \<in> sent_reports q. result_call env x call'"
      using assms(1,2) new unfolding on_wire_def t set_append Un_iff by (elim disjE) blast+
  qed
qed

lemma on_wire_worker:
  assumes "on_wire env p"
  shows "on_wire env (worker_turn env hst cfg c p)"
proof (cases "pr_worker p")
  case (Holding ts)
  let ?q = "worker_turn env hst cfg c p"
  have "sent_reports ?q = sent_reports p"
    using Holding by (auto simp: worker_turn_def sent_reports_def Let_def split: list.splits json.splits option.splits prod.splits)
  moreover have "adds no_report (pr_run p) (pr_run ?q)"
    using Holding run_task_quiet [of "pr_run p" env "cc_services (cf_collect cfg)"]
    by (auto simp: worker_turn_def Let_def split_beta split: list.splits json.splits option.splits)
  ultimately show ?thesis using on_wire_quiet assms by blast
next
  case (Reporting task r ts)
  show ?thesis
  proof (cases "pr_main p = Closing")
    case True
    then show ?thesis using Reporting
      by (intro on_wire_quiet [OF assms]) (auto simp: worker_turn_def sent_reports_def)
  next
    case False
    then show ?thesis using Reporting
      by (intro on_wire_report [OF assms, of _ r c]) (auto simp: worker_turn_def sent_reports_def)
  qed
next
  case Polling
  then show ?thesis using fetch_quiet [of "pr_run p" env c]
    by (intro on_wire_quiet [OF assms])
      (auto simp: worker_turn_def sent_reports_def split: option.splits prod.splits)
qed (auto simp: worker_turn_def sent_reports_def adds_same wait_for_def intro!: on_wire_quiet [OF assms])

lemma on_wire_step:
  assumes "process_step env hst cfg c p q" "on_wire env p"
  shows "on_wire env q"
  using assms(1)
proof (cases rule: process_step.cases)
  case (Registered delay k s)
  then show ?thesis using register_quiet [of "pr_run p" env hst cfg c]
    by (intro on_wire_quiet [OF assms(2)]) (auto simp: sent_reports_def)
next
  case (Refused delay s)
  then have "adds no_report (pr_run p) s" using register_quiet [of "pr_run p" env hst cfg c] by simp
  then have "adds no_report (pr_run p) (emit (Slept delay) s)"
    by (rule adds_trans) (simp add: adds_def emit_def no_report_def)
  then show ?thesis using Refused by (intro on_wire_quiet [OF assms(2)]) (auto simp: sent_reports_def)
next
  case (Turning l)
  then show ?thesis using loop_body_quiet closed_quiet
    by (intro on_wire_quiet [OF assms(2)]) (auto simp: sent_reports_def loop_turn_def split: loop_phase.splits)
next
  case Working
  then show ?thesis using on_wire_worker assms(2) by simp
qed (auto simp: sent_reports_def intro!: on_wire_quiet [OF assms(2)])

definition registers_first :: "'w process \<Rightarrow> bool" where
  "registers_first p \<longleftrightarrow> (\<forall>delay. pr_main p = Registering delay \<longrightarrow> list_all to_register (trace (pr_run p)))"

lemma registers_first_step:
  assumes "process_step env hst cfg c p q" "registers_first p"
  shows "registers_first q"
  using assms(1)
proof (cases rule: process_step.cases)
  case (Refused delay s)
  then have "adds to_register (pr_run p) s" using register_registers [of "pr_run p" env hst cfg c] by simp
  moreover have "list_all to_register (trace (pr_run p))" using Refused assms(2) by (simp add: registers_first_def)
  ultimately show ?thesis using Refused by (auto simp: registers_first_def adds_def emit_def to_register_def)
qed (use assms(2) in \<open>auto simp: registers_first_def threads_alive_def\<close>)


section \<open>A run that is stopped\<close>

text \<open>The registration and one poll are answered; the signal comes while the report is being prepared.\<close>

definition stopped_world :: "http_reply list" where
  "stopped_world = [Reply 200 (JObj [(''data'', JObj [(''server_id'', JInt 1)])]),
     Reply 200 (JObj [(''data'', JArr [JObj script_task])])]"

definition script_process :: "http_reply list process" where
  "script_process = \<lparr>pr_main = Registering 1, pr_stop = False, pr_server_id = 0, pr_loops = (\<lambda>_. LoopHead),
     pr_worker = WorkerHead, pr_run = \<lparr>world = stopped_world, trace = []\<rparr>, pr_handed = [], pr_done = []\<rparr>"

definition registered_process :: "http_reply list process" where
  "registered_process = script_process\<lparr>pr_main := Starting, pr_server_id := 1,
     pr_run := snd (register_attempt script_env script_host_env script_config script_client (pr_run script_process))\<rparr>"

definition busy_process :: "http_reply list process" where
  "busy_process = (worker_turn script_env script_host_env script_config script_client ^^ 3)
     (registered_process\<lparr>pr_main := Serving\<rparr>)"

definition gone_process :: "http_reply list process" where
  "gone_process = busy_process\<lparr>pr_stop := True, pr_main := Exited\<rparr>"

lemma script_process_fresh: "fresh_process script_process"
  by (simp add: fresh_process_def script_process_def)

lemma script_registers:
  "fst (register_attempt script_env script_host_env script_config script_client (pr_run script_process)) = Some (JInt 1)"
  by code_simp

definition polled :: "json list option \<times> http_reply list agent_run" where
  "polled = fetch_tasks script_env script_client (pr_run registered_process)"

lemma polled_tasks: "fst polled = Some [JObj script_task]"
  by code_simp

definition executed :: "(exec_error + bool \<times> string) \<times> http_reply list agent_run" where
  "executed = run_task script_env (cc_services (cf_collect script_config)) script_task (snd polled)"

lemma ran_trace: "Ran [''systemctl'', ''restart'', ''nginx''] \<in> set (trace (snd executed))"
  by code_simp

lemma busy_eq: "busy_process = registered_process\<lparr>pr_main := Serving, pr_run := snd executed,
   pr_handed := [JObj script_task],
   pr_worker := Reporting (JObj script_task) (task_outcome (JInt 7) (json_get ''action'' script_task) (fst executed)) []\<rparr>"
proof -
  have f: "fetch_tasks script_env script_client (pr_run registered_process) = (Some [JObj script_task], snd polled)"
    using polled_tasks by (simp only: polled_def [symmetric] prod_eq_iff fst_conv snd_conv)
  have r: "run_task script_env (cc_services (cf_collect script_config)) script_task (snd polled) = (fst executed, snd executed)"
    by (simp add: executed_def)
  have k: "map_of script_task ''execution_id'' = Some (JInt 7)" by code_simp
  have p: "pr_worker registered_process = WorkerHead" "\<not> pr_stop registered_process" "pr_handed registered_process = []"
    by (simp_all add: registered_process_def script_process_def)
  show ?thesis
    unfolding busy_process_def
    by (simp add: numeral_3_eq_3 worker_turn_def p f r k split_beta)
qed

lemma busy_worker:
  "in_hand (pr_worker busy_process) = [JObj script_task]" "pr_main busy_process = Serving" "pr_worker busy_process \<noteq> Polling"
  "pr_done busy_process = []"
  by (simp_all add: busy_eq registered_process_def script_process_def)

abbreviation script_step :: "http_reply list process \<Rightarrow> http_reply list process \<Rightarrow> bool" where
  "script_step \<equiv> process_step script_env script_host_env script_config script_client"

lemma turns_main [simp]: "pr_main ((worker_turn env hst cfg c ^^ n) p) = pr_main p"
  by (induction n) simp_all

lemma turns_reachable:
  "threads_alive (pr_main p) \<Longrightarrow> (process_step env hst cfg c)\<^sup>*\<^sup>* p ((worker_turn env hst cfg c ^^ n) p)"
proof (induction n)
  case (Suc n)
  have "process_step env hst cfg c ((worker_turn env hst cfg c ^^ n) p)
      (worker_turn env hst cfg c ((worker_turn env hst cfg c ^^ n) p))"
    by (rule Working) (simp add: Suc.prems)
  with Suc show ?case by (simp add: rtranclp.rtrancl_into_rtrancl)
qed simp

lemma busy_reachable: "script_step\<^sup>*\<^sup>* script_process busy_process"
proof -
  let ?s = "snd (register_attempt script_env script_host_env script_config script_client (pr_run script_process))"
  have "register_attempt script_env script_host_env script_config script_client (pr_run script_process) = (Some (JInt 1), ?s)"
    using script_registers by (simp only: prod_eq_iff fst_conv snd_conv)
  then have 1: "script_step script_process registered_process"
    unfolding registered_process_def by (intro Registered [where delay = 1]) (simp_all add: script_process_def)
  have 2: "script_step registered_process (registered_process\<lparr>pr_main := Serving\<rparr>)"
    by (rule Installed) (simp add: registered_process_def)
  have 3: "script_step\<^sup>*\<^sup>* (registered_process\<lparr>pr_main := Serving\<rparr>) busy_process"
    unfolding busy_process_def by (rule turns_reachable) (simp add: threads_alive_def)
  from 2 3 have "script_step\<^sup>*\<^sup>* registered_process busy_process" by (rule converse_rtranclp_into_rtranclp)
  with 1 show ?thesis by (rule converse_rtranclp_into_rtranclp)
qed

lemma gone_reachable: "script_step\<^sup>*\<^sup>* (busy_process\<lparr>pr_stop := True\<rparr>) gone_process"
proof -
  let ?p = "busy_process\<lparr>pr_stop := True\<rparr>"
  have "script_step ?p (?p\<lparr>pr_main := Closing\<rparr>)" by (rule Stopped) (simp_all add: busy_worker)
  moreover have "script_step (?p\<lparr>pr_main := Closing\<rparr>) (?p\<lparr>pr_main := Closing\<rparr>\<lparr>pr_main := Exited\<rparr>)"
    by (rule Gone) simp
  ultimately show ?thesis by (simp add: gone_process_def)
qed

text \<open>
  The process ends with the command of a task run and its result unreported: nobody waits for the
  worker, and the backend keeps the execution \<open>RUNNING\<close> until the sweep of the timeouts.
\<close>

lemma stopped_agent_abandons_task:
  "\<exists>q. script_step\<^sup>*\<^sup>* script_process q \<and> pr_main q = Exited \<and> in_hand (pr_worker q) = [JObj script_task] \<and>
    Ran [''systemctl'', ''restart'', ''nginx''] \<in> set (trace (pr_run q)) \<and> sent_reports q = {}"
proof (intro exI conjI)
  have "script_step busy_process (busy_process\<lparr>pr_stop := True\<rparr>)" by (rule Signalled) (simp add: busy_worker)
  from rtranclp.rtrancl_into_rtrancl [OF busy_reachable this] gone_reachable
  show "script_step\<^sup>*\<^sup>* script_process gone_process" by (rule rtranclp_trans)
  show "pr_main gone_process = Exited" "in_hand (pr_worker gone_process) = [JObj script_task]"
    by (simp_all add: gone_process_def busy_worker)
  have "Ran [''systemctl'', ''restart'', ''nginx''] \<in> set (trace (pr_run busy_process))"
    by (simp add: busy_eq ran_trace)
  then show "Ran [''systemctl'', ''restart'', ''nginx''] \<in> set (trace (pr_run gone_process))" by (simp add: gone_process_def)
  show "sent_reports gone_process = {}" using busy_worker by (simp add: gone_process_def sent_reports_def)
qed

text \<open>
  Once the stop event is set, no interleaving fetches tasks any more, except the poll of a worker
  that had already passed its test of the event.
\<close>

theorem no_tasks_after_stop:
  assumes "(process_step env hst cfg c)\<^sup>*\<^sup>* p q" and "pr_stop p" and "pr_worker p \<noteq> Polling"
  shows "pr_handed q = pr_handed p"
  by (rule stop_run [OF assms])

lemma no_tasks_after_stop_witness: "pr_handed gone_process = pr_handed (busy_process\<lparr>pr_stop := True\<rparr>)"
  by (rule no_tasks_after_stop [OF gone_reachable]) (simp_all add: busy_worker)


lemma worker_thread_polls_witness:
  "\<exists>n q. (worker_turn script_env script_host_env script_config script_client ^^ n)
      (registered_process\<lparr>pr_worker := Polling\<rparr>) = q \<and> pr_worker q = Resting"
  using worker_thread_polls [of "registered_process\<lparr>pr_worker := Polling\<rparr>" script_env script_host_env script_config script_client]
  by (fastforce simp: registered_process_def)

end
