(* ===== verification/Secrets.thy ===== *)
theory Secrets
  imports Api_Properties
begin

text \<open>
  What the endpoints of the users cannot tell. The password hashes of \<open>sys_user\<close> and the token hashes
  and public keys of \<open>ops_agent_token\<close> are erased from a database by \<open>conceal\<close>; every operation behind
  an endpoint commutes with it, so neither an answer nor anything but these columns of the next
  database depends on them.
\<close>

section \<open>The secret columns\<close>

definition hide_user :: "SysUser \<Rightarrow> SysUser" where
  "hide_user u = u\<lparr>us_password_hash := []\<rparr>"

definition hide_token :: "OpsAgentToken \<Rightarrow> OpsAgentToken" where
  "hide_token t = t\<lparr>at_token_hash := [], at_signing_public_key := None\<rparr>"

definition map_rows :: "('r \<Rightarrow> 'r) \<Rightarrow> 'r table \<Rightarrow> 'r table" where
  "map_rows f t = t\<lparr>rows := map f (rows t)\<rparr>"

definition conceal :: "db \<Rightarrow> db" where
  "conceal d = d\<lparr>sys_user := map_rows hide_user (sys_user d), ops_agent_token := map_rows hide_token (ops_agent_token d)\<rparr>"

text \<open>What is left of a result: of the database behind it, or of the user it is.\<close>

abbreviation concealed_after :: "('a \<times> db) result \<Rightarrow> ('a \<times> db) result" where
  "concealed_after \<equiv> map_sum id (apsnd conceal)"

abbreviation concealed_db :: "db result \<Rightarrow> db result" where
  "concealed_db \<equiv> map_sum id conceal"

named_theorems concealing \<open>operations that commute with the erasure of the secrets\<close>

text \<open>The rewriting of a composition: towards \<open>conceal\<close> outside.\<close>

lemma bind_map [concealing]: "bindE (map_sum id f x) g = bindE x (\<lambda>a. g (f a))"
  by (cases x) simp_all

lemma map_bind [concealing]: "map_sum id f (bindE x g) = bindE x (\<lambda>a. map_sum id f (g a))"
  by (cases x) simp_all

lemma bind_branches [concealing]: "bindE (if b then x else y) g = (if b then bindE x g else bindE y g)"
  by simp

lemma bind_assoc [concealing]: "bindE (bindE x f) g = bindE x (\<lambda>a. bindE (f a) g)"
  by (cases x) simp_all

declare comp_def [concealing] case_prod_unfold [concealing] Let_def [concealing]

declare if_weak_cong [cong del] option.case_cong_weak [cong del] prod.case_cong_weak [cong del]

lemma map_branches [concealing]:
  "map_sum id f (if b then x else y) = (if b then map_sum id f x else map_sum id f y)"
  "map_sum id f (case z of None \<Rightarrow> x | Some a \<Rightarrow> g a) = (case z of None \<Rightarrow> map_sum id f x | Some a \<Rightarrow> map_sum id f (g a))"
  by (simp_all split: option.split)

lemma conceal_branches [concealing]:
  "(if b then conceal d else conceal e) = conceal (if b then d else e)"
  "(case z of None \<Rightarrow> conceal d | Some a \<Rightarrow> conceal (f a)) = conceal (case z of None \<Rightarrow> d | Some a \<Rightarrow> f a)"
  by (simp_all split: option.split)

lemma case_map_option [concealing]:
  "(case map_option f z of None \<Rightarrow> x | Some a \<Rightarrow> g a) = (case z of None \<Rightarrow> x | Some a \<Rightarrow> g (f a))"
  by (cases z) simp_all

lemma map_id_result [concealing]: "map_sum id id x = x" "map_sum id (\<lambda>a. a) x = x"
  by (cases x; simp)+

lemma conceal_fields [concealing]:
  "ops_task (conceal d) = ops_task d" "ops_task_target (conceal d) = ops_task_target d"
  "ops_task_execution (conceal d) = ops_task_execution d" "ops_task_log (conceal d) = ops_task_log d"
  "ops_server (conceal d) = ops_server d" "ops_server_disk (conceal d) = ops_server_disk d"
  "ops_server_network (conceal d) = ops_server_network d" "ops_server_service (conceal d) = ops_server_service d"
  "ops_agent_heartbeat (conceal d) = ops_agent_heartbeat d" "monitor_server_metric (conceal d) = monitor_server_metric d"
  "monitor_server_metric_daily (conceal d) = monitor_server_metric_daily d" "alert_rule (conceal d) = alert_rule d"
  "alert_event (conceal d) = alert_event d" "alert_event_log (conceal d) = alert_event_log d"
  "sys_role (conceal d) = sys_role d" "sys_user_role (conceal d) = sys_user_role d"
  "sys_permission (conceal d) = sys_permission d" "sys_role_permission (conceal d) = sys_role_permission d"
  "sys_login_log (conceal d) = sys_login_log d" "sys_operation_log (conceal d) = sys_operation_log d"
  "sys_user (conceal d) = map_rows hide_user (sys_user d)"
  "ops_agent_token (conceal d) = map_rows hide_token (ops_agent_token d)"
  by (simp_all add: conceal_def)

lemma conceal_updates [concealing]:
  "(conceal d)\<lparr>ops_task := t1\<rparr> = conceal (d\<lparr>ops_task := t1\<rparr>)"
  "(conceal d)\<lparr>ops_task_target := t2\<rparr> = conceal (d\<lparr>ops_task_target := t2\<rparr>)"
  "(conceal d)\<lparr>ops_task_execution := t3\<rparr> = conceal (d\<lparr>ops_task_execution := t3\<rparr>)"
  "(conceal d)\<lparr>ops_server := t4\<rparr> = conceal (d\<lparr>ops_server := t4\<rparr>)"
  "(conceal d)\<lparr>ops_server_service := t5\<rparr> = conceal (d\<lparr>ops_server_service := t5\<rparr>)"
  "(conceal d)\<lparr>alert_rule := t6\<rparr> = conceal (d\<lparr>alert_rule := t6\<rparr>)"
  "(conceal d)\<lparr>alert_event := t7\<rparr> = conceal (d\<lparr>alert_event := t7\<rparr>)"
  "(conceal d)\<lparr>alert_event_log := t8\<rparr> = conceal (d\<lparr>alert_event_log := t8\<rparr>)"
  "(conceal d)\<lparr>sys_user_role := t9\<rparr> = conceal (d\<lparr>sys_user_role := t9\<rparr>)"
  "(conceal d)\<lparr>sys_user := map_rows hide_user t10\<rparr> = conceal (d\<lparr>sys_user := t10\<rparr>)"
  "(conceal d)\<lparr>ops_agent_token := map_rows hide_token t11\<rparr> = conceal (d\<lparr>ops_agent_token := t11\<rparr>)"
  by (simp_all add: conceal_def)

section \<open>Tables\<close>

lemma map_rows_simps [concealing]: "rows (map_rows f t) = map f (rows t)" "next_id (map_rows f t) = next_id t"
  by (simp_all add: map_rows_def)

lemma hide_user_fields [concealing]:
  "us_id (hide_user u) = us_id u" "us_username (hide_user u) = us_username u" "us_nickname (hide_user u) = us_nickname u"
  "us_email (hide_user u) = us_email u" "us_phone (hide_user u) = us_phone u" "us_status (hide_user u) = us_status u"
  "us_last_login_at (hide_user u) = us_last_login_at u" "us_deleted_at (hide_user u) = us_deleted_at u"
  by (simp_all add: hide_user_def)

lemma hide_token_fields [concealing]:
  "at_id (hide_token t) = at_id t" "at_token_name (hide_token t) = at_token_name t" "at_token_prefix (hide_token t) = at_token_prefix t"
  by (simp_all add: hide_token_def)

lemma find_in_map: "List.find P (map f xs) = map_option f (List.find (\<lambda>x. P (f x)) xs)"
  by (induction xs) auto

lemma users_found [concealing]:
  "repo_get SysUser_model (map_rows hide_user t) k = map_option hide_user (repo_get SysUser_model t k)"
  "(\<And>u. P (hide_user u) = P u) \<Longrightarrow>
     repo_get_by SysUser_model (map_rows hide_user t) P = map_option hide_user (repo_get_by SysUser_model t P)"
  "repo_get OpsAgentToken_model (map_rows hide_token s) k = map_option hide_token (repo_get OpsAgentToken_model s k)"
  by (simp_all add: repo_get_def repo_get_by_def map_rows_simps find_in_map apply_soft_delete_def [abs_def] hide_user_fields hide_token_fields)

lemma sort_map: "(\<And>x. key (f x) = key x) \<Longrightarrow> sort_key key (map f xs) = map f (sort_key key xs)"
proof (induction xs)
  case (Cons x xs)
  have "insort_key key (f x) (map f ys) = map f (insort_key key x ys)" for ys
    by (induction ys) (simp_all add: Cons.prems)
  with Cons show ?case by simp
qed simp

lemma paginate_map: "paginate page n (map f xs) = map_sum id (map f) (paginate page n xs)"
  by (simp add: paginate_def take_map drop_map)

lemma users_listed [concealing]:
  assumes "\<And>u. P (hide_user u) = P u"
  shows "repo_list SysUser_model (map_rows hide_user t) page n ob P =
    map_sum id (apsnd (map hide_user)) (repo_list SysUser_model t page n ob P)"
proof -
  have f: "filter (apply_soft_delete SysUser_model P) (map hide_user (rows t)) =
      map hide_user (filter (apply_soft_delete SysUser_model P) (rows t))"
    by (simp add: filter_map comp_def apply_soft_delete_def [abs_def] hide_user_fields assms)
  have o: "order_rows SysUser_model ob (map hide_user xs) = map hide_user (order_rows SysUser_model ob xs)" for xs
    by (simp add: order_rows_def sort_map hide_user_fields rev_map split: order_by.split)
  show ?thesis
    by (simp add: repo_list_def repo_list_all_def map_rows_simps f o paginate_map Let_def bind_map map_bind)
qed

lemma uk_hidden [concealing]: "uk_sys_user (map hide_user us) = uk_sys_user us"
  by (simp add: uk_sys_user_def comp_def filter_map hide_user_fields)

section \<open>Users\<close>

lemma modify_hidden [concealing]:
  assumes "\<And>u. f (hide_user u) = hide_user (g u)"
  shows "repo_update SysUser_model k f (map_rows hide_user t) = map_rows hide_user (repo_update SysUser_model k g t)"
  by (simp add: repo_update_def tbl_modify_def map_rows_def assms hide_user_fields comp_def if_distrib)

lemma user_get_hidden [concealing]: "user_get (conceal d) k = map_option hide_user (user_get d k)"
  by (simp add: user_get_def concealing)

lemma by_name_hidden [concealing]:
  "get_by_username (conceal d) name = map_option hide_user (get_by_username d name)"
  "get_by_email (conceal d) mail = map_option hide_user (get_by_email d mail)"
  by (simp_all add: get_by_username_def get_by_email_def concealing)

lemma role_get_hidden [concealing]: "role_get (conceal d) k = role_get d k"
  by (simp add: role_get_def concealing)

lemma roles_by_user_hidden [concealing]: "get_roles_by_user (conceal d) k = get_roles_by_user d k"
  by (simp add: get_roles_by_user_def concealing)

lemma current_roles_hidden [concealing]:
  "get_current_roles (conceal d) u = get_current_roles d u" "get_current_roles d (hide_user u) = get_current_roles d u"
  by (simp_all add: get_current_roles_def concealing)

lemma current_user_hidden [concealing]:
  "get_current_user sec now token (conceal d) = map_sum id hide_user (get_current_user sec now token d)"
  by (simp add: get_current_user_def concealing)

lemma require_roles_hidden [concealing]:
  "require_roles codes sec now token (conceal d) = map_sum id hide_user (require_roles codes sec now token d)"
  by (simp add: require_roles_def concealing)

lemma admin_only_hidden [concealing]:
  "admin_only sec now token (conceal d) = map_sum id hide_user (admin_only sec now token d)"
  by (simp add: admin_only_def concealing)

lemma validate_roles_hidden [concealing]: "validate_roles (conceal d) ks = validate_roles d ks"
  by (simp add: validate_roles_def concealing)

lemma flush_user_hidden [concealing]: "flush_user (conceal d) = concealed_db (flush_user d)"
  by (simp add: flush_user_def concealing)

lemma set_roles_hidden [concealing]: "set_roles k ks (conceal d) = conceal (set_roles k ks d)"
  by (simp add: set_roles_def concealing)

text \<open>A new hash is written over the erased column and erased again.\<close>

lemma hide_twice [concealing]: "hide_user (hide_user u) = hide_user u" "hide_token (hide_token t) = hide_token t"
  by (simp_all add: hide_user_def hide_token_def)

lemma conceal_twice [concealing]: "conceal (conceal d) = conceal d"
  by (simp add: conceal_def map_rows_def hide_twice comp_def)

text \<open>Two users tables that agree without their hashes are flushed alike.\<close>

lemma flush_user_agrees:
  assumes "conceal d = conceal e"
  shows "concealed_db (flush_user d) = concealed_db (flush_user e)"
proof -
  have "map hide_user (users d) = map hide_user (users e)"
    using arg_cong [OF assms, of "\<lambda>d. rows (sys_user d)"] by (simp add: concealing)
  then have "uk_sys_user (users d) = uk_sys_user (users e)" using uk_hidden by metis
  then show ?thesis using assms by (simp add: flush_user_def)
qed

lemma insert_user_agrees:
  assumes "\<And>k. hide_user (mk k) = hide_user (mk' k)"
  shows "concealed_after (insert_user mk (conceal d)) = concealed_after (insert_user mk' d)"
proof -
  let ?d1 = "(conceal d)\<lparr>sys_user := repo_create mk (sys_user (conceal d))\<rparr>"
  let ?d2 = "d\<lparr>sys_user := repo_create mk' (sys_user d)\<rparr>"
  have "conceal ?d1 = conceal ?d2"
    by (simp add: conceal_def repo_create_def tbl_insert_def map_rows_def assms concealing)
  from flush_user_agrees [OF this] show ?thesis
    by (cases "flush_user ?d1"; cases "flush_user ?d2") (simp_all add: insert_user_def concealing)
qed

text \<open>A continuation that commutes may follow operations that agree.\<close>

lemma bind_agrees:
  assumes "concealed_after x = concealed_after y"
    and "\<And>a e. concealed_after (g (a, conceal e)) = concealed_after (g (a, e))"
  shows "concealed_after (bindE x g) = concealed_after (bindE y g)"
proof (cases x; cases y)
  fix p q assume xy: "x = Inr p" "y = Inr q"
  then have "fst p = fst q" "conceal (snd p) = conceal (snd q)" using assms(1) by (auto simp: apsnd_def map_prod_def split_beta)
  then have "concealed_after (g (fst p, snd p)) = concealed_after (g (fst q, snd q))"
    using assms(2) [of "fst p" "snd p"] assms(2) [of "fst q" "snd q"] by simp
  then show ?thesis using xy by simp
qed (use assms(1) in auto)

lemma bind_db_agrees:
  assumes "concealed_db x = concealed_db y"
    and "\<And>e. concealed_after (g (conceal e)) = concealed_after (g e)"
  shows "concealed_after (bindE x g) = concealed_after (bindE y g)"
proof (cases x; cases y)
  fix d e assume "x = Inr d" "y = Inr e"
  then show ?thesis using assms(1) assms(2) [of d] assms(2) [of e] by simp
qed (use assms(1) in auto)

lemma create_user_agrees:
  "concealed_after (create_user sec salt data (conceal d)) = concealed_after (create_user sec salt data d)"
proof -
  have "concealed_after (bindE (insert_user mk (conceal d)) (\<lambda>(k, d1). Inr (k, if c then set_roles k ids d1 else d1))) =
      concealed_after (bindE (insert_user mk d) (\<lambda>(k, d1). Inr (k, if c then set_roles k ids d1 else d1)))" for mk c ids
    by (rule bind_agrees [OF insert_user_agrees]) (simp_all add: concealing)
  then show ?thesis by (simp add: create_user_def concealing)
qed

lemma get_user_hidden [concealing]: "get_user (conceal d) k = map_sum id hide_user (get_user d k)"
  by (simp add: get_user_def concealing)

lemma conflict_hidden [concealing]:
  "email_conflict (conceal d) k u data = email_conflict d k u data" "email_conflict d k (hide_user u) data = email_conflict d k u data"
  by (simp_all add: email_conflict_def concealing split: option.split)

lemma set_user_agrees:
  assumes "\<And>u. hide_user (f (hide_user u)) = hide_user (f u)"
  shows "conceal (set_user k f (conceal d)) = conceal (set_user k f d)"
  by (simp add: set_user_def conceal_def repo_update_def tbl_modify_def map_rows_def concealing assms if_distrib)

lemma apply_update_agrees: "hide_user (apply_update sec salt data (hide_user u)) = hide_user (apply_update sec salt data u)"
  by (simp add: hide_user_def apply_update_def)

lemma update_user_agrees:
  "concealed_db (update_user sec salt k data (conceal d)) = concealed_db (update_user sec salt k data d)"
proof -
  have f: "concealed_db (flush_user (set_user k (apply_update sec salt data) (conceal d))) =
      concealed_db (flush_user (set_user k (apply_update sec salt data) d))"
    by (rule flush_user_agrees, rule set_user_agrees, rule apply_update_agrees)
  have "concealed_db (bindE (flush_user (set_user k (apply_update sec salt data) (conceal d)))
        (\<lambda>d1. Inr (case ids of None \<Rightarrow> d1 | Some ids \<Rightarrow> set_roles k ids d1))) =
      concealed_db (bindE (flush_user (set_user k (apply_update sec salt data) d))
        (\<lambda>d1. Inr (case ids of None \<Rightarrow> d1 | Some ids \<Rightarrow> set_roles k ids d1)))" for ids
  proof (cases ids)
    case None
    then show ?thesis using f
      by (cases "flush_user (set_user k (apply_update sec salt data) (conceal d))";
          cases "flush_user (set_user k (apply_update sec salt data) d)") simp_all
  next
    case (Some ks)
    have "conceal (set_roles k ks e) = set_roles k ks (conceal e)" for e by (simp add: concealing)
    then show ?thesis using f Some
      by (cases "flush_user (set_user k (apply_update sec salt data) (conceal d))";
          cases "flush_user (set_user k (apply_update sec salt data) d)") simp_all
  qed
  then show ?thesis by (simp add: update_user_def concealing)
qed

lemma delete_user_hidden [concealing]: "delete_user now k (conceal d) = concealed_db (delete_user now k d)"
proof -
  have "repo_soft_delete SysUser_model now k (map_rows hide_user t) =
      map_sum id (map_rows hide_user) (repo_soft_delete SysUser_model now k t)" for t
    by (simp add: repo_soft_delete_def has_soft_delete_def concealing)
      (rule modify_hidden, simp add: SysUser_model_def hide_user_def)
  then show ?thesis by (simp add: delete_user_def concealing)
qed

lemma user_out_hidden [concealing]: "user_out (conceal d) = user_out d" "user_out d (hide_user u) = user_out d u"
  by (simp_all add: user_out_def [abs_def] concealing)

lemma list_users_hidden [concealing]:
  "list_users (conceal d) page n name st = map_sum id (apsnd (map hide_user)) (list_users d page n name st)"
  by (simp add: list_users_def concealing)

section \<open>Servers and discovery\<close>

lemma servers_hidden [concealing]:
  "server_get (conceal d) k = server_get d k" "get_by_server_code (conceal d) code = get_by_server_code d code"
  "get_by_ip_port (conceal d) ip port = get_by_ip_port d ip port" "get_server (conceal d) k = get_server d k"
  "list_servers (conceal d) page n st = list_servers d page n st" "list_by_server (conceal d) k = list_by_server d k"
  "list_services (conceal d) k = list_services d k" "uk_ops_server_code (conceal d) = uk_ops_server_code d"
  "uk_ops_server_ip_port (conceal d) = uk_ops_server_ip_port d" "list_active (conceal d) = list_active d"
  "get_status_counts (conceal d) = get_status_counts d" "get_by_server_service (conceal d) k name = get_by_server_service d k name"
  by (simp_all add: server_get_def get_by_server_code_def get_by_ip_port_def get_server_def list_servers_def list_by_server_def
      list_services_def uk_ops_server_code_def uk_ops_server_ip_port_def list_active_def get_status_counts_def [abs_def]
      get_by_server_service_def concealing)

lemma create_server_hidden [concealing]:
  "create_server data creator (conceal d) = concealed_after (create_server data creator d)"
  by (simp add: create_server_def insert_server_def concealing)

lemma whitelist_hidden [concealing]:
  "update_service_whitelist k j v (conceal d) = concealed_db (update_service_whitelist k j v d)"
  by (simp add: update_service_whitelist_def set_whitelist_def set_service_def concealing)

text \<open>A token whose hash is new is stored in both.\<close>

lemma create_token_agrees:
  assumes "hash plaintext \<notin> at_token_hash ` set (rows (ops_agent_token d))" "hash plaintext \<noteq> []"
  shows "concealed_after (create_token hash plaintext k name (conceal d)) = concealed_after (create_token hash plaintext k name d)"
proof -
  have "hash plaintext \<notin> (\<lambda>t. at_token_hash (hide_token t)) ` set (rows (ops_agent_token d))"
    using assms(2) by (auto simp: hide_token_def)
  then show ?thesis
    using assms(1)
    by (simp add: create_token_def concealing) (simp add: conceal_def map_rows_def repo_create_def tbl_insert_def concealing)
qed

section \<open>Tasks\<close>

lemma tasks_hidden [concealing]:
  "task_get (conceal d) k = task_get d k" "list_tasks (conceal d) page n st ty = list_tasks d page n st ty"
  "list_by_task (conceal d) k = list_by_task d k" "get_by_idempotency_key (conceal d) key = get_by_idempotency_key d key"
  "logs_by_execution (conceal d) k = logs_by_execution d k" "get_task_entity (conceal d) k = get_task_entity d k"
  by (simp_all add: task_get_def list_tasks_def list_by_task_def get_by_idempotency_key_def logs_by_execution_def
      get_task_entity_def concealing)

lemma get_task_detail_hidden [concealing]: "get_task_detail (conceal d) k = get_task_detail d k"
  by (simp add: get_task_detail_def concealing)

lemma validation_hidden [concealing]:
  "validate_servers (conceal d) ks = validate_servers d ks"
  "validate_service_whitelist (conceal d) ss name act = validate_service_whitelist d ss name act"
proof -
  have "validate_server_list (conceal d) ks = validate_server_list d ks" for ks
    by (induction ks) (simp_all add: concealing split: option.split)
  moreover have "whitelisted_on (conceal d) name ss = whitelisted_on d name ss" for name ss
    by (induction ss) (simp_all add: concealing split: option.split)
  ultimately show "validate_servers (conceal d) ks = validate_servers d ks"
    "validate_service_whitelist (conceal d) ss name act = validate_service_whitelist d ss name act"
    by (simp_all add: validate_servers_def validate_service_whitelist_def)
qed

lemma task_writes_hidden [concealing]:
  "set_task k f (conceal d) = conceal (set_task k f d)" "set_execution k g (conceal d) = conceal (set_execution k g d)"
  "insert_task mk (conceal d) = concealed_after (insert_task mk d)"
  "insert_execution mk2 (conceal d) = concealed_db (insert_execution mk2 d)"
  "create_targets k ks (conceal d) = apsnd conceal (create_targets k ks d)"
  by (simp_all add: set_task_def set_execution_def insert_task_def insert_execution_def create_targets_def concealing)

lemma foldE_hidden:
  assumes "\<And>x d. f x (conceal d) = concealed_db (f x d)"
  shows "foldE f xs (conceal d) = concealed_db (foldE f xs d)"
  by (induction xs arbitrary: d) (simp_all add: assms bind_map map_bind)

lemma fold_hidden:
  assumes "\<And>x d. f x (conceal d) = conceal (f x d)"
  shows "fold f xs (conceal d) = conceal (fold f xs d)"
  by (induction xs arbitrary: d) (simp_all add: assms)

lemma create_executions_hidden [concealing]:
  "create_executions k tgts (conceal d) = concealed_db (create_executions k tgts d)"
  unfolding create_executions_def by (rule foldE_hidden) (simp add: concealing)

lemma finish_hidden [concealing]: "finish now st xc rt em et k (conceal d) = conceal (finish now st xc rt em et k d)"
  by (simp add: finish_def concealing)

lemma aggregate_hidden [concealing]: "aggregate_task_status now k (conceal d) = conceal (aggregate_task_status now k d)"
  by (simp add: aggregate_task_status_def concealing)

lemma create_task_hidden [concealing]:
  "create_task now data k key (conceal d) = concealed_after (create_task now data k key d)"
  by (simp add: create_task_def concealing)

lemma confirm_task_hidden [concealing]: "confirm_task now k j (conceal d) = concealed_db (confirm_task now k j d)"
  by (simp add: confirm_task_def concealing)

lemma cancel_task_hidden [concealing]: "cancel_task now k (conceal d) = concealed_db (cancel_task now k d)"
proof -
  have *: "fold (\<lambda>e d. if ex_status e = PENDING
          then finish now CANCELLED None None (Some task_cancelled_text) None (ex_id e) d else d) es (conceal d) =
      conceal (fold (\<lambda>e d. if ex_status e = PENDING
          then finish now CANCELLED None None (Some task_cancelled_text) None (ex_id e) d else d) es d)" for es d
    by (rule fold_hidden) (simp add: concealing)
  show ?thesis by (simp add: cancel_task_def concealing *)
qed

section \<open>Alerts\<close>

lemma alerts_hidden [concealing]:
  "get_by_name (conceal d) name = get_by_name d name" "event_get (conceal d) k = event_get d k"
  "list_events (conceal d) page n st sev sid act = list_events d page n st sev sid act"
  "count_active (conceal d) = count_active d" "get_latest_map (conceal d) ks k = get_latest_map d ks k"
  "list_rules (conceal d) = list_rules d" "get_rule (conceal d) k = get_rule d k"
  "get_event_or_404 (conceal d) k = get_event_or_404 d k" "event_dict (conceal d) = event_dict d"
  by (simp_all add: get_by_name_def event_get_def list_events_def count_active_def get_latest_map_def list_rules_def
      get_rule_def get_event_or_404_def event_dict_def [abs_def] concealing)

lemma alert_pages_hidden [concealing]:
  "list_event_dicts (conceal d) page n st sev sid act = list_event_dicts d page n st sev sid act"
  "get_event (conceal d) k = get_event d k"
  by (simp_all add: list_event_dicts_def get_event_def concealing)

lemma alert_writes_hidden [concealing]:
  "set_event k f (conceal d) = conceal (set_event k f d)"
  "event_log_record k old new v msg who (conceal d) = conceal (event_log_record k old new v msg who d)"
  by (simp_all add: set_event_def event_log_record_def concealing)

lemma rule_writes_hidden [concealing]:
  "create_rule data creator (conceal d) = concealed_db (create_rule data creator d)"
  "update_rule k upd (conceal d) = concealed_db (update_rule k upd d)"
  "delete_rule k (conceal d) = concealed_db (delete_rule k d)"
  by (simp_all add: create_rule_def update_rule_def delete_rule_def concealing)

lemma event_writes_hidden [concealing]:
  "acknowledge now k creator (conceal d) = concealed_db (acknowledge now k creator d)"
  "resolve now k creator (conceal d) = concealed_db (resolve now k creator d)"
  by (simp_all add: acknowledge_def resolve_def concealing)

section \<open>Monitoring\<close>

lemma monitor_hidden [concealing]:
  "metric_get_latest (conceal d) k = metric_get_latest d k" "monitored_server (conceal d) k = monitored_server d k"
  "metric_get_history (conceal d) k a b page n = metric_get_history d k a b page n"
  "get_server_usage_avg (conceal d) = get_server_usage_avg d"
  by (simp_all add: metric_get_latest_def monitored_server_def metric_get_history_def get_server_usage_avg_def concealing)

lemma monitor_pages_hidden [concealing]:
  "monitor_latest (conceal d) k = monitor_latest d k" "monitor_history (conceal d) k a b page n = monitor_history d k a b page n"
  "monitor_summary now (conceal d) k rng = monitor_summary now d k rng" "monitor_assets (conceal d) k = monitor_assets d k"
  "monitor_overview (conceal d) = monitor_overview d"
  by (simp_all add: monitor_latest_def monitor_history_def monitor_summary_def metric_get_summary_def monitor_assets_def
      monitor_overview_def concealing)

section \<open>The endpoints\<close>

lemma guards_hidden [concealing]:
  "logged_in cx (conceal d) = map_sum id hide_user (logged_in cx d)"
  "admin_ops cx (conceal d) = map_sum id hide_user (admin_ops cx d)"
  "system_admin cx (conceal d) = map_sum id hide_user (system_admin cx d)"
  by (simp_all add: logged_in_def admin_ops_def system_admin_def with_roles_def with_bearer_def concealing)

lemma map_bearer [concealing]: "map_sum id g (with_bearer cx h) = with_bearer cx (\<lambda>t. map_sum id g (h t))"
  by (simp add: with_bearer_def concealing)

lemma pages_hidden:
  "get_task_page a b c e cx (conceal d) = concealed_after (get_task_page a b c e cx d)"
  "post_task data key cx (conceal d) = concealed_after (post_task data key cx d)"
  "get_task k cx (conceal d) = concealed_after (get_task k cx d)"
  "post_task_confirm k cx (conceal d) = concealed_after (post_task_confirm k cx d)"
  "post_task_cancel k cx (conceal d) = concealed_after (post_task_cancel k cx d)"
  by (simp_all add: get_task_page_def post_task_def get_task_def post_task_confirm_def post_task_cancel_def concealing)

lemma alert_endpoints_hidden:
  "get_alert_page a b c e f g cx (conceal d) = concealed_after (get_alert_page a b c e f g cx d)"
  "get_alert_rules cx (conceal d) = concealed_after (get_alert_rules cx d)"
  "get_alert k cx (conceal d) = concealed_after (get_alert k cx d)"
  "post_alert_ack k cx (conceal d) = concealed_after (post_alert_ack k cx d)"
  "post_alert_resolve k cx (conceal d) = concealed_after (post_alert_resolve k cx d)"
  "post_alert_rule rc cx (conceal d) = concealed_after (post_alert_rule rc cx d)"
  "put_alert_rule k ru cx (conceal d) = concealed_after (put_alert_rule k ru cx d)"
  "remove_alert_rule k cx (conceal d) = concealed_after (remove_alert_rule k cx d)"
  by (simp_all add: get_alert_page_def get_alert_rules_def get_alert_def post_alert_ack_def post_alert_resolve_def
      post_alert_rule_def put_alert_rule_def remove_alert_rule_def concealing)

lemma monitor_endpoints_hidden:
  "get_metrics_latest k cx (conceal d) = concealed_after (get_metrics_latest k cx d)"
  "get_metrics_history k a b n m cx (conceal d) = concealed_after (get_metrics_history k a b n m cx d)"
  "get_metrics_summary k rng cx (conceal d) = concealed_after (get_metrics_summary k rng cx d)"
  "get_server_assets k cx (conceal d) = concealed_after (get_server_assets k cx d)"
  "get_dashboard cx (conceal d) = concealed_after (get_dashboard cx d)"
  by (simp_all add: get_metrics_latest_def get_metrics_history_def get_metrics_summary_def get_server_assets_def
      get_dashboard_def concealing)

lemma server_endpoints_hidden:
  "post_server sc cx (conceal d) = concealed_after (post_server sc cx d)"
  "get_server_page a b st cx (conceal d) = concealed_after (get_server_page a b st cx d)"
  "get_server_by_id k cx (conceal d) = concealed_after (get_server_by_id k cx d)"
  "get_server_services k cx (conceal d) = concealed_after (get_server_services k cx d)"
  "put_service_whitelist k j v cx (conceal d) = concealed_after (put_service_whitelist k j v cx d)"
  "get_discovery_config cx (conceal d) = concealed_after (get_discovery_config cx d)"
  "post_discovery_scan q cx (conceal d) = concealed_after (post_discovery_scan q cx d)"
  by (simp_all add: post_server_def get_server_page_def get_server_by_id_def get_server_services_def
      put_service_whitelist_def get_discovery_config_def post_discovery_scan_def concealing)

lemma user_endpoints_hidden:
  "api_user_page a b name st cx (conceal d) = concealed_after (api_user_page a b name st cx d)"
  "api_get_user k cx (conceal d) = concealed_after (api_get_user k cx d)"
  "api_remove_user k cx (conceal d) = concealed_after (api_remove_user k cx d)"
  "api_list_roles cx (conceal d) = concealed_after (api_list_roles cx d)"
  "api_me cx (conceal d) = concealed_after (api_me cx d)"
  by (simp_all add: api_user_page_def api_get_user_def api_remove_user_def api_list_roles_def api_me_def
      get_user_page_def remove_user_def list_roles_def concealing)

text \<open>The three endpoints that write one of the columns.\<close>

lemma post_user_agrees: "concealed_after (api_post_user data cx (conceal d)) = concealed_after (api_post_user data cx d)"
proof -
  have "concealed_after (bindE (post_user sec now token salt data (conceal d))
        (\<lambda>(k, d'). bindE (get_user d' k) (\<lambda>u. Inr (UserBody (user_out d' u), d')))) =
      concealed_after (bindE (post_user sec now token salt data d)
        (\<lambda>(k, d'). bindE (get_user d' k) (\<lambda>u. Inr (UserBody (user_out d' u), d'))))" for sec now token salt
    by (rule bind_agrees) (simp_all add: post_user_def concealing create_user_agrees)
  then show ?thesis by (simp add: api_post_user_def map_bearer with_bearer_def split: option.split)
qed

lemma put_user_agrees: "concealed_after (api_put_user k data cx (conceal d)) = concealed_after (api_put_user k data cx d)"
proof -
  have "concealed_after (bindE (put_user sec now token salt k data (conceal d))
        (\<lambda>d'. bindE (get_user d' k) (\<lambda>u. Inr (UserBody (user_out d' u), d')))) =
      concealed_after (bindE (put_user sec now token salt k data d)
        (\<lambda>d'. bindE (get_user d' k) (\<lambda>u. Inr (UserBody (user_out d' u), d'))))" for sec now token salt
    by (rule bind_db_agrees) (simp_all add: put_user_def concealing update_user_agrees)
  then show ?thesis by (simp add: api_put_user_def map_bearer with_bearer_def split: option.split)
qed

definition fresh_token :: "api_context \<Rightarrow> db \<Rightarrow> bool" where
  "fresh_token cx d \<longleftrightarrow> cx_token_hash cx (cx_plaintext cx) \<noteq> [] \<and>
     cx_token_hash cx (cx_plaintext cx) \<notin> at_token_hash ` set (rows (ops_agent_token d))"

lemma post_token_agrees:
  assumes "fresh_token cx d"
  shows "concealed_after (post_agent_token k name cx (conceal d)) = concealed_after (post_agent_token k name cx d)"
proof -
  have "concealed_after (generate_agent_token (cx_token_hash cx) (cx_plaintext cx) k name (conceal d)) =
      concealed_after (generate_agent_token (cx_token_hash cx) (cx_plaintext cx) k name d)"
    using assms by (simp add: generate_agent_token_def fresh_token_def concealing create_token_agrees)
  from bind_agrees [OF this] have "concealed_after (bindE (generate_agent_token (cx_token_hash cx) (cx_plaintext cx) k name (conceal d)) g) =
      concealed_after (bindE (generate_agent_token (cx_token_hash cx) (cx_plaintext cx) k name d) g)"
    if "\<And>a e. concealed_after (g (a, conceal e)) = concealed_after (g (a, e))" for g
    using that by blast
  note * = this [of "\<lambda>((token_id, plaintext), d'). case repo_get OpsAgentToken_model (ops_agent_token d') token_id of
       None \<Rightarrow> Inl IntegrityError
     | Some token \<Rightarrow> Inr (TokenBody \<lparr>tr_token_id = token_id, tr_token_name = at_token_name token,
         tr_token_prefix = at_token_prefix token, tr_token = plaintext\<rparr>, d')"]
  have "concealed_after (bindE (system_admin cx d) (\<lambda>_. bindE x g)) = concealed_after (bindE (system_admin cx d) (\<lambda>_. bindE x h))"
    if "\<And>a. concealed_after (g a) = concealed_after (h a)" for x :: "unit result" and g h :: "unit \<Rightarrow> (api_data \<times> db) result"
    using that by (simp add: map_bind)
  then show ?thesis
    unfolding post_agent_token_def guards_hidden bind_map using * by (simp add: concealing)
qed

lemma after_twice: "concealed_after (concealed_after x) = concealed_after x"
  by (cases x) (auto simp: conceal_twice)

text \<open>Every endpoint; a token can be made when its hash is none of the stored ones.\<close>

lemma api_endpoint_agrees:
  assumes "\<forall>k name. call = PostAgentToken k name \<longrightarrow> fresh_token cx d"
  shows "concealed_after (api_endpoint call cx (conceal d)) = concealed_after (api_endpoint call cx d)"
proof (cases call)
  case (PostAgentToken k name)
  then show ?thesis using assms post_token_agrees by simp
qed (simp_all add: pages_hidden alert_endpoints_hidden monitor_endpoints_hidden server_endpoints_hidden
    user_endpoints_hidden post_user_agrees put_user_agrees after_twice)

lemma api_request_after:
  "fst (api_request call cx d) = (case api_endpoint call cx d of
     Inl e \<Rightarrow> (fst (error_response e), snd (error_response e), NoData) | Inr (data, _) \<Rightarrow> (created_status call, OK, data))"
  "snd (api_request call cx d) = (case api_endpoint call cx d of Inl _ \<Rightarrow> d | Inr (_, d') \<Rightarrow> d')"
  by (simp_all add: api_request_def split: sum.splits prod.splits)

lemma concealed_after_cases:
  assumes "concealed_after x = concealed_after y"
  obtains e where "x = Inl e" "y = Inl e" | data d e where "x = Inr (data, d)" "y = Inr (data, e)" "conceal d = conceal e"
  using assms by (cases x; cases y) auto

text \<open>
  C35. What the users' endpoints answer, and what they leave of the database apart from the password
  hashes of the users and the hashes and keys of the tokens, does not depend on these columns: on two
  databases that agree on everything else every request gives the same answer and databases that
  still agree. (A new token needs a hash that is none of those stored: the unique key would tell.)
\<close>

theorem api_keeps_secrets:
  assumes "conceal d = conceal e"
    and "\<forall>k name. call = PostAgentToken k name \<longrightarrow> fresh_token cx d \<and> fresh_token cx e"
  shows "fst (api_request call cx d) = fst (api_request call cx e) \<and>
    conceal (snd (api_request call cx d)) = conceal (snd (api_request call cx e))"
proof -
  have "concealed_after (api_endpoint call cx d) = concealed_after (api_endpoint call cx e)"
    using api_endpoint_agrees [of call cx d] api_endpoint_agrees [of call cx e] assms by simp
  then show ?thesis
    by (rule concealed_after_cases) (simp_all add: api_request_after assms(1))
qed

lemma api_keeps_secrets_witness:
  "\<exists>d e. d \<noteq> e \<and> (\<exists>data. fst (api_request (PostServer web_server) api_sample d) = (201, OK, data)) \<and>
    fst (api_request (PostServer web_server) api_sample e) = fst (api_request (PostServer web_server) api_sample d)"
proof -
  let ?e = "conceal ann_db"
  have "conceal ?e = conceal ann_db" by (rule conceal_twice)
  from api_keeps_secrets [OF this, of "PostServer web_server" api_sample]
  have same: "fst (api_request (PostServer web_server) api_sample ?e) = fst (api_request (PostServer web_server) api_sample ann_db)"
    by simp
  have "ann_db \<noteq> ?e"
  proof
    assume "ann_db = ?e"
    from arg_cong [OF this, of "\<lambda>d. map us_password_hash (users d)"] show False
      by (simp add: conceal_fields map_rows_simps ann_state ann_row_def new_user_def hide_user_def)
  qed
  moreover obtain data d' where "api_request (PostServer web_server) api_sample ann_db = ((201, OK, data), d')"
    using sample_creation by blast
  ultimately show ?thesis using same by (metis fst_conv)
qed

end
