(* ===== verification/Session.thy ===== *)
theory Session
  imports Api Scheduler
begin

text \<open>
  The database sessions (\<open>core/database.py\<close>). \<open>get_db\<close> hands a request one session and closes it
  whatever happens; the session factory commits nothing by itself, so what was not committed is lost
  with the session. The other theories give an operation as a function from the database to a result
  and the new database; the lemmas here show that a handler run in a session is that function.
\<close>

section \<open>Sessions\<close>

text \<open>What other sessions see, and what this one has flushed on top of it.\<close>

record 'd db_session =
  committed :: 'd
  working :: 'd

type_synonym ('d, 'a) handler = "'d db_session \<Rightarrow> 'a result \<times> 'd db_session"

definition SessionLocal :: "'d \<Rightarrow> 'd db_session" where
  "SessionLocal d = \<lparr>committed = d, working = d\<rparr>"

definition commit :: "'d db_session \<Rightarrow> 'd db_session" where
  "commit s = s\<lparr>committed := working s\<rparr>"

definition rollback :: "'d db_session \<Rightarrow> 'd db_session" where
  "rollback s = s\<lparr>working := committed s\<rparr>"

text \<open>Closing a session gives its connection back, which rolls back.\<close>

definition close :: "'d db_session \<Rightarrow> 'd" where
  "close s = committed (rollback s)"

definition get_db :: "('d, 'a) handler \<Rightarrow> 'd \<Rightarrow> 'a result \<times> 'd" where
  "get_db handler d = (let (outcome, s) = handler (SessionLocal d) in (outcome, close s))"

text \<open>
  A service operation inside a session; \<open>partial\<close> is what it had flushed when it raised.
\<close>

definition service_call :: "('d \<Rightarrow> 'd) \<Rightarrow> ('d \<Rightarrow> ('a \<times> 'd) result) \<Rightarrow> ('d, 'a) handler" where
  "service_call partial oper s = (case oper (working s) of
     Inl e \<Rightarrow> (Inl e, s\<lparr>working := partial (working s)\<rparr>)
   | Inr (x, d') \<Rightarrow> (Inr x, s\<lparr>working := d'\<rparr>))"

definition flushed :: "('d \<Rightarrow> 'd) \<Rightarrow> 'd db_session \<Rightarrow> 'd db_session" where
  "flushed f s = s\<lparr>working := f (working s)\<rparr>"

definition andThen :: "('d, 'a) handler \<Rightarrow> ('a \<Rightarrow> ('d, 'b) handler) \<Rightarrow> ('d, 'b) handler" where
  "andThen h k s = (case h s of (Inl e, s') \<Rightarrow> (Inl e, s') | (Inr x, s') \<Rightarrow> k x s')"

definition commit_and_return :: "'a \<Rightarrow> ('d, 'a) handler" where
  "commit_and_return x s = (Inr x, commit s)"

definition commit_and_raise :: "py_error \<Rightarrow> ('d, 'a) handler" where
  "commit_and_raise e s = (Inl e, commit s)"

section \<open>A handler is a transaction\<close>

lemma session_simps [simp]:
  "committed (SessionLocal d) = d" "working (SessionLocal d) = d"
  "committed (commit s) = working s" "working (commit s) = working s"
  "committed (flushed f s) = committed s" "working (flushed f s) = f (working s)"
  "close s = committed s"
  by (simp_all add: SessionLocal_def commit_def flushed_def close_def rollback_def)

lemma get_db_transaction:
  "get_db (andThen (service_call partial oper) commit_and_return) d =
   (case oper d of Inl e \<Rightarrow> (Inl e, d) | Inr (x, d') \<Rightarrow> (Inr x, d'))"
  by (simp add: get_db_def andThen_def service_call_def commit_and_return_def split: sum.splits prod.splits)

text \<open>Without a commit nothing stays.\<close>

lemma get_db_no_commit: "get_db (service_call partial oper) d = (map_sum id fst (oper d), d)"
  by (simp add: get_db_def service_call_def split: sum.splits prod.splits)

text \<open>The step \<open>api_request\<close> is the session of the request with the handlers of the exceptions around it.\<close>

definition respond :: "api_call \<Rightarrow> api_data result \<times> db \<Rightarrow> (int \<times> ErrorCode \<times> api_data) \<times> db" where
  "respond call r = (case r of
     (Inl e, d') \<Rightarrow> ((fst (error_response e), snd (error_response e), NoData), d')
   | (Inr data, d') \<Rightarrow> ((created_status call, OK, data), d'))"

lemma api_request_is_session:
  "api_request call cx d = respond call (get_db (andThen (service_call partial (api_endpoint call cx)) commit_and_return) d)"
  by (simp add: api_request_def respond_def get_db_transaction split: sum.splits prod.splits)

text \<open>A job of the scheduler opens and closes its own session and swallows the exception.\<close>

lemma best_effort_is_session:
  "best_effort (oper d) d = snd (get_db (andThen (service_call partial oper) commit_and_return) d)"
  by (simp add: best_effort_def get_db_transaction split: sum.splits prod.splits)

section \<open>The login in a session\<close>

text \<open>\<open>AuthService.login\<close> with its commits where the source has them: before each exception it raises.\<close>

definition login_handler ::
  "security \<Rightarrow> datetime \<Rightarrow> string \<Rightarrow> string \<Rightarrow> string option \<Rightarrow> string option \<Rightarrow> string option \<Rightarrow>
   (db, TokenResponse) handler" where
  "login_handler sec now username password ip user_agent request_id s =
     (let user = get_by_username (working s) username in
      if user = None \<or> \<not> verify_password sec password (us_password_hash (the user)) then
        commit_and_raise (AppException INVALID_CREDENTIALS 401)
          (flushed (create_login_log None username LOGIN_FAILED ip user_agent (Some BadCredentials) request_id) s)
      else if us_status (the user) \<noteq> 1 then
        commit_and_raise (AppException ACCOUNT_DISABLED 401)
          (flushed (create_login_log (Some (us_id (the user))) username LOGIN_FAILED ip user_agent
            (Some AccountDisabled) request_id) s)
      else
        (let s1 = flushed (update_last_login now (us_id (the user)) ip) s;
             token = create_access_token sec now (us_id (the user));
             s2 = flushed (create_login_log (Some (us_id (the user))) username LOGIN_SUCCESS ip user_agent None
               request_id) s1
         in commit_and_return \<lparr>to_access_token = token, to_expires_in = JWT_EXPIRE_MINUTES sec * 60\<rparr> s2))"

lemma login_is_session:
  "login sec now username password ip user_agent request_id d =
   get_db (login_handler sec now username password ip user_agent request_id) d"
  by (auto simp: login_def login_handler_def get_db_def commit_and_raise_def commit_and_return_def Let_def
      split: option.splits)

end
